(* ===== verification/Platform_Prelude.thy ===== *)
theory Platform_Prelude
  imports Complex_Main "HOL-Library.Sublist" "HOL-Library.AList"
begin

text \<open>
  Shared vocabulary of the development: identifiers and clock values, the error
  classes of \<open>backend/app/core/errors.py\<close>, the string operations of Python the
  services use, and the list lemmas (rows of a table looked up by a key, first minimum,
  filtered updates) that the component theories share.

  A Python \<open>str\<close> is a \<^typ>\<open>string\<close>: the model covers code points below 256, and
  \<open>is_space\<close> is \<open>str.isspace\<close> on exactly that range.  A \<open>uuid.UUID\<close> is a \<^typ>\<open>nat\<close>,
  a \<open>datetime\<close> an \<^typ>\<open>int\<close> (microseconds on one clock).  Python integers are \<^typ>\<open>int\<close>,
  or \<^typ>\<open>nat\<close> where the schema bounds them below by zero.
\<close>

type_synonym uuid = nat
type_synonym timestamp = int

text \<open>The signed-in user an operation acts for, as far as the services look at it.\<close>

record actor =
  actor_id :: uuid
  actor_name :: string

named_theorems svc_defs \<open>unfolding equations of service operations\<close>
named_theorems frame_simps \<open>fields an operation leaves alone\<close>
named_theorems inv_intros \<open>preservation lemmas of invariants\<close>

section \<open>Error classes\<close>

datatype app_error =
    ValidationError string
  | AuthenticationError string
  | TokenError string
  | PermissionDeniedError string
  | NotFoundError string
  | ConflictError string
  | RateLimitError string
  | DependencyUnavailableError string
  | AirgapViolationError string

type_synonym 'a result = "app_error + 'a"

fun status_code :: "app_error \<Rightarrow> nat" where
  "status_code (ValidationError _) = 422"
| "status_code (AuthenticationError _) = 401"
| "status_code (TokenError _) = 401"
| "status_code (PermissionDeniedError _) = 403"
| "status_code (NotFoundError _) = 404"
| "status_code (ConflictError _) = 409"
| "status_code (RateLimitError _) = 429"
| "status_code (DependencyUnavailableError _) = 503"
| "status_code (AirgapViolationError _) = 500"

fun error_code :: "app_error \<Rightarrow> string" where
  "error_code (ValidationError _) = ''validation_error''"
| "error_code (AuthenticationError _) = ''authentication_failed''"
| "error_code (TokenError _) = ''invalid_token''"
| "error_code (PermissionDeniedError _) = ''permission_denied''"
| "error_code (NotFoundError _) = ''not_found''"
| "error_code (ConflictError _) = ''conflict''"
| "error_code (RateLimitError _) = ''rate_limited''"
| "error_code (DependencyUnavailableError _) = ''dependency_unavailable''"
| "error_code (AirgapViolationError _) = ''airgap_violation''"

definition is_ok :: "'a result \<Rightarrow> bool" where
  "is_ok r = (case r of Inl _ \<Rightarrow> False | Inr _ \<Rightarrow> True)"

lemma is_ok_simps [simp]: "is_ok (Inr x)" "\<not> is_ok (Inl e)"
  by (simp_all add: is_ok_def)

section \<open>Strings\<close>

definition is_space :: "char \<Rightarrow> bool" where
  "is_space c = (let n = (of_char c :: nat)
     in (9 \<le> n \<and> n \<le> 13) \<or> (28 \<le> n \<and> n \<le> 32) \<or> n = 133 \<or> n = 160)"

definition newline :: char where
  "newline = CHR 0x0A"

lemma is_space_blank [simp]: "is_space CHR '' ''" "is_space newline"
  by (simp_all add: is_space_def newline_def Let_def)

definition lstrip :: "string \<Rightarrow> string" where
  "lstrip s = dropWhile is_space s"

definition rstrip :: "string \<Rightarrow> string" where
  "rstrip s = rev (dropWhile is_space (rev s))"

definition strip :: "string \<Rightarrow> string" where
  "strip s = rstrip (lstrip s)"

text \<open>The characters of a text that carry content; every split of the code drops blanks only.\<close>

definition solid :: "string \<Rightarrow> string" where
  "solid s = filter (\<lambda>c. \<not> is_space c) s"

lemma solid_simps [simp]:
  "solid [] = []"
  "solid (c # s) = (if is_space c then solid s else c # solid s)"
  "solid (s @ t) = solid s @ solid t"
  by (simp_all add: solid_def)

lemma solid_dropWhile [simp]: "solid (dropWhile is_space s) = solid s"
  by (induction s) auto

lemma solid_rev: "solid (rev s) = rev (solid s)"
  by (simp add: solid_def rev_filter)

lemma solid_lstrip [simp]: "solid (lstrip s) = solid s"
  by (simp add: lstrip_def)

lemma solid_rstrip [simp]: "solid (rstrip s) = solid s"
  by (simp add: rstrip_def solid_rev)

lemma solid_strip [simp]: "solid (strip s) = solid s"
  by (simp add: strip_def)

lemma length_lstrip [simp]: "length (lstrip s) \<le> length s"
  by (simp add: lstrip_def length_dropWhile_le)

lemma length_rstrip [simp]: "length (rstrip s) \<le> length s"
  using length_dropWhile_le [of is_space "rev s"] by (simp add: rstrip_def)

lemma length_strip [simp]: "length (strip s) \<le> length s"
  unfolding strip_def by (rule le_trans [OF length_rstrip length_lstrip])

definition stripped :: "string \<Rightarrow> bool" where
  "stripped s = (s \<noteq> [] \<longrightarrow> \<not> is_space (hd s) \<and> \<not> is_space (last s))"

lemma hd_rstrip: "rstrip s \<noteq> [] \<Longrightarrow> hd (rstrip s) = hd s"
proof -
  assume ne: "rstrip s \<noteq> []"
  have "s = rstrip s @ rev (takeWhile is_space (rev s))"
    unfolding rstrip_def
    by (metis rev_append rev_rev_ident takeWhile_dropWhile_id)
  then show ?thesis using ne by (metis hd_append2)
qed

lemma stripped_strip: "stripped (strip s)"
proof -
  have "\<not> is_space (hd (strip s))" if "strip s \<noteq> []"
  proof -
    from that have "lstrip s \<noteq> []" by (auto simp: strip_def rstrip_def)
    then have "\<not> is_space (hd (lstrip s))"
      unfolding lstrip_def by (rule hd_dropWhile)
    with that show ?thesis by (simp add: strip_def hd_rstrip)
  qed
  moreover have "\<not> is_space (last (strip s))" if "strip s \<noteq> []"
    using that hd_dropWhile [of is_space "rev (lstrip s)"]
    by (simp add: strip_def rstrip_def last_rev)
  ultimately show ?thesis by (simp add: stripped_def)
qed

lemma strip_id: "stripped s \<Longrightarrow> strip s = s"
proof (cases "s = []")
  case False
  assume "stripped s"
  with False have l: "lstrip s = s"
    unfolding stripped_def lstrip_def by (cases s) auto
  from False \<open>stripped s\<close> have "rstrip s = s"
    unfolding stripped_def rstrip_def
    by (cases s rule: rev_cases) auto
  with l show ?thesis by (simp add: strip_def)
qed (simp add: strip_def lstrip_def rstrip_def)

lemma strip_eq_Nil: "strip s = [] \<longleftrightarrow> solid s = []"
proof
  assume "strip s = []"
  then show "solid s = []" using solid_strip [of s] by simp
next
  assume "solid s = []"
  then have "solid (strip s) = []" by simp
  then show "strip s = []" using stripped_strip [of s]
    by (cases "strip s") (auto simp: stripped_def split: if_splits)
qed

text \<open>\<open>str.partition\<close>, \<open>str.startswith\<close>, \<open>str.removeprefix\<close>, \<open>str.lower\<close> (ASCII letters).\<close>

definition partition_at :: "char \<Rightarrow> string \<Rightarrow> string \<times> string \<times> string" where
  "partition_at c s = (if c \<in> set s
     then (takeWhile (\<lambda>x. x \<noteq> c) s, [c], tl (dropWhile (\<lambda>x. x \<noteq> c) s))
     else (s, [], []))"

definition starts_with :: "string \<Rightarrow> string \<Rightarrow> bool" where
  "starts_with p s = prefix p s"

definition remove_prefix :: "string \<Rightarrow> string \<Rightarrow> string" where
  "remove_prefix p s = (if prefix p s then drop (length p) s else s)"

lemma remove_prefix_append [simp]: "remove_prefix p (p @ s) = s"
  by (simp add: remove_prefix_def)

lemma starts_with_append [simp]: "starts_with p (p @ s)"
  by (simp add: starts_with_def)

text \<open>
  \<open>str.lower\<close> on the code points below 256, \<open>str(n)\<close>, \<open>str(uuid)\<close> (32 hexadecimal digits
  in groups of 8, 4, 4, 4 and 12), the slice \<open>s[-n:]\<close>, and \<open>a or b\<close> on optional strings and
  numbers, where the empty string and zero are false.
\<close>

definition lower_char :: "char \<Rightarrow> char" where
  "lower_char c = (let n = (of_char c :: nat)
     in if (65 \<le> n \<and> n \<le> 90) \<or> (192 \<le> n \<and> n \<le> 222 \<and> n \<noteq> 215) then char_of (n + 32) else c)"

definition lower :: "string \<Rightarrow> string" where
  "lower s = map lower_char s"

definition digit_char :: "nat \<Rightarrow> char" where
  "digit_char d = (if d < 10 then char_of (48 + d) else char_of (87 + d))"

fun nat_str :: "nat \<Rightarrow> string" where
  "nat_str n = (if n < 10 then [digit_char n] else nat_str (n div 10) @ [digit_char (n mod 10)])"

declare nat_str.simps [simp del]

definition int_str :: "int \<Rightarrow> string" where
  "int_str i = (if i < 0 then ''-'' @ nat_str (nat (- i)) else nat_str (nat i))"

primrec hex_digits :: "nat \<Rightarrow> nat \<Rightarrow> string" where
  "hex_digits 0 n = []"
| "hex_digits (Suc k) n = hex_digits k (n div 16) @ [digit_char (n mod 16)]"

definition uuid_str :: "uuid \<Rightarrow> string" where
  "uuid_str u = (let h = hex_digits 32 u
     in take 8 h @ ''-'' @ take 4 (drop 8 h) @ ''-'' @ take 4 (drop 12 h) @ ''-''
        @ take 4 (drop 16 h) @ ''-'' @ drop 20 h)"

definition take_last :: "nat \<Rightarrow> 'a list \<Rightarrow> 'a list" where
  "take_last n xs = drop (length xs - n) xs"

definition or_str :: "string option \<Rightarrow> string \<Rightarrow> string" where
  "or_str a b = (case a of Some (c # s) \<Rightarrow> c # s | _ \<Rightarrow> b)"

definition or_number :: "'n::zero option \<Rightarrow> 'n \<Rightarrow> 'n" where
  "or_number a b = (case a of None \<Rightarrow> b | Some n \<Rightarrow> if n = 0 then b else n)"

definition truthy :: "string option \<Rightarrow> bool" where
  "truthy a = (case a of Some (c # s) \<Rightarrow> True | _ \<Rightarrow> False)"

lemma truthy_iff: "truthy a \<longleftrightarrow> (\<exists>s. a = Some s \<and> s \<noteq> [])"
  by (auto simp: truthy_def split: option.splits list.splits)

lemma length_take_last [simp]: "length (take_last n xs) \<le> n"
  by (simp add: take_last_def)

definition quoted :: "string \<Rightarrow> string" where
  "quoted s = CHR 0x27 # s @ [CHR 0x27]"

text \<open>\<open>s.rstrip('/')\<close>, and Python's text of a list of integers.\<close>

definition rstrip_char :: "char \<Rightarrow> string \<Rightarrow> string" where
  "rstrip_char c s = rev (dropWhile (\<lambda>x. x = c) (rev s))"

fun comma_join :: "string list \<Rightarrow> string" where
  "comma_join [] = []"
| "comma_join [s] = s"
| "comma_join (s # ss) = s @ '', '' @ comma_join ss"

definition int_list_str :: "int list \<Rightarrow> string" where
  "int_list_str is = ''['' @ comma_join (map int_str is) @ '']''"

definition given :: "'a option \<Rightarrow> 'a \<Rightarrow> 'a" where
  "given a b = (case a of None \<Rightarrow> b | Some x \<Rightarrow> x)"

definition or_option :: "'n::zero option \<Rightarrow> 'n option \<Rightarrow> 'n option" where
  "or_option a b = (case a of None \<Rightarrow> b | Some n \<Rightarrow> if n = 0 then b else Some n)"

section \<open>JSON values\<close>

datatype json =
    JNull
  | JBool bool
  | JInt int
  | JNum rat
  | JStr string
  | JList "json list"
  | JObj "(string \<times> json) list"

text \<open>\<open>round(x, 2)\<close>.\<close>

definition round2 :: "rat \<Rightarrow> rat" where
  "round2 x = of_int (round (x * 100)) / 100"

definition json_get :: "(string \<times> json) list \<Rightarrow> string \<Rightarrow> json option" where
  "json_get kvs key = map_of kvs key"

text \<open>A Python dict is an association list in insertion order; assignment keeps a key's place.\<close>

definition dict_merge :: "('k \<times> 'v) list \<Rightarrow> ('k \<times> 'v) list \<Rightarrow> ('k \<times> 'v) list" where
  "dict_merge d kvs = fold (\<lambda>(k, v). AList.update k v) kvs d"

lemma dict_merge_simps [simp]:
  "dict_merge d [] = d"
  "dict_merge d ((k, v) # kvs) = dict_merge (AList.update k v d) kvs"
  by (simp_all add: dict_merge_def)

lemma map_of_dict_merge: "map_of (dict_merge d kvs) = map_of d ++ map_of (rev kvs)"
proof (induction kvs arbitrary: d)
  case (Cons kv kvs)
  obtain k v where "kv = (k, v)" by (cases kv)
  with Cons show ?case by (simp add: update_conv' map_add_def fun_eq_iff split: option.splits)
qed simp

lemma dict_merge_keep: "k \<notin> fst ` set kvs \<Longrightarrow> map_of (dict_merge d kvs) k = map_of d k"
  by (simp add: map_of_dict_merge map_add_def split: option.splits)
     (metis fst_conv image_eqI map_of_SomeD set_rev)

section \<open>Runs\<close>

text \<open>
  An operation that reaches outside may return, raise an exception nobody on its path
  catches, or not return; it is given the state and leaves a state behind in each case.
\<close>

datatype 'a outcome = Done 'a | Raised string | Diverges

section \<open>Rows of a table\<close>

definition find_row :: "('r \<Rightarrow> bool) \<Rightarrow> 'r list \<Rightarrow> 'r option" where
  "find_row p rows = find p rows"

definition update_rows :: "('r \<Rightarrow> bool) \<Rightarrow> ('r \<Rightarrow> 'r) \<Rightarrow> 'r list \<Rightarrow> 'r list" where
  "update_rows p f rows = map (\<lambda>r. if p r then f r else r) rows"

lemma find_row_simps [simp]:
  "find_row p [] = None"
  "find_row p (r # rs) = (if p r then Some r else find_row p rs)"
  by (simp_all add: find_row_def)

lemma find_row_Some: "find_row p rows = Some r \<Longrightarrow> r \<in> set rows \<and> p r"
  by (induction rows) (auto split: if_splits)

lemma find_row_None: "find_row p rows = None \<longleftrightarrow> (\<forall>r \<in> set rows. \<not> p r)"
  by (induction rows) auto

lemma find_row_unique:
  assumes "distinct (map f rows)" "r \<in> set rows"
  shows "find_row (\<lambda>x. f x = f r) rows = Some r"
  using assms by (induction rows) auto

lemma find_row_append:
  "find_row p (xs @ ys) = (case find_row p xs of None \<Rightarrow> find_row p ys | Some r \<Rightarrow> Some r)"
  by (induction xs) auto

lemma update_rows_simps [simp]:
  "update_rows p f [] = []"
  "update_rows p f (r # rs) = (if p r then f r else r) # update_rows p f rs"
  by (simp_all add: update_rows_def)

lemma length_update_rows [simp]: "length (update_rows p f rows) = length rows"
  by (simp add: update_rows_def)

lemma set_update_rows: "set (update_rows p f rows) = (\<lambda>r. if p r then f r else r) ` set rows"
  by (auto simp: update_rows_def)

lemma map_update_rows: "(\<And>r. p r \<Longrightarrow> g (f r) = g r) \<Longrightarrow> map g (update_rows p f rows) = map g rows"
  by (induction rows) auto

lemma find_row_update_same:
  assumes "\<And>r. q r \<Longrightarrow> q (f r)" "\<And>r. \<not> q r \<Longrightarrow> p r \<Longrightarrow> \<not> q (f r)"
  shows "find_row q (update_rows p f rows)
           = map_option (\<lambda>r. if p r then f r else r) (find_row q rows)"
  by (induction rows) (use assms in \<open>auto split: if_splits\<close>)

section \<open>First minimum\<close>

text \<open>Python's \<open>min(xs, key=k)\<close>: the first element whose key is least.\<close>

fun first_min :: "('a \<Rightarrow> 'k::linorder) \<Rightarrow> 'a \<Rightarrow> 'a list \<Rightarrow> 'a" where
  "first_min k x [] = x"
| "first_min k x (y # ys) = (if k y < k x then first_min k y ys else first_min k x ys)"

lemma first_min_in: "first_min k x ys \<in> set (x # ys)"
  by (induction k x ys rule: first_min.induct) auto

lemma first_min_le: "y \<in> set (x # ys) \<Longrightarrow> k (first_min k x ys) \<le> k y"
proof (induction k x ys arbitrary: y rule: first_min.induct)
  case (1 k x)
  then show ?case by simp
next
  case (2 k x z ys)
  show ?case
  proof (cases "k z < k x")
    case True
    then have "k (first_min k z ys) \<le> k z" using 2(1) by simp
    with True 2 show ?thesis
      by (cases "y = x") (auto dest: less_imp_le intro: order_trans)
  next
    case False
    then have "k (first_min k x ys) \<le> k x" using 2(2) by simp
    with False 2 show ?thesis
      by (cases "y = z") (auto simp: not_less intro: order_trans)
  qed
qed

lemma list_all2_right: "list_all2 P xs ys \<Longrightarrow> y \<in> set ys \<Longrightarrow> \<exists>x \<in> set xs. P x y"
  by (induction rule: list_all2_induct) auto

end
