(* ===== verification/Chunking.thy ===== *)
theory Chunking
  imports Platform_Prelude "HOL-Library.Monad_Syntax"
begin

text \<open>
  Text chunking, \<open>backend/app/services/chunking.py\<close>: parsed segments are split on
  paragraphs, then on sentences, then by a hard cut, and the pieces are packed greedily
  into chunks that share an overlap tail.

  The one loop whose progress depends on its arguments, \<open>_hard_cut\<close>, is a
  \<open>partial_function (option)\<close>: \<^term>\<open>None\<close> is "does not return".  Everything that calls it
  is in the option monad, so that \<open>chunk_segments\<close> returning at all is a theorem.
  The two regular expressions are modelled by the matches they make (leftmost, greedy
  with backtracking), not by a regular expression engine.
\<close>

section \<open>Data\<close>

record parsed_segment =
  seg_text :: string
  seg_location :: "string option"

record chunk =
  ordinal :: nat
  chunk_text :: string
  chunk_location :: "string option"

definition token_estimate :: "chunk \<Rightarrow> nat" where
  "token_estimate c = max 1 (length (chunk_text c) div 4)"

section \<open>The two separators\<close>

text \<open>
  \<open>_PARAGRAPH\<close> is a newline, blanks, newlines: it matches at a newline exactly when the run
  of blanks after it holds another newline, and then reaches up to the last newline of
  that run (the greedy \<open>\s*\<close> gives back one newline to \<open>\n+\<close>).
\<close>

definition paragraph_break :: "string \<Rightarrow> string option" where
  "paragraph_break s = (case s of [] \<Rightarrow> None
     | c # cs \<Rightarrow>
         (let run = takeWhile is_space cs
          in if c = newline \<and> newline \<in> set run
             then Some (rev (takeWhile (\<lambda>x. x \<noteq> newline) (rev run)) @ dropWhile is_space cs)
             else None))"

definition cons_head :: "char \<Rightarrow> string list \<Rightarrow> string list" where
  "cons_head c ps = (case ps of [] \<Rightarrow> [[c]] | p # rest \<Rightarrow> (c # p) # rest)"

lemma paragraph_break_shorter:
  assumes "paragraph_break s = Some t"
  shows "length t < length s"
proof -
  obtain c cs where s: "s = c # cs"
    using assms by (cases s) (auto simp: paragraph_break_def)
  let ?run = "takeWhile is_space cs"
  have "length (takeWhile (\<lambda>x. x \<noteq> newline) (rev ?run)) \<le> length ?run"
    using length_takeWhile_le [of "\<lambda>x. x \<noteq> newline" "rev ?run"] by simp
  moreover have "length cs = length ?run + length (dropWhile is_space cs)"
    by (metis length_append takeWhile_dropWhile_id)
  moreover have "t = rev (takeWhile (\<lambda>x. x \<noteq> newline) (rev ?run)) @ dropWhile is_space cs"
    using assms s by (auto simp: paragraph_break_def Let_def split: if_splits)
  ultimately show ?thesis using s by simp
qed

function split_paragraphs :: "string \<Rightarrow> string list" where
  "split_paragraphs [] = [[]]"
| "split_paragraphs (c # cs) =
     (case paragraph_break (c # cs) of
        Some rest \<Rightarrow> [] # split_paragraphs rest
      | None \<Rightarrow> cons_head c (split_paragraphs cs))"
  by pat_completeness auto
termination
  by (relation "measure length") (auto dest: paragraph_break_shorter)

text \<open>\<open>_SENTENCE\<close>: a run of blanks directly after \<open>.\<close>, \<open>!\<close> or \<open>?\<close>; the flag says so.\<close>

definition ends_sentence :: "char \<Rightarrow> bool" where
  "ends_sentence c = (c = CHR ''.'' \<or> c = CHR ''!'' \<or> c = CHR ''?'')"

function split_on_sentence :: "bool \<Rightarrow> string \<Rightarrow> string list" where
  "split_on_sentence after [] = [[]]"
| "split_on_sentence after (c # cs) =
     (if after \<and> is_space c then [] # split_on_sentence False (dropWhile is_space cs)
      else cons_head c (split_on_sentence (ends_sentence c) cs))"
  by pat_completeness auto
termination
  by (relation "measure (length \<circ> snd)") (auto simp: le_imp_less_Suc length_dropWhile_le)

section \<open>Cutting and packing\<close>

text \<open>\<open>text.rfind(" ", 0, n)\<close>: the last blank of the prefix, or \<open>-1\<close>.\<close>

definition rfind_blank :: "string \<Rightarrow> int" where
  "rfind_blank s = (if CHR '' '' \<in> set s
     then int (length s) - 1 - int (length (takeWhile (\<lambda>c. c \<noteq> CHR '' '') (rev s)))
     else - 1)"

definition cut_point :: "nat \<Rightarrow> string \<Rightarrow> nat" where
  "cut_point chunk_size remaining =
     (let cut = rfind_blank (take chunk_size remaining)
      in if cut \<le> 0 then chunk_size else nat cut)"

partial_function (option) hard_cut :: "nat \<Rightarrow> string \<Rightarrow> string list option" where
  "hard_cut chunk_size remaining =
     (if chunk_size < length remaining
      then (let cut = cut_point chunk_size remaining
            in do { rest \<leftarrow> hard_cut chunk_size (lstrip (drop cut remaining));
                    Some (take cut remaining # rest) })
      else Some (if remaining = [] then [] else [remaining]))"

definition emit :: "string \<Rightarrow> string list" where
  "emit current = (if current = [] then [] else [current])"

fun sentence_loop ::
    "nat \<Rightarrow> string list \<Rightarrow> string list \<Rightarrow> string \<Rightarrow> string list option" where
  "sentence_loop chunk_size [] out current = Some (out @ emit current)"
| "sentence_loop chunk_size (raw # sentences) out current =
     (let sentence = strip raw
      in if sentence = [] then sentence_loop chunk_size sentences out current
         else if chunk_size < length sentence
         then do { cuts \<leftarrow> hard_cut chunk_size sentence;
                   sentence_loop chunk_size sentences (out @ emit current @ cuts) [] }
         else if length current + length sentence + 1 \<le> chunk_size
         then sentence_loop chunk_size sentences out (strip (current @ '' '' @ sentence))
         else sentence_loop chunk_size sentences (out @ [current]) sentence)"

definition split_sentences :: "nat \<Rightarrow> string \<Rightarrow> string list option" where
  "split_sentences chunk_size paragraph =
     sentence_loop chunk_size (split_on_sentence False paragraph) [] []"

definition tail_of :: "string \<Rightarrow> nat \<Rightarrow> string" where
  "tail_of text overlap =
     (if overlap = 0 \<or> length text \<le> overlap then text
      else (let tail = drop (length text - overlap) text
            in if CHR '' '' \<in> set tail then tl (dropWhile (\<lambda>c. c \<noteq> CHR '' '') tail)
               else tail))"

definition gap :: string where
  "gap = [newline, newline]"

fun pack_loop ::
    "nat \<Rightarrow> nat \<Rightarrow> string list \<Rightarrow> string list \<Rightarrow> string \<Rightarrow> string list" where
  "pack_loop chunk_size overlap [] chunks current = chunks @ emit current"
| "pack_loop chunk_size overlap (piece # pieces) chunks current =
     (let candidate = (if current = [] then piece else current @ gap @ piece)
      in if length candidate \<le> chunk_size
         then pack_loop chunk_size overlap pieces chunks candidate
         else if current \<noteq> []
         then (let next = (if overlap \<noteq> 0
                           then strip (tail_of current overlap @ gap @ piece) else piece)
               in pack_loop chunk_size overlap pieces (chunks @ [current])
                    (if chunk_size < length next then piece else next))
         else pack_loop chunk_size overlap pieces chunks piece)"

definition pack :: "nat \<Rightarrow> nat \<Rightarrow> string list \<Rightarrow> string list" where
  "pack chunk_size overlap pieces = pack_loop chunk_size overlap pieces [] []"

fun paragraph_pieces :: "nat \<Rightarrow> string list \<Rightarrow> string list option" where
  "paragraph_pieces chunk_size [] = Some []"
| "paragraph_pieces chunk_size (raw # paragraphs) =
     (let paragraph = strip raw
      in if paragraph = [] then paragraph_pieces chunk_size paragraphs
         else do { here \<leftarrow> (if length paragraph \<le> chunk_size then Some [paragraph]
                            else split_sentences chunk_size paragraph);
                   rest \<leftarrow> paragraph_pieces chunk_size paragraphs;
                   Some (here @ rest) })"

definition split_text :: "nat \<Rightarrow> nat \<Rightarrow> string \<Rightarrow> string list option" where
  "split_text chunk_size overlap raw =
     (let text = strip raw
      in if text = [] then Some []
         else if length text \<le> chunk_size then Some [text]
         else do { pieces \<leftarrow> paragraph_pieces chunk_size (split_paragraphs text);
                   Some (pack chunk_size overlap pieces) })"

section \<open>Segments to chunks\<close>

fun append_chunks :: "string option \<Rightarrow> string list \<Rightarrow> chunk list \<Rightarrow> chunk list" where
  "append_chunks loc [] chunks = chunks"
| "append_chunks loc (raw # texts) chunks =
     (let cleaned = strip raw
      in append_chunks loc texts
           (if cleaned = [] then chunks
            else chunks @ [\<lparr>ordinal = length chunks, chunk_text = cleaned,
                            chunk_location = loc\<rparr>]))"

fun segment_loop :: "nat \<Rightarrow> nat \<Rightarrow> parsed_segment list \<Rightarrow> chunk list \<Rightarrow> chunk list option" where
  "segment_loop chunk_size overlap [] chunks = Some chunks"
| "segment_loop chunk_size overlap (segment # segments) chunks =
     do { texts \<leftarrow> split_text chunk_size overlap (seg_text segment);
          segment_loop chunk_size overlap segments
            (append_chunks (seg_location segment) texts chunks) }"

text \<open>\<open>Some (Inl ())\<close> is the \<open>ValueError\<close> of a non-positive size, \<open>None\<close> divergence.\<close>

definition clamp_overlap :: "int \<Rightarrow> int \<Rightarrow> nat" where
  "clamp_overlap chunk_size overlap = nat (max 0 (min overlap (chunk_size div 2)))"

definition chunk_segments ::
    "parsed_segment list \<Rightarrow> int \<Rightarrow> int \<Rightarrow> (unit + chunk list) option" where
  "chunk_segments segments chunk_size overlap =
     (if chunk_size \<le> 0 then Some (Inl ())
      else map_option Inr
             (segment_loop (nat chunk_size) (clamp_overlap chunk_size overlap) segments []))"

declare hard_cut.simps [code]

section \<open>Splitting keeps the solid characters\<close>

lemma cons_head_concat: "concat (cons_head c ps) = c # concat ps"
  by (cases ps) (auto simp: cons_head_def)

lemma solid_takeWhile_space [simp]: "solid (takeWhile is_space s) = []"
  by (induction s) auto

lemma solid_all_space: "(\<forall>c \<in> set s. is_space c) \<Longrightarrow> solid s = []"
  by (simp add: solid_def filter_empty_conv)

lemma paragraph_break_solid:
  assumes "paragraph_break s = Some t"
  shows "solid t = solid s"
proof -
  obtain c cs where s: "s = c # cs"
    using assms by (cases s) (auto simp: paragraph_break_def)
  let ?run = "takeWhile is_space cs"
  have t: "t = rev (takeWhile (\<lambda>x. x \<noteq> newline) (rev ?run)) @ dropWhile is_space cs"
    and c: "c = newline"
    using assms s by (auto simp: paragraph_break_def Let_def split: if_splits)
  have "\<forall>x \<in> set (rev (takeWhile (\<lambda>x. x \<noteq> newline) (rev ?run))). is_space x"
    by (auto dest!: set_takeWhileD)
  then show ?thesis using s t c by (simp add: solid_all_space)
qed

lemma solid_split_paragraphs: "solid (concat (split_paragraphs s)) = solid s"
proof (induction s rule: split_paragraphs.induct)
  case 1
  then show ?case by simp
next
  case (2 c cs)
  then show ?case
    by (cases "paragraph_break (c # cs)")
       (auto simp: cons_head_concat dest: paragraph_break_solid)
qed

lemma solid_split_on_sentence: "solid (concat (split_on_sentence after s)) = solid s"
  by (induction after s rule: split_on_sentence.induct) (auto simp: cons_head_concat)

section \<open>The hard cut\<close>

definition sized :: "nat \<Rightarrow> string list \<Rightarrow> bool" where
  "sized n ps = (\<forall>p \<in> set ps. length p \<le> n)"

lemma sized_simps [simp]:
  "sized n []" "sized n (p # ps) = (length p \<le> n \<and> sized n ps)"
  "sized n (ps @ qs) = (sized n ps \<and> sized n qs)"
  by (auto simp: sized_def)

lemma sized_emit [simp]: "sized n (emit s) = (length s \<le> n)"
  by (simp add: emit_def)

lemma solid_concat_emit [simp]: "concat (emit s) = s"
  by (simp add: emit_def)

lemma cut_point_bounds:
  assumes "0 < n"
  shows "0 < cut_point n s" and "cut_point n s \<le> n"
proof -
  have "rfind_blank (take n s) < int n"
    by (auto simp: rfind_blank_def)
  then show "0 < cut_point n s" and "cut_point n s \<le> n"
    using assms by (auto simp: cut_point_def Let_def)
qed

lemma hard_cut_total:
  assumes "0 < n"
  shows "\<exists>ps. hard_cut n s = Some ps \<and> sized n ps \<and> solid (concat ps) = solid s"
proof (induction "length s" arbitrary: s rule: less_induct)
  case less
  show ?case
  proof (cases "n < length s")
    case False
    then show ?thesis by (subst hard_cut.simps) auto
  next
    case True
    let ?c = "cut_point n s"
    have c: "0 < ?c" "?c \<le> n" using cut_point_bounds [OF assms] by auto
    have "length (lstrip (drop ?c s)) < length s"
      using True c length_lstrip [of "drop ?c s"] by simp
    then obtain ps where "hard_cut n (lstrip (drop ?c s)) = Some ps" "sized n ps"
        "solid (concat ps) = solid (drop ?c s)"
      using less [of "lstrip (drop ?c s)"] by auto
    moreover have "solid s = solid (take ?c s) @ solid (drop ?c s)"
      by (metis append_take_drop_id solid_simps(3))
    ultimately show ?thesis
      using True c by (subst hard_cut.simps) (auto simp: Let_def)
  qed
qed

lemma hard_cut_zero_diverges: "s \<noteq> [] \<Longrightarrow> stripped s \<Longrightarrow> hard_cut 0 s = None"
proof -
  assume s: "s \<noteq> []" "stripped s"
  have l: "lstrip s = s" using s by (cases s) (auto simp: lstrip_def stripped_def)
  have "hard_cut 0 s = Some ps \<Longrightarrow> False" for ps
  proof -
    assume "hard_cut 0 s = Some ps"
    then have "\<not> (s \<noteq> [] \<and> stripped s)"
    proof (rule hard_cut.raw_induct [where P = "\<lambda>n t _. n = 0 \<longrightarrow> \<not> (t \<noteq> [] \<and> stripped t)",
          rule_format, OF _ _ refl, rotated])
      fix f n t ps
      assume IH: "\<And>n t ps. f n t = Some ps \<Longrightarrow> n = 0 \<Longrightarrow> \<not> (t \<noteq> [] \<and> stripped t)"
        and eq: "(if n < length t
            then let cut = cut_point n t in
                 f n (lstrip (drop cut t)) \<bind> (\<lambda>rest. Some (take cut t # rest))
            else Some (if t = [] then [] else [t])) = Some ps" and "n = (0::nat)"
      show "\<not> (t \<noteq> [] \<and> stripped t)"
      proof
        assume t: "t \<noteq> [] \<and> stripped t"
        then have "lstrip t = t" by (cases t) (auto simp: lstrip_def stripped_def)
        with eq \<open>n = 0\<close> t obtain r where "f 0 t = Some r"
          by (auto simp: Let_def cut_point_def rfind_blank_def bind_eq_Some_conv split: if_splits)
        with IH t show False by blast
      qed
    qed
    with s show False by blast
  qed
  then show ?thesis by (cases "hard_cut 0 s") auto
qed

section \<open>Sentences, paragraphs, packing\<close>

lemma sentence_loop_total:
  "0 < n \<Longrightarrow> sized n out \<Longrightarrow> length cur \<le> n \<Longrightarrow>
    \<exists>ps. sentence_loop n ss out cur = Some ps \<and> sized n ps \<and>
         solid (concat ps) = solid (concat out) @ solid cur @ solid (concat ss)"
proof (induction n ss out cur rule: sentence_loop.induct)
  case (1 n out cur)
  then show ?case by simp
next
  case (2 n raw ss out cur)
  let ?s = "strip raw"
  have sol: "solid ?s = solid raw" by simp
  consider (blank) "?s = []" | (long) "?s \<noteq> []" "n < length ?s"
    | (join) "?s \<noteq> []" "length ?s \<le> n" "length cur + length ?s + 1 \<le> n"
    | (flush) "?s \<noteq> []" "length ?s \<le> n" "\<not> length cur + length ?s + 1 \<le> n"
    by linarith
  then show ?case
  proof cases
    case blank
    with 2(1) [OF refl] "2.prems" sol show ?thesis by auto
  next
    case long
    obtain cuts where cuts: "hard_cut n ?s = Some cuts" "sized n cuts"
        "solid (concat cuts) = solid ?s"
      using hard_cut_total [OF "2.prems"(1)] by blast
    with 2(2) [OF refl long(1) long(2), of cuts] "2.prems" sol long show ?thesis
      by auto
  next
    case join
    have "length (strip (cur @ '' '' @ ?s)) \<le> n"
      using join length_strip [of "cur @ '' '' @ ?s"] by (simp add: numeral_2_eq_2)
    with 2(3) [OF refl join(1)] "2.prems" sol join show ?thesis by auto
  next
    case flush
    with 2(4) [OF refl flush(1)] "2.prems" sol show ?thesis by auto
  qed
qed

lemma split_sentences_total:
  assumes "0 < n"
  shows "\<exists>ps. split_sentences n s = Some ps \<and> sized n ps \<and> solid (concat ps) = solid s"
  using sentence_loop_total [OF assms, of "[]" "[]""split_on_sentence False s"]
  by (auto simp: split_sentences_def solid_split_on_sentence)

lemma paragraph_pieces_total:
  assumes "0 < n"
  shows "\<exists>ps. paragraph_pieces n raws = Some ps \<and> sized n ps \<and>
              solid (concat ps) = solid (concat raws)"
proof (induction raws)
  case Nil
  then show ?case by simp
next
  case (Cons raw raws)
  then obtain ps where ps: "paragraph_pieces n raws = Some ps" "sized n ps"
      "solid (concat ps) = solid (concat raws)" by blast
  obtain qs where qs: "split_sentences n (strip raw) = Some qs" "sized n qs"
      "solid (concat qs) = solid raw"
    using split_sentences_total [OF assms, of "strip raw"] by auto
  have "strip raw = [] \<Longrightarrow> solid raw = []" by (simp add: strip_eq_Nil)
  with ps qs show ?case by (auto simp: Let_def)
qed

lemma sized_pack_loop:
  "sized n chunks \<Longrightarrow> sized n pieces \<Longrightarrow> length cur \<le> n \<Longrightarrow>
   sized n (pack_loop n ov pieces chunks cur)"
  by (induction n ov pieces chunks cur rule: pack_loop.induct) (auto simp: Let_def)

lemma solid_gap [simp]: "solid gap = []"
  by (simp add: gap_def)

lemma subseq_drop_middle: "subseq (a @ c @ d) e \<Longrightarrow> subseq (a @ c @ d) (a @ c @ d)"
  by simp

lemma pack_loop_subseq:
  "subseq (solid (concat chunks) @ solid cur @ solid (concat pieces))
          (solid (concat (pack_loop n ov pieces chunks cur)))"
proof (induction n ov pieces chunks cur rule: pack_loop.induct)
  case (1 n ov chunks cur)
  then show ?case by simp
next
  case (2 n ov piece pieces chunks cur)
  let ?cand = "if cur = [] then piece else cur @ gap @ piece"
  let ?next = "if ov \<noteq> 0 then strip (tail_of cur ov @ gap @ piece) else piece"
  let ?cur' = "if n < length ?next then piece else ?next"
  show ?case
  proof (cases "length ?cand \<le> n")
    case True
    have "solid ?cand = solid cur @ solid piece" by simp
    with 2(1) [OF refl True] True show ?thesis by (cases "cur = []") simp_all
  next
    case False
    show ?thesis
    proof (cases "cur = []")
      case True
      with 2(3) [OF refl False] False show ?thesis by simp
    next
      case ne: False
      have "subseq (solid piece) (solid ?cur')" by (auto intro: list_emb_append2)
      then have "subseq (solid (concat chunks) @ solid cur @ solid (concat (piece # pieces)))
          (solid (concat (chunks @ [cur])) @ solid ?cur' @ solid (concat pieces))"
        by (simp add: list_emb_append_mono)
      moreover have "subseq (solid (concat (chunks @ [cur])) @ solid ?cur' @ solid (concat pieces))
          (solid (concat (pack_loop n ov (piece # pieces) chunks cur)))"
      proof -
        have "pack_loop n ov (piece # pieces) chunks cur
            = pack_loop n ov pieces (chunks @ [cur]) ?cur'"
          using False ne by (simp add: Let_def)
        then show ?thesis using 2(2) [OF refl False ne refl] by (simp only:)
      qed
      ultimately show ?thesis by (rule subseq_order.order_trans)
    qed
  qed
qed

lemma pack_loop_exact:
  "ov = 0 \<Longrightarrow> solid (concat (pack_loop n ov pieces chunks cur))
     = solid (concat chunks) @ solid cur @ solid (concat pieces)"
  by (induction n ov pieces chunks cur rule: pack_loop.induct) (auto simp: Let_def)

lemma split_text_total:
  assumes "0 < n"
  shows "\<exists>ps. split_text n ov s = Some ps \<and> sized n ps \<and>
      subseq (solid s) (solid (concat ps)) \<and> (ov = 0 \<longrightarrow> solid (concat ps) = solid s)"
proof -
  obtain ps where ps: "paragraph_pieces n (split_paragraphs (strip s)) = Some ps" "sized n ps"
      "solid (concat ps) = solid s"
    using paragraph_pieces_total [OF assms, of "split_paragraphs (strip s)"]
    by (auto simp: solid_split_paragraphs)
  have "subseq (solid s) (solid (concat (pack n ov ps)))"
    using pack_loop_subseq [of "[]" "[]" ps n ov] ps by (simp add: pack_def)
  moreover have "solid (concat (pack n 0 ps)) = solid s"
    using ps by (simp add: pack_def pack_loop_exact)
  moreover have "sized n (pack n ov ps)"
    using ps by (simp add: pack_def sized_pack_loop)
  moreover have "strip s = [] \<Longrightarrow> solid s = []" by (simp add: strip_eq_Nil)
  ultimately show ?thesis using ps by (auto simp: split_text_def Let_def)
qed

section \<open>Chunks\<close>

definition good_chunk :: "nat \<Rightarrow> chunk \<Rightarrow> bool" where
  "good_chunk n c = (chunk_text c \<noteq> [] \<and> stripped (chunk_text c) \<and> length (chunk_text c) \<le> n)"

definition numbered :: "chunk list \<Rightarrow> bool" where
  "numbered cs = (map ordinal cs = [0..<length cs])"

definition texts_of :: "chunk list \<Rightarrow> string" where
  "texts_of cs = concat (map chunk_text cs)"

lemma append_chunks_spec:
  "numbered cs \<Longrightarrow> sized n texts \<Longrightarrow>
   \<exists>part. append_chunks loc texts cs = cs @ part \<and> numbered (cs @ part) \<and>
     (\<forall>c \<in> set part. good_chunk n c \<and> chunk_location c = loc) \<and>
     solid (texts_of part) = solid (concat texts)"
proof (induction loc texts cs rule: append_chunks.induct)
  case (1 loc cs)
  then show ?case by (simp add: texts_of_def)
next
  case (2 loc raw texts cs)
  let ?c = "\<lparr>ordinal = length cs, chunk_text = strip raw, chunk_location = loc\<rparr>"
  show ?case
  proof (cases "strip raw = []")
    case True
    with 2 show ?thesis by (auto simp: strip_eq_Nil)
  next
    case False
    have "numbered (cs @ [?c])" using "2.prems" by (simp add: numbered_def)
    then obtain part where part: "append_chunks loc texts (cs @ [?c]) = (cs @ [?c]) @ part"
        "numbered ((cs @ [?c]) @ part)"
        "\<forall>c \<in> set part. good_chunk n c \<and> chunk_location c = loc"
        "solid (texts_of part) = solid (concat texts)"
      using 2 False by fastforce
    have "good_chunk n ?c"
      using False "2.prems" stripped_strip [of raw] le_trans [OF length_strip [of raw]]
      by (simp add: good_chunk_def)
    with part False show ?thesis
      by (intro exI [of _ "?c # part"]) (simp add: texts_of_def)
  qed
qed

text \<open>What one segment contributes: chunks of that segment only, that keep its text.\<close>

definition covers :: "nat \<Rightarrow> nat \<Rightarrow> parsed_segment \<Rightarrow> chunk list \<Rightarrow> bool" where
  "covers n ov seg part =
     ((\<forall>c \<in> set part. good_chunk n c \<and> chunk_location c = seg_location seg) \<and>
      subseq (solid (seg_text seg)) (solid (texts_of part)) \<and>
      (ov = 0 \<longrightarrow> solid (texts_of part) = solid (seg_text seg)))"

lemma segment_loop_spec:
  assumes "0 < n"
  shows "numbered cs \<Longrightarrow>
    \<exists>parts. segment_loop n ov segs cs = Some (cs @ concat parts) \<and>
      numbered (cs @ concat parts) \<and> list_all2 (covers n ov) segs parts"
proof (induction segs arbitrary: cs)
  case Nil
  then show ?case by (intro exI [of _ "[]"]) simp
next
  case (Cons seg segs)
  obtain texts where texts: "split_text n ov (seg_text seg) = Some texts" "sized n texts"
      "subseq (solid (seg_text seg)) (solid (concat texts))"
      "ov = 0 \<Longrightarrow> solid (concat texts) = solid (seg_text seg)"
    using split_text_total [OF assms] by blast
  obtain part where part: "append_chunks (seg_location seg) texts cs = cs @ part"
      "numbered (cs @ part)" "\<forall>c \<in> set part. good_chunk n c \<and> chunk_location c = seg_location seg"
      "solid (texts_of part) = solid (concat texts)"
    using append_chunks_spec [OF Cons.prems texts(2)] by blast
  obtain parts where "segment_loop n ov segs (cs @ part) = Some ((cs @ part) @ concat parts)"
      "numbered ((cs @ part) @ concat parts)" "list_all2 (covers n ov) segs parts"
    using Cons.IH [OF part(2)] by blast
  moreover have "covers n ov seg part"
    using part texts by (auto simp: covers_def)
  ultimately show ?case using texts part by (intro exI [of _ "part # parts"]) simp
qed

lemma chunk_segments_spec:
  assumes "0 < chunk_size"
  obtains parts where
    "chunk_segments segs chunk_size ov = Some (Inr (concat parts))"
    "numbered (concat parts)"
    "list_all2 (covers (nat chunk_size) (clamp_overlap chunk_size ov)) segs parts"
  using segment_loop_spec [of "nat chunk_size" "[]" "clamp_overlap chunk_size ov" segs] assms that
  by (auto simp: chunk_segments_def numbered_def)

section \<open>Properties\<close>

text \<open>
  C7. Chunking a document always returns (the hard cut never loops), every chunk it returns
  is non-empty, free of surrounding blanks and no longer than the requested size, and the
  chunks are numbered \<open>0, 1, 2, ...\<close> in order, whatever the overlap asked for.
\<close>
theorem chunking_total_and_bounded:
  assumes "0 < chunk_size"
  shows "\<exists>cs. chunk_segments segs chunk_size ov = Some (Inr cs) \<and>
    map ordinal cs = [0..<length cs] \<and>
    (\<forall>c \<in> set cs. chunk_text c \<noteq> [] \<and> strip (chunk_text c) = chunk_text c \<and>
                   int (length (chunk_text c)) \<le> chunk_size)"
proof -
  obtain parts where parts: "chunk_segments segs chunk_size ov = Some (Inr (concat parts))"
    "numbered (concat parts)"
    "list_all2 (covers (nat chunk_size) (clamp_overlap chunk_size ov)) segs parts"
    using chunk_segments_spec [OF assms] by blast
  then have "\<forall>part \<in> set parts. \<forall>c \<in> set part. good_chunk (nat chunk_size) c"
    by (fastforce simp: covers_def dest: list_all2_right)
  with parts assms show ?thesis
    by (intro exI [of _ "concat parts"])
       (auto simp: numbered_def good_chunk_def strip_id le_nat_iff)
qed

definition sample_segment :: parsed_segment where
  "sample_segment = \<lparr>seg_text = ''One two. Three four five.'', seg_location = Some ''page 1''\<rparr>"

theorem chunking_total_and_bounded_witness:
  "\<exists>cs. chunk_segments [sample_segment] 10 4 = Some (Inr cs) \<and>
    map ordinal cs = [0..<length cs] \<and>
    (\<forall>c \<in> set cs. chunk_text c \<noteq> [] \<and> strip (chunk_text c) = chunk_text c \<and>
                   int (length (chunk_text c)) \<le> 10)"
  by (rule chunking_total_and_bounded) simp

text \<open>
  No text is lost and no chunk spans two segments: the chunk list is the concatenation
  of one group per parsed segment, every chunk of a group cites that segment's location,
  the non-blank characters of the segment are a subsequence of those of its group, and
  with overlap 0 they are exactly the same characters in the same order.
\<close>
theorem chunking_keeps_text_per_segment:
  assumes "0 < chunk_size"
  shows "\<exists>parts. chunk_segments segs chunk_size ov = Some (Inr (concat parts)) \<and>
    list_all2 (\<lambda>seg part.
      (\<forall>c \<in> set part. chunk_location c = seg_location seg) \<and>
      subseq (solid (seg_text seg)) (solid (concat (map chunk_text part))) \<and>
      (ov \<le> 0 \<longrightarrow> solid (concat (map chunk_text part)) = solid (seg_text seg))) segs parts"
proof -
  obtain parts where "chunk_segments segs chunk_size ov = Some (Inr (concat parts))"
    "list_all2 (covers (nat chunk_size) (clamp_overlap chunk_size ov)) segs parts"
    using chunk_segments_spec [OF assms] by blast
  moreover have "ov \<le> 0 \<Longrightarrow> clamp_overlap chunk_size ov = 0"
    using assms by (simp add: clamp_overlap_def)
  ultimately show ?thesis
    by (intro exI [of _ parts])
       (auto simp: covers_def texts_of_def elim!: list_all2_mono)
qed

theorem chunking_keeps_text_per_segment_witness:
  "\<exists>parts. chunk_segments [sample_segment] 10 0 = Some (Inr (concat parts)) \<and>
    list_all2 (\<lambda>seg part.
      (\<forall>c \<in> set part. chunk_location c = seg_location seg) \<and>
      subseq (solid (seg_text seg)) (solid (concat (map chunk_text part))) \<and>
      ((0::int) \<le> 0 \<longrightarrow> solid (concat (map chunk_text part)) = solid (seg_text seg)))
      [sample_segment] parts"
  by (rule chunking_keeps_text_per_segment) simp

lemma sample_chunks:
  "map_option (map_sum id (map chunk_text)) (chunk_segments [sample_segment] 10 4)
     = Some (Inr [''One two.'', ''Three'', ''four five.''])"
  by code_simp

end
