(* ===== verification/Model_Catalog.thy ===== *)
theory Model_Catalog
  imports Platform_Prelude "HOL-Library.List_Lexorder" "HOL-Library.Char_ord"
begin

text \<open>
  The model registry's tables (\<open>backend/app/models/models_registry.py\<close>: \<open>Model\<close>,
  \<open>ModelDeployment\<close>, \<open>ModelAlias\<close>) and their repositories
  (\<open>backend/app/repositories/models_registry.py\<close>).  Of the JSON \<open>metadata\<close> of a model the
  two keys the code reads are fields; utilisation fractions are rationals.
\<close>

section \<open>Models\<close>

datatype model_status = REGISTERED | AVAILABLE | UNAVAILABLE | DISABLED

record model =
  model_id :: uuid
  model_name :: string
  model_version :: string
  model_type :: string
  context_length :: "nat option"
  storage_path :: string
  model_runtime :: string
  endpoint_url :: "string option"
  required_gpu_memory_mib :: "int option"
  min_gpu_count :: nat
  model_status :: model_status
  model_status_detail :: "string option"
  meta_ollama_tag :: "string option"
  meta_extra_args :: "string list"

definition served_model_name :: "model \<Rightarrow> string" where
  "served_model_name m =
     (if truthy (meta_ollama_tag m) then the (meta_ollama_tag m)
      else if starts_with ''ollama://'' (storage_path m)
      then remove_prefix ''ollama://'' (storage_path m)
      else if starts_with ''external://'' (storage_path m)
      then remove_prefix ''external://'' (storage_path m)
      else model_name m)"

definition external_runtimes :: "string list" where
  "external_runtimes = [''ollama'', ''external'']"

text \<open>The \<open>models\<close> section of the settings, as far as the services read it.\<close>

record model_settings =
  set_default_runtime :: string
  set_runtime_images :: "(string \<times> string) list"
  set_health_paths :: "(string \<times> string) list"
  set_health_timeout :: int
  set_health_interval :: int
  set_external_endpoint :: "string option"
  set_external_api_key :: string

definition external_key_for :: "model_settings \<Rightarrow> string \<Rightarrow> string option \<Rightarrow> string option" where
  "external_key_for st runtime endpoint =
     (if runtime \<noteq> ''external'' then None
      else let configured = rstrip_char CHR ''/'' (or_str (set_external_endpoint st) [])
           in if configured = [] \<or> rstrip_char CHR ''/'' (or_str endpoint []) \<noteq> configured then None
              else if set_external_api_key st = [] then None else Some (set_external_api_key st))"

definition get_model :: "uuid \<Rightarrow> model list \<Rightarrow> model option" where
  "get_model i models = find_row (\<lambda>m. model_id m = i) models"

definition get_model_by_name :: "string \<Rightarrow> model list \<Rightarrow> model option" where
  "get_model_by_name nm models = find_row (\<lambda>m. model_name m = nm) models"

definition list_models :: "string option \<Rightarrow> nat \<Rightarrow> nat \<Rightarrow> model list \<Rightarrow> model list" where
  "list_models kind limit offset models =
     take limit (drop offset (sort_key model_name
       (filter (\<lambda>m. truthy kind \<longrightarrow> Some (model_type m) = kind) models)))"

section \<open>Deployments\<close>

datatype deployment_state =
    REQUESTED | VALIDATING | SCHEDULING | CREATING | STARTING | HEALTH_CHECK
  | RUNNING | FAILED | STOPPING | STOPPED

definition terminal_states :: "deployment_state list" where
  "terminal_states = [RUNNING, FAILED, STOPPED]"

definition active_states :: "deployment_state list" where
  "active_states = [CREATING, STARTING, HEALTH_CHECK, RUNNING]"

definition pending_states :: "deployment_state list" where
  "pending_states = [REQUESTED, VALIDATING, SCHEDULING, CREATING, STARTING, HEALTH_CHECK]"

record deployment =
  dep_id :: uuid
  dep_model :: uuid
  dep_node :: "uuid option"
  dep_state :: deployment_state
  dep_detail :: "string option"
  dep_gpus :: "int list"
  dep_reservation :: "uuid option"
  dep_runtime :: string
  dep_image :: string
  dep_container :: "string option"
  dep_container_name :: "string option"
  dep_port :: nat
  dep_url :: "string option"
  dep_tensor_parallel :: nat
  dep_max_len :: "nat option"
  dep_memory_fraction :: rat
  dep_error :: "string option"
  dep_logs :: "string option"
  dep_requested_by :: "uuid option"
  dep_created_at :: timestamp
  dep_started_at :: "timestamp option"
  dep_healthy_at :: "timestamp option"
  dep_stopped_at :: "timestamp option"

definition is_active :: "deployment \<Rightarrow> bool" where
  "is_active d = (dep_state d \<in> set active_states)"

definition get_with_model :: "uuid \<Rightarrow> deployment list \<Rightarrow> deployment option" where
  "get_with_model i ds = find_row (\<lambda>d. dep_id d = i) ds"

definition list_deployments ::
    "uuid option \<Rightarrow> deployment_state list \<Rightarrow> deployment list \<Rightarrow> deployment list" where
  "list_deployments m states ds =
     sort_key (\<lambda>d. - dep_created_at d)
       (filter (\<lambda>d. (case m of None \<Rightarrow> True | Some i \<Rightarrow> dep_model d = i)
                  \<and> (states \<noteq> [] \<longrightarrow> dep_state d \<in> set states)) ds)"

definition list_pending :: "deployment list \<Rightarrow> deployment list" where
  "list_pending ds = sort_key dep_created_at (filter (\<lambda>d. dep_state d \<in> set pending_states) ds)"

definition serving_for_model :: "uuid \<Rightarrow> deployment list \<Rightarrow> deployment list" where
  "serving_for_model i ds =
     sort_key dep_created_at (filter (\<lambda>d. dep_model d = i \<and> dep_state d = RUNNING) ds)"

definition active_for_model :: "uuid \<Rightarrow> deployment list \<Rightarrow> deployment list" where
  "active_for_model i ds = filter (\<lambda>d. dep_model d = i \<and> dep_state d \<in> set active_states) ds"

section \<open>Aliases\<close>

record model_alias =
  alias_id :: uuid
  alias_name :: string
  alias_model :: uuid
  alias_description :: "string option"
  alias_enabled :: bool

definition get_by_alias :: "string \<Rightarrow> model_alias list \<Rightarrow> model_alias option" where
  "get_by_alias a rows = find_row (\<lambda>r. alias_name r = a \<and> alias_enabled r) rows"

definition list_aliases :: "model_alias list \<Rightarrow> model_alias list" where
  "list_aliases rows = sort_key alias_name rows"

definition aliases_for_model :: "uuid \<Rightarrow> model_alias list \<Rightarrow> model_alias list" where
  "aliases_for_model i rows = filter (\<lambda>r. alias_model r = i) rows"

section \<open>Lemmas\<close>

lemma get_with_model_Some: "get_with_model i ds = Some d \<Longrightarrow> d \<in> set ds \<and> dep_id d = i"
  unfolding get_with_model_def by (rule find_row_Some)

lemma get_model_Some: "get_model i ms = Some m \<Longrightarrow> m \<in> set ms \<and> model_id m = i"
  unfolding get_model_def by (rule find_row_Some)

lemma set_list_pending: "d \<in> set (list_pending ds) \<longleftrightarrow> d \<in> set ds \<and> dep_state d \<in> set pending_states"
  by (auto simp: list_pending_def)

lemma set_serving: "d \<in> set (serving_for_model i ds) \<longleftrightarrow>
    d \<in> set ds \<and> dep_model d = i \<and> dep_state d = RUNNING"
  by (auto simp: serving_for_model_def)

text \<open>The states the worker drives and the terminal states do not overlap.\<close>

lemma pending_not_terminal: "set pending_states \<inter> set terminal_states = {}"
  by (simp add: pending_states_def terminal_states_def)

end
