(* ===== verification/Compute_Interface.thy ===== *)
theory Compute_Interface
  imports Model_Catalog
begin

text \<open>
  The two interfaces under a deployment: \<open>ContainerRuntime\<close>
  (\<open>backend/app/core/interfaces/container.py\<close>) and \<open>ComputeBackend\<close>
  (\<open>backend/app/core/interfaces/compute.py\<close>), as records of state-passing functions over a
  state \<open>'r\<close> that stands for everything behind them, and the contract of the second as the
  locale \<open>compute_contract\<close>.  The two \<open>DeploymentState\<close> enumerations of the code have the same
  members and are one type here.
\<close>

section \<open>Containers\<close>

datatype container_state =
    C_CREATED | C_RUNNING | C_RESTARTING | C_PAUSED | C_EXITED | C_DEAD | C_UNKNOWN

record volume_mount =
  vol_source :: string
  vol_target :: string
  vol_read_only :: bool

record container_spec =
  spec_name :: string
  spec_image :: string
  spec_command :: "string list"
  spec_environment :: "(string \<times> string) list"
  spec_labels :: "(string \<times> string) list"
  spec_volumes :: "volume_mount list"
  spec_ports :: "(nat \<times> nat) list"
  spec_network :: string
  spec_gpus :: "int list option"
  spec_shm_bytes :: "nat option"
  spec_restart_policy :: string

record container_info =
  ci_id :: string
  ci_name :: string
  ci_image :: string
  ci_state :: container_state
  ci_status :: string

text \<open>A call answers, raises \<open>NodeAgentError\<close>, or raises something the caller does not expect.\<close>

datatype 'a reply = Reply 'a | AgentError string | Crash string

record 'r container_runtime =
  rt_create :: "container_spec \<Rightarrow> 'r \<Rightarrow> container_info reply \<times> 'r"
  rt_start :: "string \<Rightarrow> 'r \<Rightarrow> container_info reply \<times> 'r"
  rt_stop :: "string \<Rightarrow> int \<Rightarrow> 'r \<Rightarrow> container_info reply \<times> 'r"
  rt_restart :: "string \<Rightarrow> int \<Rightarrow> 'r \<Rightarrow> container_info reply \<times> 'r"
  rt_remove :: "string \<Rightarrow> bool \<Rightarrow> 'r \<Rightarrow> unit reply \<times> 'r"
  rt_inspect :: "string \<Rightarrow> 'r \<Rightarrow> container_info reply \<times> 'r"
  rt_list :: "(string \<times> string) list \<Rightarrow> 'r \<Rightarrow> container_info list reply \<times> 'r"
  rt_logs :: "string \<Rightarrow> nat \<Rightarrow> 'r \<Rightarrow> string list reply \<times> 'r"

section \<open>Models\<close>

record deployment_request =
  rq_deployment :: string
  rq_model :: string
  rq_path :: string
  rq_node :: string
  rq_gpus :: "int list"
  rq_runtime :: string
  rq_image :: string
  rq_tensor_parallel :: nat
  rq_max_len :: "nat option"
  rq_memory_fraction :: rat
  rq_served_name :: "string option"
  rq_extra_args :: "string list"
  rq_environment :: "(string \<times> string) list"

record deployment_handle =
  hnd_deployment :: string
  hnd_state :: deployment_state
  hnd_ref :: string
  hnd_url :: "string option"
  hnd_message :: "string option"

record 'r compute_backend =
  be_deploy :: "deployment_request \<Rightarrow> 'r \<Rightarrow> deployment_handle outcome \<times> 'r"
  be_stop :: "deployment_handle \<Rightarrow> 'r \<Rightarrow> deployment_handle outcome \<times> 'r"
  be_restart :: "deployment_handle \<Rightarrow> 'r \<Rightarrow> deployment_handle outcome \<times> 'r"
  be_status :: "deployment_handle \<Rightarrow> 'r \<Rightarrow> deployment_handle outcome \<times> 'r"
  be_wait :: "deployment_handle \<Rightarrow> int \<Rightarrow> int \<Rightarrow> 'r \<Rightarrow> deployment_handle outcome \<times> 'r"
  be_list :: "'r \<Rightarrow> container_info list outcome \<times> 'r"
  be_remove :: "string \<Rightarrow> 'r \<Rightarrow> unit outcome \<times> 'r"
  be_logs :: "deployment_handle \<Rightarrow> nat \<Rightarrow> 'r \<Rightarrow> string outcome \<times> 'r"

section \<open>The contract\<close>

text \<open>
  What the deployment service relies on: a deploy either fails or yields a started
  container with an address; a wait decides between \<open>RUNNING\<close> and \<open>FAILED\<close>, and nothing
  without an address is ever declared running; a stop always ends in \<open>STOPPED\<close>; a restart
  fails or keeps the container and its address.
\<close>

locale compute_contract =
  fixes be :: "'r compute_backend"
  assumes deploy_result: "be_deploy be rq r = (Done h, r') \<Longrightarrow>
      hnd_state h = FAILED \<or> (hnd_state h = STARTING \<and> truthy (hnd_url h))"
    and wait_result: "be_wait be h t i r = (Done h', r') \<Longrightarrow>
      hnd_state h' = FAILED \<or> (hnd_state h' = RUNNING \<and> truthy (hnd_url h))"
    and stop_result: "be_stop be h r = (Done h', r') \<Longrightarrow> hnd_state h' = STOPPED"
    and restart_result: "be_restart be h r = (Done h', r') \<Longrightarrow>
      hnd_state h' = FAILED \<or>
      (hnd_state h' = STARTING \<and> hnd_ref h' = hnd_ref h \<and> hnd_url h' = hnd_url h)"
begin

lemma deploy_never_running: "be_deploy be rq r = (Done h, r') \<Longrightarrow> hnd_state h \<noteq> RUNNING"
  using deploy_result by fastforce

lemma wait_decides: "be_wait be h t i r = (Done h', r') \<Longrightarrow> hnd_state h' \<in> set terminal_states"
  using wait_result [of h t i r h' r'] by (auto simp: terminal_states_def)

lemma no_address_fails:
  "be_wait be h t i r = (Done h', r') \<Longrightarrow> \<not> truthy (hnd_url h) \<Longrightarrow> hnd_state h' = FAILED"
  using wait_result by blast

end

end
