(* ===== verification/Compute_Backend.thy ===== *)
theory Compute_Backend
  imports Compute_Interface "HOL-Library.Monad_Syntax"
begin

text \<open>
  \<open>DockerComputeBackend\<close> (\<open>backend/app/services/compute_backend.py\<close>) over a node's container
  runtime, with the health wait of \<open>backend/app/services/llm_provider.py\<close>.  The runtime is a
  parameter (Docker behind the node agent), as are the health probe and the monotonic clock:
  \<open>env_clock k\<close> is the reading at the \<open>k\<close>-th test of the loop, \<open>env_probe url path key k\<close>
  what the \<open>k\<close>-th probe answers.  \<open>float_text\<close> is Python's \<open>str\<close> of a float.  An em dash of
  the messages is written \<open>-\<close>.
\<close>

section \<open>Configuration\<close>

record serving_env =
  env_start :: int
  env_clock :: "nat \<Rightarrow> int"
  env_probe :: "string \<Rightarrow> string \<Rightarrow> string option \<Rightarrow> nat \<Rightarrow> bool"

record backend_config =
  cfg_network :: string
  cfg_managed_label :: string
  cfg_float_text :: "rat \<Rightarrow> string"

definition container_port :: nat where
  "container_port = 8000"

definition shm_size_bytes :: nat where
  "shm_size_bytes = 8 * 1024 ^ 3"

section \<open>Waiting for a runtime to serve\<close>

partial_function (option) wait_loop ::
    "(nat \<Rightarrow> bool) \<Rightarrow> (nat \<Rightarrow> int) \<Rightarrow> int \<Rightarrow> nat \<Rightarrow> (bool \<times> nat) option" where
  [code]: "wait_loop probe clock deadline attempts =
     (if clock attempts < deadline
      then if probe (attempts + 1) then Some (True, attempts + 1)
           else wait_loop probe clock deadline (attempts + 1)
      else Some (False, attempts))"

definition wait_until_serving ::
    "serving_env \<Rightarrow> string \<Rightarrow> int \<Rightarrow> string \<Rightarrow> string option \<Rightarrow> (bool \<times> string) option" where
  "wait_until_serving env url timeout health_path api_key = do {
     (healthy, attempts) \<leftarrow>
       wait_loop (env_probe env url health_path api_key) (env_clock env) (env_start env + timeout) 0;
     Some (if healthy then (True, ''healthy after '' @ nat_str attempts @ '' probe(s)'')
           else (False, ''did not report healthy within '' @ int_str timeout @ ''s (''
             @ nat_str attempts @ '' probes). Check the deployment logs - a model that fails to ''
             @ ''load usually says why there.''))
   }"

section \<open>The container of a deployment\<close>

definition vllm_command :: "backend_config \<Rightarrow> deployment_request \<Rightarrow> string list" where
  "vllm_command cfg rq =
     [''--model'', rq_path rq, ''--served-model-name'', or_str (rq_served_name rq) (rq_model rq),
      ''--host'', ''0.0.0.0'', ''--port'', nat_str container_port,
      ''--gpu-memory-utilization'', cfg_float_text cfg (rq_memory_fraction rq)]
     @ (if rq_tensor_parallel rq > 1
        then [''--tensor-parallel-size'', nat_str (rq_tensor_parallel rq)] else [])
     @ (case rq_max_len rq of Some n \<Rightarrow> if n \<noteq> 0 then [''--max-model-len'', nat_str n] else []
        | None \<Rightarrow> [])
     @ rq_extra_args rq"

definition offline_environment :: "(string \<times> string) list" where
  "offline_environment =
     [(''HF_HUB_OFFLINE'', ''1''), (''TRANSFORMERS_OFFLINE'', ''1''),
      (''HF_HUB_DISABLE_TELEMETRY'', ''1''), (''DO_NOT_TRACK'', ''1''),
      (''VLLM_NO_USAGE_STATS'', ''1'')]"

definition container_name :: "string \<Rightarrow> string" where
  "container_name deployment = ''ai-model-'' @ take 12 deployment"

definition backend_spec :: "backend_config \<Rightarrow> deployment_request \<Rightarrow> container_spec" where
  "backend_spec cfg rq =
     (let is_mock = (rq_runtime rq = ''mock'');
          base = dict_merge offline_environment (rq_environment rq);
          environment = (if is_mock
            then dict_merge base
              [(''MOCK_VLLM_MODEL'', or_str (rq_served_name rq) (rq_model rq)),
               (''MOCK_VLLM_MAX_MODEL_LEN'', nat_str (or_number (rq_max_len rq) 32768))]
            else base)
      in \<lparr>spec_name = container_name (rq_deployment rq), spec_image = rq_image rq,
          spec_command = (if is_mock then [] else vllm_command cfg rq),
          spec_environment = environment,
          spec_labels = dict_merge [] [(cfg_managed_label cfg, ''true''),
            (''ai-platform.deployment'', rq_deployment rq), (''ai-platform.model'', rq_model rq),
            (''ai-platform.runtime'', rq_runtime rq)],
          spec_volumes = (if is_mock then []
            else [\<lparr>vol_source = rq_path rq, vol_target = rq_path rq, vol_read_only = True\<rparr>]),
          spec_ports = [], spec_network = cfg_network cfg,
          spec_gpus = (if is_mock then None else Some (rq_gpus rq)),
          spec_shm_bytes = (if is_mock then None else Some shm_size_bytes),
          spec_restart_policy = ''unless-stopped''\<rparr>)"

section \<open>Lifecycle\<close>

definition failed_handle :: "string \<Rightarrow> string \<Rightarrow> string \<Rightarrow> deployment_handle" where
  "failed_handle deployment ref message =
     \<lparr>hnd_deployment = deployment, hnd_state = FAILED, hnd_ref = ref, hnd_url = None,
      hnd_message = Some message\<rparr>"

definition deploy_model ::
    "backend_config \<Rightarrow> 'r container_runtime \<Rightarrow> deployment_request \<Rightarrow> 'r
       \<Rightarrow> deployment_handle outcome \<times> 'r" where
  "deploy_model cfg rt rq r =
     (let spec = backend_spec cfg rq;
          failed = (\<lambda>e. Done (failed_handle (rq_deployment rq) [] (take 500 e)))
      in case rt_create rt spec r of
           (AgentError e, r1) \<Rightarrow> (failed e, r1)
         | (Crash e, r1) \<Rightarrow> (Raised e, r1)
         | (Reply info, r1) \<Rightarrow>
             (case rt_start rt (ci_id info) r1 of
                (AgentError e, r2) \<Rightarrow> (failed e, r2)
              | (Crash e, r2) \<Rightarrow> (Raised e, r2)
              | (Reply _, r2) \<Rightarrow>
                  (Done \<lparr>hnd_deployment = rq_deployment rq, hnd_state = STARTING,
                     hnd_ref = ci_id info,
                     hnd_url = Some (''http://'' @ spec_name spec @ '':'' @ nat_str container_port),
                     hnd_message = None\<rparr>, r2)))"

definition wait_until_healthy ::
    "serving_env \<Rightarrow> deployment_handle \<Rightarrow> int \<Rightarrow> int \<Rightarrow> 'r \<Rightarrow> deployment_handle outcome \<times> 'r" where
  "wait_until_healthy env h timeout interval r =
     (if \<not> truthy (hnd_url h)
      then (Done (failed_handle (hnd_deployment h) (hnd_ref h)
                    ''No internal URL - the container was never started.''), r)
      else (case wait_until_serving env (the (hnd_url h)) timeout ''/health'' None of
              None \<Rightarrow> (Diverges, r)
            | Some (healthy, detail) \<Rightarrow>
                (Done \<lparr>hnd_deployment = hnd_deployment h,
                   hnd_state = (if healthy then RUNNING else FAILED), hnd_ref = hnd_ref h,
                   hnd_url = hnd_url h, hnd_message = Some detail\<rparr>, r)))"

definition stop_model ::
    "'r container_runtime \<Rightarrow> deployment_handle \<Rightarrow> 'r \<Rightarrow> deployment_handle outcome \<times> 'r" where
  "stop_model rt h r =
     (let stopped = (\<lambda>m. Done \<lparr>hnd_deployment = hnd_deployment h, hnd_state = STOPPED,
            hnd_ref = hnd_ref h, hnd_url = None, hnd_message = m\<rparr>);
          swallowed = (\<lambda>e. stopped (Some (''Container removal reported an error: '' @ e)))
      in case rt_stop rt (hnd_ref h) 60 r of
           (AgentError e, r1) \<Rightarrow> (swallowed e, r1)
         | (Crash e, r1) \<Rightarrow> (Raised e, r1)
         | (Reply _, r1) \<Rightarrow>
             (case rt_remove rt (hnd_ref h) True r1 of
                (AgentError e, r2) \<Rightarrow> (swallowed e, r2)
              | (Crash e, r2) \<Rightarrow> (Raised e, r2)
              | (Reply _, r2) \<Rightarrow> (stopped None, r2)))"

definition restart_model ::
    "'r container_runtime \<Rightarrow> deployment_handle \<Rightarrow> 'r \<Rightarrow> deployment_handle outcome \<times> 'r" where
  "restart_model rt h r =
     (case rt_restart rt (hnd_ref h) 60 r of
        (AgentError e, r1) \<Rightarrow>
          (Done (failed_handle (hnd_deployment h) (hnd_ref h) (take 500 e)), r1)
      | (Crash e, r1) \<Rightarrow> (Raised e, r1)
      | (Reply _, r1) \<Rightarrow>
          (Done \<lparr>hnd_deployment = hnd_deployment h, hnd_state = STARTING, hnd_ref = hnd_ref h,
             hnd_url = hnd_url h, hnd_message = None\<rparr>, r1))"

fun mapped_state :: "container_state \<Rightarrow> deployment_state" where
  "mapped_state C_RUNNING = RUNNING"
| "mapped_state C_CREATED = CREATING"
| "mapped_state C_RESTARTING = STARTING"
| "mapped_state C_EXITED = STOPPED"
| "mapped_state C_DEAD = FAILED"
| "mapped_state C_PAUSED = FAILED"
| "mapped_state C_UNKNOWN = FAILED"

definition backend_status ::
    "'r container_runtime \<Rightarrow> deployment_handle \<Rightarrow> 'r \<Rightarrow> deployment_handle outcome \<times> 'r" where
  "backend_status rt h r =
     (case rt_inspect rt (hnd_ref h) r of
        (AgentError e, r1) \<Rightarrow>
          (Done (failed_handle (hnd_deployment h) (hnd_ref h) (''Container not inspectable: '' @ e)), r1)
      | (Crash e, r1) \<Rightarrow> (Raised e, r1)
      | (Reply info, r1) \<Rightarrow>
          (Done \<lparr>hnd_deployment = hnd_deployment h, hnd_state = mapped_state (ci_state info),
             hnd_ref = hnd_ref h, hnd_url = hnd_url h, hnd_message = Some (ci_status info)\<rparr>, r1))"

text \<open>Neither of the next two catches \<open>NodeAgentError\<close>; reconciliation does, around the call.\<close>

definition list_managed ::
    "backend_config \<Rightarrow> 'r container_runtime \<Rightarrow> 'r \<Rightarrow> container_info list outcome \<times> 'r" where
  "list_managed cfg rt r =
     (case rt_list rt [(cfg_managed_label cfg, ''true'')] r of
        (Reply cs, r1) \<Rightarrow> (Done cs, r1)
      | (AgentError e, r1) \<Rightarrow> (Raised e, r1)
      | (Crash e, r1) \<Rightarrow> (Raised e, r1))"

definition remove_container ::
    "'r container_runtime \<Rightarrow> string \<Rightarrow> 'r \<Rightarrow> unit outcome \<times> 'r" where
  "remove_container rt cid r =
     (case rt_remove rt cid True r of
        (Reply _, r1) \<Rightarrow> (Done (), r1)
      | (AgentError e, r1) \<Rightarrow> (Raised e, r1)
      | (Crash e, r1) \<Rightarrow> (Raised e, r1))"

fun join_lines :: "string list \<Rightarrow> string" where
  "join_lines [] = []"
| "join_lines [l] = l"
| "join_lines (l # ls) = l @ newline # join_lines ls"

definition backend_logs ::
    "'r container_runtime \<Rightarrow> deployment_handle \<Rightarrow> nat \<Rightarrow> 'r \<Rightarrow> string outcome \<times> 'r" where
  "backend_logs rt h tail r =
     (case rt_logs rt (hnd_ref h) tail r of
        (Reply ls, r1) \<Rightarrow> (Done (join_lines ls), r1)
      | (AgentError e, r1) \<Rightarrow> (Done (''(logs unavailable: '' @ e @ '')''), r1)
      | (Crash e, r1) \<Rightarrow> (Raised e, r1))"

definition docker_backend ::
    "backend_config \<Rightarrow> serving_env \<Rightarrow> 'r container_runtime \<Rightarrow> 'r compute_backend" where
  "docker_backend cfg env rt =
     \<lparr>be_deploy = deploy_model cfg rt, be_stop = stop_model rt, be_restart = restart_model rt,
      be_status = backend_status rt, be_wait = wait_until_healthy env, be_list = list_managed cfg rt,
      be_remove = remove_container rt, be_logs = backend_logs rt\<rparr>"

lemma docker_backend_simps [simp]:
  "be_deploy (docker_backend cfg env rt) = deploy_model cfg rt"
  "be_stop (docker_backend cfg env rt) = stop_model rt"
  "be_restart (docker_backend cfg env rt) = restart_model rt"
  "be_status (docker_backend cfg env rt) = backend_status rt"
  "be_wait (docker_backend cfg env rt) = wait_until_healthy env"
  "be_list (docker_backend cfg env rt) = list_managed cfg rt"
  "be_remove (docker_backend cfg env rt) = remove_container rt"
  "be_logs (docker_backend cfg env rt) = backend_logs rt"
  by (simp_all add: docker_backend_def)

section \<open>The contract holds\<close>

lemma failed_handle_simps [simp]:
  "hnd_state (failed_handle d ref m) = FAILED"
  "hnd_ref (failed_handle d ref m) = ref"
  "hnd_url (failed_handle d ref m) = None"
  "hnd_message (failed_handle d ref m) = Some m"
  by (simp_all add: failed_handle_def)

lemma deploy_model_result:
  "deploy_model cfg rt rq r = (Done h, r') \<Longrightarrow>
     hnd_state h = FAILED \<and> hnd_ref h = [] \<or> hnd_state h = STARTING \<and> truthy (hnd_url h)"
  by (auto simp: deploy_model_def Let_def truthy_def split: prod.splits reply.splits)

lemma wait_until_healthy_result:
  "wait_until_healthy env h t i r = (Done h', r') \<Longrightarrow>
     r' = r \<and> (hnd_state h' = FAILED \<or> hnd_state h' = RUNNING \<and> truthy (hnd_url h))"
  by (auto simp: wait_until_healthy_def split: if_splits option.splits)

lemma stop_model_result: "stop_model rt h r = (Done h', r') \<Longrightarrow> hnd_state h' = STOPPED"
  by (auto simp: stop_model_def Let_def split: prod.splits reply.splits)

lemma restart_model_result:
  "restart_model rt h r = (Done h', r') \<Longrightarrow> hnd_state h' = FAILED \<or>
     hnd_state h' = STARTING \<and> hnd_ref h' = hnd_ref h \<and> hnd_url h' = hnd_url h"
  by (auto simp: restart_model_def split: prod.splits reply.splits)

interpretation docker: compute_contract "docker_backend cfg env rt" for cfg env rt
proof unfold_locales
  show "be_deploy (docker_backend cfg env rt) rq r = (Done h, r') \<Longrightarrow>
      hnd_state h = FAILED \<or> hnd_state h = STARTING \<and> truthy (hnd_url h)" for rq r h r'
    using deploy_model_result by fastforce
  show "be_wait (docker_backend cfg env rt) h t i r = (Done h', r') \<Longrightarrow>
      hnd_state h' = FAILED \<or> hnd_state h' = RUNNING \<and> truthy (hnd_url h)" for h t i r h' r'
    using wait_until_healthy_result by fastforce
  show "be_stop (docker_backend cfg env rt) h r = (Done h', r') \<Longrightarrow> hnd_state h' = STOPPED"
    for h r h' r'
    using stop_model_result by fastforce
  show "be_restart (docker_backend cfg env rt) h r = (Done h', r') \<Longrightarrow> hnd_state h' = FAILED \<or>
      hnd_state h' = STARTING \<and> hnd_ref h' = hnd_ref h \<and> hnd_url h' = hnd_url h" for h r h' r'
    using restart_model_result by fastforce
qed

section \<open>Termination of the wait\<close>

lemma wait_loop_cases:
  "\<not> clock k < deadline \<Longrightarrow> wait_loop probe clock deadline k = Some (False, k)"
  "clock k < deadline \<Longrightarrow> probe (k + 1) \<Longrightarrow> wait_loop probe clock deadline k = Some (True, k + 1)"
  "clock k < deadline \<Longrightarrow> \<not> probe (k + 1) \<Longrightarrow>
     wait_loop probe clock deadline k = wait_loop probe clock deadline (k + 1)"
  by (subst wait_loop.simps; simp)+

definition waited :: "(nat \<Rightarrow> bool) \<Rightarrow> (nat \<Rightarrow> int) \<Rightarrow> int \<Rightarrow> nat \<Rightarrow> bool \<Rightarrow> nat \<Rightarrow> bool" where
  "waited probe clock deadline k b m \<longleftrightarrow>
     k \<le> m \<and> b = (\<exists>j. k < j \<and> j \<le> m \<and> probe j) \<and> (\<not> b \<longrightarrow> deadline \<le> clock m)"

lemma waited_next:
  assumes "\<not> probe (k + 1)" "waited probe clock deadline (k + 1) b m"
  shows "waited probe clock deadline k b m"
proof -
  have "k < j \<and> probe j \<longleftrightarrow> k + 1 < j \<and> probe j" for j
    using assms(1) by (cases "j = k + 1") auto
  then have "(\<exists>j. k < j \<and> j \<le> m \<and> probe j) = (\<exists>j. k + 1 < j \<and> j \<le> m \<and> probe j)" by blast
  with assms(2) show ?thesis by (simp add: waited_def)
qed

lemma wait_loop_returns:
  assumes "deadline \<le> clock n"
  shows "k \<le> n \<Longrightarrow> \<exists>b m. wait_loop probe clock deadline k = Some (b, m) \<and> m \<le> n \<and>
    waited probe clock deadline k b m"
proof (induction "n - k" arbitrary: k)
  case 0
  then have "\<not> clock k < deadline" using assms by simp
  then show ?case using 0 by (simp add: wait_loop_cases waited_def)
next
  case (Suc d)
  then have le: "k + 1 \<le> n" "d = n - (k + 1)" by simp_all
  consider "\<not> clock k < deadline" | "clock k < deadline" "probe (k + 1)"
    | "clock k < deadline" "\<not> probe (k + 1)" by blast
  then show ?case
  proof cases
    case 1
    then show ?thesis using Suc(3) by (simp add: wait_loop_cases waited_def)
  next
    case 2
    then have "waited probe clock deadline k True (k + 1)" by (auto simp: waited_def)
    moreover have "wait_loop probe clock deadline k = Some (True, k + 1)"
      using 2 wait_loop_cases(2) [where clock = clock and probe = probe] by blast
    ultimately show ?thesis using le by blast
  next
    case 3
    from Suc(1) [OF le(2,1)] obtain b m where
      "wait_loop probe clock deadline (k + 1) = Some (b, m)" "m \<le> n"
      "waited probe clock deadline (k + 1) b m"
      by blast
    with 3 waited_next show ?thesis by (auto simp: wait_loop_cases(3))
  qed
qed

section \<open>Properties\<close>

text \<open>
  The health wait returns: if every round of the loop takes at least \<open>step\<close> on the clock,
  it ends after at most \<open>timeout / step\<close> rounds, reports healthy exactly when one of the
  probes it made succeeded, and gives up only when the deadline has passed.
\<close>
theorem health_wait_returns:
  assumes "\<And>k. env_start env + int k * step \<le> env_clock env k" "timeout \<le> int n * step"
  shows "\<exists>b m detail. wait_until_serving env url timeout path key = Some (b, detail) \<and> m \<le> n \<and>
    b = (\<exists>j. 0 < j \<and> j \<le> m \<and> env_probe env url path key j) \<and>
    (\<not> b \<longrightarrow> env_start env + timeout \<le> env_clock env m)"
proof -
  have "env_start env + timeout \<le> env_clock env n" using assms(1) [of n] assms(2) by simp
  from wait_loop_returns [where clock = "env_clock env" and deadline = "env_start env + timeout"
      and n = n and k = 0 and probe = "env_probe env url path key", OF this]
  obtain b m where l: "wait_loop (env_probe env url path key) (env_clock env)
      (env_start env + timeout) 0 = Some (b, m)" "m \<le> n"
    and w: "waited (env_probe env url path key) (env_clock env) (env_start env + timeout) 0 b m"
    by auto
  have "\<exists>detail. wait_until_serving env url timeout path key = Some (b, detail)"
    unfolding wait_until_serving_def l(1) by simp
  then show ?thesis using l(2) w unfolding waited_def by blast
qed

definition sample_env :: serving_env where
  "sample_env = \<lparr>env_start = 100, env_clock = (\<lambda>k. 100 + 5 * int k),
     env_probe = (\<lambda>url path key k. k = 3)\<rparr>"

theorem health_wait_returns_witness:
  "\<exists>b m detail. wait_until_serving sample_env ''http://m:8000'' 900 ''/health'' None = Some (b, detail) \<and>
    m \<le> 180 \<and>
    b = (\<exists>j. 0 < j \<and> j \<le> m \<and> env_probe sample_env ''http://m:8000'' ''/health'' None j) \<and>
    (\<not> b \<longrightarrow> env_start sample_env + 900 \<le> env_clock sample_env m)"
  by (rule health_wait_returns [where step = 5]) (simp_all add: sample_env_def)

text \<open>
  The container the platform asks for is isolated: it publishes no host port, every volume
  is the model's own path mounted read-only, it carries the managed label (so reconciliation
  can find it), it gets exactly the GPUs of the placement, none and no volume at all for the
  mock runtime, and, unless the request overrides them, every offline switch is set.
\<close>
theorem container_spec_isolated:
  assumes "cfg_managed_label cfg \<notin> {''ai-platform.deployment'', ''ai-platform.model'', ''ai-platform.runtime''}"
    and "fst ` set (rq_environment rq) \<inter> fst ` set offline_environment = {}"
  shows "let spec = backend_spec cfg rq in
    spec_ports spec = [] \<and>
    (\<forall>v \<in> set (spec_volumes spec). vol_read_only v \<and> vol_source v = rq_path rq) \<and>
    map_of (spec_labels spec) (cfg_managed_label cfg) = Some ''true'' \<and>
    map_of (spec_labels spec) ''ai-platform.deployment'' = Some (rq_deployment rq) \<and>
    spec_gpus spec = (if rq_runtime rq = ''mock'' then None else Some (rq_gpus rq)) \<and>
    (rq_runtime rq = ''mock'' \<longrightarrow> spec_volumes spec = []) \<and>
    (\<forall>k \<in> fst ` set offline_environment. map_of (spec_environment spec) k = Some ''1'')"
proof -
  have base: "map_of (dict_merge offline_environment (rq_environment rq)) k = Some ''1''"
    if "k \<in> fst ` set offline_environment" for k
  proof -
    have "k \<notin> fst ` set (rq_environment rq)" using that assms(2) by blast
    then have "map_of (dict_merge offline_environment (rq_environment rq)) k
        = map_of offline_environment k" by (rule dict_merge_keep)
    then show ?thesis using that by (auto simp: offline_environment_def)
  qed
  have "map_of (spec_environment (backend_spec cfg rq)) k = Some ''1''"
    if "k \<in> fst ` set offline_environment" for k
  proof (cases "rq_runtime rq = ''mock''")
    case True
    have "k \<noteq> ''MOCK_VLLM_MODEL''" "k \<noteq> ''MOCK_VLLM_MAX_MODEL_LEN''"
      using that by (auto simp: offline_environment_def)
    with base [OF that] True show ?thesis
      by (simp add: backend_spec_def Let_def update_conv')
  next
    case False
    with base [OF that] show ?thesis by (simp add: backend_spec_def Let_def)
  qed
  moreover have "map_of (spec_labels (backend_spec cfg rq)) (cfg_managed_label cfg) = Some ''true''"
    using assms(1) by (auto simp: backend_spec_def Let_def map_of_dict_merge map_add_def)
  moreover have "map_of (spec_labels (backend_spec cfg rq)) ''ai-platform.deployment''
      = Some (rq_deployment rq)"
    using assms(1) by (auto simp: backend_spec_def Let_def map_of_dict_merge map_add_def)
  ultimately show ?thesis by (simp add: backend_spec_def Let_def)
qed

definition sample_backend_config :: backend_config where
  "sample_backend_config = \<lparr>cfg_network = ''ai-net'', cfg_managed_label = ''ai-platform.managed'',
     cfg_float_text = (\<lambda>x. ''0.9'')\<rparr>"

definition sample_backend_request :: deployment_request where
  "sample_backend_request = \<lparr>rq_deployment = uuid_str 7, rq_model = ''qwen'', rq_path = ''/data/qwen'',
     rq_node = uuid_str 1, rq_gpus = [0, 1], rq_runtime = ''vllm'', rq_image = ''vllm:1'',
     rq_tensor_parallel = 2, rq_max_len = Some 32768, rq_memory_fraction = 9 / 10,
     rq_served_name = None, rq_extra_args = [], rq_environment = []\<rparr>"

theorem container_spec_isolated_witness:
  "let spec = backend_spec sample_backend_config sample_backend_request in
    spec_ports spec = [] \<and>
    (\<forall>v \<in> set (spec_volumes spec). vol_read_only v \<and> vol_source v = rq_path sample_backend_request) \<and>
    map_of (spec_labels spec) (cfg_managed_label sample_backend_config) = Some ''true'' \<and>
    map_of (spec_labels spec) ''ai-platform.deployment'' = Some (rq_deployment sample_backend_request) \<and>
    spec_gpus spec = (if rq_runtime sample_backend_request = ''mock'' then None
                      else Some (rq_gpus sample_backend_request)) \<and>
    (rq_runtime sample_backend_request = ''mock'' \<longrightarrow> spec_volumes spec = []) \<and>
    (\<forall>k \<in> fst ` set offline_environment. map_of (spec_environment spec) k = Some ''1'')"
  by (rule container_spec_isolated)
     (simp_all add: sample_backend_config_def sample_backend_request_def)

end
