(* ===== verification/Contracts.thy ===== *)
theory Contracts
  imports Platform_Prelude
begin

text \<open>
  The interfaces between components, as locales: what a client may rely on, stated over
  the operations it calls, with the client's lemmas proved once from the laws alone.
  Each is interpreted on the model in the theory of the component that provides it.
\<close>

section \<open>Exclusive claims on GPUs\<close>

text \<open>
  The contract of \<open>Scheduler.reserve\<close> and \<open>Scheduler.release\<close>
  (\<open>backend/app/core/interfaces/scheduler.py\<close>): a claim is all or nothing, refuses a held
  device, and a release frees exactly the devices of its reservation.
\<close>

locale gpu_claims =
  fixes holder :: "'db \<Rightarrow> uuid \<times> int \<Rightarrow> uuid option"
    and claimable :: "uuid \<Rightarrow> int list \<Rightarrow> 'db \<Rightarrow> bool"
    and claim :: "uuid \<Rightarrow> int list \<Rightarrow> uuid \<Rightarrow> 'db \<Rightarrow> 'db option"
    and release :: "uuid \<Rightarrow> 'db \<Rightarrow> 'db"
    and inv :: "'db \<Rightarrow> bool"
  assumes claim_iff: "inv db \<Longrightarrow>
      (claim n is r db \<noteq> None) = (claimable n is db \<and> (\<forall>i \<in> set is. holder db (n, i) = None))"
    and claim_inv: "inv db \<Longrightarrow> claim n is r db = Some db' \<Longrightarrow> inv db'"
    and claim_holder: "inv db \<Longrightarrow> claim n is r db = Some db' \<Longrightarrow>
      holder db' k = (if fst k = n \<and> snd k \<in> set is then Some r else holder db k)"
    and claim_claimable: "claim n is r db = Some db' \<Longrightarrow> claimable m js db' = claimable m js db"
    and release_inv: "inv db \<Longrightarrow> inv (release r db)"
    and release_holder: "inv db \<Longrightarrow>
      holder (release r db) k = (if holder db k = Some r then None else holder db k)"
    and release_claimable: "claimable m js (release r db) = claimable m js db"
begin

lemma claims_disjoint:
  assumes "inv db" "claim n is r db = Some db1" "claim n js r' db1 = Some db2"
  shows "set is \<inter> set js = {}"
proof -
  have "\<forall>j \<in> set js. holder db1 (n, j) = None"
    using claim_iff [OF claim_inv [OF assms(1,2)], of n js r'] assms(3) by simp
  with claim_holder [OF assms(1,2)] show ?thesis by fastforce
qed

lemma release_undoes_claim:
  assumes "inv db" "claim n is r db = Some db'" "\<And>k. holder db k \<noteq> Some r"
  shows "holder (release r db') = holder db"
proof
  fix k
  have "fst k = n \<Longrightarrow> snd k \<in> set is \<Longrightarrow> holder db k = None"
    using claim_iff [OF assms(1), of n "is" r] assms(2) by (cases k) simp
  then show "holder (release r db') k = holder db k"
    using release_holder [OF claim_inv [OF assms(1,2)], of r k] claim_holder [OF assms(1,2), of k]
      assms(3) [of k]
    by auto
qed

lemma reclaim_after_release:
  assumes "inv db" "claim n is r db = Some db'"
  shows "claim n is r' (release r db') \<noteq> None"
proof -
  have i: "inv db'" by (rule claim_inv [OF assms])
  have "claimable n is (release r db')"
    using claim_iff [OF assms(1), of n "is" r] assms(2) release_claimable claim_claimable [OF assms(2)]
    by simp
  moreover have "\<forall>j \<in> set is. holder (release r db') (n, j) = None"
    using release_holder [OF i] claim_holder [OF assms] by simp
  ultimately show ?thesis using claim_iff [OF release_inv [OF i]] by blast
qed

lemma others_keep_their_claim:
  assumes "inv db" "holder db k = Some r" "r \<noteq> r'"
  shows "holder (release r' db) k = Some r"
  using release_holder [OF assms(1), of r' k] assms(2,3) by simp

end

end
