(* ===== verification/Gpu_Reservation.thy ===== *)
theory Gpu_Reservation
  imports Contracts
begin

text \<open>
  GPU inventory, telemetry and reservations: the \<open>Gpu\<close>, \<open>GpuMetric\<close> and \<open>GpuAllocation\<close>
  tables of \<open>backend/app/models/infrastructure.py\<close>, their repositories, and the
  reservation half of \<open>GpuService\<close> (\<open>backend/app/services/infrastructure.py\<close>).

  The partial unique index \<open>uq_gpu_allocations_active\<close>, which the schema declares and the
  service relies on, is the guard of \<open>insert_allocation\<close>; the SAVEPOINT is the \<open>None\<close> of
  \<open>insert_allocations\<close>, which leaves the caller's state as it was.  The locale \<open>gpu_claims\<close>
  is the contract deployments rely on; it is interpreted on this model at the end.
\<close>

section \<open>Tables\<close>

datatype gpu_health = HEALTHY | WARNING | CRITICAL | UNKNOWN_HEALTH

record gpu =
  gpu_id :: uuid
  gpu_node :: uuid
  gpu_index :: int
  gpu_uuid :: string
  gpu_name :: string
  gpu_memory_total :: int
  gpu_status :: gpu_health

record gpu_metric =
  metric_gpu :: uuid
  metric_at :: timestamp
  metric_utilization :: rat
  metric_memory_used :: int

record allocation =
  alloc_node :: uuid
  alloc_index :: int
  alloc_gpu :: "uuid option"
  alloc_reservation :: uuid
  alloc_purpose :: string
  alloc_reserved_at :: timestamp
  alloc_released_at :: "timestamp option"
  alloc_by :: "uuid option"

record gpu_db =
  gpus :: "gpu list"
  metrics :: "gpu_metric list"
  allocations :: "allocation list"

definition alloc_active :: "allocation \<Rightarrow> bool" where
  "alloc_active a = (alloc_released_at a = None)"

definition alloc_key :: "allocation \<Rightarrow> uuid \<times> int" where
  "alloc_key a = (alloc_node a, alloc_index a)"

section \<open>Repositories\<close>

definition gpus_for_node :: "gpu_db \<Rightarrow> uuid \<Rightarrow> gpu list" where
  "gpus_for_node db node = sort_key gpu_index (filter (\<lambda>g. gpu_node g = node) (gpus db))"

definition latest_metric :: "gpu_db \<Rightarrow> uuid \<Rightarrow> gpu_metric option" where
  "latest_metric db gid =
     (case sort_key (\<lambda>m. - metric_at m) (filter (\<lambda>m. metric_gpu m = gid) (metrics db)) of
        [] \<Rightarrow> None | m # _ \<Rightarrow> Some m)"

definition metric_history ::
    "gpu_db \<Rightarrow> uuid \<Rightarrow> timestamp option \<Rightarrow> timestamp option \<Rightarrow> nat \<Rightarrow> gpu_metric list" where
  "metric_history db gid since until limit =
     take limit (sort_key (\<lambda>m. - metric_at m)
       (filter (\<lambda>m. metric_gpu m = gid
                  \<and> (case since of None \<Rightarrow> True | Some t \<Rightarrow> t \<le> metric_at m)
                  \<and> (case until of None \<Rightarrow> True | Some t \<Rightarrow> metric_at m \<le> t)) (metrics db)))"

definition delete_metrics_older_than :: "timestamp \<Rightarrow> gpu_db \<Rightarrow> gpu_db \<times> nat" where
  "delete_metrics_older_than cutoff db =
     (db\<lparr>metrics := filter (\<lambda>m. \<not> metric_at m < cutoff) (metrics db)\<rparr>,
      length (filter (\<lambda>m. metric_at m < cutoff) (metrics db)))"

definition active_for_node :: "gpu_db \<Rightarrow> uuid \<Rightarrow> allocation list" where
  "active_for_node db node =
     filter (\<lambda>a. alloc_node a = node \<and> alloc_active a) (allocations db)"

definition active_indices :: "gpu_db \<Rightarrow> uuid \<Rightarrow> int set" where
  "active_indices db node = set (map alloc_index (active_for_node db node))"

definition by_reservation :: "gpu_db \<Rightarrow> uuid \<Rightarrow> allocation list" where
  "by_reservation db rid = filter (\<lambda>a. alloc_reservation a = rid) (allocations db)"

definition release_reservation :: "timestamp \<Rightarrow> uuid \<Rightarrow> gpu_db \<Rightarrow> gpu_db \<times> nat" where
  "release_reservation now rid db =
     (db\<lparr>allocations := update_rows (\<lambda>a. alloc_reservation a = rid \<and> alloc_active a)
            (alloc_released_at_update (\<lambda>_. Some now)) (allocations db)\<rparr>,
      length (filter alloc_active (by_reservation db rid)))"

text \<open>An insert is refused by the partial unique index on live rows; \<open>None\<close> is \<open>IntegrityError\<close>.\<close>

definition insert_allocation :: "allocation \<Rightarrow> gpu_db \<Rightarrow> gpu_db option" where
  "insert_allocation a db =
     (if alloc_active a \<and> (\<exists>b \<in> set (allocations db). alloc_active b \<and> alloc_key b = alloc_key a)
      then None
      else Some (db\<lparr>allocations := allocations db @ [a]\<rparr>))"

fun insert_allocations :: "allocation list \<Rightarrow> gpu_db \<Rightarrow> gpu_db option" where
  "insert_allocations [] db = Some db"
| "insert_allocations (a # as) db =
     (case insert_allocation a db of None \<Rightarrow> None | Some db' \<Rightarrow> insert_allocations as db')"

section \<open>GpuService\<close>

definition gpu_at :: "gpu_db \<Rightarrow> uuid \<Rightarrow> int \<Rightarrow> gpu option" where
  "gpu_at db node i = find_row (\<lambda>g. gpu_index g = i) (rev (gpus_for_node db node))"

definition new_allocation ::
    "gpu_db \<Rightarrow> uuid \<Rightarrow> string \<Rightarrow> uuid option \<Rightarrow> uuid \<Rightarrow> timestamp \<Rightarrow> int \<Rightarrow> allocation" where
  "new_allocation db node purpose by rid now i =
     \<lparr>alloc_node = node, alloc_index = i, alloc_gpu = map_option gpu_id (gpu_at db node i),
      alloc_reservation = rid, alloc_purpose = purpose, alloc_reserved_at = now,
      alloc_released_at = None, alloc_by = by\<rparr>"

text \<open>\<open>rid\<close> is the \<open>uuid4()\<close> drawn, \<open>now\<close> the clock at the insert.\<close>

definition reserve ::
    "uuid \<Rightarrow> int list \<Rightarrow> string \<Rightarrow> uuid option \<Rightarrow> uuid \<Rightarrow> timestamp \<Rightarrow> gpu_db
       \<Rightarrow> (gpu_db \<times> uuid) result" where
  "reserve node gpu_indices purpose by rid now db =
     (if gpu_indices = [] then Inl (ValidationError ''At least one GPU index is required.'')
      else if \<not> distinct gpu_indices
      then Inl (ValidationError ''Duplicate GPU indices in the reservation request.'')
      else if \<exists>i \<in> set gpu_indices. gpu_at db node i = None
      then Inl (ValidationError ''Node has no GPU with that index.'')
      else (case insert_allocations
                  (map (new_allocation db node purpose by rid now) gpu_indices) db of
              None \<Rightarrow> Inl (ConflictError ''GPUs are not all free on this node.'')
            | Some db' \<Rightarrow> Inr (db', rid)))"

definition release :: "timestamp \<Rightarrow> uuid \<Rightarrow> gpu_db \<Rightarrow> gpu_db" where
  "release now rid db = fst (release_reservation now rid db)"

definition free_indices :: "gpu_db \<Rightarrow> uuid \<Rightarrow> int list" where
  "free_indices db node =
     sort (map gpu_index (filter (\<lambda>g. gpu_index g \<notin> active_indices db node)
                                 (gpus_for_node db node)))"

definition purge_old_metrics :: "timestamp \<Rightarrow> nat \<Rightarrow> gpu_db \<Rightarrow> gpu_db \<times> nat" where
  "purge_old_metrics now retention_days db =
     delete_metrics_older_than (now - int retention_days * 86400 * 1000000) db"

section \<open>Invariant and abstraction\<close>

definition exclusive :: "gpu_db \<Rightarrow> bool" where
  "exclusive db = distinct (map alloc_key (filter alloc_active (allocations db)))"

text \<open>Who holds a device: the reservation of its live allocation, if there is one.\<close>

definition holder :: "gpu_db \<Rightarrow> uuid \<times> int \<Rightarrow> uuid option" where
  "holder db k = map_option alloc_reservation
     (find_row (\<lambda>a. alloc_active a \<and> alloc_key a = k) (allocations db))"

definition valid_request :: "uuid \<Rightarrow> int list \<Rightarrow> gpu_db \<Rightarrow> bool" where
  "valid_request node is db =
     (is \<noteq> [] \<and> distinct is \<and> (\<forall>i \<in> set is. gpu_at db node i \<noteq> None))"

lemma holder_None:
  "holder db k = None \<longleftrightarrow> (\<forall>a \<in> set (allocations db). alloc_active a \<longrightarrow> alloc_key a \<noteq> k)"
  by (auto simp: holder_def find_row_None)

lemma holder_free: "holder db (n, i) = None \<longleftrightarrow> i \<notin> active_indices db n"
  by (auto simp: holder_None active_indices_def active_for_node_def alloc_key_def)

lemma distinct_key_unique:
  "distinct (map f xs) \<Longrightarrow> x \<in> set xs \<Longrightarrow> y \<in> set xs \<Longrightarrow> f x = f y \<Longrightarrow> x = y"
  by (auto simp: distinct_map inj_on_def)

lemma holder_Some:
  assumes "exclusive db"
  shows "holder db k = Some r \<longleftrightarrow>
    (\<exists>a \<in> set (allocations db). alloc_active a \<and> alloc_key a = k \<and> alloc_reservation a = r)"
proof
  assume "holder db k = Some r"
  then show "\<exists>a \<in> set (allocations db). alloc_active a \<and> alloc_key a = k \<and> alloc_reservation a = r"
    by (auto simp: holder_def dest: find_row_Some)
next
  assume "\<exists>a \<in> set (allocations db). alloc_active a \<and> alloc_key a = k \<and> alloc_reservation a = r"
  then obtain a where a: "a \<in> set (allocations db)" "alloc_active a" "alloc_key a = k"
      "alloc_reservation a = r" by blast
  then obtain b where b: "find_row (\<lambda>a. alloc_active a \<and> alloc_key a = k) (allocations db) = Some b"
    by (cases "find_row (\<lambda>a. alloc_active a \<and> alloc_key a = k) (allocations db)")
       (auto simp: find_row_None)
  have "a = b"
    using assms a find_row_Some [OF b]
    unfolding exclusive_def
    by (intro distinct_key_unique [of alloc_key "filter alloc_active (allocations db)"]) auto
  with a b show "holder db k = Some r" by (simp add: holder_def)
qed

lemma insert_allocations_Some:
  "insert_allocations as db = Some db' \<Longrightarrow> db' = db\<lparr>allocations := allocations db @ as\<rparr>"
proof (induction as arbitrary: db)
  case Nil
  then show ?case by simp
next
  case (Cons a as)
  then have "insert_allocations as (db\<lparr>allocations := allocations db @ [a]\<rparr>) = Some db'"
    by (auto simp: insert_allocation_def split: if_splits)
  from Cons.IH [OF this] show ?case by simp
qed

lemma insert_allocations_ok_iff:
  "(\<forall>a \<in> set as. alloc_active a) \<Longrightarrow>
   (insert_allocations as db \<noteq> None) =
     (distinct (map alloc_key as) \<and> (\<forall>a \<in> set as. holder db (alloc_key a) = None))"
proof (induction as arbitrary: db)
  case Nil
  then show ?case by simp
next
  case (Cons a as)
  let ?db = "db\<lparr>allocations := allocations db @ [a]\<rparr>"
  have step: "insert_allocation a db = (if holder db (alloc_key a) = None then Some ?db else None)"
    using Cons.prems by (auto simp: insert_allocation_def holder_None)
  have "holder ?db k = None \<longleftrightarrow> holder db k = None \<and> k \<noteq> alloc_key a" for k
    using Cons.prems by (auto simp: holder_None)
  then show ?case using Cons step by (auto simp: image_iff)
qed

section \<open>Laws of reserve and release\<close>

lemma new_allocation_simps [simp]:
  "alloc_active (new_allocation db n p b r t i)"
  "alloc_key (new_allocation db n p b r t i) = (n, i)"
  "alloc_reservation (new_allocation db n p b r t i) = r"
  by (simp_all add: new_allocation_def alloc_active_def alloc_key_def)

lemma reserve_Inr:
  "reserve n is p b r t db = Inr (db', r') \<longleftrightarrow>
     valid_request n is db \<and> (\<forall>i \<in> set is. holder db (n, i) = None) \<and> r' = r \<and>
     db' = db\<lparr>allocations := allocations db @ map (new_allocation db n p b r t) is\<rparr>"
proof -
  let ?as = "map (new_allocation db n p b r t) is"
  have act: "\<forall>a \<in> set ?as. alloc_active a" by auto
  have keys: "map alloc_key ?as = map (Pair n) is" by simp
  have "distinct (map (Pair n) is) = distinct is"
    by (simp add: distinct_map inj_on_def)
  with insert_allocations_ok_iff [OF act, of db] keys
  have ok: "(insert_allocations ?as db \<noteq> None) =
      (distinct is \<and> (\<forall>i \<in> set is. holder db (n, i) = None))"
    by (simp del: map_map)
  show ?thesis
  proof (cases "insert_allocations ?as db")
    case None
    with ok show ?thesis by (auto simp: reserve_def valid_request_def)
  next
    case (Some d)
    with ok insert_allocations_Some [OF Some] show ?thesis
      by (auto simp: reserve_def valid_request_def)
  qed
qed

lemma reserve_total: "\<exists>e. reserve n is p b r t db = Inl e \<or> (\<exists>db'. reserve n is p b r t db = Inr (db', r))"
  by (cases "reserve n is p b r t db") (auto simp: reserve_Inr)

lemma reserve_exclusive [inv_intros]:
  assumes "exclusive db" "reserve n is p b r t db = Inr (db', r')"
  shows "exclusive db'"
proof -
  have db': "db' = db\<lparr>allocations := allocations db @ map (new_allocation db n p b r t) is\<rparr>"
    and d: "distinct is" and free: "\<forall>i \<in> set is. holder db (n, i) = None"
    using assms(2) by (auto simp: reserve_Inr valid_request_def)
  have "distinct (map (Pair n) is)" using d by (simp add: distinct_map inj_on_def)
  moreover have "filter alloc_active (map (new_allocation db n p b r t) is)
      = map (new_allocation db n p b r t) is" by (simp add: filter_id_conv)
  moreover have "set (map alloc_key (filter alloc_active (allocations db))) \<inter> Pair n ` set is = {}"
    using free by (fastforce simp: holder_None)
  ultimately show ?thesis
    using assms(1) unfolding exclusive_def db' by (simp add: comp_def)
qed

lemma reserve_holder:
  assumes "reserve n is p b r t db = Inr (db', r')"
  shows "holder db' k = (if fst k = n \<and> snd k \<in> set is then Some r else holder db k)"
proof -
  have db': "allocations db' = allocations db @ map (new_allocation db n p b r t) is"
    and free: "\<forall>i \<in> set is. holder db (n, i) = None"
    using assms by (auto simp: reserve_Inr)
  have new: "find_row (\<lambda>a. alloc_active a \<and> alloc_key a = k) (map (new_allocation db n p b r t) js)
      = (if fst k = n \<and> snd k \<in> set js then Some (new_allocation db n p b r t (snd k)) else None)"
    for js by (induction js) (auto simp: prod_eq_iff)
  have old: "fst k = n \<Longrightarrow> snd k \<in> set is \<Longrightarrow>
      find_row (\<lambda>a. alloc_active a \<and> alloc_key a = k) (allocations db) = None"
    using free by (cases k) (auto simp: holder_def)
  show ?thesis
    using old by (auto simp: holder_def db' find_row_append new split: option.splits)
qed

lemma release_rows:
  "allocations (release t r db) =
     update_rows (\<lambda>a. alloc_reservation a = r \<and> alloc_active a)
       (alloc_released_at_update (\<lambda>_. Some t)) (allocations db)"
  by (simp add: release_def release_reservation_def)

lemma release_frame [frame_simps]:
  "gpus (release t r db) = gpus db" "metrics (release t r db) = metrics db"
  by (simp_all add: release_def release_reservation_def)

lemma filter_active_release:
  "filter alloc_active (update_rows (\<lambda>a. alloc_reservation a = r \<and> alloc_active a)
      (alloc_released_at_update (\<lambda>_. Some t)) rows)
   = filter (\<lambda>a. alloc_active a \<and> alloc_reservation a \<noteq> r) rows"
  by (induction rows) (auto simp: alloc_active_def)

lemma release_exclusive [inv_intros]: "exclusive db \<Longrightarrow> exclusive (release t r db)"
  using distinct_map_filter [of alloc_key "filter alloc_active (allocations db)"
      "\<lambda>a. alloc_reservation a \<noteq> r"]
  by (simp add: exclusive_def release_rows filter_active_release)

lemma release_live_rows:
  "(a \<in> set (allocations (release t r db)) \<and> alloc_active a) \<longleftrightarrow>
   (a \<in> set (allocations db) \<and> alloc_active a \<and> alloc_reservation a \<noteq> r)"
  by (auto simp: release_rows set_update_rows alloc_active_def image_iff)

lemma release_holder:
  assumes "exclusive db"
  shows "holder (release t r db) k = (if holder db k = Some r then None else holder db k)"
proof (cases "holder (release t r db) k")
  case None
  then have "holder db k = None \<or> holder db k = Some r"
    using assms holder_Some [OF assms, of k] release_live_rows [of _ t r db]
    by (metis holder_None not_None_eq)
  with None show ?thesis by auto
next
  case (Some r')
  then obtain a where a: "a \<in> set (allocations (release t r db))" "alloc_active a"
      "alloc_key a = k" "alloc_reservation a = r'"
    using holder_Some [OF release_exclusive [OF assms]] by blast
  with release_live_rows [of a t r db]
  have "holder db k = Some r'" "r' \<noteq> r" using holder_Some [OF assms, of k r'] by auto
  with Some show ?thesis by simp
qed

lemma release_idem: "release t' r (release t r db) = release t r db"
proof -
  have "update_rows (\<lambda>a. alloc_reservation a = r \<and> alloc_active a) f
      (update_rows (\<lambda>a. alloc_reservation a = r \<and> alloc_active a)
         (alloc_released_at_update (\<lambda>_. Some t)) rows)
    = update_rows (\<lambda>a. alloc_reservation a = r \<and> alloc_active a)
         (alloc_released_at_update (\<lambda>_. Some t)) rows" for f and rows :: "allocation list"
    by (induction rows) (auto simp: alloc_active_def)
  then show ?thesis by (simp add: release_def release_reservation_def)
qed

section \<open>The contract, on this model\<close>

definition claim ::
    "string \<Rightarrow> uuid option \<Rightarrow> timestamp \<Rightarrow> uuid \<Rightarrow> int list \<Rightarrow> uuid \<Rightarrow> gpu_db \<Rightarrow> gpu_db option" where
  "claim purpose by now node is rid db =
     (case reserve node is purpose by rid now db of Inl _ \<Rightarrow> None | Inr (db', _) \<Rightarrow> Some db')"

lemma claim_Some: "claim p b t n is r db = Some db' \<longleftrightarrow> reserve n is p b r t db = Inr (db', r)"
  by (cases "reserve n is p b r t db") (auto simp: claim_def dest: reserve_Inr [THEN iffD1])

lemma valid_request_frame: "gpus db' = gpus db \<Longrightarrow> valid_request n is db' = valid_request n is db"
  by (simp add: valid_request_def gpu_at_def gpus_for_node_def)

interpretation claims: gpu_claims holder valid_request "claim purpose who now" "release now" exclusive
  for purpose who now
proof unfold_locales
  show "(claim purpose who now n is r db \<noteq> None)
      = (valid_request n is db \<and> (\<forall>i \<in> set is. holder db (n, i) = None))" for n "is" r db
    by (auto simp: claim_Some reserve_Inr)
  show "exclusive db \<Longrightarrow> claim purpose who now n is r db = Some db' \<Longrightarrow> exclusive db'" for n "is" r db db'
    by (auto simp: claim_Some intro: reserve_exclusive)
  show "claim purpose who now n is r db = Some db' \<Longrightarrow>
      holder db' k = (if fst k = n \<and> snd k \<in> set is then Some r else holder db k)" for n "is" r db db' k
    by (auto simp: claim_Some reserve_holder)
  show "claim purpose who now n is r db = Some db' \<Longrightarrow> valid_request m js db' = valid_request m js db"
    for n "is" r db db' m js
    by (auto simp: claim_Some reserve_Inr intro!: valid_request_frame)
  show "exclusive db \<Longrightarrow> exclusive (release now r db)" for db r
    by (rule release_exclusive)
  show "exclusive db \<Longrightarrow>
      holder (release now r db) k = (if holder db k = Some r then None else holder db k)" for db r k
    by (rule release_holder)
  show "valid_request m js (release now r db) = valid_request m js db" for m js r db
    by (rule valid_request_frame) (simp add: frame_simps)
qed

section \<open>Properties\<close>

datatype gpu_op =
    Reserve uuid "int list" string "uuid option" uuid timestamp
  | Release uuid timestamp

text \<open>A refused reservation leaves the tables alone: that is what the SAVEPOINT is for.\<close>

fun gpu_step :: "gpu_op \<Rightarrow> gpu_db \<Rightarrow> gpu_db" where
  "gpu_step (Reserve n is p b r t) db =
     (case reserve n is p b r t db of Inl _ \<Rightarrow> db | Inr (db', _) \<Rightarrow> db')"
| "gpu_step (Release r t) db = release t r db"

definition gpu_run :: "gpu_op list \<Rightarrow> gpu_db \<Rightarrow> gpu_db" where
  "gpu_run ops db = fold gpu_step ops db"

lemma gpu_step_exclusive: "exclusive db \<Longrightarrow> exclusive (gpu_step op db)"
  by (cases op) (auto intro: reserve_exclusive release_exclusive split: sum.splits)

lemma gpu_run_exclusive: "exclusive db \<Longrightarrow> exclusive (gpu_run ops db)"
  by (induction ops arbitrary: db) (simp_all add: gpu_run_def gpu_step_exclusive)

text \<open>
  No device is ever held twice: from an empty allocation table, after any sequence of
  reservations (granted or refused) and releases, the live rows of two different devices'
  keys are distinct, so at most one live allocation names a node and a GPU index.
\<close>
theorem no_double_allocation:
  "let db = gpu_run ops \<lparr>gpus = gs, metrics = ms, allocations = []\<rparr>
   in distinct (map alloc_key (filter alloc_active (allocations db)))"
  using gpu_run_exclusive [of "\<lparr>gpus = gs, metrics = ms, allocations = []\<rparr>" ops]
  by (simp add: exclusive_def Let_def)

text \<open>
  A reservation is granted exactly when the request names at least one device, none twice,
  all of them on the node, and none is held; then precisely those devices become held by
  the new reservation.  A malformed request is a 422, a held device a 409.
\<close>
theorem reserve_all_or_nothing:
  assumes "exclusive db"
  shows "case reserve n is p b r t db of
      Inr (db', r') \<Rightarrow> r' = r \<and> valid_request n is db \<and> (\<forall>i \<in> set is. holder db (n, i) = None) \<and>
        (\<forall>k. holder db' k = (if fst k = n \<and> snd k \<in> set is then Some r else holder db k))
    | Inl e \<Rightarrow> status_code e = (if valid_request n is db then 409 else 422) \<and>
        (valid_request n is db \<longrightarrow> (\<exists>i \<in> set is. holder db (n, i) \<noteq> None))"
proof (cases "reserve n is p b r t db")
  case (Inr x)
  obtain db' r' where x: "x = (db', r')" by (cases x)
  with Inr have h: "reserve n is p b r t db = Inr (db', r')" by simp
  show ?thesis
    using reserve_Inr [THEN iffD1, OF h] reserve_holder [OF h] by (simp add: h del: reserve_Inr)
next
  case (Inl e)
  have "\<not> (valid_request n is db \<and> (\<forall>i \<in> set is. holder db (n, i) = None))"
    using Inl claims.claim_iff [OF assms, of p b t n "is" r] by (auto simp: claim_def)
  with Inl show ?thesis
    by (auto simp: reserve_def valid_request_def split: if_splits option.splits)
qed

definition sample_gpu :: "uuid \<Rightarrow> uuid \<Rightarrow> int \<Rightarrow> gpu" where
  "sample_gpu i n ix = \<lparr>gpu_id = i, gpu_node = n, gpu_index = ix, gpu_uuid = ''GPU-a'',
     gpu_name = ''A100'', gpu_memory_total = 40960, gpu_status = HEALTHY\<rparr>"

definition sample_db :: gpu_db where
  "sample_db = \<lparr>gpus = [sample_gpu 100 1 0, sample_gpu 101 1 1], metrics = [], allocations = []\<rparr>"

lemma sample_exclusive [simp]: "exclusive sample_db"
  by (simp add: exclusive_def sample_db_def)

theorem reserve_all_or_nothing_witness:
  "case reserve 1 [1, 0] ''model'' None 7 50 sample_db of
      Inr (db', r') \<Rightarrow> r' = 7 \<and> valid_request 1 [1, 0] sample_db \<and>
        (\<forall>i \<in> set [1, 0]. holder sample_db (1, i) = None) \<and>
        (\<forall>k. holder db' k = (if fst k = 1 \<and> snd k \<in> set [1, 0] then Some 7 else holder sample_db k))
    | Inl e \<Rightarrow> status_code e = (if valid_request 1 [1, 0] sample_db then 409 else 422) \<and>
        (valid_request 1 [1, 0] sample_db \<longrightarrow> (\<exists>i \<in> set [1, 0]. holder sample_db (1, i) \<noteq> None))"
  by (rule reserve_all_or_nothing) simp

text \<open>
  Two reservations that are granted one after the other on a node share no device, and a
  released reservation gives its devices back: the very same request succeeds again, no
  other holder is disturbed, and releasing twice is releasing once.
\<close>
theorem reservations_disjoint_and_reusable:
  assumes "exclusive db" "reserve n is p b r t db = Inr (db1, r)"
  shows "(case reserve n js p b r' t db1 of Inr _ \<Rightarrow> set is \<inter> set js = {} | Inl _ \<Rightarrow> True) \<and>
    (\<exists>db2. reserve n is p b r' t (release t r db1) = Inr (db2, r')) \<and>
    (\<forall>k s. holder db1 k = Some s \<and> s \<noteq> r \<longrightarrow> holder (release t r db1) k = Some s) \<and>
    release t' r (release t r db1) = release t r db1"
proof -
  have c: "claim p b t n is r db = Some db1" using assms(2) by (simp add: claim_Some)
  have "\<exists>db2. reserve n is p b r' t (release t r db1) = Inr (db2, r')"
    using claims.reclaim_after_release [OF assms(1) c, of r'] by (auto simp: claim_Some)
  moreover have "case reserve n js p b r' t db1 of Inr _ \<Rightarrow> set is \<inter> set js = {} | Inl _ \<Rightarrow> True"
  proof (cases "reserve n js p b r' t db1")
    case (Inr x)
    then have "claim p b t n js r' db1 = Some (fst x)"
      by (simp add: claim_def split: prod.splits)
    from claims.claims_disjoint [OF assms(1) c this] Inr show ?thesis by simp
  qed simp
  moreover have "\<forall>k s. holder db1 k = Some s \<and> s \<noteq> r \<longrightarrow> holder (release t r db1) k = Some s"
    using claims.others_keep_their_claim claims.claim_inv [OF assms(1) c] by blast
  ultimately show ?thesis by (simp add: release_idem)
qed

definition sample_held :: gpu_db where
  "sample_held = sample_db\<lparr>allocations :=
     [new_allocation sample_db 1 ''model'' None 7 50 0, new_allocation sample_db 1 ''model'' None 7 50 1]\<rparr>"

lemma sample_reserve: "reserve 1 [0, 1] ''model'' None 7 50 sample_db = Inr (sample_held, 7)"
  by (simp add: reserve_Inr valid_request_def gpu_at_def gpus_for_node_def sample_db_def
      sample_held_def sample_gpu_def holder_def)

theorem reservations_disjoint_and_reusable_witness:
  "status_code (projl (reserve 1 [1] ''model'' None 8 50 sample_held)) = 409 \<and>
    (\<exists>db2. reserve 1 [0, 1] ''model'' None 8 50 (release 50 7 sample_held) = Inr (db2, 8)) \<and>
    release 60 7 (release 50 7 sample_held) = release 50 7 sample_held"
proof -
  note r = reservations_disjoint_and_reusable [OF sample_exclusive sample_reserve, of "[1]" 8 60]
  have "\<exists>e. reserve 1 [1] ''model'' None 8 50 sample_held = Inl e"
    using r by (cases "reserve 1 [1] ''model'' None 8 50 sample_held") auto
  moreover have "valid_request 1 [1] sample_held"
    by (simp add: valid_request_def gpu_at_def gpus_for_node_def sample_held_def sample_db_def sample_gpu_def)
  ultimately have "status_code (projl (reserve 1 [1] ''model'' None 8 50 sample_held)) = 409"
    by (auto simp: reserve_def valid_request_def split: option.splits if_splits)
  with r show ?thesis by simp
qed

end
