(* ===== verification/Scheduler.thy ===== *)
theory Scheduler
  imports Gpu_Reservation "HOL-Library.Product_Lexorder"
begin

text \<open>
  GPU placement: \<open>backend/app/core/interfaces/scheduler.py\<close> (the data) and
  \<open>backend/app/services/scheduler.py\<close> (\<open>SimpleGpuScheduler\<close>, \<open>gpu_resources_for\<close>).
  \<open>by_node\<close> is an association list in insertion order, as a Python dict is, because
  \<open>min\<close> breaks ties by that order.  Utilisation is a rational, where the code has a
  float; reasons and rationales carry the interpolated values instead of the sentence.
\<close>

section \<open>Data\<close>

record gpu_resource =
  res_node :: uuid
  res_index :: int
  res_memory_total :: int
  res_memory_used :: int
  res_utilization :: rat
  res_reserved :: bool

definition memory_free :: "gpu_resource \<Rightarrow> int" where
  "memory_free g = max 0 (res_memory_total g - res_memory_used g)"

record placement_request =
  req_model :: uuid
  req_gpu_count :: nat
  req_memory :: int
  req_node :: "uuid option"
  req_indices :: "int list option"

datatype rationale = LeastLoaded nat int | ExplicitSelection | MockRuntime

record placement =
  pl_node :: uuid
  pl_indices :: "int list"
  pl_reservation :: "uuid option"
  pl_rationale :: rationale

datatype failure_reason =
    IndicesNeedNode
  | NoSuchIndex "int list"
  | AlreadyReserved "int list"
  | TooLittleMemory "int list" int
  | NoGpusKnown
  | NoNodeFits nat int

text \<open>The sentences, as far as their characters are modelled (an em dash is written \<open>-\<close>).\<close>

fun rationale_text :: "rationale \<Rightarrow> string" where
  "rationale_text (LeastLoaded n m) = ''least-loaded node with '' @ nat_str n
     @ '' free GPU(s) of >='' @ int_str m @ '' MiB''"
| "rationale_text ExplicitSelection = ''explicit GPU selection''"
| "rationale_text MockRuntime = ''mock runtime - no GPUs required''"

fun reason_text :: "failure_reason \<Rightarrow> string" where
  "reason_text IndicesNeedNode = ''Explicit GPU indices require a node_id.''"
| "reason_text (NoSuchIndex is) = ''Node has no GPU with index '' @ int_list_str is @ ''.''"
| "reason_text (AlreadyReserved is) =
     ''GPU(s) '' @ int_list_str is @ '' are already reserved on this node.''"
| "reason_text (TooLittleMemory is m) =
     ''GPU(s) '' @ int_list_str is @ '' have less than '' @ int_str m @ '' MiB free.''"
| "reason_text NoGpusKnown =
     ''No GPUs are known to the platform. Register a GPU node before deploying a model.''"
| "reason_text (NoNodeFits n m) = ''No node has '' @ nat_str n @ '' free GPU(s) with at least ''
     @ int_str m @ '' MiB each.''"

record placement_failure =
  fail_reason :: failure_reason
  fail_considered :: "uuid list"
  fail_details :: "(uuid \<times> nat \<times> nat \<times> nat) list"

section \<open>Grouping by node\<close>

definition usable :: "placement_request \<Rightarrow> gpu_resource \<Rightarrow> bool" where
  "usable req g = (\<not> res_reserved g \<and> \<not> memory_free g < req_memory req)"

definition set_default_append ::
    "uuid \<Rightarrow> gpu_resource \<Rightarrow> (uuid \<times> gpu_resource list) list \<Rightarrow> (uuid \<times> gpu_resource list) list" where
  "set_default_append n g d =
     (if n \<in> set (map fst d) then map (\<lambda>(k, gs). if k = n then (k, gs @ [g]) else (k, gs)) d
      else d @ [(n, [g])])"

fun group_by_node ::
    "placement_request \<Rightarrow> gpu_resource list \<Rightarrow> (uuid \<times> gpu_resource list) list
       \<Rightarrow> (uuid \<times> gpu_resource list) list" where
  "group_by_node req [] d = d"
| "group_by_node req (g # gs) d =
     group_by_node req gs (if usable req g then set_default_append (res_node g) g d else d)"

definition average_load :: "gpu_resource list \<Rightarrow> rat" where
  "average_load gs = sum_list (map res_utilization gs) / of_nat (length gs)"

definition node_candidates ::
    "placement_request \<Rightarrow> gpu_resource list \<Rightarrow> (uuid \<times> gpu_resource list) list" where
  "node_candidates req available =
     (let by_node = group_by_node req available [];
          pinned = (case req_node req of None \<Rightarrow> by_node
                    | Some n \<Rightarrow> filter (\<lambda>(k, _). k = n) by_node)
      in filter (\<lambda>(_, gs). req_gpu_count req \<le> length gs) pinned)"

section \<open>Explaining a failure\<close>

definition on_node :: "uuid \<Rightarrow> gpu_resource list \<Rightarrow> gpu_resource list" where
  "on_node n available = filter (\<lambda>g. res_node g = n) available"

definition node_counts ::
    "placement_request \<Rightarrow> gpu_resource list \<Rightarrow> uuid \<Rightarrow> nat \<times> nat \<times> nat" where
  "node_counts req available n =
     (length (filter (usable req) (on_node n available)),
      length (on_node n available),
      length (filter res_reserved (on_node n available)))"

definition explain_failure ::
    "placement_request \<Rightarrow> gpu_resource list \<Rightarrow> placement_failure" where
  "explain_failure req available =
     (let nodes = remdups (map res_node available)
      in \<lparr>fail_reason = (if available = [] then NoGpusKnown
                        else NoNodeFits (req_gpu_count req) (req_memory req)),
          fail_considered = sort nodes,
          fail_details = map (\<lambda>n. (n, node_counts req available n)) nodes\<rparr>)"

section \<open>plan\<close>

text \<open>\<open>on_node[i]\<close> of the dict comprehension: the last device listed with that index.\<close>

definition device_at :: "gpu_resource list \<Rightarrow> uuid \<Rightarrow> int \<Rightarrow> gpu_resource option" where
  "device_at available n i = find_row (\<lambda>g. res_node g = n \<and> res_index g = i) (rev available)"

definition plan_explicit ::
    "placement_request \<Rightarrow> int list \<Rightarrow> gpu_resource list \<Rightarrow> placement_failure + placement" where
  "plan_explicit req indices available =
     (case req_node req of
        None \<Rightarrow> Inl \<lparr>fail_reason = IndicesNeedNode, fail_considered = [], fail_details = []\<rparr>
      | Some n \<Rightarrow>
          (let missing = filter (\<lambda>i. device_at available n i = None) indices;
               held = filter (\<lambda>i. case device_at available n i of
                                    None \<Rightarrow> False | Some g \<Rightarrow> res_reserved g) indices;
               short = filter (\<lambda>i. case device_at available n i of
                                     None \<Rightarrow> False | Some g \<Rightarrow> memory_free g < req_memory req) indices
           in if missing \<noteq> []
              then Inl \<lparr>fail_reason = NoSuchIndex missing, fail_considered = [n], fail_details = []\<rparr>
              else if held \<noteq> []
              then Inl \<lparr>fail_reason = AlreadyReserved held, fail_considered = [n], fail_details = []\<rparr>
              else if short \<noteq> []
              then Inl \<lparr>fail_reason = TooLittleMemory short (req_memory req),
                        fail_considered = [n], fail_details = []\<rparr>
              else Inr \<lparr>pl_node = n, pl_indices = sort indices, pl_reservation = None,
                        pl_rationale = ExplicitSelection\<rparr>))"

definition choose_devices :: "nat \<Rightarrow> gpu_resource list \<Rightarrow> int list" where
  "choose_devices count gs =
     sort (map res_index (take count (sort_key (\<lambda>g. (res_utilization g, res_index g)) gs)))"

definition plan :: "placement_request \<Rightarrow> gpu_resource list \<Rightarrow> placement_failure + placement" where
  "plan req available =
     (case req_indices req of
        Some (i # is) \<Rightarrow> plan_explicit req (i # is) available
      | _ \<Rightarrow>
          (case node_candidates req available of
             [] \<Rightarrow> Inl (explain_failure req available)
           | c # cs \<Rightarrow>
               (case first_min (\<lambda>(_, gs). average_load gs) c cs of
                  (n, gs) \<Rightarrow>
                    Inr \<lparr>pl_node = n, pl_indices = choose_devices (req_gpu_count req) gs,
                         pl_reservation = None,
                         pl_rationale = LeastLoaded (req_gpu_count req) (req_memory req)\<rparr>)))"

section \<open>reserve, release, and the view of a node\<close>

definition sched_reserve ::
    "uuid \<Rightarrow> timestamp \<Rightarrow> placement_request \<Rightarrow> placement \<Rightarrow> gpu_db \<Rightarrow> (gpu_db \<times> placement) result" where
  "sched_reserve rid now req p db =
     (case reserve (pl_node p) (pl_indices p) (''model:'' @ uuid_str (req_model req)) None rid now db of
        Inl e \<Rightarrow> Inl e
      | Inr (db', r) \<Rightarrow> Inr (db', p\<lparr>pl_reservation := Some r\<rparr>))"

definition resource_of :: "gpu_db \<Rightarrow> uuid \<Rightarrow> gpu \<Rightarrow> gpu_resource" where
  "resource_of db n g =
     \<lparr>res_node = n, res_index = gpu_index g, res_memory_total = gpu_memory_total g,
      res_memory_used = (case latest_metric db (gpu_id g) of
                           None \<Rightarrow> 0 | Some m \<Rightarrow> metric_memory_used m),
      res_utilization = (case latest_metric db (gpu_id g) of
                           None \<Rightarrow> 0 | Some m \<Rightarrow> metric_utilization m),
      res_reserved = (gpu_index g \<notin> set (free_indices db n))\<rparr>"

definition gpu_resources_for :: "gpu_db \<Rightarrow> uuid list \<Rightarrow> gpu_resource list" where
  "gpu_resources_for db node_ids =
     concat (map (\<lambda>n. map (resource_of db n) (gpus_for_node db n)) node_ids)"

section \<open>Lemmas: grouping\<close>

lemma set_default_append_keys:
  "set (map fst (set_default_append n g d)) = insert n (set (map fst d))"
  by (force simp: set_default_append_def)

lemma set_default_append_distinct:
  "distinct (map fst d) \<Longrightarrow> distinct (map fst (set_default_append n g d))"
proof -
  have "map fst (map (\<lambda>(k, gs). if k = n then (k, gs @ [g]) else (k, gs)) d) = map fst d"
    by (induction d) auto
  then show "distinct (map fst d) \<Longrightarrow> distinct (map fst (set_default_append n g d))"
    by (simp add: set_default_append_def del: map_map)
qed

lemma set_default_append_lookup:
  "map_of (set_default_append n g d) k =
     (if k = n then Some (case map_of d n of None \<Rightarrow> [g] | Some gs \<Rightarrow> gs @ [g]) else map_of d k)"
proof -
  have upd: "map_of (map (\<lambda>(k, gs). if k = n then (k, gs @ [g]) else (k, gs)) d) k
      = (if k = n then map_option (\<lambda>gs. gs @ [g]) (map_of d n) else map_of d k)" for k
    by (induction d) auto
  show ?thesis
  proof (cases "n \<in> set (map fst d)")
    case True
    then obtain gs where "map_of d n = Some gs"
      by (metis map_of_eq_None_iff not_None_eq set_map)
    with True show ?thesis by (simp add: set_default_append_def upd del: set_map)
  next
    case False
    then have "map_of d n = None" by (simp add: map_of_eq_None_iff)
    with False show ?thesis
      by (auto simp: set_default_append_def map_add_def split: option.splits)
  qed
qed

definition merged :: "gpu_resource list option \<Rightarrow> gpu_resource list \<Rightarrow> gpu_resource list option" where
  "merged old new = (case old of None \<Rightarrow> if new = [] then None else Some new
                     | Some gs \<Rightarrow> Some (gs @ new))"

lemma group_by_node_lookup:
  "map_of (group_by_node req available d) n
     = merged (map_of d n) (filter (usable req) (on_node n available))"
proof (induction req available d rule: group_by_node.induct)
  case (1 req d)
  then show ?case by (simp add: merged_def on_node_def split: option.splits)
next
  case (2 req g gs d)
  then show ?case
    by (auto simp: merged_def on_node_def set_default_append_lookup split: option.splits)
qed

lemma group_by_node_distinct:
  "distinct (map fst d) \<Longrightarrow> distinct (map fst (group_by_node req available d))"
  by (induction req available d rule: group_by_node.induct)
     (auto simp: set_default_append_distinct)

lemma in_group_iff:
  "(n, gs) \<in> set (group_by_node req available []) \<longleftrightarrow>
     gs = filter (usable req) (on_node n available) \<and> gs \<noteq> []"
proof -
  have "(n, gs) \<in> set (group_by_node req available []) \<longleftrightarrow>
      map_of (group_by_node req available []) n = Some gs"
    using group_by_node_distinct [of "[]" req available] by (auto simp: map_of_eq_Some_iff)
  then show ?thesis by (auto simp: group_by_node_lookup merged_def)
qed

lemma in_candidates_iff:
  "(n, gs) \<in> set (node_candidates req available) \<longleftrightarrow>
     gs = filter (usable req) (on_node n available) \<and> gs \<noteq> [] \<and>
     req_gpu_count req \<le> length gs \<and> (case req_node req of None \<Rightarrow> True | Some m \<Rightarrow> n = m)"
  by (auto simp: node_candidates_def Let_def in_group_iff split: option.splits)

lemma choose_devices_props:
  assumes "count \<le> length gs"
  shows "length (choose_devices count gs) = count" "sorted (choose_devices count gs)"
    "set (choose_devices count gs) \<subseteq> res_index ` set gs"
    "distinct (map res_index gs) \<Longrightarrow> distinct (choose_devices count gs)"
proof -
  let ?s = "sort_key (\<lambda>g. (res_utilization g, res_index g)) gs"
  show "length (choose_devices count gs) = count" "sorted (choose_devices count gs)"
    using assms by (simp_all add: choose_devices_def)
  show "set (choose_devices count gs) \<subseteq> res_index ` set gs"
    using set_take_subset [of count ?s] by (force simp: choose_devices_def)
  assume "distinct (map res_index gs)"
  then have "distinct (map res_index ?s)"
    by (simp add: distinct_map)
  then have "distinct (take count (map res_index ?s))" by (rule distinct_take)
  then show "distinct (choose_devices count gs)"
    by (simp add: choose_devices_def take_map)
qed

section \<open>Lemmas: plan\<close>

definition auto_request :: "placement_request \<Rightarrow> bool" where
  "auto_request req = (req_indices req = None \<or> req_indices req = Some [])"

lemma plan_auto:
  "auto_request req \<Longrightarrow> plan req available =
     (case node_candidates req available of
        [] \<Rightarrow> Inl (explain_failure req available)
      | c # cs \<Rightarrow>
          (case first_min (\<lambda>(_, gs). average_load gs) c cs of
             (n, gs) \<Rightarrow>
               Inr \<lparr>pl_node = n, pl_indices = choose_devices (req_gpu_count req) gs,
                    pl_reservation = None,
                    pl_rationale = LeastLoaded (req_gpu_count req) (req_memory req)\<rparr>))"
  by (auto simp: auto_request_def plan_def)

lemma plan_auto_Inr:
  assumes "auto_request req" "plan req available = Inr p"
  obtains gs where "(pl_node p, gs) \<in> set (node_candidates req available)"
    "pl_indices p = choose_devices (req_gpu_count req) gs" "pl_reservation p = None"
    "\<And>n hs. (n, hs) \<in> set (node_candidates req available) \<Longrightarrow> average_load gs \<le> average_load hs"
proof (cases "node_candidates req available")
  case Nil
  with assms show ?thesis by (simp add: plan_auto)
next
  case (Cons c cs)
  obtain n gs where m: "first_min (\<lambda>(_, gs). average_load gs) c cs = (n, gs)" by fastforce
  have "(n, gs) \<in> set (c # cs)"
    using first_min_in [of "\<lambda>(_, gs). average_load gs" c cs] m by simp
  moreover have "average_load gs \<le> average_load hs" if "(k, hs) \<in> set (c # cs)" for k hs
    using first_min_le [OF that, of "\<lambda>(_, gs). average_load gs"] m by simp
  ultimately show ?thesis
    using assms Cons m that [of gs] by (auto simp: plan_auto)
qed

lemma plan_auto_Inl:
  "auto_request req \<Longrightarrow>
   (\<exists>f. plan req available = Inl f) \<longleftrightarrow> node_candidates req available = []"
  by (auto simp: plan_auto split: list.splits prod.splits)

lemma candidates_empty_iff:
  "node_candidates req available = [] \<longleftrightarrow>
     (\<forall>n. (case req_node req of None \<Rightarrow> True | Some m \<Rightarrow> n = m) \<longrightarrow>
          length (filter (usable req) (on_node n available)) < max 1 (req_gpu_count req))"
proof -
  have "node_candidates req available = [] \<longleftrightarrow>
      (\<forall>n gs. (n, gs) \<notin> set (node_candidates req available))"
    by (metis last_in_set prod.exhaust_sel list.set(1) empty_iff)
  also have "\<dots> \<longleftrightarrow> (\<forall>n. (case req_node req of None \<Rightarrow> True | Some m \<Rightarrow> n = m) \<longrightarrow>
          length (filter (usable req) (on_node n available)) < max 1 (req_gpu_count req))"
    unfolding in_candidates_iff by (simp add: less_max_iff_disj not_le) (metis length_greater_0_conv less_one not_gr_zero)
  finally show ?thesis .
qed

section \<open>Properties\<close>

definition well_indexed :: "gpu_resource list \<Rightarrow> bool" where
  "well_indexed available = distinct (map (\<lambda>g. (res_node g, res_index g)) available)"

lemma well_indexed_node: "well_indexed available \<Longrightarrow> distinct (map res_index (filter P (on_node n available)))"
  by (auto simp: well_indexed_def on_node_def distinct_map inj_on_def)

text \<open>
  C5. A placement the scheduler chooses itself is sound and least loaded: exactly the number
  of devices asked for, no device twice, in ascending order, each of them an unreserved
  device of the chosen node with enough free memory, the node being the pinned one if the
  request pins one; and no node that could also take the request has a lower average
  utilisation over its usable devices.
\<close>
theorem plan_sound_and_least_loaded:
  assumes "auto_request req" "well_indexed available" "plan req available = Inr p"
  shows "length (pl_indices p) = req_gpu_count req \<and> sorted (pl_indices p) \<and>
    distinct (pl_indices p) \<and> pl_reservation p = None \<and>
    (\<forall>m. req_node req = Some m \<longrightarrow> pl_node p = m) \<and>
    (\<forall>i \<in> set (pl_indices p). \<exists>g \<in> set available.
       res_node g = pl_node p \<and> res_index g = i \<and> usable req g) \<and>
    (\<forall>n hs. (n, hs) \<in> set (node_candidates req available) \<longrightarrow>
       average_load (filter (usable req) (on_node (pl_node p) available)) \<le> average_load hs)"
proof -
  obtain gs where gs: "(pl_node p, gs) \<in> set (node_candidates req available)"
    "pl_indices p = choose_devices (req_gpu_count req) gs" "pl_reservation p = None"
    and least: "\<And>n hs. (n, hs) \<in> set (node_candidates req available) \<Longrightarrow>
      average_load gs \<le> average_load hs"
    using plan_auto_Inr [OF assms(1,3)] by blast
  have eq: "gs = filter (usable req) (on_node (pl_node p) available)"
    and len: "req_gpu_count req \<le> length gs"
    and pin: "case req_node req of None \<Rightarrow> True | Some m \<Rightarrow> pl_node p = m"
    using gs(1) by (auto simp: in_candidates_iff)
  note ch = choose_devices_props [OF len]
  have "\<forall>i \<in> set (pl_indices p). \<exists>g \<in> set available.
      res_node g = pl_node p \<and> res_index g = i \<and> usable req g"
    using ch(3) gs(2) eq by (fastforce simp: on_node_def)
  moreover have "distinct (pl_indices p)"
    using ch(4) gs(2) eq well_indexed_node [OF assms(2)] by simp
  ultimately show ?thesis using ch gs pin least eq by auto
qed

definition sample_view :: "gpu_resource list" where
  "sample_view =
    [\<lparr>res_node = 1, res_index = 0, res_memory_total = 40960, res_memory_used = 0,
      res_utilization = 50, res_reserved = False\<rparr>,
     \<lparr>res_node = 2, res_index = 0, res_memory_total = 40960, res_memory_used = 1024,
      res_utilization = 5, res_reserved = False\<rparr>,
     \<lparr>res_node = 2, res_index = 1, res_memory_total = 40960, res_memory_used = 0,
      res_utilization = 10, res_reserved = False\<rparr>]"

definition sample_request :: placement_request where
  "sample_request = \<lparr>req_model = 9, req_gpu_count = 2, req_memory = 30000, req_node = None,
     req_indices = None\<rparr>"

definition sample_placement :: placement where
  "sample_placement = \<lparr>pl_node = 2, pl_indices = [0, 1], pl_reservation = None,
     pl_rationale = LeastLoaded 2 30000\<rparr>"

lemma sample_plan: "plan sample_request sample_view = Inr sample_placement"
  by (simp add: sample_request_def sample_view_def sample_placement_def plan_def
      node_candidates_def usable_def memory_free_def set_default_append_def choose_devices_def)

theorem plan_sound_and_least_loaded_witness:
  "length (pl_indices sample_placement) = req_gpu_count sample_request \<and>
    sorted (pl_indices sample_placement) \<and> distinct (pl_indices sample_placement) \<and>
    list_all (\<lambda>i. \<exists>g \<in> set sample_view.
       res_node g = pl_node sample_placement \<and> res_index g = i \<and> usable sample_request g)
      (pl_indices sample_placement) \<and>
    list_all (\<lambda>(n, hs). average_load
         (filter (usable sample_request) (on_node (pl_node sample_placement) sample_view)) \<le> average_load hs)
      (node_candidates sample_request sample_view)"
proof -
  have "auto_request sample_request" "well_indexed sample_view"
    by (simp_all add: auto_request_def sample_request_def well_indexed_def sample_view_def)
  from plan_sound_and_least_loaded [OF this sample_plan]
  show ?thesis unfolding list_all_iff case_prod_beta by (metis prod.collapse)
qed

text \<open>
  The scheduler refuses only when it must: with no explicit devices, planning fails exactly
  when no permitted node has the requested number of usable devices (at least one, since a
  node with none is never considered).
\<close>
theorem plan_complete:
  assumes "auto_request req"
  shows "(\<exists>f. plan req available = Inl f) \<longleftrightarrow>
    (\<forall>n. (case req_node req of None \<Rightarrow> True | Some m \<Rightarrow> n = m) \<longrightarrow>
       length (filter (usable req) (on_node n available)) < max 1 (req_gpu_count req))"
  using plan_auto_Inl [OF assms] candidates_empty_iff by simp

theorem plan_complete_witness:
  "(\<exists>f. plan sample_request sample_view = Inl f) \<longleftrightarrow>
    (\<forall>n. (case req_node sample_request of None \<Rightarrow> True | Some m \<Rightarrow> n = m) \<longrightarrow>
       length (filter (usable sample_request) (on_node n sample_view))
         < max 1 (req_gpu_count sample_request))"
  by (rule plan_complete) (simp add: auto_request_def sample_request_def)

text \<open>
  An operator's explicit device list is validated, never taken blindly: it is placed exactly
  when a node is named and every listed device is on it, free and large enough; the
  placement is then that node with the listed devices in ascending order.
\<close>
theorem plan_explicit_exact:
  "plan (req\<lparr>req_indices := Some (i # is)\<rparr>) available = Inr p \<longleftrightarrow>
     (\<exists>n. req_node req = Some n \<and>
       (\<forall>j \<in> set (i # is). \<exists>g. device_at available n j = Some g \<and> usable req g) \<and>
       p = \<lparr>pl_node = n, pl_indices = sort (i # is), pl_reservation = None,
            pl_rationale = ExplicitSelection\<rparr>)"
proof -
  let ?js = "i # is"
  have ok: "(\<forall>j \<in> set js. \<exists>g. device_at available n j = Some g \<and> usable req g) \<longleftrightarrow>
      filter (\<lambda>i. device_at available n i = None) js = [] \<and>
      filter (\<lambda>i. case device_at available n i of
                    None \<Rightarrow> False | Some g \<Rightarrow> res_reserved g) js = [] \<and>
      filter (\<lambda>i. case device_at available n i of
                    None \<Rightarrow> False | Some g \<Rightarrow> memory_free g < req_memory req) js = []" for n js
    by (auto simp: filter_empty_conv usable_def split: option.splits)
  have red: "plan (req\<lparr>req_indices := Some ?js\<rparr>) available =
      plan_explicit (req\<lparr>req_indices := Some ?js\<rparr>) ?js available"
    by (simp add: plan_def)
  show ?thesis
  proof (cases "req_node req")
    case None
    then show ?thesis by (simp add: red plan_explicit_def)
  next
    case (Some n)
    have split: "((if a then Inl x else if b then Inl y else if c then Inl z else Inr q) = Inr p)
        = (\<not> a \<and> \<not> b \<and> \<not> c \<and> p = q)"
      for a b c and x y z :: placement_failure and q by auto
    have e: "req_node (req\<lparr>req_indices := Some ?js\<rparr>) = Some n"
      "req_memory (req\<lparr>req_indices := Some ?js\<rparr>) = req_memory req"
      by (simp_all add: Some)
    show ?thesis
      unfolding red plan_explicit_def Let_def
      by (simp only: Some e option.case split ok option.inject ex_simps simp_thms not_not) blast
  qed
qed

theorem plan_explicit_exact_witness:
  "plan (sample_request\<lparr>req_node := Some 2, req_indices := Some [1, 0]\<rparr>) sample_view =
     Inr \<lparr>pl_node = 2, pl_indices = [0, 1], pl_reservation = None, pl_rationale = ExplicitSelection\<rparr>"
proof -
  have "\<forall>j \<in> set [1, 0]. \<exists>g. device_at sample_view 2 j = Some g \<and> usable (sample_request\<lparr>req_node := Some 2\<rparr>) g"
    by (simp add: device_at_def sample_view_def usable_def memory_free_def sample_request_def)
  then show ?thesis
    using plan_explicit_exact [of 1 "[0]" "sample_request\<lparr>req_node := Some 2\<rparr>" sample_view
      "\<lparr>pl_node = 2, pl_indices = [0, 1], pl_reservation = None, pl_rationale = ExplicitSelection\<rparr>"]
    by simp
qed

end
