(* ===== verification/Nodes.thy ===== *)
theory Nodes
  imports Platform_Prelude "HOL-Library.List_Lexorder" "HOL-Library.Char_ord"
begin

text \<open>
  The \<open>nodes\<close> table (\<open>backend/app/models/infrastructure.py\<close>) and \<open>NodeRepository\<close>
  (\<open>backend/app/repositories/infrastructure.py\<close>).  Names are ordered by code point.
\<close>

datatype node_status = ONLINE | OFFLINE | DEGRADED | UNKNOWN_NODE

datatype node_role = GPU_NODE | CPU_NODE

record node =
  node_id :: uuid
  node_name :: string
  node_description :: "string option"
  hostname :: "string option"
  ip_address :: "string option"
  agent_url :: string
  agent_token_encrypted :: string
  agent_version :: "string option"
  agent_verify_tls :: bool
  node_role :: node_role
  node_status :: node_status
  status_detail :: "string option"
  os_info :: "string option"
  kernel_version :: "string option"
  architecture :: "string option"
  cpu_model :: "string option"
  cpu_cores :: "int option"
  memory_total_mib :: "int option"
  docker_version :: "string option"
  nvidia_runtime_available :: bool
  nvidia_driver_version :: "string option"
  cuda_version :: "string option"
  gpu_probe :: "string option"
  gpu_synthetic :: bool
  last_seen_at :: "timestamp option"
  node_labels :: "(string \<times> json) list"

definition status_text :: "node_status \<Rightarrow> string" where
  "status_text s = (case s of ONLINE \<Rightarrow> ''ONLINE'' | OFFLINE \<Rightarrow> ''OFFLINE''
     | DEGRADED \<Rightarrow> ''DEGRADED'' | UNKNOWN_NODE \<Rightarrow> ''UNKNOWN'')"

section \<open>NodeRepository\<close>

definition get_node :: "uuid \<Rightarrow> node list \<Rightarrow> node option" where
  "get_node i nodes = find_row (\<lambda>n. node_id n = i) nodes"

definition get_by_name :: "string \<Rightarrow> node list \<Rightarrow> node option" where
  "get_by_name nm nodes = find_row (\<lambda>n. node_name n = nm) nodes"

definition list_all_nodes :: "nat \<Rightarrow> nat \<Rightarrow> node list \<Rightarrow> node list" where
  "list_all_nodes limit offset nodes = take limit (drop offset (sort_key node_name nodes))"

text \<open>\<open>labels->>'disabled'\<close>: text of a JSON scalar, \<open>NULL\<close> (\<^term>\<open>None\<close>) for an absent key or null;
  what a number, list or object prints as is immaterial here, it is not \<open>true\<close>.\<close>

definition label_text :: "string \<Rightarrow> node \<Rightarrow> string option" where
  "label_text key n = (case json_get (node_labels n) key of
     Some (JStr s) \<Rightarrow> Some s
   | Some (JBool b) \<Rightarrow> Some (if b then ''true'' else ''false'')
   | Some (JInt i) \<Rightarrow> Some (int_str i)
   | Some (JNum _) \<Rightarrow> Some ''0.0''
   | Some (JList _) \<Rightarrow> Some ''[...]''
   | Some (JObj _) \<Rightarrow> Some ''{...}''
   | _ \<Rightarrow> None)"

definition pollable :: "node \<Rightarrow> bool" where
  "pollable n = ((case label_text ''disabled'' n of None \<Rightarrow> ''false'' | Some s \<Rightarrow> s) \<noteq> ''true'')"

definition list_pollable :: "node list \<Rightarrow> node list" where
  "list_pollable nodes = filter pollable nodes"

lemma get_node_Some: "get_node i nodes = Some n \<Longrightarrow> n \<in> set nodes \<and> node_id n = i"
  unfolding get_node_def by (rule find_row_Some)

lemma set_list_all_nodes: "length nodes \<le> limit \<Longrightarrow> set (list_all_nodes limit 0 nodes) = set nodes"
  by (simp add: list_all_nodes_def)

lemma list_all_nodes_sub: "n \<in> set (list_all_nodes limit offset nodes) \<Longrightarrow> n \<in> set nodes"
  unfolding list_all_nodes_def
  by (metis in_set_dropD in_set_takeD set_sort)

text \<open>A node that is merely offline stays pollable: only the label takes it out.\<close>

lemma pollable_status: "pollable (n\<lparr>node_status := s\<rparr>) = pollable n"
  by (simp add: pollable_def label_text_def)

end
