(* ===== verification/Audit_Trail.thy ===== *)
theory Audit_Trail
  imports Platform_Prelude
begin

text \<open>
  The audit trail: \<open>backend/app/services/audit.py\<close> (redaction, the two write paths) and
  the filters of \<open>backend/app/repositories/audit.py\<close>.

  A request is a transaction.  An operation of a service returns either an error, and then
  the caller's changes are rolled back, or its value with the changed tables; beside that
  it lists the records it wrote through \<open>record_independent\<close>, which commit on their own.
  \<open>run_request\<close> puts the two together the way \<open>session_scope\<close> does.
\<close>

section \<open>Records\<close>

datatype audit_result = SUCCESS | FAILURE | DENIED

text \<open>The actions of \<open>AuditAction\<close>; the last two are the literals the permission
  dependencies record.\<close>

datatype audit_action =
    USER_LOGIN | USER_LOGOUT | USER_TOKEN_REFRESHED | USER_CREATED | USER_UPDATED
  | USER_DELETED | PERMISSION_CHANGED | ROLE_ASSIGNED | API_KEY_CREATED | API_KEY_REVOKED
  | API_CLIENT_CREATED | MODEL_REGISTERED | MODEL_DEPLOYED | MODEL_STOPPED | MODEL_DELETED
  | AGENT_CREATED | AGENT_UPDATED | AGENT_EXECUTED | TOOL_ENABLED | TOOL_EXECUTED
  | TOOL_APPROVAL_REQUESTED | TOOL_APPROVAL_GRANTED | TOOL_APPROVAL_DENIED | TOOL_DENIED
  | AGENT_VERSION_CREATED | AGENT_DELETED | KNOWLEDGE_BASE_CREATED | KNOWLEDGE_BASE_DELETED
  | DOCUMENT_UPLOADED | DOCUMENT_DELETED | MEMORY_DELETED | MCP_SERVER_REGISTERED
  | MCP_TOOLS_DISCOVERED | MCP_REGISTERED | NODE_REGISTERED | NODE_REMOVED
  | NODE_ENROLLMENT_CREATED | NODE_ENROLLMENT_REVOKED | NODE_ENROLLMENT_FAILED
  | NODE_ENROLLMENT_REUSED | NODE_ENROLLED | NODE_REENROLLED | CONTAINER_ACTION
  | PERMISSION_CHECK_FAILED | SUPERUSER_CHECK_FAILED

record audit_entry =
  aud_action :: audit_action
  aud_result :: audit_result
  aud_user :: "uuid option"
  aud_username :: string
  aud_resource_type :: "string option"
  aud_resource_id :: "string option"
  aud_message :: "string option"
  aud_meta :: json

text \<open>The request context supplies the address and the request id; no caller passes them.\<close>

record audit_row = audit_entry +
  aud_ip :: "string option"
  aud_request :: "string option"
  aud_at :: timestamp

section \<open>Redaction\<close>

definition redact_keys :: "string list" where
  "redact_keys =
     [''password'', ''new_password'', ''old_password'', ''secret'', ''token'', ''access_token'',
      ''refresh_token'', ''api_key'', ''apikey'', ''authorization'', ''private_key'',
      ''bind_password'', ''encryption_key'', ''credentials'', ''agent_token'',
      ''agent_token_encrypted'', ''enrollment_token'']"

definition sensitive :: "string \<Rightarrow> bool" where
  "sensitive key = (lower key \<in> set redact_keys)"

definition redacted :: json where
  "redacted = JStr ''[REDACTED]''"

fun redact_at :: "nat \<Rightarrow> json \<Rightarrow> json"
and redact_fields :: "nat \<Rightarrow> (string \<times> json) list \<Rightarrow> (string \<times> json) list"
and redact_items :: "nat \<Rightarrow> json list \<Rightarrow> json list" where
  "redact_at depth (JObj fs) =
     (if 6 < depth then JObj fs else JObj (redact_fields depth fs))"
| "redact_at depth (JList items) =
     (if 6 < depth then JList items else JList (redact_items depth items))"
| "redact_at depth v = v"
| "redact_fields depth [] = []"
| "redact_fields depth ((key, val) # rest) =
     (key, if sensitive key then redacted else redact_at (depth + 1) val)
       # redact_fields depth rest"
| "redact_items depth [] = []"
| "redact_items depth (item # rest) = redact_at (depth + 1) item # redact_items depth rest"

definition redact :: "json \<Rightarrow> json" where
  "redact value = redact_at 0 value"

section \<open>Writing records\<close>

definition build_entry ::
    "audit_action \<Rightarrow> audit_result \<Rightarrow> uuid option \<Rightarrow> string \<Rightarrow> string option \<Rightarrow> string option
       \<Rightarrow> string option \<Rightarrow> json \<Rightarrow> audit_entry" where
  "build_entry action res user username rtype rid message metadata =
     \<lparr>aud_action = action, aud_result = res, aud_user = user, aud_username = username,
      aud_resource_type = rtype, aud_resource_id = rid, aud_message = message,
      aud_meta = redact metadata\<rparr>"

definition record_entry ::
    "audit_action \<Rightarrow> uuid option \<Rightarrow> string \<Rightarrow> string \<Rightarrow> string \<Rightarrow> string option \<Rightarrow> json
       \<Rightarrow> audit_entry list \<Rightarrow> audit_entry list" where
  "record_entry action user username rtype rid message metadata trail =
     trail @ [build_entry action SUCCESS user username (Some rtype) (Some rid) message metadata]"

definition denied_entry ::
    "audit_action \<Rightarrow> string \<Rightarrow> uuid option \<Rightarrow> string option \<Rightarrow> string option \<Rightarrow> audit_entry" where
  "denied_entry action username user required_permission message =
     build_entry action DENIED user username None None
       (Some (or_str message ''Permission denied''))
       (case required_permission of
          Some (c # s) \<Rightarrow> JObj [(''required_permission'', JStr (c # s))] | _ \<Rightarrow> JObj [])"

text \<open>
  \<open>'d\<close> is the database a request works on.  The outcome's independent records reach the
  trail whether the request commits or rolls back.
\<close>

type_synonym ('d, 'a) op = "'d \<Rightarrow> (('a \<times> 'd) result) \<times> audit_entry list"

definition run_request ::
    "('d, 'a) op \<Rightarrow> 'd \<times> audit_entry list \<Rightarrow> 'a result \<times> 'd \<times> audit_entry list" where
  "run_request f s =
     (case f (fst s) of
        (Inl e, ind) \<Rightarrow> (Inl e, fst s, snd s @ ind)
      | (Inr (a, d), ind) \<Rightarrow> (Inr a, d, snd s @ ind))"

section \<open>Queries\<close>

record audit_filter =
  by_user :: "uuid option"
  by_action :: "audit_action option"
  by_rtype :: "string option"
  by_rid :: "string option"
  by_result :: "audit_result option"
  by_since :: "timestamp option"
  by_until :: "timestamp option"

definition audit_match :: "audit_filter \<Rightarrow> audit_row \<Rightarrow> bool" where
  "audit_match q r =
     ((case by_user q of None \<Rightarrow> True | Some u \<Rightarrow> aud_user r = Some u) \<and>
      (case by_action q of None \<Rightarrow> True | Some a \<Rightarrow> aud_action r = a) \<and>
      (truthy (by_rtype q) \<longrightarrow> aud_resource_type r = by_rtype q) \<and>
      (truthy (by_rid q) \<longrightarrow> aud_resource_id r = by_rid q) \<and>
      (case by_result q of None \<Rightarrow> True | Some x \<Rightarrow> aud_result r = x) \<and>
      (case by_since q of None \<Rightarrow> True | Some t \<Rightarrow> t \<le> aud_at r) \<and>
      (case by_until q of None \<Rightarrow> True | Some t \<Rightarrow> aud_at r \<le> t))"

definition audit_search :: "audit_filter \<Rightarrow> nat \<Rightarrow> nat \<Rightarrow> audit_row list \<Rightarrow> audit_row list" where
  "audit_search q limit offset rows =
     take limit (drop offset (sort_key (\<lambda>r. - aud_at r) (filter (audit_match q) rows)))"

definition audit_count :: "audit_filter \<Rightarrow> audit_row list \<Rightarrow> nat" where
  "audit_count q rows = length (filter (audit_match q) rows)"

section \<open>What redaction guarantees\<close>

text \<open>How deep the containers of a value nest, and a value with no sensitive field left.\<close>

fun nesting :: "json \<Rightarrow> nat"
and nesting_fields :: "(string \<times> json) list \<Rightarrow> nat"
and nesting_items :: "json list \<Rightarrow> nat" where
  "nesting (JObj fs) = Suc (nesting_fields fs)"
| "nesting (JList items) = Suc (nesting_items items)"
| "nesting v = 0"
| "nesting_fields [] = 0"
| "nesting_fields ((key, val) # rest) = max (nesting val) (nesting_fields rest)"
| "nesting_items [] = 0"
| "nesting_items (item # rest) = max (nesting item) (nesting_items rest)"

fun clean :: "json \<Rightarrow> bool"
and clean_fields :: "(string \<times> json) list \<Rightarrow> bool"
and clean_items :: "json list \<Rightarrow> bool" where
  "clean (JObj fs) = clean_fields fs"
| "clean (JList items) = clean_items items"
| "clean v = True"
| "clean_fields [] = True"
| "clean_fields ((key, val) # rest) =
     ((if sensitive key then val = redacted else clean val) \<and> clean_fields rest)"
| "clean_items [] = True"
| "clean_items (item # rest) = (clean item \<and> clean_items rest)"

lemma clean_redact_at:
  "nesting v + d \<le> 7 \<Longrightarrow> clean (redact_at d v)"
  "nesting_fields fs + d \<le> 6 \<Longrightarrow> clean_fields (redact_fields d fs)"
  "nesting_items js + d \<le> 6 \<Longrightarrow> clean_items (redact_items d js)"
  by (induction d v and d fs and d js rule: redact_at_redact_fields_redact_items.induct) auto

lemma redact_at_idem:
  "redact_at d (redact_at d v) = redact_at d v"
  "redact_fields d (redact_fields d fs) = redact_fields d fs"
  "redact_items d (redact_items d js) = redact_items d js"
  by (induction d v and d fs and d js rule: redact_at_redact_fields_redact_items.induct)
     (auto simp: redacted_def)

lemma redact_at_clean:
  "clean v \<Longrightarrow> redact_at d v = v"
  "clean_fields fs \<Longrightarrow> redact_fields d fs = fs"
  "clean_items js \<Longrightarrow> redact_items d js = js"
  by (induction d v and d fs and d js rule: redact_at_redact_fields_redact_items.induct)
     (auto split: if_splits)

section \<open>Properties\<close>

text \<open>
  Redaction scrubs every sensitive field (matched without regard to case) of a value whose
  containers nest at most seven deep, wherever it stands, changes nothing in a value that
  has none, and redacting twice is redacting once.
\<close>
theorem redact_scrubs:
  "(nesting v \<le> 7 \<longrightarrow> clean (redact v)) \<and> (clean v \<longrightarrow> redact v = v) \<and> redact (redact v) = redact v"
  using clean_redact_at(1) [of v 0] redact_at_clean(1) [of v 0] redact_at_idem(1) [of 0 v]
  by (simp add: redact_def)

definition wrapped_secret :: "nat \<Rightarrow> json" where
  "wrapped_secret n = ((\<lambda>v. JList [v]) ^^ n) (JObj [(''password'', JStr ''hunter2'')])"

theorem redact_scrubs_witness:
  "clean (redact (wrapped_secret 6)) \<and> redact (redacted) = redacted \<and>
   redact (redact (wrapped_secret 6)) = redact (wrapped_secret 6)"
proof -
  have "nesting (wrapped_secret 6) \<le> 7" "clean redacted"
    by (simp_all add: wrapped_secret_def redacted_def eval_nat_numeral)
  then show ?thesis using redact_scrubs [of "wrapped_secret 6"] redact_scrubs [of redacted] by blast
qed

text \<open>
  The depth cap fails open: seven containers above it, a password is written to the trail
  as it came, the value of the whole being returned unchanged.
\<close>
theorem redact_leaks_below_cap:
  "redact (wrapped_secret 7) = wrapped_secret 7 \<and> \<not> clean (wrapped_secret 7) \<and>
   redact (wrapped_secret 6) \<noteq> wrapped_secret 6"
  by (simp add: wrapped_secret_def redact_def redacted_def sensitive_def redact_keys_def lower_def
      lower_char_def Let_def eval_nat_numeral)

end
