(* ===== verification/Deployment.thy ===== *)
theory Deployment
  imports Compute_Backend Scheduler Nodes Audit_Trail
begin

text \<open>
  \<open>DeploymentService\<close> (\<open>backend/app/services/deployment.py\<close>): request, advance, stop, restart,
  delete and reconcile, over the tables, the GPU reservations of \<open>Gpu_Reservation\<close>, the
  scheduler and a factory of compute backends.

  An operation returns what it returns (an error is an \<^const>\<open>Inl\<close>, an exception nobody
  expects a \<^const>\<open>Raised\<close>) with the state at that point; \<open>request_scope\<close> is the transaction
  of an HTTP request, which keeps the tables only on success.  What a call did to the
  hosts, \<open>w_runtime\<close>, no rollback undoes.
\<close>

section \<open>State\<close>

record 'r world =
  w_models :: "model list"
  w_nodes :: "node list"
  w_deployments :: "deployment list"
  w_gpus :: gpu_db
  w_trail :: "audit_entry list"
  w_runtime :: 'r

type_synonym ('r, 'a) action = "'r world \<Rightarrow> 'a result outcome \<times> 'r world"

definition request_scope :: "('r, 'a) action \<Rightarrow> ('r, 'a) action" where
  "request_scope f w =
     (case f w of
        (Done (Inr a), w') \<Rightarrow> (Done (Inr a), w')
      | (res, w') \<Rightarrow> (res, w\<lparr>w_runtime := w_runtime w'\<rparr>))"

record deployment_spec =
  sp_model :: uuid
  sp_node :: "uuid option"
  sp_gpus :: "int list option"
  sp_runtime :: "string option"
  sp_tensor_parallel :: "nat option"
  sp_max_len :: "nat option"
  sp_memory_fraction :: "rat option"

text \<open>A backend for a node; building one may itself raise (the node's token does not decrypt).\<close>

type_synonym 'r factory = "node \<Rightarrow> string + 'r compute_backend"

definition put_deployment :: "deployment \<Rightarrow> 'r world \<Rightarrow> 'r world" where
  "put_deployment d w =
     w\<lparr>w_deployments := update_rows (\<lambda>x. dep_id x = dep_id d) (\<lambda>_. d) (w_deployments w)\<rparr>"

definition node_for :: "'r world \<Rightarrow> deployment \<Rightarrow> node option" where
  "node_for w d = (case dep_node d of None \<Rightarrow> None | Some n \<Rightarrow> get_node n (w_nodes w))"

definition image_for :: "model_settings \<Rightarrow> string \<Rightarrow> string result" where
  "image_for st runtime =
     (case map_of (set_runtime_images st) runtime of
        Some (c # s) \<Rightarrow> Inr (c # s)
      | _ \<Rightarrow> Inl (ValidationError ''No container image is configured for this runtime.''))"

section \<open>Requesting a deployment\<close>

definition validate_model :: "model_settings \<Rightarrow> model \<Rightarrow> string \<Rightarrow> unit result" where
  "validate_model st m runtime =
     (if model_status m = DISABLED then Inl (ValidationError ''The model is disabled.'')
      else if model_status m \<noteq> AVAILABLE
      then Inl (ValidationError ''The model is not AVAILABLE. Import it from disk first.'')
      else map_sum id (\<lambda>_. ()) (image_for st runtime))"

definition pick_node :: "node list \<Rightarrow> deployment_spec \<Rightarrow> node option result" where
  "pick_node nodes sp =
     (case sp_node sp of
        None \<Rightarrow> Inr None
      | Some i \<Rightarrow>
          (case get_node i nodes of
             None \<Rightarrow> Inl (NotFoundError ''No node with this id.'')
           | Some n \<Rightarrow>
               if node_status n \<noteq> ONLINE
               then Inl (ConflictError ''The node is not ONLINE. Deploy to an ONLINE node.'')
               else Inr (Some n)))"

definition first_online_node :: "node list \<Rightarrow> node result" where
  "first_online_node nodes =
     (case find_row (\<lambda>n. node_status n = ONLINE) (list_all_nodes 100 0 nodes) of
        None \<Rightarrow> Inl (ConflictError ''No ONLINE node is available.'')
      | Some n \<Rightarrow> Inr n)"

definition placement_request_for ::
    "model \<Rightarrow> deployment_spec \<Rightarrow> node option \<Rightarrow> placement_request" where
  "placement_request_for m sp n =
     \<lparr>req_model = model_id m,
      req_gpu_count = (case sp_gpus sp of Some (i # is) \<Rightarrow> length (i # is) | _ \<Rightarrow> min_gpu_count m),
      req_memory = or_number (required_gpu_memory_mib m) 0,
      req_node = map_option node_id n,
      req_indices = (case sp_gpus sp of Some (i # is) \<Rightarrow> Some (i # is) | _ \<Rightarrow> None)\<rparr>"

definition place ::
    "model \<Rightarrow> deployment_spec \<Rightarrow> node option \<Rightarrow> string \<Rightarrow> 'r world \<Rightarrow> placement result" where
  "place m sp n runtime w =
     (if runtime = ''mock''
      then (case (case n of Some x \<Rightarrow> Inr x | None \<Rightarrow> first_online_node (w_nodes w)) of
              Inl e \<Rightarrow> Inl e
            | Inr x \<Rightarrow> Inr \<lparr>pl_node = node_id x, pl_indices = [], pl_reservation = None,
                            pl_rationale = MockRuntime\<rparr>)
      else (let node_ids = (case n of Some x \<Rightarrow> [node_id x]
                            | None \<Rightarrow> map node_id (list_pollable (w_nodes w)))
            in case plan (placement_request_for m sp n) (gpu_resources_for (w_gpus w) node_ids) of
                 Inl f \<Rightarrow> Inl (ConflictError (reason_text (fail_reason f)))
               | Inr p \<Rightarrow> Inr p))"

text \<open>The reservation, skipped for a placement without GPUs.\<close>

definition reserve_placement ::
    "uuid \<Rightarrow> timestamp \<Rightarrow> model \<Rightarrow> placement \<Rightarrow> gpu_db \<Rightarrow> (gpu_db \<times> placement) result" where
  "reserve_placement rid now m p db =
     (if pl_indices p \<noteq> []
      then sched_reserve rid now
             \<lparr>req_model = model_id m, req_gpu_count = length (pl_indices p),
              req_memory = or_number (required_gpu_memory_mib m) 0, req_node = Some (pl_node p),
              req_indices = Some (pl_indices p)\<rparr> p db
      else Inr (db, p))"

definition new_deployment ::
    "uuid \<Rightarrow> timestamp \<Rightarrow> actor \<Rightarrow> model \<Rightarrow> deployment_spec \<Rightarrow> string \<Rightarrow> string \<Rightarrow> placement
       \<Rightarrow> deployment" where
  "new_deployment i now act m sp runtime img p =
     \<lparr>dep_id = i, dep_model = model_id m, dep_node = Some (pl_node p), dep_state = SCHEDULING,
      dep_detail = Some (rationale_text (pl_rationale p)), dep_gpus = pl_indices p,
      dep_reservation = pl_reservation p, dep_runtime = runtime, dep_image = img,
      dep_container = None, dep_container_name = None, dep_port = container_port, dep_url = None,
      dep_tensor_parallel = or_number (sp_tensor_parallel sp)
        (if pl_indices p = [] then 1 else length (pl_indices p)),
      dep_max_len = or_option (sp_max_len sp) (context_length m),
      dep_memory_fraction = or_number (sp_memory_fraction sp) (9 / 10),
      dep_error = None, dep_logs = None, dep_requested_by = Some (actor_id act),
      dep_created_at = now, dep_started_at = None, dep_healthy_at = None, dep_stopped_at = None\<rparr>"

definition audit_deployment ::
    "audit_action \<Rightarrow> actor \<Rightarrow> deployment \<Rightarrow> string option \<Rightarrow> json \<Rightarrow> 'r world \<Rightarrow> 'r world" where
  "audit_deployment action act d message meta w =
     w\<lparr>w_trail := record_entry action (Some (actor_id act)) (actor_name act) ''deployment''
         (uuid_str (dep_id d)) message meta (w_trail w)\<rparr>"

definition add_deployment ::
    "deployment \<Rightarrow> actor \<Rightarrow> json \<Rightarrow> 'r world \<Rightarrow> 'r world" where
  "add_deployment d act meta w =
     audit_deployment MODEL_DEPLOYED act d None meta
       (w\<lparr>w_deployments := w_deployments w @ [d]\<rparr>)"

text \<open>
  \<open>_attach_external\<close>: the endpoint either answers one probe's worth of waiting or the
  request is refused; no node, no reservation, no container.
\<close>

definition external_deployment ::
    "uuid \<Rightarrow> timestamp \<Rightarrow> actor \<Rightarrow> model \<Rightarrow> string \<Rightarrow> string \<Rightarrow> deployment" where
  "external_deployment i now act m runtime endpoint =
     \<lparr>dep_id = i, dep_model = model_id m, dep_node = None, dep_state = RUNNING,
      dep_detail = Some (''Attached to an external '' @ runtime
        @ '' runtime; the platform does not manage its lifecycle.''),
      dep_gpus = [], dep_reservation = None, dep_runtime = runtime, dep_image = [],
      dep_container = None, dep_container_name = None, dep_port = 0, dep_url = Some endpoint,
      dep_tensor_parallel = 1, dep_max_len = context_length m, dep_memory_fraction = 0,
      dep_error = None, dep_logs = None, dep_requested_by = Some (actor_id act),
      dep_created_at = now, dep_started_at = None, dep_healthy_at = None, dep_stopped_at = None\<rparr>"

definition attach_external ::
    "model_settings \<Rightarrow> serving_env \<Rightarrow> uuid \<Rightarrow> timestamp \<Rightarrow> actor \<Rightarrow> model \<Rightarrow> string
       \<Rightarrow> ('r, deployment) action" where
  "attach_external st env i now act m runtime w =
     (let endpoint = strip (or_str (endpoint_url m) []);
          health_path = (case map_of (set_health_paths st) runtime of
                           None \<Rightarrow> ''/v1/models'' | Some p \<Rightarrow> p)
      in if endpoint = []
         then (Done (Inl (ValidationError ''The external runtime has no endpoint_url.'')), w)
         else (case wait_until_serving env endpoint 10 health_path
                      (external_key_for st runtime (Some endpoint)) of
                 None \<Rightarrow> (Diverges, w)
               | Some (healthy, detail) \<Rightarrow>
                   if \<not> healthy
                   then (Done (Inl (ValidationError ''Nothing is answering at the endpoint.'')), w)
                   else (let d = external_deployment i now act m runtime endpoint
                         in (Done (Inr d),
                             add_deployment d act
                               (JObj [(''model'', JStr (model_name m)), (''runtime'', JStr runtime),
                                      (''external_endpoint'', JStr endpoint)]) w))))"

text \<open>The managed path, after the model is known not to be external.\<close>

definition deploy_managed ::
    "model_settings \<Rightarrow> uuid \<Rightarrow> uuid \<Rightarrow> timestamp \<Rightarrow> actor \<Rightarrow> model \<Rightarrow> deployment_spec \<Rightarrow> string
       \<Rightarrow> 'r world \<Rightarrow> ('r world \<times> deployment) result" where
  "deploy_managed st i rid now act m sp runtime w =
     (case validate_model st m runtime of Inl e \<Rightarrow> Inl e | Inr _ \<Rightarrow>
      (case pick_node (w_nodes w) sp of Inl e \<Rightarrow> Inl e | Inr n \<Rightarrow>
       (case place m sp n runtime w of Inl e \<Rightarrow> Inl e | Inr p \<Rightarrow>
        (case reserve_placement rid now m p (w_gpus w) of Inl e \<Rightarrow> Inl e | Inr (db, q) \<Rightarrow>
         (case image_for st runtime of Inl e \<Rightarrow> Inl e | Inr img \<Rightarrow>
            (let d = new_deployment i now act m sp runtime img q
             in Inr (add_deployment d act
                  (JObj [(''model'', JStr (model_name m)),
                         (''node'', JStr (uuid_str (pl_node q))),
                         (''gpus'', JList (map JInt (pl_indices q))),
                         (''runtime'', JStr runtime)]) (w\<lparr>w_gpus := db\<rparr>), d)))))))"

definition request_deployment ::
    "model_settings \<Rightarrow> serving_env \<Rightarrow> uuid \<Rightarrow> uuid \<Rightarrow> timestamp \<Rightarrow> deployment_spec \<Rightarrow> actor
       \<Rightarrow> ('r, deployment) action" where
  "request_deployment st env i rid now sp act w =
     (case get_model (sp_model sp) (w_models w) of
        None \<Rightarrow> (Done (Inl (NotFoundError ''No model with this id.'')), w)
      | Some m \<Rightarrow>
          (let runtime = or_str (sp_runtime sp) (or_str (Some (model_runtime m)) (set_default_runtime st))
           in if runtime \<in> set external_runtimes
              then attach_external st env i now act m runtime w
              else (case deploy_managed st i rid now act m sp runtime w of
                      Inl e \<Rightarrow> (Done (Inl e), w)
                    | Inr (w', d) \<Rightarrow> (Done (Inr d), w'))))"

section \<open>The state machine\<close>

definition fail_deployment ::
    "timestamp \<Rightarrow> deployment \<Rightarrow> string \<Rightarrow> string option \<Rightarrow> 'r world
       \<Rightarrow> deployment_state outcome \<times> 'r world" where
  "fail_deployment now d message logs w =
     (let d1 = d\<lparr>dep_state := FAILED, dep_detail := Some (take 500 message),
                 dep_error := Some (take 2000 message),
                 dep_logs := (if truthy logs then map_option (take_last 8000) logs else dep_logs d)\<rparr>
      in case dep_reservation d of
           None \<Rightarrow> (Done FAILED, put_deployment d1 w)
         | Some r \<Rightarrow> (Done FAILED, put_deployment (d1\<lparr>dep_reservation := None\<rparr>)
                                    (w\<lparr>w_gpus := release now r (w_gpus w)\<rparr>)))"

definition backend_request :: "deployment \<Rightarrow> model \<Rightarrow> node \<Rightarrow> deployment_request" where
  "backend_request d m n =
     \<lparr>rq_deployment = uuid_str (dep_id d), rq_model = model_name m, rq_path = storage_path m,
      rq_node = uuid_str (node_id n), rq_gpus = dep_gpus d, rq_runtime = dep_runtime d,
      rq_image = dep_image d, rq_tensor_parallel = dep_tensor_parallel d,
      rq_max_len = dep_max_len d, rq_memory_fraction = dep_memory_fraction d,
      rq_served_name = Some (model_name m), rq_extra_args = meta_extra_args m,
      rq_environment = []\<rparr>"

definition handle_of :: "deployment_state \<Rightarrow> deployment \<Rightarrow> deployment_handle" where
  "handle_of s d = \<lparr>hnd_deployment = uuid_str (dep_id d), hnd_state = s,
     hnd_ref = (case dep_container d of None \<Rightarrow> [] | Some c \<Rightarrow> c), hnd_url = dep_url d,
     hnd_message = None\<rparr>"

definition create_container ::
    "'r factory \<Rightarrow> timestamp \<Rightarrow> deployment \<Rightarrow> 'r world \<Rightarrow> deployment_state outcome \<times> 'r world" where
  "create_container factory now d w =
     (case (get_model (dep_model d) (w_models w), node_for w d) of
        (Some m, Some n) \<Rightarrow>
          (let d1 = d\<lparr>dep_state := CREATING\<rparr>; w1 = put_deployment d1 w
           in case factory n of
                Inl e \<Rightarrow> (Raised e, w1)
              | Inr be \<Rightarrow>
                  (case be_deploy be (backend_request d1 m n) (w_runtime w1) of
                     (Raised e, r) \<Rightarrow> (Raised e, w1\<lparr>w_runtime := r\<rparr>)
                   | (Diverges, r) \<Rightarrow> (Diverges, w1\<lparr>w_runtime := r\<rparr>)
                   | (Done h, r) \<Rightarrow>
                       if hnd_state h = FAILED
                       then fail_deployment now d1
                              (or_str (hnd_message h) ''Container creation failed.'') None
                              (w1\<lparr>w_runtime := r\<rparr>)
                       else (Done HEALTH_CHECK, put_deployment
                              (d1\<lparr>dep_container := Some (hnd_ref h),
                                  dep_container_name := Some (container_name (uuid_str (dep_id d))),
                                  dep_url := hnd_url h, dep_started_at := Some now,
                                  dep_state := HEALTH_CHECK,
                                  dep_detail := Some ''Container started; waiting for the runtime to serve.''\<rparr>)
                              (w1\<lparr>w_runtime := r\<rparr>))))
      | _ \<Rightarrow> fail_deployment now d ''Model or node no longer exists.'' None w)"

definition await_health ::
    "model_settings \<Rightarrow> 'r factory \<Rightarrow> timestamp \<Rightarrow> deployment \<Rightarrow> 'r world
       \<Rightarrow> deployment_state outcome \<times> 'r world" where
  "await_health st factory now d w =
     (case node_for w d of
        None \<Rightarrow> fail_deployment now d ''Node no longer exists.'' None w
      | Some n \<Rightarrow>
          (case factory n of
             Inl e \<Rightarrow> (Raised e, w)
           | Inr be \<Rightarrow>
               (let h = handle_of HEALTH_CHECK d
                in case be_wait be h (set_health_timeout st) (set_health_interval st) (w_runtime w) of
                     (Raised e, r) \<Rightarrow> (Raised e, w\<lparr>w_runtime := r\<rparr>)
                   | (Diverges, r) \<Rightarrow> (Diverges, w\<lparr>w_runtime := r\<rparr>)
                   | (Done res, r) \<Rightarrow>
                       if hnd_state res = RUNNING
                       then (Done RUNNING, put_deployment
                               (d\<lparr>dep_state := RUNNING, dep_detail := hnd_message res,
                                  dep_healthy_at := Some now\<rparr>) (w\<lparr>w_runtime := r\<rparr>))
                       else (case be_logs be h 200 r of
                               (Raised e, r') \<Rightarrow> (Raised e, w\<lparr>w_runtime := r'\<rparr>)
                             | (Diverges, r') \<Rightarrow> (Diverges, w\<lparr>w_runtime := r'\<rparr>)
                             | (Done logs, r') \<Rightarrow>
                                 fail_deployment now d
                                   (or_str (hnd_message res) ''Runtime never became healthy.'')
                                   (Some logs) (w\<lparr>w_runtime := r'\<rparr>)))))"

definition advance ::
    "model_settings \<Rightarrow> 'r factory \<Rightarrow> timestamp \<Rightarrow> deployment \<Rightarrow> 'r world
       \<Rightarrow> deployment_state outcome \<times> 'r world" where
  "advance st factory now d w =
     (let s = dep_state d
      in if s \<in> {SCHEDULING, REQUESTED} then create_container factory now d w
         else if s \<in> {CREATING, STARTING} then await_health st factory now d w
         else if s = HEALTH_CHECK then await_health st factory now d w
         else (Done s, w))"

section \<open>Lifecycle control\<close>

definition get_deployment :: "uuid \<Rightarrow> 'r world \<Rightarrow> deployment result" where
  "get_deployment i w =
     (case get_with_model i (w_deployments w) of
        None \<Rightarrow> Inl (NotFoundError ''No deployment with this id.'')
      | Some d \<Rightarrow> Inr d)"

text \<open>The end of a stop, once the container has been dealt with.\<close>

definition finish_stop :: "timestamp \<Rightarrow> actor \<Rightarrow> deployment \<Rightarrow> 'r world \<Rightarrow> 'r world \<times> deployment" where
  "finish_stop now act d w =
     (let d1 = d\<lparr>dep_reservation := None, dep_state := STOPPED, dep_stopped_at := Some now,
                 dep_url := None\<rparr>;
          db = (case dep_reservation d of None \<Rightarrow> w_gpus w | Some r \<Rightarrow> release now r (w_gpus w))
      in (audit_deployment MODEL_STOPPED act d1 None (JObj [])
            (put_deployment d1 (w\<lparr>w_gpus := db\<rparr>)), d1))"

definition stop_deployment ::
    "'r factory \<Rightarrow> timestamp \<Rightarrow> actor \<Rightarrow> uuid \<Rightarrow> ('r, deployment) action" where
  "stop_deployment factory now act i w =
     (case get_deployment i w of
        Inl e \<Rightarrow> (Done (Inl e), w)
      | Inr d \<Rightarrow>
          if dep_state d \<in> {STOPPED, FAILED} then (Done (Inr d), w)
          else (let d1 = d\<lparr>dep_state := STOPPING\<rparr>; w1 = put_deployment d1 w;
                    done = (\<lambda>w'. case finish_stop now act d1 w' of (w2, d2) \<Rightarrow> (Done (Inr d2), w2))
                in case node_for w d of
                     Some n \<Rightarrow>
                       (if truthy (dep_container d)
                        then (case factory n of
                                Inl e \<Rightarrow> (Raised e, w1)
                              | Inr be \<Rightarrow>
                                  (case be_stop be (handle_of STOPPING d1) (w_runtime w1) of
                                     (Raised e, r) \<Rightarrow> (Raised e, w1\<lparr>w_runtime := r\<rparr>)
                                   | (Diverges, r) \<Rightarrow> (Diverges, w1\<lparr>w_runtime := r\<rparr>)
                                   | (Done _, r) \<Rightarrow> done (w1\<lparr>w_runtime := r\<rparr>)))
                        else done w1)
                   | None \<Rightarrow> done w1))"

definition restart_deployment ::
    "'r factory \<Rightarrow> timestamp \<Rightarrow> actor \<Rightarrow> uuid \<Rightarrow> ('r, deployment) action" where
  "restart_deployment factory now act i w =
     (case get_deployment i w of
        Inl e \<Rightarrow> (Done (Inl e), w)
      | Inr d \<Rightarrow>
          (case node_for w d of
             None \<Rightarrow> (Done (Inl (ConflictError ''This deployment has no running container to restart.'')), w)
           | Some n \<Rightarrow>
               if \<not> truthy (dep_container d)
               then (Done (Inl (ConflictError ''This deployment has no running container to restart.'')), w)
               else (case factory n of
                       Inl e \<Rightarrow> (Raised e, w)
                     | Inr be \<Rightarrow>
                         (case be_restart be (handle_of STARTING d) (w_runtime w) of
                            (Raised e, r) \<Rightarrow> (Raised e, w\<lparr>w_runtime := r\<rparr>)
                          | (Diverges, r) \<Rightarrow> (Diverges, w\<lparr>w_runtime := r\<rparr>)
                          | (Done res, r) \<Rightarrow>
                              if hnd_state res = FAILED
                              then (let w2 = snd (fail_deployment now d
                                      (or_str (hnd_message res) ''Restart failed.'') None (w\<lparr>w_runtime := r\<rparr>))
                                    in (Done (get_deployment i w2), w2))
                              else (let d1 = d\<lparr>dep_state := HEALTH_CHECK,
                                        dep_detail := Some ''Restarted; waiting for the runtime to serve.'',
                                        dep_healthy_at := None\<rparr>
                                    in (Done (Inr d1),
                                        audit_deployment MODEL_DEPLOYED act d1 (Some ''Deployment restarted'')
                                          (JObj []) (put_deployment d1 (w\<lparr>w_runtime := r\<rparr>))))))))"

definition drop_deployment :: "uuid \<Rightarrow> 'r world \<Rightarrow> 'r world" where
  "drop_deployment i w = w\<lparr>w_deployments := filter (\<lambda>d. dep_id d \<noteq> i) (w_deployments w)\<rparr>"

definition delete_deployment ::
    "'r factory \<Rightarrow> timestamp \<Rightarrow> actor \<Rightarrow> uuid \<Rightarrow> ('r, unit) action" where
  "delete_deployment factory now act i w =
     (case get_deployment i w of
        Inl e \<Rightarrow> (Done (Inl e), w)
      | Inr d \<Rightarrow>
          if dep_state d \<in> {STOPPED, FAILED} then (Done (Inr ()), drop_deployment i w)
          else (case stop_deployment factory now act i w of
                  (Raised e, w') \<Rightarrow> (Raised e, w')
                | (Diverges, w') \<Rightarrow> (Diverges, w')
                | (Done (Inl e), w') \<Rightarrow> (Done (Inl e), w')
                | (Done (Inr _), w') \<Rightarrow> (Done (Inr ()), drop_deployment i w')))"

section \<open>Orphaned containers\<close>

record orphan =
  orph_node :: string
  orph_container :: string
  orph_name :: string
  orph_removed :: bool

definition known_containers :: "'r world \<Rightarrow> string set" where
  "known_containers w =
     (\<Union>d \<in> set (list_deployments None [] (w_deployments w)).
        case dep_container d of Some (c # s) \<Rightarrow> {c # s, take 12 (c # s)} | _ \<Rightarrow> {})"

definition is_known :: "'r world \<Rightarrow> container_info \<Rightarrow> bool" where
  "is_known w c = (ci_id c \<in> known_containers w \<or> take 12 (ci_id c) \<in> known_containers w)"

text \<open>The containers of one node; a removal that raises is reported, not propagated.\<close>

fun scan_containers ::
    "'r compute_backend \<Rightarrow> bool \<Rightarrow> string \<Rightarrow> container_info list \<Rightarrow> 'r \<Rightarrow> orphan list outcome \<times> 'r" where
  "scan_containers be remove nm [] r = (Done [], r)"
| "scan_containers be remove nm (c # cs) r =
     (let row = (\<lambda>gone. \<lparr>orph_node = nm, orph_container = take 12 (ci_id c), orph_name = ci_name c,
            orph_removed = gone\<rparr>);
          rest = (\<lambda>gone r'. case scan_containers be remove nm cs r' of
            (Done os, r'') \<Rightarrow> (Done (row gone # os), r'') | other \<Rightarrow> other)
      in if \<not> remove then rest False r
         else (case be_remove be (ci_id c) r of
                 (Done _, r') \<Rightarrow> rest True r'
               | (Raised e, r') \<Rightarrow> rest False r'
               | (Diverges, r') \<Rightarrow> (Diverges, r')))"

fun scan_nodes ::
    "'r factory \<Rightarrow> bool \<Rightarrow> (container_info \<Rightarrow> bool) \<Rightarrow> node list \<Rightarrow> 'r
       \<Rightarrow> (orphan list \<times> string list) outcome \<times> 'r" where
  "scan_nodes factory remove known [] r = (Done ([], []), r)"
| "scan_nodes factory remove known (n # ns) r =
     (let continue = (\<lambda>os us r'. case scan_nodes factory remove known ns r' of
            (Done (os', us'), r'') \<Rightarrow> (Done (os @ os', us @ us'), r'') | other \<Rightarrow> other);
          unreachable = [node_name n @ '' (unreachable)'']
      in if node_status n \<noteq> ONLINE
         then continue [] [node_name n @ '' ('' @ status_text (node_status n) @ '')''] r
         else (case factory n of
                 Inl e \<Rightarrow> continue [] unreachable r
               | Inr be \<Rightarrow>
                   (case be_list be r of
                      (Raised e, r') \<Rightarrow> continue [] unreachable r'
                    | (Diverges, r') \<Rightarrow> (Diverges, r')
                    | (Done cs, r') \<Rightarrow>
                        (case scan_containers be remove (node_name n)
                                (filter (\<lambda>c. \<not> known c) cs) r' of
                           (Done os, r'') \<Rightarrow> continue os [] r''
                         | (Raised e, r'') \<Rightarrow> (Raised e, r'')
                         | (Diverges, r'') \<Rightarrow> (Diverges, r'')))))"

definition reconcile_orphans ::
    "'r factory \<Rightarrow> bool \<Rightarrow> 'r world \<Rightarrow> (orphan list \<times> string list) outcome \<times> 'r world" where
  "reconcile_orphans factory remove w =
     (case scan_nodes factory remove (is_known w) (list_all_nodes 100 0 (w_nodes w)) (w_runtime w) of
        (res, r) \<Rightarrow> (res, w\<lparr>w_runtime := r\<rparr>))"

section \<open>Logs\<close>

definition fetch_logs ::
    "'r factory \<Rightarrow> uuid \<Rightarrow> nat \<Rightarrow> ('r, string) action" where
  "fetch_logs factory i tail w =
     (case get_deployment i w of
        Inl e \<Rightarrow> (Done (Inl e), w)
      | Inr d \<Rightarrow>
          (let stored = or_str (dep_logs d) ''(no logs available)''
           in case node_for w d of
                None \<Rightarrow> (Done (Inr stored), w)
              | Some n \<Rightarrow>
                  if \<not> truthy (dep_container d) then (Done (Inr stored), w)
                  else (case factory n of
                          Inl e \<Rightarrow> (Raised e, w)
                        | Inr be \<Rightarrow>
                            (case be_logs be (handle_of RUNNING (d\<lparr>dep_url := None\<rparr>)) tail (w_runtime w) of
                               (Raised e, r) \<Rightarrow> (Raised e, w\<lparr>w_runtime := r\<rparr>)
                             | (Diverges, r) \<Rightarrow> (Diverges, w\<lparr>w_runtime := r\<rparr>)
                             | (Done logs, r) \<Rightarrow>
                                 (Done (Inr (if starts_with ''(logs unavailable'' logs \<and> truthy (dep_logs d)
                                             then the (dep_logs d) else logs)),
                                  w\<lparr>w_runtime := r\<rparr>)))))"

end
