(* ===== verification/Deployment_Safety.thy ===== *)
theory Deployment_Safety
  imports Deployment
begin

text \<open>
  What the deployment service guarantees about GPUs: in every state its operations reach, a
  GPU reservation belongs to exactly one deployment, covers exactly that deployment's
  devices, and is gone once the deployment has failed or stopped.
\<close>

section \<open>The invariant\<close>

text \<open>\<open>others\<close> are the reservations taken by hand through the infrastructure API.\<close>

definition settled :: "deployment \<Rightarrow> bool" where
  "settled d = (dep_state d \<in> {FAILED, STOPPED})"

definition covers_devices :: "gpu_db \<Rightarrow> deployment \<Rightarrow> uuid \<Rightarrow> bool" where
  "covers_devices db d r = (\<exists>n. dep_node d = Some n \<and>
     (\<forall>k. (holder db k = Some r) = (fst k = n \<and> snd k \<in> set (dep_gpus d))))"

definition owned :: "uuid set \<Rightarrow> 'r world \<Rightarrow> bool" where
  "owned others w =
    (exclusive (w_gpus w) \<and> distinct (map dep_id (w_deployments w)) \<and>
     (\<forall>d \<in> set (w_deployments w). \<forall>r. dep_reservation d = Some r \<longrightarrow>
        r \<notin> others \<and> \<not> settled d \<and> covers_devices (w_gpus w) d r) \<and>
     (\<forall>d \<in> set (w_deployments w). \<forall>d' \<in> set (w_deployments w). \<forall>r.
        dep_reservation d = Some r \<and> dep_reservation d' = Some r \<longrightarrow> dep_id d = dep_id d') \<and>
     (\<forall>k r. holder (w_gpus w) k = Some r \<longrightarrow>
        r \<in> others \<or> (\<exists>d \<in> set (w_deployments w). dep_reservation d = Some r)))"

lemma ownedD:
  assumes "owned others w"
  shows "exclusive (w_gpus w)" "distinct (map dep_id (w_deployments w))"
    "d \<in> set (w_deployments w) \<Longrightarrow> dep_reservation d = Some r \<Longrightarrow>
       r \<notin> others \<and> \<not> settled d \<and> covers_devices (w_gpus w) d r"
    "d \<in> set (w_deployments w) \<Longrightarrow> d' \<in> set (w_deployments w) \<Longrightarrow> dep_reservation d = Some r \<Longrightarrow>
       dep_reservation d' = Some r \<Longrightarrow> dep_id d = dep_id d'"
    "holder (w_gpus w) k = Some r \<Longrightarrow>
       r \<in> others \<or> (\<exists>d \<in> set (w_deployments w). dep_reservation d = Some r)"
  using assms unfolding owned_def by blast+

lemma ownedI:
  assumes "exclusive (w_gpus w)" "distinct (map dep_id (w_deployments w))"
    "\<And>d r. d \<in> set (w_deployments w) \<Longrightarrow> dep_reservation d = Some r \<Longrightarrow>
       r \<notin> others \<and> \<not> settled d \<and> covers_devices (w_gpus w) d r"
    "\<And>d d' r. d \<in> set (w_deployments w) \<Longrightarrow> d' \<in> set (w_deployments w) \<Longrightarrow>
       dep_reservation d = Some r \<Longrightarrow> dep_reservation d' = Some r \<Longrightarrow> dep_id d = dep_id d'"
    "\<And>k r. holder (w_gpus w) k = Some r \<Longrightarrow>
       r \<in> others \<or> (\<exists>d \<in> set (w_deployments w). dep_reservation d = Some r)"
  shows "owned others w"
  unfolding owned_def using assms by blast

text \<open>Replacing a row, with distinct ids.\<close>

definition put_row :: "deployment \<Rightarrow> deployment list \<Rightarrow> deployment list" where
  "put_row d ds = update_rows (\<lambda>x. dep_id x = dep_id d) (\<lambda>_. d) ds"

lemma put_deployment_row: "put_deployment d w = w\<lparr>w_deployments := put_row d (w_deployments w)\<rparr>"
  by (simp add: put_deployment_def put_row_def)

lemma put_row_ids: "map dep_id (put_row d ds) = map dep_id ds"
  unfolding put_row_def by (rule map_update_rows) simp

lemma set_put_row:
  "d0 \<in> set ds \<Longrightarrow> dep_id d0 = dep_id d \<Longrightarrow>
     set (put_row d ds) = insert d {x \<in> set ds. dep_id x \<noteq> dep_id d}"
  by (auto simp: put_row_def set_update_rows image_iff)

lemma put_row_again: "dep_id d = dep_id d' \<Longrightarrow> put_row d (put_row d' ds) = put_row d ds"
  by (induction ds) (auto simp: put_row_def)

lemma owned_keep:
  assumes "owned others w" "d \<in> set (w_deployments w)" "dep_id d' = dep_id d"
    "dep_node d' = dep_node d" "dep_gpus d' = dep_gpus d" "dep_reservation d' = dep_reservation d"
    "dep_reservation d = None \<or> \<not> settled d'"
    "w_gpus w' = w_gpus w" "w_deployments w' = put_row d' (w_deployments w)"
  shows "owned others w'"
proof -
  note o = ownedD [OF assms(1)]
  have rows: "set (w_deployments w') = insert d' {x \<in> set (w_deployments w). dep_id x \<noteq> dep_id d'}"
    using set_put_row [OF assms(2), of d'] assms(3,9) by simp
  have cov: "covers_devices db d' r = covers_devices db d r" for db r
    using assms(4,5) by (simp add: covers_devices_def)
  show ?thesis
    unfolding owned_def
  proof (intro conjI ballI allI impI)
    show "exclusive (w_gpus w')" using o(1) assms(8) by simp
    show "distinct (map dep_id (w_deployments w'))" using o(2) assms(9) by (simp add: put_row_ids)
  next
    fix x r assume "x \<in> set (w_deployments w')" "dep_reservation x = Some r"
    then show "r \<notin> others" "\<not> settled x" "covers_devices (w_gpus w') x r"
      using rows o(3) [of x r] o(3) [OF assms(2), of r] assms(6,7,8) cov by auto
  next
    fix x y r assume "x \<in> set (w_deployments w')" "y \<in> set (w_deployments w')"
      "dep_reservation x = Some r \<and> dep_reservation y = Some r"
    then show "dep_id x = dep_id y"
      using rows o(4) [of x y r] o(4) [of x d r] o(4) [of d y r] assms(2,3,6) by auto
  next
    fix k r assume "holder (w_gpus w') k = Some r"
    then have "r \<in> others \<or> (\<exists>x \<in> set (w_deployments w). dep_reservation x = Some r)"
      using o(5) assms(8) by simp
    moreover have "\<exists>y \<in> set (w_deployments w'). dep_reservation y = Some r"
      if "x \<in> set (w_deployments w)" "dep_reservation x = Some r" for x
    proof (cases "dep_id x = dep_id d")
      case True
      then have "x = d" using that(1) assms(2) o(2) by (auto simp: distinct_map inj_on_def)
      then show ?thesis using rows that(2) assms(6) by auto
    next
      case False
      then show ?thesis using rows that assms(3) by auto
    qed
    ultimately show "r \<in> others \<or> (\<exists>y \<in> set (w_deployments w'). dep_reservation y = Some r)" by blast
  qed
qed

definition give_back :: "timestamp \<Rightarrow> deployment \<Rightarrow> gpu_db \<Rightarrow> gpu_db" where
  "give_back now d db = (case dep_reservation d of None \<Rightarrow> db | Some r \<Rightarrow> release now r db)"

lemma give_back_holder:
  "exclusive db \<Longrightarrow> holder (give_back now d db) k =
     (if holder db k \<noteq> None \<and> holder db k = dep_reservation d then None else holder db k)"
  by (auto simp: give_back_def release_holder split: option.splits)

lemma owned_settle:
  assumes "owned others w" "d \<in> set (w_deployments w)" "dep_id d' = dep_id d"
    "dep_reservation d' = None" "w_gpus w' = give_back now d (w_gpus w)"
    "w_deployments w' = put_row d' (w_deployments w)"
  shows "owned others w'"
proof -
  note o = ownedD [OF assms(1)]
  have rows: "set (w_deployments w') = insert d' {x \<in> set (w_deployments w). dep_id x \<noteq> dep_id d'}"
    using set_put_row [OF assms(2), of d'] assms(3,6) by simp
  have h: "holder (w_gpus w') k =
      (if holder (w_gpus w) k \<noteq> None \<and> holder (w_gpus w) k = dep_reservation d then None
       else holder (w_gpus w) k)" for k
    using give_back_holder [OF o(1)] assms(5) by simp
  show ?thesis
    unfolding owned_def
  proof (intro conjI ballI allI impI)
    show "exclusive (w_gpus w')"
      using o(1) assms(5) by (auto simp: give_back_def intro: release_exclusive split: option.splits)
    show "distinct (map dep_id (w_deployments w'))" using o(2) assms(6) by (simp add: put_row_ids)
  next
    fix x r assume x: "x \<in> set (w_deployments w')" "dep_reservation x = Some r"
    then have in_w: "x \<in> set (w_deployments w)" "dep_id x \<noteq> dep_id d" using rows assms(3,4) by auto
    with x(2) have "dep_reservation d \<noteq> Some r" using o(4) [OF in_w(1) assms(2)] by blast
    then have "(holder (w_gpus w') k = Some r) = (holder (w_gpus w) k = Some r)" for k
      using h [of k] by auto
    with o(3) [OF in_w(1) x(2)]
    show "r \<notin> others" "\<not> settled x" "covers_devices (w_gpus w') x r"
      by (auto simp: covers_devices_def)
  next
    fix x y r assume "x \<in> set (w_deployments w')" "y \<in> set (w_deployments w')"
      "dep_reservation x = Some r \<and> dep_reservation y = Some r"
    then show "dep_id x = dep_id y" using rows o(4) [of x y r] assms(4) by auto
  next
    fix k r assume k: "holder (w_gpus w') k = Some r"
    then have "holder (w_gpus w) k = Some r" "dep_reservation d \<noteq> Some r"
      using h [of k] by (auto split: if_splits)
    with o(5) [of k r] show "r \<in> others \<or> (\<exists>y \<in> set (w_deployments w'). dep_reservation y = Some r)"
      using rows assms(2,3) o(2) by (auto simp: distinct_map inj_on_def)
  qed
qed

lemma owned_tables:
  assumes "owned others w" "w_gpus w' = w_gpus w" "w_deployments w' = w_deployments w"
  shows "owned others w'"
  using assms(1) unfolding owned_def assms(2,3) .

lemma owned_drop:
  assumes "owned others w" "\<And>d. d \<in> set (w_deployments w) \<Longrightarrow> dep_id d = i \<Longrightarrow> dep_reservation d = None"
  shows "owned others (drop_deployment i w)"
proof -
  note o = ownedD [OF assms(1)]
  let ?w = "drop_deployment i w"
  have rows: "w_deployments ?w = filter (\<lambda>d. dep_id d \<noteq> i) (w_deployments w)" "w_gpus ?w = w_gpus w"
    by (simp_all add: drop_deployment_def)
  have mem: "d \<in> set (w_deployments ?w) \<longleftrightarrow> d \<in> set (w_deployments w) \<and> dep_id d \<noteq> i" for d
    by (simp add: rows)
  show ?thesis
  proof (rule ownedI)
    show "exclusive (w_gpus ?w)" using o(1) rows by simp
    show "distinct (map dep_id (w_deployments ?w))"
      unfolding rows by (rule distinct_map_filter [OF o(2)])
  next
    fix d r assume "d \<in> set (w_deployments ?w)" "dep_reservation d = Some r"
    then show "r \<notin> others \<and> \<not> settled d \<and> covers_devices (w_gpus ?w) d r"
      using o(3) mem rows(2) by metis
  next
    fix d d' r assume "d \<in> set (w_deployments ?w)" "d' \<in> set (w_deployments ?w)"
      "dep_reservation d = Some r" "dep_reservation d' = Some r"
    then show "dep_id d = dep_id d'" using o(4) mem by metis
  next
    fix k r assume "holder (w_gpus ?w) k = Some r"
    then have "r \<in> others \<or> (\<exists>d \<in> set (w_deployments w). dep_reservation d = Some r)"
      using o(5) rows(2) by metis
    then show "r \<in> others \<or> (\<exists>d \<in> set (w_deployments ?w). dep_reservation d = Some r)"
      using assms(2) mem by (metis option.distinct(1))
  qed
qed

definition fresh_ids :: "uuid set \<Rightarrow> uuid \<Rightarrow> uuid \<Rightarrow> 'r world \<Rightarrow> bool" where
  "fresh_ids others i rid w =
     (i \<notin> dep_id ` set (w_deployments w) \<and> rid \<notin> others \<and>
      (\<forall>d \<in> set (w_deployments w). dep_reservation d \<noteq> Some rid) \<and>
      (\<forall>k. holder (w_gpus w) k \<noteq> Some rid))"

text \<open>What a granted reservation does, from the contract of the reservations alone.\<close>

lemma reserve_placement_claim:
  assumes "reserve_placement rid now m p db = Inr (db', q)" "pl_indices p \<noteq> []"
  shows "claim (''model:'' @ uuid_str (model_id m)) None now (pl_node p) (pl_indices p) rid db = Some db'"
    "q = p\<lparr>pl_reservation := Some rid\<rparr>"
  using assms
  by (auto simp: reserve_placement_def sched_reserve_def claim_def split: sum.splits prod.splits
      dest: reserve_Inr [THEN iffD1])

lemma reserve_placement_none:
  "reserve_placement rid now m p db = Inr (db', q) \<Longrightarrow> pl_indices p = [] \<Longrightarrow> db' = db \<and> q = p"
  by (simp add: reserve_placement_def)

lemma plan_unreserved: "plan req available = Inr p \<Longrightarrow> pl_reservation p = None"
proof -
  assume h: "plan req available = Inr p"
  have auto: "pl_reservation p = None" if "auto_request req"
    using plan_auto_Inr [OF that h] by blast
  show ?thesis
  proof (cases "auto_request req")
    case False
    then obtain i "is" where r: "req_indices req = Some (i # is)"
      by (auto simp: auto_request_def neq_Nil_conv split: option.splits list.splits)
    have "plan_explicit req (i # is) available = Inr p" using h r by (simp add: plan_def)
    then show ?thesis
      by (cases "req_node req") (auto simp: plan_explicit_def Let_def split: if_splits)
  qed (rule auto)
qed

lemma place_unreserved: "place m sp n runtime w = Inr p \<Longrightarrow> pl_reservation p = None"
proof (cases "runtime = ''mock''")
  case True
  assume "place m sp n runtime w = Inr p"
  with True show ?thesis by (auto simp: place_def split: sum.splits)
next
  case False
  assume "place m sp n runtime w = Inr p"
  with False obtain req available where "plan req available = Inr p"
    by (auto simp: place_def Let_def split: sum.splits)
  then show ?thesis by (rule plan_unreserved)
qed

lemma owned_add:
  assumes "owned others w" "fresh_ids others i rid w"
    "reserve_placement rid now m p (w_gpus w) = Inr (db, q)" "pl_reservation p = None"
    "dep_id d = i" "dep_node d = Some (pl_node q)" "dep_gpus d = pl_indices q"
    "dep_reservation d = pl_reservation q" "\<not> settled d"
    "w_gpus w' = db" "w_deployments w' = w_deployments w @ [d]"
  shows "owned others w'"
proof -
  note o = ownedD [OF assms(1)]
  have ids: "distinct (map dep_id (w_deployments w'))"
    using o(2) assms(2,5,11) by (auto simp: fresh_ids_def)
  show ?thesis
  proof (cases "pl_indices p = []")
    case True
    with reserve_placement_none [OF assms(3)] assms(4,8,10)
    have same: "w_gpus w' = w_gpus w" "dep_reservation d = None" by auto
    have mem: "x \<in> set (w_deployments w)"
      if "x \<in> set (w_deployments w')" "dep_reservation x = Some r" for x r
      using that same(2) assms(11) by auto
    have sub: "set (w_deployments w) \<subseteq> set (w_deployments w')" using assms(11) by auto
    show ?thesis
    proof (rule ownedI)
      show "exclusive (w_gpus w')" using o(1) same(1) by simp
    next
      fix x r assume "x \<in> set (w_deployments w')" "dep_reservation x = Some r"
      then show "r \<notin> others \<and> \<not> settled x \<and> covers_devices (w_gpus w') x r"
        using o(3) [OF mem] same(1) by metis
    next
      fix x y r assume "x \<in> set (w_deployments w')" "y \<in> set (w_deployments w')"
        "dep_reservation x = Some r" "dep_reservation y = Some r"
      then show "dep_id x = dep_id y" using o(4) [OF mem mem] by blast
    next
      fix k r assume "holder (w_gpus w') k = Some r"
      then have "holder (w_gpus w) k = Some r" using same(1) by simp
      from o(5) [OF this] sub
      show "r \<in> others \<or> (\<exists>y \<in> set (w_deployments w'). dep_reservation y = Some r)" by blast
    qed (rule ids)
  next
    case False
    note c = reserve_placement_claim [OF assms(3) False]
    have h: "holder db k = (if fst k = pl_node p \<and> snd k \<in> set (pl_indices p) then Some rid
        else holder (w_gpus w) k)" for k
      by (rule claims.claim_holder [OF o(1) c(1)])
    have free: "holder (w_gpus w) (pl_node p, j) = None" if "j \<in> set (pl_indices p)" for j
      using claims.claim_iff [OF o(1)] c(1) that by blast
    have keep: "(holder db k = Some r) = (holder (w_gpus w) k = Some r)" if "r \<noteq> rid" for k r
      using h [of k] free [of "snd k"] that by (cases k) auto
    have new: "(holder db k = Some rid) = (fst k = pl_node p \<and> snd k \<in> set (pl_indices p))" for k
      using h [of k] fresh_ids_def [THEN iffD1, OF assms(2)] by (metis option.inject)
    have res: "dep_reservation d = Some rid" "dep_node d = Some (pl_node p)" "dep_gpus d = pl_indices p"
      using c(2) assms(6,7,8) by simp_all
    have old: "r \<noteq> rid" if "x \<in> set (w_deployments w)" "dep_reservation x = Some r" for x r
      using assms(2) that by (auto simp: fresh_ids_def)
    have mem: "x = d \<or> x \<in> set (w_deployments w)" if "x \<in> set (w_deployments w')" for x
      using that assms(11) by auto
    show ?thesis
    proof (rule ownedI)
      show "exclusive (w_gpus w')" using claims.claim_inv [OF o(1) c(1)] assms(10) by simp
      show "distinct (map dep_id (w_deployments w'))" by (rule ids)
    next
      fix x r assume x: "x \<in> set (w_deployments w')" "dep_reservation x = Some r"
      consider "x = d" "r = rid" | "x \<in> set (w_deployments w)" "r \<noteq> rid"
        using mem [OF x(1)] x(2) res(1) old [of x r] by auto
      then show "r \<notin> others \<and> \<not> settled x \<and> covers_devices (w_gpus w') x r"
      proof cases
        case 1
        then show ?thesis using assms(2,9,10) new res by (simp add: fresh_ids_def covers_devices_def)
      next
        case 2
        then show ?thesis
          using o(3) [OF 2(1) x(2)] keep [OF 2(2)] assms(10) by (simp add: covers_devices_def)
      qed
    next
      fix x y r assume xy: "x \<in> set (w_deployments w')" "y \<in> set (w_deployments w')"
        "dep_reservation x = Some r" "dep_reservation y = Some r"
      show "dep_id x = dep_id y"
      proof (cases "r = rid")
        case True
        then show ?thesis using mem [OF xy(1)] mem [OF xy(2)] old xy(3,4) by blast
      next
        case False
        then have "x \<noteq> d" "y \<noteq> d" using res(1) xy(3,4) by auto
        then show ?thesis using mem [OF xy(1)] mem [OF xy(2)] o(4) xy(3,4) by blast
      qed
    next
      fix k r assume "holder (w_gpus w') k = Some r"
      then show "r \<in> others \<or> (\<exists>y \<in> set (w_deployments w'). dep_reservation y = Some r)"
        using keep [of r k] o(5) [of k r] res(1) assms(10,11) by (cases "r = rid") auto
    qed
  qed
qed

section \<open>What the operations do to it\<close>

lemma put_deployment_frame [simp]:
  "w_gpus (put_deployment d w) = w_gpus w" "w_nodes (put_deployment d w) = w_nodes w"
  "w_models (put_deployment d w) = w_models w" "w_trail (put_deployment d w) = w_trail w"
  "w_runtime (put_deployment d w) = w_runtime w"
  "w_deployments (put_deployment d w) = put_row d (w_deployments w)"
  by (simp_all add: put_deployment_row)

lemma audit_deployment_frame [simp]:
  "w_gpus (audit_deployment a act d m meta w) = w_gpus w"
  "w_deployments (audit_deployment a act d m meta w) = w_deployments w"
  "w_runtime (audit_deployment a act d m meta w) = w_runtime w"
  by (simp_all add: audit_deployment_def)

text \<open>
  The two ways a row changes: it moves on and keeps its reservation (\<open>moves\<close>), or it ends
  and gives the reservation back (\<open>ends\<close>).
\<close>

definition moves :: "deployment \<Rightarrow> deployment_state \<Rightarrow> 'r world \<Rightarrow> 'r world \<Rightarrow> bool" where
  "moves d s w w' = (\<exists>d'. dep_id d' = dep_id d \<and> dep_node d' = dep_node d \<and> dep_gpus d' = dep_gpus d \<and>
     dep_reservation d' = dep_reservation d \<and> dep_state d' = s \<and> s \<notin> {FAILED, STOPPED} \<and>
     (s = RUNNING \<longrightarrow> dep_url d' = dep_url d) \<and> w_gpus w' = w_gpus w \<and> w_deployments w' = put_row d' (w_deployments w))"

definition ends :: "deployment \<Rightarrow> deployment_state \<Rightarrow> 'r world \<Rightarrow> 'r world \<Rightarrow> bool" where
  "ends d s w w' = (\<exists>d' now. dep_id d' = dep_id d \<and> dep_reservation d' = None \<and> dep_state d' = s \<and>
     w_gpus w' = give_back now d (w_gpus w) \<and> w_deployments w' = put_row d' (w_deployments w))"

lemma owned_moves: "owned others w \<Longrightarrow> d \<in> set (w_deployments w) \<Longrightarrow> moves d s w w' \<Longrightarrow> owned others w'"
  unfolding moves_def by (auto intro: owned_keep simp: settled_def)

lemma owned_ends: "owned others w \<Longrightarrow> d \<in> set (w_deployments w) \<Longrightarrow> ends d s w w' \<Longrightarrow> owned others w'"
  unfolding ends_def by (auto intro: owned_settle)

lemma movesI:
  "dep_id d' = dep_id d \<Longrightarrow> dep_node d' = dep_node d \<Longrightarrow> dep_gpus d' = dep_gpus d \<Longrightarrow>
   dep_reservation d' = dep_reservation d \<Longrightarrow> dep_state d' = s \<Longrightarrow> s \<notin> {FAILED, STOPPED} \<Longrightarrow>
   (s = RUNNING \<Longrightarrow> dep_url d' = dep_url d) \<Longrightarrow> w_gpus w' = w_gpus w \<Longrightarrow> w_deployments w' = put_row d' (w_deployments w) \<Longrightarrow> moves d s w w'"
  unfolding moves_def by blast

lemma endsI:
  "dep_id d' = dep_id d \<Longrightarrow> dep_reservation d' = None \<Longrightarrow> dep_state d' = s \<Longrightarrow>
   w_gpus w' = give_back now d (w_gpus w) \<Longrightarrow> w_deployments w' = put_row d' (w_deployments w) \<Longrightarrow>
   ends d s w w'"
  unfolding ends_def by blast

lemma fail_deployment_row:
  obtains d' where "dep_id d' = dep_id d" "dep_reservation d' = None" "dep_state d' = FAILED"
    "fail_deployment now d msg logs w =
       (Done FAILED, put_deployment d' (w\<lparr>w_gpus := give_back now d (w_gpus w)\<rparr>))"
proof (cases "dep_reservation d")
  case None
  show ?thesis
    by (rule that [of "d\<lparr>dep_state := FAILED, dep_detail := Some (take 500 msg),
          dep_error := Some (take 2000 msg),
          dep_logs := (if truthy logs then map_option (take_last 8000) logs else dep_logs d)\<rparr>"])
       (use None in \<open>simp_all add: fail_deployment_def give_back_def Let_def\<close>)
next
  case (Some r)
  show ?thesis
    by (rule that [of "d\<lparr>dep_state := FAILED, dep_detail := Some (take 500 msg),
          dep_error := Some (take 2000 msg),
          dep_logs := (if truthy logs then map_option (take_last 8000) logs else dep_logs d),
          dep_reservation := None\<rparr>"])
       (use Some in \<open>simp_all add: fail_deployment_def give_back_def Let_def\<close>)
qed

lemma fail_deployment_ends:
  assumes "fail_deployment now d msg logs w = (res, w')" "w_gpus w = w_gpus w0"
    "dep_id d = dep_id d0" "dep_reservation d = dep_reservation d0"
    "\<And>x. dep_id x = dep_id d0 \<Longrightarrow> put_row x (w_deployments w) = put_row x (w_deployments w0)"
  shows "res = Done FAILED \<and> ends d0 FAILED w0 w'"
proof -
  obtain d' where d': "dep_id d' = dep_id d" "dep_reservation d' = None" "dep_state d' = FAILED"
    "fail_deployment now d msg logs w =
       (Done FAILED, put_deployment d' (w\<lparr>w_gpus := give_back now d (w_gpus w)\<rparr>))"
    using fail_deployment_row by blast
  have "ends d0 FAILED w0 w'"
    by (rule endsI [of d' _ _ _ now])
       (use d' assms in \<open>simp_all add: give_back_def\<close>)
  with assms(1) d'(4) show ?thesis by simp
qed

lemma create_container_effect:
  assumes "create_container factory now d w = (Done s, w')"
  shows "s = HEALTH_CHECK \<and> moves d HEALTH_CHECK w w' \<or> s = FAILED \<and> ends d FAILED w w'"
proof (cases "get_model (dep_model d) (w_models w) = None \<or> node_for w d = None")
  case True
  with assms have "fail_deployment now d ''Model or node no longer exists.'' None w = (Done s, w')"
    by (auto simp: create_container_def split: option.splits)
  from fail_deployment_ends [OF this refl refl refl] show ?thesis by simp
next
  case False
  then obtain m n where mn: "get_model (dep_model d) (w_models w) = Some m" "node_for w d = Some n" by auto
  let ?d1 = "d\<lparr>dep_state := CREATING\<rparr>" and ?w1 = "put_deployment (d\<lparr>dep_state := CREATING\<rparr>) w"
  from assms mn obtain be h r where b: "factory n = Inr be"
    "be_deploy be (backend_request ?d1 m n) (w_runtime w) = (Done h, r)"
    by (auto simp: create_container_def Let_def split: sum.splits prod.splits outcome.splits)
  show ?thesis
  proof (cases "hnd_state h = FAILED")
    case True
    with assms mn b have "fail_deployment now ?d1 (or_str (hnd_message h) ''Container creation failed.'')
        None (?w1\<lparr>w_runtime := r\<rparr>) = (Done s, w')"
      by (simp add: create_container_def Let_def)
    from fail_deployment_ends [OF this, of w d] show ?thesis by (simp add: put_row_again)
  next
    case False
    let ?d2 = "?d1\<lparr>dep_container := Some (hnd_ref h),
        dep_container_name := Some (container_name (uuid_str (dep_id d))),
        dep_url := hnd_url h, dep_started_at := Some now, dep_state := HEALTH_CHECK,
        dep_detail := Some ''Container started; waiting for the runtime to serve.''\<rparr>"
    from False assms mn b have "s = HEALTH_CHECK" "w' = put_deployment ?d2 (?w1\<lparr>w_runtime := r\<rparr>)"
      by (simp_all add: create_container_def Let_def)
    moreover have "moves d HEALTH_CHECK w (put_deployment ?d2 (?w1\<lparr>w_runtime := r\<rparr>))"
      by (rule movesI [of ?d2]) (simp_all add: put_row_again)
    ultimately show ?thesis by simp
  qed
qed

lemma await_health_effect:
  assumes "await_health st factory now d w = (Done s, w')"
  shows "s = RUNNING \<and> moves d RUNNING w w' \<or> s = FAILED \<and> ends d FAILED w w'"
proof (cases "node_for w d")
  case None
  with assms have "fail_deployment now d ''Node no longer exists.'' None w = (Done s, w')"
    by (simp add: await_health_def)
  from fail_deployment_ends [OF this refl refl refl] show ?thesis by simp
next
  case (Some n)
  with assms obtain be res r where b: "factory n = Inr be"
    "be_wait be (handle_of HEALTH_CHECK d) (set_health_timeout st) (set_health_interval st)
       (w_runtime w) = (Done res, r)"
    by (auto simp: await_health_def Let_def split: sum.splits prod.splits outcome.splits)
  show ?thesis
  proof (cases "hnd_state res = RUNNING")
    case True
    let ?d1 = "d\<lparr>dep_state := RUNNING, dep_detail := hnd_message res, dep_healthy_at := Some now\<rparr>"
    from True assms Some b have "s = RUNNING" "w' = put_deployment ?d1 (w\<lparr>w_runtime := r\<rparr>)"
      by (simp_all add: await_health_def Let_def)
    moreover have "moves d RUNNING w (put_deployment ?d1 (w\<lparr>w_runtime := r\<rparr>))"
      by (rule movesI [of ?d1]) simp_all
    ultimately show ?thesis by simp
  next
    case False
    with assms Some b obtain logs r' where
      "fail_deployment now d (or_str (hnd_message res) ''Runtime never became healthy.'')
         (Some logs) (w\<lparr>w_runtime := r'\<rparr>) = (Done s, w')"
      by (auto simp: await_health_def Let_def split: prod.splits outcome.splits)
    from fail_deployment_ends [OF this, of w d] show ?thesis by simp
  qed
qed

lemma advance_effect:
  assumes "advance st factory now d w = (Done s, w')"
  shows "(dep_state d \<in> {SCHEDULING, REQUESTED} \<and> s = HEALTH_CHECK \<and> moves d s w w') \<or>
    (dep_state d \<in> {CREATING, STARTING, HEALTH_CHECK} \<and> s = RUNNING \<and> moves d s w w') \<or>
    (dep_state d \<in> set pending_states - {VALIDATING} \<and> s = FAILED \<and> ends d s w w') \<or>
    (dep_state d \<notin> set pending_states - {VALIDATING} \<and> s = dep_state d \<and> w' = w)"
  using assms create_container_effect [of factory now d w s w'] await_health_effect [of st factory now d w s w']
  by (cases "dep_state d") (auto simp: advance_def pending_states_def)

lemma get_deployment_Inr: "get_deployment i w = Inr d \<Longrightarrow> d \<in> set (w_deployments w) \<and> dep_id d = i"
  using get_with_model_Some [of i "w_deployments w" d] by (simp add: get_deployment_def split: option.splits)

lemma finish_stop_ends:
  assumes "finish_stop now act d w = (w', d')" "w_gpus w = w_gpus w0"
    "dep_id d = dep_id d0" "dep_reservation d = dep_reservation d0"
    "\<And>x. dep_id x = dep_id d0 \<Longrightarrow> put_row x (w_deployments w) = put_row x (w_deployments w0)"
  shows "ends d0 STOPPED w0 w' \<and> dep_state d' = STOPPED \<and> dep_url d' = None"
proof -
  let ?d1 = "d\<lparr>dep_reservation := None, dep_state := STOPPED, dep_stopped_at := Some now, dep_url := None\<rparr>"
  have w': "w' = audit_deployment MODEL_STOPPED act ?d1 None (JObj [])
      (put_deployment ?d1 (w\<lparr>w_gpus := give_back now d (w_gpus w)\<rparr>))" "d' = ?d1"
    using assms(1) by (auto simp: finish_stop_def give_back_def Let_def)
  have "ends d0 STOPPED w0 w'"
    by (rule endsI [of ?d1 _ _ _ now]) (use assms in \<open>simp_all add: w' give_back_def\<close>)
  with w' show ?thesis by simp
qed

lemma stop_effect:
  assumes "stop_deployment factory now act i w = (Done (Inr d2), w')"
  obtains d where "d \<in> set (w_deployments w)" "dep_id d = i"
    "dep_state d \<in> {STOPPED, FAILED} \<and> w' = w \<or>
     dep_state d \<notin> {STOPPED, FAILED} \<and> ends d STOPPED w w'"
proof -
  obtain d where g: "get_deployment i w = Inr d"
    using assms by (auto simp: stop_deployment_def split: sum.splits)
  note d = get_deployment_Inr [OF g]
  show ?thesis
  proof (cases "dep_state d \<in> {STOPPED, FAILED}")
    case True
    with assms g have "w' = w" by (auto simp: stop_deployment_def)
    with True d show ?thesis using that by blast
  next
    case False
    let ?d1 = "d\<lparr>dep_state := STOPPING\<rparr>" and ?w1 = "put_deployment (d\<lparr>dep_state := STOPPING\<rparr>) w"
    from False assms g obtain W where W: "finish_stop now act ?d1 W = (w', d2)"
      "w_gpus W = w_gpus w" "w_deployments W = put_row ?d1 (w_deployments w)"
    proof (cases "\<exists>n. node_for w d = Some n \<and> truthy (dep_container d)")
      case True
      then obtain n where n: "node_for w d = Some n" "truthy (dep_container d)" by blast
      with False assms g obtain be h r where b: "factory n = Inr be"
        "be_stop be (handle_of STOPPING ?d1) (w_runtime ?w1) = (Done h, r)"
        by (auto simp: stop_deployment_def Let_def split: sum.splits prod.splits outcome.splits)
      with False assms g n have "finish_stop now act ?d1 (?w1\<lparr>w_runtime := r\<rparr>) = (w', d2)"
        by (auto simp: stop_deployment_def Let_def split: prod.splits)
      then show ?thesis by (rule that) simp_all
    next
      case none: False
      with False assms g have "finish_stop now act ?d1 ?w1 = (w', d2)"
        by (auto simp: stop_deployment_def Let_def split: option.splits prod.splits)
      then show ?thesis by (rule that) simp_all
    qed
    from finish_stop_ends [OF W(1), of w d] W(2,3) have "ends d STOPPED w w'"
      by (simp add: put_row_again)
    with False d show ?thesis using that by blast
  qed
qed

lemma restart_effect:
  assumes "restart_deployment factory now act i w = (Done (Inr d2), w')"
  obtains d where "d \<in> set (w_deployments w)" "dep_id d = i"
    "moves d HEALTH_CHECK w w' \<or> ends d FAILED w w'"
proof -
  obtain d where g: "get_deployment i w = Inr d"
    using assms by (auto simp: restart_deployment_def split: sum.splits)
  note d = get_deployment_Inr [OF g]
  from assms g obtain n where n: "node_for w d = Some n" "truthy (dep_container d)"
    by (auto simp: restart_deployment_def split: option.splits if_splits)
  from assms g n obtain be res r where b: "factory n = Inr be"
    "be_restart be (handle_of STARTING d) (w_runtime w) = (Done res, r)"
    by (auto simp: restart_deployment_def Let_def split: sum.splits prod.splits outcome.splits)
  show ?thesis
  proof (cases "hnd_state res = FAILED")
    case True
    let ?f = "fail_deployment now d (or_str (hnd_message res) ''Restart failed.'') None (w\<lparr>w_runtime := r\<rparr>)"
    from True assms g n b have "w' = snd ?f"
      by (simp add: restart_deployment_def Let_def)
    then have "?f = (fst ?f, w')" by simp
    from fail_deployment_ends [OF this, of w d] have "ends d FAILED w w'" by simp
    with d show ?thesis using that by blast
  next
    case False
    let ?d1 = "d\<lparr>dep_state := HEALTH_CHECK,
        dep_detail := Some ''Restarted; waiting for the runtime to serve.'', dep_healthy_at := None\<rparr>"
    from False assms g n b have "w' = audit_deployment MODEL_DEPLOYED act ?d1
        (Some ''Deployment restarted'') (JObj []) (put_deployment ?d1 (w\<lparr>w_runtime := r\<rparr>))"
      by (auto simp: restart_deployment_def Let_def)
    then have "moves d HEALTH_CHECK w w'" by (intro movesI [of ?d1]) simp_all
    then show ?thesis using d that by blast
  qed
qed

text \<open>A deletion drops a row whose reservation is gone already.\<close>

lemma owned_delete:
  assumes "owned others w" "delete_deployment factory now act i w = (Done (Inr ()), w')"
  shows "owned others w'"
proof -
  obtain d where g: "get_deployment i w = Inr d"
    using assms(2) by (auto simp: delete_deployment_def split: sum.splits)
  note d = get_deployment_Inr [OF g]
  show ?thesis
  proof (cases "dep_state d \<in> {STOPPED, FAILED}")
    case True
    have "dep_reservation x = None" if "x \<in> set (w_deployments w)" "dep_id x = i" for x
    proof -
      have "x = d" using that d ownedD(2) [OF assms(1)] by (auto simp: distinct_map inj_on_def)
      with True ownedD(3) [OF assms(1), of d] d show ?thesis
        by (cases "dep_reservation d") (auto simp: settled_def)
    qed
    moreover have "w' = drop_deployment i w"
      using True g assms(2) by (auto simp: delete_deployment_def)
    ultimately show ?thesis using owned_drop [OF assms(1)] by blast
  next
    case False
    with g assms(2) obtain d2 w1 where s: "stop_deployment factory now act i w = (Done (Inr d2), w1)"
      and w': "w' = drop_deployment i w1"
      by (auto simp: delete_deployment_def split: prod.splits outcome.splits sum.splits)
    obtain d0 where d0: "d0 \<in> set (w_deployments w)" "dep_id d0 = i"
      "dep_state d0 \<in> {STOPPED, FAILED} \<and> w1 = w \<or> dep_state d0 \<notin> {STOPPED, FAILED} \<and> ends d0 STOPPED w w1"
      using stop_effect [OF s] by blast
    have "d0 = d" using d0 d ownedD(2) [OF assms(1)] by (auto simp: distinct_map inj_on_def)
    with d0 False have e: "ends d STOPPED w w1" by blast
    then obtain d' where row: "dep_id d' = i" "dep_reservation d' = None"
      "w_deployments w1 = put_row d' (w_deployments w)"
      using d unfolding ends_def by blast
    have "dep_reservation x = None" if "x \<in> set (w_deployments w1)" "dep_id x = i" for x
      using that row set_put_row [of d "w_deployments w" d'] d by auto
    with owned_drop [OF owned_ends [OF assms(1) _ e]] d w' show ?thesis by blast
  qed
qed

section \<open>From the contract of the backend\<close>

context compute_contract
begin

text \<open>Nothing is declared running that has no address.\<close>

lemma await_running_address:
  assumes "node_for w d = Some n" "factory n = Inr be" "await_health st factory now d w = (Done RUNNING, w')"
  shows "truthy (dep_url d)"
proof -
  from assms obtain res r where w: "be_wait be (handle_of HEALTH_CHECK d) (set_health_timeout st)
      (set_health_interval st) (w_runtime w) = (Done res, r)"
    by (auto simp: await_health_def Let_def split: prod.splits outcome.splits)
  have "hnd_state res = RUNNING"
  proof (rule ccontr)
    assume "hnd_state res \<noteq> RUNNING"
    with assms w obtain logs r' where "fail_deployment now d
        (or_str (hnd_message res) ''Runtime never became healthy.'') (Some logs) (w\<lparr>w_runtime := r'\<rparr>)
          = (Done RUNNING, w')"
      by (auto simp: await_health_def Let_def split: prod.splits outcome.splits)
    from fail_deployment_ends [OF this, of w d] show False by simp
  qed
  with wait_result [OF w] show ?thesis by (simp add: handle_of_def)
qed

text \<open>A started container never counts as running before its health was seen.\<close>

lemma create_starts:
  assumes "create_container factory now d w = (Done s, w')"
  shows "s \<noteq> RUNNING"
  using create_container_effect [OF assms] by auto

end

end
