(* ===== verification/Deployment_Worker.thy ===== *)
theory Deployment_Worker
  imports Deployment_Safety
begin

text \<open>
  The background worker (\<open>backend/app/workers/deployments.py\<close>) over the deployment service,
  the system the two make up, and what holds of it.  A tick advances every pending row in
  turn; an exception marks the row \<open>FAILED\<close> and the tick commits all the same.  The
  commit itself is taken to succeed.
\<close>

section \<open>The worker\<close>

definition docker_factory ::
    "backend_config \<Rightarrow> serving_env \<Rightarrow> (node \<Rightarrow> string + 'r container_runtime) \<Rightarrow> 'r factory" where
  "docker_factory cfg env runtime_of n = map_sum id (docker_backend cfg env) (runtime_of n)"

definition worker_error :: string where
  "worker_error = ''The deployment worker raised an unexpected error. See the ''
     @ ''control-plane logs for the traceback.''"

text \<open>The \<open>except\<close> branch works on the row as the exception left it.\<close>

definition mark_failed :: "uuid \<Rightarrow> 'r world \<Rightarrow> 'r world" where
  "mark_failed i w =
     w\<lparr>w_deployments := update_rows (\<lambda>d. dep_id d = i)
         (\<lambda>d. d\<lparr>dep_state := FAILED, dep_error := Some worker_error\<rparr>) (w_deployments w)\<rparr>"

fun tick_rows ::
    "model_settings \<Rightarrow> 'r factory \<Rightarrow> timestamp \<Rightarrow> uuid set \<Rightarrow> deployment list \<Rightarrow> 'r world
       \<Rightarrow> unit outcome \<times> 'r world" where
  "tick_rows st factory now in_flight [] w = (Done (), w)"
| "tick_rows st factory now in_flight (d # ds) w =
     (if dep_id d \<in> in_flight then tick_rows st factory now in_flight ds w
      else (case advance st factory now d w of
              (Done _, w') \<Rightarrow> tick_rows st factory now in_flight ds w'
            | (Raised _, w') \<Rightarrow> tick_rows st factory now in_flight ds (mark_failed (dep_id d) w')
            | (Diverges, w') \<Rightarrow> (Diverges, w')))"

definition tick ::
    "model_settings \<Rightarrow> 'r factory \<Rightarrow> timestamp \<Rightarrow> uuid set \<Rightarrow> 'r world \<Rightarrow> unit outcome \<times> 'r world" where
  "tick st factory now in_flight w =
     tick_rows st factory now in_flight (list_pending (w_deployments w)) w"

definition orphan_scan_every :: nat where
  "orphan_scan_every = 120"

text \<open>One pass of \<open>run_forever\<close>: the tick, and every 120th pass a scan that removes nothing.\<close>

definition worker_pass ::
    "model_settings \<Rightarrow> 'r factory \<Rightarrow> timestamp \<Rightarrow> nat \<Rightarrow> 'r world \<Rightarrow> unit outcome \<times> 'r world" where
  "worker_pass st factory now passes w =
     (case tick st factory now {} w of
        (Done _, w1) \<Rightarrow>
          (if passes mod orphan_scan_every = 0
           then (case reconcile_orphans factory False w1 of
                   (Diverges, w2) \<Rightarrow> (Diverges, w2) | (_, w2) \<Rightarrow> (Done (), w2))
           else (Done (), w1))
      | other \<Rightarrow> other)"

section \<open>The system\<close>

inductive service_step ::
    "model_settings \<Rightarrow> 'r factory \<Rightarrow> uuid set \<Rightarrow> 'r world \<Rightarrow> 'r world \<Rightarrow> bool"
  for st factory others where
  step_request: "fresh_ids others i rid w \<Longrightarrow>
     request_scope (request_deployment st env i rid now sp act) w = (res, w') \<Longrightarrow>
     service_step st factory others w w'"
| step_advance: "d \<in> set (list_pending (w_deployments w)) \<Longrightarrow>
     advance st factory now d w = (Done s, w') \<Longrightarrow> service_step st factory others w w'"
| step_stop: "request_scope (stop_deployment factory now act i) w = (res, w') \<Longrightarrow>
     service_step st factory others w w'"
| step_restart: "request_scope (restart_deployment factory now act i) w = (res, w') \<Longrightarrow>
     service_step st factory others w w'"
| step_delete: "request_scope (delete_deployment factory now act i) w = (res, w') \<Longrightarrow>
     service_step st factory others w w'"

inductive_cases service_stepE: "service_step st factory others w w'"

definition reachable ::
    "model_settings \<Rightarrow> 'r factory \<Rightarrow> uuid set \<Rightarrow> 'r world \<Rightarrow> 'r world \<Rightarrow> bool" where
  "reachable st factory others = (service_step st factory others)\<^sup>*\<^sup>*"

text \<open>A platform with no deployments yet, whose GPUs are held by hand or not at all.\<close>

definition initial_world :: "uuid set \<Rightarrow> 'r world \<Rightarrow> bool" where
  "initial_world others w = (w_deployments w = [] \<and> exclusive (w_gpus w) \<and>
     (\<forall>k r. holder (w_gpus w) k = Some r \<longrightarrow> r \<in> others))"

lemma request_scope_cases:
  assumes "request_scope f w = (res, w')"
  obtains a where "f w = (Done (Inr a), w')" | r where "w' = w\<lparr>w_runtime := r\<rparr>"
proof (cases "f w")
  case (Pair o1 w1)
  show ?thesis
  proof (cases "\<exists>a. o1 = Done (Inr a)")
    case True
    with Pair assms that(1) show ?thesis by (auto simp: request_scope_def)
  next
    case False
    then have "w' = w\<lparr>w_runtime := w_runtime w1\<rparr>"
      using Pair assms by (auto simp: request_scope_def split: outcome.splits sum.splits)
    then show ?thesis by (rule that(2))
  qed
qed

lemma owned_runtime [simp]: "owned others (w\<lparr>w_runtime := r\<rparr>) = owned others w"
  by (simp add: owned_def)

lemma add_deployment_frame [simp]:
  "w_gpus (add_deployment d act meta w) = w_gpus w"
  "w_deployments (add_deployment d act meta w) = w_deployments w @ [d]"
  by (simp_all add: add_deployment_def)

lemma deploy_managed_Inr:
  assumes "deploy_managed st i rid now act m sp runtime w = Inr (w', d)"
  obtains n p db q img where "validate_model st m runtime = Inr ()" "pick_node (w_nodes w) sp = Inr n"
    "place m sp n runtime w = Inr p" "reserve_placement rid now m p (w_gpus w) = Inr (db, q)"
    "image_for st runtime = Inr img" "d = new_deployment i now act m sp runtime img q"
    "w_gpus w' = db" "w_deployments w' = w_deployments w @ [d]"
  using assms that by (auto simp: deploy_managed_def Let_def split: sum.splits)

lemma attach_external_Inr:
  assumes "attach_external st env i now act m runtime w = (Done (Inr d), w')"
  shows "d = external_deployment i now act m runtime (strip (or_str (endpoint_url m) [])) \<and>
    strip (or_str (endpoint_url m) []) \<noteq> [] \<and>
    w_gpus w' = w_gpus w \<and> w_deployments w' = w_deployments w @ [d]"
  using assms by (auto simp: attach_external_def Let_def split: if_splits option.splits)

lemma owned_request:
  assumes "owned others w" "fresh_ids others i rid w"
    "request_deployment st env i rid now sp act w = (Done (Inr d), w')"
  shows "owned others w'"
proof -
  obtain m runtime where m: "get_model (sp_model sp) (w_models w) = Some m" and
    cases: "attach_external st env i now act m runtime w = (Done (Inr d), w') \<or>
      deploy_managed st i rid now act m sp runtime w = Inr (w', d)"
    using assms(3) by (auto simp: request_deployment_def Let_def split: option.splits if_splits sum.splits)
  from cases show ?thesis
  proof
    assume "attach_external st env i now act m runtime w = (Done (Inr d), w')"
    note a = attach_external_Inr [OF this]
    let ?p = "\<lparr>pl_node = 0, pl_indices = [], pl_reservation = None, pl_rationale = MockRuntime\<rparr>"
    have "owned others (w'\<lparr>w_deployments := w_deployments w @ [d\<lparr>dep_node := Some 0\<rparr>]\<rparr>)"
      by (rule owned_add [OF assms(1,2), of now m ?p "w_gpus w" ?p "d\<lparr>dep_node := Some 0\<rparr>"])
         (use a in \<open>simp_all add: reserve_placement_def external_deployment_def settled_def\<close>)
    then show ?thesis
      using a by (auto simp: owned_def external_deployment_def)
  next
    assume "deploy_managed st i rid now act m sp runtime w = Inr (w', d)"
    then obtain n p db q img where p: "place m sp n runtime w = Inr p"
      "reserve_placement rid now m p (w_gpus w) = Inr (db, q)"
      "d = new_deployment i now act m sp runtime img q" "w_gpus w' = db"
      "w_deployments w' = w_deployments w @ [d]"
      by (rule deploy_managed_Inr) blast
    show ?thesis
      by (rule owned_add [OF assms(1,2) p(2) place_unreserved [OF p(1)]])
         (use p in \<open>simp_all add: new_deployment_def settled_def\<close>)
  qed
qed

lemma service_step_owned: "service_step st factory others w w' \<Longrightarrow> owned others w \<Longrightarrow> owned others w'"
proof (induction rule: service_step.induct)
  case (step_request i rid w env now sp act res w')
  from step_request(2) show ?case
    by (rule request_scope_cases) (use step_request owned_request in \<open>auto\<close>)
next
  case (step_advance d w now s w')
  have "d \<in> set (w_deployments w)" using step_advance(1) by (simp add: set_list_pending)
  with advance_effect [OF step_advance(2)] step_advance(3) show ?case
    using owned_moves owned_ends by blast
next
  case (step_stop now act i w res w')
  from step_stop(1) show ?case
  proof (rule request_scope_cases)
    fix a assume "stop_deployment factory now act i w = (Done (Inr a), w')"
    then show ?thesis
      by (rule stop_effect) (use step_stop(2) owned_ends in blast)
  qed (use step_stop in simp)
next
  case (step_restart now act i w res w')
  from step_restart(1) show ?case
  proof (rule request_scope_cases)
    fix a assume "restart_deployment factory now act i w = (Done (Inr a), w')"
    then show ?thesis
      by (rule restart_effect) (use step_restart(2) owned_ends owned_moves in blast)
  qed (use step_restart in simp)
next
  case (step_delete now act i w res w')
  from step_delete(1) show ?case
    by (rule request_scope_cases) (use step_delete owned_delete in \<open>auto\<close>)
qed

lemma reachable_owned:
  assumes "initial_world others w0" "reachable st factory others w0 w"
  shows "owned others w"
  using assms(2) unfolding reachable_def
proof (induction rule: rtranclp_induct)
  case base
  then show ?case using assms(1) by (auto simp: initial_world_def owned_def)
next
  case (step y z)
  then show ?case using service_step_owned by blast
qed

end
