(* ===== verification/Deployment_Sample.thy ===== *)
theory Deployment_Sample
  imports Deployment_Worker
begin

text \<open>
  A small platform, for the witnesses: one node with two GPUs, one model that needs both, and
  hosts whose state is the list of the containers that exist.
\<close>

section \<open>The platform\<close>

definition sample_node :: "node_status \<Rightarrow> node" where
  "sample_node s = \<lparr>node_id = 1, node_name = ''gpu-1'', node_description = None, hostname = None,
     ip_address = None, agent_url = ''https://gpu-1:9100'', agent_token_encrypted = ''x'',
     agent_version = None, agent_verify_tls = True, node_role = GPU_NODE, node_status = s,
     status_detail = None, os_info = None, kernel_version = None, architecture = None,
     cpu_model = None, cpu_cores = None, memory_total_mib = None, docker_version = None,
     nvidia_runtime_available = True, nvidia_driver_version = None, cuda_version = None,
     gpu_probe = None, gpu_synthetic = False, last_seen_at = None, node_labels = []\<rparr>"

definition sample_model :: model where
  "sample_model = \<lparr>model_id = 5, model_name = ''qwen'', model_version = ''1.0'', model_type = ''LLM'',
     context_length = Some 4096, storage_path = ''/data/qwen'', model_runtime = ''vllm'',
     endpoint_url = None, required_gpu_memory_mib = Some 30000, min_gpu_count = 2,
     model_status = AVAILABLE, model_status_detail = None, meta_ollama_tag = None,
     meta_extra_args = []\<rparr>"

definition sample_settings :: model_settings where
  "sample_settings = \<lparr>set_default_runtime = ''mock'', set_runtime_images = [(''vllm'', ''vllm:1'')],
     set_health_paths = [], set_health_timeout = 900, set_health_interval = 5,
     set_external_endpoint = None, set_external_api_key = []\<rparr>"

definition sample_actor :: actor where
  "sample_actor = \<lparr>actor_id = 77, actor_name = ''ops''\<rparr>"

definition sample_spec :: deployment_spec where
  "sample_spec = \<lparr>sp_model = 5, sp_node = None, sp_gpus = None, sp_runtime = None,
     sp_tensor_parallel = None, sp_max_len = None, sp_memory_fraction = None\<rparr>"

text \<open>The hosts: the names of the containers that exist.\<close>

definition sample_world :: "node_status \<Rightarrow> string list world" where
  "sample_world s = \<lparr>w_models = [sample_model], w_nodes = [sample_node s], w_deployments = [],
     w_gpus = sample_db, w_trail = [], w_runtime = []\<rparr>"

definition sample_info :: "string \<Rightarrow> container_info" where
  "sample_info c = \<lparr>ci_id = c, ci_name = c, ci_image = [], ci_state = C_RUNNING, ci_status = ''Up''\<rparr>"

definition sample_runtime :: "string list container_runtime" where
  "sample_runtime = \<lparr>rt_create = (\<lambda>spec r. (Reply (sample_info (spec_name spec)), r @ [spec_name spec])),
     rt_start = (\<lambda>c r. (Reply (sample_info c), r)),
     rt_stop = (\<lambda>c t r. (Reply (sample_info c), r)),
     rt_restart = (\<lambda>c t r. (Reply (sample_info c), r)),
     rt_remove = (\<lambda>c f r. (Reply (), filter (\<lambda>x. x \<noteq> c) r)),
     rt_inspect = (\<lambda>c r. (Reply (sample_info c), r)),
     rt_list = (\<lambda>l r. (Reply (map sample_info r), r)),
     rt_logs = (\<lambda>c t r. (Reply [''out of memory''], r))\<rparr>"

definition crashing_runtime :: "string list container_runtime" where
  "crashing_runtime = sample_runtime\<lparr>rt_create := (\<lambda>spec r. (Crash ''socket'', r))\<rparr>"

definition dead_env :: serving_env where
  "dead_env = \<lparr>env_start = 0, env_clock = (\<lambda>k. 900 * int k), env_probe = (\<lambda>url path key k. False)\<rparr>"

definition sample_factory :: "serving_env \<Rightarrow> string list container_runtime \<Rightarrow> string list factory" where
  "sample_factory env rt = docker_factory sample_backend_config env (\<lambda>n. Inr rt)"

definition sample_deployment :: deployment where
  "sample_deployment = new_deployment 9 1000 sample_actor sample_model sample_spec ''vllm'' ''vllm:1''
     \<lparr>pl_node = 1, pl_indices = [0, 1], pl_reservation = Some 8, pl_rationale = LeastLoaded 2 30000\<rparr>"

lemma sample_factory_simp: "sample_factory env rt n = Inr (docker_backend sample_backend_config env rt)"
  by (simp add: sample_factory_def docker_factory_def)

lemma sample_holder: "holder sample_db k = None"
  by (simp add: holder_def sample_db_def)

lemma sample_initial: "initial_world {} (sample_world s)"
  using sample_exclusive by (simp add: initial_world_def sample_world_def sample_holder)

lemma sample_fresh: "fresh_ids {} 9 8 (sample_world s)"
  by (simp add: fresh_ids_def sample_world_def sample_holder)

section \<open>A request, evaluated\<close>

definition sample_placement8 :: placement where
 "sample_placement8 = \<lparr>pl_node = 1, pl_indices = [0, 1], pl_reservation = None, pl_rationale = LeastLoaded 2 30000\<rparr>"

definition held8 :: gpu_db where
  "held8 = sample_db\<lparr>allocations := map (new_allocation sample_db 1 (''model:'' @ uuid_str 5) None 8 1000) [0, 1]\<rparr>"

lemma sample_view_platform: "gpu_resources_for sample_db [1] = 
   [\<lparr>res_node = 1, res_index = 0, res_memory_total = 40960, res_memory_used = 0, res_utilization = 0, res_reserved = False\<rparr>,
    \<lparr>res_node = 1, res_index = 1, res_memory_total = 40960, res_memory_used = 0, res_utilization = 0, res_reserved = False\<rparr>]"
  by (simp add: gpu_resources_for_def resource_of_def gpus_for_node_def sample_db_def sample_gpu_def latest_metric_def free_indices_def active_indices_def active_for_node_def)

lemma place8: "place sample_model sample_spec None ''vllm'' (sample_world s) = Inr sample_placement8"
  by (simp add: place_def sample_world_def list_pollable_def pollable_def label_text_def sample_node_def json_get_def
     sample_view_platform [simplified] placement_request_for_def sample_spec_def sample_model_def or_number_def
     plan_def node_candidates_def usable_def memory_free_def set_default_append_def choose_devices_def sample_placement8_def)

lemma reserve8: "reserve_placement 8 1000 sample_model sample_placement8 sample_db = Inr (held8, sample_placement8\<lparr>pl_reservation := Some 8\<rparr>)"
  apply (simp add: reserve_placement_def sched_reserve_def sample_placement8_def)
  apply (subgoal_tac "reserve 1 [0,1] (''model:'' @ uuid_str 5) None 8 1000 sample_db = Inr (held8, 8)")
  apply (simp add: sample_model_def)
  apply (simp add: reserve_Inr valid_request_def gpu_at_def gpus_for_node_def sample_db_def held8_def sample_gpu_def holder_def)
  done

lemma managed8: "deploy_managed sample_settings 9 8 1000 sample_actor sample_model sample_spec ''vllm'' (sample_world s)
   = Inr (add_deployment sample_deployment sample_actor (JObj [(''model'', JStr ''qwen''), (''node'', JStr (uuid_str 1)), (''gpus'', JList [JInt 0, JInt 1]), (''runtime'', JStr ''vllm'')]) ((sample_world s)\<lparr>w_gpus := held8\<rparr>), sample_deployment)"
proof -
  have v: "validate_model sample_settings sample_model ''vllm'' = Inr ()"
    by (simp add: validate_model_def image_for_def sample_settings_def sample_model_def)
  have i: "image_for sample_settings ''vllm'' = Inr ''vllm:1''"
    by (simp add: image_for_def sample_settings_def)
  have n: "pick_node ns sample_spec = Inr None" for ns
    by (simp add: pick_node_def sample_spec_def)
  have g: "w_gpus (sample_world s) = sample_db" by (simp add: sample_world_def)
  have d: "new_deployment 9 1000 sample_actor sample_model sample_spec ''vllm'' ''vllm:1'' (sample_placement8\<lparr>pl_reservation := Some 8\<rparr>) = sample_deployment"
    by (simp add: sample_deployment_def sample_placement8_def)
  have nm: "model_name sample_model = ''qwen''" by (simp add: sample_model_def)
  show ?thesis
    unfolding deploy_managed_def v i n g place8 reserve8 sum.case prod.case option.case Let_def d nm
    by (simp add: sample_placement8_def)
qed

lemma requested8: "request_deployment sample_settings sample_env 9 8 1000 sample_spec sample_actor (sample_world s)
   = (Done (Inr sample_deployment), add_deployment sample_deployment sample_actor (JObj [(''model'', JStr ''qwen''), (''node'', JStr (uuid_str 1)), (''gpus'', JList [JInt 0, JInt 1]), (''runtime'', JStr ''vllm'')]) ((sample_world s)\<lparr>w_gpus := held8\<rparr>))"
proof -
  have m: "get_model (sp_model sample_spec) (w_models (sample_world s)) = Some sample_model"
    by (simp add: get_model_def sample_spec_def sample_world_def sample_model_def)
  have r: "or_str (sp_runtime sample_spec) (or_str (Some (model_runtime sample_model)) (set_default_runtime sample_settings)) = ''vllm''"
    by (simp add: or_str_def sample_spec_def sample_model_def)
  have x: "''vllm'' \<notin> set external_runtimes" by (simp add: external_runtimes_def)
  show ?thesis
    unfolding request_deployment_def m option.case r Let_def managed8
    using x by simp
qed

definition requested :: "node_status \<Rightarrow> string list world" where
  "requested s = \<lparr>w_models = [sample_model], w_nodes = [sample_node s],
     w_deployments = [sample_deployment], w_gpus = held8,
     w_trail = record_entry MODEL_DEPLOYED (Some 77) ''ops'' ''deployment'' (uuid_str 9) None
       (JObj [(''model'', JStr ''qwen''), (''node'', JStr (uuid_str 1)),
              (''gpus'', JList [JInt 0, JInt 1]), (''runtime'', JStr ''vllm'')]) [],
     w_runtime = []\<rparr>"

lemma requested_simps [simp]:
  "w_models (requested s) = [sample_model]" "w_nodes (requested s) = [sample_node s]"
  "w_deployments (requested s) = [sample_deployment]" "w_gpus (requested s) = held8"
  "w_runtime (requested s) = []"
  by (simp_all add: requested_def)

lemma sample_deployment_simps [simp]:
  "dep_state sample_deployment = SCHEDULING" "dep_model sample_deployment = 5"
  "dep_node sample_deployment = Some 1" "dep_reservation sample_deployment = Some 8"
  "dep_container sample_deployment = None" "dep_id sample_deployment = 9"
  "dep_gpus sample_deployment = [0, 1]"
  by (simp_all add: sample_deployment_def new_deployment_def sample_model_def)

lemma sample_found [simp]:
  "get_model 5 [sample_model] = Some sample_model"
  "get_node 1 [sample_node s] = Some (sample_node s)" "get_node (Suc 0) [sample_node s] = Some (sample_node s)"
  by (simp_all add: get_model_def sample_model_def get_node_def sample_node_def)

lemma requested_step:
  "request_scope (request_deployment sample_settings sample_env 9 8 1000 sample_spec sample_actor)
     (sample_world s) = (Done (Inr sample_deployment), requested s)"
  unfolding request_scope_def requested8
  by (simp add: requested_def add_deployment_def audit_deployment_def sample_world_def sample_actor_def)

lemma requested_reachable: "reachable sample_settings factory {} (sample_world s) (requested s)"
  unfolding reachable_def by (rule r_into_rtranclp, rule step_request [OF sample_fresh requested_step])

lemma held8_holder: "holder held8 (1, 0) = Some 8" "holder held8 (1, 1) = Some 8"
  by (simp_all add: held8_def sample_db_def holder_def alloc_active_def alloc_key_def new_allocation_def)

section \<open>The worker's first step, evaluated\<close>

definition sample_container :: string where
  "sample_container = container_name (uuid_str 9)"

lemma deploy_sample:
  "deploy_model cfg sample_runtime rq r =
     (Done \<lparr>hnd_deployment = rq_deployment rq, hnd_state = STARTING,
        hnd_ref = container_name (rq_deployment rq),
        hnd_url = Some (''http://'' @ container_name (rq_deployment rq) @ '':'' @ nat_str container_port),
        hnd_message = None\<rparr>, r @ [container_name (rq_deployment rq)])"
  by (simp add: deploy_model_def sample_runtime_def sample_info_def backend_spec_def Let_def)

lemma deploy_crashing: "deploy_model cfg crashing_runtime rq r = (Raised ''socket'', r)"
  by (simp add: deploy_model_def crashing_runtime_def)

definition checked_deployment :: deployment where
  "checked_deployment = sample_deployment\<lparr>dep_state := HEALTH_CHECK,
     dep_container := Some sample_container, dep_container_name := Some sample_container,
     dep_url := Some (''http://'' @ sample_container @ '':'' @ nat_str container_port),
     dep_started_at := Some 1001,
     dep_detail := Some ''Container started; waiting for the runtime to serve.''\<rparr>"

definition started :: "string list world" where
  "started = (requested ONLINE)\<lparr>w_deployments := [checked_deployment], w_runtime := [sample_container]\<rparr>"

lemma started_step:
  "advance sample_settings (sample_factory env sample_runtime) 1001 sample_deployment (requested ONLINE)
     = (Done HEALTH_CHECK, started)"
  by (simp add: advance_def create_container_def node_for_def sample_factory_simp deploy_sample Let_def
      started_def checked_deployment_def sample_container_def put_deployment_row put_row_def
      backend_request_def requested_def)

end
