(* ===== verification/Deployment_Properties.thy ===== *)
theory Deployment_Properties
  imports Deployment_Sample
begin

text \<open>
  The properties of deployments: the lifecycle as a relation of its own and the refinement of
  it by \<open>advance\<close>, ownership of GPUs in every reachable state, progress, reconciliation, and
  the places where the code does not do what its comments promise.
\<close>

section \<open>The abstract lifecycle\<close>

text \<open>
  The diagram at the head of \<open>deployment.py\<close>: the chain down to \<open>RUNNING\<close>, and an edge to
  \<open>FAILED\<close> from every state on the way.
\<close>

inductive lifecycle :: "deployment_state \<Rightarrow> deployment_state \<Rightarrow> bool" where
  "lifecycle REQUESTED VALIDATING"
| "lifecycle VALIDATING SCHEDULING"
| "lifecycle SCHEDULING CREATING"
| "lifecycle CREATING STARTING"
| "lifecycle STARTING HEALTH_CHECK"
| "lifecycle HEALTH_CHECK RUNNING"
| "s \<in> set pending_states \<Longrightarrow> lifecycle s FAILED"

inductive_simps lifecycle_simps: "lifecycle s t"

lemma lifecycle_chain: "lifecycle s t \<Longrightarrow> lifecycle\<^sup>*\<^sup>* t u \<Longrightarrow> lifecycle\<^sup>*\<^sup>* s u"
  by (rule converse_rtranclp_into_rtranclp)

lemma lifecycle_reaches:
  "s \<in> {SCHEDULING, REQUESTED} \<Longrightarrow> lifecycle\<^sup>*\<^sup>* s HEALTH_CHECK"
  "s \<in> {CREATING, STARTING, HEALTH_CHECK} \<Longrightarrow> lifecycle\<^sup>*\<^sup>* s RUNNING"
  "s \<in> set pending_states \<Longrightarrow> lifecycle\<^sup>*\<^sup>* s FAILED"
proof -
  have c: "lifecycle\<^sup>*\<^sup>* CREATING HEALTH_CHECK"
    by (rule lifecycle_chain [OF lifecycle.intros(4)], rule lifecycle_chain [OF lifecycle.intros(5)]) simp
  have s: "lifecycle\<^sup>*\<^sup>* SCHEDULING HEALTH_CHECK" by (rule lifecycle_chain [OF lifecycle.intros(3) c])
  have "lifecycle\<^sup>*\<^sup>* REQUESTED HEALTH_CHECK"
    by (rule lifecycle_chain [OF lifecycle.intros(1)], rule lifecycle_chain [OF lifecycle.intros(2) s])
  with s show "s \<in> {SCHEDULING, REQUESTED} \<Longrightarrow> lifecycle\<^sup>*\<^sup>* s HEALTH_CHECK" by blast
  have h: "lifecycle\<^sup>*\<^sup>* HEALTH_CHECK RUNNING" by (rule lifecycle_chain [OF lifecycle.intros(6)]) simp
  have "lifecycle\<^sup>*\<^sup>* STARTING RUNNING" by (rule lifecycle_chain [OF lifecycle.intros(5) h])
  with h rtranclp_trans [OF c h]
  show "s \<in> {CREATING, STARTING, HEALTH_CHECK} \<Longrightarrow> lifecycle\<^sup>*\<^sup>* s RUNNING" by blast
  show "s \<in> set pending_states \<Longrightarrow> lifecycle\<^sup>*\<^sup>* s FAILED"
    by (rule lifecycle_chain [OF lifecycle.intros(7)]) simp_all
qed

section \<open>GPUs follow deployments\<close>



section \<open>The state machine\<close>

text \<open>
  C3. \<open>advance\<close> refines the lifecycle: when it returns, the row is in the state it returned, that
  state is reachable in the diagram from the one before, no other row changed, and the
  GPUs either stayed as they were or, exactly when the deployment failed, its own
  reservation was released.
\<close>
theorem advance_refines_lifecycle:
  assumes "advance st factory now d w = (Done s, w')" "d \<in> set (w_deployments w)"
  shows "lifecycle\<^sup>*\<^sup>* (dep_state d) s \<and>
    filter (\<lambda>x. dep_id x \<noteq> dep_id d) (w_deployments w') = filter (\<lambda>x. dep_id x \<noteq> dep_id d) (w_deployments w) \<and>
    (\<exists>x \<in> set (w_deployments w'). dep_id x = dep_id d \<and> dep_state x = s) \<and>
    (if s = FAILED \<and> dep_state d \<noteq> FAILED then \<exists>t. w_gpus w' = give_back t d (w_gpus w)
     else w_gpus w' = w_gpus w)"
proof -
  have rows: "filter (\<lambda>x. dep_id x \<noteq> dep_id d) (put_row d' ds) = filter (\<lambda>x. dep_id x \<noteq> dep_id d) ds"
    if "dep_id d' = dep_id d" for d' ds
    using that by (induction ds) (auto simp: put_row_def)
  have here: "d' \<in> set (put_row d' (w_deployments w))" if "dep_id d' = dep_id d" for d'
    using set_put_row [OF assms(2)] that by simp
  from advance_effect [OF assms(1)] consider
      (mv) "moves d s w w'" "lifecycle\<^sup>*\<^sup>* (dep_state d) s" "s \<noteq> FAILED"
    | (nd) "ends d s w w'" "s = FAILED" "lifecycle\<^sup>*\<^sup>* (dep_state d) s" "dep_state d \<noteq> FAILED"
    | (same) "s = dep_state d" "w' = w"
    using lifecycle_reaches [of "dep_state d"] by (auto simp: pending_states_def)
  then show ?thesis
  proof cases
    case mv
    then show ?thesis unfolding moves_def using rows here by fastforce
  next
    case nd
    then show ?thesis unfolding ends_def using rows here by fastforce
  next
    case same
    then show ?thesis using assms(2) by auto
  qed
qed

theorem advance_refines_lifecycle_witness:
  "lifecycle\<^sup>*\<^sup>* (dep_state sample_deployment) HEALTH_CHECK \<and>
    filter (\<lambda>x. dep_id x \<noteq> dep_id sample_deployment) (w_deployments started)
      = filter (\<lambda>x. dep_id x \<noteq> dep_id sample_deployment) (w_deployments (requested ONLINE)) \<and>
    (\<exists>x \<in> set (w_deployments started). dep_id x = dep_id sample_deployment \<and> dep_state x = HEALTH_CHECK) \<and>
    (if HEALTH_CHECK = FAILED \<and> dep_state sample_deployment \<noteq> FAILED
     then \<exists>t. w_gpus started = give_back t sample_deployment (w_gpus (requested ONLINE))
     else w_gpus started = w_gpus (requested ONLINE))"
  by (rule advance_refines_lifecycle [OF started_step [of sample_env]]) simp

section \<open>Progress\<close>

text \<open>Hosts whose agents answer or report an error, but do not break in other ways.\<close>

definition tame :: "'r container_runtime \<Rightarrow> bool" where
  "tame rt = (\<forall>r. (\<forall>spec e. fst (rt_create rt spec r) \<noteq> Crash e) \<and>
     (\<forall>c e. fst (rt_start rt c r) \<noteq> Crash e) \<and> (\<forall>c n e. fst (rt_logs rt c n r) \<noteq> Crash e))"

lemma reply_no_crash: "(\<And>e. c \<noteq> Crash e) \<Longrightarrow> (\<exists>x. c = Reply x) \<or> (\<exists>e. c = AgentError e)"
  by (cases c) auto

lemma tame_deploy:
  assumes "tame rt"
  shows "\<exists>h r'. deploy_model cfg rt rq r = (Done h, r')"
proof -
  obtain c r1 where c: "rt_create rt (backend_spec cfg rq) r = (c, r1)" by fastforce
  have "c \<noteq> Crash e" for e using assms c unfolding tame_def by (metis fst_conv)
  then consider info where "c = Reply info" | e where "c = AgentError e"
    using reply_no_crash by metis
  then show ?thesis
  proof cases
    case 1
    obtain s r2 where s: "rt_start rt (ci_id info) r1 = (s, r2)" by fastforce
    have "s \<noteq> Crash e" for e using assms s unfolding tame_def by (metis fst_conv)
    then have "(\<exists>x. s = Reply x) \<or> (\<exists>e. s = AgentError e)" by (rule reply_no_crash)
    then show ?thesis using c 1 s by (auto simp: deploy_model_def Let_def)
  next
    case 2
    then show ?thesis using c by (simp add: deploy_model_def Let_def)
  qed
qed

lemma tame_logs:
  assumes "tame rt"
  shows "\<exists>ls r'. backend_logs rt h n r = (Done ls, r')"
proof -
  obtain c r1 where c: "rt_logs rt (hnd_ref h) n r = (c, r1)" by fastforce
  have "c \<noteq> Crash e" for e using assms c unfolding tame_def by (metis fst_conv)
  then have "(\<exists>x. c = Reply x) \<or> (\<exists>e. c = AgentError e)" by (rule reply_no_crash)
  then show ?thesis using c by (auto simp: backend_logs_def)
qed

lemma await_health_settles:
  assumes "tame rt" "env_start env + set_health_timeout st \<le> env_clock env n"
    "\<And>x. factory x = Inr (docker_backend cfg env rt)"
  shows "\<exists>s w'. await_health st factory now d w = (Done s, w') \<and> s \<in> {RUNNING, FAILED}"
proof (cases "node_for w d")
  case None
  then show ?thesis by (auto simp: await_health_def fail_deployment_def Let_def split: option.splits)
next
  case (Some x)
  let ?h = "handle_of HEALTH_CHECK d"
  have "\<exists>h. wait_until_healthy env ?h (set_health_timeout st) (set_health_interval st) (w_runtime w)
      = (Done h, w_runtime w)"
  proof (cases "truthy (hnd_url ?h)")
    case True
    from wait_loop_returns [where clock = "env_clock env" and n = n and k = 0
        and deadline = "env_start env + set_health_timeout st"
        and probe = "env_probe env (the (hnd_url ?h)) ''/health'' None", OF assms(2)]
    obtain b m where "wait_loop (env_probe env (the (hnd_url ?h)) ''/health'' None) (env_clock env)
        (env_start env + set_health_timeout st) 0 = Some (b, m)" by auto
    with True show ?thesis by (simp add: wait_until_healthy_def wait_until_serving_def)
  qed (simp add: wait_until_healthy_def)
  then obtain h where h: "wait_until_healthy env ?h (set_health_timeout st) (set_health_interval st)
      (w_runtime w) = (Done h, w_runtime w)" by blast
  obtain ls r' where "backend_logs rt ?h 200 (w_runtime w) = (Done ls, r')"
    using tame_logs [OF assms(1)] by blast
  with h Some assms(3) show ?thesis
    by (auto simp: await_health_def fail_deployment_def Let_def split: option.splits)
qed

lemma create_container_settles:
  assumes "tame rt" "\<And>x. factory x = Inr (docker_backend cfg env rt)"
  shows "\<exists>s w'. create_container factory now d w = (Done s, w')"
proof (cases "get_model (dep_model d) (w_models w) = None \<or> node_for w d = None")
  case True
  then show ?thesis
    by (auto simp: create_container_def fail_deployment_def Let_def split: option.splits)
next
  case False
  then obtain m n where mn: "get_model (dep_model d) (w_models w) = Some m" "node_for w d = Some n" by auto
  let ?rq = "backend_request (d\<lparr>dep_state := CREATING\<rparr>) m n"
  obtain h r' where "deploy_model cfg rt ?rq (w_runtime w) = (Done h, r')"
    using tame_deploy [OF assms(1)] by blast
  with mn assms(2) show ?thesis
    by (auto simp: create_container_def fail_deployment_def Let_def split: option.splits)
qed

text \<open>
  C4. A deployment settles: with hosts that answer or report errors, and a clock that passes the
  health deadline, a requested deployment is decided after at most two steps of the worker;
  the first starts the container (or fails), the second ends in \<open>RUNNING\<close> or \<open>FAILED\<close>.
\<close>
theorem deployment_settles:
  assumes "tame rt" "env_start env + set_health_timeout st \<le> env_clock env n"
    "d \<in> set (w_deployments w)" "dep_state d \<in> {REQUESTED, SCHEDULING}"
  shows "\<exists>s1 w1. advance st (docker_factory cfg env (\<lambda>_. Inr rt)) now d w = (Done s1, w1) \<and>
    (s1 = FAILED \<or> (s1 = HEALTH_CHECK \<and> (\<exists>d1 \<in> set (w_deployments w1). dep_id d1 = dep_id d \<and>
       (\<exists>s2 w2. advance st (docker_factory cfg env (\<lambda>_. Inr rt)) now' d1 w1 = (Done s2, w2) \<and>
          s2 \<in> {RUNNING, FAILED}))))"
proof -
  let ?f = "docker_factory cfg env (\<lambda>_. Inr rt)"
  have f: "?f x = Inr (docker_backend cfg env rt)" for x by (simp add: docker_factory_def)
  from create_container_settles [OF assms(1), of ?f cfg env now d w] f
  obtain s1 w1 where c: "create_container ?f now d w = (Done s1, w1)" by auto
  then have a: "advance st ?f now d w = (Done s1, w1)" using assms(4) by (auto simp: advance_def)
  from create_container_effect [OF c] show ?thesis
  proof
    assume h: "s1 = HEALTH_CHECK \<and> moves d HEALTH_CHECK w w1"
    then obtain d1 where d1: "dep_id d1 = dep_id d" "dep_state d1 = HEALTH_CHECK"
      "w_deployments w1 = put_row d1 (w_deployments w)" unfolding moves_def by blast
    have "d1 \<in> set (w_deployments w1)" using set_put_row [OF assms(3)] d1 by simp
    moreover obtain s2 w2 where "await_health st ?f now' d1 w1 = (Done s2, w2)" "s2 \<in> {RUNNING, FAILED}"
      using await_health_settles [OF assms(1,2), of ?f cfg now' d1 w1] f by auto
    then have "advance st ?f now' d1 w1 = (Done s2, w2)" using d1(2) by (simp add: advance_def)
    ultimately show ?thesis using a h d1(1) \<open>s2 \<in> {RUNNING, FAILED}\<close> by blast
  qed (use a in blast)
qed

lemma tame_sample: "tame sample_runtime"
  by (simp add: tame_def sample_runtime_def)

theorem deployment_settles_witness:
  "\<exists>s1 w1. advance sample_settings (docker_factory sample_backend_config dead_env (\<lambda>_. Inr sample_runtime))
      1001 sample_deployment (requested ONLINE) = (Done s1, w1) \<and>
    (s1 = FAILED \<or> (s1 = HEALTH_CHECK \<and> (\<exists>d1 \<in> set (w_deployments w1). dep_id d1 = dep_id sample_deployment \<and>
       (\<exists>s2 w2. advance sample_settings (docker_factory sample_backend_config dead_env (\<lambda>_. Inr sample_runtime))
           1900 d1 w1 = (Done s2, w2) \<and> s2 \<in> {RUNNING, FAILED}))))"
  by (rule deployment_settles [OF tame_sample, where n = 1])
     (simp_all add: dead_env_def sample_settings_def)

section \<open>Requests\<close>

text \<open>
  C2. A granted request for a managed runtime is complete: the model is available, the new row
  is in \<open>SCHEDULING\<close> on the node of the placement, exactly its devices (all free before) are
  held by its reservation and nothing else changed hands; a refused request leaves every
  table as it was.
\<close>
theorem request_is_atomic:
  assumes "exclusive (w_gpus w)"
    and "request_scope (request_deployment st env i rid now sp act) w = (out, w')"
  shows "case out of
      Done (Inr d) \<Rightarrow> w_deployments w' = w_deployments w @ [d] \<and>
        (dep_runtime d \<notin> set external_runtimes \<longrightarrow> dep_state d = SCHEDULING \<and>
          (\<exists>m. get_model (sp_model sp) (w_models w) = Some m \<and> model_status m = AVAILABLE) \<and>
          (\<forall>k. holder (w_gpus w') k = (if dep_node d = Some (fst k) \<and> snd k \<in> set (dep_gpus d)
                                        then Some rid else holder (w_gpus w) k)) \<and>
          (\<forall>n. dep_node d = Some n \<longrightarrow> (\<forall>j \<in> set (dep_gpus d). holder (w_gpus w) (n, j) = None)))
    | _ \<Rightarrow> w' = w\<lparr>w_runtime := w_runtime w'\<rparr>"
  using assms(2)
proof (cases rule: request_scope_cases)
  case (1 d)
  obtain m runtime where m: "get_model (sp_model sp) (w_models w) = Some m" and
    cases: "runtime \<in> set external_runtimes \<and>
        attach_external st env i now act m runtime w = (Done (Inr d), w') \<or>
      deploy_managed st i rid now act m sp runtime w = Inr (w', d)"
    using 1 by (auto simp: request_deployment_def Let_def split: option.splits if_splits sum.splits)
  have out: "out = Done (Inr d)" using 1 assms(2) by (simp add: request_scope_def)
  from cases show ?thesis
  proof
    assume "runtime \<in> set external_runtimes \<and>
        attach_external st env i now act m runtime w = (Done (Inr d), w')"
    with attach_external_Inr [of st env i now act m runtime w d w'] show ?thesis
      by (simp add: out external_deployment_def)
  next
    assume "deploy_managed st i rid now act m sp runtime w = Inr (w', d)"
    then obtain n p db q img where g: "validate_model st m runtime = Inr ()"
      "place m sp n runtime w = Inr p" "reserve_placement rid now m p (w_gpus w) = Inr (db, q)"
      "d = new_deployment i now act m sp runtime img q" "w_gpus w' = db"
      "w_deployments w' = w_deployments w @ [d]"
      by (rule deploy_managed_Inr) blast
    have av: "model_status m = AVAILABLE" using g(1) by (auto simp: validate_model_def split: if_splits)
    have d: "dep_state d = SCHEDULING" "dep_node d = Some (pl_node p)" "dep_gpus d = pl_indices p"
      using g(3,4) reserve_placement_claim [OF g(3)] reserve_placement_none [OF g(3)]
      by (cases "pl_indices p = []"; auto simp: new_deployment_def)+
    show ?thesis
    proof (cases "pl_indices p = []")
      case True
      then show ?thesis using reserve_placement_none [OF g(3)] g(5,6) d m av by (simp add: out)
    next
      case False
      note c = reserve_placement_claim(1) [OF g(3) False]
      have "\<forall>j \<in> set (pl_indices p). holder (w_gpus w) (pl_node p, j) = None"
        using claims.claim_iff [OF assms(1)] c by blast
      moreover have "holder db k = (if pl_node p = fst k \<and> snd k \<in> set (pl_indices p) then Some rid
          else holder (w_gpus w) k)" for k
        using claims.claim_holder [OF assms(1) c, of k] by auto
      ultimately show ?thesis using g(5,6) d m av by (simp add: out)
    qed
  qed
next
  case (2 r)
  have "\<exists>o1 w1. request_deployment st env i rid now sp act w = (o1, w1)" by simp
  show ?thesis
  proof (cases "\<exists>d. out = Done (Inr d)")
    case True
    then obtain d where "out = Done (Inr d)" by blast
    then have "request_deployment st env i rid now sp act w = (Done (Inr d), w')"
      using assms(2) by (auto simp: request_scope_def split: prod.splits outcome.splits sum.splits)
    moreover have "w_deployments w' = w_deployments w" using 2 by simp
    ultimately have False
      by (auto simp: request_deployment_def Let_def split: option.splits if_splits sum.splits
          dest!: attach_external_Inr elim!: deploy_managed_Inr)
    then show ?thesis ..
  next
    case False
    then show ?thesis using 2 by (auto split: outcome.splits sum.splits)
  qed
qed

theorem request_is_atomic_witness:
  "case (Done (Inr sample_deployment) :: deployment result outcome) of
      Done (Inr d) \<Rightarrow> w_deployments (requested ONLINE) = w_deployments (sample_world ONLINE) @ [d] \<and>
        (dep_runtime d \<notin> set external_runtimes \<longrightarrow> dep_state d = SCHEDULING \<and>
          (\<exists>m. get_model (sp_model sample_spec) (w_models (sample_world ONLINE)) = Some m \<and>
             model_status m = AVAILABLE) \<and>
          (\<forall>k. holder (w_gpus (requested ONLINE)) k =
             (if dep_node d = Some (fst k) \<and> snd k \<in> set (dep_gpus d)
              then Some 8 else holder (w_gpus (sample_world ONLINE)) k)) \<and>
          (\<forall>n. dep_node d = Some n \<longrightarrow>
             (\<forall>j \<in> set (dep_gpus d). holder (w_gpus (sample_world ONLINE)) (n, j) = None)))
    | _ \<Rightarrow> requested ONLINE = (sample_world ONLINE)\<lparr>w_runtime := w_runtime (requested ONLINE)\<rparr>"
  by (rule request_is_atomic [OF _ requested_step])
     (use sample_exclusive in \<open>simp add: sample_world_def\<close>)

text \<open>
  Only a node the caller names is checked for being \<open>ONLINE\<close>: with none named, a platform whose
  only node is \<open>OFFLINE\<close> grants the same request and schedules it there, though naming that
  node is a conflict.
\<close>
theorem placement_ignores_node_status:
  "request_scope (request_deployment sample_settings sample_env 9 8 1000 sample_spec sample_actor)
      (sample_world OFFLINE) = (Done (Inr sample_deployment), requested OFFLINE) \<and>
   dep_node sample_deployment = Some 1 \<and>
   is_ok (pick_node (w_nodes (sample_world OFFLINE)) (sample_spec\<lparr>sp_node := Some 1\<rparr>)) = False"
proof -
  have "pick_node (w_nodes (sample_world OFFLINE)) (sample_spec\<lparr>sp_node := Some 1\<rparr>)
      = Inl (ConflictError ''The node is not ONLINE. Deploy to an ONLINE node.'')"
    by (simp add: pick_node_def sample_world_def get_node_def sample_node_def sample_spec_def)
  then show ?thesis by (simp only: requested_step) simp
qed

section \<open>Where the GPUs are lost\<close>

text \<open>
  An unexpected exception strands the GPUs: whenever a step of the worker raises, the row is
  marked \<open>FAILED\<close> with its reservation still in place and every device still held; stopping
  the deployment then changes nothing, and deleting it drops the row and releases nothing.
\<close>
theorem worker_exception_strands_gpus:
  assumes "advance st factory now d w = (Raised e, w')"
    and "d \<in> set (w_deployments w)" "distinct (map dep_id (w_deployments w))"
  shows "let v = mark_failed (dep_id d) w' in
    w_gpus v = w_gpus w \<and>
    (\<exists>x. get_deployment (dep_id d) v = Inr x \<and> dep_state x = FAILED \<and>
       dep_reservation x = dep_reservation d \<and>
       request_scope (stop_deployment factory' t act (dep_id d)) v = (Done (Inr x), v) \<and>
       request_scope (delete_deployment factory' t act (dep_id d)) v
         = (Done (Inr ()), drop_deployment (dep_id d) v) \<and>
       w_gpus (drop_deployment (dep_id d) v) = w_gpus w)"
proof -
  have "w_gpus w' = w_gpus w \<and> (\<exists>d'. dep_id d' = dep_id d \<and> dep_reservation d' = dep_reservation d \<and>
      w_deployments w' = put_row d' (w_deployments w))"
  proof -
    have self: "put_row d (w_deployments w) = w_deployments w"
      using assms(2,3) unfolding put_row_def update_rows_def
      by (intro map_idI) (auto simp: distinct_map inj_on_def)
    consider "create_container factory now d w = (Raised e, w')"
      | "await_health st factory now d w = (Raised e, w')"
      using assms(1) by (auto simp: advance_def Let_def split: if_splits)
    then show ?thesis
    proof cases
      case 1
      then have "w_gpus w' = w_gpus w \<and>
          w_deployments w' = put_row (d\<lparr>dep_state := CREATING\<rparr>) (w_deployments w)"
        by (auto simp: create_container_def fail_deployment_def Let_def
            split: option.splits sum.splits prod.splits outcome.splits if_splits)
      then show ?thesis by (intro conjI exI [of _ "d\<lparr>dep_state := CREATING\<rparr>"]) simp_all
    next
      case 2
      then have "w_gpus w' = w_gpus w \<and> w_deployments w' = w_deployments w"
        by (auto simp: await_health_def fail_deployment_def Let_def
            split: option.splits sum.splits prod.splits outcome.splits if_splits)
      then show ?thesis using self by (intro conjI exI [of _ d]) simp_all
    qed
  qed
  then obtain d' where g: "w_gpus w' = w_gpus w" and d': "dep_id d' = dep_id d"
    "dep_reservation d' = dep_reservation d" "w_deployments w' = put_row d' (w_deployments w)" by blast
  let ?v = "mark_failed (dep_id d) w'" and ?x = "d'\<lparr>dep_state := FAILED, dep_error := Some worker_error\<rparr>"
  have find: "find_row (\<lambda>y. dep_id y = dep_id d) (update_rows (\<lambda>y. dep_id y = dep_id d)
      (\<lambda>y. y\<lparr>dep_state := FAILED, dep_error := Some worker_error\<rparr>) (put_row d' ds)) = Some ?x"
    if "d \<in> set ds" for ds
    using that d'(1) by (induction ds) (auto simp: put_row_def)
  have x: "get_deployment (dep_id d) ?v = Inr ?x"
    using find [OF assms(2)] d'(3) by (simp add: get_deployment_def get_with_model_def mark_failed_def)
  have v: "w_gpus ?v = w_gpus w" using g by (simp add: mark_failed_def)
  show ?thesis
    unfolding Let_def
    by (intro conjI v exI [of _ ?x])
       (use x v d' in \<open>simp_all add: request_scope_def stop_deployment_def delete_deployment_def
          drop_deployment_def\<close>)
qed

lemma crashing_step:
  "advance sample_settings (sample_factory sample_env crashing_runtime) 1001 sample_deployment (requested ONLINE)
     = (Raised ''socket'', put_deployment (sample_deployment\<lparr>dep_state := CREATING\<rparr>) (requested ONLINE))"
  by (simp add: advance_def create_container_def node_for_def sample_factory_simp deploy_crashing Let_def
      put_deployment_row)

theorem worker_exception_strands_gpus_witness:
  "let v = mark_failed (dep_id sample_deployment)
      (put_deployment (sample_deployment\<lparr>dep_state := CREATING\<rparr>) (requested ONLINE)) in
    w_gpus v = w_gpus (requested ONLINE) \<and>
    (\<exists>x. get_deployment (dep_id sample_deployment) v = Inr x \<and> dep_state x = FAILED \<and>
       dep_reservation x = dep_reservation sample_deployment \<and>
       request_scope (stop_deployment (sample_factory sample_env sample_runtime) 5 sample_actor
         (dep_id sample_deployment)) v = (Done (Inr x), v) \<and>
       request_scope (delete_deployment (sample_factory sample_env sample_runtime) 5 sample_actor
         (dep_id sample_deployment)) v = (Done (Inr ()), drop_deployment (dep_id sample_deployment) v) \<and>
       w_gpus (drop_deployment (dep_id sample_deployment) v) = w_gpus (requested ONLINE))"
  by (rule worker_exception_strands_gpus [OF crashing_step]) simp_all

lemma dead_wait:
  "wait_until_healthy dead_env h 900 i r =
     (Done (if truthy (hnd_url h)
            then \<lparr>hnd_deployment = hnd_deployment h, hnd_state = FAILED, hnd_ref = hnd_ref h,
              hnd_url = hnd_url h, hnd_message = Some (''did not report healthy within '' @ int_str 900
                @ ''s ('' @ nat_str 1 @ '' probes). Check the deployment logs - a model that fails to ''
                @ ''load usually says why there.'')\<rparr>
            else failed_handle (hnd_deployment h) (hnd_ref h)
              ''No internal URL - the container was never started.''), r)"
proof -
  have "wait_loop (env_probe dead_env u p k) (env_clock dead_env) (env_start dead_env + 900) 0 = Some (False, 1)"
    for u p k
    by (subst wait_loop.simps, subst wait_loop.simps) (simp add: dead_env_def)
  then show ?thesis by (simp add: wait_until_healthy_def wait_until_serving_def)
qed

text \<open>
  A failed deployment leaves its container behind: when the health wait fails, the worker
  records \<open>FAILED\<close> and releases the GPUs while the container still exists; stopping the
  deployment changes nothing and deleting it removes the row, so that container goes on
  running on devices the platform now counts as free.
\<close>
theorem failed_deployment_leaves_container:
  "case advance sample_settings (sample_factory dead_env sample_runtime) 1900 checked_deployment started of
     (res, w) \<Rightarrow> res = Done FAILED \<and> w_runtime w = [sample_container] \<and>
       holder (w_gpus w) (1, 0) = None \<and> holder (w_gpus w) (1, 1) = None \<and>
       snd (request_scope (stop_deployment (sample_factory dead_env sample_runtime) 2000 sample_actor 9) w) = w \<and>
       (case request_scope (delete_deployment (sample_factory dead_env sample_runtime) 2001 sample_actor 9) w of
          (res', w') \<Rightarrow> res' = Done (Inr ()) \<and> w_deployments w' = [] \<and> w_runtime w' = [sample_container])"
proof -
  obtain d' where d': "dep_id d' = dep_id checked_deployment" "dep_reservation d' = None" "dep_state d' = FAILED"
    "advance sample_settings (sample_factory dead_env sample_runtime) 1900 checked_deployment started =
       (Done FAILED, put_deployment d' (started\<lparr>w_gpus := give_back 1900 checked_deployment (w_gpus started)\<rparr>))"
  proof -
    let ?h = "handle_of HEALTH_CHECK checked_deployment"
    have st: "dep_state checked_deployment = HEALTH_CHECK" "dep_node checked_deployment = Some 1"
      "truthy (hnd_url ?h)" "w_nodes started = [sample_node ONLINE]" "w_runtime started = [sample_container]"
      by (simp_all add: checked_deployment_def handle_of_def truthy_def started_def)
    have "\<exists>msg logs. advance sample_settings (sample_factory dead_env sample_runtime) 1900 checked_deployment started
        = fail_deployment 1900 checked_deployment msg logs started"
      by (simp add: advance_def await_health_def node_for_def st sample_factory_simp sample_settings_def
          dead_wait backend_logs_def sample_runtime_def Let_def) (auto simp: started_def)
    then show ?thesis using that fail_deployment_row [of checked_deployment 1900] by metis
  qed
  let ?w = "put_deployment d' (started\<lparr>w_gpus := give_back 1900 checked_deployment (w_gpus started)\<rparr>)"
  have row: "w_deployments ?w = [d']" "dep_id d' = 9" "w_runtime ?w = [sample_container]"
    using d'(1) by (simp_all add: started_def put_row_def checked_deployment_def)
  have ex: "exclusive held8"
    by (simp add: exclusive_def held8_def sample_db_def alloc_key_def alloc_active_def new_allocation_def)
  have free: "holder (w_gpus ?w) (1, 0) = None" "holder (w_gpus ?w) (1, 1) = None"
    using ex held8_holder by (simp_all add: started_def give_back_holder checked_deployment_def)
  have g: "get_deployment 9 ?w = Inr d'" by (simp add: get_deployment_def get_with_model_def row del: put_deployment_frame)
  then have "snd (request_scope (stop_deployment f 2000 a 9) ?w) = ?w"
    "request_scope (delete_deployment f 2001 a 9) ?w = (Done (Inr ()), drop_deployment 9 ?w)" for f a
    using d'(3) by (simp_all add: request_scope_def stop_deployment_def delete_deployment_def)
  then show ?thesis
    using d'(4) row free by (simp add: drop_deployment_def del: put_deployment_frame)
qed

text \<open>
  A restart does not ask which state a deployment is in: two deployments of one node, one
  failed (its reservation long released, its container still known) and one running on the
  very same GPUs; restarting the failed one puts it back on the way to \<open>RUNNING\<close> with no
  reservation, on devices that belong to the other.
\<close>
theorem restart_of_failed_shares_gpus:
  "let running = checked_deployment\<lparr>dep_state := RUNNING\<rparr>;
       failed = checked_deployment\<lparr>dep_id := 10, dep_state := FAILED, dep_reservation := None\<rparr>;
       w = started\<lparr>w_deployments := [running, failed]\<rparr> in
   owned {} w \<and>
   (case request_scope (restart_deployment (sample_factory sample_env sample_runtime) 2000 sample_actor 10) w of
      (res, w') \<Rightarrow> \<exists>d. res = Done (Inr d) \<and> d \<in> set (w_deployments w') \<and>
        dep_state d = HEALTH_CHECK \<and> dep_reservation d = None \<and> dep_node d = dep_node running \<and>
        dep_gpus d = dep_gpus running \<and> running \<in> set (w_deployments w') \<and> dep_gpus d \<noteq> [] \<and>
        list_all (\<lambda>j. holder (w_gpus w') (1, j) = dep_reservation running) (dep_gpus d))"
proof -
  let ?run = "checked_deployment\<lparr>dep_state := RUNNING\<rparr>"
  let ?bad = "checked_deployment\<lparr>dep_id := 10, dep_state := FAILED, dep_reservation := None\<rparr>"
  let ?w = "started\<lparr>w_deployments := [?run, ?bad]\<rparr>"
  let ?d = "?bad\<lparr>dep_state := HEALTH_CHECK,
      dep_detail := Some ''Restarted; waiting for the runtime to serve.'', dep_healthy_at := None\<rparr>"
  have ex: "exclusive held8"
    by (simp add: exclusive_def held8_def sample_db_def alloc_key_def alloc_active_def new_allocation_def)
  have all: "holder held8 k = (if fst k = 1 \<and> snd k \<in> {0, 1} then Some 8 else None)" for k
    by (cases k) (auto simp: held8_def sample_db_def holder_def alloc_active_def alloc_key_def new_allocation_def)
  have o: "owned {} ?w"
    by (rule ownedI)
       (auto simp: started_def checked_deployment_def settled_def covers_devices_def ex all split: if_splits)
  have cd: "truthy (dep_container checked_deployment)"
    by (simp add: checked_deployment_def truthy_def sample_container_def container_name_def)
  have r: "restart_deployment (sample_factory sample_env sample_runtime) 2000 sample_actor 10 ?w
      = (Done (Inr ?d), audit_deployment MODEL_DEPLOYED sample_actor ?d (Some ''Deployment restarted'')
           (JObj []) (put_deployment ?d (?w\<lparr>w_runtime := w_runtime ?w\<rparr>)))"
    using cd by (simp add: restart_deployment_def get_deployment_def get_with_model_def node_for_def
        sample_factory_simp restart_model_def sample_runtime_def Let_def started_def
        checked_deployment_def requested_def)
  show ?thesis
    unfolding Let_def request_scope_def r
    using o all by (simp add: put_row_def) (simp add: started_def checked_deployment_def)
qed

section \<open>Addresses\<close>

definition addressed :: "'r world \<Rightarrow> bool" where
  "addressed w = (\<forall>d \<in> set (w_deployments w). dep_state d = RUNNING \<longrightarrow> truthy (dep_url d))"

lemma addressed_put:
  assumes "addressed w" "w_deployments w' = put_row d' (w_deployments w)"
    "dep_state d' = RUNNING \<longrightarrow> truthy (dep_url d')"
  shows "addressed w'"
  using assms unfolding addressed_def by (auto simp: put_row_def set_update_rows)

lemma addressed_ends: "addressed w \<Longrightarrow> ends d s w w' \<Longrightarrow> s \<noteq> RUNNING \<Longrightarrow> addressed w'"
  unfolding ends_def by (auto intro: addressed_put)

lemma addressed_moves:
  "addressed w \<Longrightarrow> moves d s w w' \<Longrightarrow> (s = RUNNING \<Longrightarrow> truthy (dep_url d)) \<Longrightarrow> addressed w'"
  unfolding moves_def by (elim exE conjE, rule addressed_put) auto

lemma advance_running_address:
  assumes "advance st (docker_factory cfg env ro) now d w = (Done s, w')" "moves d RUNNING w w'" "s = RUNNING"
    "dep_state d \<in> {CREATING, STARTING, HEALTH_CHECK}"
  shows "truthy (dep_url d)"
proof -
  have a: "await_health st (docker_factory cfg env ro) now d w = (Done RUNNING, w')"
    using assms by (auto simp: advance_def)
  then obtain n where n: "node_for w d = Some n"
    by (cases "node_for w d") (auto simp: await_health_def fail_deployment_def Let_def split: option.splits)
  with a obtain rt where "ro n = Inr rt"
    by (cases "ro n") (auto simp: await_health_def docker_factory_def)
  then have "docker_factory cfg env ro n = Inr (docker_backend cfg env rt)" by (simp add: docker_factory_def)
  from docker.await_running_address [OF n this a] show ?thesis .
qed

lemma addressed_drop: "addressed w \<Longrightarrow> addressed (drop_deployment i w)"
  by (auto simp: addressed_def drop_deployment_def)

lemma addressed_delete:
  assumes "addressed w" "delete_deployment factory now act i w = (Done (Inr ()), w')"
  shows "addressed w'"
proof -
  obtain d where g: "get_deployment i w = Inr d"
    using assms(2) by (auto simp: delete_deployment_def split: sum.splits)
  show ?thesis
  proof (cases "dep_state d \<in> {STOPPED, FAILED}")
    case True
    with g assms(2) have "w' = drop_deployment i w" by (auto simp: delete_deployment_def)
    with assms(1) show ?thesis by (simp add: addressed_drop)
  next
    case False
    with g assms(2) obtain d2 w1 where s: "stop_deployment factory now act i w = (Done (Inr d2), w1)"
      and w': "w' = drop_deployment i w1"
      by (auto simp: delete_deployment_def split: prod.splits outcome.splits sum.splits)
    have "addressed w1"
      by (rule stop_effect [OF s]) (use assms(1) addressed_ends in blast)
    with w' show ?thesis by (simp add: addressed_drop)
  qed
qed

lemma addressed_runtime [simp]: "addressed (w\<lparr>w_runtime := r\<rparr>) = addressed w"
  by (simp add: addressed_def)

lemma addressed_request:
  assumes "addressed w" "request_deployment st env i rid now sp act w = (Done (Inr d), w')"
  shows "addressed w'"
proof -
  obtain m runtime where "attach_external st env i now act m runtime w = (Done (Inr d), w') \<or>
      deploy_managed st i rid now act m sp runtime w = Inr (w', d)"
    using assms(2) by (auto simp: request_deployment_def Let_def split: option.splits if_splits sum.splits)
  then have "w_deployments w' = w_deployments w @ [d] \<and> (dep_state d = RUNNING \<longrightarrow> truthy (dep_url d))"
  proof
    assume "attach_external st env i now act m runtime w = (Done (Inr d), w')"
    from attach_external_Inr [OF this] show ?thesis by (simp add: external_deployment_def truthy_iff)
  next
    assume "deploy_managed st i rid now act m sp runtime w = Inr (w', d)"
    then show ?thesis by (rule deploy_managed_Inr) (simp add: new_deployment_def)
  qed
  with assms(1) show ?thesis by (auto simp: addressed_def)
qed

lemma addressed_step:
  "service_step st (docker_factory cfg env ro) others w w' \<Longrightarrow> addressed w \<Longrightarrow> addressed w'"
proof (induction rule: service_step.induct)
  case (step_request i rid w e now sp act res w')
  from step_request(2) show ?case
    by (rule request_scope_cases) (use step_request addressed_request in \<open>auto\<close>)
next
  case (step_advance d w now s w')
  from advance_effect [OF step_advance(2)] step_advance(3) show ?case
    using addressed_moves [of w d s w'] addressed_ends [of w d s w']
      advance_running_address [OF step_advance(2)]
    by (elim disjE) auto
next
  case (step_stop now act i w res w')
  from step_stop(1) show ?case
  proof (rule request_scope_cases)
    fix a assume "stop_deployment (docker_factory cfg env ro) now act i w = (Done (Inr a), w')"
    then show ?thesis by (rule stop_effect) (use step_stop(2) addressed_ends in blast)
  qed (use step_stop in simp)
next
  case (step_restart now act i w res w')
  from step_restart(1) show ?case
  proof (rule request_scope_cases)
    fix a assume "restart_deployment (docker_factory cfg env ro) now act i w = (Done (Inr a), w')"
    then show ?thesis
      by (rule restart_effect) (use step_restart(2) addressed_ends addressed_moves in blast)
  qed (use step_restart in simp)
next
  case (step_delete now act i w res w')
  from step_delete(1) show ?case
    by (rule request_scope_cases) (use step_delete addressed_delete in \<open>auto\<close>)
qed

lemma reachable_addressed:
  assumes "w_deployments w0 = []" "reachable st (docker_factory cfg env ro) others w0 w"
  shows "addressed w"
  using assms(2) unfolding reachable_def
proof (induction rule: rtranclp_induct)
  case base
  then show ?case using assms(1) by (simp add: addressed_def)
qed (rule addressed_step)

text \<open>
  Everything the platform calls \<open>RUNNING\<close> can be routed to: in every reachable state, whatever the
  container hosts answer, a running deployment (managed or external) has an internal address.
\<close>
theorem running_has_address:
  assumes "w_deployments w0 = []" "reachable st (docker_factory cfg env ro) others w0 w"
  shows "\<forall>d \<in> set (w_deployments w). dep_state d = RUNNING \<longrightarrow> truthy (dep_url d)"
  using reachable_addressed [OF assms] by (simp add: addressed_def)

lemma started_reachable:
  "reachable sample_settings (docker_factory sample_backend_config sample_env (\<lambda>_. Inr sample_runtime)) {}
     (sample_world ONLINE) started"
proof -
  have "service_step sample_settings (docker_factory sample_backend_config sample_env (\<lambda>_. Inr sample_runtime)) {}
      (requested ONLINE) started"
    by (rule step_advance [of sample_deployment _ _ _ 1001 HEALTH_CHECK])
       (use started_step [of sample_env, unfolded sample_factory_def] in
         \<open>simp_all add: set_list_pending pending_states_def\<close>)
  with requested_reachable show ?thesis unfolding reachable_def by (rule rtranclp.rtrancl_into_rtrancl)
qed

lemma sample_wait:
  "truthy (hnd_url h) \<Longrightarrow> wait_until_healthy sample_env h 900 i r =
     (Done \<lparr>hnd_deployment = hnd_deployment h, hnd_state = RUNNING, hnd_ref = hnd_ref h,
        hnd_url = hnd_url h, hnd_message = Some (''healthy after '' @ nat_str 3 @ '' probe(s)'')\<rparr>, r)"
proof -
  have "wait_loop (env_probe sample_env u p k) (env_clock sample_env) (env_start sample_env + 900) 0 = Some (True, 3)"
    for u p k
    by (subst wait_loop.simps, subst wait_loop.simps, subst wait_loop.simps) (simp add: sample_env_def)
  then show "truthy (hnd_url h) \<Longrightarrow> ?thesis" by (simp add: wait_until_healthy_def wait_until_serving_def)
qed

definition served :: "string list world" where
  "served = snd (advance sample_settings
     (docker_factory sample_backend_config sample_env (\<lambda>_. Inr sample_runtime)) 1020 checked_deployment started)"

lemma served_step:
  "advance sample_settings (docker_factory sample_backend_config sample_env (\<lambda>_. Inr sample_runtime))
     1020 checked_deployment started = (Done RUNNING, served) \<and> map dep_state (w_deployments served) = [RUNNING]
   \<and> map dep_model (w_deployments served) = [dep_model checked_deployment]"
proof -
  let ?h = "handle_of HEALTH_CHECK checked_deployment"
  have st: "dep_state checked_deployment = HEALTH_CHECK" "dep_node checked_deployment = Some 1"
    "truthy (hnd_url ?h)" "w_nodes started = [sample_node ONLINE]" "w_runtime started = [sample_container]"
    "w_deployments started = [checked_deployment]"
    by (simp_all add: checked_deployment_def handle_of_def truthy_def started_def)
  show ?thesis
    unfolding served_def
    by (simp add: advance_def await_health_def node_for_def st docker_factory_def sample_settings_def
        sample_wait Let_def put_row_def)
qed

lemma served_row: "map dep_state (w_deployments served) = [RUNNING]"
  using served_step by blast

lemma served_reachable:
  "reachable sample_settings (docker_factory sample_backend_config sample_env (\<lambda>_. Inr sample_runtime)) {}
     (sample_world ONLINE) served"
proof -
  have "service_step sample_settings (docker_factory sample_backend_config sample_env (\<lambda>_. Inr sample_runtime)) {}
      started served"
    by (rule step_advance [of checked_deployment _ _ _ 1020 RUNNING])
       (use served_step in \<open>simp_all add: set_list_pending pending_states_def started_def checked_deployment_def\<close>)
  with started_reachable show ?thesis unfolding reachable_def by (rule rtranclp.rtrancl_into_rtrancl)
qed

theorem running_has_address_witness:
  "list_all (\<lambda>d. dep_state d = RUNNING \<longrightarrow> truthy (dep_url d)) (w_deployments served) \<and>
   map dep_state (w_deployments served) = [RUNNING]"
proof -
  have "list_all (\<lambda>d. dep_state d = RUNNING \<longrightarrow> truthy (dep_url d)) (w_deployments served)"
    unfolding list_all_iff
    by (rule running_has_address [OF _ served_reachable]) (simp add: sample_world_def)
  then show ?thesis using served_row by simp
qed

section \<open>Orphans\<close>

lemma scan_containers_rows:
  "scan_containers be remove nm cs r = (Done os, r') \<Longrightarrow>
     map orph_container os = map (\<lambda>c. take 12 (ci_id c)) cs \<and> (\<forall>x \<in> set os. orph_node x = nm) \<and>
     (\<not> remove \<longrightarrow> r' = r \<and> (\<forall>x \<in> set os. \<not> orph_removed x))"
proof (induction cs arbitrary: os r)
  case (Cons c cs)
  obtain gone r1 os1 where "scan_containers be remove nm cs r1 = (Done os1, r')"
    "os = \<lparr>orph_node = nm, orph_container = take 12 (ci_id c), orph_name = ci_name c,
       orph_removed = gone\<rparr> # os1" "\<not> remove \<longrightarrow> r1 = r \<and> \<not> gone"
    using Cons.prems
    by (cases remove) (auto simp: Let_def split: prod.splits outcome.splits)
  with Cons.IH [of r1 os1] show ?case by auto
qed simp

text \<open>What the scan of a list of nodes accounts for.\<close>

lemma scan_nodes_rows:
  "scan_nodes factory remove known ns r = (Done (os, us), r') \<Longrightarrow>
     (\<forall>x \<in> set os. (\<exists>n \<in> set ns. node_status n = ONLINE \<and> orph_node x = node_name n) \<and>
        (\<exists>c. \<not> known c \<and> orph_container x = take 12 (ci_id c)) \<and> (\<not> remove \<longrightarrow> \<not> orph_removed x)) \<and>
     (\<forall>n \<in> set ns. node_status n \<noteq> ONLINE \<longrightarrow>
        node_name n @ '' ('' @ status_text (node_status n) @ '')'' \<in> set us) \<and>
     length us \<le> length ns"
proof (induction ns arbitrary: os us r)
  case (Cons n ns)
  obtain os1 us1 os2 us2 r1 where split: "scan_nodes factory remove known ns r1 = (Done (os2, us2), r')"
    "os = os1 @ os2" "us = us1 @ us2" "length us1 \<le> 1"
    and here: "node_status n \<noteq> ONLINE \<longrightarrow> us1 = [node_name n @ '' ('' @ status_text (node_status n) @ '')'']"
    and orph: "os1 = [] \<or> (node_status n = ONLINE \<and> (\<exists>be cs r2. scan_containers be remove (node_name n)
       (filter (\<lambda>c. \<not> known c) cs) r2 = (Done os1, r1)))"
  proof (cases "node_status n = ONLINE")
    case False
    with Cons.prems show ?thesis
      by (auto simp: Let_def split: prod.splits outcome.splits intro: that [of r _ _ "[]"])
  next
    case on: True
    show ?thesis
    proof (cases "\<exists>be cs r2. factory n = Inr be \<and> be_list be r = (Done cs, r2)")
      case False
      with on Cons.prems show ?thesis
        by (auto simp: Let_def split: sum.splits prod.splits outcome.splits intro: that [of _ _ _ "[]"])
    next
      case True
      then obtain be cs r2 where be: "factory n = Inr be" "be_list be r = (Done cs, r2)" by blast
      with on Cons.prems obtain os1 r3 os2 where
        s: "scan_containers be remove (node_name n) (filter (\<lambda>c. \<not> known c) cs) r2 = (Done os1, r3)"
        and rest: "scan_nodes factory remove known ns r3 = (Done (os2, us), r')" "os = os1 @ os2"
        by (auto simp: Let_def split: prod.splits outcome.splits)
      from on s show ?thesis by (intro that [of r3 os2 us os1 "[]", OF rest(1)]) (auto simp: rest(2))
    qed
  qed
  have "\<forall>x \<in> set os1. node_status n = ONLINE \<and> orph_node x = node_name n \<and>
      (\<exists>c. \<not> known c \<and> orph_container x = take 12 (ci_id c)) \<and> (\<not> remove \<longrightarrow> \<not> orph_removed x)"
  proof (cases "os1 = []")
    case False
    with orph obtain be cs r2 where on: "node_status n = ONLINE" and s: "scan_containers be remove
        (node_name n) (filter (\<lambda>c. \<not> known c) cs) r2 = (Done os1, r1)" by blast
    note rows = scan_containers_rows [OF s]
    have "\<exists>c. \<not> known c \<and> orph_container x = take 12 (ci_id c)" if "x \<in> set os1" for x
    proof -
      have "orph_container x \<in> set (map (\<lambda>c. take 12 (ci_id c)) (filter (\<lambda>c. \<not> known c) cs))"
        using rows that by (metis image_eqI list.set_map)
      then show ?thesis by auto
    qed
    with on rows show ?thesis by blast
  qed simp
  with Cons.IH [OF split(1)] split(2,3,4) here show ?case by auto
qed simp

text \<open>
  C6. Reconciliation touches nothing it should not: it changes no table; every container it
  reports was listed by an \<open>ONLINE\<close> node, and is none that a deployment row knows, by full or
  short id; without \<open>remove\<close> nothing is removed; a node that is not \<open>ONLINE\<close> is reported as
  unscanned, as long as the platform has no more than the hundred nodes the listing returns.
\<close>
theorem reconcile_reports_honestly:
  assumes "reconcile_orphans factory remove w = (Done (os, us), w')"
  shows "w' = w\<lparr>w_runtime := w_runtime w'\<rparr> \<and>
    (\<forall>x \<in> set os. (\<exists>n \<in> set (w_nodes w). node_status n = ONLINE \<and> orph_node x = node_name n) \<and>
       (\<forall>d \<in> set (w_deployments w). \<forall>c. dep_container d = Some c \<and> c \<noteq> [] \<longrightarrow> orph_container x \<noteq> take 12 c) \<and>
       (\<not> remove \<longrightarrow> \<not> orph_removed x)) \<and>
    (length (w_nodes w) \<le> 100 \<longrightarrow> (\<forall>n \<in> set (w_nodes w). node_status n \<noteq> ONLINE \<longrightarrow>
       node_name n @ '' ('' @ status_text (node_status n) @ '')'' \<in> set us)) \<and>
    length us \<le> 100"
proof -
  obtain r where s: "scan_nodes factory remove (is_known w) (list_all_nodes 100 0 (w_nodes w)) (w_runtime w)
      = (Done (os, us), r)" and w': "w' = w\<lparr>w_runtime := r\<rparr>"
    using assms by (auto simp: reconcile_orphans_def split: prod.splits)
  have short: "take 12 (ci_id c) \<noteq> take 12 c'"
    if "\<not> is_known w c" "d \<in> set (w_deployments w)" "dep_container d = Some c'" "c' \<noteq> []" for c d c'
  proof -
    have "take 12 c' \<in> known_containers w"
      using that(2-4) by (force simp: known_containers_def list_deployments_def neq_Nil_conv)
    with that(1) show ?thesis by (auto simp: is_known_def)
  qed
  have len: "length (list_all_nodes 100 0 (w_nodes w)) \<le> 100" by (simp add: list_all_nodes_def)
  note rows = scan_nodes_rows [OF s]
  have "\<forall>x \<in> set os. (\<exists>n \<in> set (w_nodes w). node_status n = ONLINE \<and> orph_node x = node_name n) \<and>
       (\<forall>d \<in> set (w_deployments w). \<forall>c. dep_container d = Some c \<and> c \<noteq> [] \<longrightarrow> orph_container x \<noteq> take 12 c) \<and>
       (\<not> remove \<longrightarrow> \<not> orph_removed x)"
    using rows list_all_nodes_sub short by metis
  with rows len w' set_list_all_nodes [of "w_nodes w" 100] show ?thesis
    by (auto intro: le_trans)
qed

lemma reconcile_sample:
  "reconcile_orphans (sample_factory sample_env sample_runtime) True
     ((sample_world ONLINE)\<lparr>w_runtime := [''stray'']\<rparr>) =
   (Done ([\<lparr>orph_node = ''gpu-1'', orph_container = ''stray'', orph_name = ''stray'', orph_removed = True\<rparr>], []),
    sample_world ONLINE)"
  by (simp add: reconcile_orphans_def sample_world_def list_all_nodes_def sample_factory_simp sample_node_def
      list_managed_def remove_container_def sample_runtime_def sample_info_def is_known_def
      known_containers_def list_deployments_def Let_def)

theorem reconcile_reports_honestly_witness:
  "let w = (sample_world ONLINE)\<lparr>w_runtime := [''stray'']\<rparr>;
       os = [\<lparr>orph_node = ''gpu-1'', orph_container = ''stray'', orph_name = ''stray'', orph_removed = True\<rparr>] in
    sample_world ONLINE = w\<lparr>w_runtime := w_runtime (sample_world ONLINE)\<rparr> \<and>
    (\<forall>x \<in> set os. (\<exists>n \<in> set (w_nodes w). node_status n = ONLINE \<and> orph_node x = node_name n) \<and>
       (\<forall>d \<in> set (w_deployments w). \<forall>c. dep_container d = Some c \<and> c \<noteq> [] \<longrightarrow> orph_container x \<noteq> take 12 c) \<and>
       (\<not> True \<longrightarrow> \<not> orph_removed x)) \<and>
    (length (w_nodes w) \<le> 100 \<longrightarrow> (\<forall>n \<in> set (w_nodes w). node_status n \<noteq> ONLINE \<longrightarrow>
       node_name n @ '' ('' @ status_text (node_status n) @ '')'' \<in> set [])) \<and>
    length ([] :: string list) \<le> 100"
  unfolding Let_def by (rule reconcile_reports_honestly [OF reconcile_sample])

end
