(* ===== verification/Tool_Pipeline.thy ===== *)
theory Tool_Pipeline
  imports Audit_Trail
begin

text \<open>
  The authorisation pipeline of tool calls: \<open>backend/app/services/tool_pipeline.py\<close>, with the
  tables it reads and writes (\<open>Tool\<close>, \<open>ToolExecution\<close>, the part of \<open>AgentRun\<close> a run is
  authorised by).  Executors are parameters: functions of an invocation and of a state \<open>'e\<close>
  that stands for everything a tool can reach.  The metrics and the log are not modelled; the ellipsis of the truncation
  marker is three dots, and rows are in the order they were requested.
\<close>

section \<open>Data\<close>

datatype tool_type = MCP | REST | OPENAPI | INTERNAL | DATABASE | PYTHON | COMMAND

datatype risk_level = LOW | MEDIUM | HIGH | CRITICAL_RISK

datatype approval_state = NOT_REQUIRED | PENDING | APPROVED | REJECTED | EXPIRED

fun type_text :: "tool_type \<Rightarrow> string" where
  "type_text MCP = ''MCP''" | "type_text REST = ''REST''" | "type_text OPENAPI = ''OPENAPI''"
| "type_text INTERNAL = ''INTERNAL''" | "type_text DATABASE = ''DATABASE''"
| "type_text PYTHON = ''PYTHON''" | "type_text COMMAND = ''COMMAND''"

fun risk_text :: "risk_level \<Rightarrow> string" where
  "risk_text LOW = ''LOW''" | "risk_text MEDIUM = ''MEDIUM''" | "risk_text HIGH = ''HIGH''"
| "risk_text CRITICAL_RISK = ''CRITICAL''"

record tool =
  tool_id :: uuid
  tool_name :: string
  tool_display :: string
  tool_description :: string
  tool_type :: tool_type
  tool_schema :: json
  tool_permission :: string
  tool_risk :: risk_level
  tool_endpoint :: "string option"
  tool_config :: "(string \<times> json) list"
  tool_credentials :: "string option"
  tool_enabled :: bool
  tool_timeout :: int
  tool_server :: "uuid option"
  tool_discovered_at :: "timestamp option"

record tool_execution =
  exec_id :: uuid
  exec_run :: uuid
  exec_tool :: "uuid option"
  exec_name :: string
  exec_arguments :: json
  exec_risk :: risk_level
  exec_approval :: approval_state
  exec_requested_at :: timestamp
  exec_approver :: "uuid option"
  exec_decided_at :: "timestamp option"
  exec_reason :: "string option"
  exec_success :: "bool option"
  exec_result :: "string option"
  exec_error :: "string option"
  exec_duration :: "rat option"
  exec_truncated :: bool

datatype run_state = CREATED_RUN | RUNNING_RUN | WAITING_FOR_APPROVAL | COMPLETED | FAILED_RUN | CANCELLED

record agents_settings =
  approval_required_levels :: "risk_level list"
  disabled_types :: "tool_type list"

definition default_agents_settings :: agents_settings where
  "default_agents_settings =
     \<lparr>approval_required_levels = [HIGH, CRITICAL_RISK], disabled_types = [COMMAND, PYTHON]\<rparr>"

text \<open>What the pipeline needs to know of a run; \<open>caller_permissions\<close> was frozen at its start.\<close>

record caller =
  caller_run :: uuid
  caller_agent :: uuid
  caller_user :: "uuid option"
  caller_permissions :: "string list"

record tool_result =
  res_success :: bool
  res_content :: string
  res_duration :: rat
  res_error :: "string option"
  res_truncated :: bool

record tool_definition =
  def_name :: string
  def_type :: tool_type
  def_schema :: json
  def_permission :: string
  def_risk :: risk_level
  def_endpoint :: "string option"
  def_enabled :: bool
  def_config :: "(string \<times> json) list"

record tool_invocation =
  inv_tool :: tool_definition
  inv_arguments :: json
  inv_run :: string
  inv_agent :: string
  inv_user :: "string option"
  inv_timeout :: int

text \<open>An executor answers, or raises: the class of the exception, its text, the time it took.\<close>

type_synonym 'e executor =
  "tool_invocation \<Rightarrow> 'e \<Rightarrow> ((string \<times> string \<times> rat) + tool_result) \<times> 'e"

datatype denial = Denial (denial_reason: string) (denial_detail: string)

datatype outcome_of_call =
    Ran tool_result
  | Denied denial
  | Pending uuid

record 'e pipe_state =
  ps_execs :: "tool_execution list"
  ps_next :: uuid
  ps_trail :: "audit_entry list"
  ps_denials :: "audit_entry list"
  ps_ext :: 'e

definition max_result_chars :: nat where
  "max_result_chars = 8000"

section \<open>Authorisation\<close>

definition authorise :: "agents_settings \<Rightarrow> caller \<Rightarrow> tool \<Rightarrow> uuid set \<Rightarrow> denial option" where
  "authorise st run t granted =
     (if \<not> tool_enabled t
      then Some (Denial (''The tool '' @ quoted (tool_name t) @ '' is disabled.'') ''tool_disabled'')
      else if tool_type t \<in> set (disabled_types st)
      then Some (Denial (''Tools of type '' @ type_text (tool_type t)
                  @ '' are disabled on this platform and cannot be executed.'') ''tool_type_disabled'')
      else if tool_id t \<notin> granted
      then Some (Denial (''This agent has not been granted the tool '' @ quoted (tool_name t) @ ''.'')
                  ''not_granted_to_agent'')
      else if tool_permission t \<notin> set (caller_permissions run)
      then Some (Denial (''You do not have permission to use '' @ quoted (tool_name t) @ ''. It requires ''
                  @ quoted (tool_permission t) @ ''.'') ''user_lacks_permission'')
      else None)"

definition needs_approval :: "agents_settings \<Rightarrow> tool \<Rightarrow> bool" where
  "needs_approval st t = (tool_risk t \<in> set (approval_required_levels st))"

definition tool_definition_of :: "tool \<Rightarrow> tool_definition" where
  "tool_definition_of t =
     \<lparr>def_name = tool_name t, def_type = tool_type t, def_schema = tool_schema t,
      def_permission = tool_permission t, def_risk = tool_risk t, def_endpoint = tool_endpoint t,
      def_enabled = tool_enabled t, def_config = tool_config t\<rparr>"

definition truncation_marker :: string where
  "truncation_marker = newline # ''... [truncated]''"

definition truncate_result :: "tool_result \<Rightarrow> tool_result" where
  "truncate_result r =
     (if length (res_content r) \<le> max_result_chars then r
      else r\<lparr>res_content := take max_result_chars (res_content r) @ truncation_marker,
             res_truncated := True\<rparr>)"

section \<open>Rows and records\<close>

definition put_execution :: "tool_execution \<Rightarrow> 'e pipe_state \<Rightarrow> 'e pipe_state" where
  "put_execution x s =
     s\<lparr>ps_execs := update_rows (\<lambda>y. exec_id y = exec_id x) (\<lambda>_. x) (ps_execs s)\<rparr>"

definition tool_entry ::
    "audit_action \<Rightarrow> audit_result \<Rightarrow> caller \<Rightarrow> tool \<Rightarrow> (string \<times> json) list \<Rightarrow> audit_entry" where
  "tool_entry action res run t extra =
     build_entry action res (caller_user run) ''anonymous'' (Some ''tool'')
       (Some (uuid_str (tool_id t))) None
       (JObj ([(''run_id'', JStr (uuid_str (caller_run run))), (''tool'', JStr (tool_name t))] @ extra))"

definition finish ::
    "tool_execution \<Rightarrow> caller \<Rightarrow> tool \<Rightarrow> tool_result \<Rightarrow> 'e pipe_state \<Rightarrow> 'e pipe_state" where
  "finish x run t r s =
     (let s1 = put_execution (x\<lparr>exec_success := Some (res_success r),
            exec_result := (if res_content r = [] then None
                            else Some (take max_result_chars (res_content r))),
            exec_error := res_error r, exec_duration := Some (res_duration r),
            exec_truncated := res_truncated r\<rparr>) s
      in s1\<lparr>ps_trail := ps_trail s1 @ [tool_entry TOOL_EXECUTED
            (if res_success r then SUCCESS else FAILURE) run t
            [(''risk_level'', JStr (risk_text (tool_risk t))),
             (''duration_ms'', JNum (round2 (res_duration r)))]]\<rparr>)"

definition execute_approved ::
    "(tool_type \<Rightarrow> 'e executor option) \<Rightarrow> tool_execution \<Rightarrow> tool \<Rightarrow> caller \<Rightarrow> 'e pipe_state
       \<Rightarrow> tool_result \<times> 'e pipe_state" where
  "execute_approved executors x t run s =
     (case executors (tool_type t) of
        None \<Rightarrow>
          (let r = \<lparr>res_success = False,
                 res_content = ''No executor is available for tool type '' @ type_text (tool_type t) @ ''.'',
                 res_duration = 0, res_error = Some ''no_executor'', res_truncated = False\<rparr>
           in (r, finish x run t r s))
      | Some execute \<Rightarrow>
          (case execute \<lparr>inv_tool = tool_definition_of t, inv_arguments = exec_arguments x,
                  inv_run = uuid_str (caller_run run), inv_agent = uuid_str (caller_agent run),
                  inv_user = map_option uuid_str (caller_user run), inv_timeout = tool_timeout t\<rparr>
                (ps_ext s) of
             (answer, e) \<Rightarrow>
               (let r = truncate_result (case answer of
                      Inr r \<Rightarrow> r
                    | Inl (cls, msg, elapsed) \<Rightarrow>
                        \<lparr>res_success = False,
                         res_content = ''The tool '' @ quoted (tool_name t) @ '' failed: '' @ cls @ ''.'',
                         res_duration = elapsed, res_error = Some (take 500 msg),
                         res_truncated = False\<rparr>)
                in (r, finish x run t r (s\<lparr>ps_ext := e\<rparr>)))))"

definition deny ::
    "timestamp \<Rightarrow> tool_execution \<Rightarrow> caller \<Rightarrow> tool \<Rightarrow> denial \<Rightarrow> 'e pipe_state \<Rightarrow> 'e pipe_state" where
  "deny now x run t d s =
     (let s1 = put_execution (x\<lparr>exec_approval := REJECTED, exec_success := Some False,
            exec_error := Some (denial_detail d), exec_decided_at := Some now,
            exec_reason := Some (denial_reason d)\<rparr>) s
      in s1\<lparr>ps_denials := ps_denials s1 @ [tool_entry TOOL_DENIED DENIED run t
            [(''reason'', JStr (denial_detail d))]]\<rparr>)"

section \<open>invoke\<close>

definition new_execution :: "timestamp \<Rightarrow> uuid \<Rightarrow> caller \<Rightarrow> tool \<Rightarrow> json \<Rightarrow> tool_execution" where
  "new_execution now i run t args =
     \<lparr>exec_id = i, exec_run = caller_run run, exec_tool = Some (tool_id t), exec_name = tool_name t,
      exec_arguments = args, exec_risk = tool_risk t, exec_approval = NOT_REQUIRED, exec_requested_at = now,
      exec_approver = None, exec_decided_at = None, exec_reason = None, exec_success = None,
      exec_result = None, exec_error = None, exec_duration = None, exec_truncated = False\<rparr>"

definition invoke ::
    "agents_settings \<Rightarrow> (tool_type \<Rightarrow> 'e executor option) \<Rightarrow> timestamp \<Rightarrow> caller \<Rightarrow> tool \<Rightarrow> json
       \<Rightarrow> uuid set \<Rightarrow> 'e pipe_state \<Rightarrow> outcome_of_call \<times> 'e pipe_state" where
  "invoke st executors now run t args granted s =
     (let x = new_execution now (ps_next s) run t args;
          s1 = s\<lparr>ps_execs := ps_execs s @ [x], ps_next := ps_next s + 1\<rparr>
      in case authorise st run t granted of
           Some d \<Rightarrow> (Denied d, deny now x run t d s1)
         | None \<Rightarrow>
             if needs_approval st t
             then (Pending (exec_id x),
                   (put_execution (x\<lparr>exec_approval := PENDING\<rparr>) s1)
                     \<lparr>ps_trail := ps_trail s1 @ [tool_entry TOOL_APPROVAL_REQUESTED SUCCESS run t
                        [(''risk_level'', JStr (risk_text (tool_risk t)))]]\<rparr>)
             else (case execute_approved executors (x\<lparr>exec_approval := NOT_REQUIRED\<rparr>) t run s1 of
                     (r, s2) \<Rightarrow> (Ran r, s2)))"

definition pending_for_run :: "uuid \<Rightarrow> tool_execution list \<Rightarrow> tool_execution option" where
  "pending_for_run run rows = find_row (\<lambda>x. exec_run x = run \<and> exec_approval x = PENDING) rows"

definition pending_executions :: "nat \<Rightarrow> tool_execution list \<Rightarrow> tool_execution list" where
  "pending_executions limit rows = take limit (filter (\<lambda>x. exec_approval x = PENDING) rows)"

definition expire_older_than ::
    "timestamp \<Rightarrow> timestamp \<Rightarrow> tool_execution list \<Rightarrow> nat \<times> tool_execution list" where
  "expire_older_than now cutoff rows =
     (let stale = (\<lambda>x. exec_approval x = PENDING \<and> exec_requested_at x < cutoff)
      in (length (filter stale rows),
          update_rows stale (\<lambda>x. x\<lparr>exec_approval := EXPIRED, exec_decided_at := Some now,
            exec_reason := Some ''No approver responded within the timeout.''\<rparr>) rows))"

section \<open>What a call may do\<close>

definition authorised :: "agents_settings \<Rightarrow> caller \<Rightarrow> tool \<Rightarrow> uuid set \<Rightarrow> bool" where
  "authorised st run t granted =
     (tool_enabled t \<and> tool_type t \<notin> set (disabled_types st) \<and> tool_id t \<in> granted \<and>
      tool_permission t \<in> set (caller_permissions run))"

lemma authorise_None: "authorise st run t granted = None \<longleftrightarrow> authorised st run t granted"
  by (simp add: authorise_def authorised_def)

definition fresh_rows :: "'e pipe_state \<Rightarrow> bool" where
  "fresh_rows s = ((\<forall>y \<in> set (ps_execs s). exec_id y < ps_next s) \<and> distinct (map exec_id (ps_execs s)))"

lemma update_new_row:
  "\<forall>y \<in> set rows. exec_id y < n \<Longrightarrow> exec_id x = n \<Longrightarrow> exec_id z = n \<Longrightarrow>
     update_rows (\<lambda>y. exec_id y = exec_id z) (\<lambda>_. z) (rows @ [x]) = rows @ [z]"
  by (induction rows) auto

text \<open>A row that stands for a call that ran: its tool was permitted and needed nobody's consent.\<close>

definition ran_unattended :: "tool_execution \<Rightarrow> bool" where
  "ran_unattended x = (exec_approval x = NOT_REQUIRED \<and> exec_success x \<noteq> None)"

lemma finish_frame [simp]:
  "ps_ext (finish x run t r s) = ps_ext s" "ps_denials (finish x run t r s) = ps_denials s"
  "ps_next (finish x run t r s) = ps_next s"
  by (simp_all add: finish_def put_execution_def Let_def)

text \<open>The columns an execution leaves as they were.\<close>

definition same_call :: "tool_execution \<Rightarrow> tool_execution \<Rightarrow> bool" where
  "same_call x y =
     (exec_id y = exec_id x \<and> exec_run y = exec_run x \<and> exec_tool y = exec_tool x \<and>
      exec_name y = exec_name x \<and> exec_arguments y = exec_arguments x \<and> exec_risk y = exec_risk x \<and>
      exec_approval y = exec_approval x \<and> exec_approver y = exec_approver x)"

lemma same_callD:
  assumes "same_call x y"
  shows "exec_id y = exec_id x" "exec_run y = exec_run x" "exec_tool y = exec_tool x"
    "exec_name y = exec_name x" "exec_arguments y = exec_arguments x" "exec_risk y = exec_risk x"
    "exec_approval y = exec_approval x" "exec_approver y = exec_approver x"
  using assms by (simp_all add: same_call_def)

lemma execute_approved_row:
  assumes "execute_approved executors x t run s = (r, s')"
  obtains y where "same_call x y" "exec_success y = Some (res_success r)"
    "ps_execs s' = update_rows (\<lambda>z. exec_id z = exec_id y) (\<lambda>_. y) (ps_execs s)"
    "ps_denials s' = ps_denials s" "ps_next s' = ps_next s"
proof -
  note row = that
  have fin: "thesis" if "s' = finish x run t r s0" "ps_execs s0 = ps_execs s" "ps_denials s0 = ps_denials s"
      "ps_next s0 = ps_next s" for s0
    by (rule row [of "x\<lparr>exec_success := Some (res_success r),
            exec_result := (if res_content r = [] then None
                            else Some (take max_result_chars (res_content r))),
            exec_error := res_error r, exec_duration := Some (res_duration r),
            exec_truncated := res_truncated r\<rparr>"])
       (simp_all add: that(1-4) same_call_def finish_def put_execution_def Let_def)
  show thesis
  proof (cases "executors (tool_type t)")
    case None
    with assms show thesis by (intro fin [of s]) (auto simp: execute_approved_def Let_def)
  next
    case (Some execute)
    with assms obtain e where "s' = finish x run t r (s\<lparr>ps_ext := e\<rparr>)"
      by (auto simp: execute_approved_def Let_def split: prod.splits)
    then show thesis by (rule fin) simp_all
  qed
qed

text \<open>What one call of the pipeline adds to the table.\<close>

lemma invoke_row:
  assumes fresh_s: "fresh_rows s" and inv: "invoke st executors now run t args granted s = (out, s')"
  obtains x where
    "ps_execs s' = ps_execs s @ [x]" "exec_id x = ps_next s" "exec_run x = caller_run run"
    "exec_tool x = Some (tool_id t)" "exec_name x = tool_name t" "exec_arguments x = args"
    "exec_risk x = tool_risk t" "exec_approver x = None" "fresh_rows s'"
    "authorised st run t granted \<longleftrightarrow> length (ps_denials s') = length (ps_denials s)"
    "\<not> authorised st run t granted \<longleftrightarrow> length (ps_denials s') = length (ps_denials s) + 1"
    "case out of
       Ran r \<Rightarrow> authorised st run t granted \<and> \<not> needs_approval st t \<and>
         exec_approval x = NOT_REQUIRED \<and> exec_success x = Some (res_success r)
     | Denied d \<Rightarrow> \<not> authorised st run t granted \<and> ps_ext s' = ps_ext s \<and>
         exec_approval x = REJECTED \<and> exec_success x = Some False \<and> exec_error x = Some (denial_detail d)
     | Pending i \<Rightarrow> authorised st run t granted \<and> needs_approval st t \<and> ps_ext s' = ps_ext s \<and>
         exec_approval x = PENDING \<and> exec_success x = None \<and> exec_id x = i"
proof -
  note result = that
  let ?x = "new_execution now (ps_next s) run t args"
  let ?s1 = "s\<lparr>ps_execs := ps_execs s @ [?x], ps_next := ps_next s + 1\<rparr>"
  have fresh: "\<forall>y \<in> set (ps_execs s). exec_id y < ps_next s" using fresh_s by (simp add: fresh_rows_def)
  have row: "update_rows (\<lambda>y. exec_id y = exec_id z) (\<lambda>_. z) (ps_execs ?s1) = ps_execs s @ [z]"
    if "exec_id z = ps_next s" for z
    using update_new_row [OF fresh, of ?x z] that by (simp add: new_execution_def)
  have keep: "fresh_rows s2" if "ps_execs s2 = ps_execs s @ [z]" "exec_id z = ps_next s"
      "ps_next s2 = ps_next s + 1" for s2 :: "'a pipe_state" and z
    using fresh fresh_s that by (fastforce simp: fresh_rows_def)
  show thesis
  proof (cases "authorise st run t granted")
    case (Some d)
    let ?z = "?x\<lparr>exec_approval := REJECTED, exec_success := Some False,
        exec_error := Some (denial_detail d), exec_decided_at := Some now,
        exec_reason := Some (denial_reason d)\<rparr>"
    have na: "\<not> authorised st run t granted" using Some authorise_None [of st run t granted] by simp
    have o: "out = Denied d" and s': "s' = deny now ?x run t d ?s1"
      using Some inv by (simp_all add: invoke_def Let_def)
    have e: "ps_execs s' = ps_execs s @ [?z]"
      using row [of ?z] by (simp add: s' deny_def put_execution_def Let_def new_execution_def)
    show thesis
      by (rule result [OF e])
         (use na keep [OF e] in \<open>auto simp: o s' deny_def put_execution_def Let_def new_execution_def\<close>)
  next
    case None
    then have au: "authorised st run t granted" using authorise_None by blast
    show thesis
    proof (cases "needs_approval st t")
      case True
      let ?z = "?x\<lparr>exec_approval := PENDING\<rparr>"
      have o: "out = Pending (ps_next s)" and
        s': "s' = (put_execution ?z ?s1)\<lparr>ps_trail := ps_trail ?s1 @ [tool_entry TOOL_APPROVAL_REQUESTED SUCCESS run t
                        [(''risk_level'', JStr (risk_text (tool_risk t)))]]\<rparr>"
        using None True inv by (auto simp: invoke_def Let_def new_execution_def)
      have e: "ps_execs s' = ps_execs s @ [?z]"
        using row [of ?z] by (simp add: s' put_execution_def Let_def new_execution_def)
      show thesis
        by (rule result [OF e])
           (use au True keep [OF e] in \<open>auto simp: o s' put_execution_def Let_def new_execution_def\<close>)
    next
      case False
      with None inv obtain r where
        e: "execute_approved executors (?x\<lparr>exec_approval := NOT_REQUIRED\<rparr>) t run ?s1 = (r, s')"
        and out: "out = Ran r"
        by (auto simp: invoke_def Let_def split: prod.splits)
      from e obtain y where y: "same_call (?x\<lparr>exec_approval := NOT_REQUIRED\<rparr>) y"
        "exec_success y = Some (res_success r)"
        "ps_execs s' = update_rows (\<lambda>z. exec_id z = exec_id y) (\<lambda>_. y) (ps_execs ?s1)"
        "ps_denials s' = ps_denials ?s1" "ps_next s' = ps_next ?s1"
        by (rule execute_approved_row)
      have i: "exec_id y = ps_next s" using same_callD(1) [OF y(1)] by (simp add: new_execution_def)
      have ex: "ps_execs s' = ps_execs s @ [y]" using y(3) row [OF i] by metis
      show thesis
        by (rule result [OF ex])
           (use au False y(2,4,5) i keep [OF ex i] same_callD [OF y(1)] in
             \<open>auto simp: out new_execution_def\<close>)
    qed
  qed
qed

section \<open>Properties\<close>

text \<open>
  C8. The pipeline is an intersection and decides each call in one way: a call is refused exactly
  when the tool is disabled, its type is, the agent version was not granted it, or the user's
  frozen permissions lack it; it waits for a human exactly when it is permitted and its risk
  level calls for one; otherwise it runs.  Each call leaves one new row with that outcome; a
  refused or waiting call touches nothing outside; a refusal, and only a refusal, is
  recorded independently of the transaction.
\<close>
theorem invoke_decides:
  assumes "fresh_rows s" "invoke st executors now run t args granted s = (out, s')"
  shows "(case out of
      Ran r \<Rightarrow> authorised st run t granted \<and> \<not> needs_approval st t
    | Denied d \<Rightarrow> \<not> authorised st run t granted \<and> ps_ext s' = ps_ext s
    | Pending i \<Rightarrow> authorised st run t granted \<and> needs_approval st t \<and> ps_ext s' = ps_ext s) \<and>
    (\<exists>x. ps_execs s' = ps_execs s @ [x] \<and> exec_tool x = Some (tool_id t) \<and> exec_run x = caller_run run \<and>
       (case out of
          Ran r \<Rightarrow> exec_approval x = NOT_REQUIRED \<and> exec_success x = Some (res_success r)
        | Denied d \<Rightarrow> exec_approval x = REJECTED \<and> exec_success x = Some False \<and>
            exec_error x = Some (denial_detail d)
        | Pending i \<Rightarrow> exec_approval x = PENDING \<and> exec_success x = None \<and> exec_id x = i)) \<and>
    length (ps_denials s') = length (ps_denials s) + (if authorised st run t granted then 0 else 1) \<and>
    fresh_rows s'"
  by (rule invoke_row [OF assms]) (auto split: outcome_of_call.splits)

definition sample_tool :: tool where
  "sample_tool = \<lparr>tool_id = 3, tool_name = ''wipe_disk'', tool_display = ''Wipe disk'', tool_description = [], tool_type = REST,
     tool_schema = JObj [], tool_permission = ''tool.execute'', tool_risk = HIGH, tool_endpoint = None,
     tool_config = [], tool_credentials = None, tool_enabled = True, tool_timeout = 30,
     tool_server = None, tool_discovered_at = None\<rparr>"

definition sample_caller :: caller where
  "sample_caller = \<lparr>caller_run = 1, caller_agent = 2, caller_user = Some 77,
     caller_permissions = [''agent.execute'']\<rparr>"

definition sample_pipe :: "nat pipe_state" where
  "sample_pipe = \<lparr>ps_execs = [], ps_next = 0, ps_trail = [], ps_denials = [], ps_ext = 0\<rparr>"

theorem invoke_decides_witness:
  "case invoke default_agents_settings (\<lambda>_. None) 5 sample_caller sample_tool (JObj []) {3} sample_pipe of
     (out, s') \<Rightarrow> out = Denied (Denial (''You do not have permission to use '' @ quoted ''wipe_disk''
         @ ''. It requires '' @ quoted ''tool.execute'' @ ''.'') ''user_lacks_permission'') \<and>
       length (ps_denials s') = 1 \<and> ps_ext s' = 0"
proof -
  obtain out s' where i: "invoke default_agents_settings (\<lambda>_. None) 5 sample_caller sample_tool (JObj []) {3}
      sample_pipe = (out, s')" by fastforce
  have "fresh_rows sample_pipe" by (simp add: fresh_rows_def sample_pipe_def)
  moreover have "\<not> authorised default_agents_settings sample_caller sample_tool {3}"
    by (simp add: authorised_def sample_caller_def sample_tool_def)
  moreover have "out = Denied (Denial (''You do not have permission to use '' @ quoted ''wipe_disk''
         @ ''. It requires '' @ quoted ''tool.execute'' @ ''.'') ''user_lacks_permission'')"
    using i by (auto simp: invoke_def authorise_def sample_tool_def sample_caller_def
        default_agents_settings_def Let_def)
  ultimately show ?thesis using invoke_decides [OF _ i] i by (simp add: sample_pipe_def)
qed

end
