(* ===== verification/Agent_Runtime.thy ===== *)
theory Agent_Runtime
  imports Tool_Pipeline
begin

text \<open>
  The agent runtime, \<open>backend/app/services/agent_runtime.py\<close>: the bounded ReAct loop, its
  suspension on a call that needs approval, and its resumption from the checkpoint.  The
  generator is the list of the events it yields with the state it leaves.

  Parameters: the inference endpoint (\<open>ae_provider\<close>, \<open>ae_chat\<close>; an exception other than
  \<open>ProviderError\<close> out of a chat is not modelled), retrieval, the executors and
  \<open>json.loads\<close>.  Durations of model calls and the observability hooks are left out.  The
  private key \<open>_tool_id\<close> of a granted tool's config is the field \<open>def_tool_id\<close>.
\<close>

section \<open>Data\<close>

record spec_tool = tool_definition +
  def_description :: string
  def_tool_id :: "uuid option"

record agent_spec =
  ag_id :: string
  ag_version :: nat
  ag_name :: string
  ag_model :: string
  ag_prompt :: string
  ag_tools :: "spec_tool list"
  ag_bases :: "string list"
  ag_memory :: bool
  ag_max_iterations :: nat
  ag_temperature :: rat

text \<open>What a model sends as the arguments of a call.\<close>

datatype raw_arguments = RawObject "(string \<times> json) list" | RawText string | RawNone

record tool_call =
  call_id :: string
  call_name :: string
  call_arguments :: raw_arguments

record chat_entry =
  msg_role :: string
  msg_content :: string
  msg_name :: "string option"
  msg_call_id :: "string option"
  msg_calls :: "tool_call list"

record completion =
  comp_content :: string
  comp_calls :: "tool_call list"
  comp_prompt_tokens :: nat
  comp_completion_tokens :: nat

record found_context =
  found_bases :: "string list"
  found_citations :: "string list"
  found_scores :: "rat list"
  found_kinds :: "string list"
  found_memories :: nat
  found_block :: "string option"

text \<open>
  The checkpoint column.  \<open>stored_spec\<close> has the keys \<open>_spec_to_json\<close> writes; a suspension adds
  the four others.
\<close>

record stored_tool =
  st_name :: string
  st_description :: string
  st_type :: tool_type
  st_schema :: json
  st_permission :: string
  st_risk :: risk_level
  st_endpoint :: "string option"
  st_config :: "(string \<times> json) list"
  st_tool_id :: "uuid option"

record stored_spec =
  ss_id :: string
  ss_version :: nat
  ss_name :: string
  ss_model :: string
  ss_prompt :: string
  ss_max_iterations :: nat
  ss_temperature :: rat
  ss_tools :: "stored_tool list"

record suspension =
  sus_conversation :: "chat_entry list"
  sus_call :: tool_call
  sus_iteration :: nat
  sus_sequence :: nat

record checkpoint =
  ck_spec :: "stored_spec option"
  ck_suspension :: "suspension option"

definition empty_checkpoint :: checkpoint where
  "empty_checkpoint = \<lparr>ck_spec = None, ck_suspension = None\<rparr>"

record agent_run =
  run_id :: uuid
  run_agent :: uuid
  run_version :: uuid
  run_user :: "uuid option"
  run_conversation :: "string option"
  run_trace :: "string option"
  run_state :: run_state
  run_input :: string
  run_output :: "string option"
  run_error :: "string option"
  run_iterations :: nat
  run_prompt_tokens :: nat
  run_completion_tokens :: nat
  run_checkpoint :: checkpoint
  run_permissions :: "string list"
  run_started_at :: "timestamp option"
  run_finished_at :: "timestamp option"

definition terminal_run_states :: "run_state list" where
  "terminal_run_states = [COMPLETED, FAILED_RUN, CANCELLED]"

definition run_is_terminal :: "agent_run \<Rightarrow> bool" where
  "run_is_terminal r = (run_state r \<in> set terminal_run_states)"

datatype event_body =
    RUN_STARTED string nat string
  | LLM_REQUEST nat nat
  | LLM_RESPONSE nat string "string list" nat nat
  | TOOL_REQUESTED string json
  | TOOL_APPROVAL_REQUIRED string json risk_level uuid
  | TOOL_APPROVED string string
  | TOOL_REJECTED string string
  | TOOL_RAN string bool "bool option"
  | RAG_SEARCH string "string list" nat "string list" "rat option"
  | MEMORY_READ nat "string list"
  | RUN_COMPLETED string nat
  | RUN_FAILED string

record run_event =
  ev_seq :: nat
  ev_body :: event_body

record 'e agent_world =
  aw_run :: agent_run
  aw_tools :: "tool list"
  aw_pipe :: "'e pipe_state"

record 'e agent_env =
  ae_settings :: agents_settings
  ae_executors :: "tool_type \<Rightarrow> 'e executor option"
  ae_provider :: "string \<Rightarrow> string + string"
  ae_chat :: "chat_entry list \<Rightarrow> string \<Rightarrow> rat \<Rightarrow> spec_tool list \<Rightarrow> 'e \<Rightarrow> (string + completion) \<times> 'e"
  ae_retrieve :: "(agent_spec \<Rightarrow> uuid option \<Rightarrow> string \<Rightarrow> found_context option) option"
  ae_loads :: "string \<Rightarrow> json option"
  ae_now :: timestamp

section \<open>Helpers\<close>

definition event :: "nat \<Rightarrow> event_body \<Rightarrow> run_event" where
  "event n b = \<lparr>ev_seq = n, ev_body = b\<rparr>"

definition plain_message :: "string \<Rightarrow> string \<Rightarrow> chat_entry" where
  "plain_message role content =
     \<lparr>msg_role = role, msg_content = content, msg_name = None, msg_call_id = None, msg_calls = []\<rparr>"

definition tool_message :: "tool_call \<Rightarrow> string \<Rightarrow> chat_entry" where
  "tool_message c content =
     \<lparr>msg_role = ''tool'', msg_content = content, msg_name = Some (call_name c),
      msg_call_id = Some (call_id c), msg_calls = []\<rparr>"

definition assistant_message :: "completion \<Rightarrow> chat_entry" where
  "assistant_message c =
     \<lparr>msg_role = ''assistant'', msg_content = comp_content c, msg_name = None, msg_call_id = None,
      msg_calls = comp_calls c\<rparr>"

definition to_chat_messages :: "string \<Rightarrow> chat_entry list \<Rightarrow> chat_entry list" where
  "to_chat_messages prompt conv = plain_message ''system'' prompt # conv"

definition parse_arguments :: "(string \<Rightarrow> json option) \<Rightarrow> raw_arguments \<Rightarrow> json" where
  "parse_arguments loads raw =
     (case raw of
        RawObject kvs \<Rightarrow> JObj kvs
      | RawNone \<Rightarrow> JObj []
      | RawText s \<Rightarrow>
          if s = [] then JObj []
          else (case loads s of Some (JObj kvs) \<Rightarrow> JObj kvs | _ \<Rightarrow> JObj []))"

definition tool_by_name :: "string \<Rightarrow> tool list \<Rightarrow> tool option" where
  "tool_by_name nm ts = find_row (\<lambda>t. tool_name t = nm) ts"

definition granted_ids :: "agent_spec \<Rightarrow> uuid set" where
  "granted_ids spec = set (List.map_filter def_tool_id (ag_tools spec))"

definition caller_of :: "agent_run \<Rightarrow> caller" where
  "caller_of r = \<lparr>caller_run = run_id r, caller_agent = run_agent r, caller_user = run_user r,
     caller_permissions = run_permissions r\<rparr>"

section \<open>Ends of a run\<close>

definition complete_run :: "timestamp \<Rightarrow> string \<Rightarrow> 'e agent_world \<Rightarrow> 'e agent_world" where
  "complete_run now output w =
     w\<lparr>aw_run := (aw_run w)\<lparr>run_state := COMPLETED, run_output := Some output,
         run_finished_at := Some now, run_checkpoint := empty_checkpoint\<rparr>\<rparr>"

definition fail_run :: "timestamp \<Rightarrow> string \<Rightarrow> 'e agent_world \<Rightarrow> 'e agent_world" where
  "fail_run now err w =
     w\<lparr>aw_run := (aw_run w)\<lparr>run_state := FAILED_RUN, run_error := Some err,
         run_finished_at := Some now\<rparr>\<rparr>"

text \<open>A suspension keeps the specification the checkpoint already holds.\<close>

definition suspend_run ::
    "chat_entry list \<Rightarrow> tool_call \<Rightarrow> nat \<Rightarrow> nat \<Rightarrow> 'e agent_world \<Rightarrow> 'e agent_world" where
  "suspend_run conv call iteration seq w =
     w\<lparr>aw_run := (aw_run w)\<lparr>run_state := WAITING_FOR_APPROVAL,
         run_checkpoint := \<lparr>ck_spec = ck_spec (run_checkpoint (aw_run w)),
           ck_suspension = Some \<lparr>sus_conversation = conv, sus_call = call, sus_iteration = iteration,
             sus_sequence = seq\<rparr>\<rparr>\<rparr>\<rparr>"

section \<open>The loop\<close>

datatype turn_end = NextTurn nat "chat_entry list" | Stopped

fun process_calls ::
    "'e agent_env \<Rightarrow> agent_spec \<Rightarrow> nat \<Rightarrow> tool_call list \<Rightarrow> nat \<Rightarrow> chat_entry list \<Rightarrow> 'e agent_world
       \<Rightarrow> turn_end \<times> run_event list \<times> 'e agent_world" where
  "process_calls env spec iteration [] seq conv w = (NextTurn seq conv, [], w)"
| "process_calls env spec iteration (c # cs) seq conv w =
     (let args = parse_arguments (ae_loads env) (call_arguments c);
          requested = event seq (TOOL_REQUESTED (call_name c) args)
      in case tool_by_name (call_name c) (aw_tools w) of
           None \<Rightarrow>
             (case process_calls env spec iteration cs (seq + 1)
                     (conv @ [tool_message c (''There is no tool named '' @ quoted (call_name c) @ ''.'')]) w of
                (r, evs, w') \<Rightarrow> (r, requested # evs, w'))
         | Some t \<Rightarrow>
             (case invoke (ae_settings env) (ae_executors env) (ae_now env) (caller_of (aw_run w)) t args
                     (granted_ids spec) (aw_pipe w) of
                (Denied d, p) \<Rightarrow>
                  (case process_calls env spec iteration cs (seq + 2)
                          (conv @ [tool_message c (denial_reason d)]) (w\<lparr>aw_pipe := p\<rparr>) of
                     (r, evs, w') \<Rightarrow>
                       (r, requested # event (seq + 1) (TOOL_REJECTED (call_name c) (denial_reason d)) # evs, w'))
              | (Pending i, p) \<Rightarrow>
                  (Stopped,
                   [requested, event (seq + 1) (TOOL_APPROVAL_REQUIRED (call_name c) args (tool_risk t) i)],
                   suspend_run conv c iteration (seq + 2) (w\<lparr>aw_pipe := p\<rparr>))
              | (Ran res, p) \<Rightarrow>
                  (case process_calls env spec iteration cs (seq + 2)
                          (conv @ [tool_message c (res_content res)]) (w\<lparr>aw_pipe := p\<rparr>) of
                     (r, evs, w') \<Rightarrow>
                       (r, requested # event (seq + 1) (TOOL_RAN (call_name c) (res_success res) (Some (res_truncated res))) # evs, w'))))"

definition count_tokens :: "completion \<Rightarrow> 'e agent_world \<Rightarrow> 'e agent_world" where
  "count_tokens c w =
     w\<lparr>aw_run := (aw_run w)\<lparr>run_prompt_tokens := run_prompt_tokens (aw_run w) + comp_prompt_tokens c,
         run_completion_tokens := run_completion_tokens (aw_run w) + comp_completion_tokens c\<rparr>\<rparr>"

function run_loop ::
    "'e agent_env \<Rightarrow> agent_spec \<Rightarrow> string \<Rightarrow> nat \<Rightarrow> nat \<Rightarrow> chat_entry list \<Rightarrow> 'e agent_world
       \<Rightarrow> run_event list \<times> 'e agent_world" where
  "run_loop env spec served iteration seq conv w =
     (if \<not> iteration < ag_max_iterations spec
      then ([event seq (RUN_FAILED (''Stopped after '' @ nat_str (ag_max_iterations spec) @ '' iterations.''))],
            fail_run (ae_now env)
              (''Exceeded max_iterations ('' @ nat_str (ag_max_iterations spec) @ '').'') w)
      else
        (let it = iteration + 1;
             w1 = w\<lparr>aw_run := (aw_run w)\<lparr>run_iterations := it\<rparr>\<rparr>;
             request = event seq (LLM_REQUEST it (length conv))
         in case ae_chat env (to_chat_messages (ag_prompt spec) conv) served (ag_temperature spec)
                   (ag_tools spec) (ps_ext (aw_pipe w1)) of
              (Inl err, e) \<Rightarrow>
                ([request, event (seq + 1) (RUN_FAILED (''The model could not be reached: '' @ err))],
                 fail_run (ae_now env) err (w1\<lparr>aw_pipe := (aw_pipe w1)\<lparr>ps_ext := e\<rparr>\<rparr>))
            | (Inr c, e) \<Rightarrow>
                (let w2 = count_tokens c (w1\<lparr>aw_pipe := (aw_pipe w1)\<lparr>ps_ext := e\<rparr>\<rparr>);
                     response = event (seq + 1) (LLM_RESPONSE it (comp_content c)
                       (map call_name (comp_calls c)) (comp_prompt_tokens c) (comp_completion_tokens c))
                 in if comp_calls c = []
                    then ([request, response, event (seq + 2) (RUN_COMPLETED (comp_content c) it)],
                          complete_run (ae_now env) (comp_content c) w2)
                    else (case process_calls env spec it (comp_calls c) (seq + 2)
                                 (conv @ [assistant_message c]) w2 of
                            (Stopped, evs, w3) \<Rightarrow> (request # response # evs, w3)
                          | (NextTurn seq' conv', evs, w3) \<Rightarrow>
                              (case run_loop env spec served it seq' conv' w3 of
                                 (evs', w4) \<Rightarrow> (request # response # evs @ evs', w4))))))"
  by pat_completeness auto

termination
  by (relation "measure (\<lambda>(env, spec, served, iteration, seq, conv, w). ag_max_iterations spec - iteration)")
     auto

declare run_loop.simps [simp del]

section \<open>Starting and resuming\<close>

definition last_question :: "chat_entry list \<Rightarrow> string" where
  "last_question conv =
     (case find_row (\<lambda>m. msg_role m = ''user'') (rev conv) of None \<Rightarrow> [] | Some m \<Rightarrow> msg_content m)"

definition round4 :: "rat \<Rightarrow> rat" where
  "round4 x = of_int (round (x * 10000)) / 10000"

definition retrieval_events :: "nat \<Rightarrow> string \<Rightarrow> found_context \<Rightarrow> run_event list" where
  "retrieval_events seq question f =
     (let search = (if found_bases f = [] then []
            else [event seq (RAG_SEARCH (take 200 question) (found_bases f) (length (found_scores f))
                    (found_citations f)
                    (case found_scores f of [] \<Rightarrow> None | x # _ \<Rightarrow> Some (round4 x)))])
      in search @
         (if found_memories f = 0 then []
          else [event (seq + length search) (MEMORY_READ (found_memories f) (found_kinds f))]))"

definition retrieve ::
    "'e agent_env \<Rightarrow> agent_spec \<Rightarrow> uuid option \<Rightarrow> chat_entry list \<Rightarrow> nat \<Rightarrow> run_event list \<times> chat_entry list" where
  "retrieve env spec user conv seq =
     (case ae_retrieve env of
        None \<Rightarrow> ([], conv)
      | Some gather \<Rightarrow>
          if strip (last_question conv) = [] then ([], conv)
          else (case gather spec user (last_question conv) of
                  None \<Rightarrow> ([], conv)
                | Some f \<Rightarrow>
                    (retrieval_events seq (last_question conv) f,
                     case found_block f of
                       None \<Rightarrow> conv
                     | Some b \<Rightarrow> if b = [] then conv else plain_message ''system'' b # conv)))"

definition run_from ::
    "'e agent_env \<Rightarrow> agent_spec \<Rightarrow> chat_entry list \<Rightarrow> nat \<Rightarrow> nat \<Rightarrow> 'e agent_world
       \<Rightarrow> run_event list \<times> 'e agent_world" where
  "run_from env spec conv seq iteration w =
     (let opening = (if seq = 1 then [event seq (RUN_STARTED (ag_name spec) (ag_version spec) (ag_model spec))]
                     else []);
          (found, conv1) = (if seq = 1 then retrieve env spec (run_user (aw_run w)) conv (seq + 1)
                            else ([], conv));
          seq1 = seq + length opening + length found
      in case ae_provider env (ag_model spec) of
           Inl err \<Rightarrow>
             (opening @ found @ [event seq1 (RUN_FAILED (''The agent's model '' @ quoted (ag_model spec)
                @ '' is unavailable: '' @ err))],
              fail_run (ae_now env) (''Model unavailable: '' @ err) w)
         | Inr served \<Rightarrow>
             (case run_loop env spec served iteration seq1 conv1 w of
                (evs, w') \<Rightarrow> (opening @ found @ evs, w')))"

definition execute_run ::
    "'e agent_env \<Rightarrow> agent_spec \<Rightarrow> chat_entry list \<Rightarrow> 'e agent_world \<Rightarrow> run_event list \<times> 'e agent_world" where
  "execute_run env spec messages w = run_from env spec messages 1 0 w"

definition spec_to_json :: "agent_spec \<Rightarrow> stored_spec" where
  "spec_to_json s =
     \<lparr>ss_id = ag_id s, ss_version = ag_version s, ss_name = ag_name s, ss_model = ag_model s,
      ss_prompt = ag_prompt s, ss_max_iterations = ag_max_iterations s,
      ss_temperature = ag_temperature s,
      ss_tools = map (\<lambda>t. \<lparr>st_name = def_name t, st_description = def_description t,
        st_type = def_type t, st_schema = def_schema t, st_permission = def_permission t,
        st_risk = def_risk t, st_endpoint = def_endpoint t, st_config = def_config t,
        st_tool_id = def_tool_id t\<rparr>) (ag_tools s)\<rparr>"

text \<open>With nothing stored every key has its default.\<close>

definition spec_from_checkpoint :: "checkpoint \<Rightarrow> agent_spec" where
  "spec_from_checkpoint c =
     (case ck_spec c of
        None \<Rightarrow>
          \<lparr>ag_id = [], ag_version = 1, ag_name = ''agent'', ag_model = [], ag_prompt = [], ag_tools = [],
           ag_bases = [], ag_memory = False, ag_max_iterations = 25, ag_temperature = 1 / 5\<rparr>
      | Some s \<Rightarrow>
          \<lparr>ag_id = ss_id s, ag_version = ss_version s, ag_name = ss_name s, ag_model = ss_model s,
           ag_prompt = ss_prompt s,
           ag_tools = map (\<lambda>t. \<lparr>def_name = st_name t, def_type = st_type t, def_schema = st_schema t,
             def_permission = st_permission t, def_risk = st_risk t, def_endpoint = st_endpoint t,
             def_enabled = True, def_config = st_config t, def_description = st_description t,
             def_tool_id = st_tool_id t\<rparr>) (ss_tools s),
           ag_bases = [], ag_memory = False, ag_max_iterations = ss_max_iterations s,
           ag_temperature = ss_temperature s\<rparr>)"

definition no_call :: tool_call where
  "no_call = \<lparr>call_id = [], call_name = [], call_arguments = RawNone\<rparr>"

definition no_suspension :: suspension where
  "no_suspension = \<lparr>sus_conversation = [], sus_call = no_call, sus_iteration = 0, sus_sequence = 1\<rparr>"

text \<open>What an answered call adds to the trace and to the conversation.\<close>

definition answer_call ::
    "'e agent_env \<Rightarrow> bool \<Rightarrow> uuid \<Rightarrow> string option \<Rightarrow> suspension \<Rightarrow> tool_execution \<Rightarrow> 'e agent_world
       \<Rightarrow> run_event list \<times> chat_entry \<times> 'e agent_world" where
  "answer_call env approved approver reason sus pending w =
     (let seq = sus_sequence sus; nm = exec_name pending;
          x = pending\<lparr>exec_approver := Some approver, exec_decided_at := Some (ae_now env),
                exec_reason := reason,
                exec_approval := (if approved then APPROVED else REJECTED)\<rparr>;
          w1 = w\<lparr>aw_pipe := put_execution x (aw_pipe w)\<rparr>
      in if \<not> approved
         then ([event seq (TOOL_REJECTED nm (or_str reason ''Refused by approver.''))],
               tool_message (sus_call sus) (''A human refused permission to run '' @ quoted nm @ ''.''
                 @ (if truthy reason then '' Reason: '' @ the reason else [])), w1)
         else (case tool_by_name nm (aw_tools w) of
                 None \<Rightarrow>
                   ([event seq (TOOL_APPROVED nm (uuid_str approver))],
                    tool_message (sus_call sus) (quoted nm @ '' no longer exists.''), w1)
               | Some t \<Rightarrow>
                   (case execute_approved (ae_executors env) x t (caller_of (aw_run w)) (aw_pipe w1) of
                      (res, p) \<Rightarrow>
                        ([event seq (TOOL_APPROVED nm (uuid_str approver)),
                          event (seq + 1) (TOOL_RAN nm (res_success res) None)],
                         tool_message (sus_call sus) (res_content res), w1\<lparr>aw_pipe := p\<rparr>))))"

definition resume_run ::
    "'e agent_env \<Rightarrow> bool \<Rightarrow> uuid \<Rightarrow> string option \<Rightarrow> 'e agent_world \<Rightarrow> run_event list \<times> 'e agent_world" where
  "resume_run env approved approver reason w =
     (let ck = run_checkpoint (aw_run w);
          sus = (case ck_suspension ck of None \<Rightarrow> no_suspension | Some s \<Rightarrow> s)
      in case pending_for_run (run_id (aw_run w)) (ps_execs (aw_pipe w)) of
           None \<Rightarrow> ([event (sus_sequence sus) (RUN_FAILED ''This run is not waiting for an approval.'')], w)
         | Some pending \<Rightarrow>
             if ck = empty_checkpoint
             then ([event (sus_sequence sus) (RUN_FAILED ''This run is not waiting for an approval.'')], w)
             else (case answer_call env approved approver reason sus pending w of
                     (evs, msg, w1) \<Rightarrow>
                       (case run_from env (spec_from_checkpoint ck) (sus_conversation sus @ [msg])
                               (sus_sequence sus + length evs) (sus_iteration sus)
                               (w1\<lparr>aw_run := (aw_run w1)\<lparr>run_state := RUNNING_RUN\<rparr>\<rparr>) of
                          (evs', w2) \<Rightarrow> (evs @ evs', w2))))"

definition cancel_run :: "timestamp \<Rightarrow> 'e agent_world \<Rightarrow> 'e agent_world" where
  "cancel_run now w =
     (if run_is_terminal (aw_run w) then w
      else w\<lparr>aw_run := (aw_run w)\<lparr>run_state := CANCELLED, run_finished_at := Some now\<rparr>\<rparr>)"

end
