(* ===== verification/Permissions.thy ===== *)
theory Permissions
  imports Platform_Prelude
begin

text \<open>
  The permission and role catalogue, \<open>backend/app/core/permissions.py\<close>: the permission
  names, the eight system roles with their grants, and \<open>split_permission\<close>.  The lemmas
  state the separation of duty the role table promises and that every name of the
  catalogue splits into the resource and action it is made of.
\<close>

section \<open>The catalogue\<close>

datatype permission =
    INFRASTRUCTURE_VIEW
  | INFRASTRUCTURE_MANAGE
  | CONTAINER_VIEW
  | CONTAINER_MANAGE
  | GPU_VIEW
  | MODEL_VIEW
  | MODEL_REGISTER
  | MODEL_DEPLOY
  | MODEL_STOP
  | MODEL_DELETE
  | MODEL_INFERENCE
  | AGENT_VIEW
  | AGENT_CREATE
  | AGENT_EDIT
  | AGENT_EXECUTE
  | AGENT_DELETE
  | SKILL_VIEW
  | SKILL_MANAGE
  | TOOL_VIEW
  | TOOL_EXECUTE
  | TOOL_MANAGE
  | TOOL_APPROVE
  | MCP_VIEW
  | MCP_MANAGE
  | KNOWLEDGE_VIEW
  | KNOWLEDGE_MANAGE
  | DOCUMENT_UPLOAD
  | DOCUMENT_DELETE
  | APIKEY_VIEW
  | APIKEY_MANAGE
  | USAGE_VIEW
  | USER_VIEW
  | USER_MANAGE
  | ROLE_MANAGE
  | SETTINGS_VIEW
  | SETTINGS_MANAGE
  | AUDIT_VIEW
  | BACKUP_MANAGE
  | MONITORING_VIEW
  | TRACE_VIEW

fun perm_name :: "permission \<Rightarrow> string" where
  "perm_name INFRASTRUCTURE_VIEW = ''infrastructure.view''"
| "perm_name INFRASTRUCTURE_MANAGE = ''infrastructure.manage''"
| "perm_name CONTAINER_VIEW = ''container.view''"
| "perm_name CONTAINER_MANAGE = ''container.manage''"
| "perm_name GPU_VIEW = ''gpu.view''"
| "perm_name MODEL_VIEW = ''model.view''"
| "perm_name MODEL_REGISTER = ''model.register''"
| "perm_name MODEL_DEPLOY = ''model.deploy''"
| "perm_name MODEL_STOP = ''model.stop''"
| "perm_name MODEL_DELETE = ''model.delete''"
| "perm_name MODEL_INFERENCE = ''model.inference''"
| "perm_name AGENT_VIEW = ''agent.view''"
| "perm_name AGENT_CREATE = ''agent.create''"
| "perm_name AGENT_EDIT = ''agent.edit''"
| "perm_name AGENT_EXECUTE = ''agent.execute''"
| "perm_name AGENT_DELETE = ''agent.delete''"
| "perm_name SKILL_VIEW = ''skill.view''"
| "perm_name SKILL_MANAGE = ''skill.manage''"
| "perm_name TOOL_VIEW = ''tool.view''"
| "perm_name TOOL_EXECUTE = ''tool.execute''"
| "perm_name TOOL_MANAGE = ''tool.manage''"
| "perm_name TOOL_APPROVE = ''tool.approve''"
| "perm_name MCP_VIEW = ''mcp.view''"
| "perm_name MCP_MANAGE = ''mcp.manage''"
| "perm_name KNOWLEDGE_VIEW = ''knowledge.view''"
| "perm_name KNOWLEDGE_MANAGE = ''knowledge.manage''"
| "perm_name DOCUMENT_UPLOAD = ''document.upload''"
| "perm_name DOCUMENT_DELETE = ''document.delete''"
| "perm_name APIKEY_VIEW = ''apikey.view''"
| "perm_name APIKEY_MANAGE = ''apikey.manage''"
| "perm_name USAGE_VIEW = ''usage.view''"
| "perm_name USER_VIEW = ''user.view''"
| "perm_name USER_MANAGE = ''user.manage''"
| "perm_name ROLE_MANAGE = ''role.manage''"
| "perm_name SETTINGS_VIEW = ''settings.view''"
| "perm_name SETTINGS_MANAGE = ''settings.manage''"
| "perm_name AUDIT_VIEW = ''audit.view''"
| "perm_name BACKUP_MANAGE = ''backup.manage''"
| "perm_name MONITORING_VIEW = ''monitoring.view''"
| "perm_name TRACE_VIEW = ''trace.view''"

definition permission_catalogue :: "(permission \<times> string) list" where
  "permission_catalogue =
    [(INFRASTRUCTURE_VIEW, ''View nodes, hosts and their resources''),
     (INFRASTRUCTURE_MANAGE, ''Register, modify and remove nodes''),
     (CONTAINER_VIEW, ''View containers and their logs''),
     (CONTAINER_MANAGE, ''Create, start, stop and remove containers''),
     (GPU_VIEW, ''View GPU inventory and metrics''),
     (MODEL_VIEW, ''View the model registry and deployments''),
     (MODEL_REGISTER, ''Register and import models''),
     (MODEL_DEPLOY, ''Deploy models onto GPU nodes''),
     (MODEL_STOP, ''Stop and restart model deployments''),
     (MODEL_DELETE, ''Delete models and deployments''),
     (MODEL_INFERENCE, ''Call inference endpoints through the gateway''),
     (AGENT_VIEW, ''View agents and their run history''),
     (AGENT_CREATE, ''Create agents''),
     (AGENT_EDIT, ''Modify agents and publish new versions''),
     (AGENT_EXECUTE, ''Execute agents''),
     (AGENT_DELETE, ''Delete agents''),
     (SKILL_VIEW, ''View skills''),
     (SKILL_MANAGE, ''Create, version and delete skills''),
     (TOOL_VIEW, ''View registered tools''),
     (TOOL_EXECUTE, ''Execute tools''),
     (TOOL_MANAGE, ''Register, configure, enable and disable tools''),
     (TOOL_APPROVE, ''Approve high-risk tool executions''),
     (MCP_VIEW, ''View MCP servers and their discovered tools''),
     (MCP_MANAGE, ''Register and configure MCP servers''),
     (KNOWLEDGE_VIEW, ''View knowledge bases''),
     (KNOWLEDGE_MANAGE, ''Create and delete knowledge bases''),
     (DOCUMENT_UPLOAD, ''Upload documents for ingestion''),
     (DOCUMENT_DELETE, ''Delete documents''),
     (APIKEY_VIEW, ''View own API keys''),
     (APIKEY_MANAGE, ''Create and revoke API keys''),
     (USAGE_VIEW, ''View API usage records''),
     (USER_VIEW, ''View users''),
     (USER_MANAGE, ''Create, modify and delete users''),
     (ROLE_MANAGE, ''Manage roles and their permissions''),
     (SETTINGS_VIEW, ''View platform settings''),
     (SETTINGS_MANAGE, ''Modify platform settings''),
     (AUDIT_VIEW, ''View audit logs''),
     (BACKUP_MANAGE, ''Create, verify and restore backups''),
     (MONITORING_VIEW, ''View metrics and dashboards''),
     (TRACE_VIEW, ''View LLM and agent execution traces'')]"

datatype role =
    SUPER_ADMIN | ADMIN | AI_ADMIN | INFRA_ADMIN | AGENT_ADMIN | DEVELOPER | USER | AUDITOR

definition all_roles :: "role list" where
  "all_roles = [SUPER_ADMIN, ADMIN, AI_ADMIN, INFRA_ADMIN, AGENT_ADMIN, DEVELOPER, USER, AUDITOR]"

definition all_permissions :: "permission list" where
  "all_permissions = map fst permission_catalogue"

definition viewer :: "permission list" where
  "viewer = [MODEL_VIEW, AGENT_VIEW, SKILL_VIEW, TOOL_VIEW, KNOWLEDGE_VIEW]"

text \<open>\<open>ROLE_DEFINITIONS\<close>: description and grants.  A grant list stands for its set.\<close>

fun role_description :: "role \<Rightarrow> string" where
  "role_description SUPER_ADMIN = ''Unrestricted access to the entire platform''"
| "role_description ADMIN = ''Platform administration, excluding backup/restore''"
| "role_description AI_ADMIN = ''Manages models, deployments and knowledge bases''"
| "role_description INFRA_ADMIN = ''Manages nodes, GPUs and containers''"
| "role_description AGENT_ADMIN = ''Manages agents, skills, tools and MCP servers''"
| "role_description DEVELOPER = ''Consumes platform APIs and manages own API keys''"
| "role_description USER = ''Chat and agent usage''"
| "role_description AUDITOR = ''Read-only access to audit logs and monitoring''"

fun role_grants :: "role \<Rightarrow> permission list" where
  "role_grants SUPER_ADMIN = all_permissions"
| "role_grants ADMIN = filter (\<lambda>p. p \<noteq> BACKUP_MANAGE) all_permissions"
| "role_grants AI_ADMIN =
     [MODEL_VIEW, MODEL_REGISTER, MODEL_DEPLOY, MODEL_STOP, MODEL_DELETE, MODEL_INFERENCE,
      KNOWLEDGE_VIEW, KNOWLEDGE_MANAGE, DOCUMENT_UPLOAD, DOCUMENT_DELETE, GPU_VIEW,
      INFRASTRUCTURE_VIEW, MONITORING_VIEW, TRACE_VIEW] @ viewer"
| "role_grants INFRA_ADMIN =
     [INFRASTRUCTURE_VIEW, INFRASTRUCTURE_MANAGE, CONTAINER_VIEW, CONTAINER_MANAGE, GPU_VIEW,
      MONITORING_VIEW, MODEL_VIEW]"
| "role_grants AGENT_ADMIN =
     [AGENT_VIEW, AGENT_CREATE, AGENT_EDIT, AGENT_EXECUTE, AGENT_DELETE, SKILL_VIEW,
      SKILL_MANAGE, TOOL_VIEW, TOOL_EXECUTE, TOOL_MANAGE, TOOL_APPROVE, MCP_VIEW, MCP_MANAGE,
      KNOWLEDGE_VIEW, MODEL_VIEW, MODEL_INFERENCE, TRACE_VIEW]"
| "role_grants DEVELOPER =
     [MODEL_INFERENCE, AGENT_EXECUTE, APIKEY_VIEW, APIKEY_MANAGE, USAGE_VIEW,
      DOCUMENT_UPLOAD] @ viewer"
| "role_grants USER = [MODEL_INFERENCE, AGENT_EXECUTE] @ viewer"
| "role_grants AUDITOR =
     [AUDIT_VIEW, MONITORING_VIEW, TRACE_VIEW, USAGE_VIEW, USER_VIEW,
      INFRASTRUCTURE_VIEW] @ viewer"

definition granted :: "role \<Rightarrow> permission \<Rightarrow> bool" where
  "granted r p = (p \<in> set (role_grants r))"

text \<open>\<open>split_permission\<close>: \<open>None\<close> is the \<open>ValueError\<close>.\<close>

definition split_permission :: "string \<Rightarrow> (string \<times> string) option" where
  "split_permission name =
     (case partition_at CHR ''.'' name of (resource, _, action) \<Rightarrow>
        if resource = [] \<or> action = [] then None else Some (resource, action))"

section \<open>Lemmas\<close>

lemma takeWhile_until: "c \<notin> set a \<Longrightarrow> takeWhile (\<lambda>x. x \<noteq> c) (a @ c # b) = a"
  by (induction a) auto

lemma dropWhile_until: "c \<notin> set a \<Longrightarrow> dropWhile (\<lambda>x. x \<noteq> c) (a @ c # b) = c # b"
  by (induction a) auto

lemma partition_at_intro:
  "c \<notin> set a \<Longrightarrow> partition_at c (a @ c # b) = (a, [c], b)"
  by (simp add: partition_at_def takeWhile_until dropWhile_until)

lemma partition_at_join:
  assumes "partition_at c s = (a, sep, b)"
  shows "s = a @ sep @ b \<and> c \<notin> set a \<and> (sep = [] \<or> sep = [c])"
proof (cases "c \<in> set s")
  case True
  then obtain ys zs where "s = ys @ c # zs" "c \<notin> set ys" by (metis split_list_first)
  with assms show ?thesis by (auto simp: partition_at_intro)
next
  case False
  with assms show ?thesis by (auto simp: partition_at_def)
qed

section \<open>Properties\<close>

text \<open>
  \<open>split_permission\<close> accepts exactly the names of the form \<open>resource.action\<close> with both
  parts non-empty, splits at the first dot, and joining the parts gives the name back.
\<close>
theorem split_permission_exact:
  "split_permission name = Some (r, a) \<longleftrightarrow>
     name = r @ ''.'' @ a \<and> r \<noteq> [] \<and> a \<noteq> [] \<and> CHR ''.'' \<notin> set r"
proof
  assume h: "split_permission name = Some (r, a)"
  obtain sep where p: "partition_at CHR ''.'' name = (r, sep, a)" and ne: "r \<noteq> []" "a \<noteq> []"
    using h by (auto simp: split_permission_def split: prod.splits if_splits)
  have "sep \<noteq> []" using p ne by (auto simp: partition_at_def split: if_splits)
  with partition_at_join [OF p] ne
  show "name = r @ ''.'' @ a \<and> r \<noteq> [] \<and> a \<noteq> [] \<and> CHR ''.'' \<notin> set r" by auto
next
  assume "name = r @ ''.'' @ a \<and> r \<noteq> [] \<and> a \<noteq> [] \<and> CHR ''.'' \<notin> set r"
  then show "split_permission name = Some (r, a)"
    by (auto simp: split_permission_def partition_at_intro)
qed

text \<open>
  Separation of duty: backup is the super administrator's alone; approving a tool call and
  managing agents is not an infrastructure or model role's; deploying models or touching
  hosts is not the agent role's; and everything an auditor holds is a \<open>view\<close> permission.
\<close>
theorem separation_of_duty:
  "(granted r BACKUP_MANAGE \<longleftrightarrow> r = SUPER_ADMIN) \<and>
   (granted r TOOL_APPROVE \<longleftrightarrow> r \<in> {SUPER_ADMIN, ADMIN, AGENT_ADMIN}) \<and>
   (granted r USER_MANAGE \<longleftrightarrow> r \<in> {SUPER_ADMIN, ADMIN}) \<and>
   (granted r AGENT_CREATE \<longleftrightarrow> r \<in> {SUPER_ADMIN, ADMIN, AGENT_ADMIN}) \<and>
   (granted r MODEL_DEPLOY \<longleftrightarrow> r \<in> {SUPER_ADMIN, ADMIN, AI_ADMIN}) \<and>
   (granted r INFRASTRUCTURE_MANAGE \<longleftrightarrow> r \<in> {SUPER_ADMIN, ADMIN, INFRA_ADMIN}) \<and>
   list_all (\<lambda>p. map_option snd (split_permission (perm_name p)) = Some ''view'')
     (role_grants AUDITOR)"
proof -
  have "list_all (\<lambda>p. map_option snd (split_permission (perm_name p)) = Some ''view'')
     (role_grants AUDITOR)"
    by (simp add: viewer_def split_permission_def partition_at_def)
  moreover have "(granted r BACKUP_MANAGE \<longleftrightarrow> r = SUPER_ADMIN) \<and>
    (granted r TOOL_APPROVE \<longleftrightarrow> r \<in> {SUPER_ADMIN, ADMIN, AGENT_ADMIN}) \<and>
    (granted r USER_MANAGE \<longleftrightarrow> r \<in> {SUPER_ADMIN, ADMIN})"
    by (cases r) (simp_all add: granted_def all_permissions_def permission_catalogue_def viewer_def)
  moreover have "(granted r AGENT_CREATE \<longleftrightarrow> r \<in> {SUPER_ADMIN, ADMIN, AGENT_ADMIN}) \<and>
    (granted r MODEL_DEPLOY \<longleftrightarrow> r \<in> {SUPER_ADMIN, ADMIN, AI_ADMIN}) \<and>
    (granted r INFRASTRUCTURE_MANAGE \<longleftrightarrow> r \<in> {SUPER_ADMIN, ADMIN, INFRA_ADMIN})"
    by (cases r) (simp_all add: granted_def all_permissions_def permission_catalogue_def viewer_def)
  ultimately show ?thesis by simp
qed

lemma catalogue_complete: "p \<in> set all_permissions"
  by (cases p) (simp_all add: all_permissions_def permission_catalogue_def)

text \<open>
  The catalogue lists every permission constant exactly once, under distinct names, and
  every name is a well-formed \<open>resource.action\<close>, so the seeder never meets the \<open>ValueError\<close>.
\<close>
theorem catalogue_well_formed:
  "set all_permissions = UNIV \<and> distinct all_permissions \<and>
   distinct (map perm_name all_permissions) \<and> split_permission (perm_name p) \<noteq> None"
proof -
  have "distinct (map perm_name all_permissions)"
    by (simp add: all_permissions_def permission_catalogue_def)
  moreover then have "distinct all_permissions" by (simp add: distinct_map)
  moreover have "set all_permissions = UNIV" using catalogue_complete by blast
  moreover have "split_permission (perm_name p) \<noteq> None"
    by (cases p) (simp_all add: split_permission_def partition_at_def)
  ultimately show ?thesis by simp
qed

text \<open>
  The comment on \<open>_VIEWER\<close> calls it the baseline every non-auditor role builds on; the
  table says otherwise: two non-auditor roles lack part of it and the auditor has all of it.
\<close>
theorem viewer_baseline_not_universal:
  "\<not> granted INFRA_ADMIN AGENT_VIEW \<and> \<not> granted INFRA_ADMIN TOOL_VIEW \<and>
   \<not> granted INFRA_ADMIN KNOWLEDGE_VIEW \<and> list_all (granted AUDITOR) viewer"
  by (simp add: granted_def viewer_def)

end
