(* ===== verification/Accounts.thy ===== *)
theory Accounts
  imports Permissions Audit_Trail "HOL-Library.Char_ord" "HOL-Library.List_Lexorder"
begin

text \<open>
  Users and their roles, \<open>backend/app/models/auth.py\<close>.  A user row carries its roles and a role
  row the names of its permissions, as the eagerly loaded relationships do.
\<close>

record role_row =
  role_id :: uuid
  role_name :: string
  role_is_system :: bool
  role_permissions :: "string list"

record user =
  user_id :: uuid
  user_name :: string
  user_email :: string
  user_full_name :: "string option"
  user_password :: "string option"
  user_provider :: string
  user_subject :: "string option"
  user_active :: bool
  user_superuser :: bool
  user_last_login :: "timestamp option"
  user_failed_logins :: nat
  user_roles :: "role_row list"

definition effective_permissions :: "user \<Rightarrow> string set" where
  "effective_permissions u = (\<Union>r \<in> set (user_roles u). set (role_permissions r))"

text \<open>\<open>_permissions_of\<close> of \<open>agent_runs.py\<close>, and the sorted list a run freezes.\<close>

definition permissions_of :: "user \<Rightarrow> string set" where
  "permissions_of u =
     (if user_superuser u then set (map (perm_name \<circ> fst) permission_catalogue)
      else effective_permissions u)"

definition frozen_permissions :: "user \<Rightarrow> string list" where
  "frozen_permissions u = sorted_list_of_set (permissions_of u)"

lemma finite_permissions_of [simp]: "finite (permissions_of u)"
  by (simp add: permissions_of_def effective_permissions_def)

lemma set_frozen_permissions [simp]: "set (frozen_permissions u) = permissions_of u"
  by (simp add: frozen_permissions_def)

end
