(* ===== verification/Agent_Registry.thy ===== *)
theory Agent_Registry
  imports Agent_Runtime Accounts
begin

text \<open>
  Agents and their versions: the agent part of \<open>backend/app/services/agent_registry.py\<close>
  (\<open>AgentRegistryService\<close>), with the tables it keeps.  A version row holds the ids of its
  granted tools and skills; \<open>reg_tools\<close> and \<open>reg_skills\<close> are what those ids resolve to.
  Identifiers of new rows come from the counter \<open>reg_next\<close>.
\<close>

section \<open>Tables\<close>

record skill =
  skill_id :: uuid
  skill_name :: string
  skill_display :: string
  skill_description :: string
  skill_instructions :: string
  skill_enabled :: bool

record agent_row =
  agent_id :: uuid
  agent_slug :: string
  agent_display :: string
  agent_description :: "string option"
  agent_enabled :: bool
  agent_owner :: "uuid option"
  agent_current :: nat

record agent_version =
  ver_id :: uuid
  ver_agent :: uuid
  ver_number :: nat
  ver_prompt :: string
  ver_model :: string
  ver_temperature :: rat
  ver_max_iterations :: nat
  ver_bases :: "string list"
  ver_memory :: bool
  ver_created_by :: "uuid option"
  ver_note :: "string option"
  ver_tools :: "uuid list"
  ver_skills :: "uuid list"

record registry =
  reg_agents :: "agent_row list"
  reg_versions :: "agent_version list"
  reg_tools :: "tool list"
  reg_skills :: "skill list"
  reg_next :: uuid
  reg_trail :: "audit_entry list"

section \<open>Repositories\<close>

definition agent_with :: "uuid \<Rightarrow> registry \<Rightarrow> agent_row option" where
  "agent_with i db = find_row (\<lambda>a. agent_id a = i) (reg_agents db)"

definition get_by_slug :: "string \<Rightarrow> registry \<Rightarrow> agent_row option" where
  "get_by_slug slug db = find_row (\<lambda>a. agent_slug a = slug) (reg_agents db)"

definition tool_with :: "uuid \<Rightarrow> registry \<Rightarrow> tool option" where
  "tool_with i db = find_row (\<lambda>t. tool_id t = i) (reg_tools db)"

definition skill_with :: "uuid \<Rightarrow> registry \<Rightarrow> skill option" where
  "skill_with i db = find_row (\<lambda>s. skill_id s = i) (reg_skills db)"

definition get_current :: "uuid \<Rightarrow> registry \<Rightarrow> agent_version option" where
  "get_current i db =
     (case agent_with i db of
        None \<Rightarrow> None
      | Some a \<Rightarrow> find_row (\<lambda>v. ver_agent v = i \<and> ver_number v = agent_current a) (reg_versions db))"

definition next_version :: "uuid \<Rightarrow> registry \<Rightarrow> nat" where
  "next_version i db = foldr max (map ver_number (filter (\<lambda>v. ver_agent v = i) (reg_versions db))) 0 + 1"

section \<open>Slugs\<close>

definition slug_char :: "char \<Rightarrow> bool" where
  "slug_char c = (c \<in> set ''abcdefghijklmnopqrstuvwxyz0123456789'')"

text \<open>
  \<open>^[a-z0-9][a-z0-9-]{1,62}[a-z0-9]$\<close> under \<open>re.match\<close>, whose \<open>$\<close> also matches before a final
  newline.
\<close>

definition slug_body :: "string \<Rightarrow> bool" where
  "slug_body s =
     (3 \<le> length s \<and> length s \<le> 64 \<and> slug_char (hd s) \<and> slug_char (last s) \<and>
      list_all (\<lambda>c. slug_char c \<or> c = CHR 0x2D) s)"

definition slug_ok :: "string \<Rightarrow> bool" where
  "slug_ok s = (slug_body s \<or> (s \<noteq> [] \<and> last s = newline \<and> slug_body (butlast s)))"

section \<open>Operations\<close>

text \<open>The keyword arguments of \<open>_create_version\<close>.\<close>

record version_spec =
  vs_prompt :: string
  vs_model :: string
  vs_temperature :: rat
  vs_max_iterations :: nat
  vs_tools :: "uuid list"
  vs_skills :: "uuid list"
  vs_bases :: "string list"
  vs_memory :: bool

definition insert_version ::
    "nat \<Rightarrow> uuid \<Rightarrow> nat \<Rightarrow> version_spec \<Rightarrow> user \<Rightarrow> string option \<Rightarrow> registry \<Rightarrow> (agent_version \<times> registry) result" where
  "insert_version cap agent number vs actor note db =
     (case find (\<lambda>i. tool_with i db = None) (vs_tools vs) of
        Some i \<Rightarrow> Inl (ValidationError (''No tool with id '' @ uuid_str i @ ''.''))
      | None \<Rightarrow>
     (case find (\<lambda>i. skill_with i db = None) (vs_skills vs) of
        Some i \<Rightarrow> Inl (ValidationError (''No skill with id '' @ uuid_str i @ ''.''))
      | None \<Rightarrow>
          (let v = \<lparr>ver_id = reg_next db, ver_agent = agent, ver_number = number,
                 ver_prompt = vs_prompt vs, ver_model = vs_model vs,
                 ver_temperature = vs_temperature vs,
                 ver_max_iterations = min (vs_max_iterations vs) cap, ver_bases = vs_bases vs,
                 ver_memory = vs_memory vs, ver_created_by = Some (user_id actor), ver_note = note,
                 ver_tools = vs_tools vs, ver_skills = vs_skills vs\<rparr>
           in Inr (v, db\<lparr>reg_versions := reg_versions db @ [v], reg_next := reg_next db + 1\<rparr>))))"

definition registry_record ::
    "audit_action \<Rightarrow> user \<Rightarrow> uuid \<Rightarrow> (string \<times> json) list \<Rightarrow> registry \<Rightarrow> registry" where
  "registry_record action actor agent metadata db =
     db\<lparr>reg_trail := record_entry action (Some (user_id actor)) (user_name actor) ''agent''
          (uuid_str agent) None (JObj metadata) (reg_trail db)\<rparr>"

definition create_agent ::
    "nat \<Rightarrow> string \<Rightarrow> string \<Rightarrow> string option \<Rightarrow> version_spec \<Rightarrow> user \<Rightarrow> registry
       \<Rightarrow> ((agent_row \<times> agent_version) \<times> registry) result" where
  "create_agent cap slug display description vs actor db =
     (if \<not> slug_ok slug
      then Inl (ValidationError ''A slug must be lowercase letters, digits and hyphens, 3-64 characters.'')
      else if get_by_slug slug db \<noteq> None
      then Inl (ConflictError (''An agent with slug '' @ quoted slug @ '' already exists.''))
      else
        (let a = \<lparr>agent_id = reg_next db, agent_slug = slug, agent_display = display,
               agent_description = description, agent_enabled = True,
               agent_owner = Some (user_id actor), agent_current = 1\<rparr>;
             db1 = db\<lparr>reg_agents := reg_agents db @ [a], reg_next := reg_next db + 1\<rparr>
         in case insert_version cap (agent_id a) 1 vs actor (Some ''Initial version.'') db1 of
              Inl e \<Rightarrow> Inl e
            | Inr (v, db2) \<Rightarrow>
                Inr ((a, v), registry_record AGENT_CREATED actor (agent_id a)
                  [(''slug'', JStr slug), (''model'', JStr (vs_model vs)),
                   (''tools'', JInt (int (length (vs_tools vs))))] db2)))"

text \<open>What an edit may leave out.\<close>

record version_change =
  vc_prompt :: "string option"
  vc_model :: "string option"
  vc_temperature :: "rat option"
  vc_max_iterations :: "nat option"
  vc_tools :: "uuid list option"
  vc_skills :: "uuid list option"
  vc_bases :: "string list option"
  vc_memory :: "bool option"

definition inherited :: "version_change \<Rightarrow> agent_version \<Rightarrow> version_spec" where
  "inherited c v =
     \<lparr>vs_prompt = given (vc_prompt c) (ver_prompt v), vs_model = or_str (vc_model c) (ver_model v),
      vs_temperature = given (vc_temperature c) (ver_temperature v),
      vs_max_iterations = or_number (vc_max_iterations c) (ver_max_iterations v),
      vs_tools = given (vc_tools c) (ver_tools v), vs_skills = given (vc_skills c) (ver_skills v),
      vs_bases = given (vc_bases c) (ver_bases v), vs_memory = given (vc_memory c) (ver_memory v)\<rparr>"

definition create_version ::
    "nat \<Rightarrow> uuid \<Rightarrow> version_change \<Rightarrow> string option \<Rightarrow> user \<Rightarrow> registry \<Rightarrow> (agent_version \<times> registry) result" where
  "create_version cap i c note actor db =
     (case agent_with i db of
        None \<Rightarrow> Inl (NotFoundError (''No agent with id '' @ uuid_str i @ ''.''))
      | Some a \<Rightarrow>
     (case get_current i db of
        None \<Rightarrow> Inl (NotFoundError (''Agent '' @ agent_slug a @ '' has no current version.''))
      | Some cur \<Rightarrow>
     (let number = next_version i db
      in case insert_version cap i number (inherited c cur) actor note db of
           Inl e \<Rightarrow> Inl e
         | Inr (v, db1) \<Rightarrow>
             Inr (v, registry_record AGENT_VERSION_CREATED actor i
               [(''slug'', JStr (agent_slug a)), (''version'', JInt (int number)),
                (''note'', case note of None \<Rightarrow> JNull | Some s \<Rightarrow> JStr s)]
               (db1\<lparr>reg_agents := update_rows (\<lambda>r. agent_id r = i) (\<lambda>r. r\<lparr>agent_current := number\<rparr>)
                      (reg_agents db1)\<rparr>)))))"

definition update_agent ::
    "nat \<Rightarrow> uuid \<Rightarrow> string option \<Rightarrow> string option \<Rightarrow> bool option \<Rightarrow> version_change \<Rightarrow> string option
       \<Rightarrow> user \<Rightarrow> registry \<Rightarrow> (agent_version \<times> registry) result" where
  "update_agent cap i display description enabled c note actor db =
     (case agent_with i db of
        None \<Rightarrow> Inl (NotFoundError (''No agent with id '' @ uuid_str i @ ''.''))
      | Some a \<Rightarrow>
     (let db1 = db\<lparr>reg_agents := update_rows (\<lambda>r. agent_id r = i)
                (\<lambda>r. r\<lparr>agent_display := given display (agent_display r),
                       agent_description := (case description of None \<Rightarrow> agent_description r | d \<Rightarrow> d),
                       agent_enabled := given enabled (agent_enabled r)\<rparr>) (reg_agents db)\<rparr>
      in case create_version cap i c note actor db1 of
           Inl e \<Rightarrow> Inl e
         | Inr (v, db2) \<Rightarrow>
             Inr (v, registry_record AGENT_UPDATED actor i
               [(''slug'', JStr (agent_slug a)), (''new_version'', JInt (int (ver_number v)))] db2)))"

section \<open>Assembly\<close>

definition skill_part :: "skill \<Rightarrow> string" where
  "skill_part s =
     newline # ''## Skill: '' @ skill_display s @ newline # strip (skill_description s)
       @ newline # newline # strip (skill_instructions s)"

definition join_newline :: "string list \<Rightarrow> string" where
  "join_newline parts = (case parts of [] \<Rightarrow> [] | p # ps \<Rightarrow> p @ concat (map (\<lambda>q. newline # q) ps))"

definition compose_prompt :: "registry \<Rightarrow> agent_version \<Rightarrow> string" where
  "compose_prompt db v =
     join_newline (strip (ver_prompt v) #
       map skill_part (filter skill_enabled (List.map_filter (\<lambda>i. skill_with i db) (ver_skills v))))"

text \<open>What \<open>test_tool\<close> and an agent's specification hand to an executor: the private key added.\<close>

definition config_with_credentials :: "tool \<Rightarrow> (string \<times> json) list" where
  "config_with_credentials t =
     (case tool_credentials t of
        Some (c # s) \<Rightarrow> dict_merge (tool_config t) [(''_credentials_encrypted'', JStr (c # s))]
      | _ \<Rightarrow> tool_config t)"

definition with_credentials :: "tool \<Rightarrow> tool_definition" where
  "with_credentials t = (tool_definition_of t)\<lparr>def_config := config_with_credentials t\<rparr>"

definition spec_tool_of :: "tool \<Rightarrow> spec_tool" where
  "spec_tool_of t =
     \<lparr>def_name = tool_name t, def_type = tool_type t, def_schema = tool_schema t,
      def_permission = tool_permission t, def_risk = tool_risk t, def_endpoint = tool_endpoint t,
      def_enabled = tool_enabled t,
      def_config = config_with_credentials t,
      def_description = tool_description t, def_tool_id = Some (tool_id t)\<rparr>"

definition build_spec :: "registry \<Rightarrow> agent_row \<Rightarrow> agent_version \<Rightarrow> agent_spec" where
  "build_spec db a v =
     \<lparr>ag_id = uuid_str (agent_id a), ag_version = ver_number v, ag_name = agent_display a,
      ag_model = ver_model v, ag_prompt = compose_prompt db v,
      ag_tools = map spec_tool_of (filter tool_enabled (List.map_filter (\<lambda>i. tool_with i db) (ver_tools v))),
      ag_bases = ver_bases v, ag_memory = ver_memory v, ag_max_iterations = ver_max_iterations v,
      ag_temperature = ver_temperature v\<rparr>"

end
