(* ===== verification/Agent_Runs.thy ===== *)
theory Agent_Runs
  imports Agent_Registry
begin

text \<open>
  Runs of agents, \<open>backend/app/services/agent_runs.py\<close>: start, approval, cancellation, and the
  persistence of every event as it passes.  An operation is a whole request: it drains the
  event stream, as the handlers of \<open>backend/app/api/v1/agents.py\<close> do, and either commits
  (\<open>Inr\<close>) or is refused (\<open>Inl\<close>); \<open>Raised\<close> is an exception of the database.
  \<open>rd_pipe\<close> holds the rows and the audit trail the pipeline writes.
\<close>

section \<open>Tables\<close>

record event_row =
  er_run :: uuid
  er_seq :: nat
  er_type :: string
  er_payload :: json

record 'e runs_db =
  rd_runs :: "agent_run list"
  rd_events :: "event_row list"
  rd_registry :: registry
  rd_pipe :: "'e pipe_state"
  rd_users :: "user list"
  rd_next :: uuid

definition get_run :: "uuid \<Rightarrow> 'e runs_db \<Rightarrow> agent_run option" where
  "get_run i db = find_row (\<lambda>r. run_id r = i) (rd_runs db)"

definition put_run :: "agent_run \<Rightarrow> 'e runs_db \<Rightarrow> 'e runs_db" where
  "put_run r db = db\<lparr>rd_runs := update_rows (\<lambda>x. run_id x = run_id r) (\<lambda>_. r) (rd_runs db)\<rparr>"

fun run_state_text :: "run_state \<Rightarrow> string" where
  "run_state_text CREATED_RUN = ''CREATED''" | "run_state_text RUNNING_RUN = ''RUNNING''"
| "run_state_text WAITING_FOR_APPROVAL = ''WAITING_FOR_APPROVAL''"
| "run_state_text COMPLETED = ''COMPLETED''" | "run_state_text FAILED_RUN = ''FAILED''"
| "run_state_text CANCELLED = ''CANCELLED''"

section \<open>Event payloads\<close>

fun event_type :: "event_body \<Rightarrow> string" where
  "event_type (RUN_STARTED _ _ _) = ''RUN_STARTED''"
| "event_type (LLM_REQUEST _ _) = ''LLM_REQUEST''"
| "event_type (LLM_RESPONSE _ _ _ _ _) = ''LLM_RESPONSE''"
| "event_type (TOOL_REQUESTED _ _) = ''TOOL_REQUESTED''"
| "event_type (TOOL_APPROVAL_REQUIRED _ _ _ _) = ''TOOL_APPROVAL_REQUIRED''"
| "event_type (TOOL_APPROVED _ _) = ''TOOL_APPROVED''"
| "event_type (TOOL_REJECTED _ _) = ''TOOL_REJECTED''"
| "event_type (TOOL_RAN _ _ _) = ''TOOL_EXECUTED''"
| "event_type (RAG_SEARCH _ _ _ _ _) = ''RAG_SEARCH''"
| "event_type (MEMORY_READ _ _) = ''MEMORY_READ''"
| "event_type (RUN_COMPLETED _ _) = ''RUN_COMPLETED''"
| "event_type (RUN_FAILED _) = ''RUN_FAILED''"

definition strings :: "string list \<Rightarrow> json" where
  "strings ss = JList (map JStr ss)"

fun event_payload :: "event_body \<Rightarrow> (string \<times> json) list" where
  "event_payload (RUN_STARTED agent version model) =
     [(''agent'', JStr agent), (''version'', JInt (int version)), (''model'', JStr model)]"
| "event_payload (LLM_REQUEST it n) = [(''iteration'', JInt (int it)), (''messages'', JInt (int n))]"
| "event_payload (LLM_RESPONSE it content calls p c) =
     [(''iteration'', JInt (int it)), (''content'', JStr content), (''tool_calls'', strings calls),
      (''prompt_tokens'', JInt (int p)), (''completion_tokens'', JInt (int c))]"
| "event_payload (TOOL_REQUESTED tool args) = [(''tool'', JStr tool), (''arguments'', args)]"
| "event_payload (TOOL_APPROVAL_REQUIRED tool args risk i) =
     [(''tool'', JStr tool), (''arguments'', args), (''risk_level'', JStr (risk_text risk)),
      (''execution_id'', JStr (uuid_str i))]"
| "event_payload (TOOL_APPROVED tool approver) =
     [(''tool'', JStr tool), (''approver'', JStr approver)]"
| "event_payload (TOOL_REJECTED tool reason) = [(''tool'', JStr tool), (''reason'', JStr reason)]"
| "event_payload (TOOL_RAN tool success truncated) =
     [(''tool'', JStr tool), (''success'', JBool success)] @
     (case truncated of None \<Rightarrow> [] | Some b \<Rightarrow> [(''truncated'', JBool b)])"
| "event_payload (RAG_SEARCH query bases hits citations best) =
     [(''query'', JStr query), (''knowledge_bases'', strings bases), (''hits'', JInt (int hits)),
      (''citations'', strings citations),
      (''top_score'', case best of None \<Rightarrow> JNull | Some x \<Rightarrow> JNum x)]"
| "event_payload (MEMORY_READ n kinds) = [(''recalled'', JInt (int n)), (''kinds'', strings kinds)]"
| "event_payload (RUN_COMPLETED output it) =
     [(''output'', JStr output), (''iterations'', JInt (int it))]"
| "event_payload (RUN_FAILED err) = [(''error'', JStr err)]"

definition run_redacted_keys :: "string list" where
  "run_redacted_keys = [''_credentials_encrypted'', ''credentials'', ''password'', ''token'']"

fun scrub :: "json \<Rightarrow> json"
and scrub_fields :: "(string \<times> json) list \<Rightarrow> (string \<times> json) list"
and scrub_items :: "json list \<Rightarrow> json list" where
  "scrub (JObj fs) = JObj (scrub_fields fs)"
| "scrub (JList items) = JList (scrub_items items)"
| "scrub v = v"
| "scrub_fields [] = []"
| "scrub_fields ((k, v) # rest) =
     (k, if k \<in> set run_redacted_keys then JStr ''[redacted]'' else scrub v) # scrub_fields rest"
| "scrub_items [] = []"
| "scrub_items (v # rest) = scrub v # scrub_items rest"

section \<open>Persisting\<close>

definition event_row_of :: "uuid \<Rightarrow> run_event \<Rightarrow> event_row" where
  "event_row_of run e =
     \<lparr>er_run = run, er_seq = ev_seq e, er_type = event_type (ev_body e),
      er_payload = scrub (JObj (event_payload (ev_body e)))\<rparr>"

text \<open>\<open>UniqueConstraint("run_id", "sequence")\<close>: \<open>None\<close> is the error of the flush.\<close>

fun persist_events :: "uuid \<Rightarrow> run_event list \<Rightarrow> event_row list \<Rightarrow> event_row list option" where
  "persist_events run [] rows = Some rows"
| "persist_events run (e # es) rows =
     (if \<exists>r \<in> set rows. er_run r = run \<and> er_seq r = ev_seq e then None
      else persist_events run es (rows @ [event_row_of run e]))"

definition run_world :: "agent_run \<Rightarrow> 'e runs_db \<Rightarrow> 'e agent_world" where
  "run_world r db = \<lparr>aw_run = r, aw_tools = reg_tools (rd_registry db), aw_pipe = rd_pipe db\<rparr>"

definition drain ::
    "uuid \<Rightarrow> run_event list \<times> 'e agent_world \<Rightarrow> 'e runs_db \<Rightarrow> (uuid \<times> 'e runs_db) result outcome" where
  "drain i stream db =
     (case persist_events i (fst stream) (rd_events db) of
        None \<Rightarrow> Raised ''IntegrityError''
      | Some rows \<Rightarrow>
          Done (Inr (i, (put_run (aw_run (snd stream)) db)
                          \<lparr>rd_events := rows, rd_pipe := aw_pipe (snd stream)\<rparr>)))"

section \<open>Operations\<close>

definition new_run ::
    "uuid \<Rightarrow> agent_row \<Rightarrow> agent_version \<Rightarrow> user \<Rightarrow> string \<Rightarrow> string option \<Rightarrow> string \<Rightarrow> timestamp
       \<Rightarrow> agent_spec \<Rightarrow> agent_run" where
  "new_run i a v actor message conversation trace now spec =
     \<lparr>run_id = i, run_agent = agent_id a, run_version = ver_id v, run_user = Some (user_id actor),
      run_conversation = conversation, run_trace = Some trace, run_state = RUNNING_RUN,
      run_input = message, run_output = None, run_error = None, run_iterations = 0,
      run_prompt_tokens = 0, run_completion_tokens = 0,
      run_checkpoint = \<lparr>ck_spec = Some (spec_to_json spec), ck_suspension = None\<rparr>,
      run_permissions = frozen_permissions actor, run_started_at = Some now, run_finished_at = None\<rparr>"

text \<open>\<open>start\<close> hands back the run and its stream; a caller that drains it is \<open>start_run\<close>.\<close>

definition begin_run ::
    "'e agent_env \<Rightarrow> uuid \<Rightarrow> string \<Rightarrow> user \<Rightarrow> string option \<Rightarrow> string \<Rightarrow> 'e runs_db
       \<Rightarrow> (agent_run \<times> (run_event list \<times> 'e agent_world) \<times> 'e runs_db) result" where
  "begin_run env agent message actor conversation trace db =
     (case agent_with agent (rd_registry db) of
        None \<Rightarrow> Inl (NotFoundError (''No agent with id '' @ uuid_str agent @ ''.''))
      | Some a \<Rightarrow>
          if \<not> agent_enabled a
          then Inl (ConflictError (''The agent '' @ quoted (agent_slug a) @ '' is disabled.''))
          else (case get_current agent (rd_registry db) of
                  None \<Rightarrow> Inl (NotFoundError
                    (''Agent '' @ quoted (agent_slug a) @ '' has no current version.''))
                | Some v \<Rightarrow>
                    (let spec = build_spec (rd_registry db) a v;
                         r = new_run (rd_next db) a v actor message conversation trace (ae_now env) spec;
                         pipe = (rd_pipe db)\<lparr>ps_trail := record_entry AGENT_EXECUTED (Some (user_id actor))
                           (user_name actor) ''agent'' (uuid_str agent) None
                           (JObj [(''run_id'', JStr (uuid_str (run_id r))), (''slug'', JStr (agent_slug a)),
                              (''version'', JInt (int (ver_number v))), (''model'', JStr (ver_model v))])
                           (ps_trail (rd_pipe db))\<rparr>;
                         db1 = db\<lparr>rd_runs := rd_runs db @ [r], rd_next := rd_next db + 1, rd_pipe := pipe\<rparr>
                     in Inr (r, execute_run env spec [plain_message ''user'' message] (run_world r db1), db1))))"

definition start_run ::
    "'e agent_env \<Rightarrow> uuid \<Rightarrow> string \<Rightarrow> user \<Rightarrow> string option \<Rightarrow> string \<Rightarrow> 'e runs_db
       \<Rightarrow> (uuid \<times> 'e runs_db) result outcome" where
  "start_run env agent message actor conversation trace db =
     (case begin_run env agent message actor conversation trace db of
        Inl e \<Rightarrow> Done (Inl e)
      | Inr (r, stream, db1) \<Rightarrow> drain (run_id r) stream db1)"

definition approve_run ::
    "'e agent_env \<Rightarrow> uuid \<Rightarrow> bool \<Rightarrow> user \<Rightarrow> string option \<Rightarrow> 'e runs_db
       \<Rightarrow> (uuid \<times> 'e runs_db) result outcome" where
  "approve_run env i approved actor reason db =
     (case get_run i db of
        None \<Rightarrow> Done (Inl (NotFoundError (''No run with id '' @ uuid_str i @ ''.'')))
      | Some r \<Rightarrow>
          if run_state r \<noteq> WAITING_FOR_APPROVAL
          then Done (Inl (ConflictError (''Run '' @ uuid_str i @ '' is '' @ run_state_text (run_state r)
              @ '', not waiting for an approval.'')))
          else (case pending_for_run (run_id r) (ps_execs (rd_pipe db)) of
                  None \<Rightarrow> Done (Inl (ConflictError ''This run has no pending tool call.''))
                | Some x \<Rightarrow>
                    if run_user r = Some (user_id actor) \<and> \<not> user_superuser actor
                    then Done (Inl (ValidationError
                      ''You cannot approve a tool call from a run you started. Approval must come from someone else.''))
                    else
                      (let pipe = (rd_pipe db)\<lparr>ps_trail := ps_trail (rd_pipe db) @
                             [build_entry (if approved then TOOL_APPROVAL_GRANTED else TOOL_APPROVAL_DENIED)
                                (if approved then SUCCESS else DENIED) (Some (user_id actor))
                                (user_name actor) (Some ''tool'') (map_option uuid_str (exec_tool x)) None
                                (JObj [(''run_id'', JStr (uuid_str i)), (''tool'', JStr (exec_name x)),
                                   (''risk_level'', JStr (risk_text (exec_risk x))),
                                   (''reason'', case reason of None \<Rightarrow> JNull | Some s \<Rightarrow> JStr s)])]\<rparr>;
                           db1 = db\<lparr>rd_pipe := pipe\<rparr>
                       in drain i (resume_run env approved (user_id actor) reason (run_world r db1)) db1)))"

definition cancel_reason :: string where
  "cancel_reason = ''The run was cancelled before a decision was made.''"

definition cancel_service :: "timestamp \<Rightarrow> uuid \<Rightarrow> 'e runs_db \<Rightarrow> (agent_run \<times> 'e runs_db) result" where
  "cancel_service now i db =
     (case get_run i db of
        None \<Rightarrow> Inl (NotFoundError (''No run with id '' @ uuid_str i @ ''.''))
      | Some r \<Rightarrow>
          if run_is_terminal r then Inr (r, db)
          else (let r1 = r\<lparr>run_state := CANCELLED, run_finished_at := Some now\<rparr>;
                    db1 = put_run r1 db
                in Inr (r1,
                     case pending_for_run (run_id r) (ps_execs (rd_pipe db)) of
                       None \<Rightarrow> db1
                     | Some x \<Rightarrow>
                         db1\<lparr>rd_pipe := put_execution (x\<lparr>exec_approval := EXPIRED,
                           exec_decided_at := Some now, exec_reason := Some cancel_reason\<rparr>)
                           (rd_pipe db1)\<rparr>)))"

text \<open>The approver's queue, and what the detail of a run shows of its pending call.\<close>

definition pending_detail :: "agent_run \<Rightarrow> 'e runs_db \<Rightarrow> (string \<times> json) option" where
  "pending_detail r db =
     (if run_state r = WAITING_FOR_APPROVAL
      then map_option (\<lambda>x. (exec_name x, exec_arguments x))
             (pending_for_run (run_id r) (ps_execs (rd_pipe db)))
      else None)"

definition list_events :: "uuid \<Rightarrow> 'e runs_db \<Rightarrow> event_row list" where
  "list_events i db = sort_key er_seq (filter (\<lambda>e. er_run e = i) (rd_events db))"

end
