(* ===== verification/Agent_Safety.thy ===== *)
theory Agent_Safety
  imports Agent_Runs
begin

text \<open>
  What a stretch of a run (from a start or an approval to the next end of the event stream)
  does: its events are numbered without a gap and end with the event that says how the run
  stands, and every row it adds was checked by the pipeline against the run's own frozen
  permissions.  Proved for a turn, the loop, a start and a resumption in turn.
\<close>

section \<open>Numbered events\<close>

definition numbered :: "nat \<Rightarrow> run_event list \<Rightarrow> bool" where
  "numbered n evs = (map ev_seq evs = [n..<n + length evs])"

lemma numbered_Nil [simp]: "numbered n []"
  by (simp add: numbered_def)

lemma numbered_Cons [simp]: "numbered n (e # es) \<longleftrightarrow> ev_seq e = n \<and> numbered (Suc n) es"
  by (simp add: numbered_def upt_conv_Cons del: upt_Suc)

lemma numbered_append [simp]: "numbered n (xs @ ys) \<longleftrightarrow> numbered n xs \<and> numbered (n + length xs) ys"
  by (induction xs arbitrary: n) auto

lemma event_sel [simp]: "ev_seq (event n b) = n" "ev_body (event n b) = b"
  by (simp_all add: event_def)

fun stops_stream :: "event_body \<Rightarrow> bool" where
  "stops_stream (RUN_COMPLETED _ _) = True"
| "stops_stream (RUN_FAILED _) = True"
| "stops_stream (TOOL_APPROVAL_REQUIRED _ _ _ _) = True"
| "stops_stream _ = False"

definition quiet :: "run_event list \<Rightarrow> bool" where
  "quiet evs = (\<forall>e \<in> set evs. \<not> stops_stream (ev_body e))"

lemma quiet_simps [simp]:
  "quiet []" "quiet (e # es) \<longleftrightarrow> \<not> stops_stream (ev_body e) \<and> quiet es"
  "quiet (xs @ ys) \<longleftrightarrow> quiet xs \<and> quiet ys"
  by (auto simp: quiet_def)

text \<open>How the last event of a stream and the run it leaves agree.\<close>

fun end_matches :: "event_body \<Rightarrow> agent_run \<Rightarrow> bool" where
  "end_matches (RUN_COMPLETED out it) r =
     (run_state r = COMPLETED \<and> run_output r = Some out \<and> run_iterations r = it \<and>
      run_finished_at r \<noteq> None \<and> run_checkpoint r = empty_checkpoint)"
| "end_matches (RUN_FAILED err) r =
     (run_state r = FAILED_RUN \<and> run_error r \<noteq> None \<and> run_finished_at r \<noteq> None)"
| "end_matches (TOOL_APPROVAL_REQUIRED nm args risk i) r =
     (run_state r = WAITING_FOR_APPROVAL \<and>
      (case ck_suspension (run_checkpoint r) of None \<Rightarrow> False | Some s \<Rightarrow> call_name (sus_call s) = nm))"
| "end_matches _ r = False"

definition stream_ok :: "nat \<Rightarrow> run_event list \<Rightarrow> agent_run \<Rightarrow> bool" where
  "stream_ok n evs r =
     (\<exists>init e. evs = init @ [e] \<and> quiet init \<and> numbered n evs \<and> end_matches (ev_body e) r \<and>
        (run_state r = WAITING_FOR_APPROVAL \<longrightarrow>
          (\<exists>s. ck_suspension (run_checkpoint r) = Some s \<and> sus_sequence s = n + length evs)))"

lemma stream_okI:
  assumes "quiet init" "numbered n (init @ [e])" "end_matches (ev_body e) r"
    "run_state r = WAITING_FOR_APPROVAL \<Longrightarrow>
       \<exists>s. ck_suspension (run_checkpoint r) = Some s \<and> sus_sequence s = n + length init + 1"
  shows "stream_ok n (init @ [e]) r"
  using assms by (auto simp: stream_ok_def)

lemma stream_ok_prefix:
  assumes "quiet xs" "numbered n xs" "stream_ok (n + length xs) ys r"
  shows "stream_ok n (xs @ ys) r"
proof -
  from assms(3) obtain init e where y: "ys = init @ [e]" "quiet init" "numbered (n + length xs) ys"
      "end_matches (ev_body e) r" and s: "run_state r = WAITING_FOR_APPROVAL \<longrightarrow>
          (\<exists>s. ck_suspension (run_checkpoint r) = Some s \<and> sus_sequence s = n + length xs + length ys)"
    by (auto simp: stream_ok_def)
  have "xs @ ys = (xs @ init) @ [e]" using y(1) by simp
  then show ?thesis using assms(1,2) y s unfolding stream_ok_def
    by (intro exI [of _ "xs @ init"] exI [of _ e]) auto
qed

section \<open>Rows\<close>

text \<open>The columns of a run no stretch touches.\<close>

definition same_run :: "agent_run \<Rightarrow> agent_run \<Rightarrow> bool" where
  "same_run r r' =
     (run_id r' = run_id r \<and> run_agent r' = run_agent r \<and> run_version r' = run_version r \<and>
      run_user r' = run_user r \<and> run_permissions r' = run_permissions r \<and> run_input r' = run_input r \<and>
      run_started_at r' = run_started_at r)"

lemma same_run_refl [simp]: "same_run r r"
  by (simp add: same_run_def)

lemma same_run_trans: "same_run r s \<Longrightarrow> same_run s t \<Longrightarrow> same_run r t"
  by (simp add: same_run_def)

lemma same_run_caller: "same_run r s \<Longrightarrow> caller_of s = caller_of r"
  by (simp add: same_run_def caller_of_def)

text \<open>A row the pipeline wrote for one of the run's calls, by what it decided.\<close>

definition call_checked :: "agents_settings \<Rightarrow> caller \<Rightarrow> uuid set \<Rightarrow> tool list \<Rightarrow> tool_execution \<Rightarrow> bool" where
  "call_checked st c grants tools x =
     (\<exists>t \<in> set tools. exec_tool x = Some (tool_id t) \<and> exec_name x = tool_name t \<and>
        exec_risk x = tool_risk t \<and> exec_run x = caller_run c \<and> exec_approver x = None \<and>
        (if exec_approval x = REJECTED
         then \<not> authorised st c t grants \<and> exec_success x = Some False
         else authorised st c t grants \<and>
              (if needs_approval st t then exec_approval x = PENDING \<and> exec_success x = None
               else exec_approval x = NOT_REQUIRED \<and> exec_success x \<noteq> None)))"

definition settled :: "tool_execution list \<Rightarrow> bool" where
  "settled xs = (\<forall>x \<in> set xs. exec_approval x \<noteq> PENDING)"

lemma settled_simps [simp]:
  "settled []" "settled (x # xs) \<longleftrightarrow> exec_approval x \<noteq> PENDING \<and> settled xs"
  "settled (xs @ ys) \<longleftrightarrow> settled xs \<and> settled ys"
  by (auto simp: settled_def)

text \<open>A pending row, and nothing pending before it, exactly when the run waits.\<close>

definition waits_on :: "agent_run \<Rightarrow> tool_execution list \<Rightarrow> bool" where
  "waits_on r xs =
     (if run_state r = WAITING_FOR_APPROVAL
      then \<exists>ys z s. xs = ys @ [z] \<and> settled ys \<and> exec_approval z = PENDING \<and>
             ck_suspension (run_checkpoint r) = Some s \<and> exec_name z = call_name (sus_call s)
      else settled xs)"

lemma waits_on_append: "settled ys \<Longrightarrow> waits_on r xs \<Longrightarrow> waits_on r (ys @ xs)"
  unfolding waits_on_def
  by (cases "run_state r = WAITING_FOR_APPROVAL") (simp_all, metis append.assoc settled_simps(3))

definition adds_rows ::
    "agents_settings \<Rightarrow> caller \<Rightarrow> uuid set \<Rightarrow> tool list \<Rightarrow> tool_execution list \<Rightarrow> 'e pipe_state \<Rightarrow> 'e pipe_state \<Rightarrow> bool" where
  "adds_rows st c grants tools xs p p' =
     (ps_execs p' = ps_execs p @ xs \<and> list_all (call_checked st c grants tools) xs \<and> fresh_rows p')"

lemma adds_rows_refl [simp]: "adds_rows st c grants tools [] p p' \<longleftrightarrow> ps_execs p' = ps_execs p \<and> fresh_rows p'"
  by (simp add: adds_rows_def)

lemma adds_rows_trans:
  "adds_rows st c grants tools xs p q \<Longrightarrow> adds_rows st c grants tools ys q s \<Longrightarrow>
     adds_rows st c grants tools (xs @ ys) p s"
  by (simp add: adds_rows_def)

lemma adds_rows_fresh: "adds_rows st c grants tools xs p q \<Longrightarrow> fresh_rows q"
  by (simp add: adds_rows_def)

lemma invoke_adds:
  assumes "fresh_rows p" "invoke st executors now c t args grants p = (out, p')" "t \<in> set tools"
  obtains x where "adds_rows st c grants tools [x] p p'" "exec_name x = tool_name t"
    "exec_approval x = PENDING \<longleftrightarrow> (\<exists>i. out = Pending i)"
proof (rule invoke_row [OF assms(1,2)])
  fix x
  assume x: "ps_execs p' = ps_execs p @ [x]" "exec_id x = ps_next p" "exec_run x = caller_run c"
    "exec_tool x = Some (tool_id t)" "exec_name x = tool_name t" "exec_risk x = tool_risk t"
    "exec_approver x = None" "fresh_rows p'"
    and o: "case out of
       Ran r \<Rightarrow> authorised st c t grants \<and> \<not> needs_approval st t \<and>
         exec_approval x = NOT_REQUIRED \<and> exec_success x = Some (res_success r)
     | Denied d \<Rightarrow> \<not> authorised st c t grants \<and> ps_ext p' = ps_ext p \<and>
         exec_approval x = REJECTED \<and> exec_success x = Some False \<and> exec_error x = Some (denial_detail d)
     | Pending i \<Rightarrow> authorised st c t grants \<and> needs_approval st t \<and> ps_ext p' = ps_ext p \<and>
         exec_approval x = PENDING \<and> exec_success x = None \<and> exec_id x = i"
  have "call_checked st c grants tools x"
    unfolding call_checked_def using assms(3) x o
    by (intro bexI [of _ t]) (auto split: outcome_of_call.splits)
  with x(1,8) have "adds_rows st c grants tools [x] p p'" by (simp add: adds_rows_def)
  moreover have "exec_approval x = PENDING \<longleftrightarrow> (\<exists>i. out = Pending i)"
    using o by (auto split: outcome_of_call.splits)
  ultimately show thesis using that x(5) by blast
qed

section \<open>A turn\<close>

text \<open>A turn: what its calls leave, whether it goes on or stops at a call that needs consent.\<close>

definition turn_ok ::
    "'e agent_env \<Rightarrow> agent_spec \<Rightarrow> nat \<Rightarrow> nat \<Rightarrow> turn_end \<Rightarrow> run_event list \<Rightarrow> 'e agent_world \<Rightarrow> 'e agent_world \<Rightarrow> bool" where
  "turn_ok env spec it n res evs w w' =
     (aw_tools w' = aw_tools w \<and>
      (\<exists>xs. adds_rows (ae_settings env) (caller_of (aw_run w)) (granted_ids spec) (aw_tools w) xs
              (aw_pipe w) (aw_pipe w') \<and>
         (case res of
            NextTurn m conv \<Rightarrow> m = n + length evs \<and> quiet evs \<and> numbered n evs \<and> aw_run w' = aw_run w \<and> settled xs
          | Stopped \<Rightarrow> stream_ok n evs (aw_run w') \<and> same_run (aw_run w) (aw_run w') \<and>
              run_iterations (aw_run w') = run_iterations (aw_run w) \<and>
              run_state (aw_run w') = WAITING_FOR_APPROVAL \<and>
              ck_spec (run_checkpoint (aw_run w')) = ck_spec (run_checkpoint (aw_run w)) \<and>
              map_option sus_iteration (ck_suspension (run_checkpoint (aw_run w'))) = Some it \<and>
              waits_on (aw_run w') xs)))"

lemma turn_ok_Nil: "fresh_rows (aw_pipe w) \<Longrightarrow> turn_ok env spec it n (NextTurn n conv) [] w w"
  unfolding turn_ok_def by (auto intro!: exI [of _ "[]"])

text \<open>One more call in front: its own events, its own rows.\<close>

lemma turn_ok_Cons:
  assumes rest: "turn_ok env spec it (n + length es) res evs (w\<lparr>aw_pipe := p\<rparr>) w'"
    and es: "quiet es" "numbered n es"
    and rows: "adds_rows (ae_settings env) (caller_of (aw_run w)) (granted_ids spec) (aw_tools w) ys (aw_pipe w) p"
      "settled ys"
  shows "turn_ok env spec it n res (es @ evs) w w'"
proof -
  from rest obtain xs where t: "aw_tools w' = aw_tools w"
    and a: "adds_rows (ae_settings env) (caller_of (aw_run w)) (granted_ids spec) (aw_tools w) xs p (aw_pipe w')"
    and r: "case res of
            NextTurn m conv \<Rightarrow> m = n + length es + length evs \<and> quiet evs \<and> numbered (n + length es) evs \<and>
              aw_run w' = aw_run w \<and> settled xs
          | Stopped \<Rightarrow> stream_ok (n + length es) evs (aw_run w') \<and> same_run (aw_run w) (aw_run w') \<and>
              run_iterations (aw_run w') = run_iterations (aw_run w) \<and>
              run_state (aw_run w') = WAITING_FOR_APPROVAL \<and>
              ck_spec (run_checkpoint (aw_run w')) = ck_spec (run_checkpoint (aw_run w)) \<and>
              map_option sus_iteration (ck_suspension (run_checkpoint (aw_run w'))) = Some it \<and>
              waits_on (aw_run w') xs"
    unfolding turn_ok_def by (elim conjE exE) (auto split: turn_end.splits)
  note a' = adds_rows_trans [OF rows(1) a]
  show ?thesis
  proof (cases res)
    case (NextTurn m conv)
    with t r es rows(2) a' show ?thesis unfolding turn_ok_def by (auto intro!: exI [of _ "ys @ xs"])
  next
    case Stopped
    with r have "stream_ok n (es @ evs) (aw_run w')" "waits_on (aw_run w') (ys @ xs)"
      using stream_ok_prefix [OF es] waits_on_append [OF rows(2)] by simp_all
    with Stopped t r a' show ?thesis unfolding turn_ok_def by (intro conjI exI [of _ "ys @ xs"]) simp_all
  qed
qed

lemma suspend_run_simps [simp]:
  "aw_tools (suspend_run conv c it n w) = aw_tools w" "aw_pipe (suspend_run conv c it n w) = aw_pipe w"
  "run_state (aw_run (suspend_run conv c it n w)) = WAITING_FOR_APPROVAL"
  "same_run r (aw_run (suspend_run conv c it n w)) \<longleftrightarrow> same_run r (aw_run w)"
  "run_iterations (aw_run (suspend_run conv c it n w)) = run_iterations (aw_run w)"
  "ck_spec (run_checkpoint (aw_run (suspend_run conv c it n w))) = ck_spec (run_checkpoint (aw_run w))"
  "ck_suspension (run_checkpoint (aw_run (suspend_run conv c it n w)))
     = Some \<lparr>sus_conversation = conv, sus_call = c, sus_iteration = it, sus_sequence = n\<rparr>"
  by (simp_all add: suspend_run_def same_run_def)

lemma turn_ok_stop:
  assumes "adds_rows (ae_settings env) (caller_of (aw_run w)) (granted_ids spec) (aw_tools w) [z] (aw_pipe w) p"
    "exec_approval z = PENDING" "exec_name z = call_name c"
  shows "turn_ok env spec it n Stopped
     [event n (TOOL_REQUESTED (call_name c) args), event (n + 1) (TOOL_APPROVAL_REQUIRED (call_name c) args risk i)]
     w (suspend_run conv c it (n + 2) (w\<lparr>aw_pipe := p\<rparr>))"
proof -
  let ?w = "suspend_run conv c it (n + 2) (w\<lparr>aw_pipe := p\<rparr>)"
  have "stream_ok n ([event n (TOOL_REQUESTED (call_name c) args)] @
      [event (n + 1) (TOOL_APPROVAL_REQUIRED (call_name c) args risk i)]) (aw_run ?w)"
    by (rule stream_okI) simp_all
  moreover have "waits_on (aw_run ?w) [z]"
    unfolding waits_on_def using assms(2,3) by auto
  ultimately show ?thesis
    unfolding turn_ok_def using assms(1) by (auto intro!: exI [of _ "[z]"])
qed

lemma tool_by_name_Some: "tool_by_name nm ts = Some t \<Longrightarrow> t \<in> set ts \<and> tool_name t = nm"
  by (auto simp: tool_by_name_def dest: find_row_Some)

lemma process_calls_ok:
  assumes "process_calls env spec it cs n conv w = (res, evs, w')" "fresh_rows (aw_pipe w)"
  shows "turn_ok env spec it n res evs w w'"
  using assms
proof (induction env spec it cs n conv w arbitrary: res evs w' rule: process_calls.induct)
  case (1 env spec it n conv w)
  then show ?case by (auto intro: turn_ok_Nil)
next
  case (2 env spec it c cs n conv w)
  let ?args = "parse_arguments (ae_loads env) (call_arguments c)"
  let ?req = "event n (TOOL_REQUESTED (call_name c) ?args)"
  show ?case
  proof (cases "tool_by_name (call_name c) (aw_tools w)")
    case None
    with "2.prems"(1) obtain evs1 where e: "evs = [?req] @ evs1"
      and p: "process_calls env spec it cs (n + 1)
           (conv @ [tool_message c (''There is no tool named '' @ quoted (call_name c) @ ''.'')]) w = (res, evs1, w')"
      by (auto simp: Let_def split: prod.splits)
    have "turn_ok env spec it (n + 1) res evs1 w w'"
      using "2.IH"(1) [OF refl refl None] p "2.prems"(2) by blast
    then show ?thesis
      unfolding e by (intro turn_ok_Cons [where p = "aw_pipe w" and ys = "[]"]) (use "2.prems"(2) in simp_all)
  next
    case (Some t)
    then have t: "t \<in> set (aw_tools w)" "tool_name t = call_name c" by (auto dest: tool_by_name_Some)
    obtain out p where i: "invoke (ae_settings env) (ae_executors env) (ae_now env) (caller_of (aw_run w)) t ?args
                     (granted_ids spec) (aw_pipe w) = (out, p)" by fastforce
    from invoke_adds [OF "2.prems"(2) i t(1)] obtain x where
      x: "adds_rows (ae_settings env) (caller_of (aw_run w)) (granted_ids spec) (aw_tools w) [x] (aw_pipe w) p"
      "exec_name x = call_name c" "exec_approval x = PENDING \<longleftrightarrow> (\<exists>i. out = Pending i)"
      using t(2) by metis
    have f: "fresh_rows p" using x(1) by (rule adds_rows_fresh)
    have go_on: "turn_ok env spec it n res evs w w'"
      if "evs = [?req, event (n + 1) b] @ evs1" "\<not> stops_stream b" "\<not> (\<exists>i. out = Pending i)"
        "turn_ok env spec it (n + 2) res evs1 (w\<lparr>aw_pipe := p\<rparr>) w'" for b evs1
      unfolding that(1) by (rule turn_ok_Cons [OF _ _ _ x(1)]) (use that x(3) in simp_all)
    show ?thesis
    proof (cases out)
      case (Ran r)
      let ?conv = "conv @ [tool_message c (res_content r)]"
      from "2.prems"(1) Some i Ran obtain evs1 where
        e: "evs = [?req, event (n + 1) (TOOL_RAN (call_name c) (res_success r) (Some (res_truncated r)))] @ evs1"
        and pc: "process_calls env spec it cs (n + 2) ?conv (w\<lparr>aw_pipe := p\<rparr>) = (res, evs1, w')"
        by (auto simp: Let_def split: prod.splits)
      show ?thesis
        by (rule go_on [OF e]) (use "2.IH"(2) [OF refl refl Some i [symmetric] Ran] pc f Ran in simp_all)
    next
      case (Denied d)
      let ?conv = "conv @ [tool_message c (denial_reason d)]"
      from "2.prems"(1) Some i Denied obtain evs1 where
        e: "evs = [?req, event (n + 1) (TOOL_REJECTED (call_name c) (denial_reason d))] @ evs1"
        and pc: "process_calls env spec it cs (n + 2) ?conv (w\<lparr>aw_pipe := p\<rparr>) = (res, evs1, w')"
        by (auto simp: Let_def split: prod.splits)
      show ?thesis
        by (rule go_on [OF e]) (use "2.IH"(3) [OF refl refl Some i [symmetric] Denied] pc f Denied in simp_all)
    next
      case (Pending j)
      from "2.prems"(1) Some i Pending
      have "res = Stopped" "evs = [?req, event (n + 1) (TOOL_APPROVAL_REQUIRED (call_name c) ?args (tool_risk t) j)]"
        "w' = suspend_run conv c it (n + 2) (w\<lparr>aw_pipe := p\<rparr>)"
        by (simp_all add: Let_def)
      then show ?thesis using turn_ok_stop [OF x(1)] x(2,3) Pending by simp
    qed
  qed
qed

section \<open>A stretch\<close>

text \<open>A stretch: from an entry into the loop to the end of the stream.\<close>

definition stretch_ok ::
    "'e agent_env \<Rightarrow> agent_spec \<Rightarrow> nat \<Rightarrow> run_event list \<Rightarrow> 'e agent_world \<Rightarrow> 'e agent_world \<Rightarrow> bool" where
  "stretch_ok env spec n evs w w' =
     (aw_tools w' = aw_tools w \<and> same_run (aw_run w) (aw_run w') \<and> stream_ok n evs (aw_run w') \<and>
      run_iterations (aw_run w') \<le> max (run_iterations (aw_run w)) (ag_max_iterations spec) \<and>
      (run_state (aw_run w') = WAITING_FOR_APPROVAL \<longrightarrow>
         ck_spec (run_checkpoint (aw_run w')) = ck_spec (run_checkpoint (aw_run w))) \<and>
      (\<exists>xs. adds_rows (ae_settings env) (caller_of (aw_run w)) (granted_ids spec) (aw_tools w) xs
              (aw_pipe w) (aw_pipe w') \<and> waits_on (aw_run w') xs))"

text \<open>Two worlds the next stretch cannot tell apart in what it must keep.\<close>

definition carries :: "'e agent_world \<Rightarrow> 'e agent_world \<Rightarrow> bool" where
  "carries w v =
     (aw_tools v = aw_tools w \<and> same_run (aw_run w) (aw_run v) \<and>
      ck_spec (run_checkpoint (aw_run v)) = ck_spec (run_checkpoint (aw_run w)))"

lemma same_run_update [simp]:
  "same_run r (s\<lparr>run_iterations := k\<rparr>) = same_run r s" "same_run r (s\<lparr>run_prompt_tokens := k\<rparr>) = same_run r s"
  "same_run r (s\<lparr>run_completion_tokens := k\<rparr>) = same_run r s" "same_run r (s\<lparr>run_state := x\<rparr>) = same_run r s"
  "same_run r (s\<lparr>run_error := e\<rparr>) = same_run r s" "same_run r (s\<lparr>run_output := e\<rparr>) = same_run r s"
  "same_run r (s\<lparr>run_finished_at := f\<rparr>) = same_run r s" "same_run r (s\<lparr>run_checkpoint := c\<rparr>) = same_run r s"
  by (simp_all add: same_run_def)

lemma stretch_ok_prefix:
  assumes "stretch_ok env spec (n + length es) evs v w'" "carries w v" "quiet es" "numbered n es"
    and "adds_rows (ae_settings env) (caller_of (aw_run w)) (granted_ids spec) (aw_tools w) ys (aw_pipe w) (aw_pipe v)"
      "settled ys"
    and "run_iterations (aw_run v) \<le> max (run_iterations (aw_run w)) (ag_max_iterations spec)"
  shows "stretch_ok env spec n (es @ evs) w w'"
proof -
  from assms(2) have c: "aw_tools v = aw_tools w" "same_run (aw_run w) (aw_run v)"
      "ck_spec (run_checkpoint (aw_run v)) = ck_spec (run_checkpoint (aw_run w))"
    by (auto simp: carries_def)
  note call = same_run_caller [OF c(2)]
  from assms(1) obtain xs where s: "aw_tools w' = aw_tools v" "same_run (aw_run v) (aw_run w')"
      "stream_ok (n + length es) evs (aw_run w')"
      "run_iterations (aw_run w') \<le> max (run_iterations (aw_run v)) (ag_max_iterations spec)"
      "run_state (aw_run w') = WAITING_FOR_APPROVAL \<longrightarrow>
         ck_spec (run_checkpoint (aw_run w')) = ck_spec (run_checkpoint (aw_run v))"
      "adds_rows (ae_settings env) (caller_of (aw_run w)) (granted_ids spec) (aw_tools w) xs (aw_pipe v) (aw_pipe w')"
      "waits_on (aw_run w') xs"
    unfolding stretch_ok_def call c(1) by blast
  show ?thesis
    unfolding stretch_ok_def
  proof (intro conjI exI [of _ "ys @ xs"])
    show "adds_rows (ae_settings env) (caller_of (aw_run w)) (granted_ids spec) (aw_tools w) (ys @ xs)
        (aw_pipe w) (aw_pipe w')" by (rule adds_rows_trans [OF assms(5) s(6)])
    show "stream_ok n (es @ evs) (aw_run w')" by (rule stream_ok_prefix [OF assms(3,4) s(3)])
    show "waits_on (aw_run w') (ys @ xs)" by (rule waits_on_append [OF assms(6) s(7)])
    show "same_run (aw_run w) (aw_run w')" by (rule same_run_trans [OF c(2) s(2)])
    show "run_iterations (aw_run w') \<le> max (run_iterations (aw_run w)) (ag_max_iterations spec)"
      using s(4) assms(7) by (simp add: max_def split: if_splits)
  qed (use s c in auto)
qed

lemma stretch_ok_end:
  assumes "carries w v" "adds_rows (ae_settings env) (caller_of (aw_run w)) (granted_ids spec) (aw_tools w) []
      (aw_pipe w) (aw_pipe v)"
    and "run_iterations (aw_run v) \<le> max (run_iterations (aw_run w)) (ag_max_iterations spec)"
  shows "stretch_ok env spec n [event n (RUN_FAILED msg)] w (fail_run now err v)"
    and "run_iterations (aw_run v) = it \<Longrightarrow>
      stretch_ok env spec n [event n (RUN_COMPLETED out it)] w (complete_run now out v)"
proof -
  have f: "stream_ok n ([] @ [event n (RUN_FAILED msg)]) (aw_run (fail_run now err v))"
    by (rule stream_okI) (simp_all add: fail_run_def)
  show "stretch_ok env spec n [event n (RUN_FAILED msg)] w (fail_run now err v)"
    unfolding stretch_ok_def using assms f
    by (auto simp: fail_run_def carries_def waits_on_def intro!: exI [of _ "[]"])
  assume "run_iterations (aw_run v) = it"
  then have c: "stream_ok n ([] @ [event n (RUN_COMPLETED out it)]) (aw_run (complete_run now out v))"
    by (intro stream_okI) (simp_all add: complete_run_def)
  show "stretch_ok env spec n [event n (RUN_COMPLETED out it)] w (complete_run now out v)"
    unfolding stretch_ok_def using assms c
    by (auto simp: complete_run_def carries_def waits_on_def intro!: exI [of _ "[]"])
qed

lemma stretch_ok_turn:
  assumes "turn_ok env spec it n Stopped evs v w'" "carries w v"
    "adds_rows (ae_settings env) (caller_of (aw_run w)) (granted_ids spec) (aw_tools w) [] (aw_pipe w) (aw_pipe v)"
    "run_iterations (aw_run v) \<le> max (run_iterations (aw_run w)) (ag_max_iterations spec)"
  shows "stretch_ok env spec n evs w w'"
proof -
  from assms(2) have c: "aw_tools v = aw_tools w" "same_run (aw_run w) (aw_run v)"
      "ck_spec (run_checkpoint (aw_run v)) = ck_spec (run_checkpoint (aw_run w))"
    by (auto simp: carries_def)
  note call = same_run_caller [OF c(2)]
  from assms(1) obtain xs where "aw_tools w' = aw_tools v" "stream_ok n evs (aw_run w')"
      "same_run (aw_run v) (aw_run w')" "run_iterations (aw_run w') = run_iterations (aw_run v)"
      "ck_spec (run_checkpoint (aw_run w')) = ck_spec (run_checkpoint (aw_run v))"
      "adds_rows (ae_settings env) (caller_of (aw_run w)) (granted_ids spec) (aw_tools w) xs (aw_pipe v) (aw_pipe w')"
      "waits_on (aw_run w') xs"
    unfolding turn_ok_def call c(1) turn_end.case by blast
  moreover from this(6) assms(3)
  have "adds_rows (ae_settings env) (caller_of (aw_run w)) (granted_ids spec) (aw_tools w) xs (aw_pipe w) (aw_pipe w')"
    using adds_rows_trans [OF assms(3)] by fastforce
  ultimately show ?thesis
    unfolding stretch_ok_def using c assms(4) same_run_trans [OF c(2)] by auto
qed

lemma fresh_rows_ext [simp]: "fresh_rows (p\<lparr>ps_ext := e\<rparr>) = fresh_rows p"
  by (simp add: fresh_rows_def)

text \<open>The world a chat leaves: the iteration counted, the tokens added, the rows as they were.\<close>

lemma carries_chat:
  "carries w (w\<lparr>aw_run := (aw_run w)\<lparr>run_iterations := it\<rparr>, aw_pipe := p\<rparr>)"
  "carries w (count_tokens c (w\<lparr>aw_run := (aw_run w)\<lparr>run_iterations := it\<rparr>, aw_pipe := p\<rparr>))"
  by (simp_all add: carries_def count_tokens_def)

lemma count_tokens_simps [simp]:
  "aw_pipe (count_tokens c w) = aw_pipe w" "run_iterations (aw_run (count_tokens c w)) = run_iterations (aw_run w)"
  by (simp_all add: count_tokens_def)

lemma carries_refl [simp]: "carries w w"
  by (simp add: carries_def)

lemma chat_stretch:
  assumes "carries w v" "run_iterations (aw_run v) \<le> max (run_iterations (aw_run w)) (ag_max_iterations spec)"
    "adds_rows (ae_settings env) (caller_of (aw_run w)) (granted_ids spec) (aw_tools w) [] (aw_pipe w) (aw_pipe v)"
    "quiet es" "numbered n es" "stretch_ok env spec (n + length es) evs v w'"
  shows "stretch_ok env spec n (es @ evs) w w'"
  by (rule stretch_ok_prefix [OF assms(6,1,4,5,3) settled_simps(1) assms(2)])

lemma run_loop_ok:
  assumes "run_loop env spec served it n conv w = (evs, w')" "fresh_rows (aw_pipe w)"
  shows "stretch_ok env spec n evs w w'"
  using assms
proof (induction env spec served it n conv w arbitrary: evs w' rule: run_loop.induct)
  case (1 env spec served it n conv w)
  show ?case
  proof (cases "it < ag_max_iterations spec")
    case False
    then show ?thesis using "1.prems" stretch_ok_end(1) [of w w env spec]
      by (auto simp: run_loop.simps [of env spec served it] carries_def)
  next
    case more: True
    let ?w1 = "w\<lparr>aw_run := (aw_run w)\<lparr>run_iterations := it + 1\<rparr>\<rparr>"
    let ?req = "event n (LLM_REQUEST (it + 1) (length conv))"
    obtain answer e where chat: "ae_chat env (to_chat_messages (ag_prompt spec) conv) served (ag_temperature spec)
                   (ag_tools spec) (ps_ext (aw_pipe ?w1)) = (answer, e)" by fastforce
    let ?v = "w\<lparr>aw_run := (aw_run w)\<lparr>run_iterations := it + 1\<rparr>, aw_pipe := (aw_pipe w)\<lparr>ps_ext := e\<rparr>\<rparr>"
    have rows: "adds_rows (ae_settings env) (caller_of (aw_run w)) (granted_ids spec) (aw_tools w) [] (aw_pipe w) (aw_pipe ?v)"
      using "1.prems"(2) by simp
    have its: "run_iterations (aw_run ?v) \<le> max (run_iterations (aw_run w)) (ag_max_iterations spec)"
      using more by simp
    show ?thesis
    proof (cases answer)
      case (Inl err)
      let ?final = "event (n + 1) (RUN_FAILED (''The model could not be reached: '' @ err))"
      have e: "evs = [?req] @ [?final]" "w' = fail_run (ae_now env) err ?v"
        using "1.prems"(1) more chat Inl by (simp_all add: run_loop.simps [of env spec served it] Let_def)
      have "stretch_ok env spec (n + 1) [?final] ?v w'"
        unfolding e(2) by (rule stretch_ok_end(1)) (use "1.prems"(2) in simp_all)
      then show ?thesis
        unfolding e(1) by (intro chat_stretch [OF carries_chat(1) its rows]) simp_all
    next
      case (Inr c)
      let ?u = "count_tokens c ?v"
      let ?conv = "conv @ [assistant_message c]"
      let ?res = "event (n + 1) (LLM_RESPONSE (it + 1) (comp_content c)
                       (map call_name (comp_calls c)) (comp_prompt_tokens c) (comp_completion_tokens c))"
      have its': "run_iterations (aw_run ?u) \<le> max (run_iterations (aw_run w)) (ag_max_iterations spec)"
        and rows': "adds_rows (ae_settings env) (caller_of (aw_run w)) (granted_ids spec) (aw_tools w) []
          (aw_pipe w) (aw_pipe ?u)"
        using its rows by simp_all
      have front: "stretch_ok env spec n ([?req, ?res] @ rest) w w'" if "stretch_ok env spec (n + 2) rest ?u w'" for rest
        by (rule chat_stretch [OF carries_chat(2) its' rows']) (use that in simp_all)
      have fresh: "fresh_rows (aw_pipe ?u)" using "1.prems"(2) by simp
      show ?thesis
      proof (cases "comp_calls c = []")
        case True
        let ?final = "event (n + 2) (RUN_COMPLETED (comp_content c) (it + 1))"
        have e: "evs = [?req, ?res] @ [?final]" "w' = complete_run (ae_now env) (comp_content c) ?u"
          using "1.prems"(1) more chat Inr True by (simp_all add: run_loop.simps [of env spec served it] Let_def)
        have "stretch_ok env spec (n + 2) [?final] ?u w'"
          unfolding e(2) by (rule stretch_ok_end(2)) (use fresh in simp_all)
        then show ?thesis unfolding e(1) by (rule front)
      next
        case False
        obtain r evs1 w1 where pc: "process_calls env spec (it + 1) (comp_calls c) (n + 2) ?conv ?u = (r, evs1, w1)"
          by (cases "process_calls env spec (it + 1) (comp_calls c) (n + 2) ?conv ?u")
        note turn = process_calls_ok [OF pc fresh]
        show ?thesis
        proof (cases r)
          case Stopped
          have e: "evs = [?req, ?res] @ evs1" "w' = w1"
            using "1.prems"(1) more chat Inr False pc Stopped
            by (simp_all add: run_loop.simps [of env spec served it] Let_def)
          have "stretch_ok env spec (n + 2) evs1 ?u w'"
            unfolding e(2) by (rule stretch_ok_turn [OF turn [unfolded Stopped]]) (use fresh in simp_all)
          then show ?thesis unfolding e(1) by (rule front)
        next
          case (NextTurn m conv1)
          obtain evs2 w2 where nxt: "run_loop env spec served (it + 1) m conv1 w1 = (evs2, w2)" by fastforce
          have e: "evs = ([?req, ?res] @ evs1) @ evs2" "w' = w2"
            using "1.prems"(1) more chat Inr False pc NextTurn nxt
            by (simp_all add: run_loop.simps [of env spec served it] Let_def)
          from turn NextTurn obtain xs where t: "aw_tools w1 = aw_tools w" "m = n + 2 + length evs1" "quiet evs1"
              "numbered (n + 2) evs1" "aw_run w1 = aw_run ?u" "settled xs"
              "adds_rows (ae_settings env) (caller_of (aw_run ?u)) (granted_ids spec) (aw_tools w) xs (aw_pipe ?u) (aw_pipe w1)"
            by (auto simp: turn_ok_def count_tokens_def)
          have "caller_of (aw_run ?u) = caller_of (aw_run w)" by (simp add: caller_of_def count_tokens_def)
          with t(7) have rows1: "adds_rows (ae_settings env) (caller_of (aw_run w)) (granted_ids spec) (aw_tools w) xs
              (aw_pipe w) (aw_pipe w1)"
            by (simp add: adds_rows_def)
          have "stretch_ok env spec m evs2 w1 w2"
            by (rule "1.IH" [OF _ refl refl refl chat [symmetric] Inr refl refl False _ NextTurn refl nxt])
               (use more pc adds_rows_fresh [OF rows1] in simp_all)
          then show ?thesis
            unfolding e
            by (intro stretch_ok_prefix [where v = w1, OF _ _ _ _ rows1 t(6)])
               (use t carries_chat(2) [where w = w and c = c and it = "it + 1" and p = "(aw_pipe w)\<lparr>ps_ext := e\<rparr>"] its' in
                 \<open>simp_all add: carries_def\<close>)
        qed
      qed
    qed
  qed
qed
section \<open>A start\<close>

lemma retrieval_events_ok:
  "quiet (retrieval_events n q f) \<and> numbered n (retrieval_events n q f)"
  by (simp add: retrieval_events_def Let_def)

lemma retrieve_ok: "retrieve env spec user conv n = (found, conv1) \<Longrightarrow> quiet found \<and> numbered n found"
  by (auto simp: retrieve_def retrieval_events_ok split: option.splits if_splits)

lemma run_from_ok:
  assumes "run_from env spec conv n it w = (evs, w')" "fresh_rows (aw_pipe w)"
  shows "stretch_ok env spec n evs w w'"
proof -
  let ?opening = "if n = 1 then [event n (RUN_STARTED (ag_name spec) (ag_version spec) (ag_model spec))] else []"
  obtain found conv1 where found: "(if n = 1 then retrieve env spec (run_user (aw_run w)) conv (n + 1)
                            else ([], conv)) = (found, conv1)" by fastforce
  have q: "quiet found \<and> numbered (n + length ?opening) found"
    using found retrieve_ok [of env spec "run_user (aw_run w)" conv "n + 1"] by (auto split: if_splits)
  let ?pre = "?opening @ found"
  have pre: "quiet ?pre" "numbered n ?pre" using q by (auto split: if_splits)
  have go: "stretch_ok env spec n (?pre @ rest) w w'" if "stretch_ok env spec (n + length ?pre) rest w w'" for rest
    by (rule chat_stretch [OF carries_refl _ _ pre that]) (use assms(2) in simp_all)
  note unfolded = assms(1) [unfolded run_from_def Let_def found prod.case]
  show ?thesis
  proof (cases "ae_provider env (ag_model spec)")
    case (Inl err)
    let ?final = "event (n + length ?pre) (RUN_FAILED (''The agent's model '' @ quoted (ag_model spec) @ '' is unavailable: '' @ err))"
    have e: "evs = ?pre @ [?final]" "w' = fail_run (ae_now env) (''Model unavailable: '' @ err) w"
      using unfolded Inl by (auto simp: add.assoc)
    show ?thesis unfolding e(1)
      by (rule go, unfold e(2), rule stretch_ok_end(1)) (use assms(2) in simp_all)
  next
    case (Inr served)
    obtain evs1 w1 where l: "run_loop env spec served it (n + length ?pre) conv1 w = (evs1, w1)" by fastforce
    have e: "evs = ?pre @ evs1" "w' = w1"
      using unfolded Inr l by (auto simp: add.assoc)
    show ?thesis unfolding e(1) by (rule go, unfold e(2), rule run_loop_ok [OF l assms(2)])
  qed
qed

section \<open>An answered call\<close>

text \<open>The row of the answered call: decided by the approver, otherwise the call that was asked for.\<close>

definition decided :: "bool \<Rightarrow> uuid \<Rightarrow> tool_execution \<Rightarrow> tool_execution \<Rightarrow> bool" where
  "decided approved approver x y =
     (exec_id y = exec_id x \<and> exec_run y = exec_run x \<and> exec_tool y = exec_tool x \<and> exec_name y = exec_name x \<and>
      exec_arguments y = exec_arguments x \<and> exec_risk y = exec_risk x \<and> exec_approver y = Some approver \<and>
      exec_approval y = (if approved then APPROVED else REJECTED))"

lemma fresh_rows_update:
  assumes "ps_execs q = update_rows (\<lambda>z. exec_id z = exec_id y) (\<lambda>_. y) (ps_execs p)" "ps_next q = ps_next p"
    "fresh_rows p"
  shows "fresh_rows q"
  unfolding fresh_rows_def assms(1,2)
proof (intro conjI ballI)
  show "distinct (map exec_id (update_rows (\<lambda>z. exec_id z = exec_id y) (\<lambda>_. y) (ps_execs p)))"
    using assms(3) by (subst map_update_rows) (simp_all add: fresh_rows_def)
next
  fix z assume "z \<in> set (update_rows (\<lambda>z. exec_id z = exec_id y) (\<lambda>_. y) (ps_execs p))"
  then obtain v where "v \<in> set (ps_execs p)" "exec_id z = exec_id v"
    by (auto simp: set_update_rows split: if_splits)
  then show "exec_id z < ps_next p" using assms(3) by (simp add: fresh_rows_def)
qed

lemma update_rows_twice:
  assumes "exec_id y = exec_id x"
  shows "update_rows (\<lambda>z. exec_id z = exec_id y) (\<lambda>_. y) (update_rows (\<lambda>z. exec_id z = exec_id x) (\<lambda>_. x) rows)
    = update_rows (\<lambda>z. exec_id z = exec_id y) (\<lambda>_. y) rows"
  using assms by (simp add: update_rows_def)

lemma answer_call_ok:
  assumes "answer_call env approved approver reason sus x w = (evs, msg, w1)"
  obtains y where "quiet evs" "numbered (sus_sequence sus) evs" "evs \<noteq> []" "aw_run w1 = aw_run w" "aw_tools w1 = aw_tools w"
    "decided approved approver x y" "exec_success y \<noteq> exec_success x \<Longrightarrow> approved"
    "ps_execs (aw_pipe w1) = update_rows (\<lambda>z. exec_id z = exec_id x) (\<lambda>_. y) (ps_execs (aw_pipe w))"
    "ps_next (aw_pipe w1) = ps_next (aw_pipe w)"
proof -
  note row = that
  let ?x = "x\<lparr>exec_approver := Some approver, exec_decided_at := Some (ae_now env), exec_reason := reason,
                exec_approval := (if approved then APPROVED else REJECTED)\<rparr>"
  let ?w = "w\<lparr>aw_pipe := put_execution ?x (aw_pipe w)\<rparr>"
  have d: "decided approved approver x ?x" by (simp add: decided_def)
  have plain: thesis if "quiet evs" "numbered (sus_sequence sus) evs" "evs \<noteq> []" "w1 = ?w"
    by (rule row [of ?x]) (use that d in \<open>simp_all add: put_execution_def\<close>)
  show thesis
  proof (cases "approved \<and> tool_by_name (exec_name x) (aw_tools w) \<noteq> None")
    case False
    with assms show thesis
      by (intro plain) (auto simp: answer_call_def Let_def split: if_splits option.splits)
  next
    case True
    then obtain t where t: "tool_by_name (exec_name x) (aw_tools w) = Some t" by auto
    obtain res p where e: "execute_approved (ae_executors env) ?x t (caller_of (aw_run w)) (aw_pipe ?w) = (res, p)"
      by fastforce
    have u: "w1 = ?w\<lparr>aw_pipe := p\<rparr>" "quiet evs" "numbered (sus_sequence sus) evs" "evs \<noteq> []"
      using assms True t e by (auto simp: answer_call_def Let_def)
    from e obtain y where y: "same_call ?x y" "exec_success y = Some (res_success res)"
      "ps_execs p = update_rows (\<lambda>z. exec_id z = exec_id y) (\<lambda>_. y) (ps_execs (aw_pipe ?w))"
      "ps_next p = ps_next (aw_pipe ?w)"
      by (rule execute_approved_row)
    have i: "exec_id y = exec_id x" using same_callD(1) [OF y(1)] by simp
    have "ps_execs p = update_rows (\<lambda>z. exec_id z = exec_id x) (\<lambda>_. y) (ps_execs (aw_pipe w))"
      using y(3) i update_rows_twice [of y ?x] by (simp add: put_execution_def)
    then show thesis
      by (intro row [of y])
         (use u True y(4) same_callD [OF y(1)] in \<open>simp_all add: decided_def put_execution_def\<close>)
  qed
qed
section \<open>A resumption\<close>

lemma resume_run_ok:
  assumes "resume_run env approved approver reason w = (evs, w')"
    and p: "pending_for_run (run_id (aw_run w)) (ps_execs (aw_pipe w)) = Some x"
    and s: "ck_suspension (run_checkpoint (aw_run w)) = Some sus"
    and fresh: "fresh_rows (aw_pipe w)"
  obtains y xs where
    "decided approved approver x y" "exec_success y \<noteq> exec_success x \<Longrightarrow> approved"
    "same_run (aw_run w) (aw_run w')" "stream_ok (sus_sequence sus) evs (aw_run w')" "fresh_rows (aw_pipe w')"
    "ps_execs (aw_pipe w') = update_rows (\<lambda>z. exec_id z = exec_id x) (\<lambda>_. y) (ps_execs (aw_pipe w)) @ xs"
    "list_all (call_checked (ae_settings env) (caller_of (aw_run w))
       (granted_ids (spec_from_checkpoint (run_checkpoint (aw_run w)))) (aw_tools w)) xs"
    "waits_on (aw_run w') xs"
    "run_state (aw_run w') = WAITING_FOR_APPROVAL \<Longrightarrow>
       ck_spec (run_checkpoint (aw_run w')) = ck_spec (run_checkpoint (aw_run w))"
    "run_iterations (aw_run w') \<le> max (run_iterations (aw_run w))
       (ag_max_iterations (spec_from_checkpoint (run_checkpoint (aw_run w))))"
proof -
  note result = that
  let ?ck = "run_checkpoint (aw_run w)"
  have ne: "?ck \<noteq> empty_checkpoint" using s by (auto simp: empty_checkpoint_def)
  obtain evs0 msg w1 where a: "answer_call env approved approver reason sus x w = (evs0, msg, w1)"
    by (cases "answer_call env approved approver reason sus x w")
  let ?w = "w1\<lparr>aw_run := (aw_run w1)\<lparr>run_state := RUNNING_RUN\<rparr>\<rparr>"
  obtain evs1 w2 where r: "run_from env (spec_from_checkpoint ?ck) (sus_conversation sus @ [msg])
                               (sus_sequence sus + length evs0) (sus_iteration sus) ?w = (evs1, w2)"
    by fastforce
  have e: "evs = evs0 @ evs1" "w' = w2"
    using assms(1) p s ne a r by (simp_all add: resume_run_def Let_def)
  from answer_call_ok [OF a] obtain y where y: "quiet evs0" "numbered (sus_sequence sus) evs0" "aw_run w1 = aw_run w"
      "aw_tools w1 = aw_tools w" "decided approved approver x y" "exec_success y \<noteq> exec_success x \<Longrightarrow> approved"
      "ps_execs (aw_pipe w1) = update_rows (\<lambda>z. exec_id z = exec_id x) (\<lambda>_. y) (ps_execs (aw_pipe w))"
      "ps_next (aw_pipe w1) = ps_next (aw_pipe w)"
    by metis
  have i: "exec_id y = exec_id x" using y(5) by (simp add: decided_def)
  have f: "fresh_rows (aw_pipe ?w)"
    using fresh_rows_update [of "aw_pipe w1" y "aw_pipe w"] y(7,8) fresh i by simp
  have call: "caller_of (aw_run ?w) = caller_of (aw_run w)" using y(3) by (simp add: caller_of_def)
  from run_from_ok [OF r f] obtain xs where z: "aw_tools w2 = aw_tools ?w" "same_run (aw_run ?w) (aw_run w2)"
    "stream_ok (sus_sequence sus + length evs0) evs1 (aw_run w2)"
    "run_iterations (aw_run w2) \<le> max (run_iterations (aw_run ?w)) (ag_max_iterations (spec_from_checkpoint ?ck))"
    "run_state (aw_run w2) = WAITING_FOR_APPROVAL \<longrightarrow>
         ck_spec (run_checkpoint (aw_run w2)) = ck_spec (run_checkpoint (aw_run ?w))"
    "adds_rows (ae_settings env) (caller_of (aw_run w)) (granted_ids (spec_from_checkpoint ?ck)) (aw_tools ?w) xs
       (aw_pipe ?w) (aw_pipe w2)" "waits_on (aw_run w2) xs"
    unfolding stretch_ok_def call by blast
  show thesis
  proof (rule result [OF y(5) y(6)])
    show "stream_ok (sus_sequence sus) evs (aw_run w')"
      unfolding e by (rule stream_ok_prefix [OF y(1,2) z(3)])
    show "same_run (aw_run w) (aw_run w')" using z(2) y(3) by (simp add: e same_run_def)
    show "fresh_rows (aw_pipe w')" unfolding e by (rule adds_rows_fresh [OF z(6)])
    show "ps_execs (aw_pipe w') = update_rows (\<lambda>z. exec_id z = exec_id x) (\<lambda>_. y) (ps_execs (aw_pipe w)) @ xs"
      using z(6) y(7) by (simp add: e adds_rows_def)
    show "list_all (call_checked (ae_settings env) (caller_of (aw_run w))
       (granted_ids (spec_from_checkpoint ?ck)) (aw_tools w)) xs"
      using z(6) y(4) by (simp add: adds_rows_def)
  qed (use z y(3) in \<open>simp_all add: e\<close>)
qed

end
