(* ===== verification/Run_Invariant.thy ===== *)
theory Run_Invariant
  imports Agent_Safety
begin

text \<open>
  The run database over any sequence of requests: starts, answers, cancellations, expiry and
  edits of the registry.  One invariant (\<open>runs_inv\<close>) says that a run at rest has its events
  numbered without a gap, that its last event names its state, that it has at most one pending
  call, the one in its checkpoint, and that no call ran without the consent its risk calls for.
\<close>

section \<open>Events in the table\<close>

definition events_of :: "uuid \<Rightarrow> 'e runs_db \<Rightarrow> event_row list" where
  "events_of i db = filter (\<lambda>e. er_run e = i) (rd_events db)"

definition rows_of :: "uuid \<Rightarrow> 'e runs_db \<Rightarrow> tool_execution list" where
  "rows_of i db = filter (\<lambda>x. exec_run x = i) (ps_execs (rd_pipe db))"

lemma persist_numbered:
  assumes "numbered n evs" "\<forall>r \<in> set rows. er_run r = i \<longrightarrow> er_seq r < n"
  shows "persist_events i evs rows = Some (rows @ map (event_row_of i) evs)"
  using assms
proof (induction evs arbitrary: n rows)
  case Nil
  then show ?case by simp
next
  case (Cons e es)
  then have "\<not> (\<exists>r \<in> set rows. er_run r = i \<and> er_seq r = ev_seq e)" by auto
  moreover have "persist_events i es (rows @ [event_row_of i e])
      = Some ((rows @ [event_row_of i e]) @ map (event_row_of i) es)"
    using Cons.prems by (intro Cons.IH [of "Suc n"]) (auto simp: event_row_of_def)
  ultimately show ?case by simp
qed

section \<open>The invariant\<close>

text \<open>
  What holds of one run at rest, from its events and the rows of its calls: numbered from one
  without a gap, the last event names the state, and a call is pending only while the run
  waits, and then it is the one in the checkpoint.
\<close>

definition at_rest :: "event_row list \<Rightarrow> tool_execution list \<Rightarrow> agent_run \<Rightarrow> bool" where
  "at_rest es xs r =
     (es \<noteq> [] \<and> map er_seq es = [1..<Suc (length es)] \<and>
      (case run_state r of
         WAITING_FOR_APPROVAL \<Rightarrow> er_type (last es) = ''TOOL_APPROVAL_REQUIRED'' \<and>
           (\<exists>s. ck_suspension (run_checkpoint r) = Some s \<and> sus_sequence s = Suc (length es) \<and>
              ck_spec (run_checkpoint r) \<noteq> None \<and>
              (\<forall>x \<in> set xs. exec_approval x = PENDING \<longrightarrow> exec_name x = call_name (sus_call s))) \<and>
           length (filter (\<lambda>x. exec_approval x = PENDING) xs) \<le> 1
       | COMPLETED \<Rightarrow> er_type (last es) = ''RUN_COMPLETED'' \<and> settled xs
       | FAILED_RUN \<Rightarrow> er_type (last es) = ''RUN_FAILED'' \<and> settled xs
       | CANCELLED \<Rightarrow> er_type (last es) = ''TOOL_APPROVAL_REQUIRED'' \<and> settled xs
       | _ \<Rightarrow> False))"

text \<open>
  Consent: a call that ran was of a risk level that needs none, or was approved by a user who
  did not start the run, superusers excepted.
\<close>

definition consented :: "agents_settings \<Rightarrow> agent_run list \<Rightarrow> user list \<Rightarrow> tool_execution \<Rightarrow> bool" where
  "consented st runs users x =
     (case exec_approval x of
        NOT_REQUIRED \<Rightarrow> exec_risk x \<notin> set (approval_required_levels st)
      | APPROVED \<Rightarrow> (\<exists>u \<in> set users. exec_approver x = Some (user_id u) \<and>
          (user_superuser u \<or> (\<forall>r \<in> set runs. run_id r = exec_run x \<longrightarrow> run_user r \<noteq> Some (user_id u))))
      | _ \<Rightarrow> exec_success x \<noteq> Some True)"

definition runs_inv :: "agents_settings \<Rightarrow> 'e runs_db \<Rightarrow> bool" where
  "runs_inv st db =
     (distinct (map run_id (rd_runs db)) \<and> (\<forall>r \<in> set (rd_runs db). run_id r < rd_next db) \<and>
      (\<forall>e \<in> set (rd_events db). er_run e < rd_next db) \<and>
      (\<forall>x \<in> set (ps_execs (rd_pipe db)). exec_run x < rd_next db \<and> consented st (rd_runs db) (rd_users db) x) \<and>
      fresh_rows (rd_pipe db) \<and>
      (\<forall>r \<in> set (rd_runs db). at_rest (events_of (run_id r) db) (rows_of (run_id r) db) r))"

lemma runs_invI:
  assumes "distinct (map run_id (rd_runs db))" "\<And>r. r \<in> set (rd_runs db) \<Longrightarrow> run_id r < rd_next db"
    "\<And>e. e \<in> set (rd_events db) \<Longrightarrow> er_run e < rd_next db"
    "\<And>x. x \<in> set (ps_execs (rd_pipe db)) \<Longrightarrow> exec_run x < rd_next db"
    "\<And>x. x \<in> set (ps_execs (rd_pipe db)) \<Longrightarrow> consented st (rd_runs db) (rd_users db) x"
    "fresh_rows (rd_pipe db)"
    "\<And>r. r \<in> set (rd_runs db) \<Longrightarrow> at_rest (events_of (run_id r) db) (rows_of (run_id r) db) r"
  shows "runs_inv st db"
  using assms by (simp add: runs_inv_def)

lemma runs_invD:
  assumes "runs_inv st db"
  shows "distinct (map run_id (rd_runs db))" "r \<in> set (rd_runs db) \<Longrightarrow> run_id r < rd_next db"
    "e \<in> set (rd_events db) \<Longrightarrow> er_run e < rd_next db"
    "x \<in> set (ps_execs (rd_pipe db)) \<Longrightarrow> exec_run x < rd_next db"
    "x \<in> set (ps_execs (rd_pipe db)) \<Longrightarrow> consented st (rd_runs db) (rd_users db) x"
    "fresh_rows (rd_pipe db)"
    "r \<in> set (rd_runs db) \<Longrightarrow> at_rest (events_of (run_id r) db) (rows_of (run_id r) db) r"
  using assms by (simp_all add: runs_inv_def)

text \<open>A stretch leaves its run at rest.\<close>

lemma stops_types: "end_matches b r \<Longrightarrow>
    (run_state r = COMPLETED \<and> event_type b = ''RUN_COMPLETED'') \<or>
    (run_state r = FAILED_RUN \<and> event_type b = ''RUN_FAILED'') \<or>
    (run_state r = WAITING_FOR_APPROVAL \<and> event_type b = ''TOOL_APPROVAL_REQUIRED'')"
  by (cases b) simp_all

lemma stretch_at_rest:
  assumes s: "stream_ok (Suc (length es)) evs r" and es: "map er_seq es = [1..<Suc (length es)]"
    and xs: "settled old" "waits_on r new"
    and spec: "run_state r = WAITING_FOR_APPROVAL \<Longrightarrow> ck_spec (run_checkpoint r) \<noteq> None"
  shows "at_rest (es @ map (event_row_of i) evs) (old @ new) r"
proof -
  let ?es = "es @ map (event_row_of i) evs"
  from s obtain init e where e: "evs = init @ [e]" "numbered (Suc (length es)) evs" "end_matches (ev_body e) r"
    and w: "run_state r = WAITING_FOR_APPROVAL \<longrightarrow>
          (\<exists>s. ck_suspension (run_checkpoint r) = Some s \<and> sus_sequence s = Suc (length es) + length evs)"
    by (auto simp: stream_ok_def)
  have seqs: "map er_seq (map (event_row_of i) evs) = [Suc (length es)..<Suc (length es) + length evs]"
    using e(2) by (simp add: numbered_def event_row_of_def comp_def)
  have "[1..<Suc (length ?es)] = [1..<Suc (length es)] @ [Suc (length es)..<Suc (length es) + length evs]"
    using upt_add_eq_append [of 1 "Suc (length es)" "length evs"] by simp
  then have numbers: "map er_seq ?es = [1..<Suc (length ?es)]"
    using es seqs by (simp del: upt_Suc)
  have last: "er_type (last ?es) = event_type (ev_body e)" using e(1) by (simp add: event_row_of_def)
  have ne: "?es \<noteq> []" using e(1) by simp
  from stops_types [OF e(3)] show ?thesis
  proof (elim disjE conjE)
    assume st: "run_state r = WAITING_FOR_APPROVAL" and ty: "event_type (ev_body e) = ''TOOL_APPROVAL_REQUIRED''"
    from w st obtain s where s': "ck_suspension (run_checkpoint r) = Some s" "sus_sequence s = Suc (length ?es)" by auto
    from xs(2) st s'(1) obtain ys z where z: "new = ys @ [z]" "settled ys" "exec_approval z = PENDING"
        "exec_name z = call_name (sus_call s)"
      by (auto simp: waits_on_def)
    have pend: "filter (\<lambda>x. exec_approval x = PENDING) (old @ new) = [z]"
      using xs(1) z(1-3) by (auto simp: settled_def filter_empty_conv)
    have nm: "exec_name x = call_name (sus_call s)" if "x \<in> set (old @ new)" "exec_approval x = PENDING" for x
      using that xs(1) z by (auto simp: settled_def)
    show ?thesis
      unfolding at_rest_def st run_state.case
      using ne numbers last ty s' spec [OF st] nm pend by auto
  next
    assume st: "run_state r = COMPLETED" and "event_type (ev_body e) = ''RUN_COMPLETED''"
    then show ?thesis unfolding at_rest_def st run_state.case
      using ne numbers last xs st by (simp add: waits_on_def)
  next
    assume st: "run_state r = FAILED_RUN" and "event_type (ev_body e) = ''RUN_FAILED''"
    then show ?thesis unfolding at_rest_def st run_state.case
      using ne numbers last xs st by (simp add: waits_on_def)
  qed
qed

section \<open>Preservation\<close>

lemma consented_cong:
  assumes "map (\<lambda>r. (run_id r, run_user r)) runs' = map (\<lambda>r. (run_id r, run_user r)) runs"
  shows "consented st runs' users x = consented st runs users x"
proof -
  have "(\<lambda>r. (run_id r, run_user r)) ` set runs' = (\<lambda>r. (run_id r, run_user r)) ` set runs"
    using assms by (metis list.set_map)
  then have same: "(\<forall>r \<in> set runs'. run_id r = i \<longrightarrow> run_user r \<noteq> a) = (\<forall>r \<in> set runs. run_id r = i \<longrightarrow> run_user r \<noteq> a)"
    for i a by (simp add: set_eq_iff image_iff) (metis (no_types, lifting))
  show ?thesis by (simp add: consented_def same split: approval_state.split)
qed

lemma checked_consented:
  assumes "call_checked st c grants tools x"
  shows "consented st runs users x \<and> exec_run x = caller_run c"
  using assms
  by (auto simp: call_checked_def consented_def needs_approval_def split: if_splits approval_state.splits)

text \<open>The run \<open>i\<close> is in the middle of a stretch; all the rest is as the invariant says.\<close>

definition runs_inv_but :: "uuid \<Rightarrow> agents_settings \<Rightarrow> 'e runs_db \<Rightarrow> bool" where
  "runs_inv_but i st db =
     (distinct (map run_id (rd_runs db)) \<and> (\<forall>r \<in> set (rd_runs db). run_id r < rd_next db) \<and>
      (\<forall>e \<in> set (rd_events db). er_run e < rd_next db) \<and>
      (\<forall>r \<in> set (rd_runs db). run_id r \<noteq> i \<longrightarrow> at_rest (events_of (run_id r) db) (rows_of (run_id r) db) r))"

lemma put_run_keys:
  assumes "r \<in> set (rd_runs db)" "same_run r r'" "distinct (map run_id (rd_runs db))"
  shows "map (\<lambda>r. (run_id r, run_user r)) (rd_runs (put_run r' db)) = map (\<lambda>r. (run_id r, run_user r)) (rd_runs db)"
proof -
  have key: "run_id r' = run_id r" "run_user r' = run_user r" using assms(2) by (simp_all add: same_run_def)
  have "x = r" if "x \<in> set (rd_runs db)" "run_id x = run_id r" for x
    using that assms(1,3) by (metis distinct_map inj_onD)
  then show ?thesis using key by (auto simp: put_run_def update_rows_def)
qed

lemma put_run_set:
  assumes "x \<in> set (rd_runs (put_run r' db))"
  shows "x = r' \<or> (x \<in> set (rd_runs db) \<and> run_id x \<noteq> run_id r')"
  using assms by (auto simp: put_run_def set_update_rows split: if_splits)

lemma drain_inv:
  assumes but: "runs_inv_but i st db"
    and r: "r \<in> set (rd_runs db)" "run_id r = i" "same_run r (aw_run w')"
    and seqs: "map er_seq (events_of i db) = [1..<Suc (length (events_of i db))]"
    and stream: "stream_ok (Suc (length (events_of i db))) evs (aw_run w')"
    and execs: "ps_execs (aw_pipe w') = olds @ xs" "fresh_rows (aw_pipe w')"
    and others: "\<And>j. j \<noteq> i \<Longrightarrow> filter (\<lambda>x. exec_run x = j) olds = rows_of j db"
    and own: "settled (filter (\<lambda>x. exec_run x = i) olds)"
    and olds: "\<And>x. x \<in> set olds \<Longrightarrow> exec_run x < rd_next db \<and> consented st (rd_runs db) (rd_users db) x"
    and news: "list_all (call_checked st c grants tools) xs" "caller_run c = i" "waits_on (aw_run w') xs"
    and spec: "run_state (aw_run w') = WAITING_FOR_APPROVAL \<Longrightarrow> ck_spec (run_checkpoint (aw_run w')) \<noteq> None"
  shows "\<exists>db'. drain i (evs, w') db = Done (Inr (i, db')) \<and> runs_inv st db' \<and>
     rd_users db' = rd_users db \<and> rd_pipe db' = aw_pipe w' \<and> rd_runs db' = rd_runs (put_run (aw_run w') db) \<and>
     rd_events db' = rd_events db @ map (event_row_of i) evs"
proof -
  let ?r = "aw_run w'"
  have id: "run_id ?r = i" using r(2,3) by (simp add: same_run_def)
  have num: "numbered (Suc (length (events_of i db))) evs" using stream by (auto simp: stream_ok_def)
  have "er_seq e < Suc (length (events_of i db))" if "e \<in> set (rd_events db)" "er_run e = i" for e
  proof -
    have "er_seq e \<in> set (map er_seq (events_of i db))" using that by (auto simp: events_of_def)
    then show ?thesis unfolding seqs by auto
  qed
  then have pers: "persist_events i evs (rd_events db) = Some (rd_events db @ map (event_row_of i) evs)"
    by (intro persist_numbered [OF num]) blast
  let ?db = "(put_run ?r db)\<lparr>rd_events := rd_events db @ map (event_row_of i) evs, rd_pipe := aw_pipe w'\<rparr>"
  have d: "drain i (evs, w') db = Done (Inr (i, ?db))" by (simp add: drain_def pers)
  have ii: "distinct (map run_id (rd_runs db))" using but by (simp add: runs_inv_but_def)
  note keys = put_run_keys [OF r(1,3) ii]
  have next_id: "i < rd_next db" using but r(1,2) by (auto simp: runs_inv_but_def)
  have ev: "events_of j ?db = events_of j db" if "j \<noteq> i" for j
    using that by (simp add: events_of_def event_row_of_def filter_empty_conv)
  have evi: "events_of i ?db = events_of i db @ map (event_row_of i) evs"
    by (simp add: events_of_def event_row_of_def filter_map comp_def)
  have new_run: "exec_run x = i" if "x \<in> set xs" for x
    using that news(1,2) checked_consented by (auto simp: list_all_iff)
  have ro: "rows_of j ?db = rows_of j db" if "j \<noteq> i" for j
    using that others [OF that] new_run by (auto simp: rows_of_def execs(1) filter_empty_conv)
  have roi: "rows_of i ?db = filter (\<lambda>x. exec_run x = i) olds @ xs"
    using new_run by (simp add: rows_of_def execs(1) filter_id_conv)
  have rest: "at_rest (events_of i ?db) (rows_of i ?db) ?r"
    unfolding evi roi by (rule stretch_at_rest [OF stream seqs own news(3) spec])
  have inv: "runs_inv st ?db"
  proof (rule runs_invI)
    have "map run_id (rd_runs ?db) = map fst (map (\<lambda>r. (run_id r, run_user r)) (rd_runs (put_run ?r db)))"
      by (simp add: comp_def)
    then show "distinct (map run_id (rd_runs ?db))" using ii unfolding keys by (simp add: comp_def)
  next
    fix x assume x: "x \<in> set (ps_execs (rd_pipe ?db))"
    then have "x \<in> set olds \<or> x \<in> set xs" by (simp add: execs(1))
    then show "exec_run x < rd_next ?db"
      using olds new_run next_id by (auto simp: put_run_def)
    have u: "rd_users ?db = rd_users db" by (simp add: put_run_def)
    have "consented st (rd_runs db) (rd_users db) x"
      using \<open>x \<in> set olds \<or> x \<in> set xs\<close> olds news(1) checked_consented by (auto simp: list_all_iff)
    then show "consented st (rd_runs ?db) (rd_users ?db) x"
      using consented_cong [OF keys] by (simp add: u)
  next
    fix x assume "x \<in> set (rd_runs ?db)"
    then have c: "x = ?r \<or> (x \<in> set (rd_runs db) \<and> run_id x \<noteq> i)" using put_run_set [of x ?r db] id by simp
    then show "run_id x < rd_next ?db" using but next_id id by (auto simp: runs_inv_but_def put_run_def)
    from c show "at_rest (events_of (run_id x) ?db) (rows_of (run_id x) ?db) x"
    proof
      assume "x = ?r" then show ?thesis using rest id by simp
    next
      assume "x \<in> set (rd_runs db) \<and> run_id x \<noteq> i"
      then show ?thesis using but ev [of "run_id x"] ro [of "run_id x"] by (auto simp: runs_inv_but_def)
    qed
  next
    fix e assume "e \<in> set (rd_events ?db)"
    then show "er_run e < rd_next ?db" using but next_id by (auto simp: runs_inv_but_def put_run_def event_row_of_def)
  qed (simp add: execs(2))
  show ?thesis
    using d inv by (intro exI [of _ ?db]) (simp add: put_run_def)
qed

lemma update_rows_append: "update_rows p f (xs @ ys) = update_rows p f xs @ update_rows p f ys"
  by (simp add: update_rows_def)

lemma start_run_ok:
  assumes inv: "runs_inv st db" and env: "ae_settings env = st"
  shows "(\<exists>e. start_run env agent msg actor conv trace db = Done (Inl e)) \<or>
    (\<exists>db' r xs v a. start_run env agent msg actor conv trace db = Done (Inr (rd_next db, db')) \<and> runs_inv st db' \<and>
       rd_users db' = rd_users db \<and>
       agent_with agent (rd_registry db) = Some a \<and> agent_enabled a \<and> get_current agent (rd_registry db) = Some v \<and>
       get_run (rd_next db) db' = Some r \<and> run_permissions r = frozen_permissions actor \<and>
       run_user r = Some (user_id actor) \<and> run_iterations r \<le> ver_max_iterations v \<and>
       ps_execs (rd_pipe db') = ps_execs (rd_pipe db) @ xs \<and>
       list_all (call_checked st (caller_of r) (granted_ids (build_spec (rd_registry db) a v))
         (reg_tools (rd_registry db))) xs)"
proof -
  consider (refused) e where "start_run env agent msg actor conv trace db = Done (Inl e)"
    | (go) a v where "agent_with agent (rd_registry db) = Some a" "agent_enabled a"
        "get_current agent (rd_registry db) = Some v"
    by (cases "agent_with agent (rd_registry db)"; cases "get_current agent (rd_registry db)";
        cases "agent_enabled (the (agent_with agent (rd_registry db)))") (auto simp: start_run_def begin_run_def)
  then show ?thesis
  proof cases
    case refused then show ?thesis by blast
  next
    case go
    let ?i = "rd_next db"
    let ?spec = "build_spec (rd_registry db) a v"
    let ?r = "new_run ?i a v actor msg conv trace (ae_now env) ?spec"
    define pipe where "pipe = (rd_pipe db)\<lparr>ps_trail := record_entry AGENT_EXECUTED (Some (user_id actor))
                           (user_name actor) ''agent'' (uuid_str agent) None
                           (JObj [(''run_id'', JStr (uuid_str (run_id ?r))), (''slug'', JStr (agent_slug a)),
                              (''version'', JInt (int (ver_number v))), (''model'', JStr (ver_model v))])
                           (ps_trail (rd_pipe db))\<rparr>"
    define db1 where "db1 = db\<lparr>rd_runs := rd_runs db @ [?r], rd_next := rd_next db + 1, rd_pipe := pipe\<rparr>"
    obtain evs w' where ex: "execute_run env ?spec [plain_message ''user'' msg] (run_world ?r db1) = (evs, w')"
      by fastforce
    have start: "start_run env agent msg actor conv trace db = drain ?i (evs, w') db1"
      using go ex by (simp add: start_run_def begin_run_def Let_def db1_def pipe_def new_run_def)
    have id: "run_id ?r = ?i" by (simp add: new_run_def)
    note invD = runs_invD [OF inv]
    have pipe: "ps_execs pipe = ps_execs (rd_pipe db)" "fresh_rows pipe"
      using invD(6) by (simp_all add: pipe_def fresh_rows_def)
    have none: "events_of ?i db = []" "rows_of ?i db = []"
      using invD(3,4) by (fastforce simp: events_of_def rows_of_def filter_empty_conv)+
    have rest: "events_of j db1 = events_of j db" "rows_of j db1 = rows_of j db" for j
      using pipe by (simp_all add: db1_def events_of_def rows_of_def)
    have neq: "run_id x \<noteq> ?i" if "x \<in> set (rd_runs db)" for x using invD(2) [OF that] by simp
    have but: "runs_inv_but ?i st db1"
      unfolding runs_inv_but_def rest using invD(1,2,3,7) id
      by (auto simp: db1_def less_Suc_eq dest: neq)
    have ok: "stretch_ok env ?spec 1 evs (run_world ?r db1) w'"
      by (rule run_from_ok [OF ex [unfolded execute_run_def]]) (simp add: run_world_def db1_def pipe)
    then obtain xs where z: "same_run ?r (aw_run w')" "stream_ok 1 evs (aw_run w')"
      "run_iterations (aw_run w') \<le> ver_max_iterations v"
      "run_state (aw_run w') = WAITING_FOR_APPROVAL \<Longrightarrow> ck_spec (run_checkpoint (aw_run w')) \<noteq> None"
      "ps_execs (aw_pipe w') = ps_execs (rd_pipe db) @ xs" "fresh_rows (aw_pipe w')"
      "list_all (call_checked st (caller_of ?r) (granted_ids ?spec) (reg_tools (rd_registry db))) xs"
      "waits_on (aw_run w') xs"
      by (auto simp: stretch_ok_def run_world_def adds_rows_def env db1_def pipe new_run_def build_spec_def)
    have u: "rd_users db1 = rd_users db" by (simp add: db1_def)
    have old: "consented st (rd_runs db1) (rd_users db) x" if "x \<in> set (ps_execs (rd_pipe db))" for x
    proof -
      have "exec_run x \<noteq> ?i" using invD(4) [OF that] by simp
      then show ?thesis using invD(5) [OF that] id
        by (auto simp: consented_def db1_def split: approval_state.splits)
    qed
    have "\<exists>db'. drain ?i (evs, w') db1 = Done (Inr (?i, db')) \<and> runs_inv st db' \<and>
       rd_users db' = rd_users db1 \<and> rd_pipe db' = aw_pipe w' \<and> rd_runs db' = rd_runs (put_run (aw_run w') db1) \<and>
       rd_events db' = rd_events db1 @ map (event_row_of ?i) evs"
    proof (rule drain_inv [OF but _ id z(1) _ _ z(5,6) _ _ _ z(7) _ z(8) z(4)])
      show "?r \<in> set (rd_runs db1)" by (simp add: db1_def)
      show "filter (\<lambda>x. exec_run x = j) (ps_execs (rd_pipe db)) = rows_of j db1" for j
        unfolding rest by (simp add: rows_of_def)
      show "settled (filter (\<lambda>x. exec_run x = ?i) (ps_execs (rd_pipe db)))"
        using none(2) by (simp add: rows_of_def)
      show "exec_run x < rd_next db1 \<and> consented st (rd_runs db1) (rd_users db1) x"
        if "x \<in> set (ps_execs (rd_pipe db))" for x
        using that invD(4) old by (force simp: db1_def)
      show "caller_run (caller_of ?r) = ?i" by (simp add: caller_of_def id)
    qed (use z none rest in simp_all)
    then obtain db' where d: "drain ?i (evs, w') db1 = Done (Inr (?i, db'))" "runs_inv st db'"
        "rd_users db' = rd_users db1" "rd_pipe db' = aw_pipe w'" "rd_runs db' = rd_runs (put_run (aw_run w') db1)"
      by blast
    have "get_run ?i db' = Some (aw_run w')"
    proof -
      have "find_row (\<lambda>x. run_id x = ?i) (rd_runs db) = None" using neq by (auto simp: find_row_None)
      moreover have i: "run_id (aw_run w') = ?i" using z(1) id by (simp add: same_run_def)
      ultimately have "find_row (\<lambda>x. run_id x = ?i) (update_rows (\<lambda>x. run_id x = ?i) (\<lambda>_. aw_run w') (rd_runs db)) = None"
        using neq by (auto simp: find_row_None set_update_rows)
      then show ?thesis
        using id i by (simp add: get_run_def d(5) put_run_def db1_def update_rows_append find_row_append)
    qed
    moreover have "caller_of (aw_run w') = caller_of ?r" by (rule same_run_caller [OF z(1)])
    ultimately show ?thesis
      using start d go z u by (auto simp: same_run_def new_run_def)
  qed
qed

text \<open>What an approval needs, and what it does.\<close>

lemma get_run_Some: "get_run i db = Some r \<Longrightarrow> r \<in> set (rd_runs db) \<and> run_id r = i"
  by (auto simp: get_run_def dest: find_row_Some)

lemma pending_Some:
  "pending_for_run i rows = Some x \<Longrightarrow> x \<in> set rows \<and> exec_run x = i \<and> exec_approval x = PENDING"
  by (auto simp: pending_for_run_def dest: find_row_Some)

lemma at_rest_waiting:
  assumes "at_rest es xs r" "run_state r = WAITING_FOR_APPROVAL"
  obtains s where "ck_suspension (run_checkpoint r) = Some s" "sus_sequence s = Suc (length es)"
    "ck_spec (run_checkpoint r) \<noteq> None" "map er_seq es = [1..<Suc (length es)]"
    "er_type (last es) = ''TOOL_APPROVAL_REQUIRED''"
    "\<And>x. x \<in> set xs \<Longrightarrow> exec_approval x = PENDING \<Longrightarrow> exec_name x = call_name (sus_call s)"
    "length (filter (\<lambda>x. exec_approval x = PENDING) xs) \<le> 1"
  using assms unfolding at_rest_def by (simp del: upt_Suc) blast

lemma at_rest_states:
  assumes "at_rest es xs r"
  shows "run_state r \<in> {WAITING_FOR_APPROVAL, COMPLETED, FAILED_RUN, CANCELLED}"
    and "run_state r \<noteq> WAITING_FOR_APPROVAL \<Longrightarrow> settled xs"
  using assms unfolding at_rest_def by (auto split: run_state.splits)

lemma one_pending:
  assumes "length (filter P xs) \<le> 1" "x \<in> set xs" "P x" "y \<in> set xs" "P y"
  shows "y = x"
proof -
  have "x \<in> set (filter P xs)" "y \<in> set (filter P xs)" using assms(2-5) by simp_all
  then show ?thesis using assms(1) by (cases "filter P xs") auto
qed

text \<open>Answering the pending row of a run settles its rows and touches no other run's.\<close>

lemma replace_pending:
  assumes one: "length (filter (\<lambda>x. exec_approval x = PENDING) (filter (\<lambda>x. exec_run x = i) rows)) \<le> 1"
    and x: "x \<in> set rows" "exec_run x = i" "exec_approval x = PENDING"
    and y: "exec_run y = i" "exec_approval y \<noteq> PENDING" and ids: "distinct (map exec_id rows)"
  defines "rows' \<equiv> update_rows (\<lambda>z. exec_id z = exec_id x) (\<lambda>_. y) rows"
  shows "settled (filter (\<lambda>x. exec_run x = i) rows')"
    and "j \<noteq> i \<Longrightarrow> filter (\<lambda>x. exec_run x = j) rows' = filter (\<lambda>x. exec_run x = j) rows"
    and "z \<in> set rows' \<Longrightarrow> z = y \<or> z \<in> set rows"
proof -
  have same: "z = x" if "z \<in> set rows" "exec_id z = exec_id x" for z
    using that x(1) ids by (metis distinct_map inj_onD)
  show "settled (filter (\<lambda>x. exec_run x = i) rows')"
    unfolding settled_def
  proof (intro ballI notI)
    fix z assume z: "z \<in> set (filter (\<lambda>x. exec_run x = i) rows')" "exec_approval z = PENDING"
    then have "z \<in> set rows" "exec_id z \<noteq> exec_id x" "exec_run z = i"
      using y(2) by (auto simp: rows'_def set_update_rows split: if_splits)
    then show False using one_pending [OF one, of x z] x z(2) by auto
  qed
  show "filter (\<lambda>x. exec_run x = j) rows' = filter (\<lambda>x. exec_run x = j) rows" if "j \<noteq> i"
  proof -
    have "exec_id z = exec_id x \<Longrightarrow> z \<in> set rows \<Longrightarrow> exec_run z \<noteq> j" for z using same x(2) that by auto
    then show ?thesis unfolding rows'_def using y(1) that by (induction rows) auto
  qed
  show "z \<in> set rows' \<Longrightarrow> z = y \<or> z \<in> set rows"
    by (auto simp: rows'_def set_update_rows)
qed

lemma approve_run_ok:
  assumes inv: "runs_inv st db" and env: "ae_settings env = st" and actor: "actor \<in> set (rd_users db)"
  shows "(\<exists>e. approve_run env i approved actor reason db = Done (Inl e)) \<or>
    (\<exists>db' r r' x y sus xs. approve_run env i approved actor reason db = Done (Inr (i, db')) \<and> runs_inv st db' \<and>
       rd_users db' = rd_users db \<and>
       get_run i db = Some r \<and> run_state r = WAITING_FOR_APPROVAL \<and>
       (run_user r \<noteq> Some (user_id actor) \<or> user_superuser actor) \<and>
       pending_for_run i (ps_execs (rd_pipe db)) = Some x \<and>
       ck_suspension (run_checkpoint r) = Some sus \<and> exec_name x = call_name (sus_call sus) \<and>
       decided approved (user_id actor) x y \<and>
       rd_runs db' = rd_runs (put_run r' db) \<and> same_run r r' \<and>
       ps_execs (rd_pipe db') =
         update_rows (\<lambda>z. exec_id z = exec_id x) (\<lambda>_. y) (ps_execs (rd_pipe db)) @ xs \<and>
       list_all (call_checked st (caller_of r) (granted_ids (spec_from_checkpoint (run_checkpoint r)))
         (reg_tools (rd_registry db))) xs)"
proof -
  consider (refused) e where "approve_run env i approved actor reason db = Done (Inl e)"
    | (go) r x where "get_run i db = Some r" "run_state r = WAITING_FOR_APPROVAL"
        "pending_for_run i (ps_execs (rd_pipe db)) = Some x"
        "run_user r \<noteq> Some (user_id actor) \<or> user_superuser actor"
  proof (cases "get_run i db")
    case None
    then show thesis using refused by (simp add: approve_run_def)
  next
    case (Some r)
    then have i: "run_id r = i" using get_run_Some by blast
    show thesis
    proof (cases "run_state r = WAITING_FOR_APPROVAL")
      case False
      then show thesis using refused Some by (simp add: approve_run_def)
    next
      case waits: True
      show thesis
      proof (cases "pending_for_run i (ps_execs (rd_pipe db))")
        case None
        then show thesis using refused Some waits i by (simp add: approve_run_def)
      next
        case (Some x)
        then show thesis
          using refused go [of r x] \<open>get_run i db = Some r\<close> waits i
          by (cases "run_user r = Some (user_id actor) \<and> \<not> user_superuser actor") (auto simp: approve_run_def)
      qed
    qed
  qed
  then show ?thesis
  proof cases
    case refused then show ?thesis by blast
  next
    case go
    have r: "r \<in> set (rd_runs db)" "run_id r = i" using get_run_Some [OF go(1)] by simp_all
    have x: "x \<in> set (ps_execs (rd_pipe db))" "exec_run x = i" "exec_approval x = PENDING"
      using pending_Some [OF go(3)] by simp_all
    note invD = runs_invD [OF inv]
    define pipe where "pipe = (rd_pipe db)\<lparr>ps_trail := ps_trail (rd_pipe db) @
                             [build_entry (if approved then TOOL_APPROVAL_GRANTED else TOOL_APPROVAL_DENIED)
                                (if approved then SUCCESS else DENIED) (Some (user_id actor))
                                (user_name actor) (Some ''tool'') (map_option uuid_str (exec_tool x)) None
                                (JObj [(''run_id'', JStr (uuid_str i)), (''tool'', JStr (exec_name x)),
                                   (''risk_level'', JStr (risk_text (exec_risk x))),
                                   (''reason'', case reason of None \<Rightarrow> JNull | Some s \<Rightarrow> JStr s)])]\<rparr>"
    define db1 where "db1 = db\<lparr>rd_pipe := pipe\<rparr>"
    obtain evs w' where ex: "resume_run env approved (user_id actor) reason (run_world r db1) = (evs, w')"
      by fastforce
    have app: "approve_run env i approved actor reason db = drain i (evs, w') db1"
      using go ex r(2) by (auto simp: approve_run_def Let_def db1_def pipe_def)
    have pipe: "ps_execs pipe = ps_execs (rd_pipe db)" "ps_next pipe = ps_next (rd_pipe db)" by (simp_all add: pipe_def)
    have fresh: "fresh_rows pipe" using invD(6) pipe by (simp add: fresh_rows_def)
    have rest: "events_of j db1 = events_of j db" "rows_of j db1 = rows_of j db" for j
      using pipe by (simp_all add: db1_def events_of_def rows_of_def)
    have but: "runs_inv_but i st db1"
      unfolding runs_inv_but_def rest using invD(1,2,3,7) by (auto simp: db1_def)
    obtain sus where
      sus: "ck_suspension (run_checkpoint r) = Some sus" "sus_sequence sus = Suc (length (events_of i db))"
      "ck_spec (run_checkpoint r) \<noteq> None" "map er_seq (events_of i db) = [1..<Suc (length (events_of i db))]"
      "er_type (last (events_of i db)) = ''TOOL_APPROVAL_REQUIRED''"
      "\<And>x. x \<in> set (rows_of i db) \<Longrightarrow> exec_approval x = PENDING \<Longrightarrow> exec_name x = call_name (sus_call sus)"
      "length (filter (\<lambda>x. exec_approval x = PENDING) (rows_of i db)) \<le> 1"
      by (rule at_rest_waiting [OF invD(7) [OF r(1)] go(2), unfolded r(2)]) (rule that)
    have nm: "exec_name x = call_name (sus_call sus)" using sus(6) x by (simp add: rows_of_def)
    have sel: "aw_run (run_world r db1) = r" "aw_tools (run_world r db1) = reg_tools (rd_registry db)"
      "aw_pipe (run_world r db1) = pipe"
      by (simp_all add: run_world_def db1_def)
    have waiting: "pending_for_run (run_id r) (ps_execs (rd_pipe db)) = Some x" using go(3) r(2) by simp
    obtain y xs where z:
      "decided approved (user_id actor) x y" "exec_success y \<noteq> exec_success x \<Longrightarrow> approved"
      "same_run r (aw_run w')" "stream_ok (sus_sequence sus) evs (aw_run w')" "fresh_rows (aw_pipe w')"
      "ps_execs (aw_pipe w') = update_rows (\<lambda>z. exec_id z = exec_id x) (\<lambda>_. y) (ps_execs (rd_pipe db)) @ xs"
      "list_all (call_checked st (caller_of r) (granted_ids (spec_from_checkpoint (run_checkpoint r)))
         (reg_tools (rd_registry db))) xs"
      "waits_on (aw_run w') xs"
      "run_state (aw_run w') = WAITING_FOR_APPROVAL \<Longrightarrow>
         ck_spec (run_checkpoint (aw_run w')) = ck_spec (run_checkpoint r)"
      "run_iterations (aw_run w') \<le> max (run_iterations r)
         (ag_max_iterations (spec_from_checkpoint (run_checkpoint r)))"
      by (rule resume_run_ok [OF ex, unfolded sel pipe env, OF waiting sus(1) fresh]) (rule that)
    have kept: "run_state (aw_run w') = WAITING_FOR_APPROVAL \<Longrightarrow> ck_spec (run_checkpoint (aw_run w')) \<noteq> None"
      using z(9) sus(3) by simp
    let ?olds = "update_rows (\<lambda>z. exec_id z = exec_id x) (\<lambda>_. y) (ps_execs (rd_pipe db))"
    have yx: "exec_run y = i" "exec_approval y \<noteq> PENDING" "exec_risk y = exec_risk x"
      using z(1) x(2) by (auto simp: decided_def)
    have ids: "distinct (map exec_id (ps_execs (rd_pipe db)))" using invD(6) by (simp add: fresh_rows_def)
    note rep = replace_pending [OF sus(7) [unfolded rows_of_def] x yx(1,2) ids]
    have cons_y: "consented st (rd_runs db) (rd_users db) y"
    proof (cases approved)
      case True
      have "run_user q \<noteq> Some (user_id actor)" if "q \<in> set (rd_runs db)" "run_id q = i" "\<not> user_superuser actor" for q
        using that go(4) r invD(1) by (metis distinct_map inj_onD)
      with True z(1) actor yx(1) show ?thesis by (auto simp: consented_def decided_def)
    next
      case False
      then have "exec_success y = exec_success x" using z(2) by blast
      with False z(1) invD(5) [OF x(1)] x(3) show ?thesis by (auto simp: consented_def decided_def)
    qed
    have "\<exists>db'. drain i (evs, w') db1 = Done (Inr (i, db')) \<and> runs_inv st db' \<and>
       rd_users db' = rd_users db1 \<and> rd_pipe db' = aw_pipe w' \<and> rd_runs db' = rd_runs (put_run (aw_run w') db1) \<and>
       rd_events db' = rd_events db1 @ map (event_row_of i) evs"
    proof (rule drain_inv [OF but _ r(2) z(3) _ _ z(6,5) _ rep(1) _ z(7) _ z(8) kept])
      show "r \<in> set (rd_runs db1)" using r(1) by (simp add: db1_def)
      show "filter (\<lambda>x. exec_run x = j) ?olds = rows_of j db1" if "j \<noteq> i" for j
        unfolding rest using rep(2) [OF that] by (simp add: rows_of_def)
      show "exec_run v < rd_next db1 \<and> consented st (rd_runs db1) (rd_users db1) v" if "v \<in> set ?olds" for v
        using rep(3) [OF that] cons_y yx(1) invD(4,5) invD(4) [OF x(1)] x(2) by (auto simp: db1_def)
      show "caller_run (caller_of r) = i" by (simp add: caller_of_def r(2))
    qed (use sus z rest in simp_all)
    then obtain db' where "drain i (evs, w') db1 = Done (Inr (i, db'))" "runs_inv st db'"
        "rd_users db' = rd_users db1" "rd_pipe db' = aw_pipe w'" "rd_runs db' = rd_runs (put_run (aw_run w') db1)"
      by blast
    then show ?thesis
      using app go nm sus(1) z(1,3,6,7) by - (rule disjI2, intro exI conjI, auto simp: db1_def put_run_def)
  qed
qed

section \<open>Steps\<close>

text \<open>A step that only settles pending rows of some runs and moves those runs' states.\<close>

lemma cancel_ok:
  assumes inv: "runs_inv st db" and c: "cancel_service now i db = Inr (r', db')"
  shows "runs_inv st db' \<and> rd_users db' = rd_users db"
proof -
  from c obtain r where g: "get_run i db = Some r" by (auto simp: cancel_service_def split: option.splits)
  have r: "r \<in> set (rd_runs db)" "run_id r = i" using get_run_Some [OF g] by simp_all
  note invD = runs_invD [OF inv]
  show ?thesis
  proof (cases "run_is_terminal r")
    case True
    then have "db' = db" using c g by (simp add: cancel_service_def)
    then show ?thesis using inv by simp
  next
    case False
    let ?r = "r\<lparr>run_state := CANCELLED, run_finished_at := Some now\<rparr>"
    have waits: "run_state r = WAITING_FOR_APPROVAL"
      using False at_rest_states(1) [OF invD(7) [OF r(1)]] by (auto simp: run_is_terminal_def terminal_run_states_def)
    obtain s where s: "ck_suspension (run_checkpoint r) = Some s" "sus_sequence s = Suc (length (events_of i db))"
      "ck_spec (run_checkpoint r) \<noteq> None" "map er_seq (events_of i db) = [1..<Suc (length (events_of i db))]"
      "er_type (last (events_of i db)) = ''TOOL_APPROVAL_REQUIRED''"
      "\<And>x. x \<in> set (rows_of i db) \<Longrightarrow> exec_approval x = PENDING \<Longrightarrow> exec_name x = call_name (sus_call s)"
      "length (filter (\<lambda>x. exec_approval x = PENDING) (rows_of i db)) \<le> 1"
      by (rule at_rest_waiting [OF invD(7) [OF r(1)] waits, unfolded r(2)]) (rule that)
    have ne: "events_of i db \<noteq> []" using invD(7) [OF r(1)] r(2) by (simp add: at_rest_def)
    define olds where "olds = (case pending_for_run i (ps_execs (rd_pipe db)) of
        None \<Rightarrow> ps_execs (rd_pipe db)
      | Some x \<Rightarrow> update_rows (\<lambda>z. exec_id z = exec_id x)
          (\<lambda>_. x\<lparr>exec_approval := EXPIRED, exec_decided_at := Some now, exec_reason := Some cancel_reason\<rparr>)
          (ps_execs (rd_pipe db)))"
    have d: "rd_runs db' = rd_runs (put_run ?r db)" "rd_users db' = rd_users db" "rd_next db' = rd_next db"
      "rd_events db' = rd_events db" "ps_execs (rd_pipe db') = olds" "ps_next (rd_pipe db') = ps_next (rd_pipe db)"
      using c g False r(2)
      by (auto simp: cancel_service_def Let_def put_run_def olds_def put_execution_def split: option.splits)
    have ids: "distinct (map exec_id (ps_execs (rd_pipe db)))" using invD(6) by (simp add: fresh_rows_def)
    have olds: "settled (filter (\<lambda>x. exec_run x = i) olds)"
      "j \<noteq> i \<Longrightarrow> filter (\<lambda>x. exec_run x = j) olds = filter (\<lambda>x. exec_run x = j) (ps_execs (rd_pipe db))"
      "z \<in> set olds \<Longrightarrow> exec_run z < rd_next db \<and> consented st (rd_runs db) (rd_users db) z"
      "map exec_id olds = map exec_id (ps_execs (rd_pipe db))" for j z
    proof -
      have "settled (filter (\<lambda>x. exec_run x = i) olds) \<and>
        (\<forall>j. j \<noteq> i \<longrightarrow> filter (\<lambda>x. exec_run x = j) olds = filter (\<lambda>x. exec_run x = j) (ps_execs (rd_pipe db))) \<and>
        (\<forall>z \<in> set olds. exec_run z < rd_next db \<and> consented st (rd_runs db) (rd_users db) z) \<and>
        map exec_id olds = map exec_id (ps_execs (rd_pipe db))"
      proof (cases "pending_for_run i (ps_execs (rd_pipe db))")
        case None
        then have "settled (filter (\<lambda>x. exec_run x = i) (ps_execs (rd_pipe db)))"
          by (auto simp: pending_for_run_def find_row_None settled_def)
        then show ?thesis using None invD(4,5) by (simp add: olds_def)
      next
        case (Some x)
        let ?y = "x\<lparr>exec_approval := EXPIRED, exec_decided_at := Some now, exec_reason := Some cancel_reason\<rparr>"
        have x: "x \<in> set (ps_execs (rd_pipe db))" "exec_run x = i" "exec_approval x = PENDING"
          using pending_Some [OF Some] by simp_all
        have y: "exec_run ?y = i" "exec_approval ?y \<noteq> PENDING" using x(2) by simp_all
        note rep = replace_pending [OF s(7) [unfolded rows_of_def] x y ids]
        have cy: "consented st (rd_runs db) (rd_users db) ?y" "exec_run ?y < rd_next db"
          using invD(5) [OF x(1)] invD(4) [OF x(1)] x(3) by (simp_all add: consented_def)
        show ?thesis
          unfolding olds_def Some option.case
        proof (intro conjI allI impI ballI)
          fix z assume "z \<in> set (update_rows (\<lambda>z. exec_id z = exec_id x) (\<lambda>_. ?y) (ps_execs (rd_pipe db)))"
          from rep(3) [OF this] show "exec_run z < rd_next db" "consented st (rd_runs db) (rd_users db) z"
            using cy invD(4,5) by (elim disjE; simp)+
        next
          show "map exec_id (update_rows (\<lambda>z. exec_id z = exec_id x) (\<lambda>_. ?y) (ps_execs (rd_pipe db)))
              = map exec_id (ps_execs (rd_pipe db))" by (rule map_update_rows) simp
        qed (use rep(1,2) in simp_all)
      qed
      then show "settled (filter (\<lambda>x. exec_run x = i) olds)"
        "j \<noteq> i \<Longrightarrow> filter (\<lambda>x. exec_run x = j) olds = filter (\<lambda>x. exec_run x = j) (ps_execs (rd_pipe db))"
        "z \<in> set olds \<Longrightarrow> exec_run z < rd_next db \<and> consented st (rd_runs db) (rd_users db) z"
        "map exec_id olds = map exec_id (ps_execs (rd_pipe db))" by blast+
    qed
    have keys: "map (\<lambda>r. (run_id r, run_user r)) (rd_runs (put_run ?r db)) = map (\<lambda>r. (run_id r, run_user r)) (rd_runs db)"
      by (rule put_run_keys [OF r(1) _ invD(1)]) simp
    have ev: "events_of j db' = events_of j db" for j by (simp add: events_of_def d)
    have "runs_inv st db'"
    proof (rule runs_invI)
      have "map run_id (rd_runs db') = map fst (map (\<lambda>r. (run_id r, run_user r)) (rd_runs (put_run ?r db)))"
        by (simp add: d comp_def)
      then show "distinct (map run_id (rd_runs db'))" using invD(1) unfolding keys by (simp add: comp_def)
    next
      fix x assume "x \<in> set (ps_execs (rd_pipe db'))"
      then have "exec_run x < rd_next db \<and> consented st (rd_runs db) (rd_users db) x" using olds(3) by (simp add: d)
      then show "exec_run x < rd_next db'" "consented st (rd_runs db') (rd_users db') x"
        using consented_cong [OF keys] by (simp_all add: d)
    next
      have "ps_next (rd_pipe db') > exec_id x" if "x \<in> set olds" for x
      proof -
        have "exec_id x \<in> set (map exec_id olds)" using that by simp
        then show ?thesis unfolding olds(4) using invD(6) by (auto simp: fresh_rows_def d)
      qed
      then show "fresh_rows (rd_pipe db')" unfolding fresh_rows_def d olds(4) using ids by (simp add: d)
    next
      fix x assume "x \<in> set (rd_runs db')"
      then have c: "x = ?r \<or> (x \<in> set (rd_runs db) \<and> run_id x \<noteq> i)"
        using put_run_set [of x ?r db] r(2) by (simp add: d)
      then show "run_id x < rd_next db'" using invD(2) r by (auto simp: d)
      from c show "at_rest (events_of (run_id x) db') (rows_of (run_id x) db') x"
      proof
        assume "x = ?r"
        then show ?thesis using r(2) ne s(4,5) olds(1) by (simp add: at_rest_def ev rows_of_def d del: upt_Suc)
      next
        assume a: "x \<in> set (rd_runs db) \<and> run_id x \<noteq> i"
        then have "rows_of (run_id x) db' = rows_of (run_id x) db" using olds(2) by (simp add: rows_of_def d)
        then show ?thesis using invD(7) a by (simp add: ev)
      qed
    qed (use invD(3) d in simp_all)
    then show ?thesis using d(2) by blast
  qed
qed

text \<open>Expiry only turns pending rows into expired ones.\<close>

lemma expire_ok:
  assumes inv: "runs_inv st db"
  shows "runs_inv st (db\<lparr>rd_pipe := (rd_pipe db)\<lparr>ps_execs := snd (expire_older_than now cutoff (ps_execs (rd_pipe db)))\<rparr>\<rparr>)"
    (is "runs_inv st ?db")
proof -
  let ?stale = "\<lambda>x. exec_approval x = PENDING \<and> exec_requested_at x < cutoff"
  let ?f = "\<lambda>x. if ?stale x then x\<lparr>exec_approval := EXPIRED, exec_decided_at := Some now,
            exec_reason := Some ''No approver responded within the timeout.''\<rparr> else x"
  note invD = runs_invD [OF inv]
  have rows: "ps_execs (rd_pipe ?db) = map ?f (ps_execs (rd_pipe db))"
    by (simp add: expire_older_than_def update_rows_def Let_def)
  have keep: "exec_id (?f x) = exec_id x" "exec_run (?f x) = exec_run x" "exec_name (?f x) = exec_name x" for x
    by simp_all
  have pend: "exec_approval (?f x) = PENDING \<Longrightarrow> exec_approval x = PENDING" for x by (auto split: if_splits)
  have own: "rows_of j ?db = map ?f (rows_of j db)" for j
    unfolding rows_of_def rows by (simp add: filter_map comp_def keep(2))
  have settled: "settled xs \<Longrightarrow> settled (map ?f xs)" for xs by (auto simp: settled_def)
  have fewer: "length (filter (\<lambda>x. exec_approval x = PENDING) (map ?f xs)) \<le> length (filter (\<lambda>x. exec_approval x = PENDING) xs)" for xs
    by (induction xs) auto
  have rest: "at_rest es xs r \<Longrightarrow> at_rest es (map ?f xs) r" for es xs r
  proof -
    assume a: "at_rest es xs r"
    show "at_rest es (map ?f xs) r"
    proof (cases "run_state r = WAITING_FOR_APPROVAL")
      case True
      show ?thesis
        by (rule at_rest_waiting [OF a True])
           (use a True pend fewer [of xs] in \<open>auto simp: at_rest_def simp del: upt_Suc split: if_splits\<close>)
    next
      case False
      then show ?thesis
        using a settled at_rest_states [OF a] unfolding at_rest_def by (auto simp del: upt_Suc)
    qed
  qed
  show ?thesis
  proof (rule runs_invI)
    fix x assume "x \<in> set (ps_execs (rd_pipe ?db))"
    then obtain y where y: "y \<in> set (ps_execs (rd_pipe db))" "x = ?f y" unfolding rows by auto
    show "exec_run x < rd_next ?db" unfolding y(2) keep(2) using invD(4) [OF y(1)] by simp
    show "consented st (rd_runs ?db) (rd_users ?db) x"
      using invD(5) [OF y(1)] by (cases "exec_approval y") (simp_all add: y(2) consented_def)
  next
    show "fresh_rows (rd_pipe ?db)"
      using invD(6) unfolding fresh_rows_def rows by (simp add: comp_def keep(1) del: if_image_distrib)
  next
    fix r assume "r \<in> set (rd_runs ?db)"
    then have "at_rest (events_of (run_id r) db) (rows_of (run_id r) db) r" using invD(7) by simp
    from rest [OF this] show "at_rest (events_of (run_id r) ?db) (rows_of (run_id r) ?db) r"
      unfolding own by (simp add: events_of_def)
  qed (use invD in simp_all)
qed

text \<open>
  The platform's steps on runs: a request that commits, expiry, an edit of the registry.  Users
  are not added or promoted: \<open>rd_users\<close> is fixed.
\<close>

inductive runs_step :: "agents_settings \<Rightarrow> 'e runs_db \<Rightarrow> 'e runs_db \<Rightarrow> bool" for st where
  started: "start_run env agent msg actor conv trace db = Done (Inr (i, db')) \<Longrightarrow> ae_settings env = st \<Longrightarrow>
     runs_step st db db'"
| answered: "approve_run env i approved actor reason db = Done (Inr (j, db')) \<Longrightarrow> ae_settings env = st \<Longrightarrow>
     actor \<in> set (rd_users db) \<Longrightarrow> runs_step st db db'"
| cancelled: "cancel_service now i db = Inr (r, db') \<Longrightarrow> runs_step st db db'"
| expired: "runs_step st db
     (db\<lparr>rd_pipe := (rd_pipe db)\<lparr>ps_execs := snd (expire_older_than now cutoff (ps_execs (rd_pipe db)))\<rparr>\<rparr>)"
| edited: "runs_step st db (db\<lparr>rd_registry := reg\<rparr>)"

inductive runs_reachable :: "agents_settings \<Rightarrow> 'e runs_db \<Rightarrow> bool" for st where
  empty: "rd_runs db = [] \<Longrightarrow> rd_events db = [] \<Longrightarrow> ps_execs (rd_pipe db) = [] \<Longrightarrow> runs_reachable st db"
| step: "runs_reachable st db \<Longrightarrow> runs_step st db db' \<Longrightarrow> runs_reachable st db'"

lemma runs_step_inv: "runs_step st db db' \<Longrightarrow> runs_inv st db \<Longrightarrow> runs_inv st db'"
proof (induction rule: runs_step.induct)
  case (started env agent msg actor conv trace db i db')
  then show ?case using start_run_ok [OF started(3,2), of agent msg actor conv trace] by auto
next
  case (answered env i approved actor reason db j db')
  then show ?case using approve_run_ok [OF answered(4,2,3), of i approved reason] by auto
next
  case (cancelled now i db r db')
  then show ?case using cancel_ok by blast
next
  case (expired db now cutoff)
  then show ?case by (rule expire_ok)
next
  case (edited db reg)
  then show ?case by (simp add: runs_inv_def events_of_def rows_of_def)
qed

lemma runs_reachable_inv: "runs_reachable st db \<Longrightarrow> runs_inv st db"
proof (induction rule: runs_reachable.induct)
  case (empty db)
  then show ?case by (simp add: runs_inv_def fresh_rows_def)
next
  case (step db db')
  then show ?case using runs_step_inv by blast
qed

end
