(* ===== verification/Agent_Sample.thy ===== *)
theory Agent_Sample
  imports Run_Invariant
begin

text \<open>
  A concrete platform: one agent with two tools, the first of which needs consent, a model that
  asks for both at once and then answers, and executors that count their calls.
\<close>

definition disk_tool :: "uuid \<Rightarrow> string \<Rightarrow> risk_level \<Rightarrow> tool" where
  "disk_tool i nm risk = \<lparr>tool_id = i, tool_name = nm, tool_display = nm, tool_description = [], tool_type = REST,
     tool_schema = JObj [], tool_permission = ''tool.execute'', tool_risk = risk, tool_endpoint = None,
     tool_config = [], tool_credentials = None, tool_enabled = True, tool_timeout = 30,
     tool_server = None, tool_discovered_at = None\<rparr>"

definition plain_user :: "uuid \<Rightarrow> string \<Rightarrow> user" where
  "plain_user i nm = \<lparr>user_id = i, user_name = nm, user_email = nm, user_full_name = None, user_password = None,
     user_provider = ''local'', user_subject = None, user_active = True, user_superuser = False,
     user_last_login = None, user_failed_logins = 0,
     user_roles = [\<lparr>role_id = 6, role_name = ''ops'', role_is_system = False, role_permissions = [''tool.execute'']\<rparr>]\<rparr>"

definition sample_registry :: registry where
  "sample_registry = \<lparr>
     reg_agents = [\<lparr>agent_id = 11, agent_slug = ''ops'', agent_display = ''Ops'', agent_description = None,
        agent_enabled = True, agent_owner = None, agent_current = 2\<rparr>],
     reg_versions = [\<lparr>ver_id = 12, ver_agent = 11, ver_number = 2, ver_prompt = ''Help.'', ver_model = ''m'',
        ver_temperature = 0, ver_max_iterations = 5, ver_bases = [], ver_memory = False, ver_created_by = None,
        ver_note = None, ver_tools = [3, 4], ver_skills = []\<rparr>],
     reg_tools = [disk_tool 3 ''wipe'' HIGH, disk_tool 4 ''list'' LOW], reg_skills = [], reg_next = 5,
     reg_trail = []\<rparr>"

definition sample_call :: "string \<Rightarrow> string \<Rightarrow> tool_call" where
  "sample_call i nm = \<lparr>call_id = i, call_name = nm, call_arguments = RawNone\<rparr>"

definition two_calls :: completion where
  "two_calls = \<lparr>comp_content = [], comp_calls = [sample_call ''a'' ''wipe'', sample_call ''b'' ''list''],
     comp_prompt_tokens = 1, comp_completion_tokens = 1\<rparr>"

definition final_answer :: completion where
  "final_answer = \<lparr>comp_content = ''ok'', comp_calls = [], comp_prompt_tokens = 1, comp_completion_tokens = 1\<rparr>"

definition sample_env :: "nat agent_env" where
  "sample_env = \<lparr>ae_settings = default_agents_settings,
     ae_executors = (\<lambda>_. Some (\<lambda>inv e. (Inr \<lparr>res_success = True, res_content = ''done'', res_duration = 0,
        res_error = None, res_truncated = False\<rparr>, e + 1))),
     ae_provider = (\<lambda>_. Inr ''served''),
     ae_chat = (\<lambda>msgs served temp tools e. (Inr (if e = 0 then two_calls else final_answer), e)),
     ae_retrieve = None, ae_loads = (\<lambda>_. None), ae_now = 9\<rparr>"

definition sample_runs :: "nat runs_db" where
  "sample_runs = \<lparr>rd_runs = [], rd_events = [], rd_registry = sample_registry,
     rd_pipe = \<lparr>ps_execs = [], ps_next = 0, ps_trail = [], ps_denials = [], ps_ext = 0\<rparr>,
     rd_users = [plain_user 7 ''ann'', plain_user 8 ''bob''], rd_next = 0\<rparr>"


lemma sample_env_simps [simp]:
  "ae_settings sample_env = default_agents_settings" "ae_provider sample_env nm = Inr ''served''"
  "ae_chat sample_env msgs served temp tools e = (Inr (if e = 0 then two_calls else final_answer), e)"
  "ae_retrieve sample_env = None" "ae_now sample_env = 9"
  "ae_executors sample_env ty = Some (\<lambda>inv e. (Inr \<lparr>res_success = True, res_content = ''done'', res_duration = 0,
        res_error = None, res_truncated = False\<rparr>, e + 1))"
  by (simp_all add: sample_env_def)

lemma frozen_plain [simp]: "frozen_permissions (plain_user i nm) = [''tool.execute'']"
  by (simp add: frozen_permissions_def permissions_of_def effective_permissions_def plain_user_def)


lemma parse_none [simp]: "parse_arguments f RawNone = JObj []" by (simp add: parse_arguments_def)

lemmas run_eval = start_run_def begin_run_def Let_def execute_run_def run_from_def retrieve_def run_world_def
      run_loop.simps two_calls_def final_answer_def sample_call_def
      tool_by_name_def invoke_def authorise_def needs_approval_def default_agents_settings_def
      disk_tool_def caller_of_def new_run_def suspend_run_def put_execution_def new_execution_def count_tokens_def
      drain_def put_run_def event_def get_run_def sample_registry_def
      agent_with_def get_current_def build_spec_def spec_tool_of_def tool_with_def granted_ids_def
      List.map_filter_simps sample_runs_def

lemma event_row_simps [simp]: "er_run (event_row_of i e) = i" "er_seq (event_row_of i e) = ev_seq e"
   "er_type (event_row_of i e) = event_type (ev_body e)"
  by (simp_all add: event_row_of_def)

lemma plain_user_simps [simp]: "user_id (plain_user i nm) = i" "user_name (plain_user i nm) = nm"
   "user_superuser (plain_user i nm) = False"
  by (simp_all add: plain_user_def)

lemmas answer_eval = approve_run_def resume_run_def answer_call_def execute_approved_def finish_def
   pending_for_run_def spec_from_checkpoint_def spec_to_json_def truncate_result_def max_result_chars_def
   empty_checkpoint_def complete_run_def

definition kinds :: "'e runs_db \<Rightarrow> string list" where
  "kinds db = map er_type (rd_events db)"

lemma sample_session: "\<exists>db db2. start_run sample_env 11 ''wipe it'' (plain_user 7 ''ann'') None ''t'' sample_runs = Done (Inr (0, db)) \<and>
   approve_run sample_env 0 True (plain_user 8 ''bob'') None db = Done (Inr (0, db2)) \<and>
   map run_state (rd_runs db) = [WAITING_FOR_APPROVAL] \<and>
   map run_state (rd_runs db2) = [COMPLETED] \<and> map run_user (rd_runs db2) = [Some 7] \<and>
   kinds db2 = [''RUN_STARTED'', ''LLM_REQUEST'', ''LLM_RESPONSE'', ''TOOL_REQUESTED'', ''TOOL_APPROVAL_REQUIRED'',
     ''TOOL_APPROVED'', ''TOOL_EXECUTED'', ''LLM_REQUEST'', ''LLM_RESPONSE'', ''RUN_COMPLETED''] \<and>
   map exec_name (ps_execs (rd_pipe db2)) = [''wipe''] \<and>
   map exec_risk (ps_execs (rd_pipe db2)) = [HIGH] \<and>
   map exec_success (ps_execs (rd_pipe db2)) = [Some True] \<and>
   map exec_approver (ps_execs (rd_pipe db2)) = [Some 8] \<and> rd_users db = rd_users sample_runs"
  by (simp add: run_eval answer_eval kinds_def)

end
