(* ===== verification/Agent_Properties.thy ===== *)
theory Agent_Properties
  imports Agent_Sample
begin

text \<open>
  The properties of agents, their versions and their runs, with the lemmas only they need.
\<close>

fun clean :: "json \<Rightarrow> bool"
and clean_fields :: "(string \<times> json) list \<Rightarrow> bool"
and clean_items :: "json list \<Rightarrow> bool" where
  "clean (JObj fs) = clean_fields fs"
| "clean (JList items) = clean_items items"
| "clean v = True"
| "clean_fields [] = True"
| "clean_fields ((k, v) # rest) =
     ((if k \<in> set run_redacted_keys then v = JStr ''[redacted]'' else clean v) \<and> clean_fields rest)"
| "clean_items [] = True"
| "clean_items (v # rest) = (clean v \<and> clean_items rest)"

lemma scrub_clean:
  "clean (scrub v)" "clean_fields (scrub_fields fs)" "clean_items (scrub_items items)"
  by (induction v and fs and items rule: scrub_scrub_fields_scrub_items.induct) auto

lemma clean_scrub:
  "clean v = (scrub v = v)" "clean_fields fs = (scrub_fields fs = fs)" "clean_items items = (scrub_items items = items)"
  by (induction v and fs and items rule: scrub_scrub_fields_scrub_items.induct) auto

text \<open>
  What a persisted event payload keeps: no redacted key has a value at any depth, scrubbing twice
  changes nothing, and a value is left alone exactly when it had no such key.  (The audit trail's
  redaction stops at a depth; this one does not.)
\<close>
theorem scrub_exact: "clean (scrub v) \<and> scrub (scrub v) = scrub v \<and> clean v = (scrub v = v)"
  using scrub_clean(1) clean_scrub(1) by blast

text \<open>
  A resumed run continues as the version it started on: the stored specification gives back
  prompt, model, temperature, bounds and granted tools, and loses only the knowledge bases and the
  memory flag, which a resumption does not use, and the enabled flags, which every stored tool had.
\<close>
theorem resumed_spec:
  "spec_from_checkpoint \<lparr>ck_spec = Some (spec_to_json s), ck_suspension = z\<rparr>
     = s\<lparr>ag_bases := [], ag_memory := False,
         ag_tools := map (\<lambda>t. t\<lparr>def_enabled := True\<rparr>) (ag_tools s)\<rparr> \<and>
   granted_ids (spec_from_checkpoint \<lparr>ck_spec = Some (spec_to_json s), ck_suspension = z\<rparr>) = granted_ids s"
  by (simp add: spec_from_checkpoint_def spec_to_json_def granted_ids_def List.map_filter_def filter_map comp_def)

lemma credentials_unread:
  "new_execution now i run (t\<lparr>tool_credentials := secret\<rparr>) args = new_execution now i run t args"
  "authorise st run (t\<lparr>tool_credentials := secret\<rparr>) grants = authorise st run t grants"
  "needs_approval st (t\<lparr>tool_credentials := secret\<rparr>) = needs_approval st t"
  "tool_entry act r run (t\<lparr>tool_credentials := secret\<rparr>) extra = tool_entry act r run t extra"
  "tool_definition_of (t\<lparr>tool_credentials := secret\<rparr>) = tool_definition_of t"
  by (simp_all add: new_execution_def authorise_def needs_approval_def tool_entry_def tool_definition_of_def)

lemma finish_unread: "finish x run (t\<lparr>tool_credentials := secret\<rparr>) r s = finish x run t r s"
  by (simp add: finish_def credentials_unread Let_def)

lemma credentials_unused:
  "execute_approved executors x (t\<lparr>tool_credentials := secret\<rparr>) run s = execute_approved executors x t run s"
  "deny now x run (t\<lparr>tool_credentials := secret\<rparr>) d s = deny now x run t d s"
  by (simp_all add: execute_approved_def deny_def finish_unread credentials_unread Let_def
      split: option.split prod.split sum.split)

text \<open>
  A tool's stored credentials make no difference to a call: the pipeline projects the row without
  the private key the executors read, although validation of the tool and the agent's own
  specification carry it.
\<close>
theorem credentials_never_reach_executors:
  "invoke st executors now run (t\<lparr>tool_credentials := secret\<rparr>) args grants s
     = invoke st executors now run t args grants s \<and>
   json_get (def_config (with_credentials (t\<lparr>tool_credentials := Some (c # cs)\<rparr>))) ''_credentials_encrypted''
     = Some (JStr (c # cs))"
  by (simp add: invoke_def credentials_unread credentials_unused with_credentials_def config_with_credentials_def json_get_def
      update_conv' Let_def split: option.split)

lemma next_version_bound: "w \<in> set (reg_versions db) \<Longrightarrow> ver_agent w = i \<Longrightarrow> ver_number w < next_version i db"
proof -
  have "x \<le> foldr max xs 0" if "x \<in> set xs" for x :: nat and xs using that by (induction xs) auto
  then show "w \<in> set (reg_versions db) \<Longrightarrow> ver_agent w = i \<Longrightarrow> ver_number w < next_version i db"
    by (auto simp: next_version_def less_Suc_eq_le)
qed

lemma insert_version_row:
  assumes "insert_version cap agent number vs actor note db = Inr (v, db1)"
  shows "reg_versions db1 = reg_versions db @ [v]" "reg_agents db1 = reg_agents db"
    "ver_agent v = agent" "ver_number v = number" "ver_max_iterations v = min (vs_max_iterations vs) cap"
    "ver_prompt v = vs_prompt vs" "ver_tools v = vs_tools vs" "ver_skills v = vs_skills vs"
    "ver_bases v = vs_bases vs" "ver_memory v = vs_memory vs"
    "list_all (\<lambda>i. tool_with i db \<noteq> None) (vs_tools vs)" "list_all (\<lambda>i. skill_with i db \<noteq> None) (vs_skills vs)"
proof -
  have t: "find (\<lambda>i. tool_with i db = None) (vs_tools vs) = None"
    using assms by (cases "find (\<lambda>i. tool_with i db = None) (vs_tools vs)") (simp_all add: insert_version_def)
  have k: "find (\<lambda>i. skill_with i db = None) (vs_skills vs) = None"
    using assms t by (cases "find (\<lambda>i. skill_with i db = None) (vs_skills vs)") (simp_all add: insert_version_def)
  show "list_all (\<lambda>i. tool_with i db \<noteq> None) (vs_tools vs)" "list_all (\<lambda>i. skill_with i db \<noteq> None) (vs_skills vs)"
    using t k by (simp_all add: find_None_iff list_all_iff)
qed (use assms in \<open>auto simp: insert_version_def Let_def split: option.splits\<close>)

text \<open>
  Publishing a version never edits one: the new row is appended with a number above all others of
  the agent, becomes current, inherits every omitted field, obeys the platform's iteration cap and
  names only tools and skills that exist.
\<close>
theorem publish_keeps_history:
  assumes "create_version cap i c note actor db = Inr (v, db')"
  shows "\<exists>cur a. agent_with i db = Some a \<and> get_current i db = Some cur \<and> reg_versions db' = reg_versions db @ [v] \<and> ver_agent v = i \<and>
     (\<forall>w \<in> set (reg_versions db). ver_agent w = i \<longrightarrow> ver_number w < ver_number v) \<and>
     get_current i db' = Some v \<and> ver_max_iterations v \<le> cap \<and>
     ver_prompt v = given (vc_prompt c) (ver_prompt cur) \<and> ver_tools v = given (vc_tools c) (ver_tools cur) \<and>
     ver_skills v = given (vc_skills c) (ver_skills cur) \<and> ver_bases v = given (vc_bases c) (ver_bases cur) \<and>
     ver_memory v = given (vc_memory c) (ver_memory cur) \<and>
     list_all (\<lambda>t. tool_with t db \<noteq> None) (ver_tools v) \<and> list_all (\<lambda>k. skill_with k db \<noteq> None) (ver_skills v)"
proof -
  from assms obtain a cur where g: "agent_with i db = Some a" "get_current i db = Some cur"
    by (auto simp: create_version_def split: option.splits)
  let ?n = "next_version i db"
  from assms g obtain db1 where ins: "insert_version cap i ?n (inherited c cur) actor note db = Inr (v, db1)"
    and db': "db' = registry_record AGENT_VERSION_CREATED actor i
               [(''slug'', JStr (agent_slug a)), (''version'', JInt (int ?n)),
                (''note'', case note of None \<Rightarrow> JNull | Some s \<Rightarrow> JStr s)]
               (db1\<lparr>reg_agents := update_rows (\<lambda>r. agent_id r = i) (\<lambda>r. r\<lparr>agent_current := ?n\<rparr>)
                      (reg_agents db1)\<rparr>)"
    by (auto simp: create_version_def Let_def split: sum.splits)
  note row = insert_version_row [OF ins]
  have ag: "agent_with i db' = Some (a\<lparr>agent_current := ?n\<rparr>)"
    using g(1) find_row_Some [OF g(1) [unfolded agent_with_def]]
      find_row_update_same [where p = "\<lambda>r. agent_id r = i" and q = "\<lambda>r. agent_id r = i"
        and f = "\<lambda>r. r\<lparr>agent_current := ?n\<rparr>" and rows = "reg_agents db"]
    by (simp add: db' registry_record_def agent_with_def row(2))
  have "find_row (\<lambda>w. ver_agent w = i \<and> ver_number w = ?n) (reg_versions db) = None"
    using next_version_bound [of _ db i] by (fastforce simp: find_row_None)
  then have cur: "get_current i db' = Some v"
    using ag row(1,3,4) by (simp add: get_current_def db' registry_record_def find_row_append)
  have vs: "reg_versions db' = reg_versions db @ [v]" using row(1) by (simp add: db' registry_record_def)
  show ?thesis
    using g row(3-12) vs cur next_version_bound [of _ db i]
    by (intro exI [of _ cur] exI [of _ a]) (auto simp: inherited_def)
qed

definition no_change :: version_change where
  "no_change = \<lparr>vc_prompt = None, vc_model = None, vc_temperature = None, vc_max_iterations = None,
     vc_tools = None, vc_skills = None, vc_bases = None, vc_memory = None\<rparr>"

theorem publish_keeps_history_witness:
  "\<exists>v db'. create_version 25 11 no_change None (plain_user 7 ''ann'') sample_registry = Inr (v, db') \<and>
     get_current 11 db' = Some v \<and> ver_tools v = [3, 4]"
proof -
  obtain v db' where c: "create_version 25 11 no_change None (plain_user 7 ''ann'') sample_registry = Inr (v, db')"
    by (simp add: create_version_def insert_version_def agent_with_def get_current_def sample_registry_def
        inherited_def no_change_def given_def tool_with_def disk_tool_def Let_def)
  have "get_current 11 sample_registry = Some (hd (reg_versions sample_registry))"
    by (simp add: get_current_def agent_with_def sample_registry_def)
  with publish_keeps_history [OF c] c show ?thesis
    by (auto simp: no_change_def given_def sample_registry_def)
qed

lemma start_refused:
  assumes "start_run env agent msg actor conv trace db = Done (Inl e)"
  shows "case agent_with agent (rd_registry db) of
      None \<Rightarrow> error_code e = ''not_found''
    | Some a \<Rightarrow> if \<not> agent_enabled a then error_code e = ''conflict''
        else get_current agent (rd_registry db) = None \<and> error_code e = ''not_found''"
proof (cases "agent_with agent (rd_registry db)")
  case None
  with assms show ?thesis by (auto simp: start_run_def begin_run_def)
next
  case (Some a)
  show ?thesis
  proof (cases "agent_enabled a")
    case False
    with assms Some show ?thesis by (auto simp: start_run_def begin_run_def)
  next
    case True
    with assms Some show ?thesis
      by (cases "get_current agent (rd_registry db)") (auto simp: start_run_def begin_run_def drain_def Let_def split: option.splits)
  qed
qed

lemma approve_refused:
  assumes "approve_run env i approved actor reason db = Done (Inl e)"
  shows "case get_run i db of
      None \<Rightarrow> error_code e = ''not_found''
    | Some r \<Rightarrow> if run_state r \<noteq> WAITING_FOR_APPROVAL \<or> pending_for_run i (ps_execs (rd_pipe db)) = None
        then error_code e = ''conflict''
        else run_user r = Some (user_id actor) \<and> \<not> user_superuser actor \<and> error_code e = ''validation_error''"
proof (cases "get_run i db")
  case None
  with assms show ?thesis by (auto simp: approve_run_def)
next
  case (Some r)
  then have i: "run_id r = i" using get_run_Some by blast
  show ?thesis
  proof (cases "run_state r = WAITING_FOR_APPROVAL")
    case False
    with assms Some show ?thesis by (auto simp: approve_run_def)
  next
    case waits: True
    show ?thesis
    proof (cases "pending_for_run i (ps_execs (rd_pipe db))")
      case None
      with assms Some waits i show ?thesis by (auto simp: approve_run_def)
    next
      case p: (Some x)
      have "run_user r = Some (user_id actor) \<and> \<not> user_superuser actor"
      proof (rule ccontr)
        assume "\<not> ?thesis"
        with assms Some waits i p show False
          by (auto simp: approve_run_def drain_def Let_def split: option.splits)
      qed
      with assms Some waits i p show ?thesis by (auto simp: approve_run_def)
    qed
  qed
qed

text \<open>
  C11. A start is refused exactly for an unknown or disabled agent or a missing version; otherwise the
  run freezes the caller's permissions, stays within the version's iteration bound, and every
  row it adds is a call of a tool that the pipeline checked against those permissions and the
  version's grants.  The trace is always stored: its sequence numbers never collide.
\<close>
theorem run_stays_within_grant:
  assumes "runs_reachable st db" "ae_settings env = st"
  shows "case start_run env agent msg actor conv trace db of
      Done (Inl e) \<Rightarrow>
        (case agent_with agent (rd_registry db) of
           None \<Rightarrow> error_code e = ''not_found''
         | Some a \<Rightarrow> if \<not> agent_enabled a then error_code e = ''conflict''
             else get_current agent (rd_registry db) = None \<and> error_code e = ''not_found'')
    | Done (Inr (i, db')) \<Rightarrow>
        (\<exists>a v r xs. agent_with agent (rd_registry db) = Some a \<and> agent_enabled a \<and>
           get_current agent (rd_registry db) = Some v \<and> get_run i db' = Some r \<and>
           run_user r = Some (user_id actor) \<and> run_permissions r = frozen_permissions actor \<and>
           run_iterations r \<le> ver_max_iterations v \<and>
           ps_execs (rd_pipe db') = ps_execs (rd_pipe db) @ xs \<and>
           list_all (call_checked st (caller_of r) (granted_ids (build_spec (rd_registry db) a v))
             (reg_tools (rd_registry db))) xs)
    | _ \<Rightarrow> False"
  using start_run_ok [OF runs_reachable_inv [OF assms(1)] assms(2), of agent msg actor conv trace]
    start_refused [of env agent msg actor conv trace db]
  by (elim disjE exE conjE) auto

text \<open>
  C12. An answer is accepted exactly for a waiting run with a pending call, from someone other than the
  run's user unless a superuser; it decides the call of the checkpoint, executes that call only when
  approved, and the run goes on with the permissions and grants it was started with.
\<close>
theorem approval_exact:
  assumes "runs_reachable st db" "ae_settings env = st" "actor \<in> set (rd_users db)"
  shows "case approve_run env i approved actor reason db of
      Done (Inl e) \<Rightarrow>
        (case get_run i db of
           None \<Rightarrow> error_code e = ''not_found''
         | Some r \<Rightarrow> if run_state r \<noteq> WAITING_FOR_APPROVAL \<or> pending_for_run i (ps_execs (rd_pipe db)) = None
             then error_code e = ''conflict''
             else run_user r = Some (user_id actor) \<and> \<not> user_superuser actor \<and>
               error_code e = ''validation_error'')
    | Done (Inr (j, db')) \<Rightarrow>
        (\<exists>r r' x y sus xs. get_run i db = Some r \<and> run_state r = WAITING_FOR_APPROVAL \<and>
           (run_user r \<noteq> Some (user_id actor) \<or> user_superuser actor) \<and>
           pending_for_run i (ps_execs (rd_pipe db)) = Some x \<and>
           ck_suspension (run_checkpoint r) = Some sus \<and> exec_name x = call_name (sus_call sus) \<and>
           decided approved (user_id actor) x y \<and>
           rd_runs db' = rd_runs (put_run r' db) \<and> same_run r r' \<and>
           ps_execs (rd_pipe db') = update_rows (\<lambda>z. exec_id z = exec_id x) (\<lambda>_. y) (ps_execs (rd_pipe db)) @ xs \<and>
           list_all (call_checked st (caller_of r) (granted_ids (spec_from_checkpoint (run_checkpoint r)))
             (reg_tools (rd_registry db))) xs)
    | _ \<Rightarrow> False"
proof (cases "\<exists>e. approve_run env i approved actor reason db = Done (Inl e)")
  case True
  then obtain e where e: "approve_run env i approved actor reason db = Done (Inl e)" by blast
  show ?thesis unfolding e outcome.case sum.case by (rule approve_refused [OF e])
next
  case False
  with approve_run_ok [OF runs_reachable_inv [OF assms(1)] assms(2,3), of i approved reason]
  obtain db' r r' x y sus xs where a: "approve_run env i approved actor reason db = Done (Inr (i, db'))"
    and facts: "get_run i db = Some r" "run_state r = WAITING_FOR_APPROVAL"
      "run_user r \<noteq> Some (user_id actor) \<or> user_superuser actor"
      "pending_for_run i (ps_execs (rd_pipe db)) = Some x" "ck_suspension (run_checkpoint r) = Some sus"
      "exec_name x = call_name (sus_call sus)" "decided approved (user_id actor) x y"
      "rd_runs db' = rd_runs (put_run r' db)" "same_run r r'"
      "ps_execs (rd_pipe db') = update_rows (\<lambda>z. exec_id z = exec_id x) (\<lambda>_. y) (ps_execs (rd_pipe db)) @ xs"
      "list_all (call_checked st (caller_of r) (granted_ids (spec_from_checkpoint (run_checkpoint r)))
         (reg_tools (rd_registry db))) xs"
    by metis
  show ?thesis
    unfolding a outcome.case sum.case prod.case
    by (rule exI [of _ r], rule exI [of _ r'], rule exI [of _ x], rule exI [of _ y], rule exI [of _ sus],
        rule exI [of _ xs]) (intro conjI facts)
qed



lemma sample_reachable:
  obtains db db2 where
    "start_run sample_env 11 ''wipe it'' (plain_user 7 ''ann'') None ''t'' sample_runs = Done (Inr (0, db))"
    "approve_run sample_env 0 True (plain_user 8 ''bob'') None db = Done (Inr (0, db2))"
    "runs_reachable default_agents_settings sample_runs" "runs_reachable default_agents_settings db"
    "runs_reachable default_agents_settings db2" "rd_users db = rd_users sample_runs"
    "map run_state (rd_runs db2) = [COMPLETED]" "map exec_risk (ps_execs (rd_pipe db2)) = [HIGH]"
    "map exec_success (ps_execs (rd_pipe db2)) = [Some True]"
proof -
  note result = that
  have base: "runs_reachable default_agents_settings sample_runs"
    by (rule runs_reachable.empty) (simp_all add: sample_runs_def)
  obtain db db2 where s:
    "start_run sample_env 11 ''wipe it'' (plain_user 7 ''ann'') None ''t'' sample_runs = Done (Inr (0, db))"
    "approve_run sample_env 0 True (plain_user 8 ''bob'') None db = Done (Inr (0, db2))"
    "map run_state (rd_runs db2) = [COMPLETED]" "map exec_risk (ps_execs (rd_pipe db2)) = [HIGH]"
    "map exec_success (ps_execs (rd_pipe db2)) = [Some True]" "rd_users db = rd_users sample_runs"
    using sample_session by - (elim exE conjE, rule that)
  have one: "runs_reachable default_agents_settings db"
    by (rule runs_reachable.step [OF base runs_step.started [OF s(1)]]) simp
  have two: "runs_reachable default_agents_settings db2"
    by (rule runs_reachable.step [OF one runs_step.answered [OF s(2)]]) (simp_all add: s(6) sample_runs_def)
  show thesis by (rule result [OF s(1,2) base one two s(6) s(3,4,5)])
qed



theorem run_stays_within_grant_witness:
  "case start_run sample_env 11 ''wipe it'' (plain_user 7 ''ann'') None ''t'' sample_runs of
     Done (Inr (i, db)) \<Rightarrow> \<exists>r. get_run i db = Some r \<and> run_permissions r = [''tool.execute''] | _ \<Rightarrow> False"
proof (rule sample_reachable)
  fix db db2 :: "nat runs_db"
  assume d: "start_run sample_env 11 ''wipe it'' (plain_user 7 ''ann'') None ''t'' sample_runs = Done (Inr (0, db))"
    "runs_reachable default_agents_settings sample_runs"
  show ?thesis
    using run_stays_within_grant [OF d(2), where env = sample_env and agent = 11 and msg = "''wipe it''"
        and actor = "plain_user 7 ''ann''" and conv = None and trace = "''t''"] d(1) by auto
qed

theorem approval_exact_witness:
  "\<exists>db db2 r x. runs_reachable default_agents_settings db \<and>
     approve_run sample_env 0 True (plain_user 8 ''bob'') None db = Done (Inr (0, db2)) \<and>
     get_run 0 db = Some r \<and> run_user r \<noteq> Some 8 \<and> pending_for_run 0 (ps_execs (rd_pipe db)) = Some x"
proof (rule sample_reachable)
  fix db db2 :: "nat runs_db"
  assume d: "approve_run sample_env 0 True (plain_user 8 ''bob'') None db = Done (Inr (0, db2))"
    "runs_reachable default_agents_settings db" "rd_users db = rd_users sample_runs"
  have "plain_user 8 ''bob'' \<in> set (rd_users db)" unfolding d(3) by (simp add: sample_runs_def)
  from approval_exact [OF d(2) _ this, where env = sample_env and i = 0 and approved = True and reason = None] d show ?thesis by auto
qed

text \<open>
  A model that asks for two calls of which the first needs consent never gets the second: the
  conversation in the checkpoint has both requests, the run is approved and completes, and only
  the first call was ever recorded.
\<close>
theorem suspension_drops_calls:
  "\<exists>db db2 s m. start_run sample_env 11 ''wipe it'' (plain_user 7 ''ann'') None ''t'' sample_runs = Done (Inr (0, db)) \<and>
     ck_suspension (run_checkpoint (hd (rd_runs db))) = Some s \<and> m \<in> set (sus_conversation s) \<and>
     map call_name (msg_calls m) = [''wipe'', ''list''] \<and>
     approve_run sample_env 0 True (plain_user 8 ''bob'') None db = Done (Inr (0, db2)) \<and>
     map run_state (rd_runs db2) = [COMPLETED] \<and> map exec_name (ps_execs (rd_pipe db2)) = [''wipe'']"
proof -
  have "\<exists>db. start_run sample_env 11 ''wipe it'' (plain_user 7 ''ann'') None ''t'' sample_runs = Done (Inr (0, db)) \<and>
    (\<exists>s m. ck_suspension (run_checkpoint (hd (rd_runs db))) = Some s \<and> m \<in> set (sus_conversation s) \<and>
     map call_name (msg_calls m) = [''wipe'', ''list''])"
    by (simp add: run_eval assistant_message_def plain_message_def conj_disj_distribR ex_disj_distrib)
  with sample_session show ?thesis by (metis outcome.inject(1) prod.inject sum.inject(2))
qed

end
