(* ===== verification/Api_Keys.thy ===== *)
theory Api_Keys
  imports Accounts
begin

text \<open>
  API clients and keys, \<open>backend/app/services/api_keys.py\<close>, with the tables of
  \<open>backend/app/models/models_registry.py\<close> they live in.  A key row holds the hash of its
  secret, never the secret; the hash function, the random parts of a new key and the cipher are
  arguments.  \<open>kd_trail\<close> is the audit trail of the committed requests.
\<close>

section \<open>Tables\<close>

record api_client =
  client_id :: uuid
  client_name :: string
  client_description :: "string option"
  client_owner :: "uuid option"
  client_enabled :: bool
  client_trusted :: bool
  client_secret :: "string option"

record api_key =
  key_id :: uuid
  key_client :: uuid
  key_name :: string
  key_prefix :: string
  key_hash :: string
  key_limit :: int
  key_scopes :: "string list"
  key_expires :: "timestamp option"
  key_last_used :: "timestamp option"
  key_revoked :: "timestamp option"
  key_rotated_to :: "uuid option"
  key_created_by :: "uuid option"

record keys_db =
  kd_clients :: "api_client list"
  kd_keys :: "api_key list"
  kd_next :: uuid
  kd_trail :: "audit_entry list"

definition key_is_active :: "timestamp \<Rightarrow> api_key \<Rightarrow> bool" where
  "key_is_active now k =
     (key_revoked k = None \<and> (case key_expires k of None \<Rightarrow> True | Some t \<Rightarrow> \<not> t \<le> now))"

definition key_by_hash :: "string \<Rightarrow> keys_db \<Rightarrow> api_key option" where
  "key_by_hash h db = find_row (\<lambda>k. key_hash k = h) (kd_keys db)"

definition key_with :: "uuid \<Rightarrow> keys_db \<Rightarrow> api_key option" where
  "key_with i db = find_row (\<lambda>k. key_id k = i) (kd_keys db)"

definition client_with :: "uuid \<Rightarrow> keys_db \<Rightarrow> api_client option" where
  "client_with i db = find_row (\<lambda>c. client_id c = i) (kd_clients db)"

definition client_by_name :: "string \<Rightarrow> keys_db \<Rightarrow> api_client option" where
  "client_by_name nm db = find_row (\<lambda>c. client_name c = nm) (kd_clients db)"

definition put_key :: "api_key \<Rightarrow> keys_db \<Rightarrow> keys_db" where
  "put_key k db = db\<lparr>kd_keys := update_rows (\<lambda>r. key_id r = key_id k) (\<lambda>_. k) (kd_keys db)\<rparr>"

section \<open>Minting\<close>

record key_env =
  ke_now :: timestamp
  ke_secret :: string
  ke_prefix :: string
  ke_hash :: "string \<Rightarrow> string"
  ke_encrypt :: "string \<Rightarrow> string"

definition mint_prefixed_token :: "string \<Rightarrow> key_env \<Rightarrow> string \<times> string \<times> string" where
  "mint_prefixed_token namespace env =
     (let full = namespace @ ''_'' @ ke_prefix env @ ''_'' @ ke_secret env
      in (full, ke_prefix env, ke_hash env full))"

definition generate_api_key :: "key_env \<Rightarrow> string \<times> string \<times> string" where
  "generate_api_key env = mint_prefixed_token ''aip'' env"

definition key_record ::
    "audit_action \<Rightarrow> string \<Rightarrow> user \<Rightarrow> uuid \<Rightarrow> json \<Rightarrow> keys_db \<Rightarrow> keys_db" where
  "key_record action kind actor i meta db =
     db\<lparr>kd_trail := record_entry action (Some (user_id actor)) (user_name actor) kind (uuid_str i)
          None meta (kd_trail db)\<rparr>"

section \<open>Clients\<close>

definition create_client ::
    "key_env \<Rightarrow> string \<Rightarrow> string option \<Rightarrow> user \<Rightarrow> bool \<Rightarrow> string option \<Rightarrow> keys_db
       \<Rightarrow> (api_client \<times> keys_db) result" where
  "create_client env name description actor trusted secret db =
     (if client_by_name name db \<noteq> None
      then Inl (ConflictError (''An API client named '' @ quoted name @ '' already exists.''))
      else if truthy secret \<and> \<not> trusted
      then Inl (ValidationError
        (''identity_jwt_secret is meaningless without trusted_identity_headers: '' @
         ''the signature would be verified and then the identity discarded.''))
      else (let c = \<lparr>client_id = kd_next db, client_name = name, client_description = description,
                     client_owner = Some (user_id actor), client_enabled = True,
                     client_trusted = trusted,
                     client_secret = (if truthy secret then map_option (ke_encrypt env) secret else None)\<rparr>
            in Inr (c, key_record API_CLIENT_CREATED ''api_client'' actor (client_id c)
                 (JObj [(''name'', JStr name), (''trusted_identity_headers'', JBool trusted),
                        (''identity_signature_required'', JBool (truthy secret))])
                 (db\<lparr>kd_clients := kd_clients db @ [c], kd_next := kd_next db + 1\<rparr>))))"

section \<open>Keys\<close>

text \<open>
  \<open>Raised\<close> is the unique index on the hash; the plaintext is part of the answer only.
\<close>

definition create_key ::
    "key_env \<Rightarrow> uuid \<Rightarrow> string \<Rightarrow> int \<Rightarrow> timestamp option \<Rightarrow> user \<Rightarrow> string list option \<Rightarrow> keys_db
       \<Rightarrow> ((api_key \<times> string) \<times> keys_db) result outcome" where
  "create_key env client name limit expires actor scopes db =
     (case client_with client db of
        None \<Rightarrow> Done (Inl (NotFoundError (''No API client with id '' @ uuid_str client @ ''.'')))
      | Some c \<Rightarrow>
          if (case expires of None \<Rightarrow> False | Some t \<Rightarrow> t \<le> ke_now env)
          then Done (Inl (ValidationError ''expires_at must be in the future.''))
          else
            (let (full, prefix, hash) = generate_api_key env;
                 k = \<lparr>key_id = kd_next db, key_client = client_id c, key_name = name,
                      key_prefix = prefix, key_hash = hash, key_limit = limit,
                      key_scopes = given scopes [], key_expires = expires, key_last_used = None,
                      key_revoked = None, key_rotated_to = None,
                      key_created_by = Some (user_id actor)\<rparr>
             in if key_by_hash hash db \<noteq> None then Raised ''IntegrityError''
                else Done (Inr ((k, full), key_record API_KEY_CREATED ''api_key'' actor (key_id k)
                  (JObj [(''client'', JStr (client_name c)), (''name'', JStr name),
                         (''prefix'', JStr prefix),
                         (''scopes'', JList (map JStr (if given scopes [] = [] then [''(unrestricted)'']
                                                       else given scopes [])))])
                  (db\<lparr>kd_keys := kd_keys db @ [k], kd_next := kd_next db + 1\<rparr>)))))"

definition microseconds_per_hour :: int where
  "microseconds_per_hour = 3600000000"

definition rotation_deadline :: "timestamp \<Rightarrow> int \<Rightarrow> api_key \<Rightarrow> timestamp" where
  "rotation_deadline now grace old =
     (let deadline = now + grace * microseconds_per_hour
      in case key_expires old of None \<Rightarrow> deadline | Some t \<Rightarrow> min t deadline)"

definition rotate_key ::
    "key_env \<Rightarrow> uuid \<Rightarrow> int \<Rightarrow> user \<Rightarrow> (timestamp \<Rightarrow> string) \<Rightarrow> keys_db
       \<Rightarrow> ((api_key \<times> string \<times> api_key) \<times> keys_db) result outcome" where
  "rotate_key env i grace actor iso_text db =
     (case key_with i db of
        None \<Rightarrow> Done (Inl (NotFoundError (''No API key with id '' @ uuid_str i @ ''.'')))
      | Some old \<Rightarrow>
          if key_revoked old \<noteq> None
          then Done (Inl (ValidationError
            (''That key is already revoked. Rotation replaces a live key; create a new '' @
             ''one instead.'')))
          else if grace < 0 then Done (Inl (ValidationError ''grace_hours cannot be negative.''))
          else
            (case create_key env (key_client old) (key_name old @ '' (rotated)'') (key_limit old)
                    (key_expires old) actor (Some (key_scopes old)) db of
               Done (Inr ((new, plaintext), db1)) \<Rightarrow>
                 (let old1 = old\<lparr>key_expires := Some (rotation_deadline (ke_now env) grace old),
                                 key_rotated_to := Some (key_id new)\<rparr>
                  in Done (Inr ((new, plaintext, old1),
                       key_record API_KEY_REVOKED ''api_key'' actor (key_id old)
                         (JObj [(''rotated_to'', JStr (uuid_str (key_id new))),
                                (''old_prefix'', JStr (key_prefix old)),
                                (''new_prefix'', JStr (key_prefix new)),
                                (''old_key_expires_at'', JStr (iso_text (rotation_deadline (ke_now env) grace old))),
                                (''grace_hours'', JInt grace)])
                         (put_key old1 db1))))
             | Done (Inl e) \<Rightarrow> Done (Inl e)
             | Raised e \<Rightarrow> Raised e
             | Diverges \<Rightarrow> Diverges))"

definition revoke_key :: "timestamp \<Rightarrow> uuid \<Rightarrow> user \<Rightarrow> keys_db \<Rightarrow> (api_key \<times> keys_db) result" where
  "revoke_key now i actor db =
     (case key_with i db of
        None \<Rightarrow> Inl (NotFoundError (''No API key with id '' @ uuid_str i @ ''.''))
      | Some k \<Rightarrow>
          (let k1 = (if key_revoked k = None then k\<lparr>key_revoked := Some now\<rparr> else k)
           in Inr (k1, key_record API_KEY_REVOKED ''api_key'' actor (key_id k)
                 (JObj [(''prefix'', JStr (key_prefix k))]) (put_key k1 db))))"

definition list_clients :: "keys_db \<Rightarrow> api_client list" where
  "list_clients db = sort_key client_name (kd_clients db)"

section \<open>Using a key\<close>

text \<open>
  \<open>GatewayService.authenticate\<close>: the key row is the one the credential hashes to, and the use is
  stamped on it.
\<close>

definition authenticate ::
    "(string \<Rightarrow> string) \<Rightarrow> timestamp \<Rightarrow> string \<Rightarrow> keys_db \<Rightarrow> ((api_key \<times> api_client) \<times> keys_db) result" where
  "authenticate hash now credential db =
     (case key_by_hash (hash credential) db of
        None \<Rightarrow> Inl (AuthenticationError ''Invalid API key.'')
      | Some k \<Rightarrow>
          if \<not> key_is_active now k
          then Inl (AuthenticationError
            (''This API key has been '' @ (if key_revoked k \<noteq> None then ''revoked'' else ''expired'') @ ''.''))
          else (case client_with (key_client k) db of
                  None \<Rightarrow> Inl (AuthenticationError ''The application this key belongs to is disabled.'')
                | Some c \<Rightarrow>
                    if \<not> client_enabled c
                    then Inl (AuthenticationError ''The application this key belongs to is disabled.'')
                    else (let k1 = k\<lparr>key_last_used := Some now\<rparr> in Inr ((k1, c), put_key k1 db))))"

section \<open>The tables stay well formed\<close>

text \<open>Ids and hashes are unique, ids come from the counter, and a key's client exists.\<close>

definition keys_inv :: "keys_db \<Rightarrow> bool" where
  "keys_inv db =
     (distinct (map key_id (kd_keys db)) \<and> distinct (map key_hash (kd_keys db)) \<and>
      distinct (map client_id (kd_clients db)) \<and> distinct (map client_name (kd_clients db)) \<and>
      (\<forall>k \<in> set (kd_keys db). key_id k < kd_next db \<and> key_client k \<in> client_id ` set (kd_clients db)) \<and>
      (\<forall>c \<in> set (kd_clients db). client_id c < kd_next db \<and>
         (client_secret c \<noteq> None \<longrightarrow> client_trusted c)))"


lemma put_key_fields [simp]:
  "kd_clients (put_key k db) = kd_clients db" "kd_next (put_key k db) = kd_next db"
  "kd_trail (put_key k db) = kd_trail db"
  by (simp_all add: put_key_def)

lemma key_record_fields [simp]:
  "kd_clients (key_record a kd u i m db) = kd_clients db" "kd_keys (key_record a kd u i m db) = kd_keys db"
  "kd_next (key_record a kd u i m db) = kd_next db"
  by (simp_all add: key_record_def)

lemma keys_inv_record [simp]: "keys_inv (key_record a kd u i m db) = keys_inv db"
  by (simp add: keys_inv_def)

lemma key_with_Some: "key_with i db = Some k \<Longrightarrow> k \<in> set (kd_keys db) \<and> key_id k = i"
  unfolding key_with_def by (rule find_row_Some)

lemma key_by_hash_Some: "key_by_hash h db = Some k \<Longrightarrow> k \<in> set (kd_keys db) \<and> key_hash k = h"
  unfolding key_by_hash_def by (rule find_row_Some)

lemma put_key_rows:
  assumes "keys_inv db" "k \<in> set (kd_keys db)" "key_id k1 = key_id k"
  shows "set (kd_keys (put_key k1 db)) = insert k1 (set (kd_keys db) - {k})"
proof -
  have "r = k" if "r \<in> set (kd_keys db)" "key_id r = key_id k" for r
    using assms(1,2) that by (auto simp: keys_inv_def distinct_map inj_on_def)
  with assms(2,3) show ?thesis by (auto simp: put_key_def set_update_rows image_iff)
qed

lemma put_key_inv:
  assumes "keys_inv db" "k \<in> set (kd_keys db)"
    and "key_id k1 = key_id k" "key_hash k1 = key_hash k" "key_client k1 = key_client k"
  shows "keys_inv (put_key k1 db)"
proof -
  have "r = k" if "r \<in> set (kd_keys db)" "key_id r = key_id k" for r
    using assms(1,2) that by (auto simp: keys_inv_def distinct_map inj_on_def)
  then have f: "map f (kd_keys (put_key k1 db)) = map f (kd_keys db)" if "f k1 = f k" for f :: "api_key \<Rightarrow> 'x"
    using that assms(3) by (auto simp: put_key_def update_rows_def)
  have "\<forall>r \<in> set (kd_keys (put_key k1 db)). key_id r < kd_next db \<and> key_client r \<in> client_id ` set (kd_clients db)"
    using assms by (auto simp: put_key_rows keys_inv_def)
  with assms(1) f [of key_id] f [of key_hash] assms(3,4) show ?thesis by (simp add: keys_inv_def)
qed

section \<open>What each operation leaves\<close>

lemma add_client_inv:
  assumes "keys_inv db" "client_id c = kd_next db" "client_name c \<notin> client_name ` set (kd_clients db)"
    and "client_secret c \<noteq> None \<longrightarrow> client_trusted c"
  shows "keys_inv (db\<lparr>kd_clients := kd_clients db @ [c], kd_next := kd_next db + 1\<rparr>)"
proof -
  have "client_id x \<noteq> kd_next db" if "x \<in> set (kd_clients db)" for x
    using assms(1) that by (fastforce simp: keys_inv_def)
  then have "kd_next db \<notin> client_id ` set (kd_clients db)" by (metis imageE)
  with assms show ?thesis unfolding keys_inv_def by (simp add: less_Suc_eq)
qed

lemma add_key_inv:
  assumes "keys_inv db" "key_id k = kd_next db" "key_hash k \<notin> key_hash ` set (kd_keys db)"
    and "key_client k \<in> client_id ` set (kd_clients db)"
  shows "keys_inv (db\<lparr>kd_keys := kd_keys db @ [k], kd_next := kd_next db + 1\<rparr>)"
proof -
  have "key_id x \<noteq> kd_next db" if "x \<in> set (kd_keys db)" for x
    using assms(1) that by (fastforce simp: keys_inv_def)
  then have "kd_next db \<notin> key_id ` set (kd_keys db)" by (metis imageE)
  with assms show ?thesis unfolding keys_inv_def by (simp add: less_Suc_eq)
qed

lemma create_client_ok:
  assumes "keys_inv db" "create_client env name d actor trusted secret db = Inr (c, db')"
  shows "keys_inv db'" "kd_keys db' = kd_keys db"
proof -
  from assms(2) have c: "client_by_name name db = None" "client_id c = kd_next db" "client_name c = name"
    "client_secret c \<noteq> None \<longrightarrow> client_trusted c"
    and db': "keys_inv db' = keys_inv (db\<lparr>kd_clients := kd_clients db @ [c], kd_next := kd_next db + 1\<rparr>)"
    "kd_keys db' = kd_keys db"
    by (auto simp: create_client_def Let_def split: if_splits)
  show "keys_inv db'"
    unfolding db'(1) by (rule add_client_inv [OF assms(1)])
      (use c in \<open>auto simp: client_by_name_def find_row_None\<close>)
  show "kd_keys db' = kd_keys db" by (rule db'(2))
qed

lemma create_key_ok:
  assumes "keys_inv db"
    and "create_key env client name limit expires actor scopes db = Done (Inr ((k, full), db'))"
  shows "keys_inv db'" "kd_keys db' = kd_keys db @ [k]" "key_id k = kd_next db"
    "key_client k = client" "key_scopes k = given scopes []" "key_limit k = limit"
    "key_expires k = expires" "key_revoked k = None" "key_hash k = ke_hash env full"
    "key_is_active (ke_now env) k" "kd_clients db' = kd_clients db"
proof -
  have client: "client_with client db = Some c \<Longrightarrow> client_id c = client \<and> c \<in> set (kd_clients db)" for c
    unfolding client_with_def using find_row_Some by fastforce
  show k: "kd_keys db' = kd_keys db @ [k]" "key_id k = kd_next db" "key_client k = client"
    "key_scopes k = given scopes []" "key_limit k = limit" "key_expires k = expires"
    "key_revoked k = None" "key_hash k = ke_hash env full" "key_is_active (ke_now env) k"
    "kd_clients db' = kd_clients db"
    using assms client
    by (auto simp: create_key_def Let_def generate_api_key_def mint_prefixed_token_def key_is_active_def
        split: if_splits option.splits)
  from assms(2) client have new: "key_by_hash (key_hash k) db = None" "client \<in> client_id ` set (kd_clients db)"
    "keys_inv db' = keys_inv (db\<lparr>kd_keys := kd_keys db @ [k], kd_next := kd_next db + 1\<rparr>)"
    by (auto simp: create_key_def Let_def generate_api_key_def mint_prefixed_token_def
        split: if_splits option.splits)
  show "keys_inv db'"
    unfolding new(3) by (rule add_key_inv [OF assms(1)])
      (use k new in \<open>auto simp: key_by_hash_def find_row_None\<close>)
qed

lemma rotate_key_ok:
  assumes inv: "keys_inv db"
    and ok: "rotate_key env i grace actor iso_text db = Done (Inr ((new, full, old1), db'))"
  obtains old db1 where "key_with i db = Some old" "key_revoked old = None" "0 \<le> grace"
    "create_key env (key_client old) (key_name old @ '' (rotated)'') (key_limit old)
       (key_expires old) actor (Some (key_scopes old)) db = Done (Inr ((new, full), db1))"
    "old1 = old\<lparr>key_expires := Some (rotation_deadline (ke_now env) grace old),
                key_rotated_to := Some (key_id new)\<rparr>"
    "kd_keys db' = kd_keys (put_key old1 db1)" "kd_clients db' = kd_clients db"
    "keys_inv db'"
proof -
  from ok obtain old db1 where *: "key_with i db = Some old" "key_revoked old = None" "0 \<le> grace"
    "create_key env (key_client old) (key_name old @ '' (rotated)'') (key_limit old)
       (key_expires old) actor (Some (key_scopes old)) db = Done (Inr ((new, full), db1))"
    "old1 = old\<lparr>key_expires := Some (rotation_deadline (ke_now env) grace old),
                key_rotated_to := Some (key_id new)\<rparr>"
    "kd_keys db' = kd_keys (put_key old1 db1)" "kd_clients db' = kd_clients db1"
    "keys_inv db' = keys_inv (put_key old1 db1)"
    by (auto simp: rotate_key_def Let_def split: option.splits if_splits outcome.splits sum.splits)
  have old: "old \<in> set (kd_keys db)" using key_with_Some [OF *(1)] by simp
  note c = create_key_ok [OF inv *(4)]
  have "keys_inv db'"
    unfolding *(8) by (rule put_key_inv [OF c(1), of old]) (use c(2) old *(5) in auto)
  with * c show ?thesis by (intro that) auto
qed

lemma revoke_key_ok:
  assumes inv: "keys_inv db" and ok: "revoke_key now i actor db = Inr (k1, db')"
  obtains k where "key_with i db = Some k"
    "k1 = (if key_revoked k = None then k\<lparr>key_revoked := Some now\<rparr> else k)"
    "kd_keys db' = kd_keys (put_key k1 db)" "kd_clients db' = kd_clients db" "keys_inv db'"
proof -
  from ok obtain k where *: "key_with i db = Some k"
    "k1 = (if key_revoked k = None then k\<lparr>key_revoked := Some now\<rparr> else k)"
    "kd_keys db' = kd_keys (put_key k1 db)" "kd_clients db' = kd_clients db"
    "keys_inv db' = keys_inv (put_key k1 db)"
    by (auto simp: revoke_key_def Let_def split: option.splits)
  have "keys_inv db'"
    unfolding *(5) by (rule put_key_inv [OF inv, of k]) (use key_with_Some [OF *(1)] *(2) in auto)
  with * show ?thesis by (intro that)
qed

lemma authenticate_ok:
  assumes inv: "keys_inv db" and ok: "authenticate hash now credential db = Inr ((k1, c), db')"
  obtains k where "k \<in> set (kd_keys db)" "key_hash k = hash credential" "key_is_active now k"
    "k1 = k\<lparr>key_last_used := Some now\<rparr>" "client_with (key_client k) db = Some c" "client_enabled c"
    "db' = put_key k1 db" "keys_inv db'"
proof -
  from ok obtain k where *: "key_by_hash (hash credential) db = Some k" "key_is_active now k"
    "client_with (key_client k) db = Some c" "client_enabled c"
    "k1 = k\<lparr>key_last_used := Some now\<rparr>" "db' = put_key k1 db"
    by (auto simp: authenticate_def Let_def split: option.splits if_splits)
  have "keys_inv db'"
    unfolding *(6) by (rule put_key_inv [OF inv, of k]) (use key_by_hash_Some [OF *(1)] *(5) in auto)
  with * key_by_hash_Some [OF *(1)] show ?thesis by (intro that) auto
qed

section \<open>Every sequence of requests\<close>

text \<open>One committed request of the portal or the gateway; the clock is the request's own.\<close>

inductive keys_step :: "keys_db \<Rightarrow> keys_db \<Rightarrow> bool" where
  step_client: "create_client env name d actor trusted secret db = Inr (c, db') \<Longrightarrow> keys_step db db'"
| step_create: "create_key env client name limit expires actor scopes db = Done (Inr (r, db'))
    \<Longrightarrow> keys_step db db'"
| step_rotate: "rotate_key env i grace actor iso_text db = Done (Inr (r, db')) \<Longrightarrow> keys_step db db'"
| step_revoke: "revoke_key now i actor db = Inr (k, db') \<Longrightarrow> keys_step db db'"
| step_use: "authenticate hash now credential db = Inr (r, db') \<Longrightarrow> keys_step db db'"

text \<open>How a key row may change: its identity and rights are fixed, its life only shortens.\<close>

definition ages_to :: "api_key \<Rightarrow> api_key \<Rightarrow> bool" where
  "ages_to k k' =
     (key_id k' = key_id k \<and> key_hash k' = key_hash k \<and> key_client k' = key_client k \<and>
      key_scopes k' = key_scopes k \<and> key_limit k' = key_limit k \<and>
      (\<forall>t. key_is_active t k' \<longrightarrow> key_is_active t k))"

lemma ages_to_refl [simp]: "ages_to k k"
  by (simp add: ages_to_def)

lemma ages_to_trans: "ages_to a b \<Longrightarrow> ages_to b c \<Longrightarrow> ages_to a c"
  by (simp add: ages_to_def)

lemma put_key_ages:
  assumes "keys_inv db" "k \<in> set (kd_keys db)" "ages_to k k1" "x \<in> set (kd_keys db)"
  shows "\<exists>x' \<in> set (kd_keys (put_key k1 db)). ages_to x x'"
  using assms put_key_rows [OF assms(1,2), of k1] by (cases "x = k") (auto simp: ages_to_def)

lemma rotation_ages:
  "ages_to old (old\<lparr>key_expires := Some (rotation_deadline now grace old), key_rotated_to := n\<rparr>)"
  by (auto simp: ages_to_def key_is_active_def rotation_deadline_def Let_def split: option.splits)

lemma keys_step_ok:
  assumes "keys_step db db'" "keys_inv db"
  shows "keys_inv db' \<and> (\<forall>x \<in> set (kd_keys db). \<exists>x' \<in> set (kd_keys db'). ages_to x x')"
  using assms
proof cases
  case step_client
  with create_client_ok [OF assms(2)] show ?thesis by (metis ages_to_refl)
next
  case (step_create env client name limit expires actor scopes r)
  then obtain k full where "create_key env client name limit expires actor scopes db = Done (Inr ((k, full), db'))"
    by (cases r) auto
  from create_key_ok [OF assms(2) this] show ?thesis by (metis UnCI ages_to_refl set_append)
next
  case (step_rotate env i grace actor iso_text r)
  then obtain new full old1 where
    "rotate_key env i grace actor iso_text db = Done (Inr ((new, full, old1), db'))" by (cases r) auto
  then obtain old db1 where *: "key_with i db = Some old"
    "create_key env (key_client old) (key_name old @ '' (rotated)'') (key_limit old)
       (key_expires old) actor (Some (key_scopes old)) db = Done (Inr ((new, full), db1))"
    "old1 = old\<lparr>key_expires := Some (rotation_deadline (ke_now env) grace old),
                key_rotated_to := Some (key_id new)\<rparr>"
    "kd_keys db' = kd_keys (put_key old1 db1)" "keys_inv db'"
    by (rule rotate_key_ok [OF assms(2)])
  have "old \<in> set (kd_keys db)" using key_with_Some [OF *(1)] by simp
  then have "\<exists>x' \<in> set (kd_keys db'). ages_to x x'" if "x \<in> set (kd_keys db)" for x
    unfolding *(4) by (intro put_key_ages [of db1 old])
      (use create_key_ok [OF assms(2) *(2)] that *(3) rotation_ages in auto)
  with *(5) show ?thesis by blast
next
  case (step_revoke now i actor k1)
  then obtain k where *: "key_with i db = Some k"
    "k1 = (if key_revoked k = None then k\<lparr>key_revoked := Some now\<rparr> else k)"
    "kd_keys db' = kd_keys (put_key k1 db)" "keys_inv db'"
    by - (rule revoke_key_ok [OF assms(2)])
  have "ages_to k k1" using *(2) by (auto simp: ages_to_def key_is_active_def)
  then have "\<exists>x' \<in> set (kd_keys db'). ages_to x x'" if "x \<in> set (kd_keys db)" for x
    unfolding *(3) using put_key_ages [OF assms(2) _ _ that] key_with_Some [OF *(1)] by blast
  with *(4) show ?thesis by blast
next
  case (step_use hash now credential r)
  then obtain k1 c where "authenticate hash now credential db = Inr ((k1, c), db')" by (cases r) auto
  then obtain k where *: "k \<in> set (kd_keys db)" "k1 = k\<lparr>key_last_used := Some now\<rparr>"
    "db' = put_key k1 db" "keys_inv db'"
    by (rule authenticate_ok [OF assms(2)])
  have "ages_to k k1" using *(2) by (auto simp: ages_to_def key_is_active_def)
  then have "\<exists>x' \<in> set (kd_keys db'). ages_to x x'" if "x \<in> set (kd_keys db)" for x
    unfolding *(3) using put_key_ages [OF assms(2) *(1) _ that] by blast
  with *(4) show ?thesis by blast
qed

lemma keys_steps_ok:
  assumes "keys_step\<^sup>*\<^sup>* db db'" "keys_inv db"
  shows "keys_inv db' \<and> (\<forall>x \<in> set (kd_keys db). \<exists>x' \<in> set (kd_keys db'). ages_to x x')"
  using assms(1)
proof induction
  case base
  with assms(2) show ?case by (metis ages_to_refl)
next
  case (step b c)
  with keys_step_ok [OF step.hyps(2)] show ?case by (metis ages_to_trans)
qed

end
