(* ===== verification/Identity.thy ===== *)
theory Identity
  imports Api_Keys
begin

text \<open>
  Who a gateway call is for, \<open>backend/app/services/identity.py\<close>.  Request headers are a lookup by
  name; \<open>jwt.decode\<close> (\<open>None\<close> when it raises \<open>InvalidTokenError\<close>) and the cipher's \<open>decrypt\<close>
  (\<open>None\<close> when it raises) are arguments.
\<close>

record end_user =
  eu_subject :: string
  eu_trusted :: bool

record gateway_settings =
  gw_jwt_header :: string
  gw_jwt_issuer :: string
  gw_jwt_claims :: "string list"
  gw_headers :: "string list"

definition default_gateway_settings :: gateway_settings where
  "default_gateway_settings =
     \<lparr>gw_jwt_header = ''X-OpenWebUI-User-Jwt'', gw_jwt_issuer = ''open-webui'',
      gw_jwt_claims = [''email'', ''sub''],
      gw_headers = [''X-OpenWebUI-User-Email'', ''X-OpenWebUI-User-Id'']\<rparr>"

type_synonym headers = "string \<Rightarrow> string option"

text \<open>The arguments of \<open>jwt_decode\<close> are the token, the secret and the issuer it must name.\<close>

record identity_env =
  ie_jwt_decode :: "string \<Rightarrow> string \<Rightarrow> string \<Rightarrow> (string \<times> json) list option"
  ie_decrypt :: "string \<Rightarrow> string option"

definition identity_max_length :: nat where
  "identity_max_length = 255"

definition subject_of :: "string \<Rightarrow> string" where
  "subject_of s = take identity_max_length (strip s)"

fun first_header :: "headers \<Rightarrow> string list \<Rightarrow> end_user option" where
  "first_header hs [] = None"
| "first_header hs (h # rest) =
     (case hs h of
        Some s \<Rightarrow> if strip s \<noteq> [] then Some \<lparr>eu_subject = subject_of s, eu_trusted = True\<rparr>
                  else first_header hs rest
      | None \<Rightarrow> first_header hs rest)"

fun first_claim :: "(string \<times> json) list \<Rightarrow> string list \<Rightarrow> end_user option" where
  "first_claim claims [] = None"
| "first_claim claims (c # rest) =
     (case json_get claims c of
        Some (JStr s) \<Rightarrow> if strip s \<noteq> [] then Some \<lparr>eu_subject = subject_of s, eu_trusted = True\<rparr>
                         else first_claim claims rest
      | _ \<Rightarrow> first_claim claims rest)"

definition signing_secret :: "identity_env \<Rightarrow> api_client \<Rightarrow> string option" where
  "signing_secret env c =
     (if \<not> truthy (client_secret c) then None else ie_decrypt env (the (client_secret c)))"

definition from_jwt :: "identity_env \<Rightarrow> gateway_settings \<Rightarrow> headers \<Rightarrow> string \<Rightarrow> end_user option" where
  "from_jwt env st hs secret =
     (if \<not> truthy (hs (gw_jwt_header st)) then None
      else (case ie_jwt_decode env (the (hs (gw_jwt_header st))) secret (gw_jwt_issuer st) of
              None \<Rightarrow> None
            | Some claims \<Rightarrow> first_claim claims (gw_jwt_claims st)))"

definition resolve_forwarded_identity ::
    "identity_env \<Rightarrow> gateway_settings \<Rightarrow> headers \<Rightarrow> api_client \<Rightarrow> end_user option" where
  "resolve_forwarded_identity env st hs c =
     (if \<not> client_trusted c then None
      else (case signing_secret env c of
              Some secret \<Rightarrow> from_jwt env st hs secret
            | None \<Rightarrow> first_header hs (gw_headers st)))"

definition self_reported_identity :: "(string \<times> json) list \<Rightarrow> end_user option" where
  "self_reported_identity body =
     (case json_get body ''user'' of
        Some (JStr s) \<Rightarrow> if strip s \<noteq> [] then Some \<lparr>eu_subject = subject_of s, eu_trusted = False\<rparr>
                         else None
      | _ \<Rightarrow> None)"

section \<open>Lemmas\<close>

lemma subject_of_bounds [simp]: "length (subject_of s) \<le> 255"
  "strip s \<noteq> [] \<Longrightarrow> subject_of s \<noteq> []"
  by (simp_all add: subject_of_def identity_max_length_def)

lemma first_header_Some:
  "first_header hs names = Some u \<Longrightarrow>
     \<exists>h \<in> set names. \<exists>s. hs h = Some s \<and> strip s \<noteq> [] \<and> u = \<lparr>eu_subject = subject_of s, eu_trusted = True\<rparr>"
  by (induction hs names rule: first_header.induct) (auto split: option.splits if_splits)

lemma first_claim_Some:
  "first_claim claims names = Some u \<Longrightarrow>
     \<exists>c \<in> set names. \<exists>s. json_get claims c = Some (JStr s) \<and> strip s \<noteq> [] \<and>
       u = \<lparr>eu_subject = subject_of s, eu_trusted = True\<rparr>"
  by (induction claims names rule: first_claim.induct)
     (auto split: option.splits json.splits if_splits)

lemma self_reported_Some:
  "self_reported_identity body = Some u \<Longrightarrow>
     \<exists>s. json_get body ''user'' = Some (JStr s) \<and> strip s \<noteq> [] \<and>
       u = \<lparr>eu_subject = subject_of s, eu_trusted = False\<rparr>"
  by (auto simp: self_reported_identity_def split: option.splits json.splits if_splits)

text \<open>
  A client whose secret opens: what names the end user is a verified token, so two requests
  with the same token are for the same person whatever else their headers say.
\<close>

lemma signed_identity_only:
  assumes "client_trusted c" "truthy (client_secret c)" "ie_decrypt env (the (client_secret c)) = Some secret"
  shows "resolve_forwarded_identity env st hs c = from_jwt env st hs secret"
  using assms by (simp add: resolve_forwarded_identity_def signing_secret_def)

lemma from_jwt_Some:
  assumes "from_jwt env st hs secret = Some u"
  obtains token claims name s where "hs (gw_jwt_header st) = Some token"
    "ie_jwt_decode env token secret (gw_jwt_issuer st) = Some claims"
    "name \<in> set (gw_jwt_claims st)" "json_get claims name = Some (JStr s)" "strip s \<noteq> []"
    "u = \<lparr>eu_subject = subject_of s, eu_trusted = True\<rparr>"
  using assms first_claim_Some
  by (fastforce simp: from_jwt_def truthy_iff split: option.splits if_splits)

lemma forwarded_identity_trusted:
  "resolve_forwarded_identity env st hs c = Some u \<Longrightarrow> eu_trusted u"
  using first_header_Some [of hs "gw_headers st" u]
  by (auto simp: resolve_forwarded_identity_def split: if_splits option.splits elim!: from_jwt_Some)

end
