(* ===== verification/Llm_Provider.thy ===== *)
theory Llm_Provider
  imports Platform_Prelude "HOL-Library.Monad_Syntax"
begin

text \<open>
  The OpenAI-protocol client of a served endpoint, \<open>backend/app/services/llm_provider.py\<close>
  (\<open>VLLMProvider\<close>): the payload it sends, how it reads a completion, a stream of server-sent
  events and an embedding answer.  The HTTP exchange, \<open>json.loads\<close> and \<open>str\<close> of a JSON value are
  arguments.  An option-valued reader is \<open>None\<close> where the Python raises
  (\<open>AttributeError\<close>, \<open>TypeError\<close>, \<open>IndexError\<close>); token counts are integers, and another value in
  their place counts as such an error.
\<close>

section \<open>Reading JSON\<close>

definition json_truthy :: "json \<Rightarrow> bool" where
  "json_truthy j =
     (case j of JNull \<Rightarrow> False | JBool b \<Rightarrow> b | JInt i \<Rightarrow> i \<noteq> 0 | JNum r \<Rightarrow> r \<noteq> 0
        | JStr s \<Rightarrow> s \<noteq> [] | JList xs \<Rightarrow> xs \<noteq> [] | JObj kvs \<Rightarrow> kvs \<noteq> [])"

definition json_or :: "json \<Rightarrow> json \<Rightarrow> json" where
  "json_or a b = (if json_truthy a then a else b)"

text \<open>\<open>obj.get(key, default)\<close>; a value without \<open>get\<close> raises.\<close>

definition get_default :: "json \<Rightarrow> string \<Rightarrow> json \<Rightarrow> json option" where
  "get_default j key d =
     (case j of JObj kvs \<Rightarrow> Some (given (json_get kvs key) d) | _ \<Rightarrow> None)"

definition get_field :: "json \<Rightarrow> string \<Rightarrow> json option" where
  "get_field j key = get_default j key JNull"

text \<open>What \<open>tuple(x)\<close> or \<open>list(x)\<close> iterates over, and \<open>x[0]\<close>.\<close>

definition iterated :: "json \<Rightarrow> json list option" where
  "iterated j =
     (case j of JList xs \<Rightarrow> Some xs | JStr s \<Rightarrow> Some (map (\<lambda>c. JStr [c]) s)
        | JObj kvs \<Rightarrow> Some (map (JStr \<circ> fst) kvs) | _ \<Rightarrow> None)"

definition first_item :: "json \<Rightarrow> json option" where
  "first_item j =
     (case j of JList (x # _) \<Rightarrow> Some x | JStr (c # _) \<Rightarrow> Some (JStr [c]) | _ \<Rightarrow> None)"

definition int_of_json :: "json \<Rightarrow> int option" where
  "int_of_json j = (case j of JInt n \<Rightarrow> Some n | _ \<Rightarrow> None)"

section \<open>Messages and answers\<close>

record chat_message =
  cm_role :: json
  cm_content :: json
  cm_name :: json
  cm_tool_call_id :: json
  cm_tool_calls :: "json list"

record token_usage =
  tu_prompt :: int
  tu_completion :: int
  tu_total :: int

definition no_usage :: token_usage where
  "no_usage = \<lparr>tu_prompt = 0, tu_completion = 0, tu_total = 0\<rparr>"

record chat_completion =
  cc_id :: json
  cc_model :: json
  cc_content :: json
  cc_finish :: json
  cc_tool_calls :: "json list"
  cc_usage :: token_usage

record chat_chunk =
  ch_id :: json
  ch_model :: json
  ch_delta :: json
  ch_finish :: json
  ch_tool_calls :: "json list"
  ch_usage :: "token_usage option"

record embedding_result =
  er_model :: json
  er_vectors :: "json list list"
  er_usage :: token_usage

definition usage_of :: "json \<Rightarrow> token_usage option" where
  "usage_of payload =
     (if \<not> json_truthy payload then Some no_usage
      else do {
        p \<leftarrow> get_default payload ''prompt_tokens'' (JInt 0) \<bind> int_of_json;
        c \<leftarrow> get_default payload ''completion_tokens'' (JInt 0) \<bind> int_of_json;
        t \<leftarrow> get_default payload ''total_tokens'' (JInt (p + c)) \<bind> int_of_json;
        Some \<lparr>tu_prompt = p, tu_completion = c, tu_total = t\<rparr>
      })"

definition message_payload :: "chat_message \<Rightarrow> json" where
  "message_payload m =
     JObj ([(''role'', cm_role m)]
       @ (if cm_content m \<noteq> JNull then [(''content'', cm_content m)] else [])
       @ (if json_truthy (cm_name m) then [(''name'', cm_name m)] else [])
       @ (if json_truthy (cm_tool_call_id m) then [(''tool_call_id'', cm_tool_call_id m)] else [])
       @ (if cm_tool_calls m \<noteq> [] then [(''tool_calls'', JList (cm_tool_calls m))] else []))"

text \<open>The optional arguments of a chat, \<open>JNull\<close> where the caller passes \<open>None\<close>.\<close>

record chat_options =
  co_temperature :: json
  co_max_tokens :: json
  co_tools :: json

text \<open>No caller in the repository passes \<open>extra\<close>.\<close>

definition chat_payload ::
    "chat_message list \<Rightarrow> string \<Rightarrow> chat_options \<Rightarrow> bool \<Rightarrow> json option" where
  "chat_payload messages model opts stream =
     do {
       tools \<leftarrow> (if json_truthy (co_tools opts) then iterated (co_tools opts) \<bind> (\<lambda>ts. Some [(''tools'', JList ts)])
                else Some []);
       Some (JObj ([(''model'', JStr model), (''messages'', JList (map message_payload messages)),
                    (''stream'', JBool stream)]
         @ (if co_temperature opts \<noteq> JNull then [(''temperature'', co_temperature opts)] else [])
         @ (if co_max_tokens opts \<noteq> JNull then [(''max_tokens'', co_max_tokens opts)] else [])
         @ tools
         @ (if stream then [(''stream_options'', JObj [(''include_usage'', JBool True)])] else [])))
     }"

section \<open>The endpoint\<close>

record http_reply =
  rp_status :: nat
  rp_json :: "json option"
  rp_text :: string

text \<open>
  A streamed reply: its lines, and the class of the \<open>httpx\<close> error that cuts it off, if any.
  \<open>Inl\<close> on the left of an exchange is the class of the error that kept it from starting.
\<close>

record http_stream =
  hs_reply :: http_reply
  hs_lines :: "string list"
  hs_broken :: "string option"

record http_env =
  he_post :: "string \<Rightarrow> string \<Rightarrow> string option \<Rightarrow> json \<Rightarrow> string + http_reply"
  he_stream :: "string \<Rightarrow> string \<Rightarrow> string option \<Rightarrow> json \<Rightarrow> string + http_stream"
  he_loads :: "string \<Rightarrow> json option"
  he_text :: "json \<Rightarrow> string"

record vllm_provider =
  vp_base :: string
  vp_key :: "string option"

definition make_provider :: "string \<Rightarrow> string option \<Rightarrow> vllm_provider" where
  "make_provider base key =
     \<lparr>vp_base = rstrip_char CHR ''/'' base, vp_key = (if truthy key then key else None)\<rparr>"

text \<open>
  An answer: \<open>Inl\<close> is a \<open>ProviderError\<close> with its text; \<open>Raised\<close> any other exception.
\<close>

type_synonym 'a answer = "(string + 'a) outcome"

definition raised_type :: "'a answer" where
  "raised_type = Raised ''unexpected shape''"

definition raise_for_status :: "http_env \<Rightarrow> http_reply \<Rightarrow> unit answer" where
  "raise_for_status env r =
     (if rp_status r < 400 then Done (Inr ())
      else (let failed = (\<lambda>detail. Done (Inl (''Inference runtime returned '' @ nat_str (rp_status r)
                    @ '': '' @ take 300 detail)))
            in case rp_json r of
                 None \<Rightarrow> failed (rp_text r)
               | Some body \<Rightarrow>
                   (case (get_field body ''error'', get_field body ''detail'') of
                      (Some e, Some d) \<Rightarrow> failed (he_text env (json_or e (json_or d body)))
                    | _ \<Rightarrow> raised_type)))"

definition read_completion :: "string \<Rightarrow> json \<Rightarrow> chat_completion option" where
  "read_completion model body =
     do {
       choices \<leftarrow> get_field body ''choices'';
       choice \<leftarrow> first_item (json_or choices (JList [JObj []]));
       message0 \<leftarrow> get_field choice ''message'';
       let message = json_or message0 (JObj []);
       ident \<leftarrow> get_default body ''id'' (JStr []);
       name \<leftarrow> get_default body ''model'' (JStr model);
       content \<leftarrow> get_field message ''content'';
       finish \<leftarrow> get_field choice ''finish_reason'';
       calls0 \<leftarrow> get_field message ''tool_calls'';
       calls \<leftarrow> iterated (json_or calls0 (JList []));
       used \<leftarrow> get_field body ''usage'' \<bind> usage_of;
       Some \<lparr>cc_id = ident, cc_model = name, cc_content = json_or content (JStr []),
             cc_finish = finish, cc_tool_calls = calls, cc_usage = used\<rparr>
     }"

definition provider_chat ::
    "http_env \<Rightarrow> vllm_provider \<Rightarrow> chat_message list \<Rightarrow> string \<Rightarrow> chat_options \<Rightarrow> chat_completion answer" where
  "provider_chat env p messages model opts =
     (case chat_payload messages model opts False of
        None \<Rightarrow> raised_type
      | Some payload \<Rightarrow>
     (case he_post env (vp_base p) ''/v1/chat/completions'' (vp_key p) payload of
        Inl e \<Rightarrow> Done (Inl (''Inference runtime unreachable: '' @ e))
      | Inr r \<Rightarrow>
     (case raise_for_status env r of
        Done (Inl e) \<Rightarrow> Done (Inl e)
      | Done (Inr _) \<Rightarrow>
          (case rp_json r \<bind> read_completion model of
             None \<Rightarrow> raised_type | Some c \<Rightarrow> Done (Inr c))
      | _ \<Rightarrow> raised_type)))"

section \<open>Streaming\<close>

definition read_chunk :: "string \<Rightarrow> json \<Rightarrow> chat_chunk option" where
  "read_chunk model event =
     do {
       choices0 \<leftarrow> get_field event ''choices'';
       let choices = json_or choices0 (JList []);
       choice \<leftarrow> (if json_truthy choices then first_item choices else Some (JObj []));
       delta0 \<leftarrow> get_field choice ''delta'';
       let delta = json_or delta0 (JObj []);
       ident \<leftarrow> get_default event ''id'' (JStr []);
       name \<leftarrow> get_default event ''model'' (JStr model);
       content \<leftarrow> get_field delta ''content'';
       finish \<leftarrow> get_field choice ''finish_reason'';
       calls0 \<leftarrow> get_field delta ''tool_calls'';
       calls \<leftarrow> iterated (json_or calls0 (JList []));
       used0 \<leftarrow> get_field event ''usage'';
       used \<leftarrow> (if json_truthy used0 then usage_of used0 \<bind> (\<lambda>u. Some (Some u)) else Some None);
       Some \<lparr>ch_id = ident, ch_model = name, ch_delta = json_or content (JStr []), ch_finish = finish,
             ch_tool_calls = calls, ch_usage = used\<rparr>
     }"

text \<open>
  What the generator does at its next step: a chunk, its normal end, a \<open>ProviderError\<close>, or
  another exception.
\<close>

datatype stream_item =
    Chunk chat_chunk
  | Finished
  | Broken string
  | Crashed

definition data_prefix :: string where
  "data_prefix = ''data: ''"

fun read_lines :: "http_env \<Rightarrow> string \<Rightarrow> string list \<Rightarrow> string option \<Rightarrow> stream_item list" where
  "read_lines env model [] broken =
     (case broken of None \<Rightarrow> [Finished] | Some e \<Rightarrow> [Broken (''Inference stream failed: '' @ e)])"
| "read_lines env model (line # lines) broken =
     (if \<not> starts_with data_prefix line then read_lines env model lines broken
      else (let text = strip (remove_prefix data_prefix line)
            in if text = ''[DONE]'' then [Finished]
               else (case he_loads env text of
                       None \<Rightarrow> read_lines env model lines broken
                     | Some event \<Rightarrow>
                         (case read_chunk model event of
                            None \<Rightarrow> [Crashed]
                          | Some c \<Rightarrow> Chunk c # read_lines env model lines broken))))"

definition provider_stream ::
    "http_env \<Rightarrow> vllm_provider \<Rightarrow> chat_message list \<Rightarrow> string \<Rightarrow> chat_options \<Rightarrow> stream_item list" where
  "provider_stream env p messages model opts =
     (case chat_payload messages model opts True of
        None \<Rightarrow> [Crashed]
      | Some payload \<Rightarrow>
     (case he_stream env (vp_base p) ''/v1/chat/completions'' (vp_key p) payload of
        Inl e \<Rightarrow> [Broken (''Inference stream failed: '' @ e)]
      | Inr s \<Rightarrow>
     (case raise_for_status env (hs_reply s) of
        Done (Inl e) \<Rightarrow> [Broken e]
      | Done (Inr _) \<Rightarrow> read_lines env model (hs_lines s) (hs_broken s)
      | _ \<Rightarrow> [Crashed])))"

section \<open>Embeddings\<close>

definition read_row :: "json \<Rightarrow> (int \<times> json list) option" where
  "read_row d =
     do {
       i \<leftarrow> get_default d ''index'' (JInt 0) \<bind> int_of_json;
       e \<leftarrow> get_field d ''embedding'';
       vec \<leftarrow> iterated (json_or e (JList []));
       Some (i, vec)
     }"

definition read_embeddings :: "string \<Rightarrow> json \<Rightarrow> embedding_result option" where
  "read_embeddings model body =
     do {
       rows0 \<leftarrow> get_field body ''data'' \<bind> (\<lambda>d. iterated (json_or d (JList [])));
       rows \<leftarrow> those (map read_row rows0);
       name \<leftarrow> get_default body ''model'' (JStr model);
       used \<leftarrow> get_field body ''usage'' \<bind> usage_of;
       Some \<lparr>er_model = name, er_vectors = map snd (sort_key fst rows), er_usage = used\<rparr>
     }"

definition provider_embeddings ::
    "http_env \<Rightarrow> vllm_provider \<Rightarrow> json list \<Rightarrow> string \<Rightarrow> embedding_result answer" where
  "provider_embeddings env p inputs model =
     (case he_post env (vp_base p) ''/v1/embeddings'' (vp_key p)
             (JObj [(''model'', JStr model), (''input'', JList inputs)]) of
        Inl e \<Rightarrow> Done (Inl (''Inference runtime unreachable: '' @ e))
      | Inr r \<Rightarrow>
     (case raise_for_status env r of
        Done (Inl e) \<Rightarrow> Done (Inl e)
      | Done (Inr _) \<Rightarrow>
          (case rp_json r \<bind> read_embeddings model of
             None \<Rightarrow> raised_type | Some c \<Rightarrow> Done (Inr c))
      | _ \<Rightarrow> raised_type))"

section \<open>What a stream looks like to its reader\<close>

text \<open>Every stream is chunks and then one closing item.\<close>

definition is_chunk :: "stream_item \<Rightarrow> bool" where
  "is_chunk i = (case i of Chunk _ \<Rightarrow> True | _ \<Rightarrow> False)"

definition well_ended :: "stream_item list \<Rightarrow> bool" where
  "well_ended items = (items \<noteq> [] \<and> \<not> is_chunk (last items) \<and> list_all is_chunk (butlast items))"

lemma well_ended_simps [simp]:
  "\<not> well_ended []" "well_ended [Finished]" "well_ended [Broken e]" "well_ended [Crashed]"
  "well_ended (Chunk c # items) = well_ended items"
  by (auto simp: well_ended_def is_chunk_def)

lemma read_lines_well_ended: "well_ended (read_lines env model lines broken)"
  by (induction env model lines broken rule: read_lines.induct)
     (auto simp: Let_def split: option.splits)

lemma provider_stream_well_ended: "well_ended (provider_stream env p messages model opts)"
  by (auto simp: provider_stream_def read_lines_well_ended split: option.splits sum.splits outcome.splits)

text \<open>
  Lines that are no data event, or whose data is no JSON, change nothing: the chunks are those
  of the readable events before \<open>[DONE]\<close>.
\<close>

definition is_noise :: "http_env \<Rightarrow> string \<Rightarrow> bool" where
  "is_noise env line =
     (\<not> starts_with data_prefix line \<or>
      (strip (remove_prefix data_prefix line) \<noteq> ''[DONE]'' \<and>
       he_loads env (strip (remove_prefix data_prefix line)) = None))"

lemma read_lines_noise:
  "read_lines env model lines broken = read_lines env model (filter (\<lambda>l. \<not> is_noise env l) lines) broken"
  by (induction env model lines broken rule: read_lines.induct)
     (auto simp: Let_def is_noise_def split: option.splits)

lemma read_lines_done:
  assumes "starts_with data_prefix line" "strip (remove_prefix data_prefix line) = ''[DONE]''"
  shows "read_lines env model (pre @ line # post) broken = read_lines env model (pre @ [line]) None"
  by (induction pre) (use assms in \<open>auto simp: Let_def split: option.splits\<close>)

text \<open>A streamed request always asks for its usage.\<close>

lemma stream_asks_usage:
  assumes "chat_payload messages model opts True = Some payload"
  shows "get_field payload ''stream_options'' = Some (JObj [(''include_usage'', JBool True)])"
proof -
  from assms obtain ts where ts: "payload = JObj ([(''model'', JStr model),
      (''messages'', JList (map message_payload messages)), (''stream'', JBool True)]
      @ (if co_temperature opts \<noteq> JNull then [(''temperature'', co_temperature opts)] else [])
      @ (if co_max_tokens opts \<noteq> JNull then [(''max_tokens'', co_max_tokens opts)] else [])
      @ ts @ [(''stream_options'', JObj [(''include_usage'', JBool True)])])"
    and "ts = [] \<or> (\<exists>xs. ts = [(''tools'', JList xs)])"
    by (auto simp: chat_payload_def bind_eq_Some_conv split: if_splits)
  then show ?thesis
    by (auto simp: get_field_def get_default_def json_get_def given_def)
qed

end
