(* ===== verification/Gateway.thy ===== *)
theory Gateway
  imports Identity Model_Catalog Llm_Provider
begin

text \<open>
  The AI gateway, \<open>backend/app/services/gateway.py\<close>: scopes, the rate limit, resolution of a
  name to an endpoint, the inference calls and their accounting, and the streamed path with a
  client that may hang up at any point.  Redis, the media engines (\<open>media_provider.py\<close>) and the
  commit of a usage record are arguments; a usage record is written on a session of its own, so
  it stays when the call is answered with an error.
\<close>

section \<open>Scopes\<close>

definition model_scope :: string where
  "model_scope = ''model:''"

definition surfaces_of :: "string list \<Rightarrow> string set" where
  "surfaces_of scopes = set (filter (\<lambda>s. \<not> starts_with model_scope s) scopes)"

definition models_of :: "string list \<Rightarrow> string set" where
  "models_of scopes = set (map (remove_prefix model_scope) (filter (starts_with model_scope) scopes))"

definition check_scope :: "api_key option \<Rightarrow> string \<Rightarrow> string option \<Rightarrow> unit result" where
  "check_scope key surface alias =
     (case key of
        None \<Rightarrow> Inr ()
      | Some k \<Rightarrow>
          if key_scopes k = [] then Inr ()
          else if surfaces_of (key_scopes k) \<noteq> {} \<and> surface \<notin> surfaces_of (key_scopes k)
          then Inl (PermissionDeniedError (''This API key is not scoped for '' @ quoted surface
            @ ''. It may call: '' @ comma_join (sorted_list_of_set (surfaces_of (key_scopes k))) @ ''.''))
          else if models_of (key_scopes k) \<noteq> {} \<and>
            (case alias of None \<Rightarrow> False | Some a \<Rightarrow> a \<notin> models_of (key_scopes k))
          then Inl (PermissionDeniedError (''This API key is not scoped for the model ''
            @ quoted (the alias) @ ''. It may use: ''
            @ comma_join (sorted_list_of_set (models_of (key_scopes k))) @ ''.''))
          else Inr ())"

section \<open>The rate limit\<close>

text \<open>
  \<open>INCR\<close> and \<open>EXPIRE\<close> of a Redis server at a time of its clock; \<open>None\<close> is an exception of the client.
\<close>

record 's redis =
  rd_incr :: "'s \<Rightarrow> timestamp \<Rightarrow> string \<Rightarrow> (nat \<times> 's) option"
  rd_expire :: "'s \<Rightarrow> timestamp \<Rightarrow> string \<Rightarrow> nat \<Rightarrow> 's option"

definition window_of :: "timestamp \<Rightarrow> int" where
  "window_of now = now div 60000000"

definition rate_bucket :: "uuid \<Rightarrow> int \<Rightarrow> string" where
  "rate_bucket key window = ''ratelimit:'' @ uuid_str key @ '':'' @ int_str window"

text \<open>The \<open>try\<close> block: the count, unless Redis failed, and the server it leaves.\<close>

definition count_request :: "'s redis \<Rightarrow> timestamp \<Rightarrow> uuid \<Rightarrow> 's \<Rightarrow> nat option \<times> 's" where
  "count_request red now key s =
     (let bucket = rate_bucket key (window_of now)
      in case rd_incr red s now bucket of
           None \<Rightarrow> (None, s)
         | Some (count, s1) \<Rightarrow>
             if count = 1
             then (case rd_expire red s1 now bucket 120 of
                     None \<Rightarrow> (None, s1)
                   | Some s2 \<Rightarrow> (Some count, s2))
             else (Some count, s1))"

definition check_rate_limit :: "'s redis \<Rightarrow> timestamp \<Rightarrow> api_key \<Rightarrow> 's \<Rightarrow> unit result \<times> 's" where
  "check_rate_limit red now key s =
     (case count_request red now (key_id key) s of
        (None, s1) \<Rightarrow> (Inr (), s1)
      | (Some count, s1) \<Rightarrow>
          if int count > key_limit key
          then (Inl (RateLimitError (''Rate limit of '' @ int_str (key_limit key)
                  @ '' requests/minute exceeded.'')), s1)
          else (Inr (), s1))"

section \<open>Accounting\<close>

record usage_record =
  us_key :: "uuid option"
  us_user :: "uuid option"
  us_endpoint :: string
  us_requested :: string
  us_model :: string
  us_deployment :: uuid
  us_prompt :: int
  us_completion :: int
  us_latency :: rat
  us_status :: nat
  us_streamed :: bool
  us_disconnected :: bool
  us_end_user :: "string option"
  us_trusted :: bool
  us_at :: timestamp

record gateway_context =
  gc_key :: "(api_key \<times> api_client) option"
  gc_user :: "uuid option"
  gc_started :: timestamp
  gc_end_user :: "string option"
  gc_trusted :: bool

text \<open>
  \<open>gd_requests\<close> and \<open>gd_tokens\<close> are the increments of the counters \<open>GATEWAY_REQUESTS\<close> and
  \<open>GATEWAY_TOKENS\<close>, \<open>gd_ttft\<close> the observations of the time to first token.
\<close>

record gateway_db =
  gd_models :: "model list"
  gd_aliases :: "model_alias list"
  gd_deployments :: "deployment list"
  gd_usage :: "usage_record list"
  gd_requests :: "(string \<times> string \<times> string) list"
  gd_tokens :: "(string \<times> string \<times> int) list"
  gd_ttft :: "(string \<times> int) list"

definition status_class :: "nat \<Rightarrow> string" where
  "status_class s = nat_str (s div 100) @ ''xx''"

record target =
  tg_requested :: string
  tg_model :: model
  tg_deployment :: deployment
  tg_url :: string
  tg_served :: string

record transcript =
  tr_text :: string
  tr_language :: "string option"
  tr_duration :: rat

record gateway_env =
  ge_settings :: model_settings
  ge_http :: http_env
  ge_now :: timestamp
  ge_commit :: "usage_record \<Rightarrow> bool"
  ge_transcribe :: "string \<Rightarrow> string \<Rightarrow> (string \<times> json) list \<Rightarrow> transcript answer"
  ge_synthesize :: "string \<Rightarrow> string \<Rightarrow> string \<Rightarrow> (string \<times> json) list \<Rightarrow> string answer"

definition latency_ms :: "timestamp \<Rightarrow> gateway_context \<Rightarrow> rat" where
  "latency_ms now ctx = round2 (of_int (now - gc_started ctx) / 1000)"

definition usage_row ::
    "timestamp \<Rightarrow> gateway_context \<Rightarrow> target \<Rightarrow> bool \<Rightarrow> int \<Rightarrow> int \<Rightarrow> nat \<Rightarrow> bool \<Rightarrow> string \<Rightarrow> usage_record" where
  "usage_row now ctx t streamed prompt completion status gone endpoint =
     \<lparr>us_key = map_option (key_id \<circ> fst) (gc_key ctx), us_user = gc_user ctx, us_endpoint = endpoint,
      us_requested = tg_requested t, us_model = model_name (tg_model t),
      us_deployment = dep_id (tg_deployment t), us_prompt = prompt, us_completion = completion,
      us_latency = latency_ms now ctx, us_status = status, us_streamed = streamed,
      us_disconnected = gone, us_end_user = gc_end_user ctx, us_trusted = gc_trusted ctx, us_at = now\<rparr>"

definition record_usage ::
    "gateway_env \<Rightarrow> gateway_context \<Rightarrow> target \<Rightarrow> bool \<Rightarrow> int \<Rightarrow> int \<Rightarrow> nat \<Rightarrow> bool \<Rightarrow> string
       \<Rightarrow> gateway_db \<Rightarrow> gateway_db" where
  "record_usage env ctx t streamed prompt completion status gone endpoint db =
     (let row = usage_row (ge_now env) ctx t streamed prompt completion status gone endpoint;
          label = model_name (tg_model t)
      in db\<lparr>gd_requests := gd_requests db @ [(label, endpoint, status_class status)],
            gd_tokens := gd_tokens db
              @ (if prompt \<noteq> 0 then [(label, ''prompt'', prompt)] else [])
              @ (if completion \<noteq> 0 then [(label, ''completion'', completion)] else []),
            gd_usage := gd_usage db @ (if ge_commit env row then [row] else [])\<rparr>)"

definition attribute_call :: "(string \<times> json) list \<Rightarrow> gateway_context \<Rightarrow> gateway_context" where
  "attribute_call body ctx =
     (if gc_trusted ctx then ctx
      else (case self_reported_identity body of
              None \<Rightarrow> ctx
            | Some u \<Rightarrow> ctx\<lparr>gc_end_user := Some (eu_subject u)\<rparr>))"

section \<open>Resolution\<close>

definition resolve_model :: "string \<Rightarrow> gateway_db \<Rightarrow> model option" where
  "resolve_model requested db =
     (case get_by_alias requested (gd_aliases db) of
        Some a \<Rightarrow> get_model (alias_model a) (gd_models db)
      | None \<Rightarrow> get_model_by_name requested (gd_models db))"

definition resolve :: "string \<Rightarrow> gateway_db \<Rightarrow> target result" where
  "resolve requested db =
     (case resolve_model requested db of
        None \<Rightarrow> Inl (NotFoundError (''No model or alias named '' @ quoted requested @ ''.''))
      | Some m \<Rightarrow>
          (case filter (\<lambda>d. truthy (dep_url d)) (serving_for_model (model_id m) (gd_deployments db)) of
             [] \<Rightarrow> Inl (DependencyUnavailableError (quoted (model_name m)
                 @ '' is not currently deployed. Deploy it before calling it.''))
           | d # _ \<Rightarrow> Inr \<lparr>tg_requested = requested, tg_model = m, tg_deployment = d,
                          tg_url = or_str (dep_url d) [], tg_served = served_model_name m\<rparr>))"

text \<open>An entry of the model list: its \<open>id\<close> and context length (the other fields are constants and dates).\<close>

record model_entry =
  me_id :: string
  me_context :: "nat option"

definition alias_entries :: "gateway_db \<Rightarrow> model_entry list" where
  "alias_entries db =
     map (\<lambda>a. \<lparr>me_id = alias_name a, me_context =
               (case get_model (alias_model a) (gd_models db) of None \<Rightarrow> None | Some m \<Rightarrow> context_length m)\<rparr>)
       (filter (\<lambda>a. alias_enabled a \<and> serving_for_model (alias_model a) (gd_deployments db) \<noteq> [])
          (list_aliases (gd_aliases db)))"

fun add_deployed :: "model list \<Rightarrow> deployment list \<Rightarrow> model_entry list \<Rightarrow> model_entry list" where
  "add_deployed ms [] entries = entries"
| "add_deployed ms (d # ds) entries =
     (case get_model (dep_model d) ms of
        None \<Rightarrow> add_deployed ms ds entries
      | Some m \<Rightarrow>
          if model_name m \<in> set (map me_id entries) then add_deployed ms ds entries
          else add_deployed ms ds (entries @ [\<lparr>me_id = model_name m, me_context = context_length m\<rparr>]))"

definition list_available :: "gateway_db \<Rightarrow> model_entry list" where
  "list_available db =
     sort_key me_id (add_deployed (gd_models db)
       (list_deployments None [RUNNING] (gd_deployments db)) (alias_entries db))"

definition provider_for :: "gateway_env \<Rightarrow> target \<Rightarrow> vllm_provider" where
  "provider_for env t =
     make_provider (tg_url t)
       (external_key_for (ge_settings env) (model_runtime (tg_model t))
          (if truthy (endpoint_url (tg_model t)) then endpoint_url (tg_model t) else Some (tg_url t)))"

definition provider_for_model ::
    "gateway_env \<Rightarrow> string \<Rightarrow> gateway_db \<Rightarrow> (vllm_provider \<times> string) result" where
  "provider_for_model env name db =
     (case resolve name db of
        Inl e \<Rightarrow> Inl e
      | Inr t \<Rightarrow> Inr (provider_for env t, tg_served t))"

end
