(* ===== verification/Inference.thy ===== *)
theory Inference
  imports Gateway
begin

text \<open>
  The inference calls of \<open>backend/app/services/gateway.py\<close>.  An operation gives its answer and
  the database it leaves: \<open>Inl\<close> is the error the caller gets, \<open>Raised\<close> an exception nobody on the
  path turns into one.  Ids and creation times of answers are left out; frames of a stream are
  the values that are serialised.
\<close>

section \<open>Messages\<close>

definition part_text :: "json \<Rightarrow> string option option" where
  "part_text part =
     (case part of
        JObj _ \<Rightarrow> (case get_default part ''text'' (JStr []) of
                     Some (JStr s) \<Rightarrow> Some (Some s) | _ \<Rightarrow> None)
      | _ \<Rightarrow> Some None)"

fun space_join :: "string list \<Rightarrow> string" where
  "space_join [] = []"
| "space_join [s] = s"
| "space_join (s # ss) = s @ '' '' @ space_join ss"

definition read_message :: "json \<Rightarrow> chat_message option" where
  "read_message raw =
     do {
       content0 \<leftarrow> get_field raw ''content'';
       content \<leftarrow> (case content0 of
                    JList parts \<Rightarrow> those (map part_text parts) \<bind>
                      (\<lambda>ts. Some (JStr (space_join (map the (filter (\<lambda>t. t \<noteq> None) ts)))))
                  | c \<Rightarrow> Some c);
       role \<leftarrow> get_default raw ''role'' (JStr ''user'');
       name \<leftarrow> get_field raw ''name'';
       call \<leftarrow> get_field raw ''tool_call_id'';
       calls \<leftarrow> get_field raw ''tool_calls'' \<bind> (\<lambda>c. iterated (json_or c (JList [])));
       Some \<lparr>cm_role = role, cm_content = content, cm_name = name, cm_tool_call_id = call,
             cm_tool_calls = calls\<rparr>
     }"

definition read_messages :: "json \<Rightarrow> chat_message list option" where
  "read_messages payload =
     iterated (json_or payload (JList [])) \<bind> (\<lambda>raws. those (map read_message raws))"

type_synonym body = "(string \<times> json) list"

definition body_field :: "body \<Rightarrow> string \<Rightarrow> json" where
  "body_field body key = given (json_get body key) JNull"

definition chat_options_of :: "body \<Rightarrow> chat_options" where
  "chat_options_of body =
     \<lparr>co_temperature = body_field body ''temperature'', co_max_tokens = body_field body ''max_tokens'',
      co_tools = body_field body ''tools''\<rparr>"

text \<open>The routers let a call through only with a truthy \<open>model\<close>; a value that is no string finds no row.\<close>

definition resolve_json :: "json \<Rightarrow> gateway_db \<Rightarrow> target result outcome" where
  "resolve_json j db = (case j of JStr s \<Rightarrow> Done (resolve s db) | _ \<Rightarrow> Raised ''no such column value'')"

section \<open>Buffered calls\<close>

record chat_answer =
  an_model :: string
  an_content :: json
  an_tool_calls :: "json list"
  an_finish :: json
  an_usage :: token_usage

definition chat_endpoint :: string where
  "chat_endpoint = ''chat.completions''"

definition no_messages :: app_error where
  "no_messages = ValidationError (quoted ''messages'' @ '' must contain at least one message.'')"

text \<open>What both surfaces do with the answer of a provider: account for it, then answer.\<close>

definition chat_completion_call ::
    "gateway_env \<Rightarrow> body \<Rightarrow> gateway_context \<Rightarrow> gateway_db \<Rightarrow> chat_answer result outcome \<times> gateway_db" where
  "chat_completion_call env body ctx0 db =
     (let ctx = attribute_call body ctx0
      in case resolve_json (body_field body ''model'') db of
           Done (Inl e) \<Rightarrow> (Done (Inl e), db)
         | Done (Inr t) \<Rightarrow>
             (case read_messages (body_field body ''messages'') of
                None \<Rightarrow> (Raised ''unexpected shape'', db)
              | Some [] \<Rightarrow> (Done (Inl no_messages), db)
              | Some messages \<Rightarrow>
                  (case provider_chat (ge_http env) (provider_for env t) messages (tg_served t)
                          (chat_options_of body) of
                     Done (Inl e) \<Rightarrow>
                       (Done (Inl (DependencyUnavailableError e)),
                        record_usage env ctx t False 0 0 502 False chat_endpoint db)
                   | Done (Inr c) \<Rightarrow>
                       (Done (Inr \<lparr>an_model = tg_requested t, an_content = cc_content c,
                                an_tool_calls = cc_tool_calls c,
                                an_finish = json_or (cc_finish c) (JStr ''stop''),
                                an_usage = cc_usage c\<rparr>),
                        record_usage env ctx t False (tu_prompt (cc_usage c))
                          (tu_completion (cc_usage c)) 200 False chat_endpoint db)
                   | _ \<Rightarrow> (Raised ''unexpected shape'', db)))
         | _ \<Rightarrow> (Raised ''no such column value'', db))"

record embedding_answer =
  ea_model :: string
  ea_data :: "(nat \<times> json list) list"
  ea_prompt :: int
  ea_total :: int

definition embeddings_call ::
    "gateway_env \<Rightarrow> body \<Rightarrow> gateway_context \<Rightarrow> gateway_db \<Rightarrow> embedding_answer result outcome \<times> gateway_db" where
  "embeddings_call env body ctx0 db =
     (let ctx = attribute_call body ctx0
      in case resolve_json (body_field body ''model'') db of
           Done (Inl e) \<Rightarrow> (Done (Inl e), db)
         | Done (Inr t) \<Rightarrow>
             (let raw = body_field body ''input''
              in if raw = JNull then (Done (Inl (ValidationError (quoted ''input'' @ '' is required.''))), db)
                 else (case (case raw of JStr s \<Rightarrow> Some [JStr s] | _ \<Rightarrow> iterated raw) of
                         None \<Rightarrow> (Raised ''unexpected shape'', db)
                       | Some inputs \<Rightarrow>
                           (case provider_embeddings (ge_http env) (provider_for env t) inputs (tg_served t) of
                              Done (Inl e) \<Rightarrow>
                                (Done (Inl (DependencyUnavailableError e)),
                                 record_usage env ctx t False 0 0 502 False ''embeddings'' db)
                            | Done (Inr r) \<Rightarrow>
                                (Done (Inr \<lparr>ea_model = tg_requested t,
                                         ea_data = enumerate 0 (er_vectors r),
                                         ea_prompt = tu_prompt (er_usage r),
                                         ea_total = tu_total (er_usage r)\<rparr>),
                                 record_usage env ctx t False (tu_prompt (er_usage r)) 0 200 False
                                   ''embeddings'' db)
                            | _ \<Rightarrow> (Raised ''unexpected shape'', db))))
         | _ \<Rightarrow> (Raised ''no such column value'', db))"

section \<open>Speech\<close>

definition count_again :: "target \<Rightarrow> string \<Rightarrow> gateway_db \<Rightarrow> gateway_db" where
  "count_again t endpoint db =
     db\<lparr>gd_requests := gd_requests db @ [(model_name (tg_model t), endpoint, ''2xx'')]\<rparr>"

text \<open>The audio is known to its engine only; \<open>form\<close> is the rest of the multipart body.\<close>

definition transcribe_call ::
    "gateway_env \<Rightarrow> string \<Rightarrow> string \<Rightarrow> (string \<times> json) list \<Rightarrow> gateway_context \<Rightarrow> gateway_db
       \<Rightarrow> transcript result outcome \<times> gateway_db" where
  "transcribe_call env model audio form ctx db =
     (case resolve model db of
        Inl e \<Rightarrow> (Done (Inl e), db)
      | Inr t \<Rightarrow>
          (case ge_transcribe env (tg_url t) audio ((''model'', JStr (tg_served t)) # form) of
             Done (Inl e) \<Rightarrow>
               (Done (Inl (DependencyUnavailableError e)),
                record_usage env ctx t False 0 0 502 False ''audio.transcriptions'' db)
           | Done (Inr x) \<Rightarrow>
               (Done (Inr x),
                count_again t ''audio.transcriptions''
                  (record_usage env ctx t False \<lceil>tr_duration x\<rceil> 0 200 False ''audio.transcriptions'' db))
           | Raised e \<Rightarrow> (Raised e, db)
           | Diverges \<Rightarrow> (Diverges, db)))"

definition synthesize_call ::
    "gateway_env \<Rightarrow> string \<Rightarrow> string \<Rightarrow> (string \<times> json) list \<Rightarrow> gateway_context \<Rightarrow> gateway_db
       \<Rightarrow> string result outcome \<times> gateway_db" where
  "synthesize_call env model text form ctx db =
     (if text = [] then (Done (Inl (ValidationError (quoted ''input'' @ '' is required.''))), db)
      else
        (case resolve model db of
           Inl e \<Rightarrow> (Done (Inl e), db)
         | Inr t \<Rightarrow>
             (case ge_synthesize env (tg_url t) text (tg_served t) form of
                Done (Inl e) \<Rightarrow>
                  (Done (Inl (DependencyUnavailableError e)),
                   record_usage env ctx t False 0 0 502 False ''audio.speech'' db)
              | Done (Inr x) \<Rightarrow>
                  (Done (Inr x),
                   count_again t ''audio.speech''
                     (record_usage env ctx t False (int (length text)) 0 200 False ''audio.speech'' db))
              | Raised e \<Rightarrow> (Raised e, db)
              | Diverges \<Rightarrow> (Diverges, db))))"

section \<open>Streaming\<close>

record stream_accounting =
  ac_prompt :: int
  ac_completion :: int
  ac_disconnected :: bool
  ac_status :: nat
  ac_first_token :: "timestamp option"

definition new_accounting :: stream_accounting where
  "new_accounting = \<lparr>ac_prompt = 0, ac_completion = 0, ac_disconnected = False, ac_status = 200,
     ac_first_token = None\<rparr>"

text \<open>What goes out on the wire; every frame names the model the caller asked for.\<close>

datatype frame =
    UsageFrame string int int int
  | DeltaFrame string "(string \<times> json) list" json
  | ErrorFrame string
  | DoneFrame

definition prepare_stream :: "body \<Rightarrow> gateway_db \<Rightarrow> target result outcome" where
  "prepare_stream body db =
     (if \<not> json_truthy (body_field body ''messages'') then Done (Inl no_messages)
      else resolve_json (body_field body ''model'') db)"

definition wants_usage :: "body \<Rightarrow> bool option" where
  "wants_usage body =
     (case get_field (json_or (body_field body ''stream_options'') (JObj [])) ''include_usage'' of
        None \<Rightarrow> None | Some j \<Rightarrow> Some (json_truthy j))"

definition delta_of :: "chat_chunk \<Rightarrow> (string \<times> json) list" where
  "delta_of c =
     (if json_truthy (ch_delta c) then [(''content'', ch_delta c)] else [])
     @ (if ch_tool_calls c \<noteq> [] then [(''tool_calls'', JList (ch_tool_calls c))] else [])"

text \<open>
  One chunk with the time it arrives: the frames it sends and what it books.  A usage chunk is
  swallowed unless the caller asked for it.
\<close>

definition forward_chunk ::
    "bool \<Rightarrow> string \<Rightarrow> timestamp \<Rightarrow> chat_chunk \<Rightarrow> stream_accounting \<Rightarrow> frame list \<times> stream_accounting" where
  "forward_chunk wants name now c acc =
     (case ch_usage c of
        Some u \<Rightarrow>
          (if wants then [UsageFrame name (tu_prompt u) (tu_completion u) (tu_prompt u + tu_completion u)] else [],
           acc\<lparr>ac_prompt := tu_prompt u, ac_completion := tu_completion u\<rparr>)
      | None \<Rightarrow>
          ([DeltaFrame name (delta_of c) (ch_finish c)],
           if ac_first_token acc = None then acc\<lparr>ac_first_token := Some now\<rparr> else acc))"

text \<open>
  How the generator ends: by itself, by an exception of its own, or closed by a client that hung
  up while it waited for the next item or stood at a \<open>yield\<close>.  \<open>patience\<close> is how many items of the
  provider the client stays for, \<open>None\<close> a client that stays to the end.
\<close>

datatype stream_end = Complete | Abandoned | Aborted

fun stream_chunks ::
    "bool \<Rightarrow> string \<Rightarrow> nat option \<Rightarrow> (timestamp \<times> stream_item) list \<Rightarrow> stream_accounting
       \<Rightarrow> frame list \<times> stream_accounting \<times> stream_end" where
  "stream_chunks wants name (Some 0) items acc = ([], acc\<lparr>ac_disconnected := True\<rparr>, Abandoned)"
| "stream_chunks wants name patience [] acc = ([], acc, Aborted)"
| "stream_chunks wants name patience ((now, item) # items) acc =
     (case item of
        Chunk c \<Rightarrow>
          (let (frames, acc1) = forward_chunk wants name now c acc;
               (rest, acc2, final) = stream_chunks wants name (map_option (\<lambda>n. n - 1) patience) items acc1
           in (frames @ rest, acc2, final))
      | Finished \<Rightarrow> ([DoneFrame], acc, Complete)
      | Broken e \<Rightarrow> ([ErrorFrame (take 300 e), DoneFrame], acc\<lparr>ac_status := 502\<rparr>, Complete)
      | Crashed \<Rightarrow> ([], acc, Aborted))"

definition finalise_stream ::
    "gateway_env \<Rightarrow> target \<Rightarrow> gateway_context \<Rightarrow> stream_accounting \<Rightarrow> gateway_db \<Rightarrow> gateway_db" where
  "finalise_stream env t ctx acc db =
     record_usage env ctx t True (ac_prompt acc) (ac_completion acc) (ac_status acc)
       (ac_disconnected acc) chat_endpoint
       (db\<lparr>gd_ttft := gd_ttft db @
             (case ac_first_token acc of None \<Rightarrow> []
              | Some first \<Rightarrow> [(model_name (tg_model t), first - gc_started ctx)])\<rparr>)"

text \<open>
  The streamed branch of \<open>chat_completions\<close>: attribution and resolution before the first byte, the
  generator, and the background task that records the usage.  The task runs when the response
  has ended, also when the client left; an exception out of the generator leaves it unrun.
  \<open>provider_items\<close> is \<open>None\<close> when the generator raises before it asks the provider for anything.
\<close>

definition provider_items ::
    "gateway_env \<Rightarrow> target \<Rightarrow> body \<Rightarrow> (nat \<Rightarrow> timestamp) \<Rightarrow> (timestamp \<times> stream_item) list option" where
  "provider_items env t body clock =
     do {
       _ \<leftarrow> wants_usage body;
       messages \<leftarrow> read_messages (body_field body ''messages'');
       _ \<leftarrow> chat_payload messages (tg_served t) (chat_options_of body) True;
       let items = provider_stream (ge_http env) (provider_for env t) messages (tg_served t)
                     (chat_options_of body);
       Some (zip (map clock [0..<length items]) items)
     }"

definition stream_call ::
    "gateway_env \<Rightarrow> body \<Rightarrow> gateway_context \<Rightarrow> nat option \<Rightarrow> (nat \<Rightarrow> timestamp) \<Rightarrow> gateway_db
       \<Rightarrow> frame list result outcome \<times> gateway_db" where
  "stream_call env body ctx0 patience clock db =
     (let ctx = attribute_call body ctx0
      in case prepare_stream body db of
           Done (Inl e) \<Rightarrow> (Done (Inl e), db)
         | Done (Inr t) \<Rightarrow>
             (case provider_items env t body clock of
                None \<Rightarrow> (Done (Inr []), db)
              | Some items \<Rightarrow>
                  (let (frames, acc, final) =
                         stream_chunks (wants_usage body = Some True) (tg_requested t) patience items
                           new_accounting
                   in (Done (Inr frames),
                       if final = Aborted then db else finalise_stream env t ctx acc db)))
         | _ \<Rightarrow> (Raised ''no such column value'', db))"

end
