(* ===== verification/Agent_Gateway.thy ===== *)
theory Agent_Gateway
  imports Agent_Runs Inference
begin

text \<open>
  The gateway as a caller sees it: the routes of \<open>backend/app/api/v1/gateway.py\<close>, the
  dependency \<open>get_gateway_context\<close> of \<open>api/deps.py\<close>, and agents as models
  (\<open>backend/app/services/agent_gateway.py\<close>).  Users are the rows of \<open>rd_users\<close>.
\<close>

section \<open>The context of a call\<close>

record 's door_env =
  de_redis :: "'s redis"
  de_now :: timestamp
  de_hash :: "string \<Rightarrow> string"
  de_settings :: gateway_settings
  de_identity :: identity_env

definition gateway_context_of ::
    "'s door_env \<Rightarrow> string option \<Rightarrow> headers \<Rightarrow> keys_db \<Rightarrow> 's \<Rightarrow> (gateway_context \<times> keys_db) result \<times> 's" where
  "gateway_context_of env credential hs kd s =
     (if \<not> truthy credential
      then (Inl (TokenError (''An API key is required. Create one at POST /api/v1/api-keys and send it as ''
                   @ quoted ''Authorization: Bearer <key>'' @ ''.'')), s)
      else
        (case authenticate (de_hash env) (de_now env) (the credential) kd of
           Inl e \<Rightarrow> (Inl e, s)
         | Inr ((k, c), kd1) \<Rightarrow>
             (case check_rate_limit (de_redis env) (de_now env) k s of
                (Inl e, s1) \<Rightarrow> (Inl e, s1)
              | (Inr _, s1) \<Rightarrow>
                  (let u = resolve_forwarded_identity (de_identity env) (de_settings env) hs c
                   in (Inr (\<lparr>gc_key = Some (k, c), gc_user = None, gc_started = de_now env,
                             gc_end_user = map_option eu_subject u,
                             gc_trusted = (case u of None \<Rightarrow> False | Some x \<Rightarrow> eu_trusted x)\<rparr>, kd1), s1)))))"

definition context_key :: "gateway_context \<Rightarrow> api_key option" where
  "context_key ctx = map_option fst (gc_key ctx)"

section \<open>Agents as models\<close>

definition agent_prefix :: string where
  "agent_prefix = ''agent:''"

definition is_agent_model :: "string \<Rightarrow> bool" where
  "is_agent_model m = starts_with agent_prefix m"

definition slug_of :: "string \<Rightarrow> string" where
  "slug_of m = drop (length agent_prefix) m"

definition list_agents :: "bool \<Rightarrow> registry \<Rightarrow> agent_row list" where
  "list_agents enabled_only db =
     sort_key agent_slug (filter (\<lambda>a. enabled_only \<longrightarrow> agent_enabled a) (reg_agents db))"

definition agent_catalogue :: "registry \<Rightarrow> model_entry list" where
  "agent_catalogue db =
     map (\<lambda>a. \<lparr>me_id = agent_prefix @ agent_slug a, me_context = None\<rparr>) (list_agents True db)"

definition resolve_actor :: "gateway_context \<Rightarrow> user list \<Rightarrow> user result" where
  "resolve_actor ctx users =
     (case (case gc_key ctx of None \<Rightarrow> None | Some (_, c) \<Rightarrow> client_owner c) of
        None \<Rightarrow> Inl (PermissionDeniedError
          (''This API client has no owner, so agent runs cannot be authorised. Assign an ''
           @ ''owner to the client before invoking an agent through the gateway.''))
      | Some i \<Rightarrow>
          (case find_row (\<lambda>u. user_id u = i) users of
             Some u \<Rightarrow>
               if user_active u then Inr u
               else Inl (PermissionDeniedError
                 (''The owner of this API client is missing or disabled, so agent runs cannot be ''
                  @ ''authorised.''))
           | None \<Rightarrow> Inl (PermissionDeniedError
               (''The owner of this API client is missing or disabled, so agent runs cannot be ''
                @ ''authorised.''))))"

definition load_agent :: "registry \<Rightarrow> string \<Rightarrow> agent_row result" where
  "load_agent db m =
     (case get_by_slug (slug_of m) db of
        None \<Rightarrow> Inl (NotFoundError (''No agent named '' @ quoted (slug_of m) @ ''.''))
      | Some a \<Rightarrow> Inr a)"

definition explain :: "agent_run \<Rightarrow> string" where
  "explain r =
     (if run_state r = WAITING_FOR_APPROVAL
      then ''I need approval before I can continue. An administrator has been asked to ''
           @ ''review the action I want to take.''
      else if run_state r = CANCELLED then ''This run was cancelled.''
      else if truthy (run_error r) then ''I could not finish: '' @ the (run_error r)
      else ''I could not produce an answer.'')"

record agent_answer =
  aa_model :: string
  aa_content :: string
  aa_finish :: string
  aa_prompt :: nat
  aa_completion :: nat
  aa_run :: uuid

definition run_agent_buffered ::
    "'e agent_env \<Rightarrow> agent_row \<Rightarrow> user \<Rightarrow> string \<Rightarrow> string \<Rightarrow> string option \<Rightarrow> string \<Rightarrow> 'e runs_db
       \<Rightarrow> (agent_answer \<times> 'e runs_db) result outcome" where
  "run_agent_buffered env a actor message requested conversation trace db =
     (case start_run env (agent_id a) message actor conversation trace db of
        Done (Inl e) \<Rightarrow> Done (Inl e)
      | Done (Inr (i, db1)) \<Rightarrow>
          (case get_run i db1 of
             None \<Rightarrow> Done (Inl (NotFoundError (''No run with id '' @ uuid_str i @ ''.'')))
           | Some r \<Rightarrow>
               Done (Inr (\<lparr>aa_model = requested, aa_content = or_str (run_output r) (explain r),
                   aa_finish = (if run_state r = COMPLETED then ''stop'' else ''length''),
                   aa_prompt = run_prompt_tokens r, aa_completion = run_completion_tokens r,
                   aa_run = i\<rparr>, db1)))
      | Raised e \<Rightarrow> Raised e
      | Diverges \<Rightarrow> Diverges)"

section \<open>Narration\<close>

text \<open>
  The frames of \<open>run_agent_streamed\<close>: the role, a line of text, the end of the answer.  The
  typographic ellipsis of the source lies outside the characters of the model.
\<close>

datatype agent_frame = RoleFrame | TextFrame string | StopFrame | StreamDone

definition newline_text :: "string \<Rightarrow> string" where
  "newline_text s = [newline] @ s @ [newline]"

definition narrate_event :: "event_body \<Rightarrow> agent_frame list" where
  "narrate_event e =
     (case e of
        TOOL_REQUESTED tool _ \<Rightarrow> [TextFrame (newline_text (''_Using '' @ tool @ ''..._''))]
      | TOOL_REJECTED _ reason \<Rightarrow> [TextFrame (newline_text (''_Refused: '' @ reason @ ''_''))]
      | TOOL_APPROVAL_REQUIRED tool _ risk _ \<Rightarrow>
          [TextFrame (newline_text (''**Waiting for approval** to use `'' @ tool @ ''` ('' @ risk_text risk
             @ '' risk). An administrator must approve this before I can continue.''))]
      | RUN_COMPLETED output _ \<Rightarrow> [TextFrame output]
      | RUN_FAILED err \<Rightarrow> [TextFrame (newline # ''_'' @ err @ ''_'')]
      | _ \<Rightarrow> [])"

definition closes :: "event_body \<Rightarrow> bool" where
  "closes e = (case e of RUN_COMPLETED _ _ \<Rightarrow> True | RUN_FAILED _ \<Rightarrow> True | _ \<Rightarrow> False)"

definition narrate :: "run_event list \<Rightarrow> agent_run \<Rightarrow> agent_frame list" where
  "narrate events fresh =
     [RoleFrame] @ concat (map (narrate_event \<circ> ev_body) events)
     @ (if \<exists>e \<in> set events. closes (ev_body e) then [] else [TextFrame (explain fresh)])
     @ [StopFrame, StreamDone]"

definition run_agent_streamed ::
    "'e agent_env \<Rightarrow> agent_row \<Rightarrow> user \<Rightarrow> string \<Rightarrow> string option \<Rightarrow> string \<Rightarrow> 'e runs_db
       \<Rightarrow> (agent_frame list \<times> 'e runs_db) result outcome" where
  "run_agent_streamed env a actor message conversation trace db =
     (case begin_run env (agent_id a) message actor conversation trace db of
        Inl e \<Rightarrow> Done (Inl e)
      | Inr (r, stream, db1) \<Rightarrow>
          (case drain (run_id r) stream db1 of
             Done (Inr (i, db2)) \<Rightarrow>
               (case get_run i db2 of
                  None \<Rightarrow> Done (Inl (NotFoundError (''No run with id '' @ uuid_str i @ ''.'')))
                | Some fresh \<Rightarrow> Done (Inr (narrate (fst stream) fresh, db2)))
           | Done (Inl e) \<Rightarrow> Done (Inl e)
           | Raised e \<Rightarrow> Raised e
           | Diverges \<Rightarrow> Diverges))"

section \<open>Routes\<close>

fun last_user :: "json list \<Rightarrow> json option" where
  "last_user [] = Some (JStr [])"
| "last_user (m # ms) =
     do {
       role \<leftarrow> get_field m ''role'';
       (if role = JStr ''user''
        then get_field m ''content'' \<bind> (\<lambda>c. Some (json_or c (JStr [])))
        else last_user ms)
     }"

definition last_user_message :: "json \<Rightarrow> json option" where
  "last_user_message messages = iterated (json_or messages (JList [])) \<bind> (\<lambda>raws. last_user (rev raws))"

text \<open>\<open>str(x)\<close> of a JSON value, the identity on strings.\<close>

definition text_of :: "http_env \<Rightarrow> json \<Rightarrow> string" where
  "text_of env j = (case j of JStr s \<Rightarrow> s | _ \<Rightarrow> he_text env j)"

definition conversation_of :: "http_env \<Rightarrow> body \<Rightarrow> gateway_context \<Rightarrow> string option" where
  "conversation_of env body ctx =
     (if json_truthy (body_field body ''conversation_id'')
      then Some (text_of env (body_field body ''conversation_id'')) else gc_end_user ctx)"

datatype chat_response =
    Buffered chat_answer
  | Streamed "frame list"
  | AgentBuffered agent_answer
  | AgentStreamed "agent_frame list"

record 'e door_db =
  dd_gateway :: gateway_db
  dd_runs :: "'e runs_db"

definition run_agent ::
    "gateway_env \<Rightarrow> 'e agent_env \<Rightarrow> string \<Rightarrow> body \<Rightarrow> gateway_context \<Rightarrow> string \<Rightarrow> 'e runs_db
       \<Rightarrow> (chat_response \<times> 'e runs_db) result outcome" where
  "run_agent genv env m body ctx trace db =
     (case load_agent (rd_registry db) m of
        Inl e \<Rightarrow> Done (Inl e)
      | Inr a \<Rightarrow>
     (case resolve_actor ctx (rd_users db) of
        Inl e \<Rightarrow> Done (Inl e)
      | Inr actor \<Rightarrow>
     (case last_user_message (body_field body ''messages'') of
        None \<Rightarrow> Raised ''unexpected shape''
      | Some j \<Rightarrow>
     (let prompt = text_of (ge_http genv) j;
          conversation = conversation_of (ge_http genv) body ctx
      in if strip prompt = [] then Done (Inl (ValidationError ''The last user message is empty.''))
         else if json_truthy (body_field body ''stream'')
         then (case run_agent_streamed env a actor prompt conversation trace db of
                 Done (Inl e) \<Rightarrow> Done (Inl e)
               | Done (Inr (fs, db1)) \<Rightarrow> Done (Inr (AgentStreamed fs, db1))
               | Raised e \<Rightarrow> Raised e | Diverges \<Rightarrow> Diverges)
         else (case run_agent_buffered env a actor prompt m conversation trace db of
                 Done (Inl e) \<Rightarrow> Done (Inl e)
               | Done (Inr (x, db1)) \<Rightarrow> Done (Inr (AgentBuffered x, db1))
               | Raised e \<Rightarrow> Raised e | Diverges \<Rightarrow> Diverges)))))"

definition required :: "string \<Rightarrow> app_error" where
  "required key = ValidationError (quoted key @ '' is required.'')"

definition map_reply :: "('a \<Rightarrow> 'b) \<Rightarrow> 'a result outcome \<Rightarrow> 'b result outcome" where
  "map_reply f r =
     (case r of
        Done (Inl e) \<Rightarrow> Done (Inl e) | Done (Inr x) \<Rightarrow> Done (Inr (f x))
      | Raised e \<Rightarrow> Raised e | Diverges \<Rightarrow> Diverges)"

definition chat_completions ::
    "gateway_env \<Rightarrow> 'e agent_env \<Rightarrow> body \<Rightarrow> gateway_context \<Rightarrow> string \<Rightarrow> nat option \<Rightarrow> (nat \<Rightarrow> timestamp)
       \<Rightarrow> 'e door_db \<Rightarrow> chat_response result outcome \<times> 'e door_db" where
  "chat_completions genv env body ctx trace patience clock db =
     (if \<not> json_truthy (body_field body ''model'') then (Done (Inl (required ''model'')), db)
      else if \<not> json_truthy (body_field body ''messages'') then (Done (Inl (required ''messages'')), db)
      else
        (let m = text_of (ge_http genv) (body_field body ''model'')
         in case check_scope (context_key ctx) ''chat'' (Some m) of
              Inl e \<Rightarrow> (Done (Inl e), db)
            | Inr _ \<Rightarrow>
                if is_agent_model m
                then (case run_agent genv env m body ctx trace (dd_runs db) of
                        Done (Inr (x, runs)) \<Rightarrow> (Done (Inr x), db\<lparr>dd_runs := runs\<rparr>)
                      | Done (Inl e) \<Rightarrow> (Done (Inl e), db)
                      | Raised e \<Rightarrow> (Raised e, db) | Diverges \<Rightarrow> (Diverges, db))
                else if \<not> json_truthy (body_field body ''stream'')
                then (let (r, g) = chat_completion_call genv body ctx (dd_gateway db)
                      in (map_reply Buffered r, db\<lparr>dd_gateway := g\<rparr>))
                else (let (r, g) = stream_call genv body ctx patience clock (dd_gateway db)
                      in (map_reply Streamed r, db\<lparr>dd_gateway := g\<rparr>))))"

text \<open>\<open>/completions\<close>: one user message, through the same chat.\<close>

fun line_join :: "string list \<Rightarrow> string" where
  "line_join [] = []"
| "line_join [s] = s"
| "line_join (s # ss) = s @ [newline] @ line_join ss"

definition completions ::
    "gateway_env \<Rightarrow> body \<Rightarrow> gateway_context \<Rightarrow> gateway_db \<Rightarrow> chat_answer result outcome \<times> gateway_db" where
  "completions genv body ctx db =
     (if \<not> json_truthy (body_field body ''model'') then (Done (Inl (required ''model'')), db)
      else
        (case check_scope (context_key ctx) ''chat''
                (Some (text_of (ge_http genv) (body_field body ''model''))) of
           Inl e \<Rightarrow> (Done (Inl e), db)
         | Inr _ \<Rightarrow>
             (case body_field body ''prompt'' of
                JNull \<Rightarrow> (Done (Inl (required ''prompt'')), db)
              | JList ps \<Rightarrow>
                  chat_completion_call genv (dict_merge body [(''messages'', JList [JObj
                    [(''role'', JStr ''user''), (''content'', JStr (line_join (map (text_of (ge_http genv)) ps)))]])])
                    ctx db
              | p \<Rightarrow>
                  chat_completion_call genv (dict_merge body [(''messages'', JList [JObj
                    [(''role'', JStr ''user''), (''content'', p)]])]) ctx db)))"

definition embeddings_route ::
    "gateway_env \<Rightarrow> body \<Rightarrow> gateway_context \<Rightarrow> gateway_db \<Rightarrow> embedding_answer result outcome \<times> gateway_db" where
  "embeddings_route genv body ctx db =
     (if \<not> json_truthy (body_field body ''model'') then (Done (Inl (required ''model'')), db)
      else
        (case check_scope (context_key ctx) ''embeddings''
                (Some (text_of (ge_http genv) (body_field body ''model''))) of
           Inl e \<Rightarrow> (Done (Inl e), db)
         | Inr _ \<Rightarrow> embeddings_call genv body ctx db))"

definition transcriptions_route ::
    "gateway_env \<Rightarrow> string \<Rightarrow> string \<Rightarrow> body \<Rightarrow> gateway_context \<Rightarrow> gateway_db
       \<Rightarrow> transcript result outcome \<times> gateway_db" where
  "transcriptions_route genv m audio form ctx db =
     (case check_scope (context_key ctx) ''audio'' (Some m) of
        Inl e \<Rightarrow> (Done (Inl e), db)
      | Inr _ \<Rightarrow>
          if audio = [] then (Done (Inl (ValidationError ''The uploaded file is empty.'')), db)
          else transcribe_call genv m audio form ctx db)"

definition speech_route ::
    "gateway_env \<Rightarrow> body \<Rightarrow> gateway_context \<Rightarrow> gateway_db \<Rightarrow> string result outcome \<times> gateway_db" where
  "speech_route genv body ctx db =
     (if \<not> json_truthy (body_field body ''model'') then (Done (Inl (required ''model'')), db)
      else
        (let m = text_of (ge_http genv) (body_field body ''model'')
         in case check_scope (context_key ctx) ''audio'' (Some m) of
              Inl e \<Rightarrow> (Done (Inl e), db)
            | Inr _ \<Rightarrow> synthesize_call genv m (text_of (ge_http genv) (json_or (body_field body ''input'') (JStr [])))
                         body ctx db))"

definition gateway_models ::
    "gateway_context \<Rightarrow> gateway_db \<Rightarrow> registry \<Rightarrow> model_entry list result" where
  "gateway_models ctx db reg =
     (case check_scope (context_key ctx) ''models'' None of
        Inl e \<Rightarrow> Inl e
      | Inr _ \<Rightarrow> Inr (list_available db @ agent_catalogue reg))"

end
