(* ===== verification/Rate_Limit.thy ===== *)
theory Rate_Limit
  imports Gateway
begin

text \<open>
  What the rate limit of \<open>gateway.py\<close> admits, over any sequence of requests.  \<open>redis_laws\<close> is the
  documented behaviour of \<open>INCR\<close> and \<open>EXPIRE\<close>, through a view of the server's counters with their
  deadlines.  The names of the buckets do not collide, so a window is counted alone.
\<close>

section \<open>Bucket names\<close>

definition digit_code :: "nat \<Rightarrow> nat" where
  "digit_code d = (if d < 10 then 48 + d else 87 + d)"

lemma of_char_digit: "d < 16 \<Longrightarrow> of_char (digit_char d) = digit_code d"
  by (simp add: digit_char_def digit_code_def split: if_splits)

lemma digit_code_inj: "digit_code d = digit_code e \<Longrightarrow> d < 16 \<Longrightarrow> e < 16 \<Longrightarrow> d = e"
  by (simp add: digit_code_def split: if_splits)

lemma digit_char_inj:
  assumes "digit_char d = digit_char e" "d < 16" "e < 16" shows "d = e"
proof -
  have "digit_code d = digit_code e"
    unfolding of_char_digit [OF assms(2), symmetric] of_char_digit [OF assms(3), symmetric] assms(1) ..
  then show ?thesis by (rule digit_code_inj [OF _ assms(2,3)])
qed

lemma digit_not_minus: "d < 10 \<Longrightarrow> digit_char d \<noteq> CHR ''-''"
proof
  assume d: "d < 10" and eq: "digit_char d = CHR ''-''"
  have "(of_char (digit_char d) :: nat) = 48 + d" using d by (simp add: digit_char_def)
  moreover have "(of_char CHR ''-'' :: nat) = 45" by simp
  ultimately have "45 = 48 + d" unfolding eq by simp
  then show False by linarith
qed

lemma hex_digits_inj: "hex_digits k n = hex_digits k m \<Longrightarrow> n mod 16 ^ k = m mod 16 ^ k"
proof (induction k arbitrary: n m)
  case (Suc k)
  from Suc.prems have "hex_digits k (n div 16) = hex_digits k (m div 16)"
    and "digit_char (n mod 16) = digit_char (m mod 16)" by simp_all
  with Suc.IH have *: "n div 16 mod 16 ^ k = m div 16 mod 16 ^ k" "n mod 16 = m mod 16"
    by (blast, intro digit_char_inj) simp_all
  have "x mod 16 ^ Suc k = 16 * (x div 16 mod 16 ^ k) + x mod 16" for x :: nat
    unfolding power_Suc by (rule mod_mult2_eq)
  with * show ?case by metis
qed simp

lemma length_hex_digits [simp]: "length (hex_digits k n) = k"
  by (induction k arbitrary: n) auto

lemma grouped_inj:
  assumes "length g = 32" "length h = 32"
    and "take 8 g @ c # take 4 (drop 8 g) @ c # take 4 (drop 12 g) @ c # take 4 (drop 16 g) @ c # drop 20 g
       = take 8 h @ c # take 4 (drop 8 h) @ c # take 4 (drop 12 h) @ c # take 4 (drop 16 h) @ c # drop 20 h"
  shows "g = h"
proof -
  from assms have *: "take 8 g = take 8 h" "take 4 (drop 8 g) = take 4 (drop 8 h)"
    "take 4 (drop 12 g) = take 4 (drop 12 h)" "take 4 (drop 16 g) = take 4 (drop 16 h)" "drop 20 g = drop 20 h"
    by (simp_all add: append_eq_append_conv)
  have split: "drop n xs = take 4 (drop n xs) @ drop (n + 4) xs" for n and xs :: "'x list"
    using append_take_drop_id [of 4 "drop n xs"] by (simp add: add.commute)
  have "drop 8 g = drop 8 h"
    using split [of 8 g] split [of 12 g] split [of 16 g] split [of 8 h] split [of 12 h] split [of 16 h] *
    by simp
  with *(1) show ?thesis by (metis append_take_drop_id)
qed

lemma uuid_str_inj:
  assumes "uuid_str u = uuid_str v" "u < 16 ^ 32" "v < 16 ^ 32" shows "u = v"
proof -
  have "hex_digits 32 u = hex_digits 32 v"
    by (rule grouped_inj [of _ _ "CHR ''-''"]) (use assms(1) in \<open>simp_all add: uuid_str_def Let_def\<close>)
  from hex_digits_inj [OF this] assms(2,3) show ?thesis by simp
qed

lemma nat_str_Nil [simp]: "nat_str n \<noteq> []"
  by (subst nat_str.simps) simp

lemma nat_str_digits: "set (nat_str n) \<subseteq> digit_char ` {..<10}"
proof (induction n rule: less_induct)
  case (less n)
  then show ?case by (subst nat_str.simps) auto
qed

lemma nat_str_inj: "nat_str n = nat_str m \<Longrightarrow> n = m"
proof (induction n arbitrary: m rule: less_induct)
  case (less n)
  have step: "nat_str x = (if x < 10 then [] else nat_str (x div 10)) @ [digit_char (x mod 10)]" for x
    by (subst nat_str.simps) simp
  have "digit_char (n mod 10) = digit_char (m mod 10)"
    and pre: "(if n < 10 then [] else nat_str (n div 10)) = (if m < 10 then [] else nat_str (m div 10))"
    using less.prems step [of n] step [of m] by simp_all
  then have last: "n mod 10 = m mod 10" using digit_char_inj by simp
  show ?case
  proof (cases "n < 10")
    case True
    with pre have "m < 10" using nat_str_Nil [of "m div 10"] by (metis (full_types))
    with True last show ?thesis by simp
  next
    case False
    with pre have "nat_str (n div 10) = nat_str (m div 10)" by (auto split: if_splits)
    with less.IH [of "n div 10"] False have "n div 10 = m div 10" by simp
    with last show ?thesis by (metis div_mult_mod_eq)
  qed
qed

lemma int_str_inj: "int_str a = int_str b \<Longrightarrow> a = b"
proof -
  assume eq: "int_str a = int_str b"
  have minus: "CHR ''-'' \<notin> set (nat_str n)" for n
  proof
    assume "CHR ''-'' \<in> set (nat_str n)"
    with nat_str_digits [of n] have "CHR ''-'' \<in> digit_char ` {..<10}" by (rule subsetD)
    then obtain d where "d < 10" "CHR ''-'' = digit_char d" by (elim imageE) simp
    with digit_not_minus [of d] show False by simp
  qed
  have no: "''-'' @ nat_str n \<noteq> nat_str m" for n m
  proof
    assume "''-'' @ nat_str n = nat_str m"
    from this [symmetric] minus [of m] show False by simp
  qed
  have "a < 0 \<longleftrightarrow> b < 0"
    using eq no [of "nat (- a)" "nat b"] no [of "nat (- b)" "nat a"]
    unfolding int_str_def by (cases "a < 0"; cases "b < 0") simp_all
  with eq show "a = b"
    using nat_str_inj [of "nat (- a)" "nat (- b)"] nat_str_inj [of "nat a" "nat b"]
    by (auto simp: int_str_def split: if_splits)
qed

lemma rate_bucket_inj:
  assumes "rate_bucket i v = rate_bucket j w" "i < 16 ^ 32" "j < 16 ^ 32"
  shows "i = j \<and> v = w"
proof -
  have len: "length (uuid_str x) = 36" for x by (simp add: uuid_str_def Let_def)
  from assms(1) have "uuid_str i = uuid_str j" "int_str v = int_str w"
    by (simp_all add: rate_bucket_def len)
  with assms(2,3) show ?thesis by (simp add: uuid_str_inj int_str_inj)
qed

section \<open>The server\<close>

type_synonym counter = "(nat \<times> timestamp option) option"

text \<open>What a counter reads at a time: nothing once its deadline has passed.\<close>

definition counter_at :: "timestamp \<Rightarrow> counter \<Rightarrow> nat" where
  "counter_at t c =
     (case c of None \<Rightarrow> 0 | Some (n, None) \<Rightarrow> n | Some (n, Some d) \<Rightarrow> if t < d then n else 0)"

text \<open>
  \<open>INCR\<close> adds one to the live value and keeps its deadline, \<open>EXPIRE\<close> sets a deadline, and neither
  touches another counter.
\<close>

definition redis_laws :: "'s redis \<Rightarrow> ('s \<Rightarrow> string \<Rightarrow> counter) \<Rightarrow> bool" where
  "redis_laws red view =
     ((\<forall>s t b n s'. rd_incr red s t b = Some (n, s') \<longrightarrow>
         n = counter_at t (view s b) + 1 \<and>
         view s' = (view s)(b := Some (n, if counter_at t (view s b) = 0 then None
                                         else snd (the (view s b))))) \<and>
      (\<forall>s t b secs s'. rd_expire red s t b secs = Some s' \<longrightarrow>
         view s' = (view s)(b := map_option (\<lambda>(n, _). (n, Some (t + int secs * 1000000))) (view s b))))"

section \<open>A sequence of requests\<close>

text \<open>One served request: its key, its time, whether Redis counted it, and whether it passed.\<close>

record served =
  sv_key :: api_key
  sv_at :: timestamp
  sv_counted :: bool
  sv_passed :: bool

fun serve_all :: "'s redis \<Rightarrow> (api_key \<times> timestamp) list \<Rightarrow> 's \<Rightarrow> served list" where
  "serve_all red [] s = []"
| "serve_all red ((k, t) # reqs) s =
     \<lparr>sv_key = k, sv_at = t, sv_counted = fst (count_request red t (key_id k) s) \<noteq> None,
      sv_passed = is_ok (fst (check_rate_limit red t k s))\<rparr>
       # serve_all red reqs (snd (check_rate_limit red t k s))"

definition in_window :: "uuid \<Rightarrow> int \<Rightarrow> served \<Rightarrow> bool" where
  "in_window i w v = (key_id (sv_key v) = i \<and> window_of (sv_at v) = w)"

definition count_if :: "('r \<Rightarrow> bool) \<Rightarrow> 'r list \<Rightarrow> nat" where
  "count_if p rows = length (filter p rows)"

lemma count_if_simps [simp]:
  "count_if p [] = 0" "count_if p (r # rows) = (if p r then 1 else 0) + count_if p rows"
  by (simp_all add: count_if_def)

text \<open>
  A counter of a window stays live in it: its deadline is two minutes after a time of the window.
\<close>

definition stays_live :: "int \<Rightarrow> counter \<Rightarrow> bool" where
  "stays_live w c = (\<forall>t. window_of t = w \<longrightarrow> counter_at t c = (case c of None \<Rightarrow> 0 | Some (n, _) \<Rightarrow> n))"

lemma stays_live_simps [simp]: "stays_live w None" "stays_live w (Some (n, None))"
  by (simp_all add: stays_live_def counter_at_def)

lemma stays_live_deadline:
  assumes "window_of t = w" shows "stays_live w (Some (n, Some (t + 120000000)))"
proof -
  have "u < t + 120000000" if "window_of u = w" for u
  proof -
    have "u div 60000000 = t div 60000000" using that assms by (simp add: window_of_def)
    then show ?thesis by linarith
  qed
  then show ?thesis by (simp add: stays_live_def counter_at_def)
qed

lemma count_request_other:
  assumes "redis_laws red view" "rate_bucket j (window_of t) \<noteq> b"
  shows "view (snd (count_request red t j s)) b = view s b"
  using assms by (auto simp: redis_laws_def count_request_def Let_def split: option.splits prod.splits)

lemma count_request_same:
  assumes "redis_laws red view" "window_of t = w" "b = rate_bucket i w" "stays_live w (view s b)"
  defines "n \<equiv> (case view s b of None \<Rightarrow> 0 | Some (n, _) \<Rightarrow> n)"
  shows "case count_request red t i s of
      (None, s') \<Rightarrow> stays_live w (view s' b) \<and>
        (case view s' b of None \<Rightarrow> 0 | Some (n, _) \<Rightarrow> n) \<in> {n, n + 1}
    | (Some m, s') \<Rightarrow> m = n + 1 \<and> view s' b \<noteq> None \<and> fst (the (view s' b)) = m \<and> stays_live w (view s' b)"
proof (cases "rd_incr red s t b")
  case None
  with assms show ?thesis by (simp add: count_request_def Let_def)
next
  case (Some r)
  obtain m s1 where r: "r = (m, s1)" by (cases r)
  have live: "counter_at t (view s b) = n"
    using assms(4) assms(2) unfolding stays_live_def n_def by blast
  from assms(1) Some r have m: "m = n + 1"
    and v: "view s1 = (view s)(b := Some (m, if n = 0 then None else snd (the (view s b))))"
    unfolding redis_laws_def using live by blast+
  show ?thesis
  proof (cases "m = 1")
    case True
    show ?thesis
    proof (cases "rd_expire red s1 t b 120")
      case None
      with Some r True m v assms(2,3) show ?thesis by (simp add: count_request_def Let_def)
    next
      case (Some s2)
      with assms(1) have "view s2 = (view s1)(b := map_option (\<lambda>(n, _). (n, Some (t + int 120 * 1000000))) (view s1 b))"
        unfolding redis_laws_def by blast
      then have "view s2 b = Some (m, Some (t + 120000000))" by (simp add: v)
      with Some \<open>rd_incr red s t b = Some r\<close> r True m assms(2,3) stays_live_deadline [OF assms(2)]
      show ?thesis by (simp add: count_request_def Let_def)
    qed
  next
    case False
    then have "n \<noteq> 0" using m by simp
    then obtain d where d: "view s b = Some (n, d)"
      by (auto simp: n_def split: option.splits)
    have "stays_live w (Some (m, d))"
      using assms(4) \<open>n \<noteq> 0\<close> unfolding d by (auto simp: stays_live_def counter_at_def split: option.splits if_splits)
    with Some r False m v d \<open>n \<noteq> 0\<close> assms(2,3) show ?thesis by (simp add: count_request_def Let_def)
  qed
qed

text \<open>
  From a counter at \<open>c\<close> on, the counted requests that pass are at most what is left of the limit,
  and exactly that when Redis counts every request.
\<close>

definition within_limit :: "nat \<Rightarrow> served list \<Rightarrow> bool" where
  "within_limit room out =
     (count_if (\<lambda>v. sv_counted v \<and> sv_passed v) out \<le> room \<and>
      ((\<forall>v \<in> set out. sv_counted v) \<longrightarrow> count_if sv_passed out = min room (length out)) \<and>
      (\<forall>v \<in> set out. \<not> sv_counted v \<longrightarrow> sv_passed v))"

lemma within_limit_Nil: "within_limit room []"
  by (simp add: within_limit_def)

lemma within_limit_uncounted:
  assumes "within_limit room' out" "room' \<le> room" "\<not> sv_counted v" "sv_passed v"
  shows "within_limit room (v # out)"
  using assms by (auto simp: within_limit_def)

lemma within_limit_counted:
  assumes "within_limit (room - 1) out" "sv_counted v" "sv_passed v \<longleftrightarrow> 0 < room"
  shows "within_limit room (v # out)"
  using assms by (cases room) (auto simp: within_limit_def)

lemma serve_window:
  assumes laws: "redis_laws red view" and i: "i < 16 ^ 32" and b: "b = rate_bucket i w"
    and "\<forall>(k, t) \<in> set reqs. key_id k < 16 ^ 32 \<and> (key_id k = i \<longrightarrow> key_limit k = limit)"
    and "stays_live w (view s b)" "c = (case view s b of None \<Rightarrow> 0 | Some (n, _) \<Rightarrow> n)"
  shows "within_limit (nat limit - c) (filter (in_window i w) (serve_all red reqs s))"
  using assms(4-)
proof (induction reqs arbitrary: s c)
  case Nil
  show ?case by (simp add: within_limit_Nil)
next
  case (Cons req reqs)
  obtain k t where req: "req = (k, t)" by (cases req)
  obtain got s1 where r: "count_request red t (key_id k) s = (got, s1)" by (cases "count_request red t (key_id k) s")
  have s1: "snd (check_rate_limit red t k s) = s1"
    by (simp add: check_rate_limit_def r split: option.splits)
  have rest: "\<forall>(k, t) \<in> set reqs. key_id k < 16 ^ 32 \<and> (key_id k = i \<longrightarrow> key_limit k = limit)"
    and k: "key_id k < 16 ^ 32" "key_id k = i \<longrightarrow> key_limit k = limit"
    using Cons.prems(1) by (simp_all add: req)
  show ?case
  proof (cases "key_id k = i \<and> window_of t = w")
    case False
    then have "rate_bucket (key_id k) (window_of t) \<noteq> b"
      using rate_bucket_inj [OF _ k(1) i] unfolding b by blast
    from count_request_other [OF laws this, of s] have same: "view s1 b = view s b" by (simp add: r)
    have "within_limit (nat limit - c) (filter (in_window i w) (serve_all red reqs s1))"
      by (rule Cons.IH [OF rest]) (simp_all add: same Cons.prems)
    moreover have "filter (in_window i w) (serve_all red (req # reqs) s)
        = filter (in_window i w) (serve_all red reqs s1)"
      using False by (auto simp: req s1 in_window_def)
    ultimately show ?thesis by simp
  next
    case True
    note same = count_request_same [OF laws conjunct2 [OF True] b Cons.prems(2)]
    let ?c = "case view s1 b of None \<Rightarrow> 0 | Some (n, _) \<Rightarrow> n"
    let ?v = "\<lparr>sv_key = k, sv_at = t, sv_counted = got \<noteq> None,
        sv_passed = is_ok (fst (check_rate_limit red t k s))\<rparr>"
    have split: "filter (in_window i w) (serve_all red (req # reqs) s)
        = ?v # filter (in_window i w) (serve_all red reqs s1)"
      using True r by (simp add: req s1 in_window_def)
    show ?thesis
    proof (cases got)
      case None
      with same r True Cons.prems(3) have "stays_live w (view s1 b)" "?c \<in> {c, c + 1}" by simp_all
      then have "c \<le> ?c" by (elim insertE emptyE) linarith+
      then have "nat limit - ?c \<le> nat limit - c" by (rule diff_le_mono2)
      moreover have "within_limit (nat limit - ?c) (filter (in_window i w) (serve_all red reqs s1))"
        by (rule Cons.IH [OF rest \<open>stays_live w (view s1 b)\<close> refl])
      ultimately have "within_limit (nat limit - ?c) (filter (in_window i w) (serve_all red reqs s1))"
        "nat limit - ?c \<le> nat limit - c" by blast+
      then show ?thesis
        unfolding split by (rule within_limit_uncounted)
          (use None in \<open>simp_all add: check_rate_limit_def r\<close>)
    next
      case (Some m)
      with same r True Cons.prems(3) have m: "m = c + 1" "stays_live w (view s1 b)" "?c = c + 1"
        by (auto split: option.splits)
      then have "within_limit (nat limit - c - 1) (filter (in_window i w) (serve_all red reqs s1))"
        using Cons.IH [OF rest m(2) refl] by simp
      then show ?thesis
        unfolding split by (rule within_limit_counted)
          (use Some m(1) k(2) True in \<open>auto simp: check_rate_limit_def r split: if_splits\<close>)
    qed
  qed
qed

section \<open>The limit\<close>

text \<open>
  C13. Rate limit: over any sequence of requests, the requests of one key in one minute that Redis
  counted and that passed are at most its limit; while Redis counts every one of them, exactly the
  first \<open>limit\<close> pass; and a request Redis could not count always passes.
\<close>
theorem rate_limit_exact:
  assumes "redis_laws red view" "view s = (\<lambda>_. None)" "i < 16 ^ 32"
    and "\<forall>(k, t) \<in> set reqs. key_id k < 16 ^ 32 \<and> (key_id k = i \<longrightarrow> key_limit k = limit)"
    and out: "out = filter (in_window i w) (serve_all red reqs s)"
  shows "count_if (\<lambda>v. sv_counted v \<and> sv_passed v) out \<le> nat limit
    \<and> ((\<forall>v \<in> set out. sv_counted v) \<longrightarrow> count_if sv_passed out = min (nat limit) (length out))
    \<and> (\<forall>v \<in> set out. \<not> sv_counted v \<longrightarrow> sv_passed v)"
  using serve_window [OF assms(1,3) refl assms(4), of w s 0] assms(2)
  by (simp add: out within_limit_def)

text \<open>A server that keeps its counters in a table.\<close>

definition table_redis :: "(string \<Rightarrow> counter) redis" where
  "table_redis =
     \<lparr>rd_incr = (\<lambda>s t b. let n = counter_at t (s b) + 1
                in Some (n, s(b := Some (n, if n = 1 then None else snd (the (s b)))))),
      rd_expire = (\<lambda>s t b secs. Some (s(b := map_option (\<lambda>(n, _). (n, Some (t + int secs * 1000000))) (s b))))\<rparr>"

lemma table_redis_laws: "redis_laws table_redis (\<lambda>s. s)"
  by (simp add: redis_laws_def table_redis_def Let_def)

definition sample_key :: api_key where
  "sample_key =
     \<lparr>key_id = 5, key_client = 3, key_name = ''ci'', key_prefix = ''ab'', key_hash = ''h5'', key_limit = 2,
      key_scopes = [''chat'', ''model:enterprise-chat''], key_expires = None, key_last_used = None,
      key_revoked = None, key_rotated_to = None, key_created_by = Some 2\<rparr>"

definition burst :: "(api_key \<times> timestamp) list" where
  "burst = map (\<lambda>t. (sample_key, t)) [10, 20, 30, 40]"

theorem rate_limit_exact_witness:
  "count_if sv_passed (filter (in_window 5 0) (serve_all table_redis burst (\<lambda>_. None))) = 2"
proof -
  let ?out = "filter (in_window 5 0) (serve_all table_redis burst (\<lambda>_. None))"
  have len: "length (serve_all red reqs s) = length reqs"
    and all: "set (serve_all red reqs s) \<subseteq> {v. (sv_key v, sv_at v) \<in> set reqs}"
    for red reqs and s :: "string \<Rightarrow> counter"
    by (induction red reqs s rule: serve_all.induct) auto
  have counted: "\<forall>v \<in> set (serve_all table_redis reqs s). sv_counted v" for reqs s
    by (induction "table_redis :: (string \<Rightarrow> counter) redis" reqs s rule: serve_all.induct)
       (auto simp: count_request_def table_redis_def Let_def)
  have "?out = serve_all table_redis burst (\<lambda>_. None)"
    by (rule filter_True) (use all [of table_redis burst "\<lambda>_. None"] in
      \<open>auto simp: burst_def in_window_def sample_key_def window_of_def\<close>)
  with len have "length ?out = 4" by (simp add: burst_def)
  moreover have "count_if sv_passed ?out = min (nat 2) (length ?out)"
  proof -
    have keys: "\<forall>(k, t) \<in> set burst. key_id k < 16 ^ 32 \<and> (key_id k = 5 \<longrightarrow> key_limit k = 2)"
      by (simp add: burst_def sample_key_def)
    have "\<forall>v \<in> set ?out. sv_counted v" using counted [of burst "\<lambda>_. None"] by auto
    with rate_limit_exact [OF table_redis_laws _ _ keys refl, of "\<lambda>_. None" 0] show ?thesis by simp
  qed
  ultimately show ?thesis by simp
qed

end
