(* ===== verification/Key_Properties.thy ===== *)
theory Key_Properties
  imports Agent_Gateway Rate_Limit Agent_Sample
begin

text \<open>
  Properties of keys, scopes, forwarded identities and the door of the gateway
  (\<open>services/api_keys.py\<close>, \<open>identity.py\<close>, the first half of \<open>gateway.py\<close>).
\<close>

section \<open>A sample of the tables\<close>

definition sample_client :: api_client where
  "sample_client =
     \<lparr>client_id = 3, client_name = ''portal'', client_description = None, client_owner = Some 7,
      client_enabled = True, client_trusted = True, client_secret = Some ''sealed''\<rparr>"

definition sample_keys :: keys_db where
  "sample_keys = \<lparr>kd_clients = [sample_client], kd_keys = [sample_key], kd_next = 6, kd_trail = []\<rparr>"

definition sample_key_env :: key_env where
  "sample_key_env =
     \<lparr>ke_now = 100, ke_secret = ''s'', ke_prefix = ''cd'', ke_hash = (\<lambda>s. ''h'' @ s), ke_encrypt = (\<lambda>s. s)\<rparr>"

lemma sample_keys_inv: "keys_inv sample_keys"
  by (simp add: keys_inv_def sample_keys_def sample_key_def sample_client_def)

lemma sample_key_found: "key_with 5 sample_keys = Some sample_key" "key_by_hash ''h5'' sample_keys = Some sample_key"
  by (simp_all add: key_with_def key_by_hash_def sample_keys_def sample_key_def)

section \<open>Well-formed tables\<close>

text \<open>
  C16. Starting from empty tables, every sequence of portal requests and gateway calls keeps the
  tables typed: ids and hashes of keys and names of clients unique, every key's client present,
  and no client with a signing secret that is not trusted to name its users.
\<close>
theorem keys_stay_typed:
  assumes "kd_clients db = []" "kd_keys db = []" "keys_step\<^sup>*\<^sup>* db db'"
  shows "keys_inv db'"
  using keys_steps_ok [OF assms(3)] assms(1,2) by (simp add: keys_inv_def)

theorem keys_stay_typed_witness:
  "\<exists>c db'. create_client sample_key_env ''portal'' None (plain_user 7 ''ann'') True (Some ''s'')
     \<lparr>kd_clients = [], kd_keys = [], kd_next = 2, kd_trail = []\<rparr> = Inr (c, db') \<and> keys_inv db'"
proof -
  let ?db = "\<lparr>kd_clients = [], kd_keys = [], kd_next = 2, kd_trail = []\<rparr> :: keys_db"
  obtain c db' where c: "create_client sample_key_env ''portal'' None (plain_user 7 ''ann'') True (Some ''s'') ?db
      = Inr (c, db')"
    by (simp add: create_client_def client_by_name_def Let_def)
  have "keys_inv db'"
    by (rule keys_stay_typed [of ?db]) (use step_client [OF c] in auto)
  with c show ?thesis by blast
qed

section \<open>Dead keys\<close>

lemma key_dies_once: "key_is_active t' k \<Longrightarrow> t \<le> t' \<Longrightarrow> key_is_active t k"
  by (auto simp: key_is_active_def split: option.splits)

text \<open>
  C14. A key that is revoked or expired at a time never authenticates again: not at a later time,
  and not after any sequence of requests, rotations included.
\<close>
theorem dead_keys_stay_dead:
  assumes inv: "keys_inv db" and k: "k \<in> set (kd_keys db)" "\<not> key_is_active t k"
    and steps: "keys_step\<^sup>*\<^sup>* db db'" and t: "t \<le> t'" "hash credential = key_hash k"
  shows "\<not> is_ok (authenticate hash t' credential db')"
proof
  assume "is_ok (authenticate hash t' credential db')"
  then obtain k1 c db1 where "authenticate hash t' credential db' = Inr ((k1, c), db1)"
    by (cases "authenticate hash t' credential db'") auto
  moreover have inv': "keys_inv db'" and "\<exists>k' \<in> set (kd_keys db'). ages_to k k'"
    using keys_steps_ok [OF steps inv] k(1) by auto
  ultimately obtain r k' where r: "r \<in> set (kd_keys db')" "key_hash r = hash credential" "key_is_active t' r"
    and k': "k' \<in> set (kd_keys db')" "ages_to k k'"
    by (metis authenticate_ok)
  have "distinct (map key_hash (kd_keys db'))" using inv' by (simp add: keys_inv_def)
  with r k' t(2) have "r = k'" by (auto simp: ages_to_def distinct_map inj_on_def)
  with r(3) k'(2) have "key_is_active t' k" by (simp add: ages_to_def)
  with k(2) t(1) key_dies_once show False by blast
qed

theorem dead_keys_stay_dead_witness:
  "\<exists>k db. revoke_key 100 5 (plain_user 7 ''ann'') sample_keys = Inr (k, db) \<and>
     is_ok (authenticate (\<lambda>_. ''h5'') 90 ''aip_x'' sample_keys) \<and>
     \<not> is_ok (authenticate (\<lambda>_. ''h5'') 200 ''aip_x'' db)"
proof -
  let ?k = "sample_key\<lparr>key_revoked := Some 100\<rparr>"
  obtain db where rev: "revoke_key 100 5 (plain_user 7 ''ann'') sample_keys = Inr (?k, db)"
    and rows: "kd_keys db = [?k]"
    by (simp add: revoke_key_def sample_key_found Let_def sample_key_def)
       (simp add: put_key_def sample_keys_def sample_key_def)
  have "keys_inv db" using keys_step_ok [OF step_revoke [OF rev] sample_keys_inv] by blast
  then have "\<not> is_ok (authenticate (\<lambda>_. ''h5'') 200 ''aip_x'' db)"
    by (rule dead_keys_stay_dead [of db ?k 100]) (auto simp: rows key_is_active_def sample_key_def)
  moreover have "is_ok (authenticate (\<lambda>_. ''h5'') 90 ''aip_x'' sample_keys)"
    by (simp add: authenticate_def key_by_hash_def key_is_active_def client_with_def Let_def
        sample_keys_def sample_client_def sample_key_def)
  ultimately show ?thesis using rev by blast
qed

section \<open>Rotation\<close>

text \<open>
  C15. A rotation hands over and nothing more: the new key has the client, scopes, limit and expiry
  of the old one; the old one is active exactly as long as before and not past the grace period;
  every other key is as it was.  It succeeds exactly for a key that exists, is not revoked or
  expired, with a grace period that is not negative and a secret that is new.
\<close>
theorem rotation_hands_over:
  assumes "keys_inv db"
  shows "case rotate_key env i grace actor iso_text db of
      Done (Inr ((new, full, old1), db')) \<Rightarrow>
        (\<exists>old. key_with i db = Some old \<and> key_revoked old = None \<and> 0 \<le> grace \<and>
           key_client new = key_client old \<and> key_scopes new = key_scopes old \<and>
           key_limit new = key_limit old \<and> key_expires new = key_expires old \<and>
           key_hash new = ke_hash env full \<and>
           (\<forall>t. key_is_active t old1 = (key_is_active t old \<and> t < ke_now env + grace * 3600000000)) \<and>
           set (kd_keys db') = insert new (insert old1 (set (kd_keys db) - {old})))
    | Done (Inl e) \<Rightarrow> (\<forall>old. key_with i db = Some old \<longrightarrow>
        key_revoked old \<noteq> None \<or> grace < 0 \<or> \<not> key_is_active (ke_now env) old)
    | Raised _ \<Rightarrow> key_by_hash (ke_hash env (''aip_'' @ ke_prefix env @ ''_'' @ ke_secret env)) db \<noteq> None
    | Diverges \<Rightarrow> False"
proof (cases "\<exists>new full old1 db'. rotate_key env i grace actor iso_text db = Done (Inr ((new, full, old1), db'))")
  case True
  then obtain new full old1 db' where ok: "rotate_key env i grace actor iso_text db = Done (Inr ((new, full, old1), db'))"
    by blast
  from rotate_key_ok [OF assms ok] obtain old db1 where *: "key_with i db = Some old" "key_revoked old = None"
    "0 \<le> grace"
    "create_key env (key_client old) (key_name old @ '' (rotated)'') (key_limit old)
       (key_expires old) actor (Some (key_scopes old)) db = Done (Inr ((new, full), db1))"
    "old1 = old\<lparr>key_expires := Some (rotation_deadline (ke_now env) grace old),
                key_rotated_to := Some (key_id new)\<rparr>"
    "kd_keys db' = kd_keys (put_key old1 db1)"
    by metis
  note c = create_key_ok [OF assms *(4)]
  have old: "old \<in> set (kd_keys db)" using key_with_Some [OF *(1)] by simp
  have "new \<noteq> old" using c(3) old assms unfolding keys_inv_def by auto
  have "set (kd_keys db') = insert old1 (set (kd_keys db1) - {old})"
    unfolding *(6) by (rule put_key_rows [OF c(1)]) (use c(2) old *(5) in auto)
  with c(2) \<open>new \<noteq> old\<close> have "set (kd_keys db') = insert new (insert old1 (set (kd_keys db) - {old}))"
    by auto
  moreover have "\<forall>t. key_is_active t old1 = (key_is_active t old \<and> t < ke_now env + grace * 3600000000)"
    using *(2) by (auto simp: *(5) key_is_active_def rotation_deadline_def Let_def microseconds_per_hour_def
        split: option.splits)
  ultimately have "\<exists>old. key_with i db = Some old \<and> key_revoked old = None \<and> 0 \<le> grace \<and>
           key_client new = key_client old \<and> key_scopes new = key_scopes old \<and>
           key_limit new = key_limit old \<and> key_expires new = key_expires old \<and>
           key_hash new = ke_hash env full \<and>
           (\<forall>t. key_is_active t old1 = (key_is_active t old \<and> t < ke_now env + grace * 3600000000)) \<and>
           set (kd_keys db') = insert new (insert old1 (set (kd_keys db) - {old}))"
    using * c(4-9) by (intro exI [of _ old]) (simp add: given_def)
  then show ?thesis by (simp only: ok outcome.case sum.case prod.case)
next
  case False
  have client: "client_with (key_client old) db \<noteq> None" if "key_with i db = Some old" for old
  proof -
    have "old \<in> set (kd_keys db)" using key_with_Some [OF that] by simp
    with assms have "key_client old \<in> client_id ` set (kd_clients db)" by (simp add: keys_inv_def)
    then show ?thesis by (auto simp: client_with_def find_row_None)
  qed
  show ?thesis
  proof (cases "key_with i db")
    case None
    then show ?thesis by (simp add: rotate_key_def)
  next
    case (Some old)
    with client obtain c where "client_with (key_client old) db = Some c" by fastforce
    with Some False show ?thesis
      by (auto simp: rotate_key_def create_key_def generate_api_key_def mint_prefixed_token_def
          key_is_active_def Let_def split: if_splits option.splits)
  qed
qed

theorem rotation_hands_over_witness:
  "\<exists>new full old1 db'. rotate_key sample_key_env 5 2 (plain_user 7 ''ann'') (\<lambda>_. []) sample_keys
       = Done (Inr ((new, full, old1), db')) \<and>
     key_scopes new = [''chat'', ''model:enterprise-chat''] \<and>
     (\<forall>t. key_is_active t old1 = (t < 100 + 2 * 3600000000))"
proof -
  obtain new full old1 db' where ok:
    "rotate_key sample_key_env 5 2 (plain_user 7 ''ann'') (\<lambda>_. []) sample_keys = Done (Inr ((new, full, old1), db'))"
    by (simp add: rotate_key_def key_with_def create_key_def client_with_def Let_def key_by_hash_def
        generate_api_key_def mint_prefixed_token_def sample_keys_def sample_key_def sample_client_def
        sample_key_env_def)
  have "key_is_active t sample_key" for t by (simp add: key_is_active_def sample_key_def)
  with rotation_hands_over [OF sample_keys_inv, where env = sample_key_env and i = 5 and grace = 2
      and actor = "plain_user 7 ''ann''" and iso_text = "\<lambda>_. []"]
  have "key_scopes new = key_scopes sample_key \<and> (\<forall>t. key_is_active t old1 = (t < 100 + 2 * 3600000000))"
    unfolding ok by (simp add: sample_key_found) (simp add: sample_key_env_def)
  with ok show ?thesis by (simp add: sample_key_def)
qed

section \<open>Scopes\<close>

text \<open>The rule the documentation of \<open>ApiKey.scopes\<close> gives, over the list itself.\<close>

definition may_call :: "string list \<Rightarrow> string \<Rightarrow> string option \<Rightarrow> bool" where
  "may_call scopes surface alias =
     ((list_all (starts_with model_scope) scopes \<or> \<not> starts_with model_scope surface \<and> surface \<in> set scopes) \<and>
      (list_all (\<lambda>s. \<not> starts_with model_scope s) scopes \<or>
       (case alias of None \<Rightarrow> True | Some a \<Rightarrow> model_scope @ a \<in> set scopes)))"

lemma models_of_iff: "a \<in> models_of scopes \<longleftrightarrow> model_scope @ a \<in> set scopes"
  by (auto simp: models_of_def starts_with_def prefix_def image_iff intro!: bexI [of _ "model_scope @ a"])

lemma scope_empty:
  "surfaces_of scopes = {} \<longleftrightarrow> list_all (starts_with model_scope) scopes"
  "models_of scopes = {} \<longleftrightarrow> list_all (\<lambda>s. \<not> starts_with model_scope s) scopes"
  by (auto simp: surfaces_of_def models_of_def list_all_iff filter_empty_conv)

lemma scope_check:
  "is_ok (check_scope (Some k) surface alias) = may_call (key_scopes k) surface alias
   \<and> is_ok (check_scope None surface alias)
   \<and> (case check_scope (Some k) surface alias of Inl e \<Rightarrow> status_code e = 403 | Inr _ \<Rightarrow> True)"
proof -
  have surf: "surface \<in> surfaces_of (key_scopes k) \<longleftrightarrow> \<not> starts_with model_scope surface \<and> surface \<in> set (key_scopes k)"
    by (auto simp: surfaces_of_def)
  show ?thesis
    unfolding may_call_def models_of_iff [symmetric] scope_empty [symmetric] surf [symmetric]
    by (auto simp: check_scope_def surfaces_of_def models_of_def split: option.splits if_splits)
qed

text \<open>
  Scopes: a key passes exactly when the documented rule allows it, each dimension restricting
  only where the key names it; a refusal is always a 403, and no key at all passes.
\<close>
theorem scope_rule:
  "is_ok (check_scope (Some k) surface alias) = may_call (key_scopes k) surface alias
   \<and> is_ok (check_scope None surface alias)
   \<and> (case check_scope (Some k) surface alias of Inl e \<Rightarrow> status_code e = 403 | Inr _ \<Rightarrow> True)"
  by (rule scope_check)

text \<open>
  C17. No route of the gateway does anything for a key that is not scoped for it: it answers 403
  and neither the tables, nor the counters, nor any run changes.
\<close>
theorem unscoped_key_does_nothing:
  assumes key: "gc_key ctx = Some (k, c)" and m: "body_field body ''model'' = JStr m" "m \<noteq> []"
    and body: "json_truthy (body_field body ''messages'')"
  defines "refused e \<equiv> status_code e = 403"
  shows "(\<not> may_call (key_scopes k) ''models'' None \<longrightarrow>
       (\<exists>e. gateway_models ctx g reg = Inl e \<and> refused e))
   \<and> (\<not> may_call (key_scopes k) ''chat'' (Some m) \<longrightarrow>
       (\<exists>e. refused e \<and> chat_completions genv env body ctx trace patience clock db = (Done (Inl e), db)
          \<and> completions genv body ctx g = (Done (Inl e), g)))
   \<and> (\<not> may_call (key_scopes k) ''embeddings'' (Some m) \<longrightarrow>
       (\<exists>e. refused e \<and> embeddings_route genv body ctx g = (Done (Inl e), g)))
   \<and> (\<not> may_call (key_scopes k) ''audio'' (Some m) \<longrightarrow>
       (\<exists>e. refused e \<and> transcriptions_route genv m audio form ctx g = (Done (Inl e), g)
          \<and> speech_route genv body ctx g = (Done (Inl e), g)))"
proof -
  have refuse: "\<exists>e. check_scope (context_key ctx) surface al = Inl e \<and> status_code e = 403"
    if "\<not> may_call (key_scopes k) surface al" for surface al
    using scope_check [of k surface al] that
    by (cases "check_scope (Some k) surface al") (simp_all add: context_key_def key)
  have str: "text_of (ge_http genv) (JStr m) = m" "json_truthy (JStr m)"
    using m(2) by (simp_all add: text_of_def json_truthy_def)
  show ?thesis
    using refuse [of "''models''" None] refuse [of "''chat''" "Some m"] refuse [of "''embeddings''" "Some m"]
      refuse [of "''audio''" "Some m"]
    by (auto simp: gateway_models_def chat_completions_def completions_def embeddings_route_def
        transcriptions_route_def speech_route_def m str body refused_def)
qed

definition sample_context :: gateway_context where
  "sample_context =
     \<lparr>gc_key = Some (sample_key, sample_client), gc_user = None, gc_started = 0, gc_end_user = None,
      gc_trusted = False\<rparr>"

theorem unscoped_key_does_nothing_witness:
  "\<forall>genv g. \<exists>e. status_code e = 403 \<and>
     completions genv [(''model'', JStr ''other''), (''messages'', JStr ''hi'')] sample_context g = (Done (Inl e), g)"
proof (intro allI)
  fix genv g
  let ?body = "[(''model'', JStr ''other''), (''messages'', JStr ''hi'')]"
  have fields: "gc_key sample_context = Some (sample_key, sample_client)"
    "body_field ?body ''model'' = JStr ''other''" "''other'' \<noteq> []" "json_truthy (body_field ?body ''messages'')"
    by (simp_all add: sample_context_def body_field_def json_get_def given_def json_truthy_def)
  have "\<not> may_call (key_scopes sample_key) ''chat'' (Some ''other'')"
    by (simp add: may_call_def sample_key_def model_scope_def starts_with_def)
  with unscoped_key_does_nothing [OF fields, of g undefined genv undefined undefined undefined undefined undefined]
  show "\<exists>e. status_code e = 403 \<and> completions genv ?body sample_context g = (Done (Inl e), g)" by blast
qed

section \<open>Who a call is for\<close>





text \<open>
  A signing secret the master key no longer opens does not refuse assertions: the client's
  plaintext headers are taken instead, and marked trusted.
\<close>
theorem undecryptable_secret_downgrades:
  assumes "client_trusted c" "truthy (client_secret c)" "ie_decrypt env (the (client_secret c)) = None"
  shows "resolve_forwarded_identity env st hs c = first_header hs (gw_headers st)"
  using assms by (simp add: resolve_forwarded_identity_def signing_secret_def)

section \<open>The door\<close>





end
