(* ===== verification/Usage_Reports.thy ===== *)
theory Usage_Reports
  imports Gateway "HOL-Library.Multiset"
begin

text \<open>
  The usage reports of \<open>backend/app/repositories/models_registry.py\<close> (\<open>UsageRepository\<close>): the
  \<open>GROUP BY\<close> queries over the usage records.  Where SQL leaves the order of equals open the model
  takes one.
\<close>

definition groups :: "('r \<Rightarrow> 'k) \<Rightarrow> 'r list \<Rightarrow> ('k \<times> 'r list) list" where
  "groups f rows = map (\<lambda>k. (k, filter (\<lambda>r. f r = k) rows)) (remdups (map f rows))"

definition prompt_sum :: "usage_record list \<Rightarrow> int" where
  "prompt_sum rows = sum_list (map us_prompt rows)"

definition completion_sum :: "usage_record list \<Rightarrow> int" where
  "completion_sum rows = sum_list (map us_completion rows)"

record model_usage =
  mu_model :: string
  mu_requests :: nat
  mu_prompt :: int
  mu_completion :: int
  mu_latency :: rat

definition usage_summary :: "timestamp \<Rightarrow> uuid option \<Rightarrow> usage_record list \<Rightarrow> model_usage list" where
  "usage_summary since key rows =
     map (\<lambda>(m, rs). \<lparr>mu_model = m, mu_requests = length rs, mu_prompt = prompt_sum rs,
             mu_completion = completion_sum rs,
             mu_latency = round2 (sum_list (map us_latency rs) / of_nat (length rs))\<rparr>)
       (sort_key (\<lambda>(m, rs). - int (length rs))
         (groups us_model
           (filter (\<lambda>r. since \<le> us_at r \<and> (key \<noteq> None \<longrightarrow> us_key r = key)) rows)))"

record person_usage =
  pu_end_user :: string
  pu_trusted :: bool
  pu_requests :: nat
  pu_prompt :: int
  pu_completion :: int
  pu_last_seen :: timestamp

definition by_end_user :: "timestamp \<Rightarrow> nat \<Rightarrow> usage_record list \<Rightarrow> person_usage list" where
  "by_end_user since limit rows =
     take limit (map (\<lambda>((u, t), rs). \<lparr>pu_end_user = the u, pu_trusted = t, pu_requests = length rs,
             pu_prompt = prompt_sum rs, pu_completion = completion_sum rs,
             pu_last_seen = foldr max (map us_at rs) since\<rparr>)
       (sort_key (\<lambda>(_, rs). - (prompt_sum rs + completion_sum rs))
         (groups (\<lambda>r. (us_end_user r, us_trusted r))
           (filter (\<lambda>r. since \<le> us_at r \<and> us_end_user r \<noteq> None) rows))))"

record hour_usage =
  hu_hour :: timestamp
  hu_requests :: nat
  hu_tokens :: int

definition hour_of :: "timestamp \<Rightarrow> timestamp" where
  "hour_of t = t div 3600000000 * 3600000000"

definition hourly_series :: "timestamp \<Rightarrow> usage_record list \<Rightarrow> hour_usage list" where
  "hourly_series since rows =
     map (\<lambda>(h, rs). \<lparr>hu_hour = h, hu_requests = length rs, hu_tokens = prompt_sum rs + completion_sum rs\<rparr>)
       (sort_key fst (groups (\<lambda>r. hour_of (us_at r)) (filter (\<lambda>r. since \<le> us_at r) rows)))"

section \<open>Grouping loses and merges nothing\<close>

lemma groups_keys: "distinct (map fst (groups f rows))" "set (map fst (groups f rows)) = f ` set rows"
  by (simp_all add: groups_def comp_def)

lemma groups_rows: "(k, rs) \<in> set (groups f rows) \<Longrightarrow> rs = filter (\<lambda>r. f r = k) rows \<and> rs \<noteq> []"
  by (auto simp: groups_def filter_empty_conv)

lemma groups_sum: "sum_list (map (\<lambda>(k, rs). sum_list (map g rs)) (groups f rows)) = sum_list (map g rows)"
  for g :: "'r \<Rightarrow> 'n::comm_monoid_add"
proof -
  have *: "(\<Sum>k \<leftarrow> ks. \<Sum>r \<leftarrow> filter (\<lambda>r. f r = k) rows. g r) = (\<Sum>r \<leftarrow> rows. g r)"
    if "distinct ks" "f ` set rows \<subseteq> set ks" for ks
    using that
  proof (induction rows)
    case (Cons r rows)
    then have "r \<in> set (r # rows)" "f r \<in> set ks" by auto
    have "(\<Sum>k \<leftarrow> ks. \<Sum>x \<leftarrow> filter (\<lambda>x. f x = k) (r # rows). g x)
        = (\<Sum>k \<leftarrow> ks. (if k = f r then g r else 0) + (\<Sum>x \<leftarrow> filter (\<lambda>x. f x = k) rows. g x))"
      by (intro arg_cong [where f = sum_list] map_cong) auto
    also have "\<dots> = (\<Sum>k \<leftarrow> ks. if k = f r then g r else 0)
        + (\<Sum>k \<leftarrow> ks. \<Sum>x \<leftarrow> filter (\<lambda>x. f x = k) rows. g x)"
      by (simp add: sum_list_addf)
    also have "(\<Sum>k \<leftarrow> ks. if k = f r then g r else 0) = g r"
      using \<open>distinct ks\<close> \<open>f r \<in> set ks\<close> by (simp add: sum_list_distinct_conv_sum_set)
    finally show ?case using Cons by simp
  qed (simp add: sum_list_distinct_conv_sum_set)
  show ?thesis
    using * [of "remdups (map f rows)"] by (simp add: groups_def comp_def)
qed

lemma sum_list_sort_key: "sum_list (map g (sort_key k xs)) = sum_list (map g xs)"
  for g :: "'x \<Rightarrow> 'n::comm_monoid_add"
  by (metis (no_types, lifting) mset_map mset_sort sum_mset_sum_list)

lemma set_groups_sort [simp]: "set (sort_key k (groups f rows)) = set (groups f rows)"
  by simp

end
