(* ===== verification/Gateway_Properties.thy ===== *)
theory Gateway_Properties
  imports Key_Properties Usage_Reports Deployment_Properties
begin

text \<open>
  Properties of resolution, streaming and accounting (\<open>services/gateway.py\<close>,
  \<open>services/agent_gateway.py\<close>, \<open>UsageRepository\<close>).
\<close>

section \<open>The model list\<close>

text \<open>The unique columns and foreign keys of the three tables.\<close>

definition catalogue_ok :: "gateway_db \<Rightarrow> bool" where
  "catalogue_ok db =
     (distinct (map model_id (gd_models db)) \<and> distinct (map model_name (gd_models db)) \<and>
      distinct (map alias_name (gd_aliases db)) \<and>
      (\<forall>a \<in> set (gd_aliases db). alias_model a \<in> model_id ` set (gd_models db)) \<and>
      (\<forall>d \<in> set (gd_deployments db). dep_model d \<in> model_id ` set (gd_models db)))"

lemma get_model_present: "i \<in> model_id ` set ms \<Longrightarrow> \<exists>m. get_model i ms = Some m \<and> model_id m = i \<and> m \<in> set ms"
  unfolding get_model_def
  by (cases "find_row (\<lambda>m. model_id m = i) ms") (auto simp: find_row_None dest: find_row_Some)

lemma resolve_ok:
  assumes "resolve_model wanted db = Some m" "d \<in> set (serving_for_model (model_id m) (gd_deployments db))"
    and "\<forall>d \<in> set (gd_deployments db). dep_state d = RUNNING \<longrightarrow> truthy (dep_url d)"
  obtains t where "resolve wanted db = Inr t" "tg_requested t = wanted" "tg_model t = m"
    "tg_deployment t \<in> set (gd_deployments db)" "dep_state (tg_deployment t) = RUNNING"
    "dep_model (tg_deployment t) = model_id m" "tg_url t \<noteq> []"
proof -
  let ?live = "filter (\<lambda>d. truthy (dep_url d)) (serving_for_model (model_id m) (gd_deployments db))"
  from assms(2,3) have "d \<in> set ?live" by (auto simp: set_serving)
  then obtain x xs where live: "?live = x # xs" by (cases ?live) auto
  then have "x \<in> set ?live" by simp
  then have x: "x \<in> set (gd_deployments db)" "dep_state x = RUNNING" "dep_model x = model_id m" "truthy (dep_url x)"
    by (auto simp: set_serving)
  from x(4) have "or_str (dep_url x) [] \<noteq> []" by (auto simp: truthy_def or_str_def split: option.splits list.splits)
  with x that assms(1) live show ?thesis by (simp add: resolve_def)
qed

lemma add_deployed_ids:
  assumes "\<forall>d \<in> set ds. dep_model d \<in> model_id ` set ms"
  shows "set (map me_id (add_deployed ms ds es)) =
           set (map me_id es) \<union> {model_name m | m d. d \<in> set ds \<and> get_model (dep_model d) ms = Some m}
         \<and> (distinct (map me_id es) \<longrightarrow> distinct (map me_id (add_deployed ms ds es)))"
  using assms
proof (induction ms ds es rule: add_deployed.induct)
  case (2 ms d ds es)
  then obtain m where m: "get_model (dep_model d) ms = Some m" using get_model_present by fastforce
  with 2 show ?case by (cases "model_name m \<in> set (map me_id es)") auto
qed simp

lemma set_list_available: "set (map me_id (list_available db)) =
    set (map me_id (add_deployed (gd_models db) (list_deployments None [RUNNING] (gd_deployments db)) (alias_entries db)))"
  by (simp add: list_available_def)

lemma alias_ids:
  "set (map me_id (alias_entries db)) = {alias_name a | a. a \<in> set (gd_aliases db) \<and> alias_enabled a
      \<and> serving_for_model (alias_model a) (gd_deployments db) \<noteq> []}"
  by (auto simp: alias_entries_def list_aliases_def)

lemma set_running: "d \<in> set (list_deployments None [RUNNING] ds) \<longleftrightarrow> d \<in> set ds \<and> dep_state d = RUNNING"
  by (auto simp: list_deployments_def)

lemma available_ids:
  assumes "catalogue_ok db"
  shows "set (map me_id (list_available db)) =
      {alias_name a | a. a \<in> set (gd_aliases db) \<and> alias_enabled a
         \<and> serving_for_model (alias_model a) (gd_deployments db) \<noteq> []}
    \<union> {model_name m | m d. d \<in> set (gd_deployments db) \<and> dep_state d = RUNNING
         \<and> get_model (dep_model d) (gd_models db) = Some m}"
    and "distinct (map me_id (list_available db))"
proof -
  have ds: "\<forall>d \<in> set (list_deployments None [RUNNING] (gd_deployments db)). dep_model d \<in> model_id ` set (gd_models db)"
    using assms by (auto simp: catalogue_ok_def set_running)
  show "set (map me_id (list_available db)) =
      {alias_name a | a. a \<in> set (gd_aliases db) \<and> alias_enabled a
         \<and> serving_for_model (alias_model a) (gd_deployments db) \<noteq> []}
    \<union> {model_name m | m d. d \<in> set (gd_deployments db) \<and> dep_state d = RUNNING
         \<and> get_model (dep_model d) (gd_models db) = Some m}"
    unfolding set_list_available conjunct1 [OF add_deployed_ids [OF ds]] alias_ids set_running by blast
  have "distinct (map alias_name (list_aliases (gd_aliases db)))"
    using assms by (simp add: catalogue_ok_def list_aliases_def distinct_map)
  then have "distinct (map me_id (alias_entries db))"
    by (auto simp: alias_entries_def distinct_map comp_def inj_on_def)
  then show "distinct (map me_id (list_available db))"
    using add_deployed_ids [OF ds, of "alias_entries db"]
    by (simp add: list_available_def distinct_map)
qed

definition shadowed :: "string \<Rightarrow> gateway_db \<Rightarrow> bool" where
  "shadowed name db =
     (\<exists>a \<in> set (gd_aliases db). alias_name a = name \<and> alias_enabled a
        \<and> serving_for_model (alias_model a) (gd_deployments db) = [])"

lemma listed_resolves:
  assumes ok: "catalogue_ok db" and name: "name \<in> set (map me_id (list_available db))" "\<not> shadowed name db"
  shows "\<exists>m d. resolve_model name db = Some m \<and> d \<in> set (serving_for_model (model_id m) (gd_deployments db))"
proof (cases "get_by_alias name (gd_aliases db)")
  case (Some a)
  then have a: "a \<in> set (gd_aliases db)" "alias_name a = name" "alias_enabled a"
    using find_row_Some unfolding get_by_alias_def by fast+
  with name(2) have "serving_for_model (alias_model a) (gd_deployments db) \<noteq> []" by (auto simp: shadowed_def)
  moreover obtain m where "get_model (alias_model a) (gd_models db) = Some m" "model_id m = alias_model a"
    using get_model_present [of "alias_model a" "gd_models db"] ok a(1) by (auto simp: catalogue_ok_def)
  ultimately show ?thesis using Some by (auto simp: resolve_model_def neq_Nil_conv)
next
  case None
  then have "\<not> (\<exists>a \<in> set (gd_aliases db). alias_name a = name \<and> alias_enabled a)"
    by (auto simp: get_by_alias_def find_row_None)
  with name(1) obtain m d where m: "name = model_name m" "d \<in> set (gd_deployments db)" "dep_state d = RUNNING"
    "get_model (dep_model d) (gd_models db) = Some m"
    unfolding available_ids(1) [OF ok] by auto
  note g = get_model_Some [OF m(4)]
  have "get_model_by_name name (gd_models db) = Some m"
    using find_row_unique [of model_name "gd_models db" m] ok g by (simp add: get_model_by_name_def m(1) catalogue_ok_def)
  with None m g show ?thesis by (auto simp: resolve_model_def set_serving)
qed

text \<open>
  The model list is honest and complete: in every reachable state of the deployments, a listed
  name that no enabled, undeployed alias shadows resolves to a running deployment of its model
  with an address; every enabled alias of a served model and the name of every served model are
  listed, and no name twice.
\<close>
theorem listed_names_answer:
  assumes "w_deployments w0 = []" "reachable st (docker_factory cfg env ro) others w0 w"
    and db: "gd_deployments db = w_deployments w" "catalogue_ok db"
  shows "(\<forall>e \<in> set (list_available db). \<not> shadowed (me_id e) db \<longrightarrow>
       (\<exists>t. resolve (me_id e) db = Inr t \<and> tg_requested t = me_id e \<and> tg_url t \<noteq> [] \<and>
          dep_state (tg_deployment t) = RUNNING \<and> dep_model (tg_deployment t) = model_id (tg_model t)))
    \<and> (\<forall>a \<in> set (gd_aliases db). alias_enabled a \<and> serving_for_model (alias_model a) (gd_deployments db) \<noteq> []
         \<longrightarrow> alias_name a \<in> me_id ` set (list_available db))
    \<and> (\<forall>m \<in> set (gd_models db). serving_for_model (model_id m) (gd_deployments db) \<noteq> []
         \<longrightarrow> model_name m \<in> me_id ` set (list_available db))
    \<and> distinct (map me_id (list_available db))"
proof (intro conjI ballI impI)
  have urls: "\<forall>d \<in> set (gd_deployments db). dep_state d = RUNNING \<longrightarrow> truthy (dep_url d)"
    using reachable_addressed [OF assms(1,2)] by (simp add: db(1) addressed_def)
  fix e assume "e \<in> set (list_available db)" "\<not> shadowed (me_id e) db"
  then obtain m d where "resolve_model (me_id e) db = Some m"
    "d \<in> set (serving_for_model (model_id m) (gd_deployments db))"
    using listed_resolves [OF db(2), of "me_id e"] by auto
  from resolve_ok [OF this urls] show "\<exists>t. resolve (me_id e) db = Inr t \<and> tg_requested t = me_id e \<and> tg_url t \<noteq> [] \<and>
          dep_state (tg_deployment t) = RUNNING \<and> dep_model (tg_deployment t) = model_id (tg_model t)"
    by metis
next
  fix a assume "a \<in> set (gd_aliases db)"
    "alias_enabled a \<and> serving_for_model (alias_model a) (gd_deployments db) \<noteq> []"
  then have "alias_name a \<in> set (map me_id (list_available db))" unfolding available_ids(1) [OF db(2)] by blast
  then show "alias_name a \<in> me_id ` set (list_available db)" by simp
next
  fix m assume m: "m \<in> set (gd_models db)" "serving_for_model (model_id m) (gd_deployments db) \<noteq> []"
  from m(2) obtain d where "d \<in> set (serving_for_model (model_id m) (gd_deployments db))"
    by (meson last_in_set)
  then have d: "d \<in> set (gd_deployments db)" "dep_state d = RUNNING" "dep_model d = model_id m"
    by (simp_all add: set_serving)
  have "get_model (model_id m) (gd_models db) = Some m"
    using find_row_unique [of model_id "gd_models db" m] db(2) m(1) by (simp add: get_model_def catalogue_ok_def)
  with d have "model_name m \<in> {model_name m | m d. d \<in> set (gd_deployments db) \<and> dep_state d = RUNNING
         \<and> get_model (dep_model d) (gd_models db) = Some m}" by (intro CollectI exI [of _ m] exI [of _ d]) simp
  then have "model_name m \<in> set (map me_id (list_available db))" unfolding available_ids(1) [OF db(2)] by (rule UnI2)
  then show "model_name m \<in> me_id ` set (list_available db)" by simp
next
  show "distinct (map me_id (list_available db))" by (rule available_ids(2) [OF db(2)])
qed

definition served_gateway :: gateway_db where
  "served_gateway =
     \<lparr>gd_models = [sample_model],
      gd_aliases = [\<lparr>alias_id = 2, alias_name = ''chat'', alias_model = 5, alias_description = None, alias_enabled = True\<rparr>],
      gd_deployments = w_deployments served, gd_usage = [], gd_requests = [], gd_tokens = [], gd_ttft = []\<rparr>"

lemma served_rows:
  obtains d where "w_deployments served = [d]" "dep_state d = RUNNING" "dep_model d = 5"
proof -
  have m: "dep_model checked_deployment = 5"
    by (simp add: checked_deployment_def sample_deployment_def new_deployment_def sample_model_def)
  have rows: "map dep_state (w_deployments served) = [RUNNING]" "map dep_model (w_deployments served) = [5]"
    using served_step m by simp_all
  then obtain d where "w_deployments served = [d]" by (cases "w_deployments served") auto
  with rows that show ?thesis by simp
qed

theorem listed_names_answer_witness:
  "map me_id (list_available served_gateway) = [''chat'', ''qwen''] \<and>
   (\<exists>t. resolve ''chat'' served_gateway = Inr t \<and> tg_requested t = ''chat'' \<and> dep_state (tg_deployment t) = RUNNING)"
proof -
  obtain d where d: "w_deployments served = [d]" "dep_state d = RUNNING" "dep_model d = 5" by (rule served_rows)
  have serving: "serving_for_model 5 (gd_deployments served_gateway) = [d]"
    by (simp add: serving_for_model_def served_gateway_def d)
  have ids: "map me_id (list_available served_gateway) = [''chat'', ''qwen'']"
    by (simp add: list_available_def list_deployments_def served_gateway_def d alias_entries_def list_aliases_def
        serving_for_model_def get_model_def sample_model_def)
  then obtain e where e: "e \<in> set (list_available served_gateway)" "me_id e = ''chat''"
    by (metis (no_types, lifting) image_eqI list.set_intros(1) list.set_map imageE)
  have "catalogue_ok served_gateway"
    by (simp add: catalogue_ok_def served_gateway_def d sample_model_def)
  moreover have "\<not> shadowed ''chat'' served_gateway"
    by (simp add: shadowed_def serving) (simp add: served_gateway_def d serving_for_model_def)
  moreover have "gd_deployments served_gateway = w_deployments served" by (simp add: served_gateway_def)
  moreover have "w_deployments (sample_world ONLINE) = []" by (simp add: sample_world_def)
  ultimately have "\<exists>t. resolve ''chat'' served_gateway = Inr t \<and> tg_requested t = ''chat'' \<and> dep_state (tg_deployment t) = RUNNING"
    using listed_names_answer [OF _ served_reachable] e by metis
  with ids show ?thesis by blast
qed

text \<open>
  A model registered under the name of an enabled alias is listed once it is deployed, yet its
  name resolves to the alias's model, which is not: the caller of a listed name gets a 503.
\<close>

definition shadow_gateway :: gateway_db where
  "shadow_gateway = served_gateway\<lparr>
     gd_models := [sample_model, sample_model\<lparr>model_id := 6, model_name := ''other''\<rparr>],
     gd_aliases := [\<lparr>alias_id = 2, alias_name = ''qwen'', alias_model = 6, alias_description = None, alias_enabled = True\<rparr>]\<rparr>"

theorem shadowed_name_listed_but_dead:
  "''qwen'' \<in> me_id ` set (list_available shadow_gateway) \<and> catalogue_ok shadow_gateway \<and>
   (\<exists>e. resolve ''qwen'' shadow_gateway = Inl e \<and> status_code e = 503)"
proof -
  obtain d where d: "w_deployments served = [d]" "dep_state d = RUNNING" "dep_model d = 5" by (rule served_rows)
  have "map me_id (list_available shadow_gateway) = [''qwen'']"
    by (simp add: list_available_def list_deployments_def shadow_gateway_def served_gateway_def d alias_entries_def
        list_aliases_def serving_for_model_def get_model_def sample_model_def)
  moreover have "catalogue_ok shadow_gateway"
    by (simp add: catalogue_ok_def shadow_gateway_def served_gateway_def d sample_model_def)
  moreover have "\<exists>e. resolve ''qwen'' shadow_gateway = Inl e \<and> status_code e = 503"
    by (simp add: resolve_def resolve_model_def get_by_alias_def get_model_def shadow_gateway_def served_gateway_def
        d serving_for_model_def sample_model_def)
  ultimately show ?thesis by (metis list.set_intros(1) list.set_map)
qed

end
