(* ===== verification/Accounting_Properties.thy ===== *)
theory Accounting_Properties
  imports Key_Properties Usage_Reports Deployment_Sample
begin

text \<open>
  Properties of streaming and accounting (\<open>services/gateway.py\<close>, \<open>services/llm_provider.py\<close>,
  \<open>UsageRepository\<close>).
\<close>

section \<open>Streams\<close>

text \<open>
  The reference: the chunks the client stayed for, the frames of each, and what they book.  A
  client is gone when its patience ends before the provider's closing item.
\<close>

definition chunks_of :: "(timestamp \<times> stream_item) list \<Rightarrow> (timestamp \<times> chat_chunk) list" where
  "chunks_of items = List.map_filter (\<lambda>(t, i). case i of Chunk c \<Rightarrow> Some (t, c) | _ \<Rightarrow> None) items"

definition chunks_read :: "nat option \<Rightarrow> (timestamp \<times> stream_item) list \<Rightarrow> (timestamp \<times> chat_chunk) list" where
  "chunks_read patience items =
     (case patience of None \<Rightarrow> chunks_of items | Some n \<Rightarrow> take n (chunks_of items))"

definition client_gone :: "nat option \<Rightarrow> (timestamp \<times> stream_item) list \<Rightarrow> bool" where
  "client_gone patience items = (case patience of None \<Rightarrow> False | Some n \<Rightarrow> n \<le> length (chunks_of items))"

definition chunk_frames :: "bool \<Rightarrow> string \<Rightarrow> chat_chunk \<Rightarrow> frame list" where
  "chunk_frames wants name c =
     (case ch_usage c of
        None \<Rightarrow> [DeltaFrame name (delta_of c) (ch_finish c)]
      | Some u \<Rightarrow> if wants then [UsageFrame name (tu_prompt u) (tu_completion u) (tu_prompt u + tu_completion u)] else [])"

definition closing_frames :: "stream_item \<Rightarrow> frame list" where
  "closing_frames i = (case i of Finished \<Rightarrow> [DoneFrame] | Broken e \<Rightarrow> [ErrorFrame (take 300 e), DoneFrame] | _ \<Rightarrow> [])"



definition book :: "timestamp \<times> chat_chunk \<Rightarrow> stream_accounting \<Rightarrow> stream_accounting" where
  "book tc acc = snd (forward_chunk False [] (fst tc) (snd tc) acc)"

lemma forward_chunk_eq: "forward_chunk wants name t c acc = (chunk_frames wants name c, book (t, c) acc)"
  by (simp add: forward_chunk_def book_def chunk_frames_def split: option.splits)

lemma chunks_of_simps [simp]:
  "chunks_of [] = []" "chunks_of ((t, Chunk c) # items) = (t, c) # chunks_of items"
  "chunks_of ((t, Finished) # items) = chunks_of items" "chunks_of ((t, Broken e) # items) = chunks_of items"
  "chunks_of ((t, Crashed) # items) = chunks_of items"
  by (simp_all add: chunks_of_def List.map_filter_simps)

lemma chunks_read_simps [simp]:
  "chunks_read (Some 0) items = []" "chunks_read patience [] = []"
  "patience \<noteq> Some 0 \<Longrightarrow> chunks_read patience ((t, Chunk c) # items)
     = (t, c) # chunks_read (map_option (\<lambda>n. n - 1) patience) items"
  by (auto simp: chunks_read_def split: option.splits) (case_tac x2, auto)

lemma client_gone_simps [simp]:
  "client_gone (Some 0) items" "\<not> client_gone None items"
  "patience \<noteq> Some 0 \<Longrightarrow> client_gone patience ((t, Chunk c) # items)
     = client_gone (map_option (\<lambda>n. n - 1) patience) items"
  by (auto simp: client_gone_def split: option.splits)

lemma book_fields [simp]:
  "ac_disconnected (book tc acc) = ac_disconnected acc" "ac_status (book tc acc) = ac_status acc"
  by (auto simp: book_def forward_chunk_def split: option.splits)

definition wound_up :: "bool \<Rightarrow> stream_item \<Rightarrow> stream_accounting \<Rightarrow> stream_accounting" where
  "wound_up gone i acc =
     acc\<lparr>ac_disconnected := (gone \<or> ac_disconnected acc),
         ac_status := (case i of Broken _ \<Rightarrow> if gone then ac_status acc else 502 | _ \<Rightarrow> ac_status acc)\<rparr>"

definition ending :: "bool \<Rightarrow> stream_item \<Rightarrow> stream_end" where
  "ending gone i = (if gone then Abandoned else if i = Crashed then Aborted else Complete)"

text \<open>The generator does what the reference says, whenever the client leaves.\<close>

lemma stream_reference:
  assumes "well_ended (map snd items)"
  shows "stream_chunks wants name patience items acc =
     (concat (map (chunk_frames wants name \<circ> snd) (chunks_read patience items))
        @ (if client_gone patience items then [] else closing_frames (snd (last items))),
      wound_up (client_gone patience items) (snd (last items)) (fold book (chunks_read patience items) acc),
      ending (client_gone patience items) (snd (last items)))"
  using assms
proof (induction items arbitrary: patience acc)
  case Nil
  then show ?case by simp
next
  case (Cons item items)
  obtain t i where item: "item = (t, i)" by (cases item)
  show ?case
  proof (cases "patience = Some 0")
    case True
    then show ?thesis by (simp add: wound_up_def ending_def split: stream_item.splits)
  next
    case False
    then have f: "patience = None \<or> (\<exists>n. patience = Some (Suc n))"
      by (cases patience) (auto simp: gr0_conv_Suc)
    show ?thesis
    proof (cases i)
      case (Chunk c)
      with Cons.prems have w: "well_ended (map snd items)" and ne: "items \<noteq> []" by (auto simp: item)
      have "stream_chunks wants name patience (item # items) acc =
          (chunk_frames wants name c @ fst (stream_chunks wants name (map_option (\<lambda>n. n - 1) patience) items (book (t, c) acc)),
           snd (stream_chunks wants name (map_option (\<lambda>n. n - 1) patience) items (book (t, c) acc)))"
        using f by (auto simp: item Chunk forward_chunk_eq Let_def split: prod.splits)
      then show ?thesis
        by (simp add: Cons.IH [OF w] item Chunk False ne)
    next
      case Finished
      then show ?thesis using Cons.prems f
        by (auto simp: item well_ended_def is_chunk_def wound_up_def ending_def closing_frames_def client_gone_def
            chunks_read_def split: option.splits)
    qed (use Cons.prems f in \<open>auto simp: item well_ended_def is_chunk_def wound_up_def ending_def
        closing_frames_def client_gone_def chunks_read_def split: option.splits\<close>)
  qed
qed


lemma provider_items_well_ended:
  assumes "provider_items env t body clock = Some items"
  shows "well_ended (map snd items)"
proof -
  from assms obtain messages where "map snd items = provider_stream (ge_http env) (provider_for env t) messages
      (tg_served t) (chat_options_of body)"
    by (auto simp: provider_items_def bind_eq_Some_conv Let_def)
  then show ?thesis by (simp add: provider_stream_well_ended)
qed


lemma stream_call_eq:
  assumes "prepare_stream body db = Done (Inr t)" "provider_items env t body clock = Some items"
  shows "stream_call env body ctx patience clock db =
    (let gone = client_gone patience items; close = snd (last items); cs = chunks_read patience items;
         acc = wound_up gone close (fold book cs new_accounting)
     in (Done (Inr (concat (map (chunk_frames (wants_usage body = Some True) (tg_requested t) \<circ> snd) cs)
                     @ (if gone then [] else closing_frames close))),
         if ending gone close = Aborted then db
         else finalise_stream env t (attribute_call body ctx) acc db))"
  using assms stream_reference [OF provider_items_well_ended [OF assms(2)]]
  by (simp add: stream_call_def Let_def)

text \<open>
  C20. Streaming: what goes out is, chunk by chunk and in order, the frames of the chunks the client
  stayed for, each naming the model the caller asked for and never the one that answers, a usage
  frame only for a caller who asked; then the closing frames, unless the client is gone.
\<close>
theorem stream_frames_exact:
  assumes "prepare_stream body db = Done (Inr t)" "provider_items env t body clock = Some items"
    and "close = (if client_gone patience items then [] else closing_frames (snd (last items)))"
  shows "\<exists>frames. fst (stream_call env body ctx patience clock db) = Done (Inr (frames @ close)) \<and>
    frames = concat (map (chunk_frames (wants_usage body = Some True) (tg_requested t) \<circ> snd)
      (chunks_read patience items)) \<and>
    (wants_usage body \<noteq> Some True \<longrightarrow>
       frames = map (\<lambda>(_, c). DeltaFrame (tg_requested t) (delta_of c) (ch_finish c))
                  (filter (\<lambda>(_, c). ch_usage c = None) (chunks_read patience items)))"
proof -
  have "concat (map (chunk_frames False name \<circ> snd) cs)
      = map (\<lambda>(_, c). DeltaFrame name (delta_of c) (ch_finish c)) (filter (\<lambda>(_, c). ch_usage c = None) cs)"
    for name and cs :: "(timestamp \<times> chat_chunk) list"
    by (induction cs) (auto simp: chunk_frames_def split: option.splits)
  then show ?thesis
    by (simp add: stream_call_eq [OF assms(1,2)] Let_def assms(3))
qed


section \<open>A sample\<close>

definition online_deployment :: deployment where
  "online_deployment = sample_deployment\<lparr>dep_state := RUNNING, dep_url := Some ''http://q''\<rparr>"

definition small_gateway :: gateway_db where
  "small_gateway =
     \<lparr>gd_models = [sample_model], gd_aliases = [], gd_deployments = [online_deployment],
      gd_usage = [], gd_requests = [], gd_tokens = [], gd_ttft = []\<rparr>"

definition delta_event :: json where
  "delta_event = JObj [(''choices'', JList [JObj [(''delta'', JObj [(''content'', JStr ''hi'')])]])]"

definition usage_event :: json where
  "usage_event = JObj [(''choices'', JList []), (''usage'', JObj [(''prompt_tokens'', JInt 3), (''completion_tokens'', JInt 4)])]"

definition sse_lines :: "string list" where
  "sse_lines = [''data: a'', '': ping'', ''data: u'', ''data: [DONE]'']"

definition odd_lines :: "string list" where
  "odd_lines = [''data: a'', ''data: 5'', ''data: u'', ''data: [DONE]'']"

definition small_http :: "string list \<Rightarrow> http_env" where
  "small_http lines =
     \<lparr>he_post = (\<lambda>base path key payload. Inr \<lparr>rp_status = 200, rp_json = Some usage_event, rp_text = []\<rparr>),
      he_stream = (\<lambda>base path key payload. Inr \<lparr>hs_reply = \<lparr>rp_status = 200, rp_json = None, rp_text = []\<rparr>,
         hs_lines = lines, hs_broken = None\<rparr>),
      he_loads = (\<lambda>s. if s = ''a'' then Some delta_event else if s = ''u'' then Some usage_event
         else if s = ''5'' then Some (JInt 5) else None),
      he_text = (\<lambda>_. [])\<rparr>"

definition small_env :: "string list \<Rightarrow> gateway_env" where
  "small_env lines =
     \<lparr>ge_settings = sample_settings, ge_http = small_http lines, ge_now = 50, ge_commit = (\<lambda>_. True),
      ge_transcribe = (\<lambda>_ _ _. Done (Inr \<lparr>tr_text = ''hi'', tr_language = None, tr_duration = 2\<rparr>)),
      ge_synthesize = (\<lambda>_ _ _ _. Done (Inr ''wav''))\<rparr>"

lemma small_env_simps [simp]:
  "ge_http (small_env ls) = small_http ls" "ge_settings (small_env ls) = sample_settings"
  "ge_now (small_env ls) = 50" "ge_commit (small_env ls) r"
  "ge_transcribe (small_env ls) u a f = Done (Inr \<lparr>tr_text = ''hi'', tr_language = None, tr_duration = 2\<rparr>)"
  "ge_synthesize (small_env ls) u a m f = Done (Inr ''wav'')"
  "he_stream (small_http ls) b p k payload = Inr \<lparr>hs_reply = \<lparr>rp_status = 200, rp_json = None, rp_text = []\<rparr>,
         hs_lines = ls, hs_broken = None\<rparr>"
  "he_post (small_http ls) b p k payload = Inr \<lparr>rp_status = 200, rp_json = Some usage_event, rp_text = []\<rparr>"
  by (simp_all add: small_env_def small_http_def)

definition small_body :: body where
  "small_body = [(''model'', JStr ''qwen''), (''messages'', JList [JObj [(''content'', JStr ''hello'')]])]"

definition small_target :: target where
  "small_target = \<lparr>tg_requested = ''qwen'', tg_model = sample_model, tg_deployment = online_deployment,
     tg_url = ''http://q'', tg_served = ''qwen''\<rparr>"

lemma online_fields: "dep_state online_deployment = RUNNING" "dep_model online_deployment = 5"
  "dep_url online_deployment = Some ''http://q''"
  by (simp_all add: online_deployment_def sample_deployment_def new_deployment_def sample_model_def)

lemma small_resolve: "resolve ''qwen'' small_gateway = Inr small_target"
  by (simp add: resolve_def resolve_model_def small_gateway_def get_by_alias_def get_model_by_name_def
      serving_for_model_def online_fields small_target_def truthy_def or_str_def served_model_name_def
      sample_model_def starts_with_def)

lemmas json_eval = get_field_def get_default_def json_get_def given_def json_or_def json_truthy_def
  iterated_def first_item_def int_of_json_def usage_of_def

lemma small_prepare: "prepare_stream small_body small_gateway = Done (Inr small_target)"
  by (simp add: prepare_stream_def small_body_def body_field_def json_eval resolve_json_def small_resolve)

definition small_delta :: chat_chunk where
  "small_delta = \<lparr>ch_id = JStr [], ch_model = JStr ''qwen'', ch_delta = JStr ''hi'', ch_finish = JNull,
     ch_tool_calls = [], ch_usage = None\<rparr>"

definition small_usage :: chat_chunk where
  "small_usage = \<lparr>ch_id = JStr [], ch_model = JStr ''qwen'', ch_delta = JStr [], ch_finish = JNull,
     ch_tool_calls = [], ch_usage = Some \<lparr>tu_prompt = 3, tu_completion = 4, tu_total = 7\<rparr>\<rparr>"

lemma small_reads: "read_chunk ''qwen'' delta_event = Some small_delta" "read_chunk ''qwen'' usage_event = Some small_usage"
  "read_chunk ''qwen'' (JInt 5) = None"
  by (simp_all add: read_chunk_def delta_event_def usage_event_def json_eval small_delta_def small_usage_def)

lemma strip_small: "strip ''a'' = ''a''" "strip ''u'' = ''u''" "strip ''5'' = ''5''" "strip ''[DONE]'' = ''[DONE]''"
  by (rule strip_id, simp add: stripped_def is_space_def)+

lemma small_lines:
  "read_lines (small_http ls) ''qwen'' sse_lines None = [Chunk small_delta, Chunk small_usage, Finished]"
  "read_lines (small_http ls) ''qwen'' odd_lines None
     = [Chunk small_delta, Crashed]"
  by (simp_all add: sse_lines_def odd_lines_def starts_with_def data_prefix_def remove_prefix_def strip_small small_http_def
      small_reads)

lemma small_items:
  "provider_items (small_env ls) small_target small_body int
     = Some (let items = read_lines (small_http ls) ''qwen'' ls None in zip (map int [0..<length items]) items)"
  by (simp add: provider_items_def wants_usage_def small_body_def body_field_def json_eval read_messages_def
      read_message_def chat_options_of_def chat_payload_def provider_stream_def small_target_def
      Let_def raise_for_status_def)


theorem stream_frames_exact_witness:
  "fst (stream_call (small_env sse_lines) small_body sample_context None int small_gateway)
   = Done (Inr [DeltaFrame ''qwen'' [(''content'', JStr ''hi'')] JNull, DoneFrame])"
proof -
  have items: "provider_items (small_env sse_lines) small_target small_body int
      = Some [(0, Chunk small_delta), (1, Chunk small_usage), (2, Finished)]"
    by (simp add: small_items small_lines)
  have wants: "wants_usage small_body = Some False"
    by (simp add: wants_usage_def small_body_def body_field_def json_eval)
  from stream_frames_exact [OF small_prepare items refl, of sample_context None] wants
  show ?thesis
    by (auto simp: chunks_read_def small_delta_def small_usage_def delta_of_def closing_frames_def
        json_truthy_def small_target_def)
qed

text \<open>
  A data event that is JSON but no object crashes the generator: what the runtime sent after it is
  lost, and so is the whole usage record of the answer.
\<close>
theorem odd_event_loses_usage:
  "fst (stream_call (small_env odd_lines) small_body sample_context
      None int small_gateway) = Done (Inr [DeltaFrame ''qwen'' [(''content'', JStr ''hi'')] JNull]) \<and>
   gd_usage (snd (stream_call (small_env odd_lines) small_body
      sample_context None int small_gateway)) = []"
proof -
  have items: "provider_items (small_env odd_lines) small_target small_body int
      = Some [(0, Chunk small_delta), (1, Crashed)]"
    by (simp add: small_items small_lines)
  have wants: "wants_usage small_body = Some False"
    by (simp add: wants_usage_def small_body_def body_field_def json_eval)
  show ?thesis
    by (simp add: stream_call_eq [OF small_prepare items] Let_def ending_def wants chunk_frames_def small_delta_def
        delta_of_def closing_frames_def json_truthy_def small_target_def chunks_read_def) (simp add: small_gateway_def)
qed

section \<open>Buffered calls\<close>

text \<open>The record of a call that reached its provider.\<close>

definition billed :: "gateway_env \<Rightarrow> gateway_context \<Rightarrow> target \<Rightarrow> string \<Rightarrow> int \<Rightarrow> int \<Rightarrow> nat \<Rightarrow> usage_record list" where
  "billed env ctx t endpoint prompt completion status =
     (let row = usage_row (ge_now env) ctx t False prompt completion status False endpoint
      in if ge_commit env row then [row] else [])"

definition accounted ::
    "gateway_env \<Rightarrow> gateway_context \<Rightarrow> string \<Rightarrow> string \<Rightarrow> gateway_db \<Rightarrow> 'a result outcome \<Rightarrow> ('a \<Rightarrow> int \<times> int)
       \<Rightarrow> gateway_db \<Rightarrow> bool" where
  "accounted env ctx name endpoint db reply tokens db' =
     (case reply of
        Done (Inr a) \<Rightarrow> (\<exists>t. resolve name db = Inr t \<and>
          gd_usage db' = gd_usage db @ billed env ctx t endpoint (fst (tokens a)) (snd (tokens a)) 200)
      | Done (Inl e) \<Rightarrow>
          gd_usage db' = gd_usage db \<and> db' = db \<or>
          (\<exists>t text. resolve name db = Inr t \<and> e = DependencyUnavailableError text \<and>
             gd_usage db' = gd_usage db @ billed env ctx t endpoint 0 0 502)
      | _ \<Rightarrow> db' = db)"



lemma refused_accounted [simp]:
  "accounted env ctx name endpoint db (Done (Inl e)) tokens db"
  "accounted env ctx name endpoint db (Raised x) tokens db" "accounted env ctx name endpoint db Diverges tokens db"
  by (simp_all add: accounted_def)







lemma status_class_ok: "status_class 200 = ''2xx''"
  by code_simp

text \<open>
  An answered audio request is counted twice: its usage record is one, but the request counter of
  its model goes up by two.
\<close>
theorem audio_requests_counted_twice:
  assumes "resolve m db = Inr t" "ge_transcribe env (tg_url t) audio ((''model'', JStr (tg_served t)) # form) = Done (Inr x)"
  shows "gd_requests (snd (transcribe_call env m audio form ctx db)) = gd_requests db @
     [(model_name (tg_model t), ''audio.transcriptions'', ''2xx''), (model_name (tg_model t), ''audio.transcriptions'', ''2xx'')]"
  using assms
  by (simp add: transcribe_call_def count_again_def record_usage_def Let_def status_class_ok)

section \<open>Reports\<close>








end
