(* ===== verification/Agent_Calls.thy ===== *)
theory Agent_Calls
  imports Key_Properties
begin

text \<open>
  Properties of agents behind the gateway (\<open>services/agent_gateway.py\<close>, \<open>_run_agent\<close> of
  \<open>api/v1/gateway.py\<close>): whose permissions a run has, and what a streamed run tells its reader.
\<close>

section \<open>On whose authority\<close>

text \<open>An agent call that is answered is one started run, for the user \<open>resolve_actor\<close> gives.\<close>

lemma streamed_starts:
  "run_agent_streamed env a actor msg conv trace db = Done (Inr (frames, db')) \<Longrightarrow>
     \<exists>i. start_run env (agent_id a) msg actor conv trace db = Done (Inr (i, db'))"
  by (auto simp: run_agent_streamed_def start_run_def split: sum.splits outcome.splits option.splits)

lemma buffered_starts:
  "run_agent_buffered env a actor msg m conv trace db = Done (Inr (x, db')) \<Longrightarrow>
     \<exists>i. start_run env (agent_id a) msg actor conv trace db = Done (Inr (i, db'))"
  by (auto simp: run_agent_buffered_def split: sum.splits outcome.splits option.splits)

lemma run_agent_starts:
  assumes "run_agent genv env m body ctx trace db = Done (Inr (x, db'))"
  obtains a actor msg conv i where "load_agent (rd_registry db) m = Inr a"
    "resolve_actor ctx (rd_users db) = Inr actor"
    "start_run env (agent_id a) msg actor conv trace db = Done (Inr (i, db'))"
proof -
  from assms obtain a actor where a: "load_agent (rd_registry db) m = Inr a"
    "resolve_actor ctx (rd_users db) = Inr actor"
    by (auto simp: run_agent_def split: sum.splits)
  from assms a obtain msg conv y where
    "run_agent_streamed env a actor msg conv trace db = Done (Inr (y, db')) \<or>
     (\<exists>z. run_agent_buffered env a actor msg m conv trace db = Done (Inr (z, db')))"
    by (auto simp: run_agent_def Let_def split: sum.splits option.splits if_splits outcome.splits)
  with streamed_starts buffered_starts a that show ?thesis by metis
qed

lemma resolve_actor_owner:
  assumes "resolve_actor ctx users = Inr actor"
  obtains k c where "gc_key ctx = Some (k, c)" "client_owner c = Some (user_id actor)" "actor \<in> set users"
    "user_active actor"
  using assms find_row_Some
  by (fastforce simp: resolve_actor_def split: option.splits prod.splits if_splits)

text \<open>
  C24. A run started through the gateway acts for the owner of the API client and nobody else: the
  owner exists and is active, the run carries the owner's permissions as they are now, whatever
  end user the headers or the body name, and every call it made was checked against them; the
  run database stays well formed.
\<close>
theorem agent_calls_act_as_owner:
  assumes "runs_inv st db" "ae_settings env = st"
    and "run_agent genv env m body ctx trace db = Done (Inr (x, db'))"
  shows "\<exists>k c owner r a v xs. gc_key ctx = Some (k, c) \<and> client_owner c = Some (user_id owner) \<and>
     owner \<in> set (rd_users db) \<and> user_active owner \<and>
     load_agent (rd_registry db) m = Inr a \<and> get_current (agent_id a) (rd_registry db) = Some v \<and>
     get_run (rd_next db) db' = Some r \<and> run_user r = Some (user_id owner) \<and>
     run_permissions r = frozen_permissions owner \<and>
     ps_execs (rd_pipe db') = ps_execs (rd_pipe db) @ xs \<and>
     list_all (\<lambda>e. \<exists>b. call_checked st (caller_of r) (granted_ids (build_spec (rd_registry db) b v))
       (reg_tools (rd_registry db)) e) xs \<and> runs_inv st db'"
proof -
  obtain a actor msg conv i where *: "load_agent (rd_registry db) m = Inr a"
    "resolve_actor ctx (rd_users db) = Inr actor"
    "start_run env (agent_id a) msg actor conv trace db = Done (Inr (i, db'))"
    using assms(3) by (rule run_agent_starts)
  obtain k c where o: "gc_key ctx = Some (k, c)" "client_owner c = Some (user_id actor)"
    "actor \<in> set (rd_users db)" "user_active actor"
    using *(2) by (rule resolve_actor_owner)
  from start_run_ok [OF assms(1,2), of "agent_id a" msg actor conv trace] *(3)
  obtain r xs v b where "runs_inv st db'" "get_current (agent_id a) (rd_registry db) = Some v"
    "get_run (rd_next db) db' = Some r" "run_permissions r = frozen_permissions actor"
    "run_user r = Some (user_id actor)" "ps_execs (rd_pipe db') = ps_execs (rd_pipe db) @ xs"
    "list_all (call_checked st (caller_of r) (granted_ids (build_spec (rd_registry db) b v))
         (reg_tools (rd_registry db))) xs"
    by auto
  moreover from this(7) have "list_all (\<lambda>e. \<exists>b. call_checked st (caller_of r)
      (granted_ids (build_spec (rd_registry db) b v)) (reg_tools (rd_registry db)) e) xs"
    by (auto simp: list_all_iff)
  ultimately show ?thesis using * o by blast
qed

section \<open>Narration\<close>

lemma begin_run_stream:
  assumes inv: "runs_inv st db"
    and b: "begin_run env agent msg actor conv trace db = Inr (r, (evs, w'), db1)"
  shows "stream_ok 1 evs (aw_run w')" "run_id r = rd_next db" "run_id (aw_run w') = rd_next db"
    "rd_runs db1 = rd_runs db @ [r]"
proof -
  from b obtain a v where go: "agent_with agent (rd_registry db) = Some a" "agent_enabled a"
    "get_current agent (rd_registry db) = Some v"
    by (auto simp: begin_run_def split: option.splits if_splits)
  let ?spec = "build_spec (rd_registry db) a v"
  have r: "r = new_run (rd_next db) a v actor msg conv trace (ae_now env) ?spec"
    and ex: "execute_run env ?spec [plain_message ''user'' msg] (run_world r db1) = (evs, w')"
    and db1: "rd_runs db1 = rd_runs db @ [r]" "ps_execs (rd_pipe db1) = ps_execs (rd_pipe db)"
      "ps_next (rd_pipe db1) = ps_next (rd_pipe db)"
    using b go by (auto simp: begin_run_def Let_def)
  have "fresh_rows (aw_pipe (run_world r db1))"
    using runs_invD(6) [OF inv] db1 by (simp add: run_world_def fresh_rows_def)
  from run_from_ok [OF ex [unfolded execute_run_def] this]
  have "stretch_ok env ?spec 1 evs (run_world r db1) w'" .
  then have "stream_ok 1 evs (aw_run w')" "same_run r (aw_run w')"
    by (auto simp: stretch_ok_def run_world_def)
  with r db1(1) show "stream_ok 1 evs (aw_run w')" "run_id r = rd_next db" "run_id (aw_run w') = rd_next db"
    "rd_runs db1 = rd_runs db @ [r]"
    by (simp_all add: same_run_def new_run_def)
qed

definition spoken :: "run_event list \<Rightarrow> agent_frame list" where
  "spoken evs = concat (map (narrate_event \<circ> ev_body) evs)"

lemma spoken_texts: "\<exists>ts. spoken evs = map TextFrame ts"
proof (induction evs)
  case Nil
  then show ?case by (simp add: spoken_def)
next
  case (Cons e evs)
  then obtain ts where "spoken evs = map TextFrame ts" by blast
  moreover have "\<exists>us. narrate_event (ev_body e) = map TextFrame us"
  proof (cases "ev_body e")
    case (TOOL_APPROVAL_REQUIRED t as k i)
    then show ?thesis by (simp add: narrate_event_def Cons_eq_map_conv)
  qed (simp_all add: narrate_event_def Cons_eq_map_conv)
  ultimately show ?case by (auto simp: spoken_def map_append [symmetric] simp del: map_append)
qed

lemma quiet_not_closing: "quiet evs \<Longrightarrow> \<not> (\<exists>e \<in> set evs. closes (ev_body e))"
proof -
  have "closes b \<Longrightarrow> stops_stream b" for b by (cases b) (simp_all add: closes_def)
  then show "quiet evs \<Longrightarrow> ?thesis" by (auto simp: quiet_def)
qed

text \<open>
  A streamed agent run never just stops: whatever happened, the last line before the end of the
  stream says how it ended, the answer when the run completed, its error when it failed, and a
  request for patience when it waits for an approval.
\<close>
theorem narration_says_how_it_ended:
  assumes "runs_inv st db" "run_agent_streamed env a actor msg conv trace db = Done (Inr (frames, db'))"
  shows "\<exists>ts end_text r. frames = [RoleFrame] @ map TextFrame ts @ [TextFrame end_text, StopFrame, StreamDone] \<and>
     get_run (rd_next db) db' = Some r \<and>
     (case run_state r of
        COMPLETED \<Rightarrow> run_output r = Some end_text
      | FAILED_RUN \<Rightarrow> (\<exists>err. end_text = newline # ''_'' @ err @ ''_'')
      | WAITING_FOR_APPROVAL \<Rightarrow> end_text = explain r
      | _ \<Rightarrow> False)"
proof -
  from assms(2) obtain r evs w' db1 fresh where b: "begin_run env (agent_id a) msg actor conv trace db = Inr (r, (evs, w'), db1)"
    and d: "drain (run_id r) (evs, w') db1 = Done (Inr (run_id r, db'))"
    and f: "get_run (run_id r) db' = Some fresh" "frames = narrate evs fresh"
    by (auto simp: run_agent_streamed_def drain_def split: sum.splits outcome.splits option.splits)
  note s = begin_run_stream [OF assms(1) b]
  have runs: "rd_runs db' = update_rows (\<lambda>x. run_id x = rd_next db) (\<lambda>_. aw_run w') (rd_runs db @ [r])"
    using d s(3,4) by (auto simp: drain_def put_run_def split: option.splits)
  have "find_row (\<lambda>x. run_id x = rd_next db) (update_rows (\<lambda>x. run_id x = rd_next db) (\<lambda>_. aw_run w') rows)
      = (if \<exists>x \<in> set rows. run_id x = rd_next db then Some (aw_run w') else None)" for rows
    using s(3) by (induction rows) auto
  then have fresh: "fresh = aw_run w'" using f(1) s(2) by (simp add: get_run_def runs)
  from s(1) obtain init e where e: "evs = init @ [e]" "quiet init" "end_matches (ev_body e) fresh"
    by (auto simp: stream_ok_def fresh)
  obtain ts where ts: "spoken init = map TextFrame ts" using spoken_texts by blast
  have closing: "(\<exists>x \<in> set evs. closes (ev_body x)) = closes (ev_body e)"
    using quiet_not_closing [OF e(2)] by (auto simp: e(1))
  have frames: "frames = [RoleFrame] @ map TextFrame ts @ narrate_event (ev_body e)
      @ (if closes (ev_body e) then [] else [TextFrame (explain fresh)]) @ [StopFrame, StreamDone]"
    using ts unfolding f(2) narrate_def closing by (simp add: e(1) spoken_def)
  have run: "get_run (rd_next db) db' = Some fresh" using f(1) s(2) by simp
  show ?thesis
  proof (cases "ev_body e")
    case (RUN_COMPLETED out it)
    with frames run e(3) show ?thesis
      by (intro exI [of _ ts] exI [of _ out] exI [of _ fresh]) (simp add: narrate_event_def closes_def)
  next
    case (RUN_FAILED err)
    with frames run e(3) show ?thesis
      by (intro exI [of _ ts] exI [of _ "newline # ''_'' @ err @ ''_''"] exI [of _ fresh])
         (simp add: narrate_event_def closes_def)
  next
    case (TOOL_APPROVAL_REQUIRED tool args risk i)
    then obtain t where "narrate_event (ev_body e) = [TextFrame t]" by (simp add: narrate_event_def)
    with TOOL_APPROVAL_REQUIRED frames run e(3) show ?thesis
      by (intro exI [of _ "ts @ [t]"] exI [of _ "explain fresh"] exI [of _ fresh]) (simp add: closes_def)
  qed (use e(3) in simp_all)
qed

section \<open>A call\<close>

definition ops_row :: agent_row where
  "ops_row = \<lparr>agent_id = 11, agent_slug = ''ops'', agent_display = ''Ops'', agent_description = None,
        agent_enabled = True, agent_owner = None, agent_current = 2\<rparr>"

lemma sample_runs_inv: "runs_inv default_agents_settings sample_runs"
  by (simp add: runs_inv_def sample_runs_def fresh_rows_def)

lemma sample_streamed:
  "\<exists>frames db. run_agent_streamed Agent_Sample.sample_env ops_row (plain_user 7 ''ann'') ''wipe it'' None ''t'' sample_runs
     = Done (Inr (frames, db)) \<and> map run_state (rd_runs db) = [WAITING_FOR_APPROVAL]"
  by (simp add: run_agent_streamed_def ops_row_def run_eval)

theorem narration_says_how_it_ended_witness:
  "\<exists>ts r db. run_agent_streamed Agent_Sample.sample_env ops_row (plain_user 7 ''ann'') ''wipe it'' None ''t'' sample_runs
     = Done (Inr ([RoleFrame] @ map TextFrame ts @ [TextFrame (explain r), StopFrame, StreamDone], db)) \<and>
     run_state r = WAITING_FOR_APPROVAL"
proof -
  obtain frames db where d: "run_agent_streamed Agent_Sample.sample_env ops_row (plain_user 7 ''ann'') ''wipe it'' None ''t'' sample_runs
     = Done (Inr (frames, db))" "map run_state (rd_runs db) = [WAITING_FOR_APPROVAL]"
    using sample_streamed by - (elim exE conjE, rule that)
  from narration_says_how_it_ended [OF sample_runs_inv d(1)]
  obtain ts t r where r: "frames = [RoleFrame] @ map TextFrame ts @ [TextFrame t, StopFrame, StreamDone]"
    "get_run (rd_next sample_runs) db = Some r"
    "case run_state r of COMPLETED \<Rightarrow> run_output r = Some t
      | FAILED_RUN \<Rightarrow> (\<exists>err. t = newline # ''_'' @ err @ ''_'')
      | WAITING_FOR_APPROVAL \<Rightarrow> t = explain r | _ \<Rightarrow> False"
    by - (elim exE conjE, rule that)
  from r(2) have "r \<in> set (rd_runs db)" using find_row_Some unfolding get_run_def by fast
  with d(2) have "run_state r = WAITING_FOR_APPROVAL" by (cases "rd_runs db") auto
  moreover from this r(3) have "t = explain r" by simp
  ultimately show ?thesis using d(1) r(1) by blast
qed

definition agent_body :: body where
  "agent_body = [(''model'', JStr ''agent:ops''), (''messages'', JList [JObj [(''role'', JStr ''user''), (''content'', JStr ''wipe it'')]]),
     (''stream'', JBool True), (''user'', JStr ''mallory'')]"

theorem agent_calls_act_as_owner_witness:
  "\<forall>genv. \<exists>x db r. run_agent genv Agent_Sample.sample_env ''agent:ops'' agent_body sample_context ''t'' sample_runs = Done (Inr (x, db)) \<and>
     get_run 0 db = Some r \<and> run_user r = Some 7 \<and> run_permissions r = [''tool.execute'']"
proof
  fix genv
  obtain frames db where d: "run_agent_streamed Agent_Sample.sample_env ops_row (plain_user 7 ''ann'') ''wipe it'' None ''t'' sample_runs
     = Done (Inr (frames, db))"
    using sample_streamed by - (elim exE conjE, rule that)
  have "strip ''wipe it'' \<noteq> []"
    using strip_id [of "''wipe it''"] by (simp add: stripped_def is_space_def)
  moreover have "load_agent sample_registry ''agent:ops'' = Inr ops_row"
    by (simp add: load_agent_def get_by_slug_def slug_of_def agent_prefix_def sample_registry_def ops_row_def)
  moreover have "resolve_actor sample_context (rd_users sample_runs) = Inr (plain_user 7 ''ann'')"
    by (simp add: resolve_actor_def sample_context_def sample_client_def sample_runs_def)
       (simp add: plain_user_def)
  ultimately have x: "run_agent genv Agent_Sample.sample_env ''agent:ops'' agent_body sample_context ''t'' sample_runs
      = Done (Inr (AgentStreamed frames, db))"
    using d
    by (simp add: run_agent_def last_user_message_def agent_body_def body_field_def get_field_def get_default_def
        json_get_def given_def json_or_def json_truthy_def iterated_def text_of_def conversation_of_def
        sample_context_def sample_runs_def)
  have "rd_next sample_runs = 0" "rd_users sample_runs = [plain_user 7 ''ann'', plain_user 8 ''bob'']"
    by (simp_all add: sample_runs_def)
  with agent_calls_act_as_owner [OF sample_runs_inv _ x] frozen_plain
  show "\<exists>x db r. run_agent genv Agent_Sample.sample_env ''agent:ops'' agent_body sample_context ''t'' sample_runs = Done (Inr (x, db)) \<and>
     get_run 0 db = Some r \<and> run_user r = Some 7 \<and> run_permissions r = [''tool.execute'']"
    using x by (auto simp: sample_context_def sample_client_def)
qed

end
