(* ===== verification/Model_Registry.thy ===== *)
theory Model_Registry
  imports Model_Catalog Accounts
begin

text \<open>
  The model registry, \<open>backend/app/services/model_registry.py\<close>: registration, the scan of a
  model's directory, manifests, deletion and aliases.  The file system, the digests, what YAML
  parses to and the answer of an Ollama server are arguments; descriptive columns nothing decides
  on (display name, architecture, parameter count, quantization, description) are left out.
\<close>

section \<open>Tables\<close>

record model_file =
  mf_model :: uuid
  mf_path :: string
  mf_size :: nat
  mf_digest :: "string option"

record catalog_db =
  md_models :: "model list"
  md_files :: "model_file list"
  md_aliases :: "model_alias list"
  md_deployments :: "deployment list"
  md_next :: uuid
  md_trail :: "audit_entry list"

definition model_types :: "string list" where
  "model_types = [''LLM'', ''EMBEDDING'', ''RERANKER'', ''ASR'', ''TTS'', ''OCR'', ''VISION'', ''MULTIMODAL'']"

definition catalog_record ::
    "audit_action \<Rightarrow> user option \<Rightarrow> string \<Rightarrow> uuid \<Rightarrow> string option \<Rightarrow> json \<Rightarrow> catalog_db \<Rightarrow> catalog_db" where
  "catalog_record action actor kind i message meta db =
     db\<lparr>md_trail := record_entry action (map_option user_id actor)
          (case actor of None \<Rightarrow> ''system'' | Some u \<Rightarrow> user_name u) kind (uuid_str i) message meta (md_trail db)\<rparr>"

definition put_model :: "model \<Rightarrow> catalog_db \<Rightarrow> catalog_db" where
  "put_model m db = db\<lparr>md_models := update_rows (\<lambda>r. model_id r = model_id m) (\<lambda>_. m) (md_models db)\<rparr>"

section \<open>Endpoints\<close>

text \<open>
  \<open>urlparse(url).hostname\<close> of a string without brackets: the scheme if there is one, the network
  location up to the path, without user information and port, in lower case up to a zone.
\<close>

definition scheme_char :: "char \<Rightarrow> bool" where
  "scheme_char c = (c \<in> set ''abcdefghijklmnopqrstuvwxyzABCDEFGHIJKLMNOPQRSTUVWXYZ0123456789+-.'')"

definition alpha_char :: "char \<Rightarrow> bool" where
  "alpha_char c = (c \<in> set ''abcdefghijklmnopqrstuvwxyzABCDEFGHIJKLMNOPQRSTUVWXYZ'')"

definition after_scheme :: "string \<Rightarrow> string" where
  "after_scheme url =
     (case partition_at CHR '':'' url of
        (scheme, sep, rest) \<Rightarrow>
          if sep \<noteq> [] \<and> scheme \<noteq> [] \<and> alpha_char (hd scheme) \<and> list_all scheme_char scheme
          then rest else url)"

definition clean_url :: "string \<Rightarrow> string" where
  "clean_url url = filter (\<lambda>c. c \<notin> {CHR 0x09, CHR 0x0A, CHR 0x0D})
     (dropWhile (\<lambda>c. (of_char c :: nat) \<le> 32) url)"

definition network_location :: "string \<Rightarrow> string" where
  "network_location url =
     (let rest = after_scheme (clean_url url)
      in if starts_with ''//'' rest
         then takeWhile (\<lambda>c. c \<notin> set ''/?#'') (drop 2 rest) else [])"

definition after_last :: "char \<Rightarrow> string \<Rightarrow> string" where
  "after_last c s = rev (takeWhile (\<lambda>x. x \<noteq> c) (rev s))"

definition url_hostname :: "string \<Rightarrow> string" where
  "url_hostname url =
     (let host = fst (partition_at CHR '':'' (after_last CHR ''@'' (network_location url)));
          (name, percent, zone) = partition_at CHR ''%'' host
      in lower name @ percent @ zone)"

definition public_ai_hosts :: "string list" where
  "public_ai_hosts =
     [''openai.com'', ''openai.azure.com'', ''anthropic.com'', ''elevenlabs.io'', ''googleapis.com'',
      ''google.com'', ''cognitiveservices.azure.com'', ''azure.com'', ''amazonaws.com'', ''deepgram.com'',
      ''assemblyai.com'', ''speechmatics.com'', ''huggingface.co'']"

definition is_public_host :: "string \<Rightarrow> bool" where
  "is_public_host host =
     (\<exists>p \<in> set public_ai_hosts. lower host = p \<or> suffix (''.'' @ p) (lower host))"

definition refuse_public_endpoint :: "string \<Rightarrow> unit result" where
  "refuse_public_endpoint url =
     (let host = url_hostname (if sublist ''://'' url then url else ''http://'' @ url)
      in if host = [] then Inl (ValidationError (quoted url @ '' is not a URL the platform can call.''))
         else if is_public_host host
         then Inl (ValidationError (host @ '' is a public cloud service. This platform runs its models on the ''
           @ ''premises and is built to work with no Internet at all (Rule 4), so an ''
           @ ''endpoint must be a host inside your own network.''))
         else Inr ())"

section \<open>Registration\<close>

record registration =
  rg_name :: string
  rg_type :: string
  rg_storage :: string
  rg_runtime :: string
  rg_version :: string
  rg_context :: "nat option"
  rg_memory :: "int option"
  rg_min_gpus :: nat
  rg_endpoint :: "string option"
  rg_ollama_tag :: "string option"
  rg_extra_args :: "string list"

definition register_model ::
    "registration \<Rightarrow> user option \<Rightarrow> catalog_db \<Rightarrow> (model \<times> catalog_db) result" where
  "register_model r actor db =
     (let external = rg_runtime r \<in> set external_runtimes
      in if get_model_by_name (rg_name r) (md_models db) \<noteq> None
         then Inl (ConflictError (''A model named '' @ quoted (rg_name r) @ '' is already registered.''))
         else if rg_type r \<notin> set model_types
         then Inl (ValidationError (''Unknown model type '' @ quoted (rg_type r) @ ''.''))
         else if external \<and> \<not> truthy (rg_endpoint r)
         then Inl (ValidationError (''The '' @ quoted (rg_runtime r)
           @ '' runtime is external, so it needs an endpoint_url saying where the model is already served.''))
         else if truthy (rg_endpoint r) \<and> \<not> external
         then Inl (ValidationError (''endpoint_url is only meaningful for an external runtime (''
           @ comma_join [''external'', ''ollama''] @ ''); '' @ quoted (rg_runtime r)
           @ '' is deployed by the platform, which decides the address itself.''))
         else
           (case (if external then refuse_public_endpoint (the (rg_endpoint r)) else Inr ()) of
              Inl e \<Rightarrow> Inl e
            | Inr _ \<Rightarrow>
                if \<not> external \<and> strip (rg_storage r) = []
                then Inl (ValidationError (''The '' @ quoted (rg_runtime r)
                  @ '' runtime is started by the platform, so it needs a storage_path saying where the weights are on the node.''))
                else
                  (let m = \<lparr>model_id = md_next db, model_name = rg_name r, model_version = rg_version r,
                         model_type = rg_type r, context_length = rg_context r, storage_path = rg_storage r,
                         model_runtime = rg_runtime r, endpoint_url = rg_endpoint r,
                         required_gpu_memory_mib = rg_memory r, min_gpu_count = rg_min_gpus r,
                         model_status = (if external then AVAILABLE else REGISTERED),
                         model_status_detail = (if external
                           then Some (''Served by an external '' @ rg_runtime r @ '' runtime at '' @ the (rg_endpoint r)
                             @ ''. The platform routes to it but does not manage its lifecycle.'') else None),
                         meta_ollama_tag = rg_ollama_tag r, meta_extra_args = rg_extra_args r\<rparr>
                   in Inr (m, catalog_record MODEL_REGISTERED actor ''model'' (model_id m) None
                        (JObj [(''name'', JStr (rg_name r)), (''type'', JStr (rg_type r)), (''runtime'', JStr (rg_runtime r))])
                        (db\<lparr>md_models := md_models db @ [m], md_next := md_next db + 1\<rparr>)))))"

section \<open>The scan of a directory\<close>

text \<open>
  A file system gives the files below a directory with their sizes, in order of their paths,
  or \<open>None\<close> when the path is no directory.
\<close>

record disk =
  dk_files :: "string \<Rightarrow> (string \<times> nat) list option"
  dk_digest :: "string \<Rightarrow> string \<Rightarrow> string"

definition file_suffix :: "string \<Rightarrow> string" where
  "file_suffix path =
     (let name = after_last CHR ''/'' path; ext = after_last CHR ''.'' name
      in if CHR ''.'' \<in> set name \<and> ext \<noteq> [] \<and> length ext + 1 < length name then CHR ''.'' # ext else [])"

definition weight_suffixes :: "string list" where
  "weight_suffixes = [''.safetensors'', ''.bin'', ''.gguf'', ''.pt'', ''.pth'', ''.onnx'']"

definition is_weight :: "string \<Rightarrow> bool" where
  "is_weight path = (lower (file_suffix path) \<in> set weight_suffixes)"

definition always_hash_under :: nat where
  "always_hash_under = 64 * 1024 * 1024"

record directory_scan =
  sc_missing :: bool
  sc_entries :: "(string \<times> nat \<times> string option) list"
  sc_total :: nat
  sc_weights :: bool

definition scan_model_directory :: "disk \<Rightarrow> string \<Rightarrow> bool \<Rightarrow> directory_scan" where
  "scan_model_directory dk dir verify =
     (case dk_files dk dir of
        None \<Rightarrow> \<lparr>sc_missing = True, sc_entries = [], sc_total = 0, sc_weights = False\<rparr>
      | Some files \<Rightarrow>
          \<lparr>sc_missing = False,
           sc_entries = map (\<lambda>(path, size). (path, size,
             if verify \<and> (size \<le> always_hash_under \<or> is_weight path) then Some (dk_digest dk dir path) else None)) files,
           sc_total = sum_list (map snd files),
           sc_weights = list_ex (\<lambda>(path, _). is_weight path) files\<rparr>)"

record import_result =
  ir_name :: string
  ir_status :: string
  ir_files :: nat
  ir_hashed :: nat
  ir_bytes :: nat
  ir_detail :: "string option"

fun model_status_text :: "model_status \<Rightarrow> string" where
  "model_status_text REGISTERED = ''REGISTERED''" | "model_status_text AVAILABLE = ''AVAILABLE''"
| "model_status_text UNAVAILABLE = ''UNAVAILABLE''" | "model_status_text DISABLED = ''DISABLED''"

definition replace_files :: "uuid \<Rightarrow> model_file list \<Rightarrow> catalog_db \<Rightarrow> catalog_db" where
  "replace_files i files db = db\<lparr>md_files := filter (\<lambda>f. mf_model f \<noteq> i) (md_files db) @ files\<rparr>"

definition with_status :: "model_status \<Rightarrow> string option \<Rightarrow> model \<Rightarrow> model" where
  "with_status s detail m = m\<lparr>model_status := s, model_status_detail := detail\<rparr>"

definition import_from_disk ::
    "disk \<Rightarrow> uuid \<Rightarrow> bool \<Rightarrow> user option \<Rightarrow> catalog_db \<Rightarrow> (import_result \<times> catalog_db) result" where
  "import_from_disk dk i verify actor db =
     (case get_model i (md_models db) of
        None \<Rightarrow> Inl (NotFoundError (''No model with id '' @ uuid_str i @ ''.''))
      | Some m \<Rightarrow>
          if model_runtime m = ''mock''
          then Inr (\<lparr>ir_name = model_name m, ir_status = ''AVAILABLE'', ir_files = 0, ir_hashed = 0, ir_bytes = 0,
                     ir_detail = Some ''Mock runtime; filesystem scan skipped.''\<rparr>,
                    put_model (with_status AVAILABLE (Some ''Mock runtime - no weights required.'') m) db)
          else
            (let scan = scan_model_directory dk (storage_path m) verify
             in if sc_missing scan
                then (let detail = Some (storage_path m @ '' is not a directory on this host.'')
                      in Inr (\<lparr>ir_name = model_name m, ir_status = ''UNAVAILABLE'', ir_files = 0, ir_hashed = 0,
                               ir_bytes = 0, ir_detail = detail\<rparr>,
                              put_model (with_status UNAVAILABLE detail m) db))
                else
                  (let files = map (\<lambda>(path, size, digest). \<lparr>mf_model = model_id m, mf_path = path, mf_size = size,
                                 mf_digest = digest\<rparr>) (sc_entries scan);
                       m1 = (if files = [] then with_status UNAVAILABLE (Some ''Directory exists but contains no files.'') m
                             else if \<not> sc_weights scan
                             then with_status UNAVAILABLE
                               (Some ''No weight files found (.safetensors/.bin/.gguf). The copy may be incomplete.'') m
                             else with_status AVAILABLE None m)
                   in Inr (\<lparr>ir_name = model_name m, ir_status = model_status_text (model_status m1), ir_files = length files,
                            ir_hashed = length (filter (\<lambda>f. mf_digest f \<noteq> None) files), ir_bytes = sc_total scan,
                            ir_detail = model_status_detail m1\<rparr>,
                           catalog_record MODEL_REGISTERED actor ''model'' (model_id m)
                             (Some (''Imported '' @ nat_str (length files) @ '' file(s) from disk''))
                             (JObj [(''status'', JStr (model_status_text (model_status m1))), (''files'', JInt (int (length files))),
                                    (''bytes'', JInt (int (sc_total scan)))])
                             (put_model m1 (replace_files (model_id m) files db))))))"

section \<open>Deletion\<close>

text \<open>
  \<open>Raised\<close> is the foreign key of \<open>model_deployments\<close>, which restricts; aliases and files go with
  the model.
\<close>

definition delete_model :: "uuid \<Rightarrow> user \<Rightarrow> catalog_db \<Rightarrow> (unit \<times> catalog_db) result outcome" where
  "delete_model i actor db =
     (case get_model i (md_models db) of
        None \<Rightarrow> Done (Inl (NotFoundError (''No model with id '' @ uuid_str i @ ''.'')))
      | Some m \<Rightarrow>
          (let active = active_for_model i (md_deployments db)
           in if active \<noteq> []
              then Done (Inl (ConflictError (quoted (model_name m) @ '' has '' @ nat_str (length active)
                @ '' active deployment(s). Stop them first.'')))
              else if \<exists>d \<in> set (md_deployments db). dep_model d = i then Raised ''IntegrityError''
              else Done (Inr ((), catalog_record MODEL_DELETED (Some actor) ''model'' i None
                (JObj [(''name'', JStr (model_name m))])
                (db\<lparr>md_models := filter (\<lambda>r. model_id r \<noteq> i) (md_models db),
                    md_files := filter (\<lambda>f. mf_model f \<noteq> i) (md_files db),
                    md_aliases := filter (\<lambda>a. alias_model a \<noteq> i) (md_aliases db)\<rparr>)))))"

section \<open>Aliases\<close>

text \<open>The unique index on the name of an alias, which also covers disabled ones.\<close>

definition insert_alias :: "model_alias \<Rightarrow> catalog_db \<Rightarrow> catalog_db option" where
  "insert_alias a db =
     (if \<exists>r \<in> set (md_aliases db). alias_name r = alias_name a then None
      else Some (db\<lparr>md_aliases := md_aliases db @ [a], md_next := md_next db + 1\<rparr>))"

definition create_alias ::
    "string \<Rightarrow> uuid \<Rightarrow> string option \<Rightarrow> bool \<Rightarrow> user \<Rightarrow> catalog_db \<Rightarrow> (model_alias \<times> catalog_db) result outcome" where
  "create_alias nm i description enabled actor db =
     (if get_by_alias nm (md_aliases db) \<noteq> None
      then Done (Inl (ConflictError (''Alias '' @ quoted nm @ '' already exists.'')))
      else if get_model i (md_models db) = None
      then Done (Inl (NotFoundError (''No model with id '' @ uuid_str i @ ''.'')))
      else if get_model_by_name nm (md_models db) \<noteq> None
      then Done (Inl (ConflictError (quoted nm @ '' is already a model name. An alias that shadows a model would ''
             @ ''make that model unreachable by its own name.'')))
      else
        (let a = \<lparr>alias_id = md_next db, alias_name = nm, alias_model = i, alias_description = description,
                  alias_enabled = enabled\<rparr>
         in case insert_alias a db of
              None \<Rightarrow> Raised ''IntegrityError''
            | Some db1 \<Rightarrow> Done (Inr (a, catalog_record MODEL_REGISTERED (Some actor) ''model_alias'' (alias_id a)
                (Some (''Alias '' @ quoted nm @ '' created''))
                (JObj [(''alias'', JStr nm), (''model_id'', JStr (uuid_str i))]) db1))))"

definition put_alias :: "model_alias \<Rightarrow> catalog_db \<Rightarrow> catalog_db" where
  "put_alias a db = db\<lparr>md_aliases := update_rows (\<lambda>r. alias_id r = alias_id a) (\<lambda>_. a) (md_aliases db)\<rparr>"

definition alias_with :: "uuid \<Rightarrow> catalog_db \<Rightarrow> model_alias option" where
  "alias_with i db = find_row (\<lambda>a. alias_id a = i) (md_aliases db)"

definition update_alias ::
    "uuid \<Rightarrow> uuid option \<Rightarrow> string option \<Rightarrow> bool option \<Rightarrow> user \<Rightarrow> catalog_db \<Rightarrow> (model_alias \<times> catalog_db) result" where
  "update_alias i to description enabled actor db =
     (case alias_with i db of
        None \<Rightarrow> Inl (NotFoundError (''No alias with id '' @ uuid_str i @ ''.''))
      | Some a \<Rightarrow>
          if (case to of None \<Rightarrow> False | Some m \<Rightarrow> get_model m (md_models db) = None)
          then Inl (NotFoundError (''No model with id '' @ uuid_str (the to) @ ''.''))
          else
            (let a1 = a\<lparr>alias_model := given to (alias_model a),
                        alias_description := (if description = None then alias_description a else description),
                        alias_enabled := given enabled (alias_enabled a)\<rparr>
             in Inr (a1, catalog_record MODEL_REGISTERED (Some actor) ''model_alias'' (alias_id a)
                  (Some (''Alias '' @ quoted (alias_name a) @ '' updated''))
                  (JObj [(''from_model'', JStr (uuid_str (alias_model a))), (''to_model'', JStr (uuid_str (alias_model a1)))])
                  (put_alias a1 db))))"

definition delete_alias :: "uuid \<Rightarrow> user \<Rightarrow> catalog_db \<Rightarrow> (unit \<times> catalog_db) result" where
  "delete_alias i actor db =
     (case alias_with i db of
        None \<Rightarrow> Inl (NotFoundError (''No alias with id '' @ uuid_str i @ ''.''))
      | Some a \<Rightarrow> Inr ((), catalog_record MODEL_DELETED (Some actor) ''model_alias'' i
          (Some (''Alias '' @ quoted (alias_name a) @ '' deleted'')) (JObj [])
          (db\<lparr>md_aliases := filter (\<lambda>r. alias_id r \<noteq> i) (md_aliases db)\<rparr>)))"

definition alias_details :: "catalog_db \<Rightarrow> (string \<times> string \<times> bool) list" where
  "alias_details db =
     map (\<lambda>a. (alias_name a,
            case get_model (alias_model a) (md_models db) of None \<Rightarrow> [] | Some m \<Rightarrow> model_name m,
            serving_for_model (alias_model a) (md_deployments db) \<noteq> []))
       (list_aliases (md_aliases db))"

section \<open>Importing many\<close>

text \<open>
  A manifest as \<open>yaml.safe_load\<close> gives it, with the values of the types the columns have; a key
  that is absent is \<open>None\<close>.  A manifest that is no YAML is \<open>Inl\<close> of the parser's error.
\<close>

record manifest =
  mn_name :: "string option"
  mn_type :: "string option"
  mn_storage :: "string option"
  mn_runtime :: "string option"
  mn_version :: "string option"
  mn_context :: "nat option option"
  mn_memory :: "int option option"
  mn_min_gpus :: "nat option"
  mn_ollama_tag :: "string option"
  mn_extra_args :: "string list"
  mn_aliases :: "string list"

record registry_settings =
  rs_root_path :: string
  rs_default_runtime :: string

definition manifest_registration :: "registry_settings \<Rightarrow> string \<Rightarrow> manifest \<Rightarrow> registration" where
  "manifest_registration st name mn =
     \<lparr>rg_name = name, rg_type = given (mn_type mn) ''LLM'',
      rg_storage = given (mn_storage mn) (rs_root_path st @ ''/'' @ name),
      rg_runtime = given (mn_runtime mn) (rs_default_runtime st), rg_version = given (mn_version mn) ''1.0'',
      rg_context = given (mn_context mn) None, rg_memory = given (mn_memory mn) None,
      rg_min_gpus = given (mn_min_gpus mn) 1, rg_endpoint = None, rg_ollama_tag = mn_ollama_tag mn,
      rg_extra_args = mn_extra_args mn\<rparr>"

definition refresh_model :: "manifest \<Rightarrow> model \<Rightarrow> model" where
  "refresh_model mn m =
     m\<lparr>context_length := given (mn_context mn) (context_length m),
       required_gpu_memory_mib := given (mn_memory mn) (required_gpu_memory_mib m)\<rparr>"

fun add_aliases :: "uuid \<Rightarrow> string \<Rightarrow> string list \<Rightarrow> catalog_db \<Rightarrow> catalog_db option" where
  "add_aliases i filename [] db = Some db"
| "add_aliases i filename (nm # rest) db =
     (if get_by_alias nm (md_aliases db) \<noteq> None then add_aliases i filename rest db
      else (case insert_alias \<lparr>alias_id = md_next db, alias_name = nm, alias_model = i,
                   alias_description = Some (''From manifest '' @ filename), alias_enabled = True\<rparr> db of
              None \<Rightarrow> None
            | Some db1 \<Rightarrow> add_aliases i filename rest db1))"

definition failed_manifest :: "string \<Rightarrow> string \<Rightarrow> import_result" where
  "failed_manifest filename detail =
     \<lparr>ir_name = filename, ir_status = ''ERROR'', ir_files = 0, ir_hashed = 0, ir_bytes = 0, ir_detail = Some detail\<rparr>"

definition load_manifest ::
    "registry_settings \<Rightarrow> disk \<Rightarrow> user option \<Rightarrow> string \<Rightarrow> manifest \<Rightarrow> string \<Rightarrow> catalog_db
       \<Rightarrow> (import_result \<times> catalog_db) result outcome" where
  "load_manifest st dk actor filename mn name db =
     (case (case get_model_by_name name (md_models db) of
              None \<Rightarrow> register_model (manifest_registration st name mn) actor db
            | Some m \<Rightarrow> Inr (refresh_model mn m, put_model (refresh_model mn m) db)) of
        Inl e \<Rightarrow> Done (Inl e)
      | Inr (m, db1) \<Rightarrow>
          (case import_from_disk dk (model_id m) True actor db1 of
             Inl e \<Rightarrow> Done (Inl e)
           | Inr (res, db2) \<Rightarrow>
               (case add_aliases (model_id m) filename (mn_aliases mn) db2 of
                  None \<Rightarrow> Raised ''IntegrityError''
                | Some db3 \<Rightarrow> Done (Inr (res, db3)))))"

text \<open>One request: an error out of one manifest is an error of the whole import.\<close>

fun load_manifests ::
    "registry_settings \<Rightarrow> disk \<Rightarrow> user option \<Rightarrow> (string \<times> (string + manifest)) list \<Rightarrow> catalog_db
       \<Rightarrow> (import_result list \<times> catalog_db) result outcome" where
  "load_manifests st dk actor [] db = Done (Inr ([], db))"
| "load_manifests st dk actor ((filename, parsed) # rest) db =
     (let continue = (\<lambda>res db1.
        (case load_manifests st dk actor rest db1 of
           Done (Inr (results, db2)) \<Rightarrow> Done (Inr (res # results, db2)) | r \<Rightarrow> r))
      in case parsed of
           Inl e \<Rightarrow> continue (failed_manifest filename (''Malformed YAML: '' @ e)) db
         | Inr mn \<Rightarrow>
             if \<not> truthy (mn_name mn)
             then continue (failed_manifest filename (''Manifest has no '' @ quoted ''name'' @ ''.'')) db
             else (case load_manifest st dk actor filename mn (the (mn_name mn)) db of
                     Done (Inr (res, db1)) \<Rightarrow> continue res db1
                   | Done (Inl e) \<Rightarrow> Done (Inl e)
                   | Raised e \<Rightarrow> Raised e
                   | Diverges \<Rightarrow> Diverges))"

text \<open>
  \<open>import_ollama\<close>: a tag of the server is its name and the parameter size.  \<open>None\<close> is a server
  that could not be reached.
\<close>

definition model_name_of_tag :: "string \<Rightarrow> string" where
  "model_name_of_tag tag = lower (map (\<lambda>c. if c \<in> set '':/.'' then CHR ''-'' else c) tag)"

definition ollama_registration :: "string \<Rightarrow> string \<Rightarrow> string option \<Rightarrow> registration" where
  "ollama_registration base tag psize =
     \<lparr>rg_name = model_name_of_tag tag, rg_type = ''LLM'', rg_storage = ''ollama://'' @ tag, rg_runtime = ''ollama'',
      rg_version = or_str psize ''1.0'', rg_context = None, rg_memory = None, rg_min_gpus = 0,
      rg_endpoint = Some base, rg_ollama_tag = Some tag, rg_extra_args = []\<rparr>"

fun import_tags ::
    "string \<Rightarrow> (string \<times> string option) list \<Rightarrow> user \<Rightarrow> catalog_db
       \<Rightarrow> ((string \<times> string \<times> string) list \<times> catalog_db) result" where
  "import_tags base [] actor db = Inr ([], db)"
| "import_tags base ((raw, psize) # tags) actor db =
     (let tag = strip raw; name = model_name_of_tag tag
      in if tag = [] then import_tags base tags actor db
         else
           (case (case get_model_by_name name (md_models db) of
                    Some m \<Rightarrow> Inr ((name, tag, ''already registered''), put_model (m\<lparr>endpoint_url := Some base\<rparr>) db)
                  | None \<Rightarrow>
                      (case register_model (ollama_registration base tag psize) (Some actor) db of
                         Inl e \<Rightarrow> Inl e
                       | Inr (m, db1) \<Rightarrow> Inr ((model_name m, tag, ''registered''), db1))) of
              Inl e \<Rightarrow> Inl e
            | Inr (row, db1) \<Rightarrow>
                (case import_tags base tags actor db1 of
                   Inl e \<Rightarrow> Inl e
                 | Inr (rows, db2) \<Rightarrow> Inr (row # rows, db2))))"

definition import_ollama ::
    "string \<Rightarrow> string option \<Rightarrow> (string \<Rightarrow> (string \<times> string option) list option) \<Rightarrow> user \<Rightarrow> catalog_db
       \<Rightarrow> ((string \<times> string \<times> string) list \<times> catalog_db) result" where
  "import_ollama default_endpoint endpoint server actor db =
     (let base = rstrip_char CHR ''/'' (or_str endpoint default_endpoint)
      in case server base of
           None \<Rightarrow> Inl (ValidationError (''Could not reach Ollama at '' @ base @ ''.''))
         | Some tags \<Rightarrow> import_tags base tags actor db)"

end
