(* ===== verification/Registry_Properties.thy ===== *)
theory Registry_Properties
  imports Model_Registry Deployment_Sample Agent_Sample
begin

text \<open>Properties of the model registry (\<open>services/model_registry.py\<close>).\<close>

section \<open>Well-formed tables\<close>

text \<open>The unique columns and the foreign keys of aliases.\<close>

definition catalog_inv :: "catalog_db \<Rightarrow> bool" where
  "catalog_inv db =
     (distinct (map model_id (md_models db)) \<and> distinct (map model_name (md_models db)) \<and>
      distinct (map alias_name (md_aliases db)) \<and>
      (\<forall>m \<in> set (md_models db). model_id m < md_next db) \<and>
      (\<forall>a \<in> set (md_aliases db). alias_model a \<in> model_id ` set (md_models db)))"

lemma catalog_record_fields [simp]:
  "md_models (catalog_record a u k i t j db) = md_models db" "md_files (catalog_record a u k i t j db) = md_files db"
  "md_aliases (catalog_record a u k i t j db) = md_aliases db" "md_next (catalog_record a u k i t j db) = md_next db"
  "md_deployments (catalog_record a u k i t j db) = md_deployments db"
  by (simp_all add: catalog_record_def)

lemma put_model_fields [simp]:
  "md_files (put_model m db) = md_files db" "md_aliases (put_model m db) = md_aliases db"
  "md_next (put_model m db) = md_next db" "md_deployments (put_model m db) = md_deployments db"
  by (simp_all add: put_model_def)

lemma replace_files_fields [simp]:
  "md_models (replace_files i fs db) = md_models db" "md_aliases (replace_files i fs db) = md_aliases db"
  "md_next (replace_files i fs db) = md_next db" "md_deployments (replace_files i fs db) = md_deployments db"
  by (simp_all add: replace_files_def)

lemma put_model_map:
  assumes "distinct (map model_id (md_models db))" "m \<in> set (md_models db)" "model_id m1 = model_id m" "f m1 = f m"
  shows "map f (md_models (put_model m1 db)) = map f (md_models db)"
proof -
  have "r = m" if "r \<in> set (md_models db)" "model_id r = model_id m" for r
    using assms(1,2) that by (auto simp: distinct_map inj_on_def)
  then show ?thesis using assms(3,4) by (auto simp: put_model_def update_rows_def)
qed

lemma get_put_model:
  assumes "get_model i (md_models db) = Some m" "model_id m1 = model_id m"
  shows "get_model j (md_models (put_model m1 db)) = (if j = i then Some m1 else get_model j (md_models db))"
proof -
  have i: "model_id m = i" using get_model_Some [OF assms(1)] by simp
  have "find_row (\<lambda>r. model_id r = j) (update_rows (\<lambda>r. model_id r = i) (\<lambda>_. m1) rows)
      = (if j = i \<and> (\<exists>r \<in> set rows. model_id r = i) then Some m1 else find_row (\<lambda>r. model_id r = j) rows)" for rows
    using assms(2) i by (induction rows) auto
  moreover have "\<exists>r \<in> set (md_models db). model_id r = i" using get_model_Some [OF assms(1)] by blast
  ultimately show ?thesis using assms(2) i by (simp add: get_model_def put_model_def)
qed

section \<open>Imports\<close>

text \<open>
  What makes a model deployable: nothing to check (\<open>mock\<close>), or a directory with at least one
  weight file.
\<close>

definition weights_present :: "disk \<Rightarrow> model \<Rightarrow> bool" where
  "weights_present dk m =
     (model_runtime m = ''mock'' \<or>
      (case dk_files dk (storage_path m) of None \<Rightarrow> False | Some files \<Rightarrow> \<exists>f \<in> set files. is_weight (fst f)))"

definition files_on_disk :: "disk \<Rightarrow> bool \<Rightarrow> model \<Rightarrow> model_file list" where
  "files_on_disk dk verify m =
     (case dk_files dk (storage_path m) of None \<Rightarrow> []
      | Some files \<Rightarrow> map (\<lambda>(path, bytes). \<lparr>mf_model = model_id m, mf_path = path, mf_size = bytes,
          mf_digest = (if verify \<and> (bytes \<le> always_hash_under \<or> is_weight path)
                       then Some (dk_digest dk (storage_path m) path) else None)\<rparr>) files)"

lemma scan_weights: "dk_files dk path = Some files \<Longrightarrow>
    sc_weights (scan_model_directory dk path verify) = (\<exists>f \<in> set files. is_weight (fst f))"
  by (simp add: scan_model_directory_def list_ex_iff case_prod_beta')

lemma scan_files:
  assumes "dk_files dk (storage_path m) = Some files"
  shows "map (\<lambda>(path, bytes, digest). \<lparr>mf_model = model_id m, mf_path = path, mf_size = bytes,
           mf_digest = digest\<rparr>) (sc_entries (scan_model_directory dk (storage_path m) verify)) = files_on_disk dk verify m"
  using assms by (simp add: scan_model_directory_def files_on_disk_def comp_def case_prod_beta')

lemma import_cases:
  assumes "get_model i (md_models db) = Some m"
  obtains detail db' res where "import_from_disk dk i verify actor db = Inr (res, db')"
    "md_models db' = md_models (put_model (with_status (if weights_present dk m then AVAILABLE else UNAVAILABLE) detail m) db)"
    "ir_status res = model_status_text (if weights_present dk m then AVAILABLE else UNAVAILABLE)"
    "md_files db' = (if model_runtime m = ''mock'' \<or> dk_files dk (storage_path m) = None then md_files db
       else filter (\<lambda>f. mf_model f \<noteq> model_id m) (md_files db) @ files_on_disk dk verify m)"
    "md_aliases db' = md_aliases db" "md_next db' = md_next db" "md_deployments db' = md_deployments db"
proof (cases "model_runtime m = ''mock''")
  case True
  with assms that show ?thesis
    by (simp add: import_from_disk_def weights_present_def)
next
  case mock: False
  show ?thesis
  proof (cases "dk_files dk (storage_path m)")
    case None
    with assms mock that show ?thesis
      by (simp add: import_from_disk_def weights_present_def scan_model_directory_def Let_def)
  next
    case (Some files)
    let ?scan = "scan_model_directory dk (storage_path m) verify"
    let ?files = "files_on_disk dk verify m"
    have there: "\<not> sc_missing ?scan" using Some by (simp add: scan_model_directory_def)
    have w: "weights_present dk m = sc_weights ?scan"
      using Some mock by (simp add: weights_present_def scan_weights)
    have empty: "?files = [] \<Longrightarrow> \<not> sc_weights ?scan"
      using Some by (simp add: files_on_disk_def scan_weights)
    define detail where "detail = (if ?files = [] then Some ''Directory exists but contains no files.''
      else if \<not> sc_weights ?scan
      then Some ''No weight files found (.safetensors/.bin/.gguf). The copy may be incomplete.'' else None)"
    define m1 where "m1 = with_status (if weights_present dk m then AVAILABLE else UNAVAILABLE) detail m"
    have m1: "(if ?files = [] then with_status UNAVAILABLE (Some ''Directory exists but contains no files.'') m
       else if \<not> sc_weights ?scan
       then with_status UNAVAILABLE
         (Some ''No weight files found (.safetensors/.bin/.gguf). The copy may be incomplete.'') m
       else with_status AVAILABLE None m) = m1"
      using empty by (simp add: m1_def detail_def w)
    have st: "model_status m1 = (if weights_present dk m then AVAILABLE else UNAVAILABLE)"
      by (simp add: m1_def with_status_def)
    have ok: "import_from_disk dk i verify actor db =
        Inr (\<lparr>ir_name = model_name m, ir_status = model_status_text (model_status m1), ir_files = length ?files,
               ir_hashed = length (filter (\<lambda>f. mf_digest f \<noteq> None) ?files), ir_bytes = sc_total ?scan,
               ir_detail = model_status_detail m1\<rparr>,
             catalog_record MODEL_REGISTERED actor ''model'' (model_id m)
               (Some (''Imported '' @ nat_str (length ?files) @ '' file(s) from disk''))
               (JObj [(''status'', JStr (model_status_text (model_status m1))), (''files'', JInt (int (length ?files))),
                      (''bytes'', JInt (int (sc_total ?scan)))])
               (put_model m1 (replace_files (model_id m) ?files db)))"
      using assms mock there by (simp add: import_from_disk_def Let_def scan_files [OF Some] m1)
    show ?thesis
      by (rule that [OF ok, of detail])
         (use mock Some in \<open>simp_all add: st m1_def [symmetric] replace_files_def put_model_def\<close>)
  qed
qed

text \<open>
  C25. An import decides by what is on disk and by nothing else: the model becomes deployable exactly
  when it is a mock or its directory holds a weight file, its file list is then the directory as it
  is now, no other model and no alias changes, and importing again changes nothing more.
\<close>
theorem import_follows_disk:
  assumes inv: "catalog_inv db" and m: "get_model i (md_models db) = Some m"
  shows "\<exists>res db' m'. import_from_disk dk i verify actor db = Inr (res, db') \<and>
     get_model i (md_models db') = Some m' \<and>
     model_status m' = (if weights_present dk m then AVAILABLE else UNAVAILABLE) \<and>
     ir_status res = model_status_text (model_status m') \<and>
     (\<forall>j. j \<noteq> i \<longrightarrow> get_model j (md_models db') = get_model j (md_models db)) \<and>
     (model_runtime m \<noteq> ''mock'' \<and> dk_files dk (storage_path m) \<noteq> None \<longrightarrow>
        filter (\<lambda>f. mf_model f = i) (md_files db') = files_on_disk dk verify m) \<and>
     md_aliases db' = md_aliases db \<and> catalog_inv db' \<and>
     (\<exists>res2 db2. import_from_disk dk i verify actor db' = Inr (res2, db2) \<and>
        map model_status (md_models db2) = map model_status (md_models db'))"
proof -
  have i: "m \<in> set (md_models db)" "model_id m = i" using get_model_Some [OF m] by simp_all
  from m obtain detail db' res where d: "import_from_disk dk i verify actor db = Inr (res, db')"
    "md_models db' = md_models (put_model (with_status (if weights_present dk m then AVAILABLE else UNAVAILABLE) detail m) db)"
    "ir_status res = model_status_text (if weights_present dk m then AVAILABLE else UNAVAILABLE)"
    "md_files db' = (if model_runtime m = ''mock'' \<or> dk_files dk (storage_path m) = None then md_files db
       else filter (\<lambda>f. mf_model f \<noteq> model_id m) (md_files db) @ files_on_disk dk verify m)"
    "md_aliases db' = md_aliases db" "md_next db' = md_next db"
    by (rule import_cases)
  define m' where "m' = with_status (if weights_present dk m then AVAILABLE else UNAVAILABLE) detail m"
  have m': "model_id m' = model_id m" "model_name m' = model_name m" "weights_present dk m' = weights_present dk m"
    "model_status m' = (if weights_present dk m then AVAILABLE else UNAVAILABLE)"
    by (simp_all add: m'_def with_status_def weights_present_def)
  have get: "get_model j (md_models db') = (if j = i then Some m' else get_model j (md_models db))" for j
    unfolding d(2) m'_def [symmetric] using m m'(1) by (rule get_put_model)
  have dist: "distinct (map model_id (md_models db))" using inv by (simp add: catalog_inv_def)
  have ids: "map model_id (md_models db') = map model_id (md_models db)"
    using put_model_map [OF dist i(1) m'(1), where f = model_id] m'(1) unfolding d(2) m'_def by simp
  have names: "map model_name (md_models db') = map model_name (md_models db)"
    using put_model_map [OF dist i(1) m'(1), where f = model_name] m'(2) unfolding d(2) m'_def by simp
  have idset: "model_id ` set (md_models db') = model_id ` set (md_models db)"
    using arg_cong [OF ids, of set] by simp
  moreover have "\<forall>k \<in> model_id ` set (md_models db). k < md_next db'"
    using inv d(6) by (auto simp: catalog_inv_def)
  ultimately have "\<forall>k \<in> model_id ` set (md_models db'). k < md_next db'" by (simp only:)
  then have bound: "\<forall>r \<in> set (md_models db'). model_id r < md_next db'" by simp
  have inv': "catalog_inv db'" using inv ids names bound idset d(5) by (simp add: catalog_inv_def)
  have owned: "\<forall>f \<in> set (files_on_disk dk verify m). mf_model f = model_id m"
    by (auto simp: files_on_disk_def split: option.splits)
  have files: "filter (\<lambda>f. mf_model f = i) (md_files db') = files_on_disk dk verify m"
    if "model_runtime m \<noteq> ''mock''" "dk_files dk (storage_path m) \<noteq> None"
  proof -
    have "md_files db' = filter (\<lambda>f. mf_model f \<noteq> i) (md_files db) @ files_on_disk dk verify m"
      using d(4) that i(2) by (simp only: if_False simp_thms)
    then show ?thesis using owned i(2) by (simp add: filter_False)
  qed
  have g': "get_model i (md_models db') = Some m'" by (simp add: get)
  then obtain detail2 db2 res2 where e: "import_from_disk dk i verify actor db' = Inr (res2, db2)"
    "md_models db2 = md_models (put_model (with_status (if weights_present dk m' then AVAILABLE else UNAVAILABLE) detail2 m') db')"
    by (rule import_cases)
  have "map model_status (md_models db2) = map model_status (md_models db')"
    unfolding e(2) using get_model_Some [OF g'] inv'
    by (intro put_model_map) (auto simp: catalog_inv_def with_status_def m')
  with d(1,3,5) e(1) get g' m'(4) inv' files show ?thesis
    by (intro exI [of _ res] exI [of _ db'] exI [of _ m']) auto
qed

text \<open>A directory with a configuration file and one shard.\<close>

definition sample_disk :: disk where
  "sample_disk =
     \<lparr>dk_files = (\<lambda>path. if path = ''/data/qwen'' then Some [(''config.json'', 700), (''m.gguf'', 900)] else None),
      dk_digest = (\<lambda>_ _. ''d'')\<rparr>"

definition sample_catalog :: catalog_db where
  "sample_catalog =
     \<lparr>md_models = [sample_model\<lparr>model_status := REGISTERED\<rparr>], md_files = [], md_aliases = [], md_deployments = [],
      md_next = 6, md_trail = []\<rparr>"

theorem import_follows_disk_witness:
  "\<exists>res db'. import_from_disk sample_disk 5 True None sample_catalog = Inr (res, db') \<and> ir_status res = ''AVAILABLE''"
proof -
  let ?m = "sample_model\<lparr>model_status := REGISTERED\<rparr>"
  have "catalog_inv sample_catalog" "get_model 5 (md_models sample_catalog) = Some ?m"
    by (simp_all add: catalog_inv_def sample_catalog_def get_model_def sample_model_def)
  note start = this
  have "is_weight ''m.gguf''" by code_simp
  then have weights: "weights_present sample_disk ?m"
    by (simp add: weights_present_def sample_disk_def sample_model_def)
  from import_follows_disk [OF start, of sample_disk True None]
  obtain res db' m' where ran: "import_from_disk sample_disk 5 True None sample_catalog = Inr (res, db')"
    "get_model 5 (md_models db') = Some m'" "model_status m' = (if weights_present sample_disk ?m then AVAILABLE else UNAVAILABLE)"
    "ir_status res = model_status_text (model_status m')"
    by - (elim exE conjE, rule that)
  have "ir_status res = ''AVAILABLE''" unfolding ran(4) ran(3) using weights by simp
  with ran(1) show ?thesis by blast
qed

section \<open>Defects\<close>

text \<open>
  Importing a model of an external runtime, which has no directory here, takes it out of service:
  it was deployable from its registration on.
\<close>
theorem importing_external_disables:
  assumes "catalog_inv db" "get_model i (md_models db) = Some m" "model_runtime m \<in> set external_runtimes"
    and "dk_files dk (storage_path m) = None"
  shows "\<exists>res db' m'. import_from_disk dk i verify actor db = Inr (res, db') \<and>
    get_model i (md_models db') = Some m' \<and> model_status m' = UNAVAILABLE"
proof -
  have "\<not> weights_present dk m"
    using assms(3,4) by (auto simp: weights_present_def external_runtimes_def)
  from assms(2) obtain detail db' res where d: "import_from_disk dk i verify actor db = Inr (res, db')"
    "md_models db' = md_models (put_model (with_status (if weights_present dk m then AVAILABLE else UNAVAILABLE) detail m) db)"
    by (rule import_cases)
  have "get_model i (md_models db') = Some (with_status UNAVAILABLE detail m)"
    unfolding d(2) using get_put_model [OF assms(2), of "with_status UNAVAILABLE detail m" i] \<open>\<not> weights_present dk m\<close>
    by (simp add: with_status_def)
  with d(1) show ?thesis by (auto simp: with_status_def)
qed

text \<open>
  A model that was ever deployed cannot be deleted: with every deployment stopped the check passes
  and the foreign key raises.
\<close>
theorem deleting_deployed_model_raises:
  assumes "get_model i (md_models db) = Some m" "d \<in> set (md_deployments db)" "dep_model d = i"
    and "\<forall>d \<in> set (md_deployments db). dep_state d \<in> {STOPPED, FAILED}"
  shows "delete_model i actor db = Raised ''IntegrityError''"
  using assms
  by (auto simp: delete_model_def active_for_model_def active_states_def Let_def filter_empty_conv)

text \<open>
  Re-importing from an Ollama at a public host repoints the registered models to it, although the
  same address is refused when a model is registered.
\<close>
theorem ollama_repoint_unchecked:
  assumes "get_model_by_name (model_name_of_tag (strip tag)) (md_models db) = Some m" "strip tag \<noteq> []"
    and "distinct (map model_id (md_models db))"
  shows "\<exists>rows db' m'. import_tags base [(tag, n)] actor db = Inr (rows, db') \<and>
    get_model (model_id m) (md_models db') = Some m' \<and> endpoint_url m' = Some base"
proof -
  have "m \<in> set (md_models db)" using find_row_Some assms(1) unfolding get_model_by_name_def by fast
  then have "get_model (model_id m) (md_models db) = Some m"
    using find_row_unique [OF assms(3)] by (simp add: get_model_def)
  from get_put_model [OF this, of "m\<lparr>endpoint_url := Some base\<rparr>" "model_id m"] assms(1,2) show ?thesis
    by (simp add: Let_def)
qed

end
