(* ===== verification/Auth_Providers.thy ===== *)
theory Auth_Providers
  imports Accounts Llm_Provider
begin

text \<open>
  Who vouches for a person: \<open>backend/app/services/auth_providers.py\<close> (local accounts, a directory,
  an OpenID Connect provider), the lookups of \<open>backend/app/repositories/user.py\<close> and the password
  hashing of \<open>backend/app/core/security.py\<close>.  argon2, the directory, the HTTP exchange and the
  verification of an identity token are arguments.
\<close>

section \<open>Accounts by name, address and subject\<close>

text \<open>
  Each lookup is \<open>scalar_one_or_none\<close>; no two rows match one (\<open>accounts_inv\<close> in the theory of
  the sign-in), so the first is the only one.
\<close>

definition get_by_username :: "string \<Rightarrow> user list \<Rightarrow> user option" where
  "get_by_username name us = find_row (\<lambda>u. lower (user_name u) = lower name) us"

definition get_by_email :: "string \<Rightarrow> user list \<Rightarrow> user option" where
  "get_by_email email us = find_row (\<lambda>u. lower (user_email u) = lower email) us"

definition get_by_external_subject :: "string \<Rightarrow> string \<Rightarrow> user list \<Rightarrow> user option" where
  "get_by_external_subject provider subject us =
     find_row (\<lambda>u. user_provider u = provider \<and> user_subject u = Some subject) us"

definition get_with_roles :: "uuid \<Rightarrow> user list \<Rightarrow> user option" where
  "get_with_roles i us = find_row (\<lambda>u. user_id u = i) us"

definition get_role :: "string \<Rightarrow> role_row list \<Rightarrow> role_row option" where
  "get_role name rs = find_row (\<lambda>r. role_name r = name) rs"

text \<open>argon2: a hash, its verification (\<open>False\<close> where the library raises) and its freshness.\<close>

record hasher =
  hs_hash :: "string \<Rightarrow> string"
  hs_verify :: "string \<Rightarrow> string \<Rightarrow> bool"
  hs_stale :: "string \<Rightarrow> bool"

record external_identity =
  ei_subject :: string
  ei_username :: string
  ei_email :: string
  ei_provider :: string
  ei_full_name :: "string option"
  ei_groups :: "string list"

datatype provider_kind = PASSWORD | REDIRECT

text \<open>
  A password provider answers \<open>None\<close> for a person it does not know and raises when it failed
  itself.
\<close>

record password_provider =
  pp_name :: string
  pp_authenticate :: "string \<Rightarrow> string \<Rightarrow> external_identity option result"

definition is_local :: "user \<Rightarrow> bool" where
  "is_local u = (user_provider u = ''local'')"

definition local_authenticate ::
    "hasher \<Rightarrow> user list \<Rightarrow> string \<Rightarrow> string \<Rightarrow> external_identity option" where
  "local_authenticate h us username password =
     (case get_by_username username us of
        None \<Rightarrow> None
      | Some u \<Rightarrow>
          (case user_password u of
             None \<Rightarrow> None
           | Some stored \<Rightarrow>
               if \<not> is_local u then None
               else if \<not> hs_verify h stored password then None
               else Some \<lparr>ei_subject = uuid_str (user_id u), ei_username = user_name u,
                          ei_email = user_email u, ei_provider = ''local'',
                          ei_full_name = user_full_name u, ei_groups = []\<rparr>))"

section \<open>A directory\<close>

text \<open>
  \<open>_escape_filter\<close> replaces the metacharacters of RFC 4515 one after the other; as the backslash
  goes first, that is one pass over the value.
\<close>

definition replace_char :: "char \<Rightarrow> string \<Rightarrow> string \<Rightarrow> string" where
  "replace_char c r s = concat (map (\<lambda>x. if x = c then r else [x]) s)"

definition filter_escapes :: "(char \<times> string) list" where
  "filter_escapes =
     [(CHR 0x5C, [CHR 0x5C, CHR ''5'', CHR ''c'']), (CHR ''*'', [CHR 0x5C, CHR ''2'', CHR ''a'']),
      (CHR ''('', [CHR 0x5C, CHR ''2'', CHR ''8'']), (CHR '')'', [CHR 0x5C, CHR ''2'', CHR ''9'']),
      (CHR 0x00, [CHR 0x5C, CHR ''0'', CHR ''0''])]"

definition escape_filter :: "string \<Rightarrow> string" where
  "escape_filter value = fold (\<lambda>(c, r) s. replace_char c r s) filter_escapes value"

text \<open>A filter template as \<open>str.format\<close> reads it: literal text and the one field it may name.\<close>

datatype filter_part = Literal string | Field

definition format_filter :: "string \<Rightarrow> filter_part list \<Rightarrow> string" where
  "format_filter v parts = concat (map (\<lambda>p. case p of Literal s \<Rightarrow> s | Field \<Rightarrow> v) parts)"

record ldap_settings =
  ls_enabled :: bool
  ls_server :: string
  ls_user_base :: string
  ls_user_filter :: "filter_part list"
  ls_group_base :: string
  ls_group_filter :: "filter_part list"
  ls_start_tls :: bool

text \<open>\<open>le_mail\<close> and \<open>le_name\<close> are \<open>_attr\<close> of the entry: absent and empty are the same.\<close>

record ldap_entry =
  le_dn :: string
  le_mail :: "string option"
  le_name :: "string option"

datatype bind_mode = TLS_BEFORE_BIND | NO_TLS

definition bind_mode_of :: "ldap_settings \<Rightarrow> bind_mode" where
  "bind_mode_of st = (if ls_start_tls st then TLS_BEFORE_BIND else NO_TLS)"

text \<open>
  A directory, as \<open>ldap3\<close> shows it: a search under the service account and a bind as the person,
  each over a connection of the given mode; \<open>Inl\<close> and \<open>False\<close> are an \<open>LDAPException\<close>.
  \<open>auto_bind=True\<close> is the mode without TLS.
\<close>

record directory =
  dir_search :: "bind_mode \<Rightarrow> string \<Rightarrow> string \<Rightarrow> unit + ldap_entry list"
  dir_bind :: "bind_mode \<Rightarrow> string \<Rightarrow> string \<Rightarrow> bool"
  dir_groups :: "bind_mode \<Rightarrow> string \<Rightarrow> string \<Rightarrow> unit + string list"

definition read_groups :: "directory \<Rightarrow> ldap_settings \<Rightarrow> string \<Rightarrow> string list result" where
  "read_groups dir st dn =
     (if ls_group_base st = [] then Inr []
      else (case dir_groups dir NO_TLS (ls_group_base st)
                   (format_filter (escape_filter dn) (ls_group_filter st)) of
              Inr gs \<Rightarrow> Inr gs
            | Inl _ \<Rightarrow> Inl (AuthenticationError
                (''Signed in, but the directory could not be asked which groups you are in, ''
                 @ ''so your access could not be determined. Try again shortly.''))))"

definition ldap_authenticate ::
    "directory \<Rightarrow> ldap_settings \<Rightarrow> string \<Rightarrow> string \<Rightarrow> external_identity option result" where
  "ldap_authenticate dir st username password =
     (if password = [] then Inr None
      else (case dir_search dir (bind_mode_of st) (ls_user_base st)
                   (format_filter (escape_filter username) (ls_user_filter st)) of
              Inl _ \<Rightarrow> Inr None
            | Inr [] \<Rightarrow> Inr None
            | Inr (entry # _) \<Rightarrow>
                if \<not> dir_bind dir (bind_mode_of st) (le_dn entry) password then Inr None
                else (case read_groups dir st (le_dn entry) of
                        Inl e \<Rightarrow> Inl e
                      | Inr gs \<Rightarrow> Inr (Some
                          \<lparr>ei_subject = le_dn entry, ei_username = username,
                           ei_email = or_str (le_mail entry) (username @ ''@invalid.local''),
                           ei_provider = ''ldap'', ei_full_name = le_name entry,
                           ei_groups = gs\<rparr>))))"

section \<open>OpenID Connect\<close>

record oidc_settings =
  os_enabled :: bool
  os_issuer :: string
  os_client :: string
  os_groups_claim :: string
  os_username_claim :: string

text \<open>
  The token endpoint's reply to a code and redirect address, \<open>jwt.decode\<close> of an identity token
  against the published keys (\<open>None\<close> where it raises) and \<open>str\<close> of a JSON value.
\<close>

record oidc_env =
  oi_token :: "string \<Rightarrow> string \<Rightarrow> http_reply"
  oi_verify :: "string \<Rightarrow> (string \<times> json) list option"
  oi_text :: "json \<Rightarrow> string"

definition leaf_of :: "string \<Rightarrow> string" where
  "leaf_of s = rev (takeWhile (\<lambda>c. c \<noteq> CHR ''/'') (rev s))"

definition claim_of :: "(string \<times> json) list \<Rightarrow> string \<Rightarrow> json" where
  "claim_of claims k = given (json_get claims k) JNull"

definition group_values :: "json \<Rightarrow> json list option" where
  "group_values raw =
     (case json_or raw (JList []) of
        JStr s \<Rightarrow> Some [JStr s]
      | JList vs \<Rightarrow> Some vs
      | JObj kvs \<Rightarrow> Some (map (JStr \<circ> fst) kvs)
      | _ \<Rightarrow> None)"

definition optional_text :: "json \<Rightarrow> string option" where
  "optional_text v = (case v of JStr s \<Rightarrow> Some s | _ \<Rightarrow> None)"

definition identity_of_claims ::
    "oidc_env \<Rightarrow> oidc_settings \<Rightarrow> (string \<times> json) list \<Rightarrow> external_identity result outcome" where
  "identity_of_claims env st claims =
     (let email = claim_of claims ''email''
      in if \<not> json_truthy email
         then Done (Inl (AuthenticationError
           (''The identity provider returned no email claim, which the platform uses to ''
            @ ''identify accounts. Grant the '' @ quoted ''email'' @ '' scope to this client.'')))
         else (case json_get claims ''sub'' of
                 None \<Rightarrow> Raised ''KeyError''
               | Some sub \<Rightarrow>
                   (case group_values (claim_of claims (os_groups_claim st)) of
                      None \<Rightarrow> Raised ''TypeError''
                    | Some gs \<Rightarrow> Done (Inr
                        \<lparr>ei_subject = oi_text env sub,
                         ei_username = oi_text env
                           (json_or (claim_of claims (os_username_claim st)) (claim_of claims ''sub'')),
                         ei_email = oi_text env email, ei_provider = ''oidc'',
                         ei_full_name = optional_text (claim_of claims ''name''),
                         ei_groups = map (leaf_of \<circ> oi_text env) gs\<rparr>))))"

definition oidc_exchange ::
    "oidc_env \<Rightarrow> oidc_settings \<Rightarrow> string \<Rightarrow> string \<Rightarrow> external_identity result outcome" where
  "oidc_exchange env st code redirect =
     (let reply = oi_token env code redirect
      in if 400 \<le> rp_status reply
         then Done (Inl (AuthenticationError
           (''The identity provider rejected the sign-in: '' @ take 200 (rp_text reply))))
         else (case rp_json reply of
                 Some (JObj kvs) \<Rightarrow>
                   (let token = claim_of kvs ''id_token''
                    in if \<not> json_truthy token
                       then Done (Inl (AuthenticationError
                         (''The identity provider returned no id_token. Check that the ''
                          @ quoted ''openid'' @ '' scope is granted to this client.'')))
                       else (case oi_verify env (oi_text env token) of
                               None \<Rightarrow> Raised ''InvalidTokenError''
                             | Some claims \<Rightarrow> identity_of_claims env st claims))
               | _ \<Rightarrow> Raised ''unexpected reply''))"

section \<open>The providers of a platform\<close>

datatype auth_provider = LocalProvider | LdapProvider | OidcProvider

definition kind_of :: "auth_provider \<Rightarrow> provider_kind" where
  "kind_of p = (case p of OidcProvider \<Rightarrow> REDIRECT | _ \<Rightarrow> PASSWORD)"

definition build_providers :: "ldap_settings \<Rightarrow> oidc_settings \<Rightarrow> auth_provider list result" where
  "build_providers ldap oidc =
     (if ls_enabled ldap \<and> (ls_server ldap = [] \<or> ls_user_base ldap = [])
      then Inl (ValidationError
        (''LDAP__ENABLED is true but LDAP__SERVER_URI or LDAP__USER_SEARCH_BASE is ''
         @ ''empty. A half-configured provider fails at the first sign-in attempt ''
         @ ''rather than at startup, so it is refused here.''))
      else if os_enabled oidc \<and> (os_issuer oidc = [] \<or> os_client oidc = [])
      then Inl (ValidationError
        ''OIDC__ENABLED is true but OIDC__ISSUER or OIDC__CLIENT_ID is empty.'')
      else Inr ([LocalProvider] @ (if ls_enabled ldap then [LdapProvider] else [])
                @ (if os_enabled oidc then [OidcProvider] else [])))"

end
