(* ===== verification/Sign_In.thy ===== *)
theory Sign_In
  imports Auth_Providers
begin

text \<open>
  Signing in: \<open>backend/app/services/auth.py\<close>, \<open>services/federation.py\<close>, the tokens of
  \<open>core/security.py\<close> and the dependencies of \<open>api/deps.py\<close> that read them.  An operation is an
  \<open>op\<close> of the audit trail's theory: what it writes is lost when it fails, its independent records
  are not.  \<open>jwt.encode\<close> and \<open>jwt.decode\<close> are arguments; claims that are instants are seconds.
\<close>

record permission_row =
  pr_name :: string
  pr_resource :: string
  pr_action :: string
  pr_description :: string

record accounts_db =
  ac_users :: "user list"
  ac_roles :: "role_row list"
  ac_permissions :: "permission_row list"
  ac_next :: uuid
  ac_trail :: "audit_entry list"

definition put_user :: "user \<Rightarrow> accounts_db \<Rightarrow> accounts_db" where
  "put_user u db = db\<lparr>ac_users := update_rows (\<lambda>r. user_id r = user_id u) (\<lambda>_. u) (ac_users db)\<rparr>"

definition account_record ::
    "audit_action \<Rightarrow> uuid option \<Rightarrow> string \<Rightarrow> uuid option \<Rightarrow> json \<Rightarrow> accounts_db \<Rightarrow> accounts_db" where
  "account_record action who name subject metadata db =
     db\<lparr>ac_trail := ac_trail db @
       [build_entry action SUCCESS who name (map_option (\<lambda>_. ''user'') subject)
          (map_option uuid_str subject) None metadata]\<rparr>"

section \<open>Tokens\<close>

datatype token_failure = Expired | Invalid

record token_env =
  te_issuer :: string
  te_access_ttl :: int
  te_refresh_ttl :: int
  te_jti :: string
  te_encode :: "(string \<times> json) list \<Rightarrow> string"
  te_decode :: "timestamp \<Rightarrow> string \<Rightarrow> token_failure + (string \<times> json) list"

definition seconds_of :: "timestamp \<Rightarrow> int" where
  "seconds_of now = now div 1000000"

definition token_claims ::
    "token_env \<Rightarrow> timestamp \<Rightarrow> string \<Rightarrow> string \<Rightarrow> int \<Rightarrow> (string \<times> json) list \<Rightarrow> (string \<times> json) list" where
  "token_claims te now subject typ ttl extra =
     dict_merge
       [(''sub'', JStr subject), (''typ'', JStr typ), (''iss'', JStr (te_issuer te)),
        (''iat'', JInt (seconds_of now)), (''nbf'', JInt (seconds_of now)),
        (''exp'', JInt (seconds_of (now + ttl * 1000000))), (''jti'', JStr (te_jti te))] extra"

definition create_access_token :: "token_env \<Rightarrow> timestamp \<Rightarrow> string \<Rightarrow> (string \<times> json) list \<Rightarrow> string" where
  "create_access_token te now subject extra =
     te_encode te (token_claims te now subject ''access'' (te_access_ttl te) extra)"

definition create_refresh_token :: "token_env \<Rightarrow> timestamp \<Rightarrow> string \<Rightarrow> string" where
  "create_refresh_token te now subject =
     te_encode te (token_claims te now subject ''refresh'' (te_refresh_ttl te) [])"

definition bad_token :: app_error where
  "bad_token = TokenError ''The access token is missing, malformed or expired.''"

definition decode_token ::
    "token_env \<Rightarrow> timestamp \<Rightarrow> string \<Rightarrow> string \<Rightarrow> (string \<times> json) list result" where
  "decode_token te now token expected =
     (case te_decode te now token of
        Inl Expired \<Rightarrow> Inl (TokenError ''The token has expired.'')
      | Inl Invalid \<Rightarrow> Inl bad_token
      | Inr claims \<Rightarrow>
          if json_get claims ''typ'' \<noteq> Some (JStr expected)
          then Inl (TokenError (''Expected a '' @ expected @ '' token.''))
          else Inr claims)"

text \<open>\<open>uuid.UUID\<close> of a text, in the form \<open>str\<close> of an identifier has.\<close>

definition hex_value :: "char \<Rightarrow> nat option" where
  "hex_value c = (let n = (of_char c :: nat)
     in if 48 \<le> n \<and> n \<le> 57 then Some (n - 48)
        else if 97 \<le> n \<and> n \<le> 102 then Some (n - 87)
        else if 65 \<le> n \<and> n \<le> 70 then Some (n - 55) else None)"

definition parse_hex :: "string \<Rightarrow> nat option" where
  "parse_hex s = fold (\<lambda>c acc. case (acc, hex_value c) of (Some n, Some d) \<Rightarrow> Some (n * 16 + d) | _ \<Rightarrow> None)
     s (Some 0)"

definition parse_uuid :: "string \<Rightarrow> uuid option" where
  "parse_uuid s = (let h = filter (\<lambda>c. c \<noteq> CHR ''-'') s
     in if length h \<noteq> 32 then None else parse_hex h)"

definition resolve_subject :: "json option \<Rightarrow> accounts_db \<Rightarrow> user result" where
  "resolve_subject subject db =
     (case subject of
        Some (JStr (c # s)) \<Rightarrow>
          (case parse_uuid (c # s) of
             None \<Rightarrow> Inl (TokenError ''Token subject is not a valid user id.'')
           | Some i \<Rightarrow>
               (case get_with_roles i (ac_users db) of
                  None \<Rightarrow> Inl (TokenError ''The user this token refers to no longer exists.'')
                | Some u \<Rightarrow> Inr u))
      | _ \<Rightarrow> Inl bad_token)"

record token_pair =
  tp_access :: string
  tp_refresh :: string
  tp_expires_in :: int

definition issue :: "token_env \<Rightarrow> timestamp \<Rightarrow> user \<Rightarrow> token_pair" where
  "issue te now u =
     \<lparr>tp_access = create_access_token te now (uuid_str (user_id u))
        [(''username'', JStr (user_name u)), (''roles'', JList (map (JStr \<circ> role_name) (user_roles u)))],
      tp_refresh = create_refresh_token te now (uuid_str (user_id u)),
      tp_expires_in = te_access_ttl te\<rparr>"

section \<open>What a directory's groups are worth\<close>

record federation_settings =
  fs_mapping :: "(string \<times> string) list"
  fs_default_roles :: "string list"
  fs_sync_roles :: bool
  fs_provision :: bool

text \<open>\<open>str.casefold\<close> on the code points below 256.\<close>

definition casefold :: "string \<Rightarrow> string" where
  "casefold s = concat (map (\<lambda>c. if c = CHR 0xDF then ''ss'' else [lower_char c]) s)"

definition role_for_group :: "federation_settings \<Rightarrow> string \<Rightarrow> string option" where
  "role_for_group st g =
     map_of (rev (map (\<lambda>(k, v). (casefold k, v)) (fs_mapping st))) (casefold g)"

definition wanted_roles :: "federation_settings \<Rightarrow> string list \<Rightarrow> string list" where
  "wanted_roles st gs =
     fold (\<lambda>g wanted. case role_for_group st g of
              Some (c # s) \<Rightarrow> if c # s \<in> set wanted then wanted else wanted @ [c # s]
            | _ \<Rightarrow> wanted) gs []"

definition roles_for :: "federation_settings \<Rightarrow> role_row list \<Rightarrow> external_identity \<Rightarrow> role_row list" where
  "roles_for st roles ident =
     (let wanted = wanted_roles st (ei_groups ident);
          names = (if wanted = [] then fs_default_roles st else wanted)
      in List.map_filter (\<lambda>n. if n = ''SUPER_ADMIN'' then None else get_role n roles) names)"

section \<open>The account behind an external identity\<close>

definition find_account :: "external_identity \<Rightarrow> accounts_db \<Rightarrow> (user option \<times> accounts_db) result" where
  "find_account ident db =
     (case get_by_external_subject (ei_provider ident) (ei_subject ident) (ac_users db) of
        Some u \<Rightarrow> Inr (Some u, db)
      | None \<Rightarrow>
          (case get_by_username (ei_username ident) (ac_users db) of
             None \<Rightarrow> Inr (None, db)
           | Some u \<Rightarrow>
               if is_local u
               then Inl (AuthenticationError (''A local platform account already uses the name ''
                 @ quoted (ei_username ident) @ ''. Sign in with its password, or ask an administrator ''
                 @ ''to rename one of them. The platform will not attach a directory identity to a ''
                 @ ''local account.''))
               else if user_provider u \<noteq> ei_provider ident
               then Inl (AuthenticationError (''The account '' @ quoted (ei_username ident)
                 @ '' belongs to the '' @ quoted (user_provider u) @ '' provider, not ''
                 @ quoted (ei_provider ident) @ ''.''))
               else if user_subject u \<noteq> None \<and> user_subject u \<noteq> Some (ei_subject ident)
               then Inl (AuthenticationError (''The username '' @ quoted (ei_username ident)
                 @ '' already belongs to a different directory account on this platform.''))
               else (let u1 = u\<lparr>user_subject := Some (ei_subject ident)\<rparr>
                     in Inr (Some u1, put_user u1 db))))"

definition provision_account ::
    "federation_settings \<Rightarrow> external_identity \<Rightarrow> accounts_db \<Rightarrow> (user \<times> accounts_db) result" where
  "provision_account st ident db =
     (if get_by_email (ei_email ident) (ac_users db) \<noteq> None
      then Inl (AuthenticationError (''Another platform account already uses the address ''
        @ quoted (ei_email ident) @ ''.''))
      else (let u = \<lparr>user_id = ac_next db, user_name = ei_username ident, user_email = ei_email ident,
                     user_full_name = ei_full_name ident, user_password = None,
                     user_provider = ei_provider ident, user_subject = Some (ei_subject ident),
                     user_active = True, user_superuser = False, user_last_login = None,
                     user_failed_logins = 0, user_roles = roles_for st (ac_roles db) ident\<rparr>
            in Inr (u, account_record USER_CREATED (Some (user_id u)) (user_name u) (Some (user_id u))
                 (JObj [(''provider'', JStr (ei_provider ident)),
                        (''groups'', JList (map JStr (ei_groups ident))),
                        (''roles'', JList (map (JStr \<circ> role_name) (user_roles u))),
                        (''auto_provisioned'', JBool True)])
                 (db\<lparr>ac_users := ac_users db @ [u], ac_next := ac_next db + 1\<rparr>))))"

definition synced_fields ::
    "federation_settings \<Rightarrow> external_identity \<Rightarrow> accounts_db \<Rightarrow> user \<Rightarrow> user \<times> (string \<times> json) list" where
  "synced_fields st ident db u =
     (let mail = ei_email ident \<noteq> [] \<and> user_email u \<noteq> ei_email ident \<and>
            get_by_email (ei_email ident) (ac_users db) = None;
          u1 = (if mail then u\<lparr>user_email := ei_email ident\<rparr> else u);
          person = truthy (ei_full_name ident) \<and> user_full_name u1 \<noteq> ei_full_name ident;
          u2 = (if person then u1\<lparr>user_full_name := ei_full_name ident\<rparr> else u1);
          desired = roles_for st (ac_roles db) ident;
          roles = fs_sync_roles st \<and> role_name ` set (user_roles u2) \<noteq> role_name ` set desired;
          u3 = (if roles then u2\<lparr>user_roles := desired\<rparr> else u2)
      in (u3, (if mail then [(''email'', JStr (ei_email ident))] else [])
            @ (if person then [(''full_name'', JStr (the (ei_full_name ident)))] else [])
            @ (if roles then
                 [(''roles'', JList (map JStr (sorted_list_of_set (role_name ` set desired)))),
                  (''roles_before'', JList (map JStr (sorted_list_of_set (role_name ` set (user_roles u2)))))]
               else [])))"

definition reconcile_account ::
    "federation_settings \<Rightarrow> external_identity \<Rightarrow> user \<Rightarrow> accounts_db \<Rightarrow> user \<times> accounts_db" where
  "reconcile_account st ident u db =
     (let (u1, changed) = synced_fields st ident db u;
          db1 = put_user u1 db
      in (u1, if changed = [] then db1
              else account_record USER_UPDATED (Some (user_id u1)) (user_name u1) (Some (user_id u1))
                     (JObj [(''provider'', JStr (ei_provider ident)), (''synced'', JObj changed)]) db1))"

definition login_record :: "audit_result \<Rightarrow> uuid option \<Rightarrow> string \<Rightarrow> string \<Rightarrow> json \<Rightarrow> audit_entry" where
  "login_record res who name message metadata =
     build_entry USER_LOGIN res who name None None (Some message) metadata"

definition resolve_identity ::
    "federation_settings \<Rightarrow> external_identity \<Rightarrow> (accounts_db, user) op" where
  "resolve_identity st ident db =
     (case (case find_account ident db of
              Inl e \<Rightarrow> (Inl e, [])
            | Inr (Some u, db1) \<Rightarrow> (Inr (reconcile_account st ident u db1), [])
            | Inr (None, db1) \<Rightarrow>
                if \<not> fs_provision st
                then (Inl (AuthenticationError
                        (''You authenticated successfully, but this platform has no account for ''
                         @ ''you and does not create them automatically. Ask an administrator.'')),
                      [login_record DENIED None (ei_username ident)
                         (''No account, and auto-provisioning is off ('' @ ei_provider ident @ '')'') (JObj [])])
                else (provision_account st ident db1, [])) of
        (Inl e, ind) \<Rightarrow> (Inl e, ind)
      | (Inr (u, db2), ind) \<Rightarrow>
          if user_active u then (Inr (u, db2), ind)
          else (Inl (AuthenticationError ''This account is disabled.''),
                ind @ [login_record DENIED (Some (user_id u)) (user_name u)
                         ''Account is disabled in the platform'' (JObj [])]))"

section \<open>Signing in\<close>

record auth_env =
  ae_hasher :: hasher
  ae_tokens :: token_env
  ae_providers :: "password_provider list"
  ae_federation :: federation_settings
  ae_now :: timestamp

definition signed_in ::
    "auth_env \<Rightarrow> (string \<times> json) list \<Rightarrow> user \<Rightarrow> accounts_db \<Rightarrow> token_pair \<times> accounts_db" where
  "signed_in env metadata u db =
     (let u1 = u\<lparr>user_last_login := Some (ae_now env), user_failed_logins := 0\<rparr>
      in (issue (ae_tokens env) (ae_now env) u1,
          account_record USER_LOGIN (Some (user_id u1)) (user_name u1) None (JObj metadata) (put_user u1 db)))"

definition login_external ::
    "auth_env \<Rightarrow> string \<Rightarrow> external_identity \<Rightarrow> (accounts_db, token_pair) op" where
  "login_external env provider ident db =
     (case resolve_identity (ae_federation env) ident db of
        (Inl e, ind) \<Rightarrow> (Inl e, ind)
      | (Inr (u, db1), ind) \<Rightarrow> (Inr (signed_in env [(''provider'', JStr provider)] u db1), ind))"

text \<open>\<open>None\<close> on the right: no provider knows the person.\<close>

fun try_external ::
    "auth_env \<Rightarrow> password_provider list \<Rightarrow> string \<Rightarrow> string \<Rightarrow> accounts_db
       \<Rightarrow> (token_pair \<times> accounts_db) option result \<times> audit_entry list" where
  "try_external env [] username password db = (Inr None, [])"
| "try_external env (p # ps) username password db =
     (case pp_authenticate p username password of
        Inl e \<Rightarrow> (Inl e, [])
      | Inr None \<Rightarrow> try_external env ps username password db
      | Inr (Some ident) \<Rightarrow>
          (case login_external env (pp_name p) ident db of
             (Inl e, ind) \<Rightarrow> (Inl e, ind)
           | (Inr r, ind) \<Rightarrow> (Inr (Some r), ind)))"

definition wrong_credentials :: app_error where
  "wrong_credentials = AuthenticationError ''Incorrect username or password.''"

definition login :: "auth_env \<Rightarrow> string \<Rightarrow> string \<Rightarrow> (accounts_db, token_pair) op" where
  "login env username password db =
     (case (case get_by_username username (ac_users db) of
              Some u \<Rightarrow> if is_local u then map_option (Pair u) (user_password u) else None
            | None \<Rightarrow> None) of
        None \<Rightarrow>
          (case try_external env (ae_providers env) username password db of
             (Inl e, ind) \<Rightarrow> (Inl e, ind)
           | (Inr (Some r), ind) \<Rightarrow> (Inr r, ind)
           | (Inr None, ind) \<Rightarrow>
               (Inl wrong_credentials,
                ind @ [login_record FAILURE None username
                         ''Unknown user, or no provider accepted the credential'' (JObj [])]))
      | Some (u, stored) \<Rightarrow>
          if \<not> hs_verify (ae_hasher env) stored password
          then (Inl wrong_credentials,
                [login_record FAILURE (Some (user_id u)) (user_name u) ''Incorrect password''
                   (JObj [(''failed_login_count'', JInt (int (user_failed_logins u) + 1))])])
          else if \<not> user_active u
          then (Inl (AuthenticationError ''This account is disabled.''),
                [login_record DENIED (Some (user_id u)) (user_name u) ''Account is disabled'' (JObj [])])
          else (let u1 = (if hs_stale (ae_hasher env) stored
                          then u\<lparr>user_password := Some (hs_hash (ae_hasher env) password)\<rparr> else u)
                in (Inr (signed_in env [] u1 db), [])))"

definition refresh :: "auth_env \<Rightarrow> string \<Rightarrow> (accounts_db, token_pair) op" where
  "refresh env token db =
     (case decode_token (ae_tokens env) (ae_now env) token ''refresh'' of
        Inl e \<Rightarrow> (Inl e, [])
      | Inr claims \<Rightarrow>
          (case resolve_subject (json_get claims ''sub'') db of
             Inl e \<Rightarrow> (Inl e, [])
           | Inr u \<Rightarrow>
               if \<not> user_active u then (Inl (AuthenticationError ''This account is disabled.''), [])
               else (Inr (issue (ae_tokens env) (ae_now env) u,
                          account_record USER_TOKEN_REFRESHED (Some (user_id u)) (user_name u) None (JObj []) db),
                     [])))"

definition logout :: "user \<Rightarrow> (accounts_db, unit) op" where
  "logout u db =
     (Inr ((), account_record USER_LOGOUT (Some (user_id u)) (user_name u) None (JObj []) db), [])"

definition resolve_access_token :: "auth_env \<Rightarrow> string \<Rightarrow> accounts_db \<Rightarrow> user result" where
  "resolve_access_token env token db =
     (case decode_token (ae_tokens env) (ae_now env) token ''access'' of
        Inl e \<Rightarrow> Inl e
      | Inr claims \<Rightarrow>
          (case resolve_subject (json_get claims ''sub'') db of
             Inl e \<Rightarrow> Inl e
           | Inr u \<Rightarrow>
               if user_active u then Inr u else Inl (AuthenticationError ''This account is disabled.'')))"

definition current_user :: "auth_env \<Rightarrow> string option \<Rightarrow> accounts_db \<Rightarrow> user result" where
  "current_user env credential db =
     (if \<not> truthy credential
      then Inl (TokenError ''An Authorization: Bearer <token> header is required.'')
      else resolve_access_token env (the credential) db)"

section \<open>Permissions of a request\<close>

definition has_permission :: "user \<Rightarrow> string \<Rightarrow> bool" where
  "has_permission u permission = (user_superuser u \<or> permission \<in> effective_permissions u)"

text \<open>The refusal is recorded under an action of its own, on an independent transaction.\<close>

definition require_permission :: "user \<Rightarrow> string \<Rightarrow> (accounts_db, unit) op" where
  "require_permission u permission db =
     (if has_permission u permission then (Inr ((), db), [])
      else (Inl (PermissionDeniedError (''This action requires the '' @ quoted permission @ '' permission.'')),
            [denied_entry PERMISSION_CHECK_FAILED (user_name u) (Some (user_id u)) (Some permission) None]))"

text \<open>A route behind \<open>require_permission\<close>: the handler runs for the live user the token names.\<close>

definition guarded_request ::
    "auth_env \<Rightarrow> string option \<Rightarrow> string \<Rightarrow> (user \<Rightarrow> (accounts_db, 'a) op) \<Rightarrow> (accounts_db, 'a) op" where
  "guarded_request env credential permission handler db =
     (case current_user env credential db of
        Inl e \<Rightarrow> (Inl e, [])
      | Inr u \<Rightarrow>
          (case require_permission u permission db of
             (Inl e, ind) \<Rightarrow> (Inl e, ind)
           | (Inr (_, db1), ind) \<Rightarrow>
               (let (r, ind1) = handler u db1 in (r, ind @ ind1))))"

definition require_superuser :: "user \<Rightarrow> (accounts_db, unit) op" where
  "require_superuser u db =
     (if user_superuser u then (Inr ((), db), [])
      else (Inl (PermissionDeniedError ''This action requires superuser privileges.''),
            [denied_entry SUPERUSER_CHECK_FAILED (user_name u) (Some (user_id u)) None
               (Some ''Superuser privileges required'')]))"

section \<open>Wiring and the redirect flow\<close>

text \<open>Only the password providers that are not the platform's own reach \<open>login\<close>.\<close>

definition password_providers ::
    "directory \<Rightarrow> ldap_settings \<Rightarrow> auth_provider list \<Rightarrow> password_provider list" where
  "password_providers dir st providers =
     map (\<lambda>_. \<lparr>pp_name = ''ldap'', pp_authenticate = ldap_authenticate dir st\<rparr>)
       (filter (\<lambda>p. kind_of p = PASSWORD \<and> p \<noteq> LocalProvider) providers)"

text \<open>Redis keeps the states of sign-ins under way; an entry lives for the given seconds.\<close>

record 's state_store =
  ss_set :: "timestamp \<Rightarrow> string \<Rightarrow> string \<Rightarrow> int \<Rightarrow> 's \<Rightarrow> 's"
  ss_getdel :: "timestamp \<Rightarrow> string \<Rightarrow> 's \<Rightarrow> string option \<times> 's"

definition state_key :: "string \<Rightarrow> string" where
  "state_key st = ''oidc:state:'' @ st"

definition callback_url :: "string \<Rightarrow> string \<Rightarrow> string" where
  "callback_url public_base request_base =
     rstrip_char CHR ''/'' (if public_base \<noteq> [] then public_base else rstrip_char CHR ''/'' request_base)
       @ ''/api/v1/auth/oidc/callback''"

definition redirect_provider :: "auth_provider list \<Rightarrow> auth_provider result" where
  "redirect_provider providers =
     (case find (\<lambda>p. kind_of p = REDIRECT) providers of
        Some p \<Rightarrow> Inr p
      | None \<Rightarrow> Inl (NotFoundError
          (''Single sign-on is not configured on this platform. Set OIDC__ENABLED=true and ''
           @ ''restart the control plane.'')))"

text \<open>The answer is the state and the address the browser is to come back to.\<close>

definition oidc_authorize ::
    "'s state_store \<Rightarrow> auth_provider list \<Rightarrow> timestamp \<Rightarrow> string \<Rightarrow> string \<Rightarrow> string \<Rightarrow> 's
       \<Rightarrow> (string \<times> string) result \<times> 's" where
  "oidc_authorize store providers now minted public_base request_base s =
     (case redirect_provider providers of
        Inl e \<Rightarrow> (Inl e, s)
      | Inr _ \<Rightarrow>
          (let back = callback_url public_base request_base
           in (Inr (minted, back), ss_set store now (state_key minted) back 600 s)))"

definition oidc_callback ::
    "'s state_store \<Rightarrow> oidc_env \<Rightarrow> oidc_settings \<Rightarrow> auth_provider list \<Rightarrow> auth_env \<Rightarrow> string \<Rightarrow> string
       \<Rightarrow> accounts_db \<Rightarrow> 's \<Rightarrow> ((token_pair \<times> accounts_db) result \<times> audit_entry list) outcome \<times> 's" where
  "oidc_callback store oi st providers env code minted db s =
     (case redirect_provider providers of
        Inl e \<Rightarrow> (Done (Inl e, []), s)
      | Inr _ \<Rightarrow>
          (case ss_getdel store (ae_now env) (state_key minted) s of
             (None, s1) \<Rightarrow>
               (Done (Inl (AuthenticationError
                  ''This sign-in link has expired or was already used. Start again.''), []), s1)
           | (Some back, s1) \<Rightarrow>
               (case oidc_exchange oi st code back of
                  Done (Inl e) \<Rightarrow> (Done (Inl e, []), s1)
                | Done (Inr ident) \<Rightarrow> (Done (login_external env (ei_provider ident) ident db), s1)
                | Raised e \<Rightarrow> (Raised e, s1)
                | Diverges \<Rightarrow> (Diverges, s1))))"

end
