(* ===== verification/User_Admin.thy ===== *)
theory User_Admin
  imports Sign_In "HOL-Library.Product_Lexorder"
begin

text \<open>
  Managing accounts, \<open>backend/app/services/user.py\<close>, and the seeder of \<open>services/seed.py\<close> that
  installs the permission catalogue, the system roles and the first administrator.
\<close>

definition min_password_length :: nat where
  "min_password_length = 12"

definition validate_password :: "string \<Rightarrow> unit result" where
  "validate_password pw =
     (if length pw < min_password_length
      then Inl (ValidationError (''Password must be at least '' @ nat_str min_password_length @ '' characters.''))
      else Inr ())"

definition get_user :: "uuid \<Rightarrow> accounts_db \<Rightarrow> user result" where
  "get_user i db =
     (case get_with_roles i (ac_users db) of
        None \<Rightarrow> Inl (NotFoundError (''No user with id '' @ uuid_str i @ ''.''))
      | Some u \<Rightarrow> Inr u)"

definition named_roles :: "string list \<Rightarrow> role_row list \<Rightarrow> role_row list result" where
  "named_roles names roles =
     (case find (\<lambda>n. get_role n roles = None) names of
        Some n \<Rightarrow> Inl (ValidationError (''No such role: '' @ quoted n @ ''.''))
      | None \<Rightarrow> Inr (map (\<lambda>n. the (get_role n roles)) names))"

definition user_record ::
    "audit_action \<Rightarrow> user option \<Rightarrow> user \<Rightarrow> (string \<times> json) list \<Rightarrow> accounts_db \<Rightarrow> accounts_db" where
  "user_record action actor u metadata db =
     account_record action (map_option user_id actor)
       (case actor of None \<Rightarrow> ''system'' | Some a \<Rightarrow> user_name a) (Some (user_id u)) (JObj metadata) db"

definition create_user ::
    "hasher \<Rightarrow> string \<Rightarrow> string \<Rightarrow> string \<Rightarrow> string option \<Rightarrow> string list \<Rightarrow> user option
       \<Rightarrow> (accounts_db, user) op" where
  "create_user h username email password full_name role_names actor db =
     (case validate_password password of
        Inl e \<Rightarrow> (Inl e, [])
      | Inr _ \<Rightarrow>
          if get_by_username username (ac_users db) \<noteq> None
          then (Inl (ConflictError (''The username '' @ quoted username @ '' is already taken.'')), [])
          else if get_by_email email (ac_users db) \<noteq> None
          then (Inl (ConflictError (''The email '' @ quoted email @ '' is already registered.'')), [])
          else (case named_roles role_names (ac_roles db) of
                  Inl e \<Rightarrow> (Inl e, [])
                | Inr roles \<Rightarrow>
                    (let u = \<lparr>user_id = ac_next db, user_name = username, user_email = email,
                              user_full_name = full_name, user_password = Some (hs_hash h password),
                              user_provider = ''local'', user_subject = None, user_active = True,
                              user_superuser = False, user_last_login = None, user_failed_logins = 0,
                              user_roles = roles\<rparr>
                     in (Inr (u, user_record USER_CREATED actor u
                          [(''username'', JStr username), (''roles'', JList (map JStr role_names))]
                          (db\<lparr>ac_users := ac_users db @ [u], ac_next := ac_next db + 1\<rparr>)), []))))"

definition set_active :: "uuid \<Rightarrow> bool \<Rightarrow> user \<Rightarrow> (accounts_db, user) op" where
  "set_active i active actor db =
     (case get_user i db of
        Inl e \<Rightarrow> (Inl e, [])
      | Inr u \<Rightarrow>
          if user_id u = user_id actor \<and> \<not> active
          then (Inl (ValidationError ''You cannot disable your own account.''), [])
          else (let u1 = u\<lparr>user_active := active\<rparr>
                in (Inr (u1, user_record USER_UPDATED (Some actor) u1 [(''is_active'', JBool active)]
                          (put_user u1 db)), [])))"

definition set_password :: "hasher \<Rightarrow> uuid \<Rightarrow> string \<Rightarrow> user \<Rightarrow> (accounts_db, user) op" where
  "set_password h i password actor db =
     (case get_user i db of
        Inl e \<Rightarrow> (Inl e, [])
      | Inr u \<Rightarrow>
          if \<not> is_local u
          then (Inl (ValidationError (quoted (user_name u) @ '' signs in through the ''
            @ quoted (user_provider u) @ '' provider. Giving it a platform password would let it keep ''
            @ ''signing in after the directory removes the person. Disable the account here instead.'')), [])
          else (case validate_password password of
                  Inl e \<Rightarrow> (Inl e, [])
                | Inr _ \<Rightarrow>
                    (let u1 = u\<lparr>user_password := Some (hs_hash h password), user_failed_logins := 0\<rparr>
                     in (Inr (u1, user_record USER_UPDATED (Some actor) u1
                               [(''password_set_by_admin'', JBool True), (''subject'', JStr (user_name u1))]
                               (put_user u1 db)), []))))"

definition change_own_password :: "hasher \<Rightarrow> user \<Rightarrow> string \<Rightarrow> string \<Rightarrow> (accounts_db, user) op" where
  "change_own_password h u current new db =
     (case (if is_local u then user_password u else None) of
        None \<Rightarrow> (Inl (ValidationError
          (''This account signs in through an external provider. Change your password with ''
           @ quoted (user_provider u) @ '', not here.'')), [])
      | Some stored \<Rightarrow>
          if \<not> hs_verify h stored current
          then (Inl (ValidationError ''That is not your current password.''),
                [build_entry USER_UPDATED FAILURE (Some (user_id u)) (user_name u) None None
                   (Some ''Password change refused: current password incorrect'') (JObj [])])
          else if current = new
          then (Inl (ValidationError ''The new password is the same as the current one.''), [])
          else (case validate_password new of
                  Inl e \<Rightarrow> (Inl e, [])
                | Inr _ \<Rightarrow>
                    (let u1 = u\<lparr>user_password := Some (hs_hash h new)\<rparr>
                     in (Inr (u1, user_record USER_UPDATED (Some u) u1
                               [(''password_changed_by_self'', JBool True)] (put_user u1 db)), []))))"

definition assign_roles :: "uuid \<Rightarrow> string list \<Rightarrow> user \<Rightarrow> (accounts_db, user) op" where
  "assign_roles i role_names actor db =
     (case get_user i db of
        Inl e \<Rightarrow> (Inl e, [])
      | Inr u \<Rightarrow>
          (case named_roles role_names (ac_roles db) of
             Inl e \<Rightarrow> (Inl e, [])
           | Inr roles \<Rightarrow>
               (let u1 = u\<lparr>user_roles := roles\<rparr>
                in (Inr (u1, user_record ROLE_ASSIGNED (Some actor) u1
                          [(''roles'', JList (map JStr role_names))] (put_user u1 db)), []))))"

definition list_users :: "nat \<Rightarrow> nat \<Rightarrow> accounts_db \<Rightarrow> user list" where
  "list_users limit offset db = take limit (drop offset (sort_key user_name (ac_users db)))"

definition list_roles :: "accounts_db \<Rightarrow> role_row list" where
  "list_roles db = sort_key role_name (ac_roles db)"

definition list_permissions :: "accounts_db \<Rightarrow> permission_row list" where
  "list_permissions db = sort_key (\<lambda>p. (pr_resource p, pr_action p)) (ac_permissions db)"

section \<open>The seeder\<close>

record seed_result =
  sr_permissions :: nat
  sr_roles :: nat
  sr_grants :: nat
  sr_admin :: "string option"

definition seed_changed :: "seed_result \<Rightarrow> bool" where
  "seed_changed r = (sr_permissions r \<noteq> 0 \<or> sr_roles r \<noteq> 0 \<or> sr_grants r \<noteq> 0 \<or> sr_admin r \<noteq> None)"

text \<open>A catalogue name that \<open>split_permission\<close> refuses stops the seeder; none is.\<close>

definition permission_row_of :: "permission \<times> string \<Rightarrow> permission_row" where
  "permission_row_of pd =
     (let (resource, action) = the (split_permission (perm_name (fst pd)))
      in \<lparr>pr_name = perm_name (fst pd), pr_resource = resource, pr_action = action,
          pr_description = snd pd\<rparr>)"

definition seed_permission ::
    "permission \<times> string \<Rightarrow> seed_result \<times> accounts_db \<Rightarrow> seed_result \<times> accounts_db" where
  "seed_permission pd s =
     (let (res, db) = s; name = perm_name (fst pd)
      in if name \<in> pr_name ` set (ac_permissions db)
         then (res, db\<lparr>ac_permissions := update_rows (\<lambda>p. pr_name p = name)
                 (\<lambda>p. p\<lparr>pr_description := snd pd\<rparr>) (ac_permissions db)\<rparr>)
         else (res\<lparr>sr_permissions := sr_permissions res + 1\<rparr>,
               db\<lparr>ac_permissions := ac_permissions db @ [permission_row_of pd]\<rparr>))"

definition seed_permissions :: "seed_result \<times> accounts_db \<Rightarrow> seed_result \<times> accounts_db" where
  "seed_permissions s = fold seed_permission permission_catalogue s"

definition role_text :: "role \<Rightarrow> string" where
  "role_text r = (case r of
     SUPER_ADMIN \<Rightarrow> ''SUPER_ADMIN'' | ADMIN \<Rightarrow> ''ADMIN'' | AI_ADMIN \<Rightarrow> ''AI_ADMIN''
   | INFRA_ADMIN \<Rightarrow> ''INFRA_ADMIN'' | AGENT_ADMIN \<Rightarrow> ''AGENT_ADMIN'' | DEVELOPER \<Rightarrow> ''DEVELOPER''
   | USER \<Rightarrow> ''USER'' | AUDITOR \<Rightarrow> ''AUDITOR'')"

definition grants_of :: "accounts_db \<Rightarrow> role \<Rightarrow> string list" where
  "grants_of db r = filter (\<lambda>n. n \<in> pr_name ` set (ac_permissions db))
     (sorted_list_of_set (perm_name ` set (role_grants r)))"

definition seed_role :: "role \<Rightarrow> seed_result \<times> accounts_db \<Rightarrow> seed_result \<times> accounts_db" where
  "seed_role r s =
     (let (res, db) = s; grants = grants_of db r
      in case get_role (role_text r) (ac_roles db) of
           None \<Rightarrow>
             (res\<lparr>sr_roles := sr_roles res + 1\<rparr>,
              db\<lparr>ac_roles := ac_roles db @
                   [\<lparr>role_id = ac_next db, role_name = role_text r, role_is_system = True,
                     role_permissions = grants\<rparr>],
                 ac_next := ac_next db + 1\<rparr>)
         | Some row \<Rightarrow>
             (let same = set (role_permissions row) = set grants;
                  row1 = row\<lparr>role_is_system := True,
                             role_permissions := (if same then role_permissions row else grants)\<rparr>;
                  swap = update_rows (\<lambda>x. role_id x = role_id row) (\<lambda>_. row1)
              in (if same then res else res\<lparr>sr_grants := sr_grants res + 1\<rparr>,
                  db\<lparr>ac_roles := swap (ac_roles db),
                     ac_users := map (\<lambda>u. u\<lparr>user_roles := swap (user_roles u)\<rparr>) (ac_users db)\<rparr>)))"

definition seed_roles :: "seed_result \<times> accounts_db \<Rightarrow> seed_result \<times> accounts_db" where
  "seed_roles s = fold seed_role all_roles s"

text \<open>\<open>None\<close> is the integrity error of an address that is taken; only the name is looked up.\<close>

definition seed_bootstrap_admin ::
    "hasher \<Rightarrow> string \<Rightarrow> string \<Rightarrow> string option \<Rightarrow> seed_result \<times> accounts_db
       \<Rightarrow> (seed_result \<times> accounts_db) option" where
  "seed_bootstrap_admin h username email password s =
     (let (res, db) = s
      in if \<not> truthy password \<or> get_by_username username (ac_users db) \<noteq> None then Some s
         else if email \<in> user_email ` set (ac_users db) then None
         else Some (res\<lparr>sr_admin := Some username\<rparr>,
               db\<lparr>ac_users := ac_users db @
                    [\<lparr>user_id = ac_next db, user_name = username, user_email = email,
                      user_full_name = Some ''Platform Administrator'',
                      user_password = Some (hs_hash h (the password)), user_provider = ''local'',
                      user_subject = None, user_active = True, user_superuser = True,
                      user_last_login = None, user_failed_logins = 0,
                      user_roles = (case get_role ''SUPER_ADMIN'' (ac_roles db) of
                                      Some r \<Rightarrow> [r] | None \<Rightarrow> [])\<rparr>],
                  ac_next := ac_next db + 1\<rparr>))"

definition run_seed ::
    "hasher \<Rightarrow> string \<Rightarrow> string \<Rightarrow> string option \<Rightarrow> accounts_db
       \<Rightarrow> (seed_result \<times> accounts_db) option" where
  "run_seed h username email password db =
     seed_bootstrap_admin h username email password
       (seed_roles (seed_permissions
         (\<lparr>sr_permissions = 0, sr_roles = 0, sr_grants = 0, sr_admin = None\<rparr>, db)))"

end
