(* ===== verification/Account_Invariant.thy ===== *)
theory Account_Invariant
  imports User_Admin
begin

text \<open>
  What the accounts table keeps: names and addresses are unique up to case, a directory subject has
  one account, and a federated account has no password.  Every operation of the sign-in and of the
  account management keeps it; the step relation lists them.
\<close>

text \<open>A key that no two accounts share; an account may have none.\<close>

definition keyed :: "(user \<Rightarrow> 'k option) \<Rightarrow> user list \<Rightarrow> bool" where
  "keyed k us = (\<forall>u \<in> set us. \<forall>v \<in> set us. k u \<noteq> None \<longrightarrow> k u = k v \<longrightarrow> user_id u = user_id v)"

definition name_key :: "user \<Rightarrow> string option" where
  "name_key u = Some (lower (user_name u))"

definition mail_key :: "user \<Rightarrow> string option" where
  "mail_key u = Some (lower (user_email u))"

definition subject_key :: "user \<Rightarrow> (string \<times> string) option" where
  "subject_key u = map_option (Pair (user_provider u)) (user_subject u)"

definition vouched :: "user \<Rightarrow> bool" where
  "vouched u = (if is_local u then user_subject u = None else user_password u = None)"

definition accounts_inv :: "accounts_db \<Rightarrow> bool" where
  "accounts_inv db =
     (distinct (map user_id (ac_users db)) \<and> (\<forall>u \<in> set (ac_users db). user_id u < ac_next db) \<and>
      keyed name_key (ac_users db) \<and> keyed mail_key (ac_users db) \<and> keyed subject_key (ac_users db) \<and>
      (\<forall>u \<in> set (ac_users db). vouched u) \<and>
      (\<forall>u \<in> set (ac_users db). set (user_roles u) \<subseteq> set (ac_roles db)))"

section \<open>Frames\<close>

lemma account_record_fields [simp]:
  "ac_users (account_record a w n s m db) = ac_users db" "ac_roles (account_record a w n s m db) = ac_roles db"
  "ac_next (account_record a w n s m db) = ac_next db"
  "ac_permissions (account_record a w n s m db) = ac_permissions db"
  by (simp_all add: account_record_def)

lemma put_user_fields [simp]:
  "ac_roles (put_user u db) = ac_roles db" "ac_next (put_user u db) = ac_next db"
  "ac_permissions (put_user u db) = ac_permissions db"
  by (simp_all add: put_user_def)

lemma inv_record [simp]: "accounts_inv (account_record a w n s m db) = accounts_inv db"
  by (simp add: accounts_inv_def)

lemma user_record_fields [simp]:
  "ac_users (user_record a w u m db) = ac_users db" "ac_roles (user_record a w u m db) = ac_roles db"
  "ac_next (user_record a w u m db) = ac_next db"
  "accounts_inv (user_record a w u m db) = accounts_inv db"
  by (simp_all add: user_record_def)

lemma set_put_user:
  "u0 \<in> set (ac_users db) \<Longrightarrow> user_id u = user_id u0 \<Longrightarrow>
   set (ac_users (put_user u db)) = insert u {r \<in> set (ac_users db). user_id r \<noteq> user_id u}"
  by (auto simp: put_user_def set_update_rows)

lemma put_user_ids: "map user_id (ac_users (put_user u db)) = map user_id (ac_users db)"
  by (auto simp: put_user_def update_rows_def)

lemma lookup_user:
  "get_by_username n us = Some u \<Longrightarrow> u \<in> set us \<and> lower (user_name u) = lower n"
  "get_by_email e us = Some u \<Longrightarrow> u \<in> set us \<and> lower (user_email u) = lower e"
  "get_by_external_subject p s us = Some u \<Longrightarrow> u \<in> set us \<and> user_provider u = p \<and> user_subject u = Some s"
  "get_with_roles i us = Some u \<Longrightarrow> u \<in> set us \<and> user_id u = i"
  by (auto simp: get_by_username_def get_by_email_def get_by_external_subject_def get_with_roles_def
      dest: find_row_Some)

lemma lookup_none:
  "get_by_username n us = None \<longleftrightarrow> (\<forall>u \<in> set us. name_key u \<noteq> Some (lower n))"
  "get_by_email e us = None \<longleftrightarrow> (\<forall>u \<in> set us. mail_key u \<noteq> Some (lower e))"
  "get_by_external_subject p s us = None \<longleftrightarrow> (\<forall>u \<in> set us. subject_key u \<noteq> Some (p, s))"
  "get_with_roles i us = None \<longleftrightarrow> (\<forall>u \<in> set us. user_id u \<noteq> i)"
  by (auto simp: get_by_username_def get_by_email_def get_by_external_subject_def get_with_roles_def
      find_row_None name_key_def mail_key_def subject_key_def)

section \<open>Changing one account\<close>

lemma keyed_put:
  assumes "keyed k us" "set us' = insert u {r \<in> set us. user_id r \<noteq> user_id u}" "u0 \<in> set us"
    "user_id u = user_id u0" "k u = k u0 \<or> (\<forall>v \<in> set us. k v \<noteq> k u)"
  shows "keyed k us'"
proof -
  have one: "user_id u = user_id v" if "v \<in> set us" "k u = k v" "k u \<noteq> None" for v
    using assms(5)
  proof
    assume "k u = k u0"
    with assms(1,3,4) that show ?thesis by (metis keyed_def)
  qed (use that in auto)
  show ?thesis
    unfolding keyed_def assms(2)
  proof (intro ballI impI)
    fix v w
    assume vw: "v \<in> insert u {r \<in> set us. user_id r \<noteq> user_id u}" "w \<in> insert u {r \<in> set us. user_id r \<noteq> user_id u}"
      and k: "k v \<noteq> None" "k v = k w"
    show "user_id v = user_id w"
    proof (cases "v = u")
      case True
      with vw(2) k one [of w] show ?thesis by blast
    next
      case v: False
      then have "v \<in> set us" using vw(1) by simp
      show ?thesis
      proof (cases "w = u")
        case True
        with one [OF \<open>v \<in> set us\<close>] k show ?thesis by simp
      next
        case False
        with vw(2) have "w \<in> set us" by simp
        with \<open>v \<in> set us\<close> k assms(1) show ?thesis unfolding keyed_def by blast
      qed
    qed
  qed
qed

lemma keyed_add: "keyed k us \<Longrightarrow> \<forall>v \<in> set us. k u \<noteq> None \<longrightarrow> k v \<noteq> k u \<Longrightarrow> keyed k (us @ [u])"
  unfolding keyed_def by (simp; metis)

lemma put_user_inv:
  assumes inv: "accounts_inv db" and u0: "u0 \<in> set (ac_users db)" "user_id u = user_id u0"
    and name: "user_name u = user_name u0" and prov: "user_provider u = user_provider u0"
    and mail: "user_email u = user_email u0 \<or> get_by_email (user_email u) (ac_users db) = None"
    and subj: "user_subject u = user_subject u0 \<or>
      (\<exists>s. user_subject u = Some s \<and> get_by_external_subject (user_provider u) s (ac_users db) = None)"
    and ok: "vouched u" "set (user_roles u) \<subseteq> set (ac_roles db)"
  shows "accounts_inv (put_user u db)"
proof -
  note sets = set_put_user [OF u0]
  have "keyed name_key (ac_users (put_user u db))"
    using inv name by (intro keyed_put [OF _ sets u0]) (simp_all add: accounts_inv_def name_key_def)
  moreover have "keyed mail_key (ac_users (put_user u db))"
    using inv mail unfolding lookup_none
    by (intro keyed_put [OF _ sets u0]) (auto simp: accounts_inv_def mail_key_def)
  moreover have "keyed subject_key (ac_users (put_user u db))"
    using inv subj prov unfolding lookup_none
    by (intro keyed_put [OF _ sets u0]) (auto simp: accounts_inv_def subject_key_def)
  moreover have "\<forall>r \<in> set (ac_users (put_user u db)). vouched r \<and> set (user_roles r) \<subseteq> set (ac_roles db)
      \<and> user_id r < ac_next db"
    using inv u0 ok unfolding sets accounts_inv_def by simp
  ultimately show ?thesis using inv by (simp add: accounts_inv_def put_user_ids)
qed

lemma add_user_inv:
  assumes inv: "accounts_inv db" and i: "user_id u = ac_next db"
    and new: "get_by_username (user_name u) (ac_users db) = None" "get_by_email (user_email u) (ac_users db) = None"
    and subj: "\<And>s. user_subject u = Some s \<Longrightarrow> get_by_external_subject (user_provider u) s (ac_users db) = None"
    and ok: "vouched u" "set (user_roles u) \<subseteq> set (ac_roles db)"
  shows "accounts_inv (db\<lparr>ac_users := ac_users db @ [u], ac_next := ac_next db + 1\<rparr>)"
proof -
  have "keyed name_key (ac_users db @ [u])" "keyed mail_key (ac_users db @ [u])"
    using inv new unfolding lookup_none
    by (intro keyed_add; simp add: accounts_inv_def name_key_def mail_key_def)+
  moreover have "keyed subject_key (ac_users db @ [u])"
    using inv subj unfolding lookup_none
    by (intro keyed_add) (auto simp: accounts_inv_def subject_key_def)
  moreover have "\<forall>r \<in> set (ac_users db). user_id r < ac_next db + 1 \<and> user_id r \<noteq> ac_next db"
    using inv by (auto simp: accounts_inv_def)
  ultimately show ?thesis using inv i ok by (auto simp: accounts_inv_def)
qed

lemma vouched_update [simp]:
  "vouched (u\<lparr>user_active := b\<rparr>) = vouched u" "vouched (u\<lparr>user_roles := rs\<rparr>) = vouched u"
  "vouched (u\<lparr>user_last_login := t\<rparr>) = vouched u" "vouched (u\<lparr>user_failed_logins := n\<rparr>) = vouched u"
  "vouched (u\<lparr>user_email := e\<rparr>) = vouched u" "vouched (u\<lparr>user_full_name := f\<rparr>) = vouched u"
  by (simp_all add: vouched_def is_local_def)

lemma inv_user:
  "accounts_inv db \<Longrightarrow> u \<in> set (ac_users db) \<Longrightarrow>
     vouched u \<and> set (user_roles u) \<subseteq> set (ac_roles db) \<and> user_id u < ac_next db"
  by (simp add: accounts_inv_def)

section \<open>Federation\<close>

lemma roles_for_subset: "set (roles_for st roles ident) \<subseteq> set roles"
  by (auto simp: roles_for_def Let_def List.map_filter_def get_role_def dest: find_row_Some split: if_splits)

text \<open>An account that an identity of another provider than the platform's own may become.\<close>

lemma find_account_cases:
  assumes inv: "accounts_inv db" and "find_account ident db = Inr (found, db1)" and ext: "ei_provider ident \<noteq> ''local''"
  obtains (none) "found = None" "db1 = db" "get_by_username (ei_username ident) (ac_users db) = None"
      "get_by_external_subject (ei_provider ident) (ei_subject ident) (ac_users db) = None"
  | (some) u u0 where "found = Some u" "u0 \<in> set (ac_users db)" "u = u0\<lparr>user_subject := Some (ei_subject ident)\<rparr>"
      "user_provider u0 = ei_provider ident" "u \<in> set (ac_users db1)" "accounts_inv db1"
      "ac_roles db1 = ac_roles db" "ac_users db1 = ac_users (put_user u db)"
proof (cases "get_by_external_subject (ei_provider ident) (ei_subject ident) (ac_users db)")
  case (Some u)
  then have u: "u \<in> set (ac_users db)" "user_provider u = ei_provider ident" "user_subject u = Some (ei_subject ident)"
    using lookup_user(3) by blast+
  have r: "found = Some u" "db1 = db" using assms(2) Some by (simp_all add: find_account_def)
  have same: "u\<lparr>user_subject := Some (ei_subject ident)\<rparr> = u" using u(3) by simp
  have "ac_users (put_user u db) = ac_users db"
  proof -
    have "r = u" if "r \<in> set (ac_users db)" "user_id r = user_id u" for r
      using inv u(1) that by (simp add: accounts_inv_def distinct_map inj_on_def)
    then have "(if user_id r = user_id u then u else r) = r" if "r \<in> set (ac_users db)" for r using that by metis
    then show ?thesis unfolding put_user_def update_rows_def by (simp add: map_idI)
  qed
  then show thesis using some [of u u] r u inv same by simp
next
  case None
  show thesis
  proof (cases "get_by_username (ei_username ident) (ac_users db)")
    case n: None
    with None assms(2) none show thesis by (simp add: find_account_def)
  next
    case (Some u0)
    let ?u = "u0\<lparr>user_subject := Some (ei_subject ident)\<rparr>"
    have u0: "u0 \<in> set (ac_users db)" using lookup_user(1) [OF Some] by simp
    have r: "\<not> is_local u0" "user_provider u0 = ei_provider ident" "found = Some ?u" "db1 = put_user ?u db"
      using assms(2) None Some by (auto simp: find_account_def Let_def split: if_splits)
    have "vouched ?u" using inv_user [OF inv u0] r(1) by (simp add: vouched_def is_local_def)
    then have "accounts_inv (put_user ?u db)"
      using inv_user [OF inv u0] None r(2) by (intro put_user_inv [OF inv u0]) simp_all
    moreover have "?u \<in> set (ac_users (put_user ?u db))" using u0 by (simp add: set_put_user)
    ultimately show thesis using some [of ?u u0] r u0 by simp
  qed
qed

text \<open>Reconciling changes the address, the name and the roles of one account only.\<close>

lemma synced_fields_same:
  assumes "synced_fields st ident db u = (u1, changed)"
  shows "user_id u1 = user_id u" "user_name u1 = user_name u" "user_provider u1 = user_provider u"
    "user_subject u1 = user_subject u" "user_password u1 = user_password u" "user_superuser u1 = user_superuser u"
    "user_active u1 = user_active u"
    "user_email u1 = user_email u \<or> get_by_email (user_email u1) (ac_users db) = None"
    "user_roles u1 = user_roles u \<or> user_roles u1 = roles_for st (ac_roles db) ident"
    "fs_sync_roles st \<Longrightarrow> role_name ` set (user_roles u1) = role_name ` set (roles_for st (ac_roles db) ident)"
  using assms unfolding synced_fields_def Let_def
  by (clarsimp; simp split: if_splits)+

lemma reconcile_inv:
  assumes inv: "accounts_inv db" and u: "u \<in> set (ac_users db)" and r: "reconcile_account st ident u db = (u1, db1)"
  shows "accounts_inv db1 \<and> u1 \<in> set (ac_users db1) \<and> ac_roles db1 = ac_roles db \<and> ac_users db1 = ac_users (put_user u1 db)"
proof -
  obtain changed where s: "synced_fields st ident db u = (u1, changed)"
    using r by (auto simp: reconcile_account_def Let_def split: prod.splits)
  note same = synced_fields_same [OF s]
  have "vouched u1" using inv_user [OF inv u] same by (simp add: vouched_def is_local_def)
  moreover have "set (user_roles u1) \<subseteq> set (ac_roles db)"
    using inv_user [OF inv u] same roles_for_subset [of st "ac_roles db" ident] by auto
  ultimately have "accounts_inv (put_user u1 db)" using same by (intro put_user_inv [OF inv u]) simp_all
  moreover have "u1 \<in> set (ac_users (put_user u1 db))" using u same by (simp add: set_put_user)
  ultimately show ?thesis using r s by (auto simp: reconcile_account_def Let_def split: if_splits)
qed

lemma provision_cases:
  assumes "provision_account st ident db = Inr (u, db1)"
  shows "ac_users db1 = ac_users db @ [u] \<and> ac_roles db1 = ac_roles db \<and> user_id u = ac_next db \<and>
    user_superuser u = False \<and> user_password u = None \<and> user_provider u = ei_provider ident \<and>
    user_subject u = Some (ei_subject ident) \<and> user_roles u = roles_for st (ac_roles db) ident \<and>
    user_name u = ei_username ident \<and> get_by_email (user_email u) (ac_users db) = None \<and> user_active u \<and>
    (accounts_inv db1 = accounts_inv (db\<lparr>ac_users := ac_users db @ [u], ac_next := ac_next db + 1\<rparr>))"
  using assms by (auto simp: provision_account_def Let_def split: if_splits)

text \<open>
  The account an external identity resolves to: found or made, never a local one, never made a
  superuser, and its roles are what they were or what the mapping gives.
\<close>

lemma resolve_identity_cases:
  assumes inv: "accounts_inv db" and ext: "ei_provider ident \<noteq> ''local''"
    and r: "resolve_identity st ident db = (Inr (u, db1), ind)"
  shows "accounts_inv db1 \<and> u \<in> set (ac_users db1) \<and> ac_roles db1 = ac_roles db \<and> user_active u \<and>
    user_provider u = ei_provider ident \<and> user_subject u = Some (ei_subject ident) \<and>
    (fs_sync_roles st \<longrightarrow> role_name ` set (user_roles u) = role_name ` set (roles_for st (ac_roles db) ident)) \<and>
    ((\<exists>u0 \<in> set (ac_users db). user_id u0 = user_id u \<and> user_provider u0 = ei_provider ident \<and>
        user_active u0 \<and> user_superuser u = user_superuser u0 \<and>
        (user_roles u = user_roles u0 \<or> user_roles u = roles_for st (ac_roles db) ident)) \<or>
     (user_id u = ac_next db \<and> \<not> user_superuser u \<and> user_roles u = roles_for st (ac_roles db) ident)) \<and>
    (\<forall>v \<in> set (ac_users db1). user_id v \<noteq> user_id u \<longrightarrow> v \<in> set (ac_users db))"
proof -
  obtain found dbf where f: "find_account ident db = Inr (found, dbf)" and act: "user_active u"
    and rest: "found = None \<and> fs_provision st \<and> provision_account st ident dbf = Inr (u, db1) \<or>
      (\<exists>v. found = Some v \<and> reconcile_account st ident v dbf = (u, db1))"
    using r by (auto simp: resolve_identity_def split: sum.splits option.splits if_splits prod.splits)
  from inv f ext show ?thesis
  proof (cases rule: find_account_cases)
    case none
    with rest have p: "provision_account st ident db = Inr (u, db1)" by simp
    note q = provision_cases [OF p]
    have "accounts_inv (db\<lparr>ac_users := ac_users db @ [u], ac_next := ac_next db + 1\<rparr>)"
      using q none roles_for_subset [of st "ac_roles db" ident] ext
      by (intro add_user_inv [OF inv]) (simp_all add: vouched_def is_local_def)
    with q act show ?thesis by simp
  next
    case (some v v0)
    with rest have rec: "reconcile_account st ident v dbf = (u, db1)" by simp
    note q = reconcile_inv [OF some(6,5) rec]
    obtain changed where s: "synced_fields st ident dbf v = (u, changed)"
      using rec by (auto simp: reconcile_account_def Let_def split: prod.splits)
    note same = synced_fields_same [OF s]
    have v: "user_id v = user_id v0" using some(3) by simp
    have "w \<in> set (ac_users db)" if "w \<in> set (ac_users db1)" "user_id w \<noteq> user_id u" for w
      using that q same set_put_user [OF some(5), of u] set_put_user [OF some(2) v] some(8) by auto
    with q same some act show ?thesis by auto
  qed
qed

end
