(* ===== verification/Sign_In_Properties.thy ===== *)
theory Sign_In_Properties
  imports Account_Invariant
begin

text \<open>What signing in and managing accounts guarantee, and where the code falls short of it.\<close>

section \<open>Every operation keeps the accounts sound\<close>

definition outside_only :: "auth_env \<Rightarrow> bool" where
  "outside_only env = (\<forall>p \<in> set (ae_providers env). \<forall>n pw ident.
     pp_authenticate p n pw = Inr (Some ident) \<longrightarrow> ei_provider ident \<noteq> ''local'')"

lemma password_providers_outside: "ae_providers env = password_providers dir st ps \<Longrightarrow> outside_only env"
  by (auto simp: outside_only_def password_providers_def ldap_authenticate_def read_groups_def
      split: if_splits sum.splits list.splits)

inductive account_step :: "auth_env \<Rightarrow> accounts_db \<Rightarrow> accounts_db \<Rightarrow> bool" for env where
  signing_in: "login env n pw db = (Inr (t, db1), ind) \<Longrightarrow> account_step env db db1"
| signing_in_elsewhere: "login_external env pr ident db = (Inr (t, db1), ind) \<Longrightarrow>
     ei_provider ident \<noteq> ''local'' \<Longrightarrow> account_step env db db1"
| refreshing: "refresh env tok db = (Inr (t, db1), ind) \<Longrightarrow> account_step env db db1"
| creating: "create_user (ae_hasher env) n e pw f rs a db = (Inr (u, db1), ind) \<Longrightarrow> account_step env db db1"
| activating: "set_active i b a db = (Inr (u, db1), ind) \<Longrightarrow> account_step env db db1"
| setting_password: "set_password (ae_hasher env) i pw a db = (Inr (u, db1), ind) \<Longrightarrow> account_step env db db1"
| changing_password: "change_own_password (ae_hasher env) v old new db = (Inr (u, db1), ind) \<Longrightarrow>
     v \<in> set (ac_users db) \<Longrightarrow> account_step env db db1"
| assigning: "assign_roles i rs a db = (Inr (u, db1), ind) \<Longrightarrow> account_step env db db1"

definition superusers :: "accounts_db \<Rightarrow> uuid set" where
  "superusers db = user_id ` {u \<in> set (ac_users db). user_superuser u}"

text \<open>One account is put back, changed in nothing that names it.\<close>

definition kept :: "accounts_db \<Rightarrow> accounts_db \<Rightarrow> bool" where
  "kept db db1 = (accounts_inv db1 \<and> superusers db1 \<subseteq> superusers db)"

lemma kept_trans: "kept db db1 \<Longrightarrow> kept db1 db2 \<Longrightarrow> kept db db2"
  by (auto simp: kept_def)

lemma kept_put:
  assumes inv: "accounts_inv db" and u0: "u0 \<in> set (ac_users db)" "user_id u = user_id u0"
    and same: "user_name u = user_name u0" "user_provider u = user_provider u0" "user_email u = user_email u0"
      "user_subject u = user_subject u0" "user_superuser u = user_superuser u0"
    and ok: "vouched u" "set (user_roles u) \<subseteq> set (ac_roles db)" and db1: "ac_users db1 = ac_users (put_user u db)"
      "accounts_inv db1 = accounts_inv (put_user u db)"
  shows "kept db db1"
proof -
  have "accounts_inv (put_user u db)" using same by (intro put_user_inv [OF inv u0]) (simp_all add: ok)
  moreover have "superusers db1 \<subseteq> superusers db"
    unfolding superusers_def db1(1) set_put_user [OF u0] using u0 same(5) by auto
  ultimately show ?thesis by (simp add: kept_def db1(2))
qed

lemma signed_in_kept:
  assumes inv: "accounts_inv db" and u: "u0 \<in> set (ac_users db)" "user_id u = user_id u0"
    and same: "user_name u = user_name u0" "user_provider u = user_provider u0" "user_email u = user_email u0"
      "user_subject u = user_subject u0" "user_superuser u = user_superuser u0" "user_roles u = user_roles u0"
    and ok: "vouched u" and r: "signed_in env m u db = (t, db1)"
  shows "kept db db1"
  using r inv_user [OF inv u(1)] unfolding signed_in_def Let_def
  by (intro kept_put [OF inv u(1), of "u\<lparr>user_last_login := Some (ae_now env), user_failed_logins := 0\<rparr>"])
     (auto simp: same u(2) ok)

lemma external_kept:
  assumes inv: "accounts_inv db" and ext: "ei_provider ident \<noteq> ''local''"
    and r: "login_external env pr ident db = (Inr (t, db2), ind)"
  shows "kept db db2"
proof -
  obtain u db1 where res: "resolve_identity (ae_federation env) ident db = (Inr (u, db1), ind)"
    and s: "signed_in env [(''provider'', JStr pr)] u db1 = (t, db2)"
    using r by (auto simp: login_external_def split: prod.splits sum.splits)
  note c = resolve_identity_cases [OF inv ext res]
  have "superusers db1 \<subseteq> superusers db"
  proof
    fix i assume "i \<in> superusers db1"
    then obtain v where v: "v \<in> set (ac_users db1)" "user_superuser v" "i = user_id v" by (auto simp: superusers_def)
    have "inj_on user_id (set (ac_users db1))" using c by (simp add: accounts_inv_def distinct_map)
    then have "v = u" if "user_id v = user_id u" using that v(1) c by (auto dest: inj_onD)
    show "i \<in> superusers db"
    proof (cases "user_id v = user_id u")
      case True
      with \<open>user_id v = user_id u \<Longrightarrow> v = u\<close> v(2) have "user_superuser u" by simp
      with c obtain u0 where "u0 \<in> set (ac_users db)" "user_id u0 = user_id u" "user_superuser u0" by blast
      with True v(3) show ?thesis unfolding superusers_def by (metis (mono_tags) image_eqI mem_Collect_eq)
    next
      case False
      with v c show ?thesis by (auto simp: superusers_def)
    qed
  qed
  with c have "kept db db1" by (simp add: kept_def)
  moreover have "kept db1 db2" using c inv_user s by (intro signed_in_kept [of db1 u u]) auto
  ultimately show ?thesis by (rule kept_trans)
qed

lemma try_external_kept:
  assumes "accounts_inv db" "outside_only env" "set ps \<subseteq> set (ae_providers env)"
    "try_external env ps n pw db = (Inr (Some (t, db1)), ind)"
  shows "kept db db1"
  using assms(3,4)
proof (induction ps)
  case (Cons p ps)
  show ?case
  proof (cases "pp_authenticate p n pw")
    case (Inr got)
    show ?thesis
    proof (cases got)
      case None
      with Cons Inr show ?thesis by simp
    next
      case (Some ident)
      then have "login_external env (pp_name p) ident db = (Inr (t, db1), ind)"
        using Cons(3) Inr by (auto split: prod.splits sum.splits)
      moreover have "ei_provider ident \<noteq> ''local''"
        using assms(2) Cons(2) Inr Some unfolding outside_only_def by auto
      ultimately show ?thesis using external_kept [OF assms(1)] by blast
    qed
  qed (use Cons(3) in simp)
qed simp

lemma login_local:
  assumes "get_by_username n (ac_users db) = Some u" "is_local u" "user_password u = Some stored"
  shows "login env n pw db =
    (if \<not> hs_verify (ae_hasher env) stored pw
     then (Inl wrong_credentials,
           [login_record FAILURE (Some (user_id u)) (user_name u) ''Incorrect password''
              (JObj [(''failed_login_count'', JInt (int (user_failed_logins u) + 1))])])
     else if \<not> user_active u
     then (Inl (AuthenticationError ''This account is disabled.''),
           [login_record DENIED (Some (user_id u)) (user_name u) ''Account is disabled'' (JObj [])])
     else (Inr (signed_in env [] (if hs_stale (ae_hasher env) stored
                then u\<lparr>user_password := Some (hs_hash (ae_hasher env) pw)\<rparr> else u) db), []))"
  using assms by (simp add: login_def Let_def)

text \<open>The branches of a sign-in: a local account with a password, or the other providers.\<close>

definition local_account :: "string \<Rightarrow> accounts_db \<Rightarrow> (user \<times> string) option" where
  "local_account n db =
     (case get_by_username n (ac_users db) of
        Some u \<Rightarrow> if is_local u then map_option (Pair u) (user_password u) else None
      | None \<Rightarrow> None)"

lemma local_account_Some:
  "local_account n db = Some (u, stored) \<longleftrightarrow>
     get_by_username n (ac_users db) = Some u \<and> is_local u \<and> user_password u = Some stored"
  by (auto simp: local_account_def split: option.splits if_splits)

lemma login_elsewhere:
  "local_account n db = None \<Longrightarrow> login env n pw db =
     (case try_external env (ae_providers env) n pw db of
        (Inl e, ind) \<Rightarrow> (Inl e, ind)
      | (Inr (Some r), ind) \<Rightarrow> (Inr r, ind)
      | (Inr None, ind) \<Rightarrow>
          (Inl wrong_credentials,
           ind @ [login_record FAILURE None n ''Unknown user, or no provider accepted the credential'' (JObj [])]))"
  unfolding login_def local_account_def by simp

lemma login_kept:
  assumes inv: "accounts_inv db" and out: "outside_only env" and r: "login env n pw db = (Inr (t, db1), ind)"
  shows "kept db db1"
proof (cases "local_account n db")
  case None
  then show ?thesis
    using r try_external_kept [OF inv out subset_refl]
    by (auto simp: login_elsewhere split: prod.splits sum.splits option.splits)
next
  case (Some us)
  then obtain u stored where u: "get_by_username n (ac_users db) = Some u" "is_local u" "user_password u = Some stored"
    by (cases us) (auto simp: local_account_Some)
  note m = lookup_user(1) [OF u(1)]
  define v where "v = (if hs_stale (ae_hasher env) stored
    then u\<lparr>user_password := Some (hs_hash (ae_hasher env) pw)\<rparr> else u)"
  have "signed_in env [] v db = (t, db1)"
    using r by (simp add: login_local [OF u] v_def split: if_splits)
  moreover have "vouched v" using inv_user [OF inv] m u(2) by (auto simp: v_def vouched_def is_local_def)
  ultimately show ?thesis using m by (intro signed_in_kept [OF inv, of u v]) (simp_all add: v_def)
qed

lemma named_roles_subset:
  assumes "named_roles ns roles = Inr rs"
  shows "set rs \<subseteq> set roles"
proof -
  have "the (get_role n roles) \<in> set roles" if "get_role n roles \<noteq> None" for n
    using that unfolding get_role_def by (auto dest: find_row_Some)
  with assms show ?thesis by (auto simp: named_roles_def find_None_iff split: option.splits)
qed

text \<open>The edits of an administrator or of the person put one account back and record it.\<close>

lemma kept_edit:
  assumes inv: "accounts_inv db" and u0: "u0 \<in> set (ac_users db)" "user_id u = user_id u0"
    and same: "user_name u = user_name u0" "user_provider u = user_provider u0" "user_email u = user_email u0"
      "user_subject u = user_subject u0" "user_superuser u = user_superuser u0"
    and ok: "vouched u0 \<Longrightarrow> vouched u" "set (user_roles u) \<subseteq> set (ac_roles db) \<or> user_roles u = user_roles u0"
    and db1: "db1 = user_record act w u m (put_user u db)"
  shows "kept db db1"
  using inv_user [OF inv u0(1)] ok by (intro kept_put [OF inv u0 same]) (auto simp: db1)

lemma account_step_kept:
  assumes "account_step env db db1" "accounts_inv db" "outside_only env"
  shows "kept db db1"
  using assms
proof cases
  case (signing_in n pw t ind)
  then show ?thesis using assms login_kept by blast
next
  case (signing_in_elsewhere pr ident t ind)
  then show ?thesis using assms external_kept by blast
next
  case (refreshing tok t ind)
  then show ?thesis
    using assms by (auto simp: refresh_def kept_def superusers_def split: sum.splits if_splits)
next
  case (creating n e pw f rs a u ind)
  then obtain roles where roles: "named_roles rs (ac_roles db) = Inr roles"
    and free: "get_by_username n (ac_users db) = None" "get_by_email e (ac_users db) = None"
    by (auto simp: create_user_def Let_def split: sum.splits if_splits)
  define w where "w = \<lparr>user_id = ac_next db, user_name = n, user_email = e, user_full_name = f,
    user_password = Some (hs_hash (ae_hasher env) pw), user_provider = ''local'', user_subject = None,
    user_active = True, user_superuser = False, user_last_login = None, user_failed_logins = 0, user_roles = roles\<rparr>"
  have "accounts_inv (db\<lparr>ac_users := ac_users db @ [w], ac_next := ac_next db + 1\<rparr>)"
    using free named_roles_subset [OF roles]
    by (intro add_user_inv [OF assms(2)]) (simp_all add: w_def vouched_def is_local_def)
  then show ?thesis
    using creating roles free
    by (auto simp: create_user_def Let_def kept_def superusers_def w_def split: sum.splits if_splits)
next
  case (activating i b a u ind)
  then obtain u0 where "u0 \<in> set (ac_users db)" "u = u0\<lparr>user_active := b\<rparr>"
    "db1 = user_record USER_UPDATED (Some a) u [(''is_active'', JBool b)] (put_user u db)"
    by (auto simp: set_active_def get_user_def Let_def split: sum.splits if_splits option.splits dest!: lookup_user(4))
  then show ?thesis by (intro kept_edit [OF assms(2)]) auto
next
  case (setting_password i pw a u ind)
  then obtain u0 m where "u0 \<in> set (ac_users db)" "is_local u0"
    "u = u0\<lparr>user_password := Some (hs_hash (ae_hasher env) pw), user_failed_logins := 0\<rparr>"
    "db1 = user_record USER_UPDATED (Some a) u m (put_user u db)"
    by (auto simp: set_password_def get_user_def Let_def split: sum.splits if_splits option.splits dest!: lookup_user(4))
  then show ?thesis by (intro kept_edit [OF assms(2)]) (auto simp: vouched_def is_local_def)
next
  case (changing_password v old new u ind)
  then have "is_local v" "u = v\<lparr>user_password := Some (hs_hash (ae_hasher env) new)\<rparr>"
    "db1 = user_record USER_UPDATED (Some v) u [(''password_changed_by_self'', JBool True)] (put_user u db)"
    by (auto simp: change_own_password_def Let_def split: sum.splits if_splits option.splits)
  with changing_password(2) show ?thesis
    by (intro kept_edit [OF assms(2)]) (auto simp: vouched_def is_local_def)
next
  case (assigning i rs a u ind)
  then obtain u0 roles m where "u0 \<in> set (ac_users db)" "u = u0\<lparr>user_roles := roles\<rparr>"
    "named_roles rs (ac_roles db) = Inr roles" "db1 = user_record ROLE_ASSIGNED (Some a) u m (put_user u db)"
    by (auto simp: assign_roles_def get_user_def Let_def split: sum.splits option.splits dest!: lookup_user(4))
  with named_roles_subset show ?thesis by (intro kept_edit [OF assms(2)]) auto
qed

text \<open>
  C26. However people sign in and whatever administrators do to accounts, names and addresses stay
  unique up to case, a directory subject keeps one account, a federated account never gets a
  password, and no account becomes a superuser.
\<close>
theorem accounts_stay_sound:
  assumes "(account_step env)\<^sup>*\<^sup>* db db1" "accounts_inv db" "ae_providers env = password_providers dir st ps"
  shows "accounts_inv db1 \<and> superusers db1 \<subseteq> superusers db"
  using assms(1)
proof (induction rule: rtranclp_induct)
  case base
  with assms(2) show ?case by simp
next
  case (step db1 db2)
  with account_step_kept [OF step(2) _ password_providers_outside [OF assms(3)]]
  show ?case by (auto simp: kept_def)
qed

section \<open>Being switched off\<close>

lemma local_login_issue:
  assumes "local_account n db = Some (u, stored)" "login env n pw db = (Inr (t, db1), ind)"
  shows "user_active u \<and> u \<in> set (ac_users db) \<and> (\<exists>v. user_id v = user_id u \<and> t = issue (ae_tokens env) (ae_now env) v)"
proof -
  have u: "get_by_username n (ac_users db) = Some u" "is_local u" "user_password u = Some stored"
    using assms(1) by (auto simp: local_account_Some)
  have "\<exists>v. user_id v = user_id w \<and> fst (signed_in env m w db) = issue (ae_tokens env) (ae_now env) v" for m w
    unfolding signed_in_def Let_def by (rule exI [of _ "w\<lparr>user_last_login := Some (ae_now env), user_failed_logins := 0\<rparr>"]) simp
  from this [of "if hs_stale (ae_hasher env) stored
      then u\<lparr>user_password := Some (hs_hash (ae_hasher env) pw)\<rparr> else u" "[]"]
  show ?thesis
    using assms(2) lookup_user(1) [OF u(1)] by (auto simp: login_local [OF u] split: if_splits)
qed

lemma external_login_issue:
  assumes inv: "accounts_inv db" and ext: "ei_provider ident \<noteq> ''local''"
    and r: "login_external env pr ident db = (Inr (t, db1), ind)"
  obtains u where "t = issue (ae_tokens env) (ae_now env) u" "u \<in> set (ac_users db1)" "user_active u"
    "user_provider u = ei_provider ident" "user_subject u = Some (ei_subject ident)" "ac_roles db1 = ac_roles db"
    "fs_sync_roles (ae_federation env) \<Longrightarrow>
       role_name ` set (user_roles u) = role_name ` set (roles_for (ae_federation env) (ac_roles db) ident)"
    "user_id u = ac_next db \<or> (\<exists>u0 \<in> set (ac_users db). user_id u0 = user_id u \<and> user_active u0)"
    "\<forall>v \<in> set (ac_users db1). user_id v \<noteq> user_id u \<longrightarrow> v \<in> set (ac_users db)"
proof -
  obtain w dbw where res: "resolve_identity (ae_federation env) ident db = (Inr (w, dbw), ind)"
    and s: "signed_in env [(''provider'', JStr pr)] w dbw = (t, db1)"
    using r by (auto simp: login_external_def split: prod.splits sum.splits)
  define u where "u = w\<lparr>user_last_login := Some (ae_now env), user_failed_logins := 0\<rparr>"
  note c = resolve_identity_cases [OF inv ext res]
  from s have t: "t = issue (ae_tokens env) (ae_now env) u" "ac_users db1 = ac_users (put_user u dbw)"
    "ac_roles db1 = ac_roles dbw"
    by (auto simp: signed_in_def Let_def u_def)
  have set1: "set (ac_users db1) = insert u {r \<in> set (ac_users dbw). user_id r \<noteq> user_id u}"
    unfolding t(2) using c by (intro set_put_user [of w]) (simp_all add: u_def)
  show thesis
    by (rule that [of u]) (use c t set1 in \<open>auto simp: u_def\<close>)
qed

lemma try_external_issue:
  assumes "outside_only env" "set ps \<subseteq> set (ae_providers env)"
    "try_external env ps n pw db = (Inr (Some (t, db1)), ind)"
  shows "\<exists>pr ident. ei_provider ident \<noteq> ''local'' \<and> login_external env pr ident db = (Inr (t, db1), ind)"
  using assms(2,3)
proof (induction ps)
  case (Cons p ps)
  show ?case
  proof (cases "pp_authenticate p n pw")
    case (Inr got)
    show ?thesis
    proof (cases got)
      case None
      with Cons Inr show ?thesis by simp
    next
      case (Some ident)
      then have "login_external env (pp_name p) ident db = (Inr (t, db1), ind)"
        using Cons(3) Inr by (auto split: prod.splits sum.splits)
      moreover have "ei_provider ident \<noteq> ''local''"
        using assms(1) Cons(2) Inr Some unfolding outside_only_def by auto
      ultimately show ?thesis by blast
    qed
  qed (use Cons(3) in simp)
qed simp

lemma resolve_subject_found:
  assumes "resolve_subject sub db = Inr u"
  shows "u \<in> set (ac_users db)"
proof -
  obtain i where "get_with_roles i (ac_users db) = Some u"
    using assms unfolding resolve_subject_def
    by (cases sub) (auto split: json.splits list.splits option.splits)
  then show ?thesis using lookup_user(4) by blast
qed

lemma access_names_active:
  assumes "resolve_access_token env tok db = Inr v"
  shows "v \<in> set (ac_users db) \<and> user_active v"
  using assms unfolding resolve_access_token_def
  by (simp split: sum.splits if_splits) (metis resolve_subject_found)

lemma refresh_names_active:
  assumes "refresh env tok db = (Inr (t, db1), ind)"
  shows "\<exists>v \<in> set (ac_users db). user_active v \<and> t = issue (ae_tokens env) (ae_now env) v"
  using assms unfolding refresh_def
  by (simp split: sum.splits if_splits) (metis resolve_subject_found)

text \<open>
  C27. Disabling an account takes effect at once and on every way in: no token issued before works,
  no refresh token gives a new one, and neither its password nor its directory signs it in, at
  any later time and whatever the tokens hold.
\<close>
theorem disabled_means_out:
  assumes inv: "accounts_inv db" and off: "set_active i False actor db = (Inr (u, db1), ind)"
    and prov: "ae_providers env = password_providers dir st ps"
  shows "(current_user env cred db1 = Inr v \<longrightarrow> user_id v \<noteq> i)
   \<and> (refresh env tok db1 = (Inr (t, db2), ind2) \<longrightarrow> (\<exists>v. user_id v \<noteq> i \<and> t = issue (ae_tokens env) (ae_now env) v))
   \<and> (login env n pw db1 = (Inr (t, db2), ind2) \<longrightarrow> (\<exists>v. user_id v \<noteq> i \<and> t = issue (ae_tokens env) (ae_now env) v))
   \<and> (ei_provider ident \<noteq> ''local'' \<and> login_external env pr ident db1 = (Inr (t, db2), ind2) \<longrightarrow>
        (\<exists>v. user_id v \<noteq> i \<and> t = issue (ae_tokens env) (ae_now env) v))"
proof -
  have out: "outside_only env" using prov by (rule password_providers_outside)
  obtain u0 where u0: "u0 \<in> set (ac_users db)" "user_id u0 = i" "u = u0\<lparr>user_active := False\<rparr>"
    "ac_users db1 = ac_users (put_user u db)"
    using off by (auto simp: set_active_def get_user_def Let_def split: sum.splits if_splits option.splits
        dest!: lookup_user(4))
  have inv1: "accounts_inv db1"
    using account_step_kept [OF activating [OF off] inv out] by (simp add: kept_def)
  have id: "i < ac_next db1" and dead: "\<not> user_active w" if "w \<in> set (ac_users db1)" "user_id w = i" for w
    using that inv_user [OF inv1 that(1)] u0 set_put_user [OF u0(1), of u] by auto
  have here: "u \<in> set (ac_users db1)" "user_id u = i" using u0 set_put_user [OF u0(1), of u] by auto
  let ?other = "\<lambda>t. \<exists>v. user_id v \<noteq> i \<and> t = issue (ae_tokens env) (ae_now env) v"
  have ext: "?other t'"
    if r: "ei_provider ident' \<noteq> ''local''" "login_external env pr' ident' db1 = (Inr (t', db'), ind')"
    for ident' pr' t' db' ind'
  proof -
    obtain w where w: "t' = issue (ae_tokens env) (ae_now env) w"
      "user_id w = ac_next db1 \<or> (\<exists>u0 \<in> set (ac_users db1). user_id u0 = user_id w \<and> user_active u0)"
      using external_login_issue [OF inv1 r] by blast
    have "user_id w \<noteq> i"
      using w(2)
    proof
      assume "\<exists>u0 \<in> set (ac_users db1). user_id u0 = user_id w \<and> user_active u0"
      then show ?thesis using dead by blast
    qed (use id [OF here] in simp)
    with w(1) show ?thesis by blast
  qed
  have local: "?other t" if r: "login env n pw db1 = (Inr (t, db2), ind2)"
  proof (cases "local_account n db1")
    case None
    with r have "try_external env (ae_providers env) n pw db1 = (Inr (Some (t, db2)), ind2)"
      by (auto simp: login_elsewhere split: prod.splits sum.splits option.splits)
    from try_external_issue [OF out subset_refl this] obtain pr' ident' where
      "ei_provider ident' \<noteq> ''local''" "login_external env pr' ident' db1 = (Inr (t, db2), ind2)" by blast
    then show ?thesis by (rule ext)
  next
    case (Some us)
    then obtain x stored where "local_account n db1 = Some (x, stored)" by (cases us) simp
    from local_login_issue [OF this r] obtain v where "user_active x" "x \<in> set (ac_users db1)" "user_id v = user_id x"
      "t = issue (ae_tokens env) (ae_now env) v" by blast
    then show ?thesis using dead [of x] by (intro exI [of _ v]) auto
  qed
  show ?thesis
  proof (intro conjI impI)
    assume "current_user env cred db1 = Inr v"
    then have "resolve_access_token env (the cred) db1 = Inr v" by (simp add: current_user_def split: if_splits)
    then show "user_id v \<noteq> i" using dead [of v] access_names_active [of env "the cred" db1 v] by blast
  next
    assume "refresh env tok db1 = (Inr (t, db2), ind2)"
    then obtain v where "v \<in> set (ac_users db1)" "user_active v" "t = issue (ae_tokens env) (ae_now env) v"
      using refresh_names_active by blast
    then show "?other t" using dead [of v] by blast
  next
    assume "login env n pw db1 = (Inr (t, db2), ind2)"
    then show "?other t" by (rule local)
  next
    assume "ei_provider ident \<noteq> ''local'' \<and> login_external env pr ident db1 = (Inr (t, db2), ind2)"
    then show "?other t" by (elim conjE) (rule ext)
  qed
qed

section \<open>What a directory can grant\<close>





end
