(* ===== verification/Session_Properties.thy ===== *)
theory Session_Properties
  imports Sign_In_Properties
begin

text \<open>
  Tokens and credentials: what a token pair is good for, when a sign-in succeeds, and what reaches
  a directory; with the sample world the properties of the sign-in are applied to.
\<close>

section \<open>Identifiers in tokens\<close>

lemma of_char_hex_digit: "d < 16 \<Longrightarrow> (of_char (digit_char d) :: nat) = (if d < 10 then 48 + d else 87 + d)"
  by (simp add: digit_char_def)

lemma hex_value_digit: "d < 16 \<Longrightarrow> hex_value (digit_char d) = Some d"
  by (auto simp: hex_value_def of_char_hex_digit Let_def)

lemma digit_not_dash: "d < 16 \<Longrightarrow> digit_char d \<noteq> CHR ''-''"
proof
  assume "d < 16" "digit_char d = CHR ''-''"
  then have "(of_char (digit_char d) :: nat) = 45" by simp
  with \<open>d < 16\<close> show False by (simp add: of_char_hex_digit split: if_splits)
qed

lemma length_hex [simp]: "length (hex_digits k n) = k"
  by (induction k arbitrary: n) simp_all

lemma hex_no_dash: "CHR ''-'' \<notin> set (hex_digits k n)"
  by (induction k arbitrary: n) (auto dest: digit_not_dash [THEN not_sym] simp: digit_not_dash [THEN not_sym])

lemma parse_hex_snoc:
  "parse_hex (s @ [c]) = (case (parse_hex s, hex_value c) of (Some n, Some d) \<Rightarrow> Some (n * 16 + d) | _ \<Rightarrow> None)"
  by (simp add: parse_hex_def)

lemma parse_hex_digits: "parse_hex (hex_digits k n) = Some (n mod 16 ^ k)"
proof (induction k arbitrary: n)
  case (Suc k)
  have "n mod 16 ^ Suc k = n div 16 mod 16 ^ k * 16 + n mod 16"
    by (simp add: mod_mult2_eq mult.commute)
  then show ?case by (simp add: parse_hex_snoc Suc hex_value_digit)
qed (simp add: parse_hex_def)

lemma filter_uuid: "filter (\<lambda>c. c \<noteq> CHR ''-'') (uuid_str u) = hex_digits 32 u"
proof -
  let ?h = "hex_digits 32 u"
  have *: "filter (\<lambda>c. c \<noteq> CHR ''-'') xs = xs" if "set xs \<subseteq> set ?h" for xs
    using that hex_no_dash [of 32 u] by (intro filter_True) blast
  have "take 8 ?h @ take 4 (drop 8 ?h) @ take 4 (drop 12 ?h) @ take 4 (drop 16 ?h) @ drop 20 ?h = ?h"
    using append_take_drop_id [of 4 "drop 16 ?h"] append_take_drop_id [of 4 "drop 12 ?h"]
      append_take_drop_id [of 4 "drop 8 ?h"] append_take_drop_id [of 8 ?h] by simp
  moreover have "filter (\<lambda>c. c \<noteq> CHR ''-'') (uuid_str u)
      = take 8 ?h @ take 4 (drop 8 ?h) @ take 4 (drop 12 ?h) @ take 4 (drop 16 ?h) @ drop 20 ?h"
    unfolding uuid_str_def Let_def
    by (simp add: * set_take_subset order_trans [OF set_take_subset set_drop_subset] set_drop_subset)
  ultimately show ?thesis by simp
qed

lemma parse_uuid_str: "u < 16 ^ 32 \<Longrightarrow> parse_uuid (uuid_str u) = Some u"
  by (simp add: parse_uuid_def Let_def filter_uuid parse_hex_digits)

lemma uuid_str_Cons: "\<exists>c s. uuid_str u = c # s"
  by (cases "uuid_str u") (simp_all add: uuid_str_def Let_def)

section \<open>Sessions\<close>

lemma token_claims_get:
  assumes "k \<notin> fst ` set extra"
  shows "json_get (token_claims te now subject typ ttl extra) k =
     json_get [(''sub'', JStr subject), (''typ'', JStr typ), (''iss'', JStr (te_issuer te)),
       (''iat'', JInt (seconds_of now)), (''nbf'', JInt (seconds_of now)),
       (''exp'', JInt (seconds_of (now + ttl * 1000000))), (''jti'', JStr (te_jti te))] k"
  using assms by (simp add: token_claims_def json_get_def dict_merge_keep)

definition access_claims :: "token_env \<Rightarrow> timestamp \<Rightarrow> user \<Rightarrow> (string \<times> json) list" where
  "access_claims te now u = token_claims te now (uuid_str (user_id u)) ''access'' (te_access_ttl te)
     [(''username'', JStr (user_name u)), (''roles'', JList (map (JStr \<circ> role_name) (user_roles u)))]"

definition refresh_claims :: "token_env \<Rightarrow> timestamp \<Rightarrow> user \<Rightarrow> (string \<times> json) list" where
  "refresh_claims te now u = token_claims te now (uuid_str (user_id u)) ''refresh'' (te_refresh_ttl te) []"

text \<open>
  What PyJWT documents of a token it encoded itself: from the instant in \<open>iat\<close> and \<open>nbf\<close> on it
  decodes to its claims, until the instant in \<open>exp\<close>.
\<close>

definition reads_back :: "token_env \<Rightarrow> (string \<times> json) list \<Rightarrow> bool" where
  "reads_back te claims =
     (\<forall>t iat e. json_get claims ''iat'' = Some (JInt iat) \<and> json_get claims ''exp'' = Some (JInt e) \<and>
        iat * 1000000 \<le> t \<longrightarrow>
        te_decode te t (te_encode te claims) = (if e * 1000000 \<le> t then Inl Expired else Inr claims))"

lemma decode_issued:
  assumes "reads_back te (token_claims te now subject typ ttl extra)" "now \<le> t"
    and keys: "''sub'' \<notin> fst ` set extra" "''typ'' \<notin> fst ` set extra" "''iat'' \<notin> fst ` set extra" "''exp'' \<notin> fst ` set extra"
  shows "decode_token te t (te_encode te (token_claims te now subject typ ttl extra)) expected =
    (if seconds_of (now + ttl * 1000000) * 1000000 \<le> t then Inl (TokenError ''The token has expired.'')
     else if typ = expected then Inr (token_claims te now subject typ ttl extra)
     else Inl (TokenError (''Expected a '' @ expected @ '' token.'')))"
proof -
  let ?claims = "token_claims te now subject typ ttl extra"
  have get: "json_get ?claims ''iat'' = Some (JInt (seconds_of now))"
    "json_get ?claims ''exp'' = Some (JInt (seconds_of (now + ttl * 1000000)))"
    "json_get ?claims ''typ'' = Some (JStr typ)"
    using keys by (simp_all add: token_claims_get) (simp_all add: json_get_def)
  have "seconds_of now * 1000000 \<le> t" using assms(2) by (simp add: seconds_of_def)
  then have "te_decode te t (te_encode te ?claims)
      = (if seconds_of (now + ttl * 1000000) * 1000000 \<le> t then Inl Expired else Inr ?claims)"
    using assms(1) get unfolding reads_back_def by blast
  then show ?thesis by (simp add: decode_token_def get)
qed

lemma resolve_issued:
  assumes "accounts_inv db" "u \<in> set (ac_users db)" "user_id u < 16 ^ 32" "''sub'' \<notin> fst ` set extra"
  shows "resolve_subject (json_get (token_claims te now (uuid_str (user_id u)) typ ttl extra) ''sub'') db = Inr u"
proof -
  have "json_get (token_claims te now (uuid_str (user_id u)) typ ttl extra) ''sub'' = Some (JStr (uuid_str (user_id u)))"
    using assms(4) by (simp add: token_claims_get) (simp add: json_get_def)
  moreover obtain c s where "uuid_str (user_id u) = c # s" using uuid_str_Cons by blast
  moreover have "get_with_roles (user_id u) (ac_users db) = Some u"
    using assms(1,2) unfolding get_with_roles_def by (intro find_row_unique) (simp_all add: accounts_inv_def)
  ultimately show ?thesis
    using parse_uuid_str [OF assms(3)] by (simp add: resolve_subject_def)
qed

text \<open>
  C29. A token pair is good for exactly what it was issued for: until it expires the access token
  resolves to the account it names, as the account now is, and the refresh token buys a new pair
  for it; neither does the other's work, and both stop at their expiry.
\<close>
theorem sessions_round_trip:
  assumes inv: "accounts_inv db" and u: "u \<in> set (ac_users db)" "user_active u" "user_id u < 16 ^ 32"
    and te: "ae_tokens env = te" "reads_back te (access_claims te now u)" "reads_back te (refresh_claims te now u)"
    and now: "now \<le> ae_now env"
  shows "resolve_access_token env (tp_access (issue te now u)) db =
      (if seconds_of (now + te_access_ttl te * 1000000) * 1000000 \<le> ae_now env
       then Inl (TokenError ''The token has expired.'') else Inr u)
    \<and> map_sum id fst (fst (refresh env (tp_refresh (issue te now u)) db)) =
      (if seconds_of (now + te_refresh_ttl te * 1000000) * 1000000 \<le> ae_now env
       then Inl (TokenError ''The token has expired.'') else Inr (issue te (ae_now env) u))
    \<and> \<not> is_ok (resolve_access_token env (tp_refresh (issue te now u)) db)
    \<and> \<not> is_ok (fst (refresh env (tp_access (issue te now u)) db))"
proof -
  note res = resolve_issued [OF inv u(1,3)]
  have acc: "tp_access (issue te now u) = te_encode te (access_claims te now u)"
    "tp_refresh (issue te now u) = te_encode te (refresh_claims te now u)"
    by (simp_all add: issue_def create_access_token_def create_refresh_token_def access_claims_def refresh_claims_def)
  have dec: "decode_token te (ae_now env) (te_encode te (access_claims te now u)) expected =
      (if seconds_of (now + te_access_ttl te * 1000000) * 1000000 \<le> ae_now env
       then Inl (TokenError ''The token has expired.'')
       else if ''access'' = expected then Inr (access_claims te now u)
       else Inl (TokenError (''Expected a '' @ expected @ '' token.'')))"
    "decode_token te (ae_now env) (te_encode te (refresh_claims te now u)) expected =
      (if seconds_of (now + te_refresh_ttl te * 1000000) * 1000000 \<le> ae_now env
       then Inl (TokenError ''The token has expired.'')
       else if ''refresh'' = expected then Inr (refresh_claims te now u)
       else Inl (TokenError (''Expected a '' @ expected @ '' token.'')))" for expected
    using te now unfolding access_claims_def refresh_claims_def by (intro decode_issued; simp)+
  have sub: "resolve_subject (json_get (access_claims te now u) ''sub'') db = Inr u"
    "resolve_subject (json_get (refresh_claims te now u) ''sub'') db = Inr u"
    unfolding access_claims_def refresh_claims_def by (intro res; simp)+
  show ?thesis
    unfolding resolve_access_token_def refresh_def acc te(1) dec
    by (simp add: sub u(2))
qed

section \<open>When a sign-in succeeds\<close>


lemma try_external_nobody:
  assumes "\<forall>p \<in> set ps. pp_authenticate p n pw = Inr None"
  shows "try_external env ps n pw db = (Inr None, [])"
  using assms by (induction ps) auto


section \<open>What reaches a directory\<close>

text \<open>How a directory reads a filter value, RFC 4515: a backslash and two hexadecimal digits are one character.\<close>

fun unescape :: "string \<Rightarrow> string" where
  "unescape [] = []"
| "unescape (c # s) =
     (if c = CHR 0x5C
      then (case s of a # b # r \<Rightarrow>
              (case (hex_value a, hex_value b) of
                 (Some h, Some l) \<Rightarrow> char_of (16 * h + l) # unescape r | _ \<Rightarrow> c # unescape s)
            | _ \<Rightarrow> c # unescape s)
      else c # unescape s)"

definition escape_one :: "char \<Rightarrow> string" where
  "escape_one c = given (map_of filter_escapes c) [c]"

lemma escape_filter_eq: "escape_filter s = concat (map escape_one s)"
  by (induction s) (simp_all add: escape_filter_def filter_escapes_def replace_char_def escape_one_def given_def)

lemma char_codes:
  "char_of (92::nat) = CHR 0x5C" "char_of (42::nat) = CHR ''*''" "char_of (40::nat) = CHR ''(''"
  "char_of (41::nat) = CHR '')''" "char_of (0::nat) = CHR 0x00"
  by code_simp+

lemma unescape_one: "unescape (escape_one c @ s) = c # unescape s"
proof (cases "c \<in> fst ` set filter_escapes")
  case True
  then have "c = CHR 0x5C \<or> c = CHR ''*'' \<or> c = CHR ''('' \<or> c = CHR '')'' \<or> c = CHR 0x00"
    by (auto simp: filter_escapes_def)
  then show ?thesis
    by (elim disjE) (simp_all add: escape_one_def filter_escapes_def given_def hex_value_def char_codes)
next
  case False
  then have "c \<noteq> CHR 0x5C" "escape_one c = [c]"
    by (auto simp: filter_escapes_def escape_one_def given_def)
  then show ?thesis by simp
qed

lemma escape_one_plain:
  "x \<in> set (escape_one c) \<Longrightarrow> x \<notin> {CHR ''*'', CHR ''('', CHR '')'', CHR 0x00}"
  by (auto simp: escape_one_def filter_escapes_def given_def split: if_splits)

text \<open>
  Nothing a person types into a sign-in form changes the directory search: the escaped name has
  no metacharacter of a filter left, and the directory reads back exactly the name that was typed,
  so that the search matches that name only.
\<close>
theorem escape_filter_round_trip:
  "unescape (escape_filter s) = s \<and> set (escape_filter s) \<inter> {CHR ''*'', CHR ''('', CHR '')'', CHR 0x00} = {}"
proof -
  have "unescape (concat (map escape_one s)) = s" by (induction s) (simp_all add: unescape_one)
  moreover have "set (concat (map escape_one s)) \<inter> {CHR ''*'', CHR ''('', CHR '')'', CHR 0x00} = {}"
    using escape_one_plain by fastforce
  ultimately show ?thesis by (simp add: escape_filter_eq)
qed

section \<open>Defects\<close>

text \<open>A directory that cannot be reached looks like a wrong password to everyone.\<close>

theorem outage_is_wrong_password:
  assumes "ae_providers env = password_providers dir st ps" "local_account n db = None"
    and "\<And>m b f. dir_search dir m b f = Inl ()"
  shows "fst (login env n pw db) = Inl wrong_credentials"
proof -
  have "try_external env (ae_providers env) n pw db = (Inr None, [])"
    using assms(1,3) by (intro try_external_nobody) (auto simp: password_providers_def ldap_authenticate_def)
  with assms(2) show ?thesis by (simp add: login_elsewhere)
qed

text \<open>The count of failed sign-ins is rolled back with the request that raises it.\<close>

theorem failed_logins_never_counted:
  assumes "fst (run_request (login env n pw) s) = Inl e"
  shows "ac_users (fst (snd (run_request (login env n pw) s))) = ac_users (fst s)"
  using assms by (auto simp: run_request_def split: prod.splits sum.splits)

section \<open>A sample world\<close>

definition sample_hasher :: hasher where
  "sample_hasher = \<lparr>hs_hash = (\<lambda>p. ''h:'' @ p), hs_verify = (\<lambda>h p. h = ''h:'' @ p), hs_stale = (\<lambda>_. False)\<rparr>"

definition root_account :: user where
  "root_account =
     \<lparr>user_id = 3, user_name = ''root'', user_email = ''root@x'', user_full_name = None,
      user_password = Some ''h:correct horse'', user_provider = ''local'', user_subject = None, user_active = True,
      user_superuser = True, user_last_login = None, user_failed_logins = 0, user_roles = []\<rparr>"

definition plain_role :: role_row where
  "plain_role = \<lparr>role_id = 2, role_name = ''USER'', role_is_system = True, role_permissions = []\<rparr>"

definition ann_account :: user where
  "ann_account =
     \<lparr>user_id = 4, user_name = ''ann'', user_email = ''ann@x'', user_full_name = None,
      user_password = None, user_provider = ''ldap'', user_subject = Some ''cn=ann'', user_active = True,
      user_superuser = False, user_last_login = None, user_failed_logins = 0, user_roles = [plain_role]\<rparr>"

definition sample_accounts :: accounts_db where
  "sample_accounts =
     \<lparr>ac_users = [root_account, ann_account], ac_roles = [plain_role], ac_permissions = [], ac_next = 5, ac_trail = []\<rparr>"

definition sample_ldap :: ldap_settings where
  "sample_ldap =
     \<lparr>ls_enabled = True, ls_server = ''ldap://d'', ls_user_base = ''ou=p'',
      ls_user_filter = [Literal ''(uid='', Field, Literal '')''], ls_group_base = ''ou=g'',
      ls_group_filter = [Literal ''(m='', Field, Literal '')''], ls_start_tls = True\<rparr>"

definition sample_directory :: directory where
  "sample_directory =
     \<lparr>dir_search = (\<lambda>_ _ f. if f = ''(uid=ann)''
         then Inr [\<lparr>le_dn = ''cn=ann'', le_mail = Some ''ann@x'', le_name = None\<rparr>] else Inr []),
      dir_bind = (\<lambda>_ _ p. p = ''pw''), dir_groups = (\<lambda>_ _ _. Inr [''Staff''])\<rparr>"

definition bare_tokens :: token_env where
  "bare_tokens =
     \<lparr>te_issuer = ''p'', te_access_ttl = 3600, te_refresh_ttl = 604800, te_jti = ''j'',
      te_encode = (\<lambda>_. []), te_decode = (\<lambda>_ _. Inl Invalid)\<rparr>"

text \<open>A codec that knows the two tokens the first account was issued at second five.\<close>

definition sample_tokens :: token_env where
  "sample_tokens =
     bare_tokens\<lparr>te_encode := (\<lambda>claims. if json_get claims ''typ'' = Some (JStr ''access'') then ''A'' else ''R''),
       te_decode := (\<lambda>t tok. if tok = ''A''
          then (if 3605000000 \<le> t then Inl Expired else Inr (access_claims bare_tokens 5000000 root_account))
          else (if 604805000000 \<le> t then Inl Expired else Inr (refresh_claims bare_tokens 5000000 root_account)))\<rparr>"

definition sample_federation :: federation_settings where
  "sample_federation =
     \<lparr>fs_mapping = [(''staff'', ''USER''), (''staff'', ''SUPER_ADMIN''), (''STAFF'', ''USER'')],
      fs_default_roles = [''USER''], fs_sync_roles = True, fs_provision = True\<rparr>"

definition sample_auth :: auth_env where
  "sample_auth =
     \<lparr>ae_hasher = sample_hasher, ae_tokens = sample_tokens,
      ae_providers = password_providers sample_directory sample_ldap [LocalProvider, LdapProvider],
      ae_federation = sample_federation, ae_now = 9000000\<rparr>"


lemma sample_accounts_inv: "accounts_inv sample_accounts"
  by (simp add: accounts_inv_def sample_accounts_def root_account_def ann_account_def plain_role_def keyed_def
      name_key_def mail_key_def subject_key_def vouched_def is_local_def lower_def)

lemma sample_users:
  "get_with_roles 4 (ac_users sample_accounts) = Some ann_account"
  "get_by_external_subject ''ldap'' ''cn=ann'' (ac_users sample_accounts) = Some ann_account"
  "root_account \<in> set (ac_users sample_accounts)"
  by (simp_all add: get_with_roles_def get_by_external_subject_def sample_accounts_def root_account_def ann_account_def)

lemma sample_off: "\<exists>u db1. set_active 4 False root_account sample_accounts = (Inr (u, db1), [])"
  by (simp add: set_active_def get_user_def sample_users Let_def) (simp add: ann_account_def root_account_def)

theorem accounts_stay_sound_witness:
  "\<exists>db1. account_step sample_auth sample_accounts db1 \<and> accounts_inv db1 \<and> superusers db1 \<subseteq> superusers sample_accounts"
proof -
  obtain u db1 where "set_active 4 False root_account sample_accounts = (Inr (u, db1), [])" using sample_off by blast
  then have step: "account_step sample_auth sample_accounts db1" by (rule activating)
  have "ae_providers sample_auth = password_providers sample_directory sample_ldap [LocalProvider, LdapProvider]"
    by (simp add: sample_auth_def)
  moreover have "(account_step sample_auth)\<^sup>*\<^sup>* sample_accounts db1" using step by (rule r_into_rtranclp)
  ultimately show ?thesis using accounts_stay_sound [OF _ sample_accounts_inv] step by blast
qed

theorem disabled_means_out_witness:
  "\<exists>u db1. set_active 4 False root_account sample_accounts = (Inr (u, db1), []) \<and>
     (\<forall>v. current_user sample_auth (Some ''A'') db1 = Inr v \<longrightarrow> user_id v \<noteq> 4)"
proof -
  obtain u db1 where off: "set_active 4 False root_account sample_accounts = (Inr (u, db1), [])" using sample_off by blast
  have "ae_providers sample_auth = password_providers sample_directory sample_ldap [LocalProvider, LdapProvider]"
    by (simp add: sample_auth_def)
  from disabled_means_out [OF sample_accounts_inv off this, where cred = "Some ''A''"] off show ?thesis by blast
qed



theorem sessions_round_trip_witness:
  "resolve_access_token sample_auth (tp_access (issue sample_tokens 5000000 root_account)) sample_accounts = Inr root_account"
proof -
  have same: "access_claims sample_tokens 5000000 root_account = access_claims bare_tokens 5000000 root_account"
    "refresh_claims sample_tokens 5000000 root_account = refresh_claims bare_tokens 5000000 root_account"
    by (simp_all add: access_claims_def refresh_claims_def token_claims_def sample_tokens_def bare_tokens_def)
  have a: "json_get (access_claims bare_tokens 5000000 root_account) ''typ'' = Some (JStr ''access'')"
    "json_get (access_claims bare_tokens 5000000 root_account) ''iat'' = Some (JInt 5)"
    "json_get (access_claims bare_tokens 5000000 root_account) ''exp'' = Some (JInt 3605)"
    unfolding access_claims_def
    by (simp_all add: token_claims_get) (simp_all add: json_get_def seconds_of_def bare_tokens_def)
  have r: "json_get (refresh_claims bare_tokens 5000000 root_account) ''typ'' = Some (JStr ''refresh'')"
    "json_get (refresh_claims bare_tokens 5000000 root_account) ''iat'' = Some (JInt 5)"
    "json_get (refresh_claims bare_tokens 5000000 root_account) ''exp'' = Some (JInt 604805)"
    unfolding refresh_claims_def
    by (simp_all add: token_claims_get) (simp_all add: json_get_def seconds_of_def bare_tokens_def)
  have reads: "reads_back sample_tokens (access_claims sample_tokens 5000000 root_account)"
    "reads_back sample_tokens (refresh_claims sample_tokens 5000000 root_account)"
    unfolding reads_back_def same by (simp_all add: a r sample_tokens_def)
  have "user_active root_account" "user_id root_account < 16 ^ 32" "ae_tokens sample_auth = sample_tokens"
    "(5000000::timestamp) \<le> ae_now sample_auth"
    by (simp_all add: root_account_def sample_auth_def)
  from sessions_round_trip [OF sample_accounts_inv sample_users(3) this(1-3) reads this(4)]
  show ?thesis by (simp add: sample_auth_def sample_tokens_def bare_tokens_def seconds_of_def)
qed


end
