(* ===== verification/Node_Agent.thy ===== *)
theory Node_Agent
  imports Nodes Audit_Trail Compute_Interface
begin

text \<open>
  \<open>NodeAgentClient\<close> (\<open>backend/app/services/node_agent_client.py\<close>) and the container runtime
  over it (\<open>services/remote_runtime.py\<close>), the record \<open>container_runtime\<close> of the interface.

  The network and the hosts behind it are a state \<open>'w\<close> and a function that answers a request;
  \<open>wire_sent\<close> lists what the control plane sent, so that a theorem can say what it did not.
  JSON decoding and \<open>str\<close> of a decoded value are parameters.  Timeouts are whole seconds.  A
  target has no CA path and no client certificate: nothing in the repository sets them.
\<close>

section \<open>Requests and failures\<close>

record agent_target =
  at_url :: string
  at_token :: string
  at_verify_tls :: bool

datatype http_method = GET | POST | DELETE

record agent_request =
  rq_method :: http_method
  rq_route :: string
  rq_params :: "(string \<times> string) list"
  rq_json :: "json option"
  rq_timeout :: int

text \<open>What \<open>httpx\<close> does: \<open>ConnectError\<close> with its text and, link by link of the cause chain,
  whether it is an \<open>ssl.SSLError\<close>; a timeout; another \<open>HTTPError\<close> by class; a response.\<close>

datatype http_outcome =
    Connect_Error string "bool list"
  | Timed_Out
  | Http_Error string
  | Response nat string

record 'w wire =
  wire_sent :: "(agent_target \<times> agent_request) list"
  wire_world :: 'w

record 'w agent_net =
  net_answer :: "agent_target \<Rightarrow> agent_request \<Rightarrow> 'w \<Rightarrow> http_outcome \<times> 'w"
  net_json :: "string \<Rightarrow> json option"
  net_str :: "json \<Rightarrow> string"

datatype agent_kind = Agent_Failure | Agent_Unreachable | Agent_Auth | Agent_Refused

text \<open>A raised \<open>NodeAgentError\<close> by subclass, with message and status code, or another exception.\<close>

datatype agent_raise = Agent_Raise agent_kind string "nat option" | Other_Raise string

type_synonym ('w, 'a) agent_call = "'w wire \<Rightarrow> (agent_raise + 'a) \<times> 'w wire"

text \<open>Python's \<open>and then\<close> of two calls, and a computation that may raise on an answer.\<close>

definition and_then :: "('w, 'a) agent_call \<Rightarrow> ('a \<Rightarrow> ('w, 'b) agent_call) \<Rightarrow> ('w, 'b) agent_call" where
  "and_then c f w = (case c w of (Inl e, w1) \<Rightarrow> (Inl e, w1) | (Inr x, w1) \<Rightarrow> f x w1)"

definition then_pure :: "('w, 'a) agent_call \<Rightarrow> ('a \<Rightarrow> agent_raise + 'b) \<Rightarrow> ('w, 'b) agent_call" where
  "then_pure c f w = (case c w of (Inl e, w1) \<Rightarrow> (Inl e, w1) | (Inr x, w1) \<Rightarrow> (f x, w1))"

section \<open>The client\<close>

definition default_timeout :: int where "default_timeout = 15"
definition health_timeout :: int where "health_timeout = 5"
definition control_timeout :: int where "control_timeout = 120"

definition is_tls_failure :: "bool list \<Rightarrow> bool" where
  "is_tls_failure chain = list_ex id (take 5 chain)"

definition detail_of :: "'w agent_net \<Rightarrow> string \<Rightarrow> string" where
  "detail_of net content =
     (case net_json net content of
        None \<Rightarrow> take 300 content
      | Some (JObj body) \<Rightarrow>
          (case (json_get body ''detail'', json_get body ''error'') of
             (Some (JStr detail), _) \<Rightarrow> take 300 detail
           | (_, Some (JObj err)) \<Rightarrow>
               take 300 (case json_get err ''message'' of
                           None \<Rightarrow> [] | Some (JStr m) \<Rightarrow> m | Some v \<Rightarrow> net_str net v)
           | _ \<Rightarrow> take 300 (net_str net (JObj body)))
      | Some (JStr s) \<Rightarrow> take 300 s
      | Some v \<Rightarrow> take 300 (net_str net v))"

definition or_detail :: "string \<Rightarrow> string \<Rightarrow> string" where
  "or_detail detail fallback = (if detail = [] then fallback else detail)"

text \<open>The response, once there is one; \<open>JNull\<close> is \<open>None\<close>.\<close>

definition read_response :: "'w agent_net \<Rightarrow> nat \<Rightarrow> string \<Rightarrow> agent_raise + json" where
  "read_response net status content =
     (if status = 401
      then Inl (Agent_Raise Agent_Auth (''The node agent rejected the platform's token. Re-register the node ''
                  @ ''with the token configured as NODE_AGENT_AUTH_TOKEN on that host.'') (Some 401))
      else if status = 403 then Inl (Agent_Raise Agent_Refused (detail_of net content) (Some 403))
      else if status = 404
      then Inl (Agent_Raise Agent_Failure (or_detail (detail_of net content) ''Not found on node.'') (Some 404))
      else if 400 \<le> status
      then Inl (Agent_Raise Agent_Failure
                  (or_detail (detail_of net content) (''Node agent returned '' @ nat_str status @ ''.''))
                  (Some status))
      else if status = 204 \<or> content = [] then Inr JNull
      else case net_json net content of
             None \<Rightarrow> Inl (Other_Raise ''JSONDecodeError'')
           | Some v \<Rightarrow> Inr v)"

definition send_request :: "'w agent_net \<Rightarrow> agent_target \<Rightarrow> agent_request \<Rightarrow> ('w, json) agent_call" where
  "send_request net t rq w =
     (let (answer, world) = net_answer net t rq (wire_world w);
          w1 = \<lparr>wire_sent = wire_sent w @ [(t, rq)], wire_world = world\<rparr>
      in case answer of
           Connect_Error reason chain \<Rightarrow>
             (Inl (if is_tls_failure chain
                   then Agent_Raise Agent_Auth (''TLS verification failed for '' @ at_url t @ '': '' @ reason
                     @ ''. Check that the agent's certificate chains to the CA configured for this node ''
                     @ ''and that its SAN covers the hostname used here.'') None
                   else Agent_Raise Agent_Unreachable
                     (''Cannot reach node agent at '' @ at_url t @ '': ConnectError'') None), w1)
         | Timed_Out \<Rightarrow>
             (Inl (Agent_Raise Agent_Unreachable (''Node agent at '' @ at_url t
                @ '' did not respond within '' @ int_str (rq_timeout rq) @ ''.0s'') None), w1)
         | Http_Error class_name \<Rightarrow>
             (Inl (Agent_Raise Agent_Failure (''Node agent request failed: '' @ class_name) None), w1)
         | Response status content \<Rightarrow> (read_response net status content, w1))"

definition json_type :: "json \<Rightarrow> string" where
  "json_type v = (case v of JNull \<Rightarrow> ''NoneType'' | JBool _ \<Rightarrow> ''bool'' | JInt _ \<Rightarrow> ''int''
     | JNum _ \<Rightarrow> ''float'' | JStr _ \<Rightarrow> ''str'' | JList _ \<Rightarrow> ''list'' | JObj _ \<Rightarrow> ''dict'')"

definition as_dict :: "string \<Rightarrow> json \<Rightarrow> agent_raise + (string \<times> json) list" where
  "as_dict route v = (case v of JObj kvs \<Rightarrow> Inr kvs | JNull \<Rightarrow> Inr []
     | _ \<Rightarrow> Inl (Agent_Raise Agent_Failure (''Node agent returned '' @ json_type v @ '' for '' @ route
               @ '', expected an object. This usually means the agent and control plane are on ''
               @ ''incompatible versions.'') None))"

definition request_dict ::
    "'w agent_net \<Rightarrow> agent_target \<Rightarrow> agent_request \<Rightarrow> ('w, (string \<times> json) list) agent_call" where
  "request_dict net t rq = then_pure (send_request net t rq) (as_dict (rq_route rq))"

definition read_request :: "string \<Rightarrow> int \<Rightarrow> agent_request" where
  "read_request route seconds =
     \<lparr>rq_method = GET, rq_route = route, rq_params = [], rq_json = None, rq_timeout = seconds\<rparr>"

definition bool_text :: "bool \<Rightarrow> string" where
  "bool_text b = (if b then ''true'' else ''false'')"

definition agent_health :: "'w agent_net \<Rightarrow> agent_target \<Rightarrow> ('w, (string \<times> json) list) agent_call" where
  "agent_health net t = request_dict net t (read_request ''/health'' health_timeout)"

definition agent_system :: "'w agent_net \<Rightarrow> agent_target \<Rightarrow> ('w, (string \<times> json) list) agent_call" where
  "agent_system net t = request_dict net t (read_request ''/system'' default_timeout)"

definition agent_disk :: "'w agent_net \<Rightarrow> agent_target \<Rightarrow> ('w, (string \<times> json) list) agent_call" where
  "agent_disk net t = request_dict net t (read_request ''/disk'' default_timeout)"

definition agent_network :: "'w agent_net \<Rightarrow> agent_target \<Rightarrow> ('w, (string \<times> json) list) agent_call" where
  "agent_network net t = request_dict net t (read_request ''/network'' default_timeout)"

definition agent_gpus :: "'w agent_net \<Rightarrow> agent_target \<Rightarrow> ('w, (string \<times> json) list) agent_call" where
  "agent_gpus net t = request_dict net t (read_request ''/gpus'' 30)"

definition agent_docker :: "'w agent_net \<Rightarrow> agent_target \<Rightarrow> ('w, (string \<times> json) list) agent_call" where
  "agent_docker net t = request_dict net t (read_request ''/docker'' default_timeout)"

definition as_list :: "json \<Rightarrow> agent_raise + json list" where
  "as_list v = (case v of JNull \<Rightarrow> Inr [] | JList items \<Rightarrow> Inr items
     | _ \<Rightarrow> Inl (Agent_Raise Agent_Failure ''Node agent returned a non-list container inventory.'' None))"

definition agent_containers :: "'w agent_net \<Rightarrow> agent_target \<Rightarrow> bool \<Rightarrow> ('w, json list) agent_call" where
  "agent_containers net t managed_only =
     then_pure (send_request net t ((read_request ''/containers'' default_timeout)
       \<lparr>rq_params := [(''managed_only'', bool_text managed_only)]\<rparr>)) as_list"

definition container_route :: "string \<Rightarrow> string \<Rightarrow> string" where
  "container_route cid tail = ''/containers/'' @ cid @ tail"

definition agent_container ::
    "'w agent_net \<Rightarrow> agent_target \<Rightarrow> string \<Rightarrow> ('w, (string \<times> json) list) agent_call" where
  "agent_container net t cid =
     request_dict net t (read_request (container_route cid []) default_timeout)"

definition agent_container_logs ::
    "'w agent_net \<Rightarrow> agent_target \<Rightarrow> string \<Rightarrow> nat \<Rightarrow> ('w, (string \<times> json) list) agent_call" where
  "agent_container_logs net t cid tail =
     request_dict net t ((read_request (container_route cid ''/logs'') 30)
       \<lparr>rq_params := [(''tail'', nat_str tail)]\<rparr>)"

definition agent_container_stats ::
    "'w agent_net \<Rightarrow> agent_target \<Rightarrow> string \<Rightarrow> ('w, (string \<times> json) list) agent_call" where
  "agent_container_stats net t cid =
     request_dict net t (read_request (container_route cid ''/stats'') default_timeout)"

definition agent_create_container ::
    "'w agent_net \<Rightarrow> agent_target \<Rightarrow> json \<Rightarrow> ('w, (string \<times> json) list) agent_call" where
  "agent_create_container net t spec =
     request_dict net t \<lparr>rq_method = POST, rq_route = ''/containers/create'', rq_params = [],
       rq_json = Some spec, rq_timeout = control_timeout\<rparr>"

definition agent_start_container ::
    "'w agent_net \<Rightarrow> agent_target \<Rightarrow> string \<Rightarrow> ('w, (string \<times> json) list) agent_call" where
  "agent_start_container net t cid =
     request_dict net t \<lparr>rq_method = POST, rq_route = container_route cid ''/start'', rq_params = [],
       rq_json = None, rq_timeout = control_timeout\<rparr>"

definition agent_stop_container ::
    "'w agent_net \<Rightarrow> agent_target \<Rightarrow> string \<Rightarrow> int \<Rightarrow> ('w, (string \<times> json) list) agent_call" where
  "agent_stop_container net t cid seconds =
     request_dict net t \<lparr>rq_method = POST, rq_route = container_route cid ''/stop'',
       rq_params = [(''timeout_seconds'', int_str seconds)], rq_json = None,
       rq_timeout = control_timeout + seconds\<rparr>"

definition agent_restart_container ::
    "'w agent_net \<Rightarrow> agent_target \<Rightarrow> string \<Rightarrow> int \<Rightarrow> ('w, (string \<times> json) list) agent_call" where
  "agent_restart_container net t cid seconds =
     request_dict net t \<lparr>rq_method = POST, rq_route = container_route cid ''/restart'',
       rq_params = [(''timeout_seconds'', int_str seconds)], rq_json = None,
       rq_timeout = control_timeout + seconds\<rparr>"

definition agent_remove_container ::
    "'w agent_net \<Rightarrow> agent_target \<Rightarrow> string \<Rightarrow> bool \<Rightarrow> ('w, unit) agent_call" where
  "agent_remove_container net t cid force =
     then_pure (send_request net t \<lparr>rq_method = DELETE, rq_route = container_route cid [],
       rq_params = [(''force'', bool_text force)], rq_json = None, rq_timeout = control_timeout\<rparr>)
       (\<lambda>_. Inr ())"

section \<open>The container runtime over one agent\<close>

definition state_of_text :: "string \<Rightarrow> container_state" where
  "state_of_text s =
     (if s = ''CREATED'' then C_CREATED else if s = ''RUNNING'' then C_RUNNING
      else if s = ''RESTARTING'' then C_RESTARTING else if s = ''PAUSED'' then C_PAUSED
      else if s = ''EXITED'' then C_EXITED else if s = ''DEAD'' then C_DEAD else C_UNKNOWN)"

definition state_text :: "container_state \<Rightarrow> string" where
  "state_text s = (case s of C_CREATED \<Rightarrow> ''CREATED'' | C_RUNNING \<Rightarrow> ''RUNNING''
     | C_RESTARTING \<Rightarrow> ''RESTARTING'' | C_PAUSED \<Rightarrow> ''PAUSED'' | C_EXITED \<Rightarrow> ''EXITED''
     | C_DEAD \<Rightarrow> ''DEAD'' | C_UNKNOWN \<Rightarrow> ''UNKNOWN'')"

text \<open>\<open>payload.get(key, '')\<close> of a text field; a value of another type reads as empty.\<close>

definition text_field :: "(string \<times> json) list \<Rightarrow> string \<Rightarrow> string" where
  "text_field payload key = (case json_get payload key of Some (JStr s) \<Rightarrow> s | _ \<Rightarrow> [])"

definition object_field :: "(string \<times> json) list \<Rightarrow> string \<Rightarrow> (string \<times> json) list" where
  "object_field payload key = (case json_get payload key of Some (JObj kvs) \<Rightarrow> kvs | _ \<Rightarrow> [])"

definition to_container_info :: "(string \<times> json) list \<Rightarrow> agent_raise + container_info" where
  "to_container_info payload =
     (case json_get payload ''id'' of
        None \<Rightarrow> Inl (Other_Raise ''KeyError: id'')
      | Some _ \<Rightarrow>
          Inr \<lparr>ci_id = text_field payload ''id'', ci_name = text_field payload ''name'',
               ci_image = text_field payload ''image'',
               ci_state = state_of_text (text_field payload ''state''),
               ci_status = text_field payload ''status_text''\<rparr>)"

definition spec_payload :: "container_spec \<Rightarrow> json" where
  "spec_payload spec =
     JObj [(''name'', JStr (spec_name spec)), (''image'', JStr (spec_image spec)),
       (''command'', JList (map JStr (spec_command spec))),
       (''environment'', JObj (map (\<lambda>(k, v). (k, JStr v)) (spec_environment spec))),
       (''labels'', JObj (map (\<lambda>(k, v). (k, JStr v)) (spec_labels spec))),
       (''volumes'', JList (map (\<lambda>v. JObj [(''source'', JStr (vol_source v)),
          (''target'', JStr (vol_target v)), (''read_only'', JBool (vol_read_only v))]) (spec_volumes spec))),
       (''ports'', JObj (map (\<lambda>(k, v). (nat_str k, JInt (int v))) (spec_ports spec))),
       (''network'', JStr (spec_network spec)),
       (''gpu_device_indices'', JList (case spec_gpus spec of None \<Rightarrow> [] | Some is \<Rightarrow> map JInt is)),
       (''shm_size_bytes'', (case spec_shm_bytes spec of None \<Rightarrow> JNull | Some n \<Rightarrow> JInt (int n))),
       (''restart_policy'', JStr (spec_restart_policy spec)),
       (''memory_limit_bytes'', JNull), (''cpu_limit'', JNull)]"

definition runtime_create ::
    "'w agent_net \<Rightarrow> agent_target \<Rightarrow> container_spec \<Rightarrow> ('w, container_info) agent_call" where
  "runtime_create net t spec = then_pure (agent_create_container net t (spec_payload spec)) to_container_info"

definition runtime_start ::
    "'w agent_net \<Rightarrow> agent_target \<Rightarrow> string \<Rightarrow> ('w, container_info) agent_call" where
  "runtime_start net t cid = then_pure (agent_start_container net t cid) to_container_info"

definition runtime_stop ::
    "'w agent_net \<Rightarrow> agent_target \<Rightarrow> string \<Rightarrow> int \<Rightarrow> ('w, container_info) agent_call" where
  "runtime_stop net t cid seconds = then_pure (agent_stop_container net t cid seconds) to_container_info"

definition runtime_restart ::
    "'w agent_net \<Rightarrow> agent_target \<Rightarrow> string \<Rightarrow> int \<Rightarrow> ('w, container_info) agent_call" where
  "runtime_restart net t cid seconds = then_pure (agent_restart_container net t cid seconds) to_container_info"

definition runtime_inspect ::
    "'w agent_net \<Rightarrow> agent_target \<Rightarrow> string \<Rightarrow> ('w, container_info) agent_call" where
  "runtime_inspect net t cid = then_pure (agent_container net t cid) to_container_info"

definition labels_match :: "(string \<times> string) list \<Rightarrow> (string \<times> json) list \<Rightarrow> bool" where
  "labels_match wanted payload =
     list_all (\<lambda>(k, v). json_get (object_field payload ''labels'') k = Some (JStr v)) wanted"

fun container_infos ::
    "(string \<times> string) list \<Rightarrow> json list \<Rightarrow> agent_raise + container_info list" where
  "container_infos wanted [] = Inr []"
| "container_infos wanted (item # items) =
     (case item of
        JObj payload \<Rightarrow>
          (case to_container_info payload of
             Inl e \<Rightarrow> Inl e
           | Inr info \<Rightarrow> map_sum id (\<lambda>infos. if labels_match wanted payload then info # infos else infos)
               (container_infos wanted items))
      | _ \<Rightarrow> Inl (Other_Raise ''AttributeError: get''))"

definition runtime_list ::
    "'w agent_net \<Rightarrow> agent_target \<Rightarrow> (string \<times> string) list \<Rightarrow> ('w, container_info list) agent_call" where
  "runtime_list net t wanted = then_pure (agent_containers net t False) (container_infos wanted)"

text \<open>\<open>str.splitlines\<close> over line feed and carriage return, alone or together.\<close>

fun split_lines :: "bool \<Rightarrow> string \<Rightarrow> string \<Rightarrow> string list" where
  "split_lines after_return acc [] = (if acc = [] then [] else [rev acc])"
| "split_lines after_return acc (c # cs) =
     (if c = newline \<and> after_return then split_lines False [] cs
      else if c = newline \<or> c = CHR 0x0D then rev acc # split_lines (c = CHR 0x0D) [] cs
      else split_lines False (c # acc) cs)"

definition runtime_logs ::
    "'w agent_net \<Rightarrow> agent_target \<Rightarrow> string \<Rightarrow> nat \<Rightarrow> ('w, string list) agent_call" where
  "runtime_logs net t cid tail =
     then_pure (agent_container_logs net t cid tail) (\<lambda>payload. Inr (split_lines False [] (text_field payload ''lines'')))"

definition json_true :: "json \<Rightarrow> bool" where
  "json_true v = (case v of JNull \<Rightarrow> False | JBool b \<Rightarrow> b | JInt i \<Rightarrow> i \<noteq> 0 | JNum q \<Rightarrow> q \<noteq> 0
     | JStr s \<Rightarrow> s \<noteq> [] | JList xs \<Rightarrow> xs \<noteq> [] | JObj kvs \<Rightarrow> kvs \<noteq> [])"

definition truthy_field :: "(string \<times> json) list \<Rightarrow> string \<Rightarrow> bool" where
  "truthy_field payload key = (case json_get payload key of None \<Rightarrow> False | Some v \<Rightarrow> json_true v)"

definition runtime_image_exists :: "'w agent_net \<Rightarrow> agent_target \<Rightarrow> ('w, bool) agent_call" where
  "runtime_image_exists net t w =
     (case agent_docker net t w of
        (Inr info, w1) \<Rightarrow> (Inr (truthy_field info ''available''), w1)
      | (Inl (Agent_Raise _ _ _), w1) \<Rightarrow> (Inr False, w1)
      | (Inl (Other_Raise e), w1) \<Rightarrow> (Inl (Other_Raise e), w1))"

text \<open>The same calls behind the interface of \<open>core/interfaces/container.py\<close>.\<close>

definition as_reply :: "('w, 'a) agent_call \<Rightarrow> 'w wire \<Rightarrow> 'a reply \<times> 'w wire" where
  "as_reply c w =
     (case c w of
        (Inr x, w1) \<Rightarrow> (Reply x, w1)
      | (Inl (Agent_Raise _ m _), w1) \<Rightarrow> (AgentError m, w1)
      | (Inl (Other_Raise e), w1) \<Rightarrow> (Crash e, w1))"

definition agent_runtime :: "'w agent_net \<Rightarrow> agent_target \<Rightarrow> 'w wire container_runtime" where
  "agent_runtime net t =
     \<lparr>rt_create = (\<lambda>spec. as_reply (runtime_create net t spec)),
      rt_start = (\<lambda>cid. as_reply (runtime_start net t cid)),
      rt_stop = (\<lambda>cid seconds. as_reply (runtime_stop net t cid seconds)),
      rt_restart = (\<lambda>cid seconds. as_reply (runtime_restart net t cid seconds)),
      rt_remove = (\<lambda>cid force. as_reply (agent_remove_container net t cid force)),
      rt_inspect = (\<lambda>cid. as_reply (runtime_inspect net t cid)),
      rt_list = (\<lambda>wanted. as_reply (runtime_list net t wanted)),
      rt_logs = (\<lambda>cid tail. as_reply (runtime_logs net t cid tail))\<rparr>"

section \<open>Facts about calls\<close>

lemma send_request_sent: "wire_sent (snd (send_request net t rq w)) = wire_sent w @ [(t, rq)]"
  by (simp add: send_request_def Let_def split: prod.splits http_outcome.splits)

lemma send_request_answer:
  "net_answer net t rq (wire_world w) = (Response st content, world) \<Longrightarrow>
     send_request net t rq w = (read_response net st content, \<lparr>wire_sent = wire_sent w @ [(t, rq)], wire_world = world\<rparr>)"
  by (simp add: send_request_def)

lemma then_pure_sent: "wire_sent (snd (then_pure c f w)) = wire_sent (snd (c w))"
  by (simp add: then_pure_def split: prod.splits sum.splits)

lemma then_pure_world: "wire_world (snd (then_pure c f w)) = wire_world (snd (c w))"
  by (simp add: then_pure_def split: prod.splits sum.splits)

lemma request_dict_sent: "wire_sent (snd (request_dict net t rq w)) = wire_sent w @ [(t, rq)]"
  by (simp add: request_dict_def then_pure_sent send_request_sent)

lemma state_text_round: "state_of_text (state_text s) = s"
  by (cases s) (simp_all add: state_text_def state_of_text_def)

end
