(* ===== verification/Fleet.thy ===== *)
theory Fleet
  imports Node_Agent Gpu_Reservation
begin

text \<open>
  The tables \<open>NodeService\<close> owns (\<open>models/infrastructure.py\<close>, \<open>repositories/infrastructure.py\<close>)
  and its synchronisation of one node (\<open>services/infrastructure.py\<close>): health, system, GPUs,
  containers.  Columns that describe a device (driver, bus, clocks, power, error counters) and
  that no operation reads are left out; a payload value of a type the agent's schema excludes
  reads as absent.  A missing required key raises \<open>KeyError\<close>, as in the code.

  The session does not flush by itself, so the unique constraints are checked where the code
  flushes: \<open>flush_gpus\<close> sends changed rows in the order of their keys, then the new rows.
\<close>

section \<open>Tables\<close>

record container_row =
  ct_node :: uuid
  ct_id :: string
  ct_name :: string
  ct_image :: string
  ct_state :: string
  ct_status :: "string option"
  ct_labels :: "(string \<times> json) list"
  ct_ports :: "(string \<times> json) list"
  ct_managed :: bool
  ct_exit :: "int option"
  ct_seen :: "timestamp option"

record gpu_process =
  gp_gpu :: uuid
  gp_pid :: int
  gp_name :: string
  gp_memory :: int
  gp_container :: "string option"

record health_event =
  he_gpu :: uuid
  he_severity :: gpu_health
  he_previous :: gpu_health
  he_message :: string
  he_at :: timestamp

datatype enrollment_status = E_PENDING | E_CONSUMED | E_EXPIRED | E_REVOKED

record enrollment =
  en_id :: uuid
  en_name :: string
  en_description :: "string option"
  en_labels :: "(string \<times> json) list"
  en_verify_tls :: bool
  en_node :: "uuid option"
  en_prefix :: string
  en_hash :: string
  en_status :: enrollment_status
  en_expires :: timestamp
  en_consumed_at :: "timestamp option"
  en_consumed_from :: "string option"
  en_url :: "string option"
  en_resolved :: "string option"
  en_attempts :: nat
  en_last_attempt :: "timestamp option"
  en_last_error :: "string option"
  en_created_by :: "uuid option"
  en_revoked_at :: "timestamp option"
  en_revoked_by :: "uuid option"
  en_created :: timestamp
  en_updated :: timestamp

record fleet =
  fl_nodes :: "node list"
  fl_gpu :: gpu_db
  fl_processes :: "gpu_process list"
  fl_events :: "health_event list"
  fl_containers :: "container_row list"
  fl_enrollments :: "enrollment list"
  fl_trail :: "audit_entry list"
  fl_next :: nat

definition put_node :: "node \<Rightarrow> fleet \<Rightarrow> fleet" where
  "put_node n db = db\<lparr>fl_nodes := update_rows (\<lambda>r. node_id r = node_id n) (\<lambda>_. n) (fl_nodes db)\<rparr>"

definition fleet_record ::
    "audit_action \<Rightarrow> uuid option \<Rightarrow> string \<Rightarrow> string \<Rightarrow> string \<Rightarrow> json \<Rightarrow> fleet \<Rightarrow> fleet" where
  "fleet_record action user username rtype rid metadata db =
     db\<lparr>fl_trail := record_entry action user username rtype rid None metadata (fl_trail db)\<rparr>"

definition find_anywhere :: "string \<Rightarrow> fleet \<Rightarrow> container_row option" where
  "find_anywhere cid db = find_row (\<lambda>c. ct_id c = cid) (fl_containers db)"

definition by_container_id :: "uuid \<Rightarrow> string \<Rightarrow> fleet \<Rightarrow> container_row option" where
  "by_container_id node cid db = find_row (\<lambda>c. ct_node c = node \<and> ct_id c = cid) (fl_containers db)"

definition containers_for_node :: "uuid \<Rightarrow> bool \<Rightarrow> fleet \<Rightarrow> container_row list" where
  "containers_for_node node managed_only db =
     sort_key ct_name (filter (\<lambda>c. ct_node c = node \<and> (managed_only \<longrightarrow> ct_managed c)) (fl_containers db))"

definition all_containers :: "bool \<Rightarrow> fleet \<Rightarrow> container_row list" where
  "all_containers managed_only db =
     sort_key ct_node (sort_key ct_name (filter (\<lambda>c. managed_only \<longrightarrow> ct_managed c) (fl_containers db)))"

definition delete_missing :: "uuid \<Rightarrow> string list \<Rightarrow> fleet \<Rightarrow> fleet \<times> nat" where
  "delete_missing node seen db =
     (if seen = [] then (db, 0)
      else (db\<lparr>fl_containers := filter (\<lambda>c. \<not> (ct_node c = node \<and> ct_id c \<notin> set seen)) (fl_containers db)\<rparr>,
            length (filter (\<lambda>c. ct_node c = node \<and> ct_id c \<notin> set seen) (fl_containers db))))"

definition replace_for_gpu :: "uuid \<Rightarrow> gpu_process list \<Rightarrow> gpu_process list \<Rightarrow> gpu_process list" where
  "replace_for_gpu g new rows = filter (\<lambda>p. gp_gpu p \<noteq> g) rows @ new"

definition processes_for_gpu :: "uuid \<Rightarrow> fleet \<Rightarrow> gpu_process list" where
  "processes_for_gpu g db = filter (\<lambda>p. gp_gpu p = g) (fl_processes db)"

definition recent_events :: "nat \<Rightarrow> fleet \<Rightarrow> health_event list" where
  "recent_events limit db = take limit (sort_key (\<lambda>e. - he_at e) (fl_events db))"

section \<open>Clients\<close>

text \<open>The Fernet cipher: \<open>None\<close> is the \<open>ValueError\<close> of a secret under another key.\<close>

record fleet_env =
  fe_now :: timestamp
  fe_encrypt :: "string \<Rightarrow> string"
  fe_decrypt :: "string \<Rightarrow> string option"
  fe_time_text :: "timestamp \<Rightarrow> string"

definition build_client :: "string \<Rightarrow> string \<Rightarrow> bool \<Rightarrow> agent_target" where
  "build_client base_url tok verify = \<lparr>at_url = base_url, at_token = tok, at_verify_tls = verify\<rparr>"

definition client_for :: "fleet_env \<Rightarrow> node \<Rightarrow> string option \<Rightarrow> agent_target result" where
  "client_for env n given_token =
     (case (case given_token of Some t \<Rightarrow> Some t | None \<Rightarrow> fe_decrypt env (agent_token_encrypted n)) of
        None \<Rightarrow> Inl (DependencyUnavailableError (''Cannot decrypt the agent token for node ''
                  @ quoted (node_name n) @ ''. SECURITY__ENCRYPTION_KEY appears to have changed; re-register ''
                  @ ''the node to store its token under the current key.''))
      | Some t \<Rightarrow> Inr (build_client (agent_url n) t (agent_verify_tls n)))"

section \<open>Payload fields\<close>

definition text_opt :: "(string \<times> json) list \<Rightarrow> string \<Rightarrow> string option" where
  "text_opt kvs key = (case json_get kvs key of Some (JStr s) \<Rightarrow> Some s | _ \<Rightarrow> None)"

definition int_opt :: "(string \<times> json) list \<Rightarrow> string \<Rightarrow> int option" where
  "int_opt kvs key = (case json_get kvs key of Some (JInt i) \<Rightarrow> Some i | _ \<Rightarrow> None)"

definition number_opt :: "(string \<times> json) list \<Rightarrow> string \<Rightarrow> rat option" where
  "number_opt kvs key =
     (case json_get kvs key of Some (JInt i) \<Rightarrow> Some (of_int i) | Some (JNum q) \<Rightarrow> Some q | _ \<Rightarrow> None)"

definition list_field :: "(string \<times> json) list \<Rightarrow> string \<Rightarrow> json list" where
  "list_field kvs key = (case json_get kvs key of Some (JList xs) \<Rightarrow> xs | _ \<Rightarrow> [])"

definition or_text :: "string option \<Rightarrow> string option \<Rightarrow> string option" where
  "or_text a b = (if truthy a then a else b)"

section \<open>One node's synchronisation\<close>

record sync_result =
  sr_node :: string
  sr_status :: node_status
  sr_gpus_seen :: nat
  sr_gpus_added :: nat
  sr_metrics :: nat
  sr_containers_seen :: nat
  sr_containers_removed :: nat
  sr_health_events :: nat
  sr_error :: "string option"

text \<open>A section works on the tables and the node's row, whose key is \<open>nid\<close>; it may stop with an
  exception, keeping what it had written to the session.\<close>

type_synonym work = "fleet \<times> sync_result"
type_synonym 'w section_run = "'w wire \<Rightarrow> (agent_raise option \<times> work) \<times> 'w wire"

definition with_node :: "uuid \<Rightarrow> (node \<Rightarrow> node) \<Rightarrow> fleet \<Rightarrow> fleet" where
  "with_node nid f db = db\<lparr>fl_nodes := update_rows (\<lambda>r. node_id r = nid) f (fl_nodes db)\<rparr>"

definition system_fields :: "(string \<times> json) list \<Rightarrow> node \<Rightarrow> node" where
  "system_fields system n =
     (let cpu = object_field system ''cpu''; memory = object_field system ''memory'';
          os = strip (text_field system ''os'' @ '' '' @ text_field system ''os_version'');
          mib = given (int_opt memory ''total_bytes'') 0 div (1024 * 1024)
      in n\<lparr>hostname := text_opt system ''hostname'', os_info := (if os = [] then None else Some os),
           kernel_version := text_opt system ''kernel_version'',
           architecture := text_opt system ''architecture'', cpu_model := text_opt cpu ''model'',
           cpu_cores := int_opt cpu ''logical_cores'',
           memory_total_mib := (if mib = 0 then None else Some mib)\<rparr>)"

definition sync_system ::
    "'w agent_net \<Rightarrow> agent_target \<Rightarrow> uuid \<Rightarrow> work \<Rightarrow> 'w section_run" where
  "sync_system net t nid s w =
     (case agent_system net t w of
        (Inl e, w1) \<Rightarrow> ((Some e, s), w1)
      | (Inr system, w1) \<Rightarrow>
          (let db1 = with_node nid (system_fields system) (fst s)
           in case agent_docker net t w1 of
                (Inl e, w2) \<Rightarrow> ((Some e, (db1, snd s)), w2)
              | (Inr docker, w2) \<Rightarrow>
                  ((None, (with_node nid (\<lambda>n. n\<lparr>docker_version := text_opt docker ''server_version'',
                       nvidia_runtime_available := truthy_field docker ''nvidia_runtime_available''\<rparr>) db1,
                     snd s)), w2)))"

section \<open>GPUs\<close>

record device =
  dv_uuid :: string
  dv_index :: int
  dv_name :: string
  dv_memory :: int

definition missing_key :: "string \<Rightarrow> agent_raise" where
  "missing_key key = Other_Raise (''KeyError: '' @ key)"

definition read_device :: "json \<Rightarrow> agent_raise + device" where
  "read_device v =
     (case v of
        JObj kvs \<Rightarrow>
          (case (text_opt kvs ''uuid'', int_opt kvs ''index'', text_opt kvs ''name'',
                 int_opt kvs ''memory_total_mib'') of
             (Some u, Some i, Some nm, Some m) \<Rightarrow>
               Inr \<lparr>dv_uuid = u, dv_index = i, dv_name = nm, dv_memory = m\<rparr>
           | _ \<Rightarrow> Inl (missing_key ''device''))
      | _ \<Rightarrow> Inl (Other_Raise ''TypeError: device''))"

definition get_by_uuid :: "string \<Rightarrow> gpu list \<Rightarrow> gpu option" where
  "get_by_uuid u rows = find_row (\<lambda>g. gpu_uuid g = u) rows"

text \<open>A known card is updated wherever it was, and moves to this node; an unknown one is added.\<close>

definition upsert_device :: "uuid \<Rightarrow> device \<Rightarrow> work \<Rightarrow> work" where
  "upsert_device nid d s =
     (case s of (db, res) \<Rightarrow>
       (case get_by_uuid (dv_uuid d) (gpus (fl_gpu db)) of
          Some _ \<Rightarrow>
            (db\<lparr>fl_gpu := (fl_gpu db)\<lparr>gpus := update_rows (\<lambda>g. gpu_uuid g = dv_uuid d)
                (\<lambda>g. g\<lparr>gpu_node := nid, gpu_index := dv_index d, gpu_name := dv_name d,
                        gpu_memory_total := dv_memory d\<rparr>) (gpus (fl_gpu db))\<rparr>\<rparr>, res)
        | None \<Rightarrow>
            (db\<lparr>fl_gpu := (fl_gpu db)\<lparr>gpus := gpus (fl_gpu db) @
                [\<lparr>gpu_id = fl_next db, gpu_node = nid, gpu_index = dv_index d, gpu_uuid = dv_uuid d,
                  gpu_name = dv_name d, gpu_memory_total = dv_memory d, gpu_status = UNKNOWN_HEALTH\<rparr>]\<rparr>,
               fl_next := fl_next db + 1\<rparr>,
             res\<lparr>sr_gpus_added := sr_gpus_added res + 1\<rparr>)))"

fun upsert_devices :: "uuid \<Rightarrow> json list \<Rightarrow> work \<Rightarrow> agent_raise + work" where
  "upsert_devices nid [] s = Inr s"
| "upsert_devices nid (v # vs) s =
     (case read_device v of Inl e \<Rightarrow> Inl e | Inr d \<Rightarrow> upsert_devices nid vs (upsert_device nid d s))"

text \<open>The unique constraints on the hardware identity and on node and index, statement by
  statement; \<open>flush_gpus\<close> is the table the database then has.\<close>

definition gpu_slot :: "gpu \<Rightarrow> uuid \<times> int" where
  "gpu_slot g = (gpu_node g, gpu_index g)"

definition row_fits :: "gpu \<Rightarrow> gpu list \<Rightarrow> bool" where
  "row_fits g rows =
     list_all (\<lambda>r. gpu_id r = gpu_id g \<or> (gpu_slot r \<noteq> gpu_slot g \<and> gpu_uuid r \<noteq> gpu_uuid g)) rows"

fun flush_rows :: "gpu list \<Rightarrow> gpu list \<Rightarrow> gpu list option" where
  "flush_rows rows [] = Some rows"
| "flush_rows rows (g # gs) =
     (if row_fits g rows
      then flush_rows (if \<exists>r \<in> set rows. gpu_id r = gpu_id g
                       then update_rows (\<lambda>r. gpu_id r = gpu_id g) (\<lambda>_. g) rows else rows @ [g]) gs
      else None)"

definition flush_gpus :: "gpu list \<Rightarrow> gpu list \<Rightarrow> gpu list option" where
  "flush_gpus before rows =
     (let old = map gpu_id before;
          changed = sort_key gpu_id (filter (\<lambda>g. gpu_id g \<in> set old \<and> g \<notin> set before) rows);
          added = filter (\<lambda>g. gpu_id g \<notin> set old) rows
      in flush_rows before (changed @ added))"

definition health_of_text :: "string \<Rightarrow> gpu_health option" where
  "health_of_text s = (if s = ''HEALTHY'' then Some HEALTHY else if s = ''WARNING'' then Some WARNING
     else if s = ''CRITICAL'' then Some CRITICAL else if s = ''UNKNOWN'' then Some UNKNOWN_HEALTH else None)"

definition health_text :: "gpu_health \<Rightarrow> string" where
  "health_text h = (case h of HEALTHY \<Rightarrow> ''HEALTHY'' | WARNING \<Rightarrow> ''WARNING''
     | CRITICAL \<Rightarrow> ''CRITICAL'' | UNKNOWN_HEALTH \<Rightarrow> ''UNKNOWN'')"

definition put_gpu :: "gpu \<Rightarrow> fleet \<Rightarrow> fleet" where
  "put_gpu g db = db\<lparr>fl_gpu := (fl_gpu db)\<lparr>gpus :=
     update_rows (\<lambda>r. gpu_id r = gpu_id g) (\<lambda>_. g) (gpus (fl_gpu db))\<rparr>\<rparr>"

definition health_change :: "timestamp \<Rightarrow> string \<Rightarrow> gpu \<Rightarrow> gpu_health \<Rightarrow> health_event" where
  "health_change now nm g new_health =
     \<lparr>he_gpu = gpu_id g, he_severity = new_health, he_previous = gpu_status g,
      he_message = ''GPU '' @ int_str (gpu_index g) @ '' ('' @ gpu_name g @ '') on '' @ nm
        @ '' moved from '' @ health_text (gpu_status g) @ '' to '' @ health_text new_health,
      he_at = now\<rparr>"

text \<open>One sample; a severity outside the table's check constraint is refused by the database.\<close>

definition record_sample ::
    "timestamp \<Rightarrow> uuid \<Rightarrow> string \<Rightarrow> json \<Rightarrow> work \<Rightarrow> agent_raise + work" where
  "record_sample now nid nm v s =
     (case v of
        JObj kvs \<Rightarrow>
          (case text_opt kvs ''gpu_uuid'' of
             None \<Rightarrow> Inl (missing_key ''gpu_uuid'')
           | Some u \<Rightarrow>
               (case find_row (\<lambda>g. gpu_node g = nid \<and> gpu_uuid g = u) (gpus (fl_gpu (fst s))) of
                  None \<Rightarrow> Inr s
                | Some g \<Rightarrow>
                    (case (number_opt kvs ''utilization_percent'', int_opt kvs ''memory_used_mib'',
                           int_opt kvs ''memory_total_mib'', number_opt kvs ''temperature_celsius'',
                           number_opt kvs ''power_draw_watts'') of
                       (Some util, Some used, Some _, Some _, Some _) \<Rightarrow>
                         (case health_of_text (given (text_opt kvs ''health'') ''UNKNOWN'') of
                            None \<Rightarrow> Inl (Other_Raise ''IntegrityError: severity_valid'')
                          | Some new_health \<Rightarrow>
                              (let db = fst s; res = snd s;
                                   db1 = db\<lparr>fl_gpu := (fl_gpu db)\<lparr>metrics := metrics (fl_gpu db) @
                                     [\<lparr>metric_gpu = gpu_id g, metric_at = now, metric_utilization = util,
                                       metric_memory_used = used\<rparr>]\<rparr>\<rparr>;
                                   res1 = res\<lparr>sr_metrics := sr_metrics res + 1\<rparr>
                               in if new_health = gpu_status g then Inr (db1, res1)
                                  else Inr ((put_gpu (g\<lparr>gpu_status := new_health\<rparr>) db1)
                                         \<lparr>fl_events := fl_events db1 @ [health_change now nm g new_health]\<rparr>,
                                       res1\<lparr>sr_health_events := sr_health_events res1 + 1\<rparr>)))
                     | _ \<Rightarrow> Inl (missing_key ''sample''))))
      | _ \<Rightarrow> Inl (Other_Raise ''TypeError: sample''))"

fun record_samples :: "timestamp \<Rightarrow> uuid \<Rightarrow> string \<Rightarrow> json list \<Rightarrow> work \<Rightarrow> agent_raise + work" where
  "record_samples now nid nm [] s = Inr s"
| "record_samples now nid nm (v # vs) s =
     (case record_sample now nid nm v s of Inl e \<Rightarrow> Inl e | Inr s1 \<Rightarrow> record_samples now nid nm vs s1)"

text \<open>A process of a card this node has; others are skipped.\<close>

definition read_process :: "gpu list \<Rightarrow> json \<Rightarrow> agent_raise + gpu_process option" where
  "read_process mine v =
     (case v of
        JObj kvs \<Rightarrow>
          (case text_opt kvs ''gpu_uuid'' of
             None \<Rightarrow> Inl (missing_key ''gpu_uuid'')
           | Some u \<Rightarrow>
               (case find_row (\<lambda>g. gpu_uuid g = u) mine of
                  None \<Rightarrow> Inr None
                | Some g \<Rightarrow>
                    (case int_opt kvs ''pid'' of
                       None \<Rightarrow> Inl (missing_key ''pid'')
                     | Some p \<Rightarrow> Inr (Some \<lparr>gp_gpu = gpu_id g, gp_pid = p,
                         gp_name = text_field kvs ''process_name'',
                         gp_memory = given (int_opt kvs ''used_memory_mib'') 0,
                         gp_container = text_opt kvs ''container_id''\<rparr>))))
      | _ \<Rightarrow> Inl (Other_Raise ''TypeError: process''))"

fun read_processes :: "gpu list \<Rightarrow> json list \<Rightarrow> agent_raise + gpu_process list" where
  "read_processes mine [] = Inr []"
| "read_processes mine (v # vs) =
     (case read_process mine v of
        Inl e \<Rightarrow> Inl e
      | Inr p \<Rightarrow> map_sum id (\<lambda>ps. case p of None \<Rightarrow> ps | Some q \<Rightarrow> q # ps) (read_processes mine vs))"

definition replace_processes :: "gpu list \<Rightarrow> gpu_process list \<Rightarrow> gpu_process list \<Rightarrow> gpu_process list" where
  "replace_processes mine new rows =
     fold (\<lambda>g. replace_for_gpu (gpu_id g) (filter (\<lambda>p. gp_gpu p = gpu_id g) new)) mine rows"

text \<open>\<open>before\<close> is the table as the database has it: the transaction's own writes of earlier
  nodes are flushed with this one's.\<close>

definition store_gpus ::
    "timestamp \<Rightarrow> uuid \<Rightarrow> string \<Rightarrow> (string \<times> json) list \<Rightarrow> work \<Rightarrow> agent_raise + work" where
  "store_gpus now nid nm payload s =
     (let devices = list_field payload ''devices'';
          s1 = (fst s, (snd s)\<lparr>sr_gpus_seen := length devices\<rparr>)
      in case upsert_devices nid devices s1 of
           Inl e \<Rightarrow> Inl e
         | Inr s2 \<Rightarrow>
             (case flush_gpus (gpus (fl_gpu (fst s))) (gpus (fl_gpu (fst s2))) of
                None \<Rightarrow> Inl (Other_Raise ''IntegrityError: gpus'')
              | Some rows \<Rightarrow>
                  (case record_samples now nid nm (list_field payload ''metrics'')
                          ((fst s2)\<lparr>fl_gpu := (fl_gpu (fst s2))\<lparr>gpus := rows\<rparr>\<rparr>, snd s2) of
                     Inl e \<Rightarrow> Inl e
                   | Inr (db3, res3) \<Rightarrow>
                       (let mine = gpus_for_node (fl_gpu db3) nid
                        in case read_processes mine (list_field payload ''processes'') of
                             Inl e \<Rightarrow> Inl e
                           | Inr ps \<Rightarrow>
                               Inr (db3\<lparr>fl_processes := replace_processes mine ps (fl_processes db3)\<rparr>, res3)))))"

definition gpu_node_fields :: "(string \<times> json) list \<Rightarrow> node \<Rightarrow> node" where
  "gpu_node_fields payload n =
     n\<lparr>node_role := GPU_NODE, nvidia_driver_version := text_opt payload ''driver_version'',
       cuda_version := text_opt payload ''cuda_version'', gpu_synthetic := truthy_field payload ''synthetic''\<rparr>"

definition sync_gpus ::
    "timestamp \<Rightarrow> 'w agent_net \<Rightarrow> agent_target \<Rightarrow> uuid \<Rightarrow> string \<Rightarrow> work \<Rightarrow> 'w section_run" where
  "sync_gpus now net t nid nm s w =
     (case agent_gpus net t w of
        (Inl e, w1) \<Rightarrow> ((Some e, s), w1)
      | (Inr payload, w1) \<Rightarrow>
          if \<not> truthy_field payload ''available''
          then ((None, (with_node nid (\<lambda>n. n\<lparr>node_role := CPU_NODE\<rparr>) (fst s), snd s)), w1)
          else (case store_gpus now nid nm payload (with_node nid (gpu_node_fields payload) (fst s), snd s) of
                  Inl e \<Rightarrow> ((Some e, s), w1)
                | Inr s1 \<Rightarrow> ((None, s1), w1)))"

section \<open>Containers\<close>

definition container_fields ::
    "timestamp \<Rightarrow> (string \<times> json) list \<Rightarrow> container_row \<Rightarrow> container_row" where
  "container_fields now payload c =
     c\<lparr>ct_name := text_field payload ''name'', ct_image := text_field payload ''image'',
       ct_state := (case json_get payload ''state'' of None \<Rightarrow> ''UNKNOWN'' | Some _ \<Rightarrow> text_field payload ''state''),
       ct_status := text_opt payload ''status_text'', ct_labels := object_field payload ''labels'',
       ct_ports := object_field payload ''ports'', ct_managed := truthy_field payload ''managed'',
       ct_exit := int_opt payload ''exit_code'', ct_seen := Some now\<rparr>"

definition new_container :: "uuid \<Rightarrow> string \<Rightarrow> container_row" where
  "new_container nid cid =
     \<lparr>ct_node = nid, ct_id = cid, ct_name = [], ct_image = [], ct_state = ''UNKNOWN'', ct_status = None,
      ct_labels = [], ct_ports = [], ct_managed = False, ct_exit = None, ct_seen = None\<rparr>"

text \<open>A container the table has is updated, another added; the same new one twice breaks the
  constraint on node and container.\<close>

fun store_containers ::
    "timestamp \<Rightarrow> uuid \<Rightarrow> string set \<Rightarrow> json list \<Rightarrow> container_row list
       \<Rightarrow> agent_raise + (container_row list \<times> string list)" where
  "store_containers now nid known [] rows = Inr (rows, [])"
| "store_containers now nid known (v # vs) rows =
     (case v of
        JObj payload \<Rightarrow>
          (case text_opt payload ''id'' of
             None \<Rightarrow> Inl (missing_key ''id'')
           | Some cid \<Rightarrow>
               if cid \<notin> known \<and> (\<exists>c \<in> set rows. ct_node c = nid \<and> ct_id c = cid)
               then Inl (Other_Raise ''IntegrityError: node_container'')
               else map_sum id (\<lambda>(rows1, seen). (rows1, cid # seen))
                 (store_containers now nid known vs
                   (if cid \<in> known
                    then update_rows (\<lambda>c. ct_node c = nid \<and> ct_id c = cid) (container_fields now payload) rows
                    else rows @ [container_fields now payload (new_container nid cid)])))
      | _ \<Rightarrow> Inl (Other_Raise ''TypeError: container''))"

definition sync_containers ::
    "timestamp \<Rightarrow> 'w agent_net \<Rightarrow> agent_target \<Rightarrow> uuid \<Rightarrow> work \<Rightarrow> 'w section_run" where
  "sync_containers now net t nid s w =
     (case agent_containers net t False w of
        (Inl e, w1) \<Rightarrow> ((Some e, s), w1)
      | (Inr payloads, w1) \<Rightarrow>
          (let res = (snd s)\<lparr>sr_containers_seen := length payloads\<rparr>;
               known = set (map ct_id (containers_for_node nid False (fst s)))
           in case store_containers now nid known payloads (fl_containers (fst s)) of
                Inl e \<Rightarrow> ((Some e, (fst s, res)), w1)
              | Inr (rows, seen) \<Rightarrow>
                  (let (db1, gone) = delete_missing nid seen ((fst s)\<lparr>fl_containers := rows\<rparr>)
                   in ((None, (db1, res\<lparr>sr_containers_removed := gone\<rparr>)), w1))))"

section \<open>sync_node\<close>

definition fresh_result :: "string \<Rightarrow> sync_result" where
  "fresh_result nm =
     \<lparr>sr_node = nm, sr_status = UNKNOWN_NODE, sr_gpus_seen = 0, sr_gpus_added = 0, sr_metrics = 0,
      sr_containers_seen = 0, sr_containers_removed = 0, sr_health_events = 0, sr_error = None\<rparr>"

text \<open>A section that raised \<open>NodeAgentError\<close> marks the node degraded and the next one runs;
  another exception leaves \<open>sync_node\<close>.\<close>

fun run_sections ::
    "uuid \<Rightarrow> (work \<Rightarrow> 'w section_run) list \<Rightarrow> work \<Rightarrow> 'w wire \<Rightarrow> work outcome \<times> 'w wire" where
  "run_sections nid [] s w = (Done s, w)"
| "run_sections nid (sec # secs) s w =
     (case sec s w of
        ((None, s1), w1) \<Rightarrow> run_sections nid secs s1 w1
      | ((Some (Agent_Raise _ m _), (db1, res1)), w1) \<Rightarrow>
          run_sections nid secs
            (with_node nid (\<lambda>n. n\<lparr>node_status := DEGRADED\<rparr>) db1,
             res1\<lparr>sr_status := DEGRADED, sr_error := Some (take 300 m)\<rparr>) w1
      | ((Some (Other_Raise e), _), w1) \<Rightarrow> (Raised e, w1))"

definition unhealthy :: "node_status \<Rightarrow> string \<Rightarrow> uuid \<Rightarrow> work \<Rightarrow> work" where
  "unhealthy st m nid s =
     (with_node nid (\<lambda>n. n\<lparr>node_status := st, status_detail := Some (take 500 m)\<rparr>) (fst s),
      (snd s)\<lparr>sr_status := st, sr_error := Some m\<rparr>)"

definition health_fields :: "timestamp \<Rightarrow> (string \<times> json) list \<Rightarrow> node \<Rightarrow> node" where
  "health_fields now health n =
     n\<lparr>last_seen_at := Some now,
       agent_version := or_text (text_opt health ''agent_version'') (agent_version n),
       gpu_probe := or_text (text_opt health ''gpu_probe'') (gpu_probe n),
       node_status := (if text_opt health ''status'' = Some ''degraded'' then DEGRADED else ONLINE),
       status_detail := text_opt health ''detail''\<rparr>"

definition sync_node ::
    "fleet_env \<Rightarrow> 'w agent_net \<Rightarrow> node \<Rightarrow> string option \<Rightarrow> fleet \<Rightarrow> 'w wire
       \<Rightarrow> work outcome \<times> 'w wire" where
  "sync_node env net n tok db w =
     (let s = (db, fresh_result (node_name n)); nid = node_id n
      in case client_for env n tok of
           Inl (DependencyUnavailableError m) \<Rightarrow>
             (Done (with_node nid (\<lambda>r. r\<lparr>node_status := UNKNOWN_NODE, status_detail := Some m\<rparr>) db,
               (snd s)\<lparr>sr_error := Some m\<rparr>), w)
         | Inl _ \<Rightarrow> (Raised ''error'', w)
         | Inr t \<Rightarrow>
             (case agent_health net t w of
                (Inl (Agent_Raise Agent_Unreachable m _), w1) \<Rightarrow> (Done (unhealthy OFFLINE m nid s), w1)
              | (Inl (Agent_Raise _ m _), w1) \<Rightarrow> (Done (unhealthy DEGRADED m nid s), w1)
              | (Inl (Other_Raise e), w1) \<Rightarrow> (Raised e, w1)
              | (Inr health, w1) \<Rightarrow>
                  run_sections nid
                    [sync_system net t nid, sync_gpus (fe_now env) net t nid (node_name n),
                     sync_containers (fe_now env) net t nid]
                    (with_node nid (health_fields (fe_now env) health) db,
                     (snd s)\<lparr>sr_status := (if text_opt health ''status'' = Some ''degraded'' then DEGRADED
                                           else ONLINE)\<rparr>) w1))"

end
