(* ===== verification/Node_Service.thy ===== *)
theory Node_Service
  imports Fleet
begin

text \<open>
  \<open>NodeService\<close> beyond the synchronisation (\<open>services/infrastructure.py\<close>): probing, accepting,
  registering and removing a node; and the jobs of \<open>workers/scheduler.py\<close>.  A request yields the
  error or the value with the tables to commit, or leaves with an exception (\<open>Raised\<close>), and then
  nothing is committed.  What was sent over the network stays sent in every case.
\<close>

section \<open>Registration\<close>

definition probe_agent ::
    "'w agent_net \<Rightarrow> string \<Rightarrow> string \<Rightarrow> bool \<Rightarrow> 'w wire
       \<Rightarrow> (string \<times> json) list result outcome \<times> 'w wire" where
  "probe_agent net url tok verify w =
     (case agent_health net (build_client url tok verify) w of
        (Inr health, w1) \<Rightarrow> (Done (Inr health), w1)
      | (Inl (Agent_Raise _ m _), w1) \<Rightarrow>
          (Done (Inl (ValidationError (''Could not reach a node agent at '' @ url @ '': '' @ m))), w1)
      | (Inl (Other_Raise e), w1) \<Rightarrow> (Raised e, w1))"

record acceptance =
  ac_name :: string
  ac_url :: string
  ac_token :: string
  ac_health :: "(string \<times> json) list"
  ac_description :: "string option"
  ac_verify_tls :: bool
  ac_labels :: "(string \<times> json) list"
  ac_existing :: "node option"
  ac_actor :: "actor option"
  ac_action :: audit_action
  ac_metadata :: "(string \<times> json) list"

definition health_role :: "(string \<times> json) list \<Rightarrow> node_role" where
  "health_role health = (if 0 < given (int_opt health ''gpu_count'') 0 then GPU_NODE else CPU_NODE)"

definition rotated_node :: "fleet_env \<Rightarrow> acceptance \<Rightarrow> node \<Rightarrow> node" where
  "rotated_node env a n =
     n\<lparr>agent_url := ac_url a, agent_token_encrypted := fe_encrypt env (ac_token a),
       agent_verify_tls := ac_verify_tls a, agent_version := text_opt (ac_health a) ''agent_version'',
       node_status := ONLINE, status_detail := None, node_role := health_role (ac_health a),
       gpu_probe := text_opt (ac_health a) ''gpu_probe'', last_seen_at := Some (fe_now env),
       node_description := (case ac_description a of None \<Rightarrow> node_description n | Some d \<Rightarrow> Some d),
       node_labels := (if ac_labels a = [] then node_labels n else ac_labels a)\<rparr>"

definition fresh_node :: "fleet_env \<Rightarrow> acceptance \<Rightarrow> uuid \<Rightarrow> node" where
  "fresh_node env a i =
     \<lparr>node_id = i, node_name = ac_name a, node_description = ac_description a, hostname = None,
      ip_address = None, agent_url = ac_url a, agent_token_encrypted = fe_encrypt env (ac_token a),
      agent_version = text_opt (ac_health a) ''agent_version'', agent_verify_tls = ac_verify_tls a,
      node_role = health_role (ac_health a), node_status = ONLINE, status_detail = None, os_info = None,
      kernel_version = None, architecture = None, cpu_model = None, cpu_cores = None,
      memory_total_mib = None, docker_version = None, nvidia_runtime_available = False,
      nvidia_driver_version = None, cuda_version = None,
      gpu_probe = text_opt (ac_health a) ''gpu_probe'', gpu_synthetic = False,
      last_seen_at = Some (fe_now env), node_labels = ac_labels a\<rparr>"

text \<open>The row, written and flushed; \<open>None\<close> is the unique constraint on the name.\<close>

definition accepted_row :: "fleet_env \<Rightarrow> acceptance \<Rightarrow> fleet \<Rightarrow> (node \<times> fleet) option" where
  "accepted_row env a db =
     (case ac_existing a of
        Some n \<Rightarrow> Some (rotated_node env a n, put_node (rotated_node env a n) db)
      | None \<Rightarrow>
          if get_by_name (ac_name a) (fl_nodes db) \<noteq> None then None
          else (let n = fresh_node env a (fl_next db)
                in Some (n, db\<lparr>fl_nodes := fl_nodes db @ [n], fl_next := fl_next db + 1\<rparr>)))"

definition opt_text_json :: "string option \<Rightarrow> json" where
  "opt_text_json a = (case a of None \<Rightarrow> JNull | Some s \<Rightarrow> JStr s)"

definition accept_node ::
    "fleet_env \<Rightarrow> 'w agent_net \<Rightarrow> acceptance \<Rightarrow> fleet \<Rightarrow> 'w wire
       \<Rightarrow> ((node \<times> sync_result) \<times> fleet) outcome \<times> 'w wire" where
  "accept_node env net a db w =
     (case accepted_row env a db of
        None \<Rightarrow> (Raised ''IntegrityError: nodes.name'', w)
      | Some (n, db1) \<Rightarrow>
          (case sync_node env net n (Some (ac_token a)) db1 w of
             (Raised e, w1) \<Rightarrow> (Raised e, w1)
           | (Diverges, w1) \<Rightarrow> (Diverges, w1)
           | (Done (db2, res), w1) \<Rightarrow>
               (let row = given (get_node (node_id n) (fl_nodes db2)) n;
                    db3 = fleet_record (ac_action a) (map_option actor_id (ac_actor a))
                      (case ac_actor a of None \<Rightarrow> ''system'' | Some u \<Rightarrow> actor_name u)
                      ''node'' (uuid_str (node_id n))
                      (JObj (dict_merge
                        [(''name'', JStr (node_name row)), (''agent_url'', JStr (ac_url a)),
                         (''gpus'', JInt (int (sr_gpus_seen res))),
                         (''gpu_probe'', opt_text_json (gpu_probe row)),
                         (''synthetic'', JBool (gpu_synthetic row))] (ac_metadata a))) db2
                in (Done ((row, res), db3), w1))))"

definition register_node ::
    "fleet_env \<Rightarrow> 'w agent_net \<Rightarrow> string \<Rightarrow> string \<Rightarrow> string \<Rightarrow> string option \<Rightarrow> bool
       \<Rightarrow> (string \<times> json) list \<Rightarrow> actor option \<Rightarrow> fleet \<Rightarrow> 'w wire
       \<Rightarrow> ((node \<times> sync_result) \<times> fleet) result outcome \<times> 'w wire" where
  "register_node env net nm url tok desc verify labels by db w =
     (if get_by_name nm (fl_nodes db) \<noteq> None
      then (Done (Inl (ConflictError (''A node named '' @ quoted nm @ '' is already registered.''))), w)
      else case probe_agent net url tok verify w of
             (Raised e, w1) \<Rightarrow> (Raised e, w1)
           | (Diverges, w1) \<Rightarrow> (Diverges, w1)
           | (Done (Inl e), w1) \<Rightarrow> (Done (Inl e), w1)
           | (Done (Inr health), w1) \<Rightarrow>
               (case accept_node env net
                  \<lparr>ac_name = nm, ac_url = url, ac_token = tok, ac_health = health, ac_description = desc,
                   ac_verify_tls = verify, ac_labels = labels, ac_existing = None, ac_actor = by,
                   ac_action = NODE_REGISTERED, ac_metadata = []\<rparr> db w1 of
                  (Done r, w2) \<Rightarrow> (Done (Inr r), w2)
                | (Raised e, w2) \<Rightarrow> (Raised e, w2)
                | (Diverges, w2) \<Rightarrow> (Diverges, w2)))"

text \<open>Removing a node cascades over its GPUs (with samples, processes, events), containers,
  allocations and enrolments.\<close>

definition cascade_node :: "uuid \<Rightarrow> fleet \<Rightarrow> fleet" where
  "cascade_node nid db =
     (let gone = set (map gpu_id (filter (\<lambda>g. gpu_node g = nid) (gpus (fl_gpu db))))
      in db\<lparr>fl_nodes := filter (\<lambda>n. node_id n \<noteq> nid) (fl_nodes db),
            fl_gpu := (fl_gpu db)\<lparr>gpus := filter (\<lambda>g. gpu_node g \<noteq> nid) (gpus (fl_gpu db)),
              metrics := filter (\<lambda>m. metric_gpu m \<notin> gone) (metrics (fl_gpu db)),
              allocations := filter (\<lambda>a. alloc_node a \<noteq> nid) (allocations (fl_gpu db))\<rparr>,
            fl_processes := filter (\<lambda>p. gp_gpu p \<notin> gone) (fl_processes db),
            fl_events := filter (\<lambda>e. he_gpu e \<notin> gone) (fl_events db),
            fl_containers := filter (\<lambda>c. ct_node c \<noteq> nid) (fl_containers db),
            fl_enrollments := filter (\<lambda>e. en_node e \<noteq> Some nid) (fl_enrollments db)\<rparr>)"

definition delete_node :: "uuid \<Rightarrow> actor \<Rightarrow> fleet \<Rightarrow> (unit \<times> fleet) result" where
  "delete_node nid by db =
     (case get_node nid (fl_nodes db) of
        None \<Rightarrow> Inl (NotFoundError (''No node with id '' @ uuid_str nid @ ''.''))
      | Some n \<Rightarrow>
          Inr ((), fleet_record NODE_REMOVED (Some (actor_id by)) (actor_name by) ''node'' (uuid_str nid)
                     (JObj [(''name'', JStr (node_name n))]) (cascade_node nid db)))"

section \<open>Reads\<close>

definition list_nodes :: "nat \<Rightarrow> nat \<Rightarrow> fleet \<Rightarrow> node list" where
  "list_nodes limit offset db = list_all_nodes limit offset (fl_nodes db)"

definition count_nodes :: "fleet \<Rightarrow> nat" where
  "count_nodes db = length (fl_nodes db)"

definition find_node :: "uuid \<Rightarrow> fleet \<Rightarrow> node result" where
  "find_node nid db = (case get_node nid (fl_nodes db) of
     None \<Rightarrow> Inl (NotFoundError (''No node with id '' @ uuid_str nid @ ''.'')) | Some n \<Rightarrow> Inr n)"

definition find_node_by_name :: "string \<Rightarrow> fleet \<Rightarrow> node result" where
  "find_node_by_name nm db = (case get_by_name nm (fl_nodes db) of
     None \<Rightarrow> Inl (NotFoundError (''No node named '' @ quoted nm @ ''.'')) | Some n \<Rightarrow> Inr n)"

definition check_node ::
    "fleet_env \<Rightarrow> 'w agent_net \<Rightarrow> uuid \<Rightarrow> fleet \<Rightarrow> 'w wire \<Rightarrow> work result outcome \<times> 'w wire" where
  "check_node env net nid db w =
     (case find_node nid db of
        Inl e \<Rightarrow> (Done (Inl e), w)
      | Inr n \<Rightarrow> (case sync_node env net n None db w of
                    (Done s, w1) \<Rightarrow> (Done (Inr s), w1)
                  | (Raised e, w1) \<Rightarrow> (Raised e, w1)
                  | (Diverges, w1) \<Rightarrow> (Diverges, w1)))"

section \<open>The scheduled jobs\<close>

text \<open>One session for the whole sweep: the first exception loses every node's changes.\<close>

fun sweep_nodes ::
    "fleet_env \<Rightarrow> 'w agent_net \<Rightarrow> node list \<Rightarrow> fleet \<Rightarrow> 'w wire
       \<Rightarrow> (sync_result list \<times> fleet) outcome \<times> 'w wire" where
  "sweep_nodes env net [] db w = (Done ([], db), w)"
| "sweep_nodes env net (n # ns) db w =
     (case sync_node env net n None db w of
        (Raised e, w1) \<Rightarrow> (Raised e, w1)
      | (Diverges, w1) \<Rightarrow> (Diverges, w1)
      | (Done (db1, res), w1) \<Rightarrow>
          (case sweep_nodes env net ns db1 w1 of
             (Done (rs, db2), w2) \<Rightarrow> (Done (res # rs, db2), w2)
           | (Raised e, w2) \<Rightarrow> (Raised e, w2)
           | (Diverges, w2) \<Rightarrow> (Diverges, w2)))"

definition sync_nodes ::
    "fleet_env \<Rightarrow> 'w agent_net \<Rightarrow> bool \<Rightarrow> fleet \<Rightarrow> 'w wire \<Rightarrow> fleet \<times> 'w wire" where
  "sync_nodes env net running db w =
     (if running then (db, w)
      else case sweep_nodes env net (list_pollable (fl_nodes db)) db w of
             (Done (_, db1), w1) \<Rightarrow> (db1, w1)
           | (_, w1) \<Rightarrow> (db, w1))"

definition stale_poll_multiplier :: nat where "stale_poll_multiplier = 3"

definition is_stale :: "timestamp \<Rightarrow> node \<Rightarrow> bool" where
  "is_stale cutoff n = (node_status n \<noteq> OFFLINE
     \<and> (case last_seen_at n of None \<Rightarrow> True | Some t \<Rightarrow> t < cutoff))"

definition mark_stale :: "fleet_env \<Rightarrow> node \<Rightarrow> node" where
  "mark_stale env n = n\<lparr>node_status := OFFLINE,
     status_detail := Some (case last_seen_at n of Some t \<Rightarrow> ''No response since '' @ fe_time_text env t
       | None \<Rightarrow> ''Never reported since registration'')\<rparr>"

definition mark_stale_nodes :: "fleet_env \<Rightarrow> nat \<Rightarrow> fleet \<Rightarrow> fleet" where
  "mark_stale_nodes env poll_interval db =
     (let cutoff = fe_now env - int (poll_interval * stale_poll_multiplier) * 1000000;
          listed = set (map node_id (list_all_nodes 1000 0 (fl_nodes db)))
      in db\<lparr>fl_nodes := update_rows (\<lambda>n. node_id n \<in> listed \<and> is_stale cutoff n) (mark_stale env) (fl_nodes db)\<rparr>)"

definition purge_metrics :: "fleet_env \<Rightarrow> nat \<Rightarrow> fleet \<Rightarrow> fleet" where
  "purge_metrics env retention_days db =
     db\<lparr>fl_gpu := fst (purge_old_metrics (fe_now env) retention_days (fl_gpu db))\<rparr>"

end
