(* ===== verification/Agent_Url.thy ===== *)
theory Agent_Url
  imports Model_Registry "HOL-Library.Word"
begin

text \<open>
  The address a node advertises: \<open>backend/app/core/agent_url.py\<close>.  \<open>split_url\<close> is
  \<open>urllib.parse.urlsplit\<close>; the classes of addresses are those of \<open>ipaddress\<close>, over the 32 or
  128 bits of an address.  What the resolver answers, how addresses and ranges are spelled, and
  which bracketed host literals the library takes are parameters.

  \<open>urlsplit\<close> is called outside the \<open>try\<close> of \<open>validate_agent_url\<close> and raises a plain
  \<open>ValueError\<close> on unbalanced brackets, which its caller does not expect: that is \<open>Raised\<close> here.
\<close>

section \<open>Addresses\<close>

datatype ip = IPv4 "32 word" | IPv6 "128 word"

datatype network = Net4 "32 word" nat | Net6 "128 word" nat

fun in_network :: "ip \<Rightarrow> network \<Rightarrow> bool" where
  "in_network (IPv4 a) (Net4 b n) = (drop_bit (32 - n) a = drop_bit (32 - n) b)"
| "in_network (IPv6 a) (Net6 b n) = (drop_bit (128 - n) a = drop_bit (128 - n) b)"
| "in_network (IPv4 _) (Net6 _ _) = False"
| "in_network (IPv6 _) (Net4 _ _) = False"

definition in_any :: "ip \<Rightarrow> network list \<Rightarrow> bool" where
  "in_any a nets = list_ex (in_network a) nets"

text \<open>A network whose first 16 bits are given.\<close>

definition net6 :: "nat \<Rightarrow> nat \<Rightarrow> network" where
  "net6 bits n = Net6 (push_bit 112 (of_nat bits)) n"

definition is_loopback :: "ip \<Rightarrow> bool" where
  "is_loopback a = in_any a [Net4 0x7F000000 8, Net6 1 128]"

definition is_link_local :: "ip \<Rightarrow> bool" where
  "is_link_local a = in_any a [Net4 0xA9FE0000 16, net6 0xFE80 10]"

definition is_unspecified :: "ip \<Rightarrow> bool" where
  "is_unspecified a = in_any a [Net4 0 32, Net6 0 128]"

definition is_multicast :: "ip \<Rightarrow> bool" where
  "is_multicast a = in_any a [Net4 0xE0000000 4, net6 0xFF00 8]"

definition reserved_networks :: "network list" where
  "reserved_networks =
     [Net4 0xF0000000 4, net6 0 8, net6 0x0100 8, net6 0x0200 7, net6 0x0400 6, net6 0x0800 5,
      net6 0x1000 4, net6 0x4000 3, net6 0x6000 3, net6 0x8000 3, net6 0xA000 3, net6 0xC000 3,
      net6 0xE000 4, net6 0xF000 5, net6 0xF800 6, net6 0xFE00 9]"

definition is_reserved :: "ip \<Rightarrow> bool" where
  "is_reserved a = in_any a reserved_networks"

definition routable :: "ip \<Rightarrow> bool" where
  "routable a = (\<not> is_loopback a \<and> \<not> is_link_local a \<and> \<not> is_unspecified a
                 \<and> \<not> is_multicast a \<and> \<not> is_reserved a)"

text \<open>The standard library under the module: the resolver, which answers the addresses behind
  a name or nothing (\<open>gaierror\<close>), and the text forms.\<close>

record ip_lib =
  ip_resolve :: "string \<Rightarrow> ip list option"
  ip_text :: "ip \<Rightarrow> string"
  ip_range :: "string \<Rightarrow> network option"
  ip_brackets :: "string \<Rightarrow> bool"

section \<open>Splitting a URL\<close>

record url_parts =
  up_scheme :: string
  up_netloc :: string
  up_path :: string
  up_query :: string
  up_fragment :: string

definition scheme_of :: "string \<Rightarrow> string" where
  "scheme_of url =
     (case partition_at CHR '':'' url of
        (scheme, sep, _) \<Rightarrow>
          if sep \<noteq> [] \<and> scheme \<noteq> [] \<and> alpha_char (hd scheme) \<and> list_all scheme_char scheme
          then lower scheme else [])"

definition brackets_ok :: "ip_lib \<Rightarrow> string \<Rightarrow> bool" where
  "brackets_ok lib netloc =
     (if CHR ''['' \<in> set netloc
      then CHR '']'' \<in> set netloc \<and> ip_brackets lib netloc
      else CHR '']'' \<notin> set netloc)"

text \<open>\<open>None\<close> is the \<open>ValueError\<close> of an invalid bracketed host.\<close>

definition split_url :: "ip_lib \<Rightarrow> string \<Rightarrow> url_parts option" where
  "split_url lib raw =
     (let url = clean_url raw; netloc = network_location raw; rest = after_scheme url;
          tail = (if starts_with ''//'' rest then drop (2 + length netloc) rest else rest);
          (before_hash, _, fragment) = partition_at CHR ''#'' tail;
          (path, _, query) = partition_at CHR ''?'' before_hash
      in if brackets_ok lib netloc
         then Some \<lparr>up_scheme = scheme_of url, up_netloc = netloc, up_path = path,
                    up_query = query, up_fragment = fragment\<rparr>
         else None)"

definition user_info :: "string \<Rightarrow> string" where
  "user_info netloc =
     (if CHR ''@'' \<in> set netloc
      then take (length netloc - length (after_last CHR ''@'' netloc) - 1) netloc else [])"

definition url_username :: "url_parts \<Rightarrow> string" where
  "url_username u = fst (partition_at CHR '':'' (user_info (up_netloc u)))"

definition url_password :: "url_parts \<Rightarrow> string" where
  "url_password u = snd (snd (partition_at CHR '':'' (user_info (up_netloc u))))"

definition host_info :: "url_parts \<Rightarrow> string \<times> string" where
  "host_info u =
     (let info = after_last CHR ''@'' (up_netloc u)
      in case partition_at CHR ''['' info of
           (_, open_bracket, bracketed) \<Rightarrow>
             if open_bracket \<noteq> []
             then (let (name, _, rest) = partition_at CHR '']'' bracketed
                   in (name, snd (snd (partition_at CHR '':'' rest))))
             else (let (name, _, port) = partition_at CHR '':'' info in (name, port)))"

definition hostname_of :: "url_parts \<Rightarrow> string" where
  "hostname_of u =
     (let (name, percent, zone) = partition_at CHR ''%'' (fst (host_info u))
      in lower name @ percent @ zone)"

definition digit_value :: "char \<Rightarrow> nat" where
  "digit_value c = of_char c - 48"

definition is_digit :: "char \<Rightarrow> bool" where
  "is_digit c = (48 \<le> (of_char c :: nat) \<and> (of_char c :: nat) \<le> 57)"

definition decimal :: "string \<Rightarrow> nat" where
  "decimal s = fold (\<lambda>c n. 10 * n + digit_value c) s 0"

text \<open>\<open>parts.port\<close>: absent, a number up to 65535, or \<open>ValueError\<close> (the outer \<open>None\<close>).\<close>

definition port_of :: "url_parts \<Rightarrow> nat option option" where
  "port_of u =
     (let port = snd (host_info u)
      in if port = [] then Some None
         else if list_all is_digit port \<and> decimal port \<le> 65535 then Some (Some (decimal port))
         else None)"

section \<open>Settings\<close>

record enrollment_settings =
  es_token_ttl :: nat
  es_retention_days :: nat
  es_max_attempts :: nat
  es_rate_limit :: nat
  es_default_port :: nat
  es_allowed_ports :: "nat list"
  es_cidrs :: "string list"
  es_require_https :: bool
  es_require_source_match :: bool
  es_allow_mismatch :: bool
  es_enroll_disabled :: bool

record agent_address =
  aa_url :: string
  aa_host :: string
  aa_port :: nat
  aa_addresses :: "string list"

section \<open>Validation\<close>

definition first_seen :: "'a list \<Rightarrow> 'a list" where
  "first_seen xs = rev (remdups (rev xs))"

definition not_resolved :: "string \<Rightarrow> string" where
  "not_resolved hostname = hostname @ '' could not be resolved from the control plane.''"

definition resolve_host :: "ip_lib \<Rightarrow> string \<Rightarrow> string + ip list" where
  "resolve_host lib hostname =
     (case ip_resolve lib hostname of
        None \<Rightarrow> Inl (not_resolved hostname)
      | Some infos \<Rightarrow> if infos = [] then Inl (not_resolved hostname) else Inr (first_seen infos))"

definition reject_unroutable :: "ip_lib \<Rightarrow> ip \<Rightarrow> string \<Rightarrow> string + unit" where
  "reject_unroutable lib address hostname =
     (let resolves = hostname @ '' resolves to '' @ ip_text lib address
      in if is_loopback address then Inl (resolves @ '', which is the loopback address.'')
         else if is_link_local address then Inl (resolves @ '', which is a link-local address.'')
         else if is_unspecified address then Inl (resolves @ '', which is not a host address.'')
         else if is_multicast address \<or> is_reserved address
         then Inl (resolves @ '', which is not a host address.'')
         else Inr ())"

fun agent_ranges :: "ip_lib \<Rightarrow> string list \<Rightarrow> string + network list" where
  "agent_ranges lib [] = Inr []"
| "agent_ranges lib (value # values) =
     (case ip_range lib value of
        None \<Rightarrow> Inl (''Configured advertise range '' @ quoted value @ '' is not a valid CIDR.'')
      | Some net \<Rightarrow> map_sum id (\<lambda>nets. net # nets) (agent_ranges lib values))"

fun check_addresses :: "ip_lib \<Rightarrow> network list \<Rightarrow> string \<Rightarrow> ip list \<Rightarrow> string + unit" where
  "check_addresses lib permitted hostname [] = Inr ()"
| "check_addresses lib permitted hostname (address # rest) =
     (case reject_unroutable lib address hostname of
        Inl e \<Rightarrow> Inl e
      | Inr _ \<Rightarrow>
          if permitted \<noteq> [] \<and> \<not> in_any address permitted
          then Inl (hostname @ '' resolves to '' @ ip_text lib address
                    @ '', which is outside the address ranges this platform accepts nodes from.'')
          else check_addresses lib permitted hostname rest)"

definition host_part :: "string \<Rightarrow> string" where
  "host_part hostname = (if CHR '':'' \<in> set hostname then ''['' @ hostname @ '']'' else hostname)"

text \<open>The part of \<open>validate_agent_url\<close> after the host and the port are known.\<close>

definition vet_target ::
    "ip_lib \<Rightarrow> enrollment_settings \<Rightarrow> string \<Rightarrow> string \<Rightarrow> nat option \<Rightarrow> string + agent_address" where
  "vet_target lib cfg scheme hostname given_port =
     (let port = or_number given_port (es_default_port cfg)
      in if hostname = [] then Inl ''The agent address has no host.''
         else if port \<notin> set (es_allowed_ports cfg)
         then Inl (''Port '' @ nat_str port @ '' is not allowed for a node agent. Allowed: ''
                   @ comma_join (map nat_str (es_allowed_ports cfg)) @ ''.'')
         else case resolve_host lib hostname of
           Inl e \<Rightarrow> Inl e
         | Inr addresses \<Rightarrow>
             (case agent_ranges lib (es_cidrs cfg) of
                Inl e \<Rightarrow> Inl e
              | Inr permitted \<Rightarrow>
                  (case check_addresses lib permitted hostname addresses of
                     Inl e \<Rightarrow> Inl e
                   | Inr _ \<Rightarrow>
                       Inr \<lparr>aa_url = scheme @ ''://'' @ lower (host_part hostname) @ '':'' @ nat_str port,
                            aa_host = lower hostname, aa_port = port,
                            aa_addresses = map (ip_text lib) addresses\<rparr>)))"

definition validate_agent_url ::
    "ip_lib \<Rightarrow> enrollment_settings \<Rightarrow> string \<Rightarrow> (string + agent_address) outcome" where
  "validate_agent_url lib cfg raw =
     (let candidate = strip raw
      in if candidate = [] then Done (Inl ''No agent address was given.'')
         else if 512 < length candidate then Done (Inl ''The agent address is too long.'')
         else case split_url lib candidate of
           None \<Rightarrow> Raised ''ValueError: Invalid IPv6 URL''
         | Some parts \<Rightarrow>
             Done (if up_scheme parts \<notin> {''http'', ''https''}
                   then Inl ''The agent address must start with http:// or https://.''
                   else if es_require_https cfg \<and> up_scheme parts \<noteq> ''https''
                   then Inl ''This platform requires node agents to be reached over HTTPS.''
                   else if url_username parts \<noteq> [] \<or> url_password parts \<noteq> []
                   then Inl ''The agent address must not contain credentials.''
                   else if up_path parts \<notin> {[], ''/''} \<or> up_query parts \<noteq> [] \<or> up_fragment parts \<noteq> []
                   then Inl ''The agent address must be a bare host and port, with no path.''
                   else case port_of parts of
                     None \<Rightarrow> Inl ''The agent address has an invalid port.''
                   | Some given_port \<Rightarrow>
                       vet_target lib cfg (up_scheme parts) (hostname_of parts) given_port))"

section \<open>What an accepted address is\<close>

lemma reject_unroutable_Inr: "reject_unroutable lib a h = Inr x \<longleftrightarrow> routable a"
  by (auto simp: reject_unroutable_def routable_def Let_def)

lemma check_addresses_Inr:
  "check_addresses lib permitted h as = Inr x \<longleftrightarrow>
     (\<forall>a \<in> set as. routable a \<and> (permitted = [] \<or> in_any a permitted))"
proof (induction as)
  case (Cons a as)
  show ?case
  proof (cases "reject_unroutable lib a h")
    case (Inl e)
    then have "\<not> routable a" using reject_unroutable_Inr [of lib a h "()"] by auto
    with Inl show ?thesis by simp
  next
    case (Inr u)
    then have "routable a" by (simp add: reject_unroutable_Inr)
    with Inr Cons show ?thesis by auto
  qed
qed simp

lemma agent_ranges_Inr:
  "agent_ranges lib vs = Inr nets \<longleftrightarrow> list_all2 (\<lambda>v n. ip_range lib v = Some n) vs nets"
proof (induction vs arbitrary: nets)
  case Nil
  then show ?case by auto
next
  case (Cons v vs)
  show ?case
  proof (cases "ip_range lib v")
    case None
    then show ?thesis by (auto simp: list_all2_Cons1)
  next
    case (Some n)
    have "map_sum id (\<lambda>nets. n # nets) r = Inr nets \<longleftrightarrow> (\<exists>ns. r = Inr ns \<and> nets = n # ns)"
      for r :: "string + network list" by (cases r) auto
    with Some Cons show ?thesis by (auto simp: list_all2_Cons1)
  qed
qed

lemma set_first_seen [simp]: "set (first_seen xs) = set xs"
  by (simp add: first_seen_def)

lemma first_seen_Nil [simp]: "first_seen xs = [] \<longleftrightarrow> xs = []"
  by (simp add: first_seen_def)

text \<open>What the control plane may fetch: a bare scheme, host and pinned port, every address of
  which is routable and inside the configured ranges.\<close>

definition fetchable :: "ip_lib \<Rightarrow> enrollment_settings \<Rightarrow> agent_address \<Rightarrow> bool" where
  "fetchable lib cfg a =
     (\<exists>scheme hostname addresses nets.
        scheme \<in> {''http'', ''https''} \<and> (es_require_https cfg \<longrightarrow> scheme = ''https'')
        \<and> hostname \<noteq> [] \<and> aa_host a = lower hostname
        \<and> aa_url a = scheme @ ''://'' @ lower (host_part hostname) @ '':'' @ nat_str (aa_port a)
        \<and> aa_port a \<in> set (es_allowed_ports cfg)
        \<and> ip_resolve lib hostname = Some addresses \<and> addresses \<noteq> []
        \<and> aa_addresses a = map (ip_text lib) (first_seen addresses)
        \<and> list_all2 (\<lambda>v n. ip_range lib v = Some n) (es_cidrs cfg) nets
        \<and> (\<forall>x \<in> set addresses. routable x \<and> (nets = [] \<or> in_any x nets)))"

lemma resolve_host_Inr:
  "resolve_host lib h = Inr as \<longleftrightarrow> (\<exists>infos. ip_resolve lib h = Some infos \<and> infos \<noteq> [] \<and> as = first_seen infos)"
  by (auto simp: resolve_host_def split: option.splits)

lemma vet_target_Inr:
  assumes "vet_target lib cfg scheme h p = Inr a"
    and "scheme \<in> {''http'', ''https''}" "es_require_https cfg \<longrightarrow> scheme = ''https''"
  shows "fetchable lib cfg a"
proof -
  from assms(1) obtain as nets u where h: "h \<noteq> []"
      and port: "or_number p (es_default_port cfg) \<in> set (es_allowed_ports cfg)"
      and as: "resolve_host lib h = Inr as" and nets: "agent_ranges lib (es_cidrs cfg) = Inr nets"
      and ok: "check_addresses lib nets h as = Inr u"
      and a: "a = \<lparr>aa_url = scheme @ ''://'' @ lower (host_part h) @ '':''
                     @ nat_str (or_number p (es_default_port cfg)),
                   aa_host = lower h, aa_port = or_number p (es_default_port cfg),
                   aa_addresses = map (ip_text lib) as\<rparr>"
    unfolding vet_target_def Let_def by (simp split: if_splits sum.splits)
  from as obtain infos where infos: "ip_resolve lib h = Some infos" "infos \<noteq> []" "as = first_seen infos"
    unfolding resolve_host_Inr by blast
  from ok infos have "\<forall>x \<in> set infos. routable x \<and> (nets = [] \<or> in_any x nets)"
    by (simp add: check_addresses_Inr)
  moreover from nets have "list_all2 (\<lambda>v n. ip_range lib v = Some n) (es_cidrs cfg) nets"
    by (simp add: agent_ranges_Inr)
  ultimately show ?thesis
    unfolding fetchable_def using assms(2,3) h port infos a
    by (intro exI [of _ scheme] exI [of _ h] exI [of _ infos] exI [of _ nets]) simp
qed

lemma validate_Inr:
  assumes "validate_agent_url lib cfg raw = Done (Inr a)"
  obtains scheme hostname port where "scheme \<in> {''http'', ''https''}"
    "es_require_https cfg \<longrightarrow> scheme = ''https''" "vet_target lib cfg scheme hostname port = Inr a"
proof -
  from assms obtain parts where "split_url lib (strip raw) = Some parts"
    unfolding validate_agent_url_def Let_def by (simp split: if_splits option.splits)
  with assms obtain port where "up_scheme parts \<in> {''http'', ''https''}"
      "es_require_https cfg \<longrightarrow> up_scheme parts = ''https''"
      "vet_target lib cfg (up_scheme parts) (hostname_of parts) port = Inr a"
    unfolding validate_agent_url_def Let_def by (simp split: if_splits option.splits)
  with that show ?thesis .
qed

lemma validated_fetchable:
  "validate_agent_url lib cfg raw = Done (Inr a) \<Longrightarrow> fetchable lib cfg a"
  by (erule validate_Inr) (rule vet_target_Inr)

text \<open>The cloud metadata address and the loopback are never routable, whatever the settings.\<close>

lemma never_routable:
  "\<not> routable (IPv4 0xA9FEA9FE)" "\<not> routable (IPv4 0x7F000001)" "\<not> routable (IPv6 1)" "\<not> routable (IPv4 0)"
  by (simp_all add: routable_def is_loopback_def is_link_local_def is_unspecified_def in_any_def)

end
