(* ===== verification/Enrollment.thy ===== *)
theory Enrollment
  imports Node_Service Agent_Url Gateway
begin

text \<open>
  Node self-enrolment: \<open>services/node_enrollment.py\<close>, \<open>NodeEnrollmentRepository\<close> and the request
  dependency of \<open>api/deps.py\<close>.  An administrator issues a one-time token; a host presents it, the
  control plane checks the address, probes the host back and only then claims the token and
  creates the node.  A step takes the tables as committed and gives the tables as committed
  after it: a request that raised leaves only what it wrote on independent sessions.

  The row a request resolved (\<open>en\<close>) and the tables it finishes on are separate arguments, since
  other requests may commit between the two.
\<close>

section \<open>Environment and repository\<close>

record enroll_env =
  ee_fleet :: fleet_env
  ee_lib :: ip_lib
  ee_cfg :: enrollment_settings
  ee_key :: key_env

abbreviation ee_now :: "enroll_env \<Rightarrow> timestamp" where
  "ee_now env \<equiv> fe_now (ee_fleet env)"

definition put_enrollments :: "enrollment list \<Rightarrow> fleet \<Rightarrow> fleet" where
  "put_enrollments rows db = db\<lparr>fl_enrollments := rows\<rparr>"

definition by_token_hash :: "string \<Rightarrow> fleet \<Rightarrow> enrollment option" where
  "by_token_hash h db = find_row (\<lambda>e. en_hash e = h) (fl_enrollments db)"

definition pending_for_name :: "string \<Rightarrow> fleet \<Rightarrow> enrollment option" where
  "pending_for_name nm db = find_row (\<lambda>e. en_name e = nm \<and> en_status e = E_PENDING) (fl_enrollments db)"

definition enrollment_with :: "uuid \<Rightarrow> fleet \<Rightarrow> enrollment option" where
  "enrollment_with i db = find_row (\<lambda>e. en_id e = i) (fl_enrollments db)"

definition list_filtered :: "enrollment_status option \<Rightarrow> nat \<Rightarrow> nat \<Rightarrow> fleet \<Rightarrow> enrollment list" where
  "list_filtered st limit offset db =
     take limit (drop offset (sort_key (\<lambda>e. - en_created e)
       (filter (\<lambda>e. st = None \<or> st = Some (en_status e)) (fl_enrollments db))))"

definition count_filtered :: "enrollment_status option \<Rightarrow> fleet \<Rightarrow> nat" where
  "count_filtered st db = length (filter (\<lambda>e. st = None \<or> st = Some (en_status e)) (fl_enrollments db))"

text \<open>The compare-and-set: \<open>None\<close> when no row, or more than one, was updated.\<close>

definition claimable :: "timestamp \<Rightarrow> string \<Rightarrow> enrollment \<Rightarrow> bool" where
  "claimable now h e = (en_hash e = h \<and> en_status e = E_PENDING \<and> now < en_expires e)"

definition claim_token :: "timestamp \<Rightarrow> string \<Rightarrow> string option \<Rightarrow> fleet \<Rightarrow> fleet option" where
  "claim_token now h source db =
     (if length (filter (claimable now h) (fl_enrollments db)) = 1
      then Some (put_enrollments (update_rows (claimable now h)
             (\<lambda>e. e\<lparr>en_status := E_CONSUMED, en_consumed_at := Some now, en_consumed_from := source,
                     en_updated := now\<rparr>) (fl_enrollments db)) db)
      else None)"

definition elapsed :: "timestamp \<Rightarrow> enrollment \<Rightarrow> bool" where
  "elapsed now e = (en_status e = E_PENDING \<and> en_expires e \<le> now)"

definition expire_stale :: "timestamp \<Rightarrow> fleet \<Rightarrow> fleet \<times> nat" where
  "expire_stale now db =
     (put_enrollments (update_rows (elapsed now) (\<lambda>e. e\<lparr>en_status := E_EXPIRED, en_updated := now\<rparr>)
        (fl_enrollments db)) db,
      length (filter (elapsed now) (fl_enrollments db)))"

definition purge_settled :: "timestamp \<Rightarrow> fleet \<Rightarrow> fleet \<times> nat" where
  "purge_settled cutoff db =
     (let gone = (\<lambda>e. en_status e \<noteq> E_PENDING \<and> en_updated e < cutoff)
      in (put_enrollments (filter (\<lambda>e. \<not> gone e) (fl_enrollments db)) db,
          length (filter gone (fl_enrollments db))))"

section \<open>The administrator's side\<close>

definition generate_enrollment_token :: "key_env \<Rightarrow> string \<times> string \<times> string" where
  "generate_enrollment_token env = mint_prefixed_token ''aine'' env"

record invitation =
  iv_name :: string
  iv_description :: "string option"
  iv_labels :: "(string \<times> json) list"
  iv_verify_tls :: bool
  iv_ttl :: "nat option"
  iv_reenroll :: bool

definition new_enrollment ::
    "enroll_env \<Rightarrow> invitation \<Rightarrow> node option \<Rightarrow> actor \<Rightarrow> string \<Rightarrow> string \<Rightarrow> uuid \<Rightarrow> enrollment" where
  "new_enrollment env iv existing by prefix_text h i =
     \<lparr>en_id = i, en_name = iv_name iv, en_description = iv_description iv, en_labels = iv_labels iv,
      en_verify_tls = iv_verify_tls iv, en_node = map_option node_id existing, en_prefix = prefix_text,
      en_hash = h, en_status = E_PENDING,
      en_expires = ee_now env
        + int (min (or_number (iv_ttl iv) (es_token_ttl (ee_cfg env))) 86400) * 1000000,
      en_consumed_at = None, en_consumed_from = None, en_url = None, en_resolved = None, en_attempts = 0,
      en_last_attempt = None, en_last_error = None, en_created_by = Some (actor_id by),
      en_revoked_at = None, en_revoked_by = None, en_created = ee_now env, en_updated = ee_now env\<rparr>"

text \<open>\<open>Raised\<close> is the unique index on the token's hash.\<close>

definition create_enrollment ::
    "enroll_env \<Rightarrow> invitation \<Rightarrow> actor \<Rightarrow> fleet \<Rightarrow> ((enrollment \<times> string) \<times> fleet) result outcome" where
  "create_enrollment env iv by db =
     (let db1 = fst (expire_stale (ee_now env) db);
          existing = get_by_name (iv_name iv) (fl_nodes db1);
          (token, prefix_text, h) = generate_enrollment_token (ee_key env)
      in if existing \<noteq> None \<and> \<not> iv_reenroll iv
         then Done (Inl (ConflictError (''A node named '' @ quoted (iv_name iv)
                @ '' is already registered. Re-enrol it to replace its agent token, or remove it first.'')))
         else if pending_for_name (iv_name iv) db1 \<noteq> None
         then Done (Inl (ConflictError (''An enrolment for '' @ quoted (iv_name iv)
                @ '' is already open. Revoke it before issuing another.'')))
         else if by_token_hash h db1 \<noteq> None then Raised ''IntegrityError: token_hash''
         else (let e = new_enrollment env iv existing by prefix_text h (fl_next db1);
                   db2 = db1\<lparr>fl_enrollments := fl_enrollments db1 @ [e], fl_next := fl_next db1 + 1\<rparr>
               in Done (Inr ((e, token),
                    fleet_record NODE_ENROLLMENT_CREATED (Some (actor_id by)) (actor_name by) ''node_enrollment''
                      (uuid_str (en_id e))
                      (JObj [(''name'', JStr (iv_name iv)), (''prefix'', JStr prefix_text),
                             (''reenroll'', JBool (existing \<noteq> None))]) db2))))"

definition list_enrollments ::
    "enroll_env \<Rightarrow> enrollment_status option \<Rightarrow> nat \<Rightarrow> nat \<Rightarrow> fleet \<Rightarrow> (enrollment list \<times> nat) \<times> fleet" where
  "list_enrollments env st limit offset db =
     (let db1 = fst (expire_stale (ee_now env) db)
      in ((list_filtered st limit offset db1, count_filtered st db1), db1))"

definition get_enrollment :: "uuid \<Rightarrow> fleet \<Rightarrow> enrollment result" where
  "get_enrollment i db = (case enrollment_with i db of
     None \<Rightarrow> Inl (NotFoundError (''No enrolment with id '' @ uuid_str i @ ''.'')) | Some e \<Rightarrow> Inr e)"

definition set_enrollment :: "uuid \<Rightarrow> (enrollment \<Rightarrow> enrollment) \<Rightarrow> fleet \<Rightarrow> fleet" where
  "set_enrollment i f db = put_enrollments (update_rows (\<lambda>e. en_id e = i) f (fl_enrollments db)) db"

definition revoke_enrollment ::
    "enroll_env \<Rightarrow> uuid \<Rightarrow> actor \<Rightarrow> fleet \<Rightarrow> (enrollment \<times> fleet) result" where
  "revoke_enrollment env i by db =
     (case get_enrollment i db of
        Inl e \<Rightarrow> Inl e
      | Inr e \<Rightarrow>
          if en_status e = E_CONSUMED
          then Inl (ConflictError (''That enrolment already produced node '' @ quoted (en_name e)
                 @ ''. Remove the node instead.''))
          else if en_status e = E_REVOKED then Inr (e, db)
          else (let revoke = (\<lambda>r. r\<lparr>en_status := E_REVOKED, en_revoked_at := Some (ee_now env),
                      en_revoked_by := Some (actor_id by), en_updated := ee_now env\<rparr>)
                in Inr (revoke e,
                     fleet_record NODE_ENROLLMENT_REVOKED (Some (actor_id by)) (actor_name by) ''node_enrollment''
                       (uuid_str i) (JObj [(''name'', JStr (en_name e)), (''prefix'', JStr (en_prefix e))])
                       (set_enrollment i revoke db))))"

definition sweep_enrollments :: "enroll_env \<Rightarrow> fleet \<Rightarrow> (nat \<times> nat) \<times> fleet" where
  "sweep_enrollments env db =
     (let (db1, expired) = expire_stale (ee_now env) db;
          (db2, purged) = purge_settled (ee_now env - int (es_retention_days (ee_cfg env)) * 86400 * 1000000) db1
      in ((expired, purged), db2))"

section \<open>The node's side: presenting a token\<close>

definition rejected :: app_error where
  "rejected = TokenError ''That enrolment token is not valid. Ask an administrator to issue a new one.''"

definition add_entry :: "audit_entry \<Rightarrow> fleet \<Rightarrow> fleet" where
  "add_entry a db = db\<lparr>fl_trail := fl_trail db @ [a]\<rparr>"

definition record_denied :: "enrollment option \<Rightarrow> string \<Rightarrow> fleet \<Rightarrow> fleet" where
  "record_denied en reason db =
     add_entry (build_entry
       (if reason = ''token already used'' then NODE_ENROLLMENT_REUSED else NODE_ENROLLMENT_FAILED)
       DENIED None ''node'' (Some ''node_enrollment'') (map_option (\<lambda>e. uuid_str (en_id e)) en) None
       (JObj [(''reason'', JStr reason), (''prefix'', opt_text_json (map_option en_prefix en))])) db"

definition status_name :: "enrollment_status \<Rightarrow> string" where
  "status_name st = (case st of E_PENDING \<Rightarrow> ''PENDING'' | E_CONSUMED \<Rightarrow> ''CONSUMED''
     | E_EXPIRED \<Rightarrow> ''EXPIRED'' | E_REVOKED \<Rightarrow> ''REVOKED'')"

definition resolve_token :: "enroll_env \<Rightarrow> string \<Rightarrow> fleet \<Rightarrow> enrollment result \<times> fleet" where
  "resolve_token env presented db =
     (if presented = [] then (Inl rejected, db)
      else case by_token_hash (ke_hash (ee_key env) presented) db of
             None \<Rightarrow> (Inl rejected, record_denied None ''unknown token'' db)
           | Some e \<Rightarrow>
               if en_status e = E_CONSUMED
               then (Inl rejected, record_denied (Some e) ''token already used'' db)
               else if en_status e \<noteq> E_PENDING \<or> en_expires e \<le> ee_now env
               then (Inl rejected, record_denied (Some e) (''token '' @ lower (status_name (en_status e))) db)
               else if es_max_attempts (ee_cfg env) \<le> en_attempts e
               then (Inl rejected, record_denied (Some e) ''too many attempts'' db)
               else (Inr e, db))"

text \<open>The limiter per source address, which lets a caller through when Redis fails.\<close>

definition limit_attempts ::
    "'s redis \<Rightarrow> nat \<Rightarrow> timestamp \<Rightarrow> string option \<Rightarrow> 's \<Rightarrow> unit result \<times> 's" where
  "limit_attempts red limit now source s =
     (if \<not> truthy source then (Inr (), s)
      else (let bucket = ''enroll:ratelimit:'' @ the source @ '':'' @ int_str (window_of now)
            in case rd_incr red s now bucket of
                 None \<Rightarrow> (Inr (), s)
               | Some (count, s1) \<Rightarrow>
                   (case (if count = 1 then rd_expire red s1 now bucket 120 else Some s1) of
                      None \<Rightarrow> (Inr (), s1)
                    | Some s2 \<Rightarrow>
                        if limit < count
                        then (Inl (RateLimitError
                          ''Too many enrolment attempts from this address. Wait a minute and retry.''), s2)
                        else (Inr (), s2))))"

section \<open>The node's side: consuming it\<close>

definition from_source :: "nat \<Rightarrow> string option \<Rightarrow> string result" where
  "from_source port source =
     (if \<not> truthy source
      then Inl (ValidationError ''No agent address was given and it could not be inferred from the request.'')
      else Inr (''http://'' @ host_part (the source) @ '':'' @ nat_str port))"

definition python_text :: "string option \<Rightarrow> string" where
  "python_text a = (case a of None \<Rightarrow> ''None'' | Some s \<Rightarrow> s)"

text \<open>The row of a failed attempt: counted, and revoked when the attempts are used up.\<close>

definition failed_row :: "enroll_env \<Rightarrow> string \<Rightarrow> string \<Rightarrow> enrollment \<Rightarrow> enrollment" where
  "failed_row env message url r =
     (let n = en_attempts r + 1;
          r1 = r\<lparr>en_attempts := n, en_last_attempt := Some (ee_now env), en_last_error := Some (take 500 message),
                 en_url := Some url, en_updated := ee_now env\<rparr>
      in if es_max_attempts (ee_cfg env) \<le> n
         then r1\<lparr>en_status := E_REVOKED,
                 en_last_error := Some (take 400 message @ '' (revoked after '' @ nat_str n @ '' attempts)'')\<rparr>
         else r1)"

definition note_failure :: "enroll_env \<Rightarrow> enrollment \<Rightarrow> string \<Rightarrow> string \<Rightarrow> fleet \<Rightarrow> fleet" where
  "note_failure env en message url db =
     set_enrollment (en_id en) (failed_row env message url)
       (add_entry (build_entry NODE_ENROLLMENT_FAILED FAILURE None ''node'' (Some ''node_enrollment'')
          (Some (uuid_str (en_id en))) None
          (JObj [(''name'', JStr (en_name en)), (''prefix'', JStr (en_prefix en)), (''url'', JStr url),
                 (''error'', JStr (take 500 message))])) db)"

record enroll_request =
  er_agent_token :: string
  er_advertised :: "string option"
  er_name :: "string option"
  er_source :: "string option"

type_synonym 'w enroll_step = "((node \<times> sync_result) result outcome \<times> fleet) \<times> 'w wire"

definition refuse :: "app_error \<Rightarrow> fleet \<Rightarrow> 'w wire \<Rightarrow> 'w enroll_step" where
  "refuse e db w = ((Done (Inl e), db), w)"

text \<open>The name: what the agent says, and what the request says, must be what was issued.\<close>

definition name_problem :: "enroll_env \<Rightarrow> enrollment \<Rightarrow> string option \<Rightarrow> string option \<Rightarrow> string \<Rightarrow> string option" where
  "name_problem env en asked reported url =
     (if truthy asked \<and> asked \<noteq> Some (en_name en) \<and> \<not> es_allow_mismatch (ee_cfg env)
      then Some (''This enrolment is for '' @ quoted (en_name en) @ '', but the request asked to enrol ''
             @ quoted (the asked) @ ''. The name is fixed when the enrolment is issued.'')
      else if truthy reported \<and> reported \<noteq> Some (en_name en) \<and> \<not> es_allow_mismatch (ee_cfg env)
      then Some (''The agent at '' @ url @ '' reports node_name='' @ quoted (the reported)
             @ '', but this enrolment is for '' @ quoted (en_name en) @ ''. Set NODE_AGENT_NODE_NAME=''
             @ en_name en @ '' and restart the agent.'')
      else None)"

definition enrolled_labels :: "enroll_env \<Rightarrow> enrollment \<Rightarrow> (string \<times> json) list" where
  "enrolled_labels env en =
     (if es_enroll_disabled (ee_cfg env) then AList.update ''disabled'' (JStr ''true'') (en_labels en)
      else en_labels en)"

text \<open>From the claim on it is one transaction; an exception in it commits nothing.\<close>

definition claim_and_accept ::
    "enroll_env \<Rightarrow> 'w agent_net \<Rightarrow> enrollment \<Rightarrow> enroll_request \<Rightarrow> agent_address
       \<Rightarrow> (string \<times> json) list \<Rightarrow> node option \<Rightarrow> fleet \<Rightarrow> 'w wire \<Rightarrow> 'w enroll_step" where
  "claim_and_accept env net en rq target health existing db w =
     (case claim_token (ee_now env) (en_hash en) (er_source rq) db of
        None \<Rightarrow> refuse (ConflictError
          ''That enrolment token is not valid. Ask an administrator to issue a new one.'') db w
      | Some db1 \<Rightarrow>
          (let resolved = (case aa_addresses target of [] \<Rightarrow> None | a # _ \<Rightarrow> Some a);
               db2 = set_enrollment (en_id en)
                 (\<lambda>r. r\<lparr>en_url := Some (aa_url target), en_resolved := resolved, en_updated := ee_now env\<rparr>) db1
           in case accept_node (ee_fleet env) net
                \<lparr>ac_name = en_name en, ac_url = aa_url target, ac_token = er_agent_token rq,
                 ac_health = health, ac_description = en_description en, ac_verify_tls = en_verify_tls en,
                 ac_labels = enrolled_labels env en, ac_existing = existing, ac_actor = None,
                 ac_action = (if existing = None then NODE_ENROLLED else NODE_REENROLLED),
                 ac_metadata = [(''enrollment'', JStr (uuid_str (en_id en))), (''prefix'', JStr (en_prefix en)),
                   (''source_ip'', opt_text_json (er_source rq)), (''resolved_ip'', opt_text_json resolved)]\<rparr>
                db2 w of
                (Done ((n, res), db3), w1) \<Rightarrow>
                  ((Done (Inr (n, res)), set_enrollment (en_id en) (\<lambda>r. r\<lparr>en_node := Some (node_id n)\<rparr>) db3), w1)
              | (Raised e, w1) \<Rightarrow> ((Raised e, db), w1)
              | (Diverges, w1) \<Rightarrow> ((Diverges, db), w1)))"

text \<open>After the address is known to be fetchable: probe, check the name, claim.\<close>

definition probe_and_claim ::
    "enroll_env \<Rightarrow> 'w agent_net \<Rightarrow> enrollment \<Rightarrow> enroll_request \<Rightarrow> agent_address \<Rightarrow> fleet \<Rightarrow> 'w wire
       \<Rightarrow> 'w enroll_step" where
  "probe_and_claim env net en rq target db w =
     (case probe_agent net (aa_url target) (er_agent_token rq) (en_verify_tls en) w of
        (Raised e, w1) \<Rightarrow> ((Raised e, db), w1)
      | (Diverges, w1) \<Rightarrow> ((Diverges, db), w1)
      | (Done (Inl (ValidationError m)), w1) \<Rightarrow>
          refuse (ValidationError m) (note_failure env en m (aa_url target) db) w1
      | (Done (Inl e), w1) \<Rightarrow> refuse e db w1
      | (Done (Inr health), w1) \<Rightarrow>
          (case name_problem env en (er_name rq) (text_opt health ''node_name'') (aa_url target) of
             Some m \<Rightarrow> refuse (ValidationError m) (note_failure env en m (aa_url target) db) w1
           | None \<Rightarrow>
               (let existing = (case en_node en of None \<Rightarrow> None | Some i \<Rightarrow> get_node i (fl_nodes db));
                    m = ''A node named '' @ quoted (en_name en) @ '' was registered in the meantime.''
                in if existing = None \<and> get_by_name (en_name en) (fl_nodes db) \<noteq> None
                   then refuse (ConflictError m) (note_failure env en m (aa_url target) db) w1
                   else claim_and_accept env net en rq target health existing db w1)))"

definition consume ::
    "enroll_env \<Rightarrow> 'w agent_net \<Rightarrow> enrollment \<Rightarrow> enroll_request \<Rightarrow> fleet \<Rightarrow> 'w wire \<Rightarrow> 'w enroll_step" where
  "consume env net en rq db w =
     (if length (er_agent_token rq) < 32
      then refuse (ValidationError ''The agent token must be at least 32 characters.'') db w
      else case (if truthy (er_advertised rq) then Inr (the (er_advertised rq))
                 else from_source (es_default_port (ee_cfg env)) (er_source rq)) of
        Inl e \<Rightarrow> refuse e db w
      | Inr candidate \<Rightarrow>
          (case validate_agent_url (ee_lib env) (ee_cfg env) candidate of
             Raised e \<Rightarrow> ((Raised e, db), w)
           | Diverges \<Rightarrow> ((Diverges, db), w)
           | Done (Inl m) \<Rightarrow> refuse (ValidationError m) (note_failure env en m candidate db) w
           | Done (Inr target) \<Rightarrow>
               if es_require_source_match (ee_cfg env)
                  \<and> (case er_source rq of None \<Rightarrow> True | Some ip \<Rightarrow> ip \<notin> set (aa_addresses target))
               then (let m = ''This enrolment came from '' @ python_text (er_source rq) @ '', but ''
                           @ aa_host target @ '' resolves to '' @ comma_join (aa_addresses target) @ ''.''
                     in refuse (ValidationError m) (note_failure env en m (aa_url target) db) w)
               else probe_and_claim env net en rq target db w))"

text \<open>The whole request: limiter, token, host.\<close>

definition enroll_node ::
    "enroll_env \<Rightarrow> 's redis \<Rightarrow> 'w agent_net \<Rightarrow> string \<Rightarrow> enroll_request \<Rightarrow> fleet \<Rightarrow> 's \<Rightarrow> 'w wire
       \<Rightarrow> 'w enroll_step \<times> 's" where
  "enroll_node env red net presented rq db s w =
     (case limit_attempts red (es_rate_limit (ee_cfg env)) (ee_now env) (er_source rq) s of
        (Inl e, s1) \<Rightarrow> (refuse e db w, s1)
      | (Inr _, s1) \<Rightarrow>
          (if presented = []
           then (refuse (TokenError (''A node enrolment token is required. Send it as ''
                   @ quoted ''Authorization: Bearer <token>'' @ ''.'')) db w, s1)
           else case resolve_token env presented db of
             (Inl e, db1) \<Rightarrow> (refuse e db1 w, s1)
           | (Inr en, db1) \<Rightarrow> (consume env net en rq db1 w, s1)))"

end
