(* ===== verification/Fleet_Invariant.thy ===== *)
theory Fleet_Invariant
  imports Node_Service
begin

text \<open>
  What the fleet's tables keep whatever the agents report: nodes unique by key and by name, GPUs
  by key, hardware identity and slot, containers by node and identifier, and every key drawn from
  the counter.  Each section of a synchronisation keeps it, and so does every operation.
\<close>

definition container_key :: "container_row \<Rightarrow> uuid \<times> string" where
  "container_key c = (ct_node c, ct_id c)"

definition gpus_sound :: "nat \<Rightarrow> gpu list \<Rightarrow> bool" where
  "gpus_sound k gs = (distinct (map gpu_id gs) \<and> distinct (map gpu_uuid gs) \<and> distinct (map gpu_slot gs)
     \<and> (\<forall>g \<in> set gs. gpu_id g < k))"

definition nodes_sound :: "nat \<Rightarrow> node list \<Rightarrow> bool" where
  "nodes_sound k ns = (distinct (map node_id ns) \<and> distinct (map node_name ns) \<and> (\<forall>n \<in> set ns. node_id n < k))"

definition fleet_sound :: "fleet \<Rightarrow> bool" where
  "fleet_sound db = (nodes_sound (fl_next db) (fl_nodes db) \<and> gpus_sound (fl_next db) (gpus (fl_gpu db))
     \<and> distinct (map container_key (fl_containers db)))"

text \<open>What a synchronisation never touches: who the nodes are, reservations, enrolments, the trail.\<close>

definition same_fleet :: "fleet \<Rightarrow> fleet \<Rightarrow> bool" where
  "same_fleet db db1 = (map node_id (fl_nodes db1) = map node_id (fl_nodes db)
     \<and> map node_name (fl_nodes db1) = map node_name (fl_nodes db)
     \<and> map agent_url (fl_nodes db1) = map agent_url (fl_nodes db)
     \<and> map agent_token_encrypted (fl_nodes db1) = map agent_token_encrypted (fl_nodes db)
     \<and> map node_labels (fl_nodes db1) = map node_labels (fl_nodes db)
     \<and> allocations (fl_gpu db1) = allocations (fl_gpu db) \<and> fl_enrollments db1 = fl_enrollments db
     \<and> fl_trail db1 = fl_trail db \<and> fl_next db \<le> fl_next db1)"

lemma same_fleet_refl [simp]: "same_fleet db db"
  by (simp add: same_fleet_def)

lemma same_fleet_trans: "same_fleet a b \<Longrightarrow> same_fleet b c \<Longrightarrow> same_fleet a c"
  by (simp add: same_fleet_def)

text \<open>One step of a synchronisation: sound stays sound, and the fleet stays the same fleet.\<close>

definition sync_step :: "fleet \<Rightarrow> fleet \<Rightarrow> bool" where
  "sync_step db db1 = (same_fleet db db1 \<and> (fleet_sound db \<longrightarrow> fleet_sound db1))"

lemma sync_step_refl [simp]: "sync_step db db"
  by (simp add: sync_step_def)

lemma sync_step_trans: "sync_step a b \<Longrightarrow> sync_step b c \<Longrightarrow> sync_step a c"
  unfolding sync_step_def using same_fleet_trans by blast

section \<open>Node rows\<close>

definition keeps_identity :: "(node \<Rightarrow> node) \<Rightarrow> bool" where
  "keeps_identity f = (\<forall>n. node_id (f n) = node_id n \<and> node_name (f n) = node_name n \<and> agent_url (f n) = agent_url n
     \<and> agent_token_encrypted (f n) = agent_token_encrypted n \<and> node_labels (f n) = node_labels n)"

lemma nodes_sound_map:
  "nodes_sound k ns = (distinct (map node_id ns) \<and> distinct (map node_name ns) \<and> (\<forall>i \<in> set (map node_id ns). i < k))"
  by (auto simp: nodes_sound_def)

lemma with_node_step: "keeps_identity f \<Longrightarrow> sync_step db (with_node nid f db)"
  unfolding sync_step_def same_fleet_def fleet_sound_def nodes_sound_map with_node_def keeps_identity_def
  by (simp add: map_update_rows)

lemma keeps_identity_fields:
  "keeps_identity (system_fields system)" "keeps_identity (gpu_node_fields payload)"
  "keeps_identity (health_fields now health)" "keeps_identity (\<lambda>n. n\<lparr>node_role := r\<rparr>)"
  "keeps_identity (\<lambda>n. n\<lparr>node_status := st\<rparr>)" "keeps_identity (\<lambda>n. n\<lparr>node_status := st, status_detail := d\<rparr>)"
  "keeps_identity (\<lambda>n. n\<lparr>docker_version := v, nvidia_runtime_available := b\<rparr>)"
  "keeps_identity (mark_stale env)"
  by (simp_all add: keeps_identity_def system_fields_def gpu_node_fields_def health_fields_def mark_stale_def Let_def)

section \<open>GPU rows\<close>

lemma distinct_map_replace:
  assumes "distinct (map k rows)" "\<forall>r \<in> set rows. q r \<or> k r \<noteq> k g" "\<forall>r \<in> set rows. \<forall>s \<in> set rows. q r \<longrightarrow> q s \<longrightarrow> r = s"
    "distinct rows"
  shows "distinct (map k (update_rows q (\<lambda>_. g) rows))"
  using assms
proof (induction rows)
  case (Cons r rows)
  have IH: "distinct (map k (update_rows q (\<lambda>_. g) rows))" using Cons by auto
  show ?case
  proof (cases "q r")
    case True
    then have "\<not> q s" if "s \<in> set rows" for s using Cons.prems(3,4) that by fastforce
    then have "update_rows q (\<lambda>_. g) rows = rows" by (simp add: update_rows_def map_idI)
    with True Cons.prems show ?thesis
      by (auto dest: \<open>\<And>s. s \<in> set rows \<Longrightarrow> \<not> q s\<close>)
  next
    case False
    then have "k r \<notin> set (map k (update_rows q (\<lambda>_. g) rows))"
      using Cons.prems(1,2) by (auto simp: set_update_rows)
    with False IH show ?thesis by simp
  qed
qed simp

lemma flush_step_sound:
  assumes "gpus_sound k rows" "row_fits g rows" "gpu_id g < k"
  shows "gpus_sound k (if \<exists>r \<in> set rows. gpu_id r = gpu_id g
           then update_rows (\<lambda>r. gpu_id r = gpu_id g) (\<lambda>_. g) rows else rows @ [g])"
proof -
  let ?q = "\<lambda>r. gpu_id r = gpu_id g"
  from assms(1) have ids: "distinct (map gpu_id rows)" and uu: "distinct (map gpu_uuid rows)"
    and sl: "distinct (map gpu_slot rows)" and lt: "\<forall>r \<in> set rows. gpu_id r < k"
    by (simp_all add: gpus_sound_def)
  have one: "\<forall>r \<in> set rows. \<forall>s \<in> set rows. ?q r \<longrightarrow> ?q s \<longrightarrow> r = s"
    using distinct_key_unique [OF ids] by metis
  have d: "distinct rows" using ids by (simp add: distinct_map)
  have fit: "\<forall>r \<in> set rows. ?q r \<or> (gpu_slot r \<noteq> gpu_slot g \<and> gpu_uuid r \<noteq> gpu_uuid g)"
    using assms(2) by (simp add: row_fits_def list_all_iff)
  show ?thesis
  proof (cases "\<exists>r \<in> set rows. ?q r")
    case True
    have "distinct (map gpu_uuid (update_rows ?q (\<lambda>_. g) rows))"
      by (rule distinct_map_replace [OF uu _ one d]) (use fit in blast)
    moreover have "distinct (map gpu_slot (update_rows ?q (\<lambda>_. g) rows))"
      by (rule distinct_map_replace [OF sl _ one d]) (use fit in blast)
    moreover have "map gpu_id (update_rows ?q (\<lambda>_. g) rows) = map gpu_id rows"
      by (rule map_update_rows) simp
    moreover have "\<forall>r \<in> set (update_rows ?q (\<lambda>_. g) rows). gpu_id r < k"
      using lt assms(3) by (auto simp: set_update_rows)
    ultimately show ?thesis using True ids by (simp add: gpus_sound_def)
  next
    case False
    then have "\<forall>r \<in> set rows. gpu_slot r \<noteq> gpu_slot g \<and> gpu_uuid r \<noteq> gpu_uuid g" using fit by blast
    with False ids uu sl lt assms(3) show ?thesis by (auto simp: gpus_sound_def)
  qed
qed

lemma flush_rows_sound:
  "flush_rows rows gs = Some out \<Longrightarrow> gpus_sound k rows \<Longrightarrow> \<forall>g \<in> set gs. gpu_id g < k \<Longrightarrow> gpus_sound k out"
proof (induction gs arbitrary: rows)
  case (Cons g gs)
  from Cons.prems(1) have fits: "row_fits g rows"
    and rest: "flush_rows (if \<exists>r \<in> set rows. gpu_id r = gpu_id g
           then update_rows (\<lambda>r. gpu_id r = gpu_id g) (\<lambda>_. g) rows else rows @ [g]) gs = Some out"
    by (auto split: if_splits)
  show ?case
    by (rule Cons.IH [OF rest flush_step_sound [OF Cons.prems(2) fits]]) (use Cons.prems(3) in simp_all)
qed simp

lemma flush_gpus_sound:
  "flush_gpus before rows = Some out \<Longrightarrow> gpus_sound k before \<Longrightarrow> \<forall>g \<in> set rows. gpu_id g < k \<Longrightarrow> gpus_sound k out"
  unfolding flush_gpus_def Let_def by (erule flush_rows_sound) auto

lemma gpus_sound_mono: "gpus_sound k gs \<Longrightarrow> k \<le> k' \<Longrightarrow> gpus_sound k' gs"
  by (auto simp: gpus_sound_def)

lemma nodes_sound_mono: "nodes_sound k ns \<Longrightarrow> k \<le> k' \<Longrightarrow> nodes_sound k' ns"
  by (auto simp: nodes_sound_def)

definition ids_below :: "fleet \<Rightarrow> bool" where
  "ids_below db = (\<forall>g \<in> set (gpus (fl_gpu db)). gpu_id g < fl_next db)"

text \<open>Everything but the GPU rows and the counter is left alone.\<close>

definition only_gpus :: "fleet \<Rightarrow> fleet \<Rightarrow> bool" where
  "only_gpus db db1 = (fl_nodes db1 = fl_nodes db \<and> metrics (fl_gpu db1) = metrics (fl_gpu db)
     \<and> allocations (fl_gpu db1) = allocations (fl_gpu db) \<and> fl_processes db1 = fl_processes db
     \<and> fl_events db1 = fl_events db \<and> fl_containers db1 = fl_containers db
     \<and> fl_enrollments db1 = fl_enrollments db \<and> fl_trail db1 = fl_trail db \<and> fl_next db \<le> fl_next db1)"

lemma upsert_device_frame:
  "only_gpus (fst s) (fst (upsert_device nid d s)) \<and> (ids_below (fst s) \<longrightarrow> ids_below (fst (upsert_device nid d s)))"
  by (cases s) (auto simp: upsert_device_def only_gpus_def ids_below_def set_update_rows split: option.splits)

lemma upsert_devices_frame:
  "upsert_devices nid vs s = Inr s1 \<Longrightarrow>
     only_gpus (fst s) (fst s1) \<and> (ids_below (fst s) \<longrightarrow> ids_below (fst s1))"
proof (induction vs arbitrary: s)
  case Nil
  then show ?case by (simp add: only_gpus_def)
next
  case (Cons v vs)
  then obtain d where "read_device v = Inr d" "upsert_devices nid vs (upsert_device nid d s) = Inr s1"
    by (auto split: sum.splits)
  from Cons.IH [OF this(2)] upsert_device_frame [of s nid d] show ?case
    unfolding only_gpus_def by fastforce
qed

lemma put_status_sound:
  assumes "gpus_sound k gs" "g \<in> set gs"
  shows "gpus_sound k (update_rows (\<lambda>r. gpu_id r = gpu_id g) (\<lambda>_. g\<lparr>gpu_status := st\<rparr>) gs)"
proof -
  have ids: "distinct (map gpu_id gs)" using assms(1) by (simp add: gpus_sound_def)
  have "update_rows (\<lambda>r. gpu_id r = gpu_id g) (\<lambda>_. g\<lparr>gpu_status := st\<rparr>) gs
      = update_rows (\<lambda>r. gpu_id r = gpu_id g) (gpu_status_update (\<lambda>_. st)) gs"
    unfolding update_rows_def using distinct_key_unique [OF ids _ assms(2)] by (intro map_cong) auto
  moreover have "gpus_sound k (update_rows p (gpu_status_update (\<lambda>_. st)) gs)" for p
    using assms(1) by (auto simp: gpus_sound_def map_update_rows gpu_slot_def set_update_rows)
  ultimately show ?thesis by simp
qed

lemma record_sample_step:
  assumes "record_sample now nid nm v s = Inr s1"
  shows "sync_step (fst s) (fst s1)"
proof -
  obtain db res where s: "s = (db, res)" by (cases s)
  consider "s1 = s"
    | g m where "g \<in> set (gpus (fl_gpu db))"
        "fst s1 = db\<lparr>fl_gpu := (fl_gpu db)\<lparr>metrics := m\<rparr>\<rparr>"
    | g m st ev where "g \<in> set (gpus (fl_gpu db))"
        "fst s1 = (put_gpu (g\<lparr>gpu_status := st\<rparr>) (db\<lparr>fl_gpu := (fl_gpu db)\<lparr>metrics := m\<rparr>\<rparr>))\<lparr>fl_events := ev\<rparr>"
    using assms unfolding s record_sample_def
    by (auto simp: Let_def split: json.splits option.splits if_splits dest!: find_row_Some)
  then show ?thesis
  proof cases
    case 1
    then show ?thesis by simp
  next
    case 2
    then show ?thesis by (simp add: s sync_step_def same_fleet_def fleet_sound_def)
  next
    case (3 g m st ev)
    have "gpus_sound k (gpus (fl_gpu db)) \<Longrightarrow>
        gpus_sound k (update_rows (\<lambda>r. gpu_id r = gpu_id g) (\<lambda>_. g\<lparr>gpu_status := st\<rparr>) (gpus (fl_gpu db)))" for k
      by (rule put_status_sound [OF _ 3(1)])
    then show ?thesis by (simp add: s 3(2) put_gpu_def sync_step_def same_fleet_def fleet_sound_def)
  qed
qed

lemma record_samples_step: "record_samples now nid nm vs s = Inr s1 \<Longrightarrow> sync_step (fst s) (fst s1)"
proof (induction vs arbitrary: s)
  case (Cons v vs)
  then obtain s0 where "record_sample now nid nm v s = Inr s0" "record_samples now nid nm vs s0 = Inr s1"
    by (auto split: sum.splits)
  from sync_step_trans [OF record_sample_step [OF this(1)] Cons.IH [OF this(2)]] show ?case .
qed simp

lemma store_gpus_step:
  assumes "store_gpus now nid nm payload s = Inr s1"
  shows "sync_step (fst s) (fst s1)"
proof -
  obtain db res where s: "s = (db, res)" by (cases s)
  let ?s1 = "(db, res\<lparr>sr_gpus_seen := length (list_field payload ''devices'')\<rparr>)"
  from assms obtain s2 rows db3 res3 ps where
      up: "upsert_devices nid (list_field payload ''devices'') ?s1 = Inr s2"
    and fl: "flush_gpus (gpus (fl_gpu db)) (gpus (fl_gpu (fst s2))) = Some rows"
    and sm: "record_samples now nid nm (list_field payload ''metrics'')
        ((fst s2)\<lparr>fl_gpu := (fl_gpu (fst s2))\<lparr>gpus := rows\<rparr>\<rparr>, snd s2) = Inr (db3, res3)"
    and s1: "fst s1 = db3\<lparr>fl_processes := ps\<rparr>"
    unfolding s store_gpus_def Let_def by (auto split: sum.splits option.splits)
  let ?mid = "(fst s2)\<lparr>fl_gpu := (fl_gpu (fst s2))\<lparr>gpus := rows\<rparr>\<rparr>"
  from upsert_devices_frame [OF up] have og: "only_gpus db (fst s2)"
    and ib: "ids_below db \<Longrightarrow> ids_below (fst s2)" by simp_all
  have "fleet_sound ?mid" if "fleet_sound db"
  proof -
    from that have g: "gpus_sound (fl_next db) (gpus (fl_gpu db))" and n: "nodes_sound (fl_next db) (fl_nodes db)"
      and c: "distinct (map container_key (fl_containers db))" by (simp_all add: fleet_sound_def)
    from g have "ids_below db" by (simp add: gpus_sound_def ids_below_def)
    then have "\<forall>x \<in> set (gpus (fl_gpu (fst s2))). gpu_id x < fl_next (fst s2)" using ib by (simp add: ids_below_def)
    with flush_gpus_sound [OF fl gpus_sound_mono [OF g]] og
    have "gpus_sound (fl_next (fst s2)) rows" by (simp add: only_gpus_def)
    with og n c show ?thesis
      by (auto simp: fleet_sound_def only_gpus_def intro: nodes_sound_mono)
  qed
  then have "sync_step db ?mid"
    using og by (simp add: sync_step_def same_fleet_def only_gpus_def)
  moreover have "sync_step ?mid db3" using record_samples_step [OF sm] by simp
  moreover have "sync_step db3 (fst s1)" by (simp add: s1 sync_step_def same_fleet_def fleet_sound_def)
  ultimately show ?thesis unfolding s using sync_step_trans by (metis fst_conv)
qed

section \<open>Containers\<close>

lemma container_fields_key [simp]: "container_key (container_fields now payload c) = container_key c"
  by (simp add: container_key_def container_fields_def)

lemma store_containers_keys:
  "store_containers now nid known vs rows = Inr (rows1, seen) \<Longrightarrow>
     distinct (map container_key rows) \<Longrightarrow> distinct (map container_key rows1)"
proof (induction now nid known vs rows arbitrary: rows1 seen rule: store_containers.induct)
  case (2 now nid known v vs rows)
  obtain payload where v: "v = JObj payload" using 2(2) by (cases v) simp_all
  obtain cid where cid: "text_opt payload ''id'' = Some cid"
    using 2(2) unfolding v by (cases "text_opt payload ''id''") simp_all
  have ok: "\<not> (cid \<notin> known \<and> (\<exists>c \<in> set rows. ct_node c = nid \<and> ct_id c = cid))"
    using 2(2) unfolding v by (simp add: cid split: if_splits)
  let ?next = "if cid \<in> known
      then update_rows (\<lambda>c. ct_node c = nid \<and> ct_id c = cid) (container_fields now payload) rows
      else rows @ [container_fields now payload (new_container nid cid)]"
  obtain seen1 where rest: "store_containers now nid known vs ?next = Inr (rows1, seen1)"
    using 2(2) ok unfolding v by (auto simp: cid map_sum_def split: sum.splits if_splits)
  have key: "container_key (new_container nid cid) = (nid, cid)"
    by (simp add: container_key_def new_container_def)
  have "distinct (map container_key ?next)"
  proof (cases "cid \<in> known")
    case True
    with 2(3) show ?thesis by (simp add: map_update_rows)
  next
    case False
    with ok have "(nid, cid) \<notin> container_key ` set rows" by (auto simp: container_key_def)
    with False 2(3) key show ?thesis by simp
  qed
  from 2(1) [OF v cid ok rest this] show ?case .
qed simp

lemma sync_containers_step:
  "sync_containers now net t nid s w = ((e, s1), w1) \<Longrightarrow> sync_step (fst s) (fst s1)"
  unfolding sync_containers_def Let_def
  by (auto simp: sync_step_def same_fleet_def fleet_sound_def delete_missing_def
      split: prod.splits sum.splits if_splits
      intro!: distinct_map_filter dest!: store_containers_keys)

lemma sync_system_step: "sync_system net t nid s w = ((e, s1), w1) \<Longrightarrow> sync_step (fst s) (fst s1)"
  unfolding sync_system_def Let_def
  by (auto split: prod.splits sum.splits
      intro!: with_node_step keeps_identity_fields sync_step_trans [OF with_node_step with_node_step])

lemma sync_gpus_step: "sync_gpus now net t nid nm s w = ((e, s1), w1) \<Longrightarrow> sync_step (fst s) (fst s1)"
  unfolding sync_gpus_def
  by (auto split: prod.splits sum.splits if_splits dest!: store_gpus_step
      intro!: with_node_step keeps_identity_fields intro: sync_step_trans [OF with_node_step])

section \<open>A node, the sweep, the jobs\<close>

definition section_ok :: "(work \<Rightarrow> 'w section_run) \<Rightarrow> bool" where
  "section_ok sec = (\<forall>s w e s1 w1. sec s w = ((e, s1), w1) \<longrightarrow> sync_step (fst s) (fst s1))"

lemma sections_ok:
  "section_ok (sync_system net t nid)" "section_ok (sync_gpus now net t nid nm)"
  "section_ok (sync_containers now net t nid)"
  unfolding section_ok_def
  by (intro allI impI, erule sync_system_step, intro allI impI, erule sync_gpus_step,
      intro allI impI, erule sync_containers_step)

lemma run_sections_step:
  assumes "list_all section_ok secs"
    and "run_sections nid secs s w = (Done s1, w1)"
  shows "sync_step (fst s) (fst s1)"
  using assms
proof (induction secs arbitrary: s w)
  case (Cons sec secs)
  obtain e s0 w0 where run: "sec s w = ((e, s0), w0)" by (metis prod.exhaust)
  have first: "sync_step (fst s) (fst s0)" using Cons.prems(1) run unfolding list_all_iff list.set section_ok_def by blast
  show ?case
  proof (cases e)
    case None
    with run Cons.prems(2) have "run_sections nid secs s0 w0 = (Done s1, w1)" by simp
    from sync_step_trans [OF first Cons.IH [OF _ this]] Cons.prems(1) show ?thesis by simp
  next
    case (Some x)
    show ?thesis
    proof (cases x)
      case (Agent_Raise k m st)
      with Some run Cons.prems(2) have "run_sections nid secs
            (with_node nid (\<lambda>n. n\<lparr>node_status := DEGRADED\<rparr>) (fst s0),
             (snd s0)\<lparr>sr_status := DEGRADED, sr_error := Some (take 300 m)\<rparr>) w0 = (Done s1, w1)"
        by (cases s0) simp
      from Cons.IH [OF _ this] Cons.prems(1) have "sync_step (with_node nid (\<lambda>n. n\<lparr>node_status := DEGRADED\<rparr>) (fst s0)) (fst s1)" by simp
      with first show ?thesis
        by (blast intro: sync_step_trans with_node_step keeps_identity_fields)
    next
      case (Other_Raise m)
      with Some run Cons.prems(2) show ?thesis by (cases s0) simp
    qed
  qed
qed simp

lemma sync_node_step:
  assumes "sync_node env net n tok db w = (Done (db1, res), w1)"
  shows "sync_step db db1"
proof (cases "client_for env n tok")
  case (Inl e)
  with assms show ?thesis
    by (auto simp: sync_node_def Let_def split: app_error.splits intro!: with_node_step keeps_identity_fields)
next
  case (Inr t)
  obtain a w0 where h: "agent_health net t w = (a, w0)" by fastforce
  show ?thesis
  proof (cases a)
    case (Inl e)
    with Inr h assms show ?thesis
      by (auto simp: sync_node_def Let_def unhealthy_def split: agent_raise.splits agent_kind.splits
          intro!: with_node_step keeps_identity_fields)
  next
    case (Inr health)
    let ?secs = "[sync_system net t (node_id n), sync_gpus (fe_now env) net t (node_id n) (node_name n),
        sync_containers (fe_now env) net t (node_id n)]"
    from \<open>client_for env n tok = Inr t\<close> Inr h assms obtain r where
      run: "run_sections (node_id n) ?secs (with_node (node_id n) (health_fields (fe_now env) health) db, r) w0
            = (Done (db1, res), w1)"
      by (simp add: sync_node_def Let_def)
    have "list_all section_ok ?secs" by (simp add: sections_ok)
    from run_sections_step [OF this run]
    have "sync_step (with_node (node_id n) (health_fields (fe_now env) health) db) db1" by simp
    then show ?thesis
      by (blast intro: sync_step_trans with_node_step keeps_identity_fields)
  qed
qed

lemma sweep_nodes_step: "sweep_nodes env net ns db w = (Done (rs, db1), w1) \<Longrightarrow> sync_step db db1"
proof (induction ns arbitrary: db w rs)
  case (Cons n ns)
  obtain o0 w0 where run: "sync_node env net n None db w = (o0, w0)" by fastforce
  with Cons.prems obtain db0 res where o0: "o0 = Done (db0, res)" by (cases o0) auto
  with run Cons.prems obtain rs0 where "sweep_nodes env net ns db0 w0 = (Done (rs0, db1), w1)"
    by (auto split: prod.splits outcome.splits)
  from sync_step_trans [OF sync_node_step [OF run [unfolded o0]] Cons.IH [OF this]] show ?case .
qed simp

lemma sync_nodes_step: "sync_step db (fst (sync_nodes env net running db w))"
  by (auto simp: sync_nodes_def split: prod.splits outcome.splits dest: sweep_nodes_step)

section \<open>Registering, accepting and removing\<close>

definition node_names :: "fleet \<Rightarrow> (uuid \<times> string) set" where
  "node_names db = (\<lambda>n. (node_id n, node_name n)) ` set (fl_nodes db)"

lemma node_names_same: "same_fleet db db1 \<Longrightarrow> node_names db1 = node_names db"
proof -
  have pairs: "node_names d = set (zip (map node_id (fl_nodes d)) (map node_name (fl_nodes d)))" for d
    by (simp add: node_names_def zip_map_map zip_same_conv_map)
  assume "same_fleet db db1"
  then show ?thesis unfolding pairs same_fleet_def by simp
qed

lemma put_node_names:
  assumes "fleet_sound db" "n0 \<in> set (fl_nodes db)" "node_id n = node_id n0" "node_name n = node_name n0"
  shows "fleet_sound (put_node n db)" "node_names (put_node n db) = node_names db"
proof -
  have d: "distinct (map node_id (fl_nodes db))" using assms(1) by (simp add: fleet_sound_def nodes_sound_def)
  have same: "r = n0" if "r \<in> set (fl_nodes db)" "node_id r = node_id n" for r
    using distinct_key_unique [OF d that(1) assms(2)] that(2) assms(3) by simp
  have "map node_id (fl_nodes (put_node n db)) = map node_id (fl_nodes db)"
    by (auto simp: put_node_def update_rows_def)
  moreover have "map node_name (fl_nodes (put_node n db)) = map node_name (fl_nodes db)"
    unfolding put_node_def update_rows_def using same assms(4) by (auto simp: map_idI)
  ultimately show "fleet_sound (put_node n db)" "node_names (put_node n db) = node_names db"
  proof -
    assume i: "map node_id (fl_nodes (put_node n db)) = map node_id (fl_nodes db)"
      and m: "map node_name (fl_nodes (put_node n db)) = map node_name (fl_nodes db)"
    from assms(1) i m show "fleet_sound (put_node n db)"
      by (simp add: fleet_sound_def nodes_sound_map) (simp add: put_node_def)
    have pairs: "node_names d = set (zip (map node_id (fl_nodes d)) (map node_name (fl_nodes d)))" for d
      by (simp add: node_names_def zip_map_map zip_same_conv_map)
    from i m show "node_names (put_node n db) = node_names db" unfolding pairs by simp
  qed
qed

text \<open>What accepting leaves: a sound fleet with the node in it under its name; nodes that were
  there keep theirs.\<close>

definition grown :: "fleet \<Rightarrow> fleet \<Rightarrow> bool" where
  "grown db db1 = (fleet_sound db1 \<and> fl_next db \<le> fl_next db1 \<and> fl_enrollments db1 = fl_enrollments db
     \<and> (\<forall>i nm. (i, nm) \<in> node_names db1 \<longrightarrow> i < fl_next db \<longrightarrow> (i, nm) \<in> node_names db))"

lemma sync_step_grown: "sync_step db db1 \<Longrightarrow> fleet_sound db \<Longrightarrow> grown db db1"
  unfolding sync_step_def grown_def using node_names_same [of db db1] by (simp add: same_fleet_def)

lemma accepted_row_grown:
  assumes "accepted_row env a db = Some (n, db1)" "fleet_sound db"
    "\<And>n0. ac_existing a = Some n0 \<Longrightarrow> n0 \<in> set (fl_nodes db)"
  shows "grown db db1 \<and> (node_id n, node_name n) \<in> node_names db1 \<and> node_id n < fl_next db1
    \<and> node_name n = (case ac_existing a of None \<Rightarrow> ac_name a | Some n0 \<Rightarrow> node_name n0)"
proof (cases "ac_existing a")
  case None
  with assms(1) have n: "n = fresh_node env a (fl_next db)"
    and db1: "db1 = db\<lparr>fl_nodes := fl_nodes db @ [n], fl_next := fl_next db + 1\<rparr>"
    and free: "get_by_name (ac_name a) (fl_nodes db) = None"
    by (auto simp: accepted_row_def Let_def split: if_splits)
  have "ac_name a \<notin> node_name ` set (fl_nodes db)"
    using free by (auto simp: get_by_name_def find_row_None)
  moreover have "fl_next db \<notin> node_id ` set (fl_nodes db)"
    using assms(2) by (auto simp: fleet_sound_def nodes_sound_def)
  ultimately have "fleet_sound db1"
    using assms(2) by (auto simp: db1 n fleet_sound_def nodes_sound_def fresh_node_def gpus_sound_def)
  then show ?thesis using None by (auto simp: grown_def db1 n node_names_def fresh_node_def)
next
  case (Some n0)
  with assms(1) have n: "n = rotated_node env a n0" and db1: "db1 = put_node n db"
    by (auto simp: accepted_row_def)
  from assms(3) [OF Some] have n0: "n0 \<in> set (fl_nodes db)" .
  have same: "node_id n = node_id n0" "node_name n = node_name n0" by (simp_all add: n rotated_node_def)
  have "node_id n0 < fl_next db" using assms(2) n0 by (auto simp: fleet_sound_def nodes_sound_def)
  then show ?thesis
    using put_node_names [OF assms(2) n0 same] n0 same Some
    by (auto simp: grown_def db1 put_node_def node_names_def)
qed

lemma fleet_record_grown: "fleet_sound db \<Longrightarrow> grown db (fleet_record act u nm t i m db)"
  by (simp add: grown_def fleet_record_def fleet_sound_def node_names_def)

lemma grown_trans: "grown a b \<Longrightarrow> grown b c \<Longrightarrow> grown a c"
  unfolding grown_def by (metis order_trans order_less_le_trans)

lemma accept_node_grown:
  assumes "accept_node env net a db w = (Done ((n, res), db3), w1)" "fleet_sound db"
    "\<And>n0. ac_existing a = Some n0 \<Longrightarrow> n0 \<in> set (fl_nodes db)"
  shows "grown db db3 \<and> (node_id n, node_name n) \<in> node_names db3 \<and> node_id n < fl_next db3
    \<and> node_name n = (case ac_existing a of None \<Rightarrow> ac_name a | Some n0 \<Rightarrow> node_name n0)"
proof -
  obtain n1 db1 where row: "accepted_row env a db = Some (n1, db1)"
    using assms(1) by (auto simp: accept_node_def split: option.splits)
  obtain db2 w2 where run: "sync_node env net n1 (Some (ac_token a)) db1 w = (Done (db2, res), w2)"
    and n: "n = given (get_node (node_id n1) (fl_nodes db2)) n1"
    and db3: "\<exists>act u nm t i m. db3 = fleet_record act u nm t i m db2"
    using assms(1) by (auto simp: accept_node_def row Let_def split: outcome.splits prod.splits) blast
  from accepted_row_grown [OF row assms(2,3)] have g1: "grown db db1"
    and in1: "(node_id n1, node_name n1) \<in> node_names db1" and lt: "node_id n1 < fl_next db1"
    and nm: "node_name n1 = (case ac_existing a of None \<Rightarrow> ac_name a | Some n0 \<Rightarrow> node_name n0)" by auto
  from sync_node_step [OF run] have step: "sync_step db1 db2" .
  have g2: "grown db1 db2" using sync_step_grown [OF step] g1 by (simp add: grown_def)
  have in2: "(node_id n1, node_name n1) \<in> node_names db2"
    using node_names_same [of db1 db2] step in1 by (simp add: sync_step_def)
  have d: "distinct (map node_id (fl_nodes db2))" using g2 by (simp add: grown_def fleet_sound_def nodes_sound_def)
  from in2 obtain r where r: "r \<in> set (fl_nodes db2)" "node_id r = node_id n1" "node_name r = node_name n1"
    by (auto simp: node_names_def)
  have "get_node (node_id n1) (fl_nodes db2) = Some r"
    using find_row_unique [OF d r(1)] r(2) by (simp add: get_node_def)
  then have n_eq: "node_id n = node_id n1" "node_name n = node_name n1" using n r by (simp_all add: given_def)
  from db3 obtain act u nm' t i m where db3_eq: "db3 = fleet_record act u nm' t i m db2" by blast
  have g3: "grown db2 db3" unfolding db3_eq using g2 by (intro fleet_record_grown) (simp add: grown_def)
  have "node_names db3 = node_names db2" by (simp add: db3_eq fleet_record_def node_names_def)
  moreover have "fl_next db1 \<le> fl_next db3" using g2 g3 by (simp add: grown_def)
  ultimately show ?thesis
    using grown_trans [OF grown_trans [OF g1 g2] g3] in2 lt nm n_eq by auto
qed

lemma cascade_sound: "fleet_sound db \<Longrightarrow> fleet_sound (cascade_node nid db)"
  by (auto simp: fleet_sound_def nodes_sound_def gpus_sound_def cascade_node_def Let_def intro: distinct_map_filter)

lemma cascade_names: "node_names (cascade_node nid db) \<subseteq> node_names db"
  by (auto simp: node_names_def cascade_node_def Let_def)

lemma mark_stale_step: "sync_step db (mark_stale_nodes env poll db)"
  unfolding mark_stale_nodes_def Let_def sync_step_def same_fleet_def fleet_sound_def nodes_sound_map
  by (simp add: map_update_rows mark_stale_def)

lemma purge_metrics_step: "sync_step db (purge_metrics env days db)"
  by (simp add: purge_metrics_def purge_old_metrics_def delete_metrics_older_than_def sync_step_def
      same_fleet_def fleet_sound_def)

end
