(* ===== verification/Enrollment_Properties.thy ===== *)
theory Enrollment_Properties
  imports Enrollment Fleet_Invariant
begin

text \<open>
  What enrolment promises, over every interleaving of requests: a token makes at most one node,
  with the name it was issued for; the control plane only contacts addresses it vetted; every
  probe is paid for with an attempt.  A state of \<open>campus\<close> is the committed tables with the
  requests under way and two ghosts: the tokens ever issued, and the nodes tokens have made.
\<close>

section \<open>Where requests go\<close>

definition only_to :: "agent_target \<Rightarrow> 'w wire \<Rightarrow> 'w wire \<Rightarrow> bool" where
  "only_to t w w1 = (\<exists>rs. wire_sent w1 = wire_sent w @ map (Pair t) rs)"

lemma only_to_refl [simp]: "only_to t w w"
  by (simp add: only_to_def)

lemma only_to_trans: "only_to t a b \<Longrightarrow> only_to t b c \<Longrightarrow> only_to t a c"
  unfolding only_to_def by (metis append.assoc map_append)

lemma only_to_dict: "request_dict net t rq w = (r, w1) \<Longrightarrow> only_to t w w1"
  unfolding only_to_def using request_dict_sent [of net t rq w] by (intro exI [of _ "[rq]"]) simp

lemma only_to_agent:
  "agent_health net t w = (r, w1) \<Longrightarrow> only_to t w w1"
  "agent_system net t w = (r, w1) \<Longrightarrow> only_to t w w1"
  "agent_docker net t w = (r, w1) \<Longrightarrow> only_to t w w1"
  "agent_gpus net t w = (r, w1) \<Longrightarrow> only_to t w w1"
  by (auto simp: agent_health_def agent_system_def agent_docker_def agent_gpus_def intro: only_to_dict)

lemma only_to_containers: "agent_containers net t b w = (r, w1) \<Longrightarrow> only_to t w w1"
proof -
  let ?rq = "(read_request ''/containers'' default_timeout)\<lparr>rq_params := [(''managed_only'', bool_text b)]\<rparr>"
  assume "agent_containers net t b w = (r, w1)"
  then have "wire_sent w1 = wire_sent w @ [(t, ?rq)]"
    using then_pure_sent [of "send_request net t ?rq" as_list w] send_request_sent [of net t ?rq w]
    by (simp add: agent_containers_def)
  then show ?thesis unfolding only_to_def by (intro exI [of _ "[?rq]"]) simp
qed

lemma sections_only_to:
  "sync_system net t nid s w = (r, w1) \<Longrightarrow> only_to t w w1"
  "sync_gpus now net t nid nm s w = (r, w1) \<Longrightarrow> only_to t w w1"
  "sync_containers now net t nid s w = (r, w1) \<Longrightarrow> only_to t w w1"
proof -
  show "sync_system net t nid s w = (r, w1) \<Longrightarrow> only_to t w w1"
    unfolding sync_system_def Let_def
    by (auto split: prod.splits sum.splits dest!: only_to_agent intro: only_to_trans)
  show "sync_gpus now net t nid nm s w = (r, w1) \<Longrightarrow> only_to t w w1"
    unfolding sync_gpus_def by (auto split: prod.splits sum.splits if_splits dest!: only_to_agent)
  show "sync_containers now net t nid s w = (r, w1) \<Longrightarrow> only_to t w w1"
    unfolding sync_containers_def Let_def
    by (auto split: prod.splits sum.splits dest!: only_to_containers)
qed

definition goes_to :: "agent_target \<Rightarrow> (work \<Rightarrow> 'w section_run) \<Rightarrow> bool" where
  "goes_to t sec = (\<forall>s w r w1. sec s w = (r, w1) \<longrightarrow> only_to t w w1)"

lemma sections_go_to:
  "goes_to t (sync_system net t nid)" "goes_to t (sync_gpus now net t nid nm)"
  "goes_to t (sync_containers now net t nid)"
  unfolding goes_to_def
  by (intro allI impI, erule sections_only_to, intro allI impI, erule sections_only_to,
      intro allI impI, erule sections_only_to)

lemma run_sections_only_to:
  "list_all (goes_to t) secs \<Longrightarrow> run_sections nid secs s w = (r, w1) \<Longrightarrow> only_to t w w1"
proof (induction secs arbitrary: s w)
  case (Cons sec secs)
  obtain e s0 w0 where run: "sec s w = ((e, s0), w0)" by (metis prod.exhaust)
  have first: "only_to t w w0" using Cons.prems(1) run unfolding list_all_iff list.set goes_to_def by blast
  obtain s2 where "run_sections nid secs s2 w0 = (r, w1) \<or> w1 = w0"
    using Cons.prems(2) run by (cases s0) (auto split: option.splits agent_raise.splits)
  then show ?case using first Cons.IH [of s2 w0] Cons.prems(1) by (auto intro: only_to_trans)
qed simp

lemma sync_node_only_to:
  assumes "sync_node env net n tok db w = (r, w1)"
  shows "w1 = w \<or> (\<exists>t. client_for env n tok = Inr t \<and> only_to t w w1)"
proof (cases "client_for env n tok")
  case (Inl e)
  with assms show ?thesis by (auto simp: sync_node_def Let_def split: app_error.splits)
next
  case (Inr t)
  obtain a w0 where h: "agent_health net t w = (a, w0)" by fastforce
  from only_to_agent(1) [OF h] have first: "only_to t w w0" .
  have secs: "list_all (goes_to t) [sync_system net t (node_id n),
      sync_gpus (fe_now env) net t (node_id n) (node_name n), sync_containers (fe_now env) net t (node_id n)]"
    by (simp add: sections_go_to)
  show ?thesis
  proof (cases a)
    case (Inl e)
    with Inr h assms first show ?thesis
      by (auto simp: sync_node_def Let_def split: agent_raise.splits agent_kind.splits)
  next
    case (Inr health)
    with \<open>client_for env n tok = Inr t\<close> h assms first run_sections_only_to [OF secs] show ?thesis
      by (auto simp: sync_node_def Let_def intro: only_to_trans)
  qed
qed

lemma accept_node_only_to:
  assumes "accept_node env net a db w = (r, w1)"
  shows "only_to (build_client (ac_url a) (ac_token a) (ac_verify_tls a)) w w1"
proof (cases "accepted_row env a db")
  case None
  with assms show ?thesis by (simp add: accept_node_def)
next
  case (Some p)
  obtain n db1 where p: "p = (n, db1)" by (cases p)
  have n: "agent_url n = ac_url a" "agent_verify_tls n = ac_verify_tls a"
    using Some unfolding p accepted_row_def
    by (auto simp: rotated_node_def fresh_node_def Let_def split: option.splits if_splits)
  obtain r0 w0 where run: "sync_node env net n (Some (ac_token a)) db1 w = (r0, w0)" by fastforce
  with assms have "w1 = w0"
    by (auto simp: accept_node_def Some p Let_def split: outcome.splits prod.splits)
  with sync_node_only_to [OF run] n show ?thesis by (auto simp: client_for_def)
qed

lemma probe_agent_only_to:
  "probe_agent net url tok v w = (r, w1) \<Longrightarrow> only_to (build_client url tok v) w w1"
  unfolding probe_agent_def
  by (auto split: prod.splits sum.splits agent_raise.splits dest!: only_to_agent(1))

lemma claim_and_accept_only_to:
  assumes "claim_and_accept env net en rq target health ex db w = (r, w1)"
  shows "only_to (build_client (aa_url target) (er_agent_token rq) (en_verify_tls en)) w w1"
proof (cases "claim_token (ee_now env) (en_hash en) (er_source rq) db")
  case None
  with assms show ?thesis by (simp add: claim_and_accept_def refuse_def)
next
  case (Some db1)
  with assms show ?thesis
    unfolding claim_and_accept_def Let_def
    by (simp split: outcome.splits prod.splits) (auto dest!: accept_node_only_to)
qed

lemma probe_and_claim_only_to:
  assumes "probe_and_claim env net en rq target db w = (r, w1)"
  shows "only_to (build_client (aa_url target) (er_agent_token rq) (en_verify_tls en)) w w1"
proof -
  obtain a w0 where p: "probe_agent net (aa_url target) (er_agent_token rq) (en_verify_tls en) w = (a, w0)"
    by fastforce
  from probe_agent_only_to [OF p]
  have first: "only_to (build_client (aa_url target) (er_agent_token rq) (en_verify_tls en)) w w0" .
  have "w1 = w0 \<or> (\<exists>health ex. claim_and_accept env net en rq target health ex db w0 = (r, w1))"
    using assms unfolding probe_and_claim_def p
    by (auto simp: refuse_def Let_def split: outcome.splits sum.splits app_error.splits option.splits if_splits)
  with first show ?thesis by (auto dest!: claim_and_accept_only_to intro: only_to_trans)
qed

text \<open>The three ways \<open>consume\<close> goes: nothing is sent; the address is refused; it is vetted and
  what follows only contacts it.\<close>

lemma consume_cases:
  assumes "consume env net en rq db w = (r, w1)"
  obtains (refused) e where "r = (Done (Inl e), db)" "w1 = w"
  | (crashed) e where "r = (Raised e, db)" "w1 = w"
  | (noted) e m url where "r = (Done (Inl e), note_failure env en m url db)" "w1 = w"
  | (vetted) target where "fetchable (ee_lib env) (ee_cfg env) target"
      "probe_and_claim env net en rq target db w = (r, w1)"
proof -
  have "validate_agent_url (ee_lib env) (ee_cfg env) c \<noteq> Diverges" for c
    by (simp add: validate_agent_url_def Let_def split: option.splits)
  then show ?thesis
    using assms unfolding consume_def refuse_def Let_def
    by (auto split: if_splits sum.splits outcome.splits dest!: validated_fetchable intro: that)
qed

section \<open>Accounting of attempts\<close>

lemma find_update_id:
  assumes "\<And>e. en_id (f e) = en_id e" "enrollment_with i db = Some e"
  shows "enrollment_with i (set_enrollment i f db) = Some (f e)"
proof -
  have "find_row (\<lambda>e. en_id e = i) (update_rows (\<lambda>e. en_id e = i) f (fl_enrollments db))
      = map_option (\<lambda>r. if en_id r = i then f r else r) (find_row (\<lambda>e. en_id e = i) (fl_enrollments db))"
    by (rule find_row_update_same) (auto simp: assms(1))
  with assms(2) find_row_Some [OF assms(2) [unfolded enrollment_with_def]] show ?thesis
    by (simp add: enrollment_with_def set_enrollment_def put_enrollments_def)
qed

lemma failed_row_fields [simp]:
  "en_id (failed_row env m url r) = en_id r" "en_hash (failed_row env m url r) = en_hash r"
  "en_name (failed_row env m url r) = en_name r" "en_node (failed_row env m url r) = en_node r"
  "en_attempts (failed_row env m url r) = en_attempts r + 1"
  by (simp_all add: failed_row_def Let_def)

lemma failed_row_status:
  "en_status (failed_row env m url r) =
     (if es_max_attempts (ee_cfg env) \<le> en_attempts r + 1 then E_REVOKED else en_status r)"
  by (simp add: failed_row_def Let_def)

lemma note_failure_row:
  "enrollment_with (en_id en) db = Some e \<Longrightarrow>
     enrollment_with (en_id en) (note_failure env en m url db) = Some (failed_row env m url e)"
  unfolding note_failure_def
  by (rule find_update_id) (simp_all add: add_entry_def enrollment_with_def)

section \<open>The protocol as a machine\<close>

record campus =
  cm_db :: fleet
  cm_flight :: "enrollment list"
  cm_issued :: "string list"
  cm_made :: "(enrollment \<times> node) list"

text \<open>Requests and jobs in any order, each with its own clock and settings; a request that
  presented its token finishes at any later time, on the tables as they then are.\<close>

inductive campus_step :: "'w agent_net \<Rightarrow> campus \<Rightarrow> campus \<Rightarrow> bool" for net where
  cs_issue: "create_enrollment env iv who (cm_db c) = Done (Inr ((e, tok), db1)) \<Longrightarrow> en_hash e \<notin> set (cm_issued c) \<Longrightarrow>
     campus_step net c (c\<lparr>cm_db := db1, cm_issued := en_hash e # cm_issued c\<rparr>)"
| cs_list: "list_enrollments env st limit offset (cm_db c) = (rows, db1) \<Longrightarrow> campus_step net c (c\<lparr>cm_db := db1\<rparr>)"
| cs_revoke: "revoke_enrollment env i who (cm_db c) = Inr (e, db1) \<Longrightarrow> campus_step net c (c\<lparr>cm_db := db1\<rparr>)"
| cs_sweep: "sweep_enrollments env (cm_db c) = (n, db1) \<Longrightarrow> campus_step net c (c\<lparr>cm_db := db1\<rparr>)"
| cs_present: "resolve_token env presented (cm_db c) = (Inr e, db1) \<Longrightarrow>
     campus_step net c (c\<lparr>cm_db := db1, cm_flight := e # cm_flight c\<rparr>)"
| cs_denied: "resolve_token env presented (cm_db c) = (Inl x, db1) \<Longrightarrow> campus_step net c (c\<lparr>cm_db := db1\<rparr>)"
| cs_made: "e \<in> set (cm_flight c) \<Longrightarrow> consume env net e rq (cm_db c) w = ((Done (Inr (n, res)), db1), w1) \<Longrightarrow>
     campus_step net c (c\<lparr>cm_db := db1, cm_made := (e, n) # cm_made c\<rparr>)"
| cs_failed: "e \<in> set (cm_flight c) \<Longrightarrow> consume env net e rq (cm_db c) w = ((r, db1), w1) \<Longrightarrow>
     (\<forall>n res. r \<noteq> Done (Inr (n, res))) \<Longrightarrow> campus_step net c (c\<lparr>cm_db := db1\<rparr>)"
| cs_register: "register_node fenv net nm url tok desc verify labels who (cm_db c) w = (Done (Inr (r, db1)), w1) \<Longrightarrow>
     campus_step net c (c\<lparr>cm_db := db1\<rparr>)"
| cs_delete: "delete_node nid who (cm_db c) = Inr ((), db1) \<Longrightarrow> campus_step net c (c\<lparr>cm_db := db1\<rparr>)"
| cs_check: "check_node fenv net nid (cm_db c) w = (Done (Inr (db1, res)), w1) \<Longrightarrow> campus_step net c (c\<lparr>cm_db := db1\<rparr>)"
| cs_sync: "campus_step net c (c\<lparr>cm_db := fst (sync_nodes fenv net running (cm_db c) w)\<rparr>)"
| cs_stale: "campus_step net c (c\<lparr>cm_db := mark_stale_nodes fenv poll (cm_db c)\<rparr>)"
| cs_purge: "campus_step net c (c\<lparr>cm_db := purge_metrics fenv days (cm_db c)\<rparr>)"

definition campus_start :: "campus \<Rightarrow> bool" where
  "campus_start c = (fleet_sound (cm_db c) \<and> fl_enrollments (cm_db c) = [] \<and> cm_flight c = []
     \<and> cm_issued c = [] \<and> cm_made c = [])"

section \<open>Its invariant\<close>

text \<open>An invitation names its node rightly: by a key that is taken and, while the node is there,
  under the name the invitation was issued for.\<close>

definition names_right :: "fleet \<Rightarrow> enrollment \<Rightarrow> bool" where
  "names_right db e = (\<forall>i. en_node e = Some i \<longrightarrow> i < fl_next db
     \<and> (\<forall>nm. (i, nm) \<in> node_names db \<longrightarrow> nm = en_name e))"

definition same_invitation :: "enrollment \<Rightarrow> enrollment \<Rightarrow> bool" where
  "same_invitation e r = (en_name r = en_name e \<and> en_hash r = en_hash e)"

definition campus_inv :: "campus \<Rightarrow> bool" where
  "campus_inv c = (let db = cm_db c; rows = fl_enrollments db in
     fleet_sound db \<and> distinct (map en_id rows) \<and> distinct (map en_hash rows)
     \<and> (\<forall>e \<in> set rows. en_id e < fl_next db \<and> en_hash e \<in> set (cm_issued c) \<and> names_right db e)
     \<and> (\<forall>e \<in> set (cm_flight c). en_id e < fl_next db \<and> en_hash e \<in> set (cm_issued c) \<and> names_right db e
          \<and> (\<forall>r \<in> set rows. en_id r = en_id e \<longrightarrow> same_invitation e r))
     \<and> (\<forall>(e, n) \<in> set (cm_made c). node_name n = en_name e \<and> en_hash e \<in> set (cm_issued c)
          \<and> (\<forall>r \<in> set rows. en_hash r = en_hash e \<longrightarrow> en_status r \<noteq> E_PENDING))
     \<and> distinct (map (en_hash \<circ> fst) (cm_made c)))"

text \<open>How the tables may follow: rows are dropped or changed, never to pending and never to
  another invitation; keys stay taken; nodes that were there keep their names.\<close>

definition follows :: "fleet \<Rightarrow> fleet \<Rightarrow> bool" where
  "follows db db1 = (fleet_sound db1 \<and> fl_next db \<le> fl_next db1
     \<and> (\<forall>i nm. (i, nm) \<in> node_names db1 \<longrightarrow> i < fl_next db \<longrightarrow> (i, nm) \<in> node_names db)
     \<and> (\<exists>p f. fl_enrollments db1 = map f (filter p (fl_enrollments db))
          \<and> (\<forall>r \<in> set (fl_enrollments db). en_id (f r) = en_id r \<and> same_invitation r (f r)
               \<and> (en_status (f r) = E_PENDING \<longrightarrow> en_status r = E_PENDING)
               \<and> (en_node (f r) = en_node r \<or> names_right db1 (f r)))))"

lemma names_right_mono:
  assumes "names_right db e" "fl_next db \<le> fl_next db1"
    "\<And>i nm. (i, nm) \<in> node_names db1 \<Longrightarrow> i < fl_next db \<Longrightarrow> (i, nm) \<in> node_names db"
    "en_node e1 = en_node e" "en_name e1 = en_name e"
  shows "names_right db1 e1"
  using assms unfolding names_right_def by (metis order_less_le_trans)

lemma follows_inv:
  assumes inv: "campus_inv c" and fol: "follows (cm_db c) db1"
  shows "campus_inv (c\<lparr>cm_db := db1\<rparr>)"
proof -
  let ?db = "cm_db c" and ?rows = "fl_enrollments (cm_db c)"
  from inv have ids: "distinct (map en_id ?rows)" and hs: "distinct (map en_hash ?rows)"
    and rows: "\<And>e. e \<in> set ?rows \<Longrightarrow> en_id e < fl_next ?db \<and> en_hash e \<in> set (cm_issued c) \<and> names_right ?db e"
    and flight: "\<And>e. e \<in> set (cm_flight c) \<Longrightarrow> en_id e < fl_next ?db \<and> en_hash e \<in> set (cm_issued c)
        \<and> names_right ?db e \<and> (\<forall>r \<in> set ?rows. en_id r = en_id e \<longrightarrow> same_invitation e r)"
    and made: "\<And>e n. (e, n) \<in> set (cm_made c) \<Longrightarrow> node_name n = en_name e \<and> en_hash e \<in> set (cm_issued c)
        \<and> (\<forall>r \<in> set ?rows. en_hash r = en_hash e \<longrightarrow> en_status r \<noteq> E_PENDING)"
    and dm: "distinct (map (en_hash \<circ> fst) (cm_made c))"
    unfolding campus_inv_def Let_def by auto
  from fol obtain p f where snd: "fleet_sound db1" and le: "fl_next ?db \<le> fl_next db1"
    and nm: "\<And>i nm. (i, nm) \<in> node_names db1 \<Longrightarrow> i < fl_next ?db \<Longrightarrow> (i, nm) \<in> node_names ?db"
    and eq: "fl_enrollments db1 = map f (filter p ?rows)"
    and f: "\<And>r. r \<in> set ?rows \<Longrightarrow> en_id (f r) = en_id r \<and> same_invitation r (f r)
        \<and> (en_status (f r) = E_PENDING \<longrightarrow> en_status r = E_PENDING)
        \<and> (en_node (f r) = en_node r \<or> names_right db1 (f r))"
    unfolding follows_def by blast
  have "map en_id (fl_enrollments db1) = map en_id (filter p ?rows)" using f by (simp add: eq)
  then have d1: "distinct (map en_id (fl_enrollments db1))" using ids by (simp add: distinct_map_filter)
  have "map en_hash (fl_enrollments db1) = map en_hash (filter p ?rows)"
    using f by (simp add: eq same_invitation_def)
  then have d2: "distinct (map en_hash (fl_enrollments db1))" using hs by (simp add: distinct_map_filter)
  have right: "names_right db1 (f r)" if "r \<in> set ?rows" for r
    using f [OF that] rows [OF that] names_right_mono [OF _ le nm] by (auto simp: same_invitation_def)
  have r1: "en_id e < fl_next db1 \<and> en_hash e \<in> set (cm_issued c) \<and> names_right db1 e"
    if "e \<in> set (fl_enrollments db1)" for e
  proof -
    from that obtain r where r: "r \<in> set ?rows" "e = f r" by (auto simp: eq)
    with f [OF r(1)] rows [OF r(1)] right [OF r(1)] le show ?thesis by (simp add: same_invitation_def)
  qed
  have r2: "en_id e < fl_next db1 \<and> en_hash e \<in> set (cm_issued c) \<and> names_right db1 e
      \<and> (\<forall>r \<in> set (fl_enrollments db1). en_id r = en_id e \<longrightarrow> same_invitation e r)"
    if e: "e \<in> set (cm_flight c)" for e
  proof -
    have "same_invitation e r" if "r \<in> set (fl_enrollments db1)" "en_id r = en_id e" for r
    proof -
      from that(1) obtain r0 where r0: "r0 \<in> set ?rows" "r = f r0" by (auto simp: eq)
      with f [OF r0(1)] that(2) have "en_id r0 = en_id e" by simp
      with flight [OF e] r0 f [OF r0(1)] show ?thesis by (simp add: same_invitation_def)
    qed
    moreover have "names_right db1 e" using flight [OF e] names_right_mono [OF _ le nm] by blast
    ultimately show ?thesis using flight [OF e] le by simp
  qed
  have r3: "en_status r \<noteq> E_PENDING"
    if m: "(e, n) \<in> set (cm_made c)" and r: "r \<in> set (fl_enrollments db1)" "en_hash r = en_hash e" for e n r
  proof -
    from r(1) obtain r0 where r0: "r0 \<in> set ?rows" "r = f r0" by (auto simp: eq)
    with f [OF r0(1)] r(2) made [OF m] show ?thesis by (auto simp: same_invitation_def)
  qed
  show ?thesis
    unfolding campus_inv_def Let_def using snd d1 d2 r1 r2 r3 made dm by auto
qed

definition gentle :: "(enrollment \<Rightarrow> enrollment) \<Rightarrow> bool" where
  "gentle f = (\<forall>r. en_id (f r) = en_id r \<and> same_invitation r (f r)
     \<and> (en_status (f r) = E_PENDING \<longrightarrow> en_status r = E_PENDING) \<and> en_node (f r) = en_node r)"

lemma follows_rows:
  assumes "fleet_sound db1" "fl_next db1 = fl_next db" "fl_nodes db1 = fl_nodes db"
    "fl_enrollments db1 = map f (filter p (fl_enrollments db))" "gentle f"
  shows "follows db db1"
  unfolding follows_def
  by (intro conjI exI [of _ p] exI [of _ f])
     (use assms in \<open>auto simp: gentle_def node_names_def\<close>)

lemma follows_grown: "grown db db1 \<Longrightarrow> follows db db1"
  unfolding follows_def grown_def
  by (intro conjI exI [of _ "\<lambda>_. True"] exI [of _ id]) (auto simp: same_invitation_def)

lemma follows_refl: "fleet_sound db \<Longrightarrow> follows db db"
  by (rule follows_grown) (simp add: grown_def)

lemma follows_step: "sync_step db db1 \<Longrightarrow> fleet_sound db \<Longrightarrow> follows db db1"
  by (intro follows_grown sync_step_grown)

lemma put_enrollments_sound: "fleet_sound (put_enrollments rows db) = fleet_sound db"
  by (simp add: put_enrollments_def fleet_sound_def)

lemma update_rows_as_map: "update_rows p f rows = map (\<lambda>r. if p r then f r else r) (filter (\<lambda>_. True) rows)"
  by (simp add: update_rows_def)

lemma gentle_if: "gentle f \<Longrightarrow> gentle (\<lambda>r. if p r then f r else r)"
  by (simp add: gentle_def same_invitation_def)

lemma follows_update:
  assumes "fleet_sound db" "gentle f"
  shows "follows db (put_enrollments (update_rows p f (fl_enrollments db)) db)"
  by (rule follows_rows [where p = "\<lambda>_. True", OF _ _ _ _ gentle_if [OF assms(2), of p]])
     (use assms(1) in \<open>simp_all add: put_enrollments_sound update_rows_as_map put_enrollments_def fleet_sound_def\<close>)

lemma gentle_changes:
  "gentle (\<lambda>e. e\<lparr>en_status := E_EXPIRED, en_updated := t\<rparr>)"
  "gentle (\<lambda>e. e\<lparr>en_status := E_CONSUMED, en_consumed_at := a, en_consumed_from := s, en_updated := t\<rparr>)"
  "gentle (\<lambda>e. e\<lparr>en_status := E_REVOKED, en_revoked_at := a, en_revoked_by := b, en_updated := t\<rparr>)"
  "gentle (\<lambda>e. e\<lparr>en_url := u, en_resolved := r, en_updated := t\<rparr>)"
  "gentle (failed_row env m url)"
  by (simp_all add: gentle_def same_invitation_def failed_row_status)

lemma follows_frame:
  assumes "follows db db1" "fl_nodes db2 = fl_nodes db1" "fl_enrollments db2 = fl_enrollments db1"
    "fl_next db2 = fl_next db1" "fl_gpu db2 = fl_gpu db1" "fl_containers db2 = fl_containers db1"
  shows "follows db db2"
  using assms unfolding follows_def fleet_sound_def node_names_def names_right_def by simp

lemma expire_follows: "fleet_sound db \<Longrightarrow> follows db (fst (expire_stale now db))"
  by (simp add: expire_stale_def follows_update gentle_changes)

lemma sweep_follows:
  assumes "fleet_sound db" "sweep_enrollments env db = (n, db1)"
  shows "follows db db1"
proof -
  let ?f = "\<lambda>r. if elapsed (ee_now env) r then r\<lparr>en_status := E_EXPIRED, en_updated := ee_now env\<rparr> else r"
  let ?keep = "\<lambda>e. \<not> (en_status e \<noteq> E_PENDING
      \<and> en_updated e < ee_now env - int (es_retention_days (ee_cfg env)) * 86400 * 1000000)"
  have "fl_enrollments db1 = map ?f (filter (?keep \<circ> ?f) (fl_enrollments db))"
    using assms(2) by (auto simp: sweep_enrollments_def expire_stale_def purge_settled_def Let_def
        put_enrollments_def update_rows_def filter_map)
  moreover have "fleet_sound db1" "fl_next db1 = fl_next db" "fl_nodes db1 = fl_nodes db"
    using assms by (auto simp: sweep_enrollments_def expire_stale_def purge_settled_def Let_def
        put_enrollments_def fleet_sound_def)
  ultimately show ?thesis
    by (intro follows_rows [of db1 db ?f]) (auto intro: gentle_if gentle_changes)
qed

lemma note_failure_follows: "fleet_sound db \<Longrightarrow> follows db (note_failure env en m url db)"
proof -
  assume s: "fleet_sound db"
  have "follows db (put_enrollments (update_rows (\<lambda>e. en_id e = en_id en) (failed_row env m url) (fl_enrollments db)) db)"
    using s by (intro follows_update gentle_changes)
  then show ?thesis
    by (rule follows_frame)
       (simp_all add: note_failure_def set_enrollment_def add_entry_def put_enrollments_def)
qed

lemma denied_follows: "fleet_sound db \<Longrightarrow> resolve_token env presented db = (r, db1) \<Longrightarrow> follows db db1"
  by (rule follows_frame [OF follows_refl])
     (auto simp: resolve_token_def record_denied_def add_entry_def split: if_splits option.splits)

lemma revoke_follows:
  assumes "fleet_sound db" "revoke_enrollment env i by db = Inr (e, db1)"
  shows "follows db db1"
proof (cases "db1 = db")
  case True
  with assms(1) show ?thesis by (simp add: follows_refl)
next
  case False
  let ?f = "\<lambda>r. r\<lparr>en_status := E_REVOKED, en_revoked_at := Some (ee_now env),
      en_revoked_by := Some (actor_id by), en_updated := ee_now env\<rparr>"
  have "follows db (put_enrollments (update_rows (\<lambda>r. en_id r = i) ?f (fl_enrollments db)) db)"
    using assms(1) by (intro follows_update gentle_changes)
  then show ?thesis
    by (rule follows_frame)
       (use assms(2) False in \<open>auto simp: revoke_enrollment_def fleet_record_def set_enrollment_def
          put_enrollments_def Let_def split: sum.splits if_splits\<close>)
qed

lemma delete_follows:
  assumes "fleet_sound db" "delete_node nid by db = Inr ((), db1)"
  shows "follows db db1"
proof -
  have "follows db (cascade_node nid db)"
    unfolding follows_def
    using cascade_sound [OF assms(1), of nid] cascade_names [of nid db]
    by (intro conjI exI [of _ "\<lambda>e. en_node e \<noteq> Some nid"] exI [of _ id])
       (auto simp: same_invitation_def cascade_node_def Let_def)
  then show ?thesis
    by (rule follows_frame)
       (use assms(2) in \<open>auto simp: delete_node_def fleet_record_def split: option.splits\<close>)
qed

lemma register_follows:
  assumes "fleet_sound db" "register_node fenv net nm url tok desc verify labels who db w = (Done (Inr (r, db1)), w1)"
  shows "follows db db1"
proof -
  obtain n res where r: "r = (n, res)" by (cases r)
  obtain a w0 where "accept_node fenv net a db w0 = (Done ((n, res), db1), w1)" "ac_existing a = None"
    using assms(2) unfolding r
    by (auto simp: register_node_def split: if_splits prod.splits outcome.splits sum.splits)
  from accept_node_grown [OF this(1) assms(1)] this(2) show ?thesis by (intro follows_grown) simp
qed

lemma check_follows:
  assumes "fleet_sound db" "check_node fenv net nid db w = (Done (Inr (db1, res)), w1)"
  shows "follows db db1"
proof -
  obtain n where "sync_node fenv net n None db w = (Done (db1, res), w1)"
    using assms(2) by (auto simp: check_node_def split: sum.splits prod.splits outcome.splits)
  from follows_step [OF sync_node_step [OF this] assms(1)] show ?thesis .
qed

section \<open>Finishing an enrolment\<close>

lemma claim_and_accept_cases:
  assumes "claim_and_accept env net en rq target health ex db w = ((r, db4), w1)"
  obtains (no) "db4 = db" "\<forall>n res. r \<noteq> Done (Inr (n, res))"
  | (yes) db1 n res db3 a u resolved where "r = Done (Inr (n, res))"
      "claim_token (ee_now env) (en_hash en) (er_source rq) db = Some db1"
      "accept_node (ee_fleet env) net a
         (set_enrollment (en_id en) (\<lambda>r. r\<lparr>en_url := u, en_resolved := resolved, en_updated := ee_now env\<rparr>) db1) w
         = (Done ((n, res), db3), w1)"
      "ac_name a = en_name en" "ac_existing a = ex"
      "db4 = set_enrollment (en_id en) (\<lambda>r. r\<lparr>en_node := Some (node_id n)\<rparr>) db3"
proof (cases "claim_token (ee_now env) (en_hash en) (er_source rq) db")
  case None
  with assms no show ?thesis by (auto simp: claim_and_accept_def refuse_def)
next
  case (Some db1)
  let ?resolved = "case aa_addresses target of [] \<Rightarrow> None | x # _ \<Rightarrow> Some x"
  let ?a = "\<lparr>ac_name = en_name en, ac_url = aa_url target, ac_token = er_agent_token rq,
      ac_health = health, ac_description = en_description en, ac_verify_tls = en_verify_tls en,
      ac_labels = enrolled_labels env en, ac_existing = ex, ac_actor = None,
      ac_action = (if ex = None then NODE_ENROLLED else NODE_REENROLLED),
      ac_metadata = [(''enrollment'', JStr (uuid_str (en_id en))), (''prefix'', JStr (en_prefix en)),
        (''source_ip'', opt_text_json (er_source rq)), (''resolved_ip'', opt_text_json ?resolved)]\<rparr>"
  let ?db2 = "set_enrollment (en_id en)
      (\<lambda>r. r\<lparr>en_url := Some (aa_url target), en_resolved := ?resolved, en_updated := ee_now env\<rparr>) db1"
  obtain x w2 where x: "accept_node (ee_fleet env) net ?a ?db2 w = (x, w2)" by fastforce
  show ?thesis
  proof (cases x)
    case (Done y)
    obtain n res db3 where y: "y = ((n, res), db3)" by (metis prod.exhaust)
    from assms have "r = Done (Inr (n, res))" "w1 = w2"
        "db4 = set_enrollment (en_id en) (\<lambda>r. r\<lparr>en_node := Some (node_id n)\<rparr>) db3"
      by (simp_all add: claim_and_accept_def Some x Done y Let_def)
    with x Some Done y show ?thesis
      by (intro yes [where a = ?a and u = "Some (aa_url target)" and resolved = ?resolved]) simp_all
  next
    case (Raised e)
    with assms x Some show ?thesis by (intro no) (auto simp: claim_and_accept_def)
  next
    case Diverges
    with assms x Some show ?thesis by (intro no) (auto simp: claim_and_accept_def)
  qed
qed

lemma probe_and_claim_cases:
  assumes "probe_and_claim env net en rq target db w = ((r, db4), w1)"
  obtains (kept) "db4 = db" "\<forall>n res. r \<noteq> Done (Inr (n, res))"
  | (noted) m url e where "db4 = note_failure env en m url db" "r = Done (Inl e)"
  | (going) health w0 where "claim_and_accept env net en rq target health
        (case en_node en of None \<Rightarrow> None | Some i \<Rightarrow> get_node i (fl_nodes db)) db w0 = ((r, db4), w1)"
  using assms unfolding probe_and_claim_def refuse_def Let_def
  by (auto split: prod.splits outcome.splits sum.splits app_error.splits option.splits if_splits intro: that)

lemma consume_failed_follows:
  assumes "fleet_sound db" "consume env net en rq db w = ((r, db1), w1)" "\<forall>n res. r \<noteq> Done (Inr (n, res))"
  shows "follows db db1"
  using assms(2)
proof (cases rule: consume_cases)
  case (refused e)
  with assms(1) show ?thesis by (simp add: follows_refl)
next
  case (crashed e)
  with assms(1) show ?thesis by (simp add: follows_refl)
next
  case (noted e m url)
  with assms(1) show ?thesis by (simp add: note_failure_follows)
next
  case (vetted target)
  from vetted(2) show ?thesis
  proof (cases rule: probe_and_claim_cases)
    case kept
    with assms(1) show ?thesis by (simp add: follows_refl)
  next
    case (noted m url e)
    with assms(1) show ?thesis by (simp add: note_failure_follows)
  next
    case (going health w0)
    then show ?thesis
    proof (cases rule: claim_and_accept_cases)
      case no
      with assms(1) show ?thesis by (simp add: follows_refl)
    next
      case yes
      with assms(3) show ?thesis by blast
    qed
  qed
qed

lemma consume_made_cases:
  assumes "consume env net en rq db w = ((Done (Inr (n, res)), db4), w1)"
  obtains db1 db3 a u resolved w0 where
      "claim_token (ee_now env) (en_hash en) (er_source rq) db = Some db1"
      "accept_node (ee_fleet env) net a
         (set_enrollment (en_id en) (\<lambda>r. r\<lparr>en_url := u, en_resolved := resolved, en_updated := ee_now env\<rparr>) db1) w0
         = (Done ((n, res), db3), w1)"
      "ac_name a = en_name en"
      "ac_existing a = (case en_node en of None \<Rightarrow> None | Some i \<Rightarrow> get_node i (fl_nodes db))"
      "db4 = set_enrollment (en_id en) (\<lambda>r. r\<lparr>en_node := Some (node_id n)\<rparr>) db3"
  using assms
proof (cases rule: consume_cases)
  case (vetted target)
  from vetted(2) show ?thesis
  proof (cases rule: probe_and_claim_cases)
    case (going health w0)
    then show ?thesis
    proof (cases rule: claim_and_accept_cases)
      case (yes db1 n' res' db3 a u resolved)
      then show ?thesis by (intro that) auto
    qed simp
  qed simp_all
qed simp_all

lemma claim_token_Some:
  assumes "claim_token now h src db = Some db1" "distinct (map en_hash (fl_enrollments db))"
  shows "\<exists>r \<in> set (fl_enrollments db). en_hash r = h \<and> en_status r = E_PENDING"
    "\<And>r. r \<in> set (fl_enrollments db) \<Longrightarrow> en_hash r = h \<Longrightarrow> claimable now h r"
    "db1 = put_enrollments (update_rows (claimable now h)
       (\<lambda>e. e\<lparr>en_status := E_CONSUMED, en_consumed_at := Some now, en_consumed_from := src, en_updated := now\<rparr>)
       (fl_enrollments db)) db"
proof -
  from assms(1) have one: "length (filter (claimable now h) (fl_enrollments db)) = 1"
    and db1: "db1 = put_enrollments (update_rows (claimable now h)
       (\<lambda>e. e\<lparr>en_status := E_CONSUMED, en_consumed_at := Some now, en_consumed_from := src, en_updated := now\<rparr>)
       (fl_enrollments db)) db"
    by (auto simp: claim_token_def split: if_splits)
  from one obtain r0 where "filter (claimable now h) (fl_enrollments db) = [r0]"
    by (auto simp: length_Suc_conv)
  then have "r0 \<in> set (filter (claimable now h) (fl_enrollments db))" by simp
  then have r0: "r0 \<in> set (fl_enrollments db)" "claimable now h r0" by simp_all
  show "claimable now h r" if "r \<in> set (fl_enrollments db)" "en_hash r = h" for r
    using distinct_key_unique [OF assms(2) that(1) r0(1)] that(2) r0(2) by (simp add: claimable_def)
  show "\<exists>r \<in> set (fl_enrollments db). en_hash r = h \<and> en_status r = E_PENDING"
    using r0 by (auto simp: claimable_def)
  show "db1 = put_enrollments (update_rows (claimable now h)
       (\<lambda>e. e\<lparr>en_status := E_CONSUMED, en_consumed_at := Some now, en_consumed_from := src, en_updated := now\<rparr>)
       (fl_enrollments db)) db" by (rule db1)
qed

text \<open>The rows after a finished enrolment, as one change of the rows before it.\<close>

definition finished_row ::
    "timestamp \<Rightarrow> string \<Rightarrow> string option \<Rightarrow> uuid \<Rightarrow> string option \<Rightarrow> string option \<Rightarrow> uuid \<Rightarrow> enrollment \<Rightarrow> enrollment" where
  "finished_row now h src i u resolved nid r =
     (let r1 = (if claimable now h r
                then r\<lparr>en_status := E_CONSUMED, en_consumed_at := Some now, en_consumed_from := src, en_updated := now\<rparr>
                else r)
      in if en_id r = i
         then r1\<lparr>en_url := u, en_resolved := resolved, en_updated := now, en_node := Some nid\<rparr> else r1)"

lemma finished_row_fields:
  "en_id (finished_row now h src i u z nid r) = en_id r"
  "same_invitation r (finished_row now h src i u z nid r)"
  "en_status (finished_row now h src i u z nid r) = (if claimable now h r then E_CONSUMED else en_status r)"
  "en_node (finished_row now h src i u z nid r) = (if en_id r = i then Some nid else en_node r)"
  by (simp_all add: finished_row_def Let_def same_invitation_def)

lemma node_names_unique:
  assumes "fleet_sound db" "(i, a) \<in> node_names db" "(i, b) \<in> node_names db"
  shows "a = b"
proof -
  from assms(2,3) obtain r s where r: "r \<in> set (fl_nodes db)" "node_id r = i" "node_name r = a"
    and s: "s \<in> set (fl_nodes db)" "node_id s = i" "node_name s = b" by (auto simp: node_names_def)
  have "distinct (map node_id (fl_nodes db))" using assms(1) by (simp add: fleet_sound_def nodes_sound_def)
  from distinct_key_unique [OF this r(1) s(1)] r s show ?thesis by simp
qed

lemma made_step:
  assumes inv: "campus_inv c" and e: "e \<in> set (cm_flight c)"
    and con: "consume env net e rq (cm_db c) w = ((Done (Inr (n, res)), db4), w1)"
  shows "campus_inv (c\<lparr>cm_db := db4, cm_made := (e, n) # cm_made c\<rparr>)"
proof -
  let ?db = "cm_db c" and ?rows = "fl_enrollments (cm_db c)"
  from con obtain db1 db3 a u z w0 where
      claim: "claim_token (ee_now env) (en_hash e) (er_source rq) ?db = Some db1"
    and acc: "accept_node (ee_fleet env) net a (set_enrollment (en_id e)
        (\<lambda>r. r\<lparr>en_url := u, en_resolved := z, en_updated := ee_now env\<rparr>) db1) w0 = (Done ((n, res), db3), w1)"
    and nm: "ac_name a = en_name e"
    and ex: "ac_existing a = (case en_node e of None \<Rightarrow> None | Some i \<Rightarrow> get_node i (fl_nodes ?db))"
    and db4: "db4 = set_enrollment (en_id e) (\<lambda>r. r\<lparr>en_node := Some (node_id n)\<rparr>) db3"
    by (rule consume_made_cases)
  let ?db2 = "set_enrollment (en_id e) (\<lambda>r. r\<lparr>en_url := u, en_resolved := z, en_updated := ee_now env\<rparr>) db1"
  have snd: "fleet_sound ?db" and hs: "distinct (map en_hash ?rows)"
    and issued: "en_hash e \<in> set (cm_issued c)" and right: "names_right ?db e"
    and twin: "\<And>r. r \<in> set ?rows \<Longrightarrow> en_id r = en_id e \<Longrightarrow> same_invitation e r"
    and made: "\<And>e' n'. (e', n') \<in> set (cm_made c) \<Longrightarrow>
        (\<forall>r \<in> set ?rows. en_hash r = en_hash e' \<longrightarrow> en_status r \<noteq> E_PENDING)"
    using inv e unfolding campus_inv_def Let_def by auto
  note pending = claim_token_Some(1) [OF claim hs] and all = claim_token_Some(2) [OF claim hs]
    and db1 = claim_token_Some(3) [OF claim hs]
  have same2: "fleet_sound ?db2" "fl_next ?db2 = fl_next ?db" "fl_nodes ?db2 = fl_nodes ?db"
    using snd by (simp_all add: db1 set_enrollment_def put_enrollments_def fleet_sound_def)
  have exin: "n0 \<in> set (fl_nodes ?db2) \<and> node_name n0 = en_name e" if "ac_existing a = Some n0" for n0
  proof -
    from that ex obtain i where i: "en_node e = Some i" "get_node i (fl_nodes ?db) = Some n0"
      by (auto split: option.splits)
    from get_node_Some [OF i(2)] have n0: "n0 \<in> set (fl_nodes ?db)" "node_id n0 = i" by auto
    with right i(1) show ?thesis by (auto simp: names_right_def node_names_def same2)
  qed
  from accept_node_grown [OF acc same2(1)] exin
  have g: "grown ?db2 db3" and inn: "(node_id n, node_name n) \<in> node_names db3" and lt: "node_id n < fl_next db3"
    and name: "node_name n = en_name e" using nm by (auto split: option.splits)
  let ?f = "finished_row (ee_now env) (en_hash e) (er_source rq) (en_id e) u z (node_id n)"
  have rows4: "fl_enrollments db4 = map ?f (filter (\<lambda>_. True) ?rows)"
    using g by (simp add: db4 grown_def set_enrollment_def put_enrollments_def db1 update_rows_def comp_def
        finished_row_def Let_def)
  have nodes4: "node_names db4 = node_names db3" "fl_next db4 = fl_next db3" "fleet_sound db4"
    using g by (simp_all add: db4 set_enrollment_def put_enrollments_def node_names_def grown_def fleet_sound_def)
  have "fleet_sound db3" using g by (simp add: grown_def)
  then have only: "nm' = en_name e" if "(node_id n, nm') \<in> node_names db3" for nm'
    using node_names_unique [OF _ that inn] name by simp
  have "follows ?db db4"
    unfolding follows_def
  proof (intro conjI exI [of _ "\<lambda>_. True"] exI [of _ ?f] ballI)
    show "fleet_sound db4" "fl_enrollments db4 = map ?f (filter (\<lambda>_. True) ?rows)"
      using nodes4 rows4 by simp_all
    show "fl_next ?db \<le> fl_next db4"
      "\<forall>i nm. (i, nm) \<in> node_names db4 \<longrightarrow> i < fl_next ?db \<longrightarrow> (i, nm) \<in> node_names ?db"
      using g same2 nodes4 by (simp_all add: grown_def node_names_def)
    fix r assume r: "r \<in> set ?rows"
    show "en_id (?f r) = en_id r" "same_invitation r (?f r)" by (rule finished_row_fields)+
    show "en_status (?f r) = E_PENDING \<longrightarrow> en_status r = E_PENDING" by (simp add: finished_row_fields)
    show "en_node (?f r) = en_node r \<or> names_right db4 (?f r)"
      using twin [OF r] finished_row_fields(2) [of r "ee_now env" "en_hash e" "er_source rq" "en_id e" u z "node_id n"]
        only lt nodes4 by (auto simp: finished_row_fields names_right_def same_invitation_def)
  qed
  from follows_inv [OF inv this] have inv4: "campus_inv (c\<lparr>cm_db := db4\<rparr>)" .
  have gone: "\<forall>r \<in> set (fl_enrollments db4). en_hash r = en_hash e \<longrightarrow> en_status r \<noteq> E_PENDING"
    using all finished_row_fields by (auto simp: rows4 finished_row_fields same_invitation_def)
  have "en_hash e \<notin> (en_hash \<circ> fst) ` set (cm_made c)" using made pending by fastforce
  with inv4 gone issued name show ?thesis unfolding campus_inv_def Let_def by auto
qed

lemma issue_step:
  assumes inv: "campus_inv c" and new: "en_hash e \<notin> set (cm_issued c)"
    and iss: "create_enrollment env iv by (cm_db c) = Done (Inr ((e, tok), db1))"
  shows "campus_inv (c\<lparr>cm_db := db1, cm_issued := en_hash e # cm_issued c\<rparr>)"
proof -
  let ?db0 = "fst (expire_stale (ee_now env) (cm_db c))"
  have snd: "fleet_sound (cm_db c)" using inv by (simp add: campus_inv_def Let_def)
  from follows_inv [OF inv expire_follows [OF snd]] have inv0: "campus_inv (c\<lparr>cm_db := ?db0\<rparr>)" .
  let ?ex = "get_by_name (iv_name iv) (fl_nodes ?db0)"
  from iss obtain p h where e: "e = new_enrollment env iv ?ex by p h (fl_next ?db0)"
    and rows: "fl_enrollments db1 = fl_enrollments ?db0 @ [e]"
    and rest: "fl_next db1 = fl_next ?db0 + 1" "fl_nodes db1 = fl_nodes ?db0" "fl_gpu db1 = fl_gpu ?db0"
      "fl_containers db1 = fl_containers ?db0"
    by (auto simp: create_enrollment_def Let_def fleet_record_def split: if_splits prod.splits)
  have names: "node_names db1 = node_names ?db0" by (simp add: node_names_def rest)
  have right: "names_right db1 r" if "names_right ?db0 r" for r
    using that rest(1) unfolding names_right_def names by auto
  have new_right: "names_right db1 e"
  proof -
    have "nm = iv_name iv" if ex: "?ex = Some n" and n: "(node_id n, nm) \<in> node_names ?db0" for n nm
    proof -
      from ex have "n \<in> set (fl_nodes ?db0)" "node_name n = iv_name iv"
        by (auto simp: get_by_name_def dest: find_row_Some)
      then have "(node_id n, iv_name iv) \<in> node_names ?db0" by (auto simp: node_names_def)
      with n inv0 show ?thesis by (auto simp: campus_inv_def Let_def dest: node_names_unique)
    qed
    moreover have "node_id n < fl_next db1" if "?ex = Some n" for n
      using that inv0 by (auto simp: campus_inv_def Let_def fleet_sound_def nodes_sound_def rest get_by_name_def
          dest!: find_row_Some)
    ultimately show ?thesis by (auto simp: names_right_def names e new_enrollment_def)
  qed
  have ids: "en_id e = fl_next ?db0" by (simp add: e new_enrollment_def)
  show ?thesis
    using inv0 new ids new_right right
    unfolding campus_inv_def Let_def
    by (auto simp: rows rest fleet_sound_def gpus_sound_def nodes_sound_def)
qed

lemma present_step:
  assumes inv: "campus_inv c" and res: "resolve_token env presented (cm_db c) = (Inr e, db1)"
  shows "campus_inv (c\<lparr>cm_db := db1, cm_flight := e # cm_flight c\<rparr>)"
proof -
  from res have db1: "db1 = cm_db c" and e: "e \<in> set (fl_enrollments (cm_db c))"
    by (auto simp: resolve_token_def by_token_hash_def split: if_splits option.splits dest: find_row_Some)
  have ids: "distinct (map en_id (fl_enrollments (cm_db c)))" using inv by (simp add: campus_inv_def Let_def)
  have "same_invitation e r" if "r \<in> set (fl_enrollments (cm_db c))" "en_id r = en_id e" for r
    using distinct_key_unique [OF ids that(1) e that(2)] by (simp add: same_invitation_def)
  with inv e show ?thesis unfolding campus_inv_def Let_def db1 by auto
qed

lemma campus_step_inv: "campus_step net c c1 \<Longrightarrow> campus_inv c \<Longrightarrow> campus_inv c1"
proof (induction rule: campus_step.induct)
  case (cs_issue env iv who c e tok db1)
  then show ?case by (intro issue_step)
next
  case (cs_present env presented c e db1)
  then show ?case by (intro present_step)
next
  case (cs_made e c env rq w n res db1 w1)
  then show ?case by (intro made_step)
next
  case (cs_failed e c env rq w r db1 w1)
  then show ?case by (intro follows_inv consume_failed_follows) (auto simp: campus_inv_def Let_def)
next
  case (cs_list env st limit offset c rows db1)
  then show ?case
    using expire_follows [of "cm_db c" "ee_now env"]
    by (intro follows_inv) (auto simp: list_enrollments_def Let_def campus_inv_def)
next
  case (cs_revoke env i who c e db1)
  then show ?case by (intro follows_inv revoke_follows) (auto simp: campus_inv_def Let_def)
next
  case (cs_sweep env c n db1)
  then show ?case by (intro follows_inv sweep_follows) (auto simp: campus_inv_def Let_def)
next
  case (cs_denied env presented c x db1)
  then show ?case by (intro follows_inv denied_follows) (auto simp: campus_inv_def Let_def)
next
  case (cs_register fenv nm url tok desc verify labels who c w r db1 w1)
  then show ?case by (intro follows_inv register_follows) (auto simp: campus_inv_def Let_def)
next
  case (cs_delete nid who c db1)
  then show ?case by (intro follows_inv delete_follows) (auto simp: campus_inv_def Let_def)
next
  case (cs_check fenv nid c w db1 res w1)
  then show ?case by (intro follows_inv check_follows) (auto simp: campus_inv_def Let_def)
next
  case (cs_sync c fenv running w)
  then show ?case
    by (intro follows_inv follows_step sync_nodes_step) (auto simp: campus_inv_def Let_def)
next
  case (cs_stale c fenv poll)
  then show ?case by (intro follows_inv follows_step mark_stale_step) (auto simp: campus_inv_def Let_def)
next
  case (cs_purge c fenv days)
  then show ?case by (intro follows_inv follows_step purge_metrics_step) (auto simp: campus_inv_def Let_def)
qed

lemma campus_start_inv: "campus_start c \<Longrightarrow> campus_inv c"
  by (auto simp: campus_start_def campus_inv_def Let_def)

lemma campus_reach_inv: "(campus_step net)\<^sup>*\<^sup>* c c1 \<Longrightarrow> campus_start c \<Longrightarrow> campus_inv c1"
  by (induction rule: rtranclp_induct) (simp_all add: campus_start_inv campus_step_inv)

end
