(* ===== verification/Enrollment_Sample.thy ===== *)
theory Enrollment_Sample
  imports Enrollment_Properties
begin

text \<open>
  A small campus for the witnesses: an empty platform, one administrator's invitation for
  \<open>gpu-1\<close>, and a host that answers its health route with a given body and nothing else in time.
\<close>

definition campus_lib :: ip_lib where
  "campus_lib = \<lparr>ip_resolve = (\<lambda>h. if h = ''h'' then Some [IPv4 0x0A000005] else None),
     ip_text = (\<lambda>_. ''h''), ip_range = (\<lambda>_. None), ip_brackets = (\<lambda>_. False)\<rparr>"

definition campus_cfg :: enrollment_settings where
  "campus_cfg = \<lparr>es_token_ttl = 3600, es_retention_days = 7, es_max_attempts = 5, es_rate_limit = 10,
     es_default_port = 91, es_allowed_ports = [91], es_cidrs = [], es_require_https = False,
     es_require_source_match = False, es_allow_mismatch = False, es_enroll_disabled = False\<rparr>"

definition campus_env :: enroll_env where
  "campus_env = \<lparr>ee_fleet = \<lparr>fe_now = 0, fe_encrypt = id, fe_decrypt = Some, fe_time_text = (\<lambda>_. [])\<rparr>,
     ee_lib = campus_lib, ee_cfg = campus_cfg,
     ee_key = \<lparr>ke_now = 0, ke_secret = ''s'', ke_prefix = ''p'', ke_hash = id, ke_encrypt = id\<rparr>\<rparr>"

definition campus_answer :: "string \<Rightarrow> agent_target \<Rightarrow> agent_request \<Rightarrow> unit \<Rightarrow> http_outcome \<times> unit" where
  "campus_answer body t rq u = (if rq_route rq = ''/health'' then Response 200 body else Timed_Out, u)"

definition campus_net :: "string \<Rightarrow> unit agent_net" where
  "campus_net body = \<lparr>net_answer = campus_answer body,
     net_json = (\<lambda>s. if s = ''H'' then Some (JObj [(''node_name'', JStr ''gpu-1'')]) else None),
     net_str = (\<lambda>_. [])\<rparr>"

definition campus_db :: fleet where
  "campus_db = \<lparr>fl_nodes = [], fl_gpu = \<lparr>gpus = [], metrics = [], allocations = []\<rparr>, fl_processes = [], fl_events = [],
     fl_containers = [], fl_enrollments = [], fl_trail = [], fl_next = 2\<rparr>"

definition campus_invitation :: invitation where
  "campus_invitation = \<lparr>iv_name = ''gpu-1'', iv_description = None, iv_labels = [], iv_verify_tls = True,
     iv_ttl = None, iv_reenroll = False\<rparr>"

definition campus_admin :: actor where "campus_admin = \<lparr>actor_id = 9, actor_name = ''ann''\<rparr>"

definition campus_request :: enroll_request where
  "campus_request = \<lparr>er_agent_token = replicate 32 CHR ''t'', er_advertised = Some ''http://h:91'',
     er_name = None, er_source = None\<rparr>"

definition campus_target :: agent_address where
  "campus_target = \<lparr>aa_url = ''http://h:91'', aa_host = ''h'', aa_port = 91,
     aa_addresses = [''h'']\<rparr>"


lemma campus_strip: "strip ''http://h:91'' = ''http://h:91''"
  by (simp add: strip_def rstrip_def lstrip_def is_space_def)

definition campus_parts :: url_parts where
  "campus_parts = \<lparr>up_scheme = ''http'', up_netloc = ''h:91'', up_path = [], up_query = [], up_fragment = []\<rparr>"

lemma campus_split: "split_url campus_lib ''http://h:91'' = Some campus_parts"
  by code_simp

lemma campus_fields: "hostname_of campus_parts = ''h''" "url_username campus_parts = []" "url_password campus_parts = []"
  by code_simp+

lemma campus_port: "port_of campus_parts = Some (Some 91)"
 by (simp add: port_of_def host_info_def campus_parts_def after_last_def partition_at_def is_digit_def decimal_def digit_value_def)

lemma campus_ip: "routable (IPv4 0x0A000005)"
  by (simp add: routable_def is_loopback_def is_link_local_def is_unspecified_def is_multicast_def is_reserved_def reserved_networks_def in_any_def net6_def)

lemma campus_texts: "lower (host_part ''h'') = ''h''" "lower ''h'' = ''h''"
  by code_simp+
lemma campus_91:  "nat_str 91 = ''91''"
  by code_simp

lemma campus_checked: "check_addresses lib [] h (first_seen [IPv4 167772165]) = Inr ()"
  using campus_ip by (simp add: check_addresses_Inr)

lemma campus_vetted: "validate_agent_url campus_lib campus_cfg ''http://h:91'' = Done (Inr campus_target)"
  by (simp add: validate_agent_url_def campus_strip campus_split campus_fields campus_port Let_def vet_target_def
     or_number_def campus_target_def resolve_host_def, simp add: campus_parts_def campus_cfg_def campus_lib_def
     campus_checked campus_texts campus_91, simp add: first_seen_def)

lemma campus_env_simps:
  "ee_now campus_env = 0" "ee_lib campus_env = campus_lib" "ee_cfg campus_env = campus_cfg"
  by (simp_all add: campus_env_def)

lemma campus_key: "ke_hash (ee_key campus_env) = id"
  by (simp add: campus_env_def)

definition campus_row :: enrollment where
  "campus_row = new_enrollment campus_env campus_invitation None campus_admin ''p'' ''aine_p_s'' 2"

definition campus_issued :: fleet where
  "campus_issued = fleet_record NODE_ENROLLMENT_CREATED (Some 9) ''ann'' ''node_enrollment'' (uuid_str 2)
     (JObj [(''name'', JStr ''gpu-1''), (''prefix'', JStr ''p''), (''reenroll'', JBool False)])
     (campus_db\<lparr>fl_enrollments := [campus_row], fl_next := 3\<rparr>)"

lemma campus_create: "create_enrollment campus_env campus_invitation campus_admin campus_db
   = Done (Inr ((campus_row, ''aine_p_s''), campus_issued))"
  by (simp add: create_enrollment_def expire_stale_def campus_db_def put_enrollments_def get_by_name_def
     generate_enrollment_token_def mint_prefixed_token_def pending_for_name_def by_token_hash_def
     campus_issued_def campus_row_def campus_env_def campus_invitation_def campus_admin_def new_enrollment_def Let_def)

lemma campus_row_fields:
  "en_id campus_row = 2" "en_name campus_row = ''gpu-1''" "en_hash campus_row = ''aine_p_s''" "en_status campus_row = E_PENDING"
  "en_expires campus_row = 3600000000" "en_attempts campus_row = 0" "en_verify_tls campus_row" "en_node campus_row = None"
  "en_labels campus_row = []" "en_description campus_row = None" "en_prefix campus_row = ''p''"
  by (simp_all add: campus_row_def new_enrollment_def campus_invitation_def campus_env_def campus_cfg_def or_number_def)

lemma campus_resolve: "resolve_token campus_env ''aine_p_s'' campus_issued = (Inr campus_row, campus_issued)"
  by (simp add: resolve_token_def by_token_hash_def campus_issued_def fleet_record_def campus_row_fields campus_env_simps
    campus_cfg_def) (simp add: campus_env_def)?

lemma campus_silent:
  "\<exists>m w1. agent_system (campus_net b) t w = (Inl (Agent_Raise Agent_Unreachable m None), w1)"
  "\<exists>m w1. agent_gpus (campus_net b) t w = (Inl (Agent_Raise Agent_Unreachable m None), w1)"
  "\<exists>m w1. agent_containers (campus_net b) t x w = (Inl (Agent_Raise Agent_Unreachable m None), w1)"
  by (simp_all add: agent_system_def agent_gpus_def agent_containers_def request_dict_def then_pure_def read_request_def
      send_request_def campus_net_def campus_answer_def Let_def)

lemma campus_sections:
  "\<exists>s1 w1. run_sections i [sync_system (campus_net b) t i, sync_gpus now (campus_net b) t i nm,
     sync_containers now (campus_net b) t i] s w = (Done s1, w1)"
proof -
  have silent: "\<exists>m w1. sync_system (campus_net b) t i s w = ((Some (Agent_Raise Agent_Unreachable m None), s), w1)"
    "\<exists>m w1. sync_gpus now (campus_net b) t i nm s w = ((Some (Agent_Raise Agent_Unreachable m None), s), w1)"
    "\<exists>m w1. sync_containers now (campus_net b) t i s w = ((Some (Agent_Raise Agent_Unreachable m None), s), w1)" for s w
    using campus_silent(1) [of b t w] campus_silent(2) [of b t w] campus_silent(3) [of b t False w]
    by (auto simp: sync_system_def sync_gpus_def sync_containers_def)
  have degrade: "\<exists>s1. run_sections i (sec # secs) s w = run_sections i secs s1 w1"
    if "sec s w = ((Some (Agent_Raise Agent_Unreachable m None), s), w1)" for sec secs s w m w1
    using that by (cases s) auto
  show ?thesis by (metis silent degrade run_sections.simps(1))
qed

lemma campus_health: "agent_health (campus_net ''H'') t w = 
    (Inr [(''node_name'', JStr ''gpu-1'')], \<lparr>wire_sent = wire_sent w @ [(t, read_request ''/health'' health_timeout)], wire_world = wire_world w\<rparr>)"
  by (simp add: agent_health_def request_dict_def then_pure_def
    send_request_def campus_net_def campus_answer_def read_request_def read_response_def as_dict_def Let_def)

lemma campus_sync: "\<exists>s1 w1. sync_node fe (campus_net ''H'') n (Some tok) db w = (Done s1, w1)"
  using campus_sections [of "node_id n" "''H''" _ "fe_now fe" "node_name n"]
  by (simp add: sync_node_def client_for_def Let_def campus_health split: prod.splits)

lemma campus_accept:
  assumes "fl_nodes db = []" "ac_existing a = None"
  shows "\<exists>n res db1 w1. accept_node fe (campus_net ''H'') a db w = (Done ((n, res), db1), w1)"
proof -
  obtain n db0 where row: "accepted_row fe a db = Some (n, db0)"
    using assms by (simp add: accepted_row_def get_by_name_def Let_def)
  obtain s1 w1 where "sync_node fe (campus_net ''H'') n (Some (ac_token a)) db0 w = (Done s1, w1)"
    using campus_sync by blast
  with row show ?thesis by (cases s1) (simp add: accept_node_def Let_def)
qed

lemma campus_claim:
  "\<exists>n res db1 w1. claim_and_accept campus_env (campus_net ''H'') campus_row campus_request campus_target health None
      campus_issued w = ((Done (Inr (n, res)), db1), w1)"
proof -
  obtain db1 where claim: "claim_token 0 ''aine_p_s'' None campus_issued = Some db1" "fl_nodes db1 = []"
    by (simp add: claim_token_def campus_issued_def fleet_record_def claimable_def campus_row_fields put_enrollments_def campus_db_def)
  let ?a = "\<lparr>ac_name = en_name campus_row, ac_url = aa_url campus_target, ac_token = er_agent_token campus_request,
      ac_health = health, ac_description = en_description campus_row, ac_verify_tls = en_verify_tls campus_row,
      ac_labels = enrolled_labels campus_env campus_row, ac_existing = None, ac_actor = None,
      ac_action = NODE_ENROLLED,
      ac_metadata = [(''enrollment'', JStr (uuid_str (en_id campus_row))), (''prefix'', JStr (en_prefix campus_row)),
        (''source_ip'', opt_text_json None), (''resolved_ip'', opt_text_json (Some ''h''))]\<rparr>"
  let ?db = "set_enrollment (en_id campus_row)
      (\<lambda>r. r\<lparr>en_url := Some (aa_url campus_target), en_resolved := Some ''h'', en_updated := ee_now campus_env\<rparr>) db1"
  have nodes: "fl_nodes ?db = []" using claim(2) by (simp add: set_enrollment_def put_enrollments_def)
  have none: "ac_existing ?a = None" by simp
  obtain n res db2 w2 where "accept_node (ee_fleet campus_env) (campus_net ''H'') ?a ?db w = (Done ((n, res), db2), w2)"
    using campus_accept [OF nodes none, of "ee_fleet campus_env" w] by blast
  with claim show ?thesis
    by (simp add: claim_and_accept_def campus_env_simps campus_row_fields campus_request_def campus_target_def Let_def)
qed

lemma campus_request_fields:
  "er_agent_token campus_request = replicate 32 CHR ''t''" "er_advertised campus_request = Some ''http://h:91''"
  "er_name campus_request = None" "er_source campus_request = None"
  by (simp_all add: campus_request_def)

lemma campus_settings: "es_require_source_match campus_cfg = False" "es_max_attempts campus_cfg = 5"
  by (simp_all add: campus_cfg_def)

lemma campus_nodes: "fl_nodes campus_issued = []" "fl_enrollments campus_issued = [campus_row]"
  by (simp_all add: campus_issued_def fleet_record_def campus_db_def)

lemma campus_made: "\<exists>n res db1 w1. consume campus_env (campus_net ''H'') campus_row campus_request campus_issued w
    = ((Done (Inr (n, res)), db1), w1)"
proof -
  have "truthy (Some ''http://h:91'')" by (simp add: truthy_iff)
  with campus_claim show ?thesis
    by (simp add: consume_def campus_request_fields campus_env_simps campus_vetted campus_settings probe_and_claim_def
      probe_agent_def campus_health name_problem_def campus_row_fields text_opt_def json_get_def campus_nodes
      get_by_name_def truthy_iff)
qed

definition campus_first :: campus where
  "campus_first = \<lparr>cm_db = campus_db, cm_flight = [], cm_issued = [], cm_made = []\<rparr>"

lemma campus_first_start: "campus_start campus_first"
  by (simp add: campus_start_def campus_first_def campus_db_def fleet_sound_def nodes_sound_def gpus_sound_def)

lemma campus_presented: "(campus_step (campus_net b))\<^sup>*\<^sup>* campus_first
   \<lparr>cm_db = campus_issued, cm_flight = [campus_row], cm_issued = [''aine_p_s''], cm_made = []\<rparr>"
proof -
  have one: "campus_step (campus_net b) campus_first (campus_first\<lparr>cm_db := campus_issued, cm_issued := [''aine_p_s'']\<rparr>)"
    using cs_issue [of campus_env campus_invitation campus_admin campus_first campus_row "''aine_p_s''" campus_issued "campus_net b"]
    by (simp add: campus_create campus_first_def campus_row_fields)
  have two: "campus_step (campus_net b) (campus_first\<lparr>cm_db := campus_issued, cm_issued := [''aine_p_s'']\<rparr>)
     \<lparr>cm_db = campus_issued, cm_flight = [campus_row], cm_issued = [''aine_p_s''], cm_made = []\<rparr>"
    using cs_present [of campus_env "''aine_p_s''" "campus_first\<lparr>cm_db := campus_issued, cm_issued := [''aine_p_s'']\<rparr>"
      campus_row campus_issued "campus_net b"] campus_resolve by (simp add: campus_first_def)
  from one two show ?thesis by (meson converse_rtranclp_into_rtranclp r_into_rtranclp)
qed

lemma campus_reaches: "\<exists>c1. (campus_step (campus_net ''H''))\<^sup>*\<^sup>* campus_first c1 \<and> length (cm_made c1) = 1"
proof -
  let ?c = "\<lparr>cm_db = campus_issued, cm_flight = [campus_row], cm_issued = [''aine_p_s''], cm_made = []\<rparr>"
  obtain n res db1 w1 where made: "consume campus_env (campus_net ''H'') campus_row campus_request campus_issued
      \<lparr>wire_sent = [], wire_world = ()\<rparr> = ((Done (Inr (n, res)), db1), w1)"
    using campus_made by blast
  have "campus_step (campus_net ''H'') ?c (?c\<lparr>cm_db := db1, cm_made := [(campus_row, n)]\<rparr>)"
    using cs_made [of campus_row ?c campus_env "campus_net ''H''" campus_request] made by simp
  with campus_presented [of "''H''"] show ?thesis
    by (intro exI [of _ "?c\<lparr>cm_db := db1, cm_made := [(campus_row, n)]\<rparr>"]) (auto intro: rtranclp.rtrancl_into_rtrancl)
qed

definition campus_redis :: "unit redis" where
  "campus_redis = \<lparr>rd_incr = (\<lambda>_ _ _. None), rd_expire = (\<lambda>_ _ _ _. None)\<rparr>"

definition campus_wire :: "unit wire" where
  "campus_wire = \<lparr>wire_sent = [], wire_world = ()\<rparr>"

end
