(* ===== verification/Enrollment_Claims.thy ===== *)
theory Enrollment_Claims
  imports Enrollment_Sample
begin

text \<open>
  The promises of node enrolment, each with a witness on a small campus: one administrator, one
  invitation, one host that answers its health route.
\<close>

section \<open>Attempts are a budget\<close>

text \<open>A row of requests that present one token, one after the other: for each its outcome and
  whether anything was sent.\<close>

fun enroll_all ::
    "'s redis \<Rightarrow> 'w agent_net \<Rightarrow> string \<Rightarrow> (enroll_env \<times> enroll_request) list \<Rightarrow> fleet \<Rightarrow> 's \<Rightarrow> 'w wire
       \<Rightarrow> ((node \<times> sync_result) result outcome \<times> bool) list" where
  "enroll_all red net tok [] db s w = []"
| "enroll_all red net tok ((env, rq) # rest) db s w =
     (case enroll_node env red net tok rq db s w of
        (((r, db1), w1), s1) \<Rightarrow>
          (r, wire_sent w1 \<noteq> wire_sent w) # enroll_all red net tok rest db1 s1 w1)"




















section \<open>The promises\<close>



text \<open>An agent that answers 200 with a body that is not JSON ends the request with an exception:
  the attempt is not counted, and one token probes as often as it is presented.\<close>

lemma garbled_consume:
  "consume campus_env (campus_net ''X'') campus_row campus_request campus_issued w =
     ((Raised ''JSONDecodeError'', campus_issued),
      \<lparr>wire_sent = wire_sent w @ [(build_client ''http://h:91'' (replicate 32 CHR ''t'') True,
          read_request ''/health'' health_timeout)], wire_world = wire_world w\<rparr>)"
proof -
  have "truthy (Some ''http://h:91'')" by (simp add: truthy_iff)
  moreover have "agent_health (campus_net ''X'') t w = (Inl (Other_Raise ''JSONDecodeError''),
      \<lparr>wire_sent = wire_sent w @ [(t, read_request ''/health'' health_timeout)], wire_world = wire_world w\<rparr>)" for t
    by (simp add: agent_health_def request_dict_def then_pure_def send_request_def campus_net_def
        campus_answer_def read_request_def read_response_def Let_def)
  ultimately show ?thesis
    by (simp add: consume_def campus_request_fields campus_env_simps campus_vetted campus_settings
        probe_and_claim_def probe_agent_def campus_row_fields campus_target_def)
qed

theorem garbled_probe_costs_nothing:
  "length (filter snd (enroll_all campus_redis (campus_net ''X'') ''aine_p_s''
     (replicate k (campus_env, campus_request)) campus_issued () w)) = k"
proof (induction k arbitrary: w)
  case (Suc k)
  have "enroll_node campus_env campus_redis (campus_net ''X'') ''aine_p_s'' campus_request campus_issued () w
      = (consume campus_env (campus_net ''X'') campus_row campus_request campus_issued w, ())"
    by (simp add: enroll_node_def limit_attempts_def truthy_iff campus_request_fields campus_resolve)
  with Suc show ?case by (simp add: garbled_consume)
qed simp



text \<open>
  C31. A token makes at most one node.  From a platform without enrolments, whatever order
  invitations, presentations, probes, registrations, removals and the worker's jobs take: no
  two nodes were made with one token, each was made with an issued token and carries the name
  it was issued for, its token is no longer open, and the tables stay sound.\<close>
theorem one_token_one_node:
  assumes "(campus_step net)\<^sup>*\<^sup>* c c1" "campus_start c"
  shows "distinct (map (en_hash \<circ> fst) (cm_made c1)) \<and> fleet_sound (cm_db c1)
    \<and> (\<forall>(e, n) \<in> set (cm_made c1). node_name n = en_name e \<and> en_hash e \<in> set (cm_issued c1)
         \<and> (\<forall>r \<in> set (fl_enrollments (cm_db c1)). en_hash r = en_hash e \<longrightarrow> en_status r \<noteq> E_PENDING))"
  using campus_reach_inv [OF assms] by (auto simp: campus_inv_def Let_def)

lemma one_token_one_node_witness:
  "\<exists>c1. (campus_step (campus_net ''H''))\<^sup>*\<^sup>* campus_first c1 \<and> length (cm_made c1) = 1
    \<and> distinct (map (en_hash \<circ> fst) (cm_made c1)) \<and> fleet_sound (cm_db c1)
    \<and> (\<forall>(e, n) \<in> set (cm_made c1). node_name n = en_name e \<and> en_hash e \<in> set (cm_issued c1)
         \<and> (\<forall>r \<in> set (fl_enrollments (cm_db c1)). en_hash r = en_hash e \<longrightarrow> en_status r \<noteq> E_PENDING))"
proof -
  obtain c1 where c1: "(campus_step (campus_net ''H''))\<^sup>*\<^sup>* campus_first c1" "length (cm_made c1) = 1"
    using campus_reaches by blast
  with one_token_one_node [OF c1(1) campus_first_start] show ?thesis by blast
qed

end
