(* ===== verification/Node_Host.thy ===== *)
theory Node_Host
  imports Node_Agent Agent_Url
begin

text \<open>
  The node agent itself: the Docker runtime (\<open>node-agent/app/runtime/docker.py\<close>), the bearer
  token (\<open>security.py\<close>) and the HTTP API (\<open>api.py\<close>), as a function that answers one request.
  The Docker daemon is a record of operations over its state \<open>'d\<close>; the GPU probe, host facts
  (\<open>psutil\<close>) and the text form of a response body are parameters.
\<close>

section \<open>The daemon\<close>

text \<open>A container as the SDK shows it: identifier, name and the attributes of the Engine API.\<close>

record host_container =
  hk_id :: string
  hk_name :: string
  hk_attrs :: "(string \<times> json) list"

datatype 'a docker_reply = D_Ok 'a | D_Not_Found string | D_Failed string

record docker_create =
  dc_image :: string
  dc_name :: string
  dc_labels :: "(string \<times> string) list"
  dc_environment :: "(string \<times> string) list"
  dc_restart :: string
  dc_command :: "string list option"
  dc_network :: "string option"
  dc_ports :: "(string \<times> nat) list option"
  dc_volumes :: "(string \<times> string \<times> string) list option"
  dc_shm :: "nat option"
  dc_devices :: "string option"

record 'd docker_engine =
  de_open :: "'d \<Rightarrow> string option"
  de_ping :: "'d \<Rightarrow> unit docker_reply \<times> 'd"
  de_info :: "'d \<Rightarrow> (string \<times> json) list docker_reply \<times> 'd"
  de_get :: "string \<Rightarrow> 'd \<Rightarrow> host_container docker_reply \<times> 'd"
  de_all :: "bool \<Rightarrow> string option \<Rightarrow> 'd \<Rightarrow> host_container list docker_reply \<times> 'd"
  de_image :: "string \<Rightarrow> 'd \<Rightarrow> unit docker_reply \<times> 'd"
  de_create :: "docker_create \<Rightarrow> 'd \<Rightarrow> host_container docker_reply \<times> 'd"
  de_start :: "string \<Rightarrow> 'd \<Rightarrow> unit docker_reply \<times> 'd"
  de_stop :: "string \<Rightarrow> nat \<Rightarrow> 'd \<Rightarrow> unit docker_reply \<times> 'd"
  de_restart :: "string \<Rightarrow> nat \<Rightarrow> 'd \<Rightarrow> unit docker_reply \<times> 'd"
  de_remove :: "string \<Rightarrow> bool \<Rightarrow> 'd \<Rightarrow> unit docker_reply \<times> 'd"
  de_stats :: "string \<Rightarrow> 'd \<Rightarrow> (string \<times> json) list docker_reply \<times> 'd"
  de_logs :: "string \<Rightarrow> nat \<Rightarrow> 'd \<Rightarrow> string docker_reply \<times> 'd"

text \<open>The agent keeps its client once it has connected.\<close>

record 'd host =
  ho_connected :: bool
  ho_daemon :: 'd

record host_config =
  hc_node_name :: string
  hc_token :: string
  hc_managed_label :: string
  hc_allow_unmanaged :: bool

datatype host_error = No_Container string | Docker_Down string | Unmanaged string

type_synonym ('d, 'a) host_call = "'d host \<Rightarrow> (host_error + 'a) \<times> 'd host"

definition host_bind :: "('d, 'a) host_call \<Rightarrow> ('a \<Rightarrow> ('d, 'b) host_call) \<Rightarrow> ('d, 'b) host_call" where
  "host_bind c f h = (case c h of (Inl e, h1) \<Rightarrow> (Inl e, h1) | (Inr x, h1) \<Rightarrow> f x h1)"

definition host_return :: "'a \<Rightarrow> ('d, 'a) host_call" where
  "host_return x h = (Inr x, h)"

definition connect :: "'d docker_engine \<Rightarrow> ('d, unit) host_call" where
  "connect de h =
     (if ho_connected h then (Inr (), h)
      else case de_open de (ho_daemon h) of
             Some e \<Rightarrow> (Inl (Docker_Down e), h)
           | None \<Rightarrow> (Inr (), h\<lparr>ho_connected := True\<rparr>))"

definition docker_call :: "('d \<Rightarrow> 'a docker_reply \<times> 'd) \<Rightarrow> ('d, 'a) host_call" where
  "docker_call f h =
     (case f (ho_daemon h) of
        (D_Ok x, d) \<Rightarrow> (Inr x, h\<lparr>ho_daemon := d\<rparr>)
      | (D_Not_Found e, d) \<Rightarrow> (Inl (No_Container e), h\<lparr>ho_daemon := d\<rparr>)
      | (D_Failed e, d) \<Rightarrow> (Inl (Docker_Down e), h\<lparr>ho_daemon := d\<rparr>))"

section \<open>Reads\<close>

definition labels_of :: "host_container \<Rightarrow> (string \<times> json) list" where
  "labels_of c = object_field (object_field (hk_attrs c) ''Config'') ''Labels''"

definition is_managed :: "host_config \<Rightarrow> host_container \<Rightarrow> bool" where
  "is_managed cfg c = (json_get (labels_of c) (hc_managed_label cfg) \<noteq> None)"

definition state_map :: "(string \<times> string) list" where
  "state_map = [(''created'', ''CREATED''), (''running'', ''RUNNING''), (''restarting'', ''RESTARTING''),
     (''paused'', ''PAUSED''), (''exited'', ''EXITED''), (''dead'', ''DEAD''), (''removing'', ''EXITED'')]"

definition mapped_status :: "string \<Rightarrow> string" where
  "mapped_status s = (case map_of state_map (lower s) of None \<Rightarrow> ''UNKNOWN'' | Some t \<Rightarrow> t)"

definition parse_nat :: "string \<Rightarrow> nat option" where
  "parse_nat s = (if s \<noteq> [] \<and> list_all is_digit s then Some (decimal s) else None)"

text \<open>A published port; a binding that does not parse is skipped, as the code's \<open>continue\<close>.\<close>

definition port_binding :: "string \<times> json \<Rightarrow> (nat \<times> nat) option" where
  "port_binding b =
     (case snd b of
        JList (JObj first # _) \<Rightarrow>
          (case (parse_nat (fst (partition_at CHR ''/'' (fst b))), json_get first ''HostPort'') of
             (Some c, Some (JStr p)) \<Rightarrow> map_option (Pair c) (parse_nat p)
           | (Some c, Some (JInt p)) \<Rightarrow> if 0 \<le> p then Some (c, nat p) else None
           | _ \<Rightarrow> None)
      | _ \<Rightarrow> None)"

definition published_ports :: "host_container \<Rightarrow> (nat \<times> nat) list" where
  "published_ports c =
     dict_merge [] (List.map_filter port_binding
       (object_field (object_field (hk_attrs c) ''NetworkSettings'') ''Ports''))"

definition field_or_null :: "(string \<times> json) list \<Rightarrow> string \<Rightarrow> json" where
  "field_or_null kvs key = (case json_get kvs key of None \<Rightarrow> JNull | Some v \<Rightarrow> v)"

text \<open>\<open>ContainerInfo\<close> as the response body carries it.\<close>

definition container_payload :: "host_config \<Rightarrow> host_container \<Rightarrow> json" where
  "container_payload cfg c =
     (let state = object_field (hk_attrs c) ''State''
      in JObj [(''id'', JStr (hk_id c)), (''name'', JStr (dropWhile (\<lambda>x. x = CHR ''/'') (hk_name c))),
        (''image'', JStr (strip (text_field (object_field (hk_attrs c) ''Config'') ''Image''))),
        (''state'', JStr (mapped_status (text_field state ''Status''))),
        (''status_text'', JStr (text_field state ''Status'')),
        (''labels'', JObj (labels_of c)),
        (''ports'', JObj (map (\<lambda>(k, v). (nat_str k, JInt (int v))) (published_ports c))),
        (''started_at'', field_or_null state ''StartedAt''),
        (''finished_at'', field_or_null state ''FinishedAt''),
        (''exit_code'', field_or_null state ''ExitCode''),
        (''managed'', JBool (is_managed cfg c))])"

definition host_ping :: "'d docker_engine \<Rightarrow> ('d, unit) host_call" where
  "host_ping de = host_bind (connect de) (\<lambda>_. docker_call (de_ping de))"

definition docker_summary :: "(string \<times> json) list \<Rightarrow> (string \<times> json) list" where
  "docker_summary raw =
     [(''server_version'', (case json_get raw ''ServerVersion'' of None \<Rightarrow> JStr ''unknown'' | Some v \<Rightarrow> v)),
      (''operating_system'', field_or_null raw ''OperatingSystem''),
      (''kernel_version'', field_or_null raw ''KernelVersion''),
      (''architecture'', field_or_null raw ''Architecture''), (''cpus'', field_or_null raw ''NCPU''),
      (''memory_total_bytes'', field_or_null raw ''MemTotal''),
      (''containers_running'', field_or_null raw ''ContainersRunning''),
      (''containers_total'', field_or_null raw ''Containers''), (''images'', field_or_null raw ''Images''),
      (''storage_driver'', field_or_null raw ''Driver''),
      (''runtimes'', JList (map JStr (sort (map fst (object_field raw ''Runtimes''))))),
      (''nvidia_runtime_available'', JBool (json_get (object_field raw ''Runtimes'') ''nvidia'' \<noteq> None))]"

definition docker_info :: "'d docker_engine \<Rightarrow> ('d, (string \<times> json) list) host_call" where
  "docker_info de = host_bind (connect de) (\<lambda>_.
     host_bind (docker_call (de_info de)) (\<lambda>raw. host_return (docker_summary raw)))"

definition host_list :: "host_config \<Rightarrow> 'd docker_engine \<Rightarrow> bool \<Rightarrow> bool \<Rightarrow> ('d, json list) host_call" where
  "host_list cfg de all_containers managed_only = host_bind (connect de) (\<lambda>_.
     host_bind (docker_call (de_all de all_containers
        (if managed_only then Some (hc_managed_label cfg) else None)))
       (\<lambda>cs. host_return (map (container_payload cfg) cs)))"

definition host_inspect :: "host_config \<Rightarrow> 'd docker_engine \<Rightarrow> string \<Rightarrow> ('d, json) host_call" where
  "host_inspect cfg de cid = host_bind (connect de) (\<lambda>_.
     host_bind (docker_call (de_get de cid)) (\<lambda>c. host_return (container_payload cfg c)))"

definition host_logs :: "'d docker_engine \<Rightarrow> string \<Rightarrow> nat \<Rightarrow> ('d, string) host_call" where
  "host_logs de cid tail = host_bind (connect de) (\<lambda>_.
     host_bind (docker_call (de_get de cid)) (\<lambda>c. docker_call (de_logs de (hk_id c) tail)))"

text \<open>A counter of the statistics; absent ones count as zero.\<close>

definition counter_field :: "(string \<times> json) list \<Rightarrow> string \<Rightarrow> int" where
  "counter_field kvs key = (case json_get kvs key of Some (JInt i) \<Rightarrow> i | _ \<Rightarrow> 0)"

definition cpu_percent :: "(string \<times> json) list \<Rightarrow> rat" where
  "cpu_percent raw =
     (let cpu = object_field raw ''cpu_stats''; precpu = object_field raw ''precpu_stats'';
          cpu_delta = counter_field (object_field cpu ''cpu_usage'') ''total_usage''
                      - counter_field (object_field precpu ''cpu_usage'') ''total_usage'';
          system_delta = counter_field cpu ''system_cpu_usage'' - counter_field precpu ''system_cpu_usage'';
          online = (if counter_field cpu ''online_cpus'' = 0 then 1 else counter_field cpu ''online_cpus'')
      in if 0 < cpu_delta \<and> 0 < system_delta
         then round2 (of_int cpu_delta / of_int system_delta * of_int online * 100) else 0)"

definition memory_used :: "(string \<times> json) list \<Rightarrow> int" where
  "memory_used raw =
     (let memory = object_field raw ''memory_stats''
      in max 0 (counter_field memory ''usage''
                - counter_field (object_field memory ''stats'') ''inactive_file''))"

definition network_bytes :: "string \<Rightarrow> (string \<times> json) list \<Rightarrow> int" where
  "network_bytes key raw =
     sum_list (map (\<lambda>(_, n). case n of JObj kvs \<Rightarrow> counter_field kvs key | _ \<Rightarrow> 0)
       (object_field raw ''networks''))"

definition block_bytes :: "string \<Rightarrow> (string \<times> json) list \<Rightarrow> int" where
  "block_bytes op raw =
     (case json_get (object_field raw ''blkio_stats'') ''io_service_bytes_recursive'' of
        Some (JList entries) \<Rightarrow>
          sum_list (map (\<lambda>e. case e of
              JObj kvs \<Rightarrow> if lower (text_field kvs ''op'') = op then counter_field kvs ''value'' else 0
            | _ \<Rightarrow> 0) entries)
      | _ \<Rightarrow> 0)"

definition stats_payload :: "string \<Rightarrow> (string \<times> json) list \<Rightarrow> json" where
  "stats_payload cid raw =
     JObj [(''container_id'', JStr cid), (''cpu_percent'', JNum (cpu_percent raw)),
       (''memory_used_bytes'', JInt (memory_used raw)),
       (''memory_limit_bytes'', JInt (counter_field (object_field raw ''memory_stats'') ''limit'')),
       (''network_rx_bytes'', JInt (network_bytes ''rx_bytes'' raw)),
       (''network_tx_bytes'', JInt (network_bytes ''tx_bytes'' raw)),
       (''block_read_bytes'', JInt (block_bytes ''read'' raw)),
       (''block_write_bytes'', JInt (block_bytes ''write'' raw))]"

definition host_stats :: "'d docker_engine \<Rightarrow> string \<Rightarrow> ('d, json) host_call" where
  "host_stats de cid = host_bind (connect de) (\<lambda>_.
     host_bind (docker_call (de_get de cid)) (\<lambda>c.
       host_bind (docker_call (de_stats de (hk_id c))) (\<lambda>raw. host_return (stats_payload (hk_id c) raw))))"

definition host_image_exists :: "'d docker_engine \<Rightarrow> string \<Rightarrow> ('d, bool) host_call" where
  "host_image_exists de img = host_bind (connect de) (\<lambda>_ h.
     (case docker_call (de_image de img) h of
        (Inr _, h1) \<Rightarrow> (Inr True, h1)
      | (Inl (No_Container _), h1) \<Rightarrow> (Inr False, h1)
      | (Inl e, h1) \<Rightarrow> (Inl e, h1)))"

section \<open>Control\<close>

definition require_managed :: "host_config \<Rightarrow> 'd docker_engine \<Rightarrow> string \<Rightarrow> ('d, host_container) host_call" where
  "require_managed cfg de cid = host_bind (connect de) (\<lambda>_.
     host_bind (docker_call (de_get de cid)) (\<lambda>c h.
       if \<not> is_managed cfg c \<and> \<not> hc_allow_unmanaged cfg
       then (Inl (Unmanaged (''Container '' @ quoted (hk_name c) @ '' does not carry the ''
               @ quoted (hc_managed_label cfg) @ '' label, so the platform will not control it. ''
               @ ''This guard prevents the agent from stopping infrastructure it does ''
               @ ''not own, including the platform's own database.'')), h)
       else (Inr c, h)))"

definition when_some :: "bool \<Rightarrow> 'a \<Rightarrow> 'a option" where
  "when_some b x = (if b then Some x else None)"

fun join_by :: "string \<Rightarrow> string list \<Rightarrow> string" where
  "join_by sep [] = []"
| "join_by sep [s] = s"
| "join_by sep (s # ss) = s @ sep @ join_by sep ss"

definition create_args :: "host_config \<Rightarrow> container_spec \<Rightarrow> docker_create" where
  "create_args cfg spec =
     \<lparr>dc_image = spec_image spec, dc_name = spec_name spec,
      dc_labels = AList.update (hc_managed_label cfg) ''true'' (dict_merge [] (spec_labels spec)),
      dc_environment = spec_environment spec, dc_restart = spec_restart_policy spec,
      dc_command = when_some (spec_command spec \<noteq> []) (spec_command spec),
      dc_network = when_some (spec_network spec \<noteq> []) (spec_network spec),
      dc_ports = when_some (spec_ports spec \<noteq> [])
        (dict_merge [] (map (\<lambda>(c, h). (nat_str c @ ''/tcp'', h)) (spec_ports spec))),
      dc_volumes = when_some (spec_volumes spec \<noteq> [])
        (dict_merge [] (map (\<lambda>v. (vol_source v, vol_target v, if vol_read_only v then ''ro'' else ''rw''))
          (spec_volumes spec))),
      dc_shm = (case spec_shm_bytes spec of Some n \<Rightarrow> when_some (n \<noteq> 0) n | None \<Rightarrow> None),
      dc_devices = (case spec_gpus spec of
          Some (i # is) \<Rightarrow> Some (join_by '','' (map int_str (i # is)))
        | _ \<Rightarrow> None)\<rparr>"

definition reload :: "host_config \<Rightarrow> 'd docker_engine \<Rightarrow> string \<Rightarrow> ('d, json) host_call" where
  "reload cfg de cid =
     host_bind (docker_call (de_get de cid)) (\<lambda>c. host_return (container_payload cfg c))"

definition host_create :: "host_config \<Rightarrow> 'd docker_engine \<Rightarrow> container_spec \<Rightarrow> ('d, json) host_call" where
  "host_create cfg de spec = host_bind (connect de) (\<lambda>_.
     host_bind (host_image_exists de (spec_image spec)) (\<lambda>present h.
       if \<not> present
       then (Inl (Docker_Down (''Image '' @ quoted (spec_image spec) @ '' is not present on this host. ''
               @ ''Load it from the offline bundle with `docker load`; the platform never pulls (Rule 4).'')), h)
       else host_bind (docker_call (de_create de (create_args cfg spec)))
              (\<lambda>c. reload cfg de (hk_id c)) h))"

definition host_control ::
    "host_config \<Rightarrow> 'd docker_engine \<Rightarrow> (string \<Rightarrow> 'd \<Rightarrow> unit docker_reply \<times> 'd) \<Rightarrow> string
       \<Rightarrow> ('d, json) host_call" where
  "host_control cfg de f cid = host_bind (require_managed cfg de cid) (\<lambda>c.
     host_bind (docker_call (f (hk_id c))) (\<lambda>_. reload cfg de (hk_id c)))"

definition host_start :: "host_config \<Rightarrow> 'd docker_engine \<Rightarrow> string \<Rightarrow> ('d, json) host_call" where
  "host_start cfg de = host_control cfg de (de_start de)"

definition host_stop :: "host_config \<Rightarrow> 'd docker_engine \<Rightarrow> nat \<Rightarrow> string \<Rightarrow> ('d, json) host_call" where
  "host_stop cfg de seconds = host_control cfg de (\<lambda>cid. de_stop de cid seconds)"

definition host_restart :: "host_config \<Rightarrow> 'd docker_engine \<Rightarrow> nat \<Rightarrow> string \<Rightarrow> ('d, json) host_call" where
  "host_restart cfg de seconds = host_control cfg de (\<lambda>cid. de_restart de cid seconds)"

definition host_remove :: "host_config \<Rightarrow> 'd docker_engine \<Rightarrow> bool \<Rightarrow> string \<Rightarrow> ('d, unit) host_call" where
  "host_remove cfg de force cid = host_bind (require_managed cfg de cid)
     (\<lambda>c. docker_call (de_remove de (hk_id c) force))"

end
