(* ===== verification/Host_Api.thy ===== *)
theory Host_Api
  imports Node_Host
begin

text \<open>
  The node agent's HTTP API (\<open>node-agent/app/api.py\<close>, \<open>security.py\<close>, \<open>schemas.py\<close>): one
  request in, one response out, on the state of the host.  Everything but \<open>/health\<close> needs the
  token.  A path segment is taken as it is (container identifiers need no percent-encoding);
  the framework's own answers (404, 405, 422) carry the status and a fixed body.
\<close>

section \<open>What the handlers read\<close>

text \<open>The probe at the time of the request; a collection that raises names the exception.\<close>

record host_probe =
  pr_name :: string
  pr_available :: "bool outcome"
  pr_devices :: "json list outcome"
  pr_metrics :: "json list outcome"
  pr_processes :: "json list outcome"
  pr_driver :: "(string \<times> string) outcome"

record 'd host_app =
  ha_config :: host_config
  ha_engine :: "'d docker_engine"
  ha_version :: string
  ha_probe :: host_probe
  ha_facts :: "string \<Rightarrow> json"
  ha_dump :: "json \<Rightarrow> string"

type_synonym host_reply = "nat \<times> json option"

definition error_detail :: "string \<Rightarrow> json option" where
  "error_detail s = Some (JObj [(''detail'', JStr s)])"

section \<open>Health and GPUs\<close>

definition health_problem :: "string option \<Rightarrow> string \<Rightarrow> string list" where
  "health_problem failed what = (case failed of None \<Rightarrow> [] | Some e \<Rightarrow> [what @ e])"

definition gpu_count_of :: "host_probe \<Rightarrow> nat \<times> string option" where
  "gpu_count_of p =
     (case pr_available p of
        Done True \<Rightarrow> (case pr_devices p of Done ds \<Rightarrow> (length ds, None) | Raised e \<Rightarrow> (0, Some e)
                      | Diverges \<Rightarrow> (0, None))
      | Raised e \<Rightarrow> (0, Some e)
      | _ \<Rightarrow> (0, None))"

definition host_health :: "'d host_app \<Rightarrow> 'd host \<Rightarrow> host_reply \<times> 'd host" where
  "host_health app h =
     (let (pong, h1) = host_ping (ha_engine app) h;
          docker_available = (case pong of Inr _ \<Rightarrow> True | Inl _ \<Rightarrow> False);
          (gpu_count, probe_error) = gpu_count_of (ha_probe app);
          problems = (if docker_available then [] else [''docker unavailable: DockerUnavailableError''])
                     @ health_problem probe_error ''gpu probe failed: ''
      in ((200, Some (JObj
            [(''status'', JStr (if problems = [] then ''ok'' else ''degraded'')),
             (''node_name'', JStr (hc_node_name (ha_config app))),
             (''agent_version'', JStr (ha_version app)),
             (''docker_available'', JBool docker_available),
             (''gpu_probe'', JStr (pr_name (ha_probe app))),
             (''gpu_count'', JInt (int gpu_count)),
             (''detail'', if problems = [] then JNull else JStr (join_by ''; '' problems))])), h1))"

definition gpu_failed :: "host_probe \<Rightarrow> string \<Rightarrow> host_reply" where
  "gpu_failed p e = (503, error_detail (''GPU collection failed via '' @ pr_name p @ '': '' @ e))"

text \<open>The four reads in order, the first that raises giving the 503.\<close>

definition host_gpus :: "host_probe \<Rightarrow> host_reply outcome" where
  "host_gpus p =
     (case pr_available p of
        Raised e \<Rightarrow> Raised e | Diverges \<Rightarrow> Diverges
      | Done False \<Rightarrow> Done (200, Some (JObj [(''available'', JBool False), (''probe'', JStr (pr_name p)),
          (''driver_version'', JNull), (''cuda_version'', JNull), (''devices'', JList []),
          (''metrics'', JList []), (''processes'', JList []), (''synthetic'', JBool False)]))
      | Done True \<Rightarrow>
         (case pr_devices p of
            Raised e \<Rightarrow> Done (gpu_failed p e) | Diverges \<Rightarrow> Diverges
          | Done devices \<Rightarrow>
         (case pr_metrics p of
            Raised e \<Rightarrow> Done (gpu_failed p e) | Diverges \<Rightarrow> Diverges
          | Done samples \<Rightarrow>
         (case pr_processes p of
            Raised e \<Rightarrow> Done (gpu_failed p e) | Diverges \<Rightarrow> Diverges
          | Done processes \<Rightarrow>
         (case pr_driver p of
            Raised e \<Rightarrow> Done (gpu_failed p e) | Diverges \<Rightarrow> Diverges
          | Done (driver, cuda) \<Rightarrow>
              Done (200, Some (JObj [(''available'', JBool True), (''probe'', JStr (pr_name p)),
                (''driver_version'', JStr driver), (''cuda_version'', JStr cuda),
                (''devices'', JList devices), (''metrics'', JList samples),
                (''processes'', JList processes), (''synthetic'', JBool (pr_name p = ''fake''))])))))))"

section \<open>Errors\<close>

fun control_error :: "host_error \<Rightarrow> host_reply" where
  "control_error (Unmanaged m) = (403, error_detail m)"
| "control_error (No_Container _) = (404, error_detail ''No such container.'')"
| "control_error (Docker_Down m) = (503, error_detail (take 300 m))"

fun read_error :: "host_error \<Rightarrow> host_reply" where
  "read_error (Docker_Down m) = (503, error_detail (take 200 m))"
| "read_error (No_Container _) = (404, error_detail ''No such container.'')"
| "read_error (Unmanaged m) = (500, None)"

section \<open>A container specification on the wire\<close>

fun map_all :: "('a \<Rightarrow> 'b option) \<Rightarrow> 'a list \<Rightarrow> 'b list option" where
  "map_all f [] = Some []"
| "map_all f (x # xs) =
     (case f x of None \<Rightarrow> None | Some y \<Rightarrow> map_option (\<lambda>ys. y # ys) (map_all f xs))"

definition as_text :: "json \<Rightarrow> string option" where
  "as_text v = (case v of JStr s \<Rightarrow> Some s | _ \<Rightarrow> None)"

definition as_nat :: "json \<Rightarrow> nat option" where
  "as_nat v = (case v of JInt i \<Rightarrow> if 0 \<le> i then Some (nat i) else None | _ \<Rightarrow> None)"

definition as_int :: "json \<Rightarrow> int option" where
  "as_int v = (case v of JInt i \<Rightarrow> Some i | _ \<Rightarrow> None)"

text \<open>A field with a default: absent is the default, present must decode.\<close>

definition optional_field ::
    "(string \<times> json) list \<Rightarrow> string \<Rightarrow> 'a \<Rightarrow> (json \<Rightarrow> 'a option) \<Rightarrow> 'a option" where
  "optional_field kvs key dflt f =
     (case json_get kvs key of None \<Rightarrow> Some dflt | Some v \<Rightarrow> f v)"

definition nullable :: "(json \<Rightarrow> 'a option) \<Rightarrow> json \<Rightarrow> 'a option option" where
  "nullable f v = (if v = JNull then Some None else map_option Some (f v))"

definition as_list_of :: "(json \<Rightarrow> 'a option) \<Rightarrow> json \<Rightarrow> 'a list option" where
  "as_list_of f v = (case v of JList xs \<Rightarrow> map_all f xs | _ \<Rightarrow> None)"

definition as_dict_of :: "(string \<times> json \<Rightarrow> 'a option) \<Rightarrow> json \<Rightarrow> 'a list option" where
  "as_dict_of f v = (case v of JObj kvs \<Rightarrow> map_all f kvs | _ \<Rightarrow> None)"

definition text_pair :: "string \<times> json \<Rightarrow> (string \<times> string) option" where
  "text_pair kv = map_option (Pair (fst kv)) (as_text (snd kv))"

definition port_pair :: "string \<times> json \<Rightarrow> (nat \<times> nat) option" where
  "port_pair kv = (case (parse_nat (fst kv), as_nat (snd kv)) of
     (Some c, Some h) \<Rightarrow> Some (c, h) | _ \<Rightarrow> None)"

definition as_volume :: "json \<Rightarrow> volume_mount option" where
  "as_volume v =
     (case v of
        JObj kvs \<Rightarrow>
          (case (json_get kvs ''source'', json_get kvs ''target'',
                 optional_field kvs ''read_only'' True (\<lambda>b. case b of JBool x \<Rightarrow> Some x | _ \<Rightarrow> None)) of
             (Some (JStr s), Some (JStr t), Some ro) \<Rightarrow>
               Some \<lparr>vol_source = s, vol_target = t, vol_read_only = ro\<rparr>
           | _ \<Rightarrow> None)
      | _ \<Rightarrow> None)"

text \<open>\<open>ContainerSpec\<close> of the agent.  An empty device list and an absent network or size are what
  the control plane's \<open>None\<close> is sent as.\<close>

definition decode_spec :: "json \<Rightarrow> container_spec option" where
  "decode_spec v =
     (case v of
        JObj kvs \<Rightarrow>
          (case (json_get kvs ''name'', json_get kvs ''image'') of
             (Some (JStr nm), Some (JStr img)) \<Rightarrow>
               Option.bind (optional_field kvs ''command'' [] (as_list_of as_text)) (\<lambda>command.
               Option.bind (optional_field kvs ''environment'' [] (as_dict_of text_pair)) (\<lambda>environment.
               Option.bind (optional_field kvs ''labels'' [] (as_dict_of text_pair)) (\<lambda>labels.
               Option.bind (optional_field kvs ''volumes'' [] (as_list_of as_volume)) (\<lambda>volumes.
               Option.bind (optional_field kvs ''ports'' [] (as_dict_of port_pair)) (\<lambda>ports.
               Option.bind (optional_field kvs ''network'' None (nullable as_text)) (\<lambda>network.
               Option.bind (optional_field kvs ''gpu_device_indices'' [] (as_list_of as_int)) (\<lambda>devices.
               Option.bind (optional_field kvs ''shm_size_bytes'' None (nullable as_nat)) (\<lambda>shm.
               Option.bind (optional_field kvs ''restart_policy'' ''unless-stopped'' as_text) (\<lambda>restart.
                 Some \<lparr>spec_name = nm, spec_image = img, spec_command = command,
                   spec_environment = environment, spec_labels = labels, spec_volumes = volumes,
                   spec_ports = ports, spec_network = or_str network [],
                   spec_gpus = (if devices = [] then None else Some devices),
                   spec_shm_bytes = shm, spec_restart_policy = restart\<rparr>)))))))))
           | _ \<Rightarrow> None)
      | _ \<Rightarrow> None)"

section \<open>Routing\<close>

datatype host_route =
    R_Health | R_Fact string | R_Gpus | R_Docker | R_Containers
  | R_Container string | R_Action string string | R_Unknown

definition route_of :: "string \<Rightarrow> host_route" where
  "route_of path =
     (if path = ''/health'' then R_Health
      else if path \<in> set [''/system'', ''/cpu'', ''/memory'', ''/disk'', ''/network''] then R_Fact path
      else if path = ''/gpus'' then R_Gpus
      else if path = ''/docker'' then R_Docker
      else if path = ''/containers'' then R_Containers
      else if starts_with ''/containers/'' path
      then (case partition_at CHR ''/'' (remove_prefix ''/containers/'' path) of
              (cid, sep, action) \<Rightarrow>
                if cid = [] then R_Unknown else if sep = [] then R_Container cid
                else if action \<in> {''logs'', ''stats'', ''start'', ''stop'', ''restart''}
                then R_Action cid action else R_Unknown)
      else R_Unknown)"

definition query_param :: "agent_request \<Rightarrow> string \<Rightarrow> string option" where
  "query_param rq key = map_of (rq_params rq) key"

definition bool_param :: "agent_request \<Rightarrow> string \<Rightarrow> bool \<Rightarrow> bool option" where
  "bool_param rq key dflt =
     (case query_param rq key of
        None \<Rightarrow> Some dflt
      | Some s \<Rightarrow> if lower s \<in> {''true'', ''1'', ''yes'', ''on'', ''t'', ''y''} then Some True
                  else if lower s \<in> {''false'', ''0'', ''no'', ''off'', ''f'', ''n''} then Some False else None)"

definition nat_param :: "agent_request \<Rightarrow> string \<Rightarrow> nat \<Rightarrow> nat \<Rightarrow> nat \<Rightarrow> nat option" where
  "nat_param rq key dflt lo hi =
     (case query_param rq key of
        None \<Rightarrow> Some dflt
      | Some s \<Rightarrow> (case parse_nat s of
                     Some n \<Rightarrow> if lo \<le> n \<and> n \<le> hi then Some n else None | None \<Rightarrow> None))"

definition invalid_request :: host_reply where
  "invalid_request = (422, error_detail ''invalid request'')"

definition answered :: "(host_error \<Rightarrow> host_reply) \<Rightarrow> nat \<Rightarrow> (host_error + json) \<times> 'd host \<Rightarrow> host_reply \<times> 'd host" where
  "answered on_error status r =
     (case r of (Inr v, h) \<Rightarrow> ((status, Some v), h) | (Inl e, h) \<Rightarrow> (on_error e, h))"

definition logs_payload :: "string \<Rightarrow> nat \<Rightarrow> (host_error + string) \<times> 'd host \<Rightarrow> host_reply \<times> 'd host" where
  "logs_payload cid tail r =
     (case r of
        (Inr ls, h) \<Rightarrow> ((200, Some (JObj [(''container_id'', JStr cid), (''lines'', JStr ls),
          (''truncated_to'', JInt (int tail))])), h)
      | (Inl e, h) \<Rightarrow> (read_error e, h))"

text \<open>\<open>/containers/{id}/{action}\<close>.\<close>

definition action_answer ::
    "'d host_app \<Rightarrow> agent_request \<Rightarrow> string \<Rightarrow> string \<Rightarrow> 'd host \<Rightarrow> host_reply \<times> 'd host" where
  "action_answer app rq cid action h =
     (let cfg = ha_config app; de = ha_engine app; seconds = nat_param rq ''timeout_seconds'' 30 0 600
      in if action = ''logs''
         then (case nat_param rq ''tail'' 200 1 5000 of
                 None \<Rightarrow> (invalid_request, h)
               | Some n \<Rightarrow> logs_payload cid n (host_logs de cid n h))
         else if action = ''stats'' then answered read_error 200 (host_stats de cid h)
         else if action = ''start'' then answered control_error 200 (host_start cfg de cid h)
         else (case seconds of
                 None \<Rightarrow> (invalid_request, h)
               | Some n \<Rightarrow> answered control_error 200
                   (if action = ''stop'' then host_stop cfg de n cid h else host_restart cfg de n cid h)))"

definition container_answer ::
    "'d host_app \<Rightarrow> agent_request \<Rightarrow> string \<Rightarrow> 'd host \<Rightarrow> host_reply \<times> 'd host" where
  "container_answer app rq cid h =
     (let cfg = ha_config app; de = ha_engine app
      in case rq_method rq of
           GET \<Rightarrow> answered read_error 200 (host_inspect cfg de cid h)
         | DELETE \<Rightarrow>
             (case bool_param rq ''force'' False of
                None \<Rightarrow> (invalid_request, h)
              | Some force \<Rightarrow>
                  (case host_remove cfg de force cid h of
                     (Inr _, h1) \<Rightarrow> ((204, None), h1)
                   | (Inl e, h1) \<Rightarrow> (control_error e, h1)))
         | POST \<Rightarrow>
             (case Option.bind (rq_json rq) decode_spec of
                None \<Rightarrow> (invalid_request, h)
              | Some spec \<Rightarrow> answered control_error 201 (host_create cfg de spec h)))"

definition docker_answer :: "'d host_app \<Rightarrow> 'd host \<Rightarrow> host_reply \<times> 'd host" where
  "docker_answer app h =
     (case docker_info (ha_engine app) h of
        (Inr info, h1) \<Rightarrow> ((200, Some (JObj ((''available'', JBool True) # info @ [(''detail'', JNull)]))), h1)
      | (Inl (Docker_Down m), h1) \<Rightarrow>
          ((200, Some (JObj [(''available'', JBool False), (''detail'', JStr (take 200 m))])), h1)
      | (Inl _, h1) \<Rightarrow> ((500, None), h1))"

definition containers_answer :: "'d host_app \<Rightarrow> agent_request \<Rightarrow> 'd host \<Rightarrow> host_reply \<times> 'd host" where
  "containers_answer app rq h =
     (case (bool_param rq ''all'' True, bool_param rq ''managed_only'' False) of
        (Some every, Some managed_only) \<Rightarrow>
          (case host_list (ha_config app) (ha_engine app) every managed_only h of
             (Inr cs, h1) \<Rightarrow> ((200, Some (JList cs)), h1)
           | (Inl (Docker_Down m), h1) \<Rightarrow> ((503, error_detail (take 200 m)), h1)
           | (Inl _, h1) \<Rightarrow> ((500, None), h1))
      | _ \<Rightarrow> (invalid_request, h))"

fun methods_of :: "host_route \<Rightarrow> http_method list" where
  "methods_of R_Unknown = []"
| "methods_of (R_Container cid) = (if cid = ''create'' then [GET, DELETE, POST] else [GET, DELETE])"
| "methods_of (R_Action cid action) = (if action \<in> {''logs'', ''stats''} then [GET] else [POST])"
| "methods_of _ = [GET]"

definition token_ok :: "host_config \<Rightarrow> string \<Rightarrow> bool" where
  "token_ok cfg supplied = (supplied \<noteq> [] \<and> supplied = hc_token cfg)"

fun handle_route :: "'d host_app \<Rightarrow> agent_request \<Rightarrow> host_route \<Rightarrow> 'd host \<Rightarrow> host_reply \<times> 'd host" where
  "handle_route app rq R_Health h = host_health app h"
| "handle_route app rq (R_Fact path) h = ((200, Some (ha_facts app path)), h)"
| "handle_route app rq R_Gpus h = ((case host_gpus (ha_probe app) of Done a \<Rightarrow> a | _ \<Rightarrow> (500, None)), h)"
| "handle_route app rq R_Docker h = docker_answer app h"
| "handle_route app rq R_Containers h = containers_answer app rq h"
| "handle_route app rq (R_Container cid) h = container_answer app rq cid h"
| "handle_route app rq (R_Action cid action) h = action_answer app rq cid action h"
| "handle_route app rq R_Unknown h = ((404, error_detail ''Not Found''), h)"

text \<open>Routing comes first, then the token on every route but health, then the handler.\<close>

definition route_answer :: "'d host_app \<Rightarrow> string \<Rightarrow> agent_request \<Rightarrow> 'd host \<Rightarrow> host_reply \<times> 'd host" where
  "route_answer app supplied rq h =
     (let route = route_of (rq_route rq)
      in if route = R_Unknown then ((404, error_detail ''Not Found''), h)
         else if rq_method rq \<notin> set (methods_of route) then ((405, error_detail ''Method Not Allowed''), h)
         else if route \<noteq> R_Health \<and> \<not> token_ok (ha_config app) supplied
         then ((401, error_detail ''A valid node agent token is required.''), h)
         else handle_route app rq route h)"

definition host_answer :: "'d host_app \<Rightarrow> string \<Rightarrow> agent_request \<Rightarrow> 'd host \<Rightarrow> http_outcome \<times> 'd host" where
  "host_answer app supplied rq h =
     (case route_answer app supplied rq h of
        ((status, body), h1) \<Rightarrow>
          (Response status (case body of None \<Rightarrow> [] | Some v \<Rightarrow> ha_dump app v), h1))"

section \<open>The specification survives the wire\<close>

lemma map_all_map: "(\<And>x. x \<in> set xs \<Longrightarrow> f (g x) = Some x) \<Longrightarrow> map_all f (map g xs) = Some xs"
  by (induction xs) auto

lemma as_list_of_Nil [simp]: "as_list_of f (JList []) = Some []"
  by (simp add: as_list_of_def)

lemma decimal_snoc: "decimal (s @ [c]) = 10 * decimal s + digit_value c"
  by (simp add: decimal_def)

lemma digit_char_digit: "d < 10 \<Longrightarrow> is_digit (digit_char d) \<and> digit_value (digit_char d) = d"
  by (simp add: is_digit_def digit_value_def digit_char_def)

lemma nat_str_parts: "nat_str n \<noteq> [] \<and> list_all is_digit (nat_str n) \<and> decimal (nat_str n) = n"
proof (induction n rule: nat_str.induct)
  case (1 n)
  show ?case
  proof (cases "n < 10")
    case True
    then have "nat_str n = [digit_char n]" by (subst nat_str.simps) simp
    with True digit_char_digit [of n] show ?thesis by (simp add: decimal_def)
  next
    case False
    then have "nat_str n = nat_str (n div 10) @ [digit_char (n mod 10)]" by (subst nat_str.simps) simp
    with False 1 digit_char_digit [of "n mod 10"] show ?thesis by (simp add: decimal_snoc)
  qed
qed

lemma parse_nat_str: "parse_nat (nat_str n) = Some n"
  using nat_str_parts [of n] by (simp add: parse_nat_def)

lemma spec_fields:
  "json_get ((k, v) # kvs) key = (if key = k then Some v else json_get kvs key)"
  "json_get [] key = None"
  by (simp_all add: json_get_def)

text \<open>What arrives: the same specification, with an empty device list for none.\<close>

definition sent_spec :: "container_spec \<Rightarrow> container_spec" where
  "sent_spec spec = spec\<lparr>spec_gpus := (if spec_gpus spec = Some [] then None else spec_gpus spec)\<rparr>"

lemma decode_spec_payload: "decode_spec (spec_payload spec) = Some (sent_spec spec)"
proof -
  have texts: "as_list_of as_text (JList (map JStr xs)) = Some xs" for xs
    by (simp add: as_list_of_def map_all_map as_text_def)
  have dicts: "as_dict_of text_pair (JObj (map (\<lambda>(k, v). (k, JStr v)) kvs)) = Some kvs" for kvs
    by (simp add: as_dict_of_def map_all_map text_pair_def as_text_def split_beta)
  have ports: "as_dict_of port_pair (JObj (map (\<lambda>(k, v). (nat_str k, JInt (int v))) kvs)) = Some kvs" for kvs
    by (simp add: as_dict_of_def map_all_map port_pair_def parse_nat_str as_nat_def split_beta)
  have vols: "as_list_of as_volume (JList (map (\<lambda>v. JObj [(''source'', JStr (vol_source v)),
      (''target'', JStr (vol_target v)), (''read_only'', JBool (vol_read_only v))]) vs)) = Some vs" for vs
    by (simp add: as_list_of_def map_all_map as_volume_def spec_fields optional_field_def)
  have ints: "as_list_of as_int (JList (map JInt is)) = Some is" for "is"
    by (simp add: as_list_of_def map_all_map as_int_def)
  have plain_ints: "map_all as_int (map JInt is) = Some is" for "is"
    by (simp add: map_all_map as_int_def)
  have shm: "nullable as_nat (case spec_shm_bytes spec of None \<Rightarrow> JNull | Some n \<Rightarrow> JInt (int n))
      = Some (spec_shm_bytes spec)"
    by (cases "spec_shm_bytes spec") (simp_all add: nullable_def as_nat_def)
  have network: "nullable as_text (JStr s) = Some (Some s)" for s
    by (simp add: nullable_def as_text_def)
  have or: "or_str (Some s) [] = s" for s by (cases s) (simp_all add: or_str_def)
  show ?thesis
    unfolding decode_spec_def spec_payload_def
    by (cases "spec_gpus spec")
       (auto simp: spec_fields optional_field_def texts dicts ports vols ints shm network or as_text_def
          sent_spec_def plain_ints)
qed

section \<open>Routes of the control plane's requests\<close>

definition plain_id :: "string \<Rightarrow> bool" where
  "plain_id cid = (cid \<noteq> [] \<and> CHR ''/'' \<notin> set cid)"

lemma partition_at_plain: "c \<notin> set s \<Longrightarrow> partition_at c (s @ c # t) = (s, [c], t)"
proof -
  assume "c \<notin> set s"
  then have "takeWhile (\<lambda>x. x \<noteq> c) (s @ c # t) = s" "dropWhile (\<lambda>x. x \<noteq> c) (s @ c # t) = c # t"
    by (induction s) auto
  then show ?thesis by (simp add: partition_at_def)
qed

lemma partition_at_none: "c \<notin> set s \<Longrightarrow> partition_at c s = (s, [], [])"
  by (simp add: partition_at_def)

lemma route_of_containers:
  "route_of (''/containers/'' @ s) =
     (case partition_at CHR ''/'' s of
        (cid, sep, action) \<Rightarrow>
          if cid = [] then R_Unknown else if sep = [] then R_Container cid
          else if action \<in> {''logs'', ''stats'', ''start'', ''stop'', ''restart''}
          then R_Action cid action else R_Unknown)"
  by (simp add: route_of_def starts_with_def remove_prefix_def)

lemma route_of_container: "plain_id cid \<Longrightarrow> route_of (container_route cid []) = R_Container cid"
  using route_of_containers [of cid]
  by (simp add: plain_id_def container_route_def partition_at_none)

lemma route_of_action:
  assumes "plain_id cid" "action \<in> {''logs'', ''stats'', ''start'', ''stop'', ''restart''}"
  shows "route_of (container_route cid (CHR ''/'' # action)) = R_Action cid action"
  using route_of_containers [of "cid @ CHR ''/'' # action"] assms
  by (simp add: plain_id_def container_route_def partition_at_plain)

section \<open>The managed-label guard\<close>

text \<open>The two documented facts about the SDK: looking a container up does not change the daemon.\<close>

definition reads_only :: "'d docker_engine \<Rightarrow> bool" where
  "reads_only de = (\<forall>cid d. snd (de_get de cid d) = d)"

definition foreign :: "host_config \<Rightarrow> 'd docker_engine \<Rightarrow> string \<Rightarrow> 'd \<Rightarrow> bool" where
  "foreign cfg de cid d =
     (\<not> hc_allow_unmanaged cfg \<and> (\<exists>c. fst (de_get de cid d) = D_Ok c \<and> \<not> is_managed cfg c))"

lemma connect_daemon: "connect de h = (r, h1) \<Longrightarrow> ho_daemon h1 = ho_daemon h \<and> (\<forall>e. r = Inl e \<longrightarrow> (\<exists>m. e = Docker_Down m))"
  by (auto simp: connect_def split: if_splits option.splits)

lemma require_managed_foreign:
  assumes "reads_only de" "foreign cfg de cid (ho_daemon h)"
  shows "\<exists>e h1. require_managed cfg de cid h = (Inl e, h1) \<and> ho_daemon h1 = ho_daemon h
           \<and> ((\<exists>m. e = Unmanaged m) \<or> (\<exists>m. e = Docker_Down m))"
proof -
  obtain r h0 where c: "connect de h = (r, h0)" by fastforce
  from connect_daemon [OF c] have d: "ho_daemon h0 = ho_daemon h"
    and down: "\<And>e. r = Inl e \<Longrightarrow> \<exists>m. e = Docker_Down m" by blast+
  show ?thesis
  proof (cases r)
    case (Inl e)
    with down obtain m where "e = Docker_Down m" by blast
    with Inl c d show ?thesis by (auto simp: require_managed_def host_bind_def)
  next
    case (Inr u)
    obtain c' where got: "fst (de_get de cid (ho_daemon h)) = D_Ok c'"
        and un: "\<not> is_managed cfg c'" "\<not> hc_allow_unmanaged cfg"
      using assms(2) unfolding foreign_def by blast
    have "de_get de cid (ho_daemon h) = (D_Ok c', ho_daemon h)"
      using got assms(1) unfolding reads_only_def by (metis prod.collapse)
    then have "docker_call (de_get de cid) h0 = (Inr c', h0)"
      using d by (simp add: docker_call_def)
    with Inr c d un show ?thesis by (simp add: require_managed_def host_bind_def)
  qed
qed

lemma host_control_foreign:
  assumes "reads_only de" "foreign cfg de cid (ho_daemon h)"
  shows "\<exists>e h1. host_control cfg de f cid h = (Inl e, h1) \<and> ho_daemon h1 = ho_daemon h
           \<and> ((\<exists>m. e = Unmanaged m) \<or> (\<exists>m. e = Docker_Down m))"
  using require_managed_foreign [OF assms] by (auto simp: host_control_def host_bind_def)

lemma host_remove_foreign:
  assumes "reads_only de" "foreign cfg de cid (ho_daemon h)"
  shows "\<exists>e h1. host_remove cfg de force cid h = (Inl e, h1) \<and> ho_daemon h1 = ho_daemon h
           \<and> ((\<exists>m. e = Unmanaged m) \<or> (\<exists>m. e = Docker_Down m))"
  using require_managed_foreign [OF assms] by (auto simp: host_remove_def host_bind_def)

end
