(* ===== verification/Host_Guard.thy ===== *)
theory Host_Guard
  imports Host_Api
begin

text \<open>
  The control plane's container runtime (\<open>services/remote_runtime.py\<close>) composed with the node
  agent that answers it: what a call does to the Docker daemon behind the wire.
\<close>

section \<open>The two ends joined\<close>

definition host_net :: "'d host_app \<Rightarrow> (string \<Rightarrow> json option) \<Rightarrow> (json \<Rightarrow> string) \<Rightarrow> 'd host agent_net" where
  "host_net app parse print =
     \<lparr>net_answer = (\<lambda>t rq h. host_answer app (at_token t) rq h), net_json = parse, net_str = print\<rparr>"

datatype control = Do_Start | Do_Stop int | Do_Restart int | Do_Remove bool

definition control_call :: "'w agent_net \<Rightarrow> agent_target \<Rightarrow> string \<Rightarrow> control \<Rightarrow> ('w, unit) agent_call" where
  "control_call net t cid c =
     (case c of
        Do_Start \<Rightarrow> then_pure (runtime_start net t cid) (\<lambda>_. Inr ())
      | Do_Stop n \<Rightarrow> then_pure (runtime_stop net t cid n) (\<lambda>_. Inr ())
      | Do_Restart n \<Rightarrow> then_pure (runtime_restart net t cid n) (\<lambda>_. Inr ())
      | Do_Remove force \<Rightarrow> agent_remove_container net t cid force)"

section \<open>Refusals\<close>

definition refuses :: "'d host_app \<Rightarrow> agent_target \<Rightarrow> agent_request \<Rightarrow> 'd host \<Rightarrow> bool" where
  "refuses app t rq h =
     (\<exists>status body h1. host_answer app (at_token t) rq h = (Response status body, h1)
        \<and> 400 \<le> status \<and> ho_daemon h1 = ho_daemon h)"

lemma control_error_status: "400 \<le> fst (control_error e)"
  by (cases e) simp_all

lemma refused_request:
  assumes "refuses app t rq (wire_world w)"
  shows "\<exists>e w1. send_request (host_net app parse print) t rq w = (Inl e, w1)
    \<and> ho_daemon (wire_world w1) = ho_daemon (wire_world w)"
proof -
  from assms obtain status body h1 where
      a: "host_answer app (at_token t) rq (wire_world w) = (Response status body, h1)"
    and s: "400 \<le> status" and d: "ho_daemon h1 = ho_daemon (wire_world w)"
    unfolding refuses_def by blast
  have "\<exists>e. read_response (host_net app parse print) status body = Inl e"
    using s by (simp add: read_response_def)
  with a d show ?thesis by (auto simp: send_request_def host_net_def Let_def)
qed

lemma refused_dict:
  assumes "refuses app t rq (wire_world w)"
  shows "\<exists>e w1. request_dict (host_net app parse print) t rq w = (Inl e, w1)
    \<and> ho_daemon (wire_world w1) = ho_daemon (wire_world w)"
  using refused_request [OF assms, of parse print] by (auto simp: request_dict_def then_pure_def)

lemma action_refused:
  assumes "reads_only (ha_engine app)" "plain_id cid" "foreign (ha_config app) (ha_engine app) cid (ho_daemon h)"
    and route: "rq_route rq = container_route cid (CHR ''/'' # action)" and "action \<in> {''start'', ''stop'', ''restart''}"
  shows "refuses app t rq h"
proof -
  have r: "route_of (rq_route rq) = R_Action cid action"
    unfolding route by (rule route_of_action) (use assms(2,5) in auto)
  have "\<exists>a h1. answered control_error 200 (host_control (ha_config app) (ha_engine app) f cid h) = (a, h1)
      \<and> 400 \<le> fst a \<and> ho_daemon h1 = ho_daemon h" for f
    using host_control_foreign [OF assms(1,3), of f] by (auto simp: answered_def)
  then have "\<exists>a h1. action_answer app rq cid action h = (a, h1) \<and> 400 \<le> fst a \<and> ho_daemon h1 = ho_daemon h"
    using assms(5)
    by (auto simp: action_answer_def Let_def host_start_def host_stop_def host_restart_def invalid_request_def
        split: option.splits)
  then show ?thesis
    using r assms(5) by (auto simp: refuses_def host_answer_def route_answer_def Let_def split: prod.splits)
qed

lemma removal_refused:
  assumes "reads_only (ha_engine app)" "plain_id cid" "foreign (ha_config app) (ha_engine app) cid (ho_daemon h)"
    and route: "rq_route rq = container_route cid []" and "rq_method rq = DELETE"
  shows "refuses app t rq h"
proof -
  have r: "route_of (rq_route rq) = R_Container cid"
    unfolding route by (rule route_of_container) (rule assms(2))
  have "\<exists>a h1. container_answer app rq cid h = (a, h1) \<and> 400 \<le> fst a \<and> ho_daemon h1 = ho_daemon h"
  proof (cases "bool_param rq ''force'' False")
    case None
    with assms(5) show ?thesis by (simp add: container_answer_def Let_def invalid_request_def)
  next
    case (Some force)
    obtain e h1 where "host_remove (ha_config app) (ha_engine app) force cid h = (Inl e, h1)" "ho_daemon h1 = ho_daemon h"
      using host_remove_foreign [OF assms(1,3), of force] by blast
    with Some assms(5) control_error_status [of e] show ?thesis by (simp add: container_answer_def Let_def)
  qed
  then show ?thesis
    using r assms(5) by (auto simp: refuses_def host_answer_def route_answer_def Let_def split: prod.splits)
qed

lemma refused_action:
  assumes "reads_only (ha_engine app)" "plain_id cid"
    "foreign (ha_config app) (ha_engine app) cid (ho_daemon (wire_world w))" "action \<in> {''start'', ''stop'', ''restart''}"
  shows "\<exists>e w1. request_dict (host_net app parse print) t
      \<lparr>rq_method = POST, rq_route = container_route cid (CHR ''/'' # action), rq_params = ps, rq_json = None,
       rq_timeout = seconds\<rparr> w = (Inl e, w1)
    \<and> ho_daemon (wire_world w1) = ho_daemon (wire_world w)"
  by (rule refused_dict, rule action_refused [OF assms(1-3) _ assms(4)]) simp

lemma refused_removal:
  assumes "reads_only (ha_engine app)" "plain_id cid"
    "foreign (ha_config app) (ha_engine app) cid (ho_daemon (wire_world w))"
  shows "\<exists>e w1. agent_remove_container (host_net app parse print) t cid force w = (Inl e, w1)
    \<and> ho_daemon (wire_world w1) = ho_daemon (wire_world w)"
  using refused_request [OF removal_refused [OF assms, of "\<lparr>rq_method = DELETE, rq_route = container_route cid [],
      rq_params = [(''force'', bool_text force)], rq_json = None, rq_timeout = control_timeout\<rparr>" t], of parse print]
  by (auto simp: agent_remove_container_def then_pure_def)

section \<open>A sample host\<close>

text \<open>A daemon whose state is the list of commands it ran; it has one container, the database,
  which carries no label.\<close>

definition guard_engine :: "string list docker_engine" where
  "guard_engine =
     (let run = (\<lambda>c d. (D_Ok (), d @ [c]));
          database = \<lparr>hk_id = ''db'', hk_name = ''postgres'', hk_attrs = []\<rparr>
      in \<lparr>de_open = (\<lambda>_. None), de_ping = Pair (D_Ok ()), de_info = Pair (D_Ok []),
          de_get = (\<lambda>cid d. (if cid = ''db'' then D_Ok database else D_Not_Found cid, d)),
          de_all = (\<lambda>_ _ d. (D_Ok [database], d)), de_image = (\<lambda>_ d. (D_Ok (), d)),
          de_create = (\<lambda>a d. (D_Ok database, d @ [dc_name a])), de_start = run, de_stop = (\<lambda>c _. run c),
          de_restart = (\<lambda>c _. run c), de_remove = (\<lambda>c _. run c), de_stats = (\<lambda>_ d. (D_Ok [], d)),
          de_logs = (\<lambda>_ _ d. (D_Ok [], d))\<rparr>)"

definition guard_app :: "string list host_app" where
  "guard_app =
     \<lparr>ha_config = \<lparr>hc_node_name = ''gpu-1'', hc_token = ''k'', hc_managed_label = ''aip.managed'',
        hc_allow_unmanaged = False\<rparr>, ha_engine = guard_engine, ha_version = ''1'',
      ha_probe = \<lparr>pr_name = ''none'', pr_available = Done False, pr_devices = Done [], pr_metrics = Done [],
        pr_processes = Done [], pr_driver = Done ([], [])\<rparr>,
      ha_facts = (\<lambda>_. JNull), ha_dump = (\<lambda>_. ''{}'')\<rparr>"

definition guard_wire :: "string list host wire" where
  "guard_wire = \<lparr>wire_sent = [], wire_world = \<lparr>ho_connected = False, ho_daemon = []\<rparr>\<rparr>"

definition guard_spec :: container_spec where
  "guard_spec =
     \<lparr>spec_name = ''vllm-1'', spec_image = ''vllm'', spec_command = [''serve''], spec_environment = [],
      spec_labels = [(''aip.managed'', ''false'')], spec_volumes = [], spec_ports = [(8000, 9001)],
      spec_network = [], spec_gpus = Some [0, 1], spec_shm_bytes = None, spec_restart_policy = ''no''\<rparr>"

definition guard_target :: agent_target where
  "guard_target = \<lparr>at_url = ''http://h'', at_token = ''k'', at_verify_tls = True\<rparr>"

section \<open>The promises\<close>

text \<open>
  C33. The platform cannot touch a container it does not own.  Whatever token it holds, a start,
  stop, restart or removal that the control plane sends for a container without the managed
  label raises, and the daemon is as it was: the guard stands on the host, behind every caller.\<close>
theorem foreign_container_untouched:
  assumes "reads_only (ha_engine app)" and "plain_id cid"
    and "foreign (ha_config app) (ha_engine app) cid (ho_daemon (wire_world w))"
  shows "\<exists>e w1. control_call (host_net app parse print) t cid c w = (Inl e, w1)
    \<and> ho_daemon (wire_world w1) = ho_daemon (wire_world w)"
proof (cases c)
  case Do_Start
  with refused_action [OF assms, of "''start''" parse print t "[]" control_timeout] show ?thesis
    by (auto simp: control_call_def runtime_start_def agent_start_container_def then_pure_def)
next
  case (Do_Stop n)
  with refused_action [OF assms, of "''stop''" parse print t "[(''timeout_seconds'', int_str n)]" "control_timeout + n"]
  show ?thesis by (auto simp: control_call_def runtime_stop_def agent_stop_container_def then_pure_def)
next
  case (Do_Restart n)
  with refused_action [OF assms, of "''restart''" parse print t "[(''timeout_seconds'', int_str n)]" "control_timeout + n"]
  show ?thesis by (auto simp: control_call_def runtime_restart_def agent_restart_container_def then_pure_def)
next
  case (Do_Remove force)
  with refused_removal [OF assms, of parse print t force] show ?thesis by (simp add: control_call_def)
qed

lemma foreign_container_untouched_witness:
  "\<exists>e w1. control_call (host_net guard_app (\<lambda>_. None) (\<lambda>_. [])) guard_target ''db'' (Do_Stop 30) guard_wire = (Inl e, w1)
    \<and> ho_daemon (wire_world w1) = ho_daemon (wire_world guard_wire)"
proof (rule foreign_container_untouched)
  show "reads_only (ha_engine guard_app)"
    by (simp add: reads_only_def guard_app_def guard_engine_def Let_def)
  show "plain_id ''db''" by (simp add: plain_id_def)
  show "foreign (ha_config guard_app) (ha_engine guard_app) ''db'' (ho_daemon (wire_world guard_wire))"
    by (simp add: foreign_def guard_app_def guard_engine_def guard_wire_def is_managed_def labels_of_def
        object_field_def json_get_def Let_def)
qed

text \<open>
  C35. What the control plane asks for is what the daemon is asked to create: the specification
  survives the wire (an empty device list arrives as none), reaches the SDK's \<open>create\<close> with
  the arguments of the original, and the container always carries the managed label, whatever
  labels the caller chose; the other labels are the caller's.\<close>
theorem creation_reaches_daemon:
  assumes "token_ok (ha_config app) (at_token t)"
  shows "decode_spec (spec_payload spec) = Some (sent_spec spec)
    \<and> wire_world (snd (agent_create_container (host_net app parse print) t (spec_payload spec) w))
        = snd (host_create (ha_config app) (ha_engine app) spec (wire_world w))
    \<and> map_of (dc_labels (create_args cfg spec)) (hc_managed_label cfg) = Some ''true''
    \<and> (\<forall>k. k \<noteq> hc_managed_label cfg \<longrightarrow>
         map_of (dc_labels (create_args cfg spec)) k = map_of (dict_merge [] (spec_labels spec)) k)"
proof -
  have args: "create_args c (sent_spec spec) = create_args c spec" for c
    by (auto simp: create_args_def sent_spec_def split: option.splits list.splits)
  have img: "spec_image (sent_spec spec) = spec_image spec" by (simp add: sent_spec_def)
  have same: "host_create (ha_config app) (ha_engine app) (sent_spec spec) h
      = host_create (ha_config app) (ha_engine app) spec h" for h
    unfolding host_create_def args img ..
  have route: "route_of ''/containers/create'' = R_Container ''create''" by code_simp
  have world: "wire_world (snd (agent_create_container (host_net app parse print) t (spec_payload spec) w))
      = snd (host_create (ha_config app) (ha_engine app) spec (wire_world w))"
    using assms
    by (auto simp: agent_create_container_def request_dict_def then_pure_def send_request_def host_net_def
        host_answer_def route_answer_def route container_answer_def decode_spec_payload same answered_def Let_def
        split: prod.splits sum.splits)
  show ?thesis
    by (intro conjI decode_spec_payload world) (simp_all add: create_args_def update_conv')
qed

lemma creation_reaches_daemon_witness:
  "map_of (dc_labels (create_args (ha_config guard_app) guard_spec)) ''aip.managed'' = Some ''true''
   \<and> ho_daemon (wire_world (snd (agent_create_container (host_net guard_app (\<lambda>_. None) (\<lambda>_. [])) guard_target
       (spec_payload guard_spec) guard_wire))) = [''vllm-1'']"
proof -
  have ok: "token_ok (ha_config guard_app) (at_token guard_target)"
    by (simp add: token_ok_def guard_app_def guard_target_def)
  have made: "ho_daemon (snd (host_create (ha_config guard_app) guard_engine guard_spec (wire_world guard_wire))) = [''vllm-1'']"
    by (simp add: host_create_def host_bind_def connect_def host_image_exists_def docker_call_def reload_def
        host_return_def guard_engine_def guard_wire_def create_args_def guard_spec_def Let_def)
  have "ha_engine guard_app = guard_engine" "hc_managed_label (ha_config guard_app) = ''aip.managed''"
    by (simp_all add: guard_app_def)
  with creation_reaches_daemon [OF ok, of guard_spec "\<lambda>_. None" "\<lambda>_. []" guard_wire "ha_config guard_app"] made
  show ?thesis by simp
qed

end
