(* ===== verification/Fleet_Properties.thy ===== *)
theory Fleet_Properties
  imports Enrollment_Sample
begin

text \<open>
  What polling promises, and where it falls short of what \<open>sync_node\<close> says of itself.
\<close>

text \<open>
  C36. A polling sweep only observes.  Whatever the agents answer, however they fail and wherever
  an exception strikes, no node changes its identity, address, token or labels, none appears or
  disappears, and reservations, invitations and the trail are untouched; unique names, GPU
  identities, slots and container keys stay unique.\<close>
theorem polling_only_observes:
  "same_fleet db (fst (sync_nodes env net running db w))
   \<and> (fleet_sound db \<longrightarrow> fleet_sound (fst (sync_nodes env net running db w)))"
  using sync_nodes_step [of db env net running w] by (simp add: sync_step_def)

lemma polling_only_observes_witness:
  "fleet_sound campus_issued
   \<and> fleet_sound (fst (sync_nodes (ee_fleet campus_env) (campus_net ''H'') False campus_issued campus_wire))"
proof -
  have sound: "fleet_sound campus_issued"
    by (simp add: campus_issued_def fleet_record_def campus_db_def fleet_sound_def nodes_sound_def gpus_sound_def)
  with polling_only_observes [of campus_issued "ee_fleet campus_env" "campus_net ''H''" False campus_wire] show ?thesis by blast
qed

section \<open>Two ways a sweep is lost\<close>

text \<open>A card that takes the slot of one the platform knows: the flush violates the unique
  constraint on node and index, since the old row is still there.\<close>

theorem replaced_card_breaks_flush:
  assumes "gpu_slot n = gpu_slot g" "gpu_id n \<noteq> gpu_id g"
  shows "flush_gpus [g] [g, n] = None"
  using assms by (simp add: flush_gpus_def row_fits_def)

text \<open>Two cards of one node that swapped slots: the first update collides with the second row.\<close>

theorem swapped_cards_break_flush:
  assumes "gpu_id a < gpu_id b" "gpu_slot a \<noteq> gpu_slot b" "gpu_node a = gpu_node b"
  shows "flush_gpus [a, b] [a\<lparr>gpu_index := gpu_index b\<rparr>, b\<lparr>gpu_index := gpu_index a\<rparr>] = None"
proof -
  have "a\<lparr>gpu_index := gpu_index b\<rparr> \<noteq> a" "b\<lparr>gpu_index := gpu_index a\<rparr> \<noteq> b"
    using assms(2,3) by (cases a; cases b; simp add: gpu_slot_def)+
  moreover have "a\<lparr>gpu_index := gpu_index b\<rparr> \<noteq> b" "b\<lparr>gpu_index := gpu_index a\<rparr> \<noteq> a"
    using assms(1) by (cases a; cases b; auto)+
  ultimately show ?thesis
    using assms by (simp add: flush_gpus_def row_fits_def gpu_slot_def)
qed

text \<open>An exception at one node loses what the sweep learned of the nodes before it.\<close>

theorem one_bad_node_loses_sweep:
  assumes "list_pollable (fl_nodes db) = [n, m]"
    and "sync_node env net n None db w = (Done (db1, res), w1)"
    and "sync_node env net m None db1 w1 = (Raised e, w2)"
  shows "sync_nodes env net False db w = (db, w2)"
  using assms by (simp add: sync_nodes_def)

end
