(* ===== verification/Vector_Store.thy ===== *)
theory Vector_Store
  imports Platform_Prelude
begin

text \<open>
  \<open>services/vector_store.py\<close>: the \<open>VectorStore\<close> of \<open>core/interfaces/vector.py\<close> over Qdrant.
  The Qdrant client is a parameter: its calls take the state of the world, give a new one, and
  either answer or raise (\<open>Inl\<close> with the text of the exception).  \<open>honest\<close> is what the code
  relies on, as Qdrant documents it: a filtered query answers points of its collection that
  satisfy the filter, and no call makes up points.  Scores and vectors are rationals.
\<close>

section \<open>Interface types\<close>

datatype distance = COSINE | DOT | EUCLID

record vector_record =
  vr_id :: string
  vr_vector :: "rat list"
  vr_payload :: "(string \<times> json) list"

record search_hit =
  hit_id :: string
  hit_score :: rat
  hit_payload :: "(string \<times> json) list"

record collection_spec =
  cs_name :: string
  cs_size :: nat
  cs_distance :: distance

section \<open>Filters\<close>

datatype field_match = Match_Any "json list" | Match_Value json

type_synonym must = "(string \<times> field_match) list"

text \<open>\<open>_to_filter\<close>: \<open>None\<close> values are dropped, sequences match any, scalars exactly, and anything
  else raises \<open>TypeError\<close>.  The empty filter is no filter.\<close>

fun field_condition :: "json \<Rightarrow> string + field_match option" where
  "field_condition JNull = Inr None"
| "field_condition (JList vs) = Inr (Some (Match_Any vs))"
| "field_condition (JStr s) = Inr (Some (Match_Value (JStr s)))"
| "field_condition (JInt i) = Inr (Some (Match_Value (JInt i)))"
| "field_condition (JBool b) = Inr (Some (Match_Value (JBool b)))"
| "field_condition _ = Inl ''TypeError: Cannot express filter as a vector store filter.''"

fun conditions :: "(string \<times> json) list \<Rightarrow> string + must" where
  "conditions [] = Inr []"
| "conditions ((key, v) # rest) =
     (case field_condition v of
        Inl e \<Rightarrow> Inl e
      | Inr None \<Rightarrow> conditions rest
      | Inr (Some m) \<Rightarrow> (case conditions rest of Inl e \<Rightarrow> Inl e | Inr ms \<Rightarrow> Inr ((key, m) # ms)))"

definition to_filter :: "(string \<times> json) list \<Rightarrow> string + must option" where
  "to_filter filters =
     (case conditions filters of Inl e \<Rightarrow> Inl e | Inr ms \<Rightarrow> Inr (if ms = [] then None else Some ms))"

text \<open>What a \<open>must\<close> filter selects, by Qdrant's documentation.\<close>

definition satisfies :: "(string \<times> json) list \<Rightarrow> must \<Rightarrow> bool" where
  "satisfies payload ms = list_all (\<lambda>(key, m).
     (case m of Match_Value v \<Rightarrow> json_get payload key = Some v
      | Match_Any vs \<Rightarrow> (\<exists>v \<in> set vs. json_get payload key = Some v))) ms"

section \<open>The client\<close>

type_synonym ('x, 'a) call = "'x \<Rightarrow> (string + 'a) \<times> 'x"

record 'x qdrant =
  qd_exists :: "string \<Rightarrow> ('x, bool) call"
  qd_create :: "collection_spec \<Rightarrow> ('x, unit) call"
  qd_index :: "string \<Rightarrow> string \<Rightarrow> ('x, unit) call"
  qd_drop :: "string \<Rightarrow> ('x, unit) call"
  qd_upsert :: "string \<Rightarrow> vector_record list \<Rightarrow> ('x, unit) call"
  qd_query :: "string \<Rightarrow> rat list \<Rightarrow> nat \<Rightarrow> rat option \<Rightarrow> must option \<Rightarrow> ('x, search_hit list) call"
  qd_delete_ids :: "string \<Rightarrow> string list \<Rightarrow> ('x, unit) call"
  qd_delete_where :: "string \<Rightarrow> must option \<Rightarrow> ('x, unit) call"
  qd_count :: "string \<Rightarrow> must option \<Rightarrow> ('x, nat) call"

definition call_bind :: "('x, 'a) call \<Rightarrow> ('a \<Rightarrow> ('x, 'b) call) \<Rightarrow> ('x, 'b) call" where
  "call_bind c f x = (case c x of (Inl e, x1) \<Rightarrow> (Inl e, x1) | (Inr v, x1) \<Rightarrow> f v x1)"

definition call_return :: "'a \<Rightarrow> ('x, 'a) call" where
  "call_return v x = (Inr v, x)"

definition call_raise :: "string \<Rightarrow> ('x, 'a) call" where
  "call_raise e x = (Inl e, x)"

section \<open>QdrantVectorStore\<close>

definition scope_keys :: "string list" where
  "scope_keys = [''tenant_id'', ''knowledge_base_id'', ''user_id'', ''agent_id'', ''end_user'']"

text \<open>An index that cannot be made is skipped.\<close>

fun index_all :: "'x qdrant \<Rightarrow> string \<Rightarrow> string list \<Rightarrow> ('x, unit) call" where
  "index_all qd c [] x = (Inr (), x)"
| "index_all qd c (key # keys) x = index_all qd c keys (snd (qd_index qd c key x))"

definition ensure_collection :: "'x qdrant \<Rightarrow> collection_spec \<Rightarrow> ('x, unit) call" where
  "ensure_collection qd spec = call_bind (qd_exists qd (cs_name spec)) (\<lambda>there.
     if there then call_return ()
     else call_bind (qd_create qd spec) (\<lambda>_. index_all qd (cs_name spec) scope_keys))"

definition delete_collection :: "'x qdrant \<Rightarrow> string \<Rightarrow> ('x, unit) call" where
  "delete_collection qd c = qd_drop qd c"

definition store_upsert :: "'x qdrant \<Rightarrow> string \<Rightarrow> vector_record list \<Rightarrow> ('x, unit) call" where
  "store_upsert qd c records = (if records = [] then call_return () else qd_upsert qd c records)"

definition store_search ::
    "'x qdrant \<Rightarrow> string \<Rightarrow> rat list \<Rightarrow> nat \<Rightarrow> rat option \<Rightarrow> (string \<times> json) list \<Rightarrow> ('x, search_hit list) call" where
  "store_search qd c v limit threshold filters = call_bind (qd_exists qd c) (\<lambda>there.
     if \<not> there then call_return []
     else case to_filter filters of
            Inl e \<Rightarrow> call_raise e
          | Inr f \<Rightarrow> qd_query qd c v limit threshold f)"

definition store_delete ::
    "'x qdrant \<Rightarrow> string \<Rightarrow> string list \<Rightarrow> (string \<times> json) list \<Rightarrow> ('x, unit) call" where
  "store_delete qd c ids filters = call_bind (qd_exists qd c) (\<lambda>there.
     if \<not> there then call_return ()
     else if ids \<noteq> [] then qd_delete_ids qd c ids
     else if filters \<noteq> []
     then (case to_filter filters of Inl e \<Rightarrow> call_raise e | Inr f \<Rightarrow> qd_delete_where qd c f)
     else call_raise ''ValueError: delete() needs ids or filters; refusing to delete a whole collection.'')"

definition store_count :: "'x qdrant \<Rightarrow> string \<Rightarrow> (string \<times> json) list \<Rightarrow> ('x, nat) call" where
  "store_count qd c filters = call_bind (qd_exists qd c) (\<lambda>there.
     if \<not> there then call_return 0
     else case to_filter filters of Inl e \<Rightarrow> call_raise e | Inr f \<Rightarrow> qd_count qd c f)"

section \<open>What is relied on\<close>

text \<open>\<open>view x c\<close> is what the store holds in collection \<open>c\<close>: identifier and payload of each point.\<close>

type_synonym 'x points_view = "'x \<Rightarrow> string \<Rightarrow> (string \<times> (string \<times> json) list) set"

definition keeps_points :: "'x points_view \<Rightarrow> ('x, 'a) call \<Rightarrow> bool" where
  "keeps_points view f = (\<forall>x c. view (snd (f x)) c \<subseteq> view x c)"

definition record_points :: "vector_record list \<Rightarrow> (string \<times> (string \<times> json) list) set" where
  "record_points records = (\<lambda>r. (vr_id r, vr_payload r)) ` set records"

definition honest :: "'x points_view \<Rightarrow> 'x qdrant \<Rightarrow> bool" where
  "honest view qd =
     ((\<forall>c. keeps_points view (qd_exists qd c)) \<and> (\<forall>s. keeps_points view (qd_create qd s))
      \<and> (\<forall>c k. keeps_points view (qd_index qd c k)) \<and> (\<forall>c. keeps_points view (qd_drop qd c))
      \<and> (\<forall>c is. keeps_points view (qd_delete_ids qd c is)) \<and> (\<forall>c f. keeps_points view (qd_delete_where qd c f))
      \<and> (\<forall>c f. keeps_points view (qd_count qd c f))
      \<and> (\<forall>c v n t f. keeps_points view (qd_query qd c v n t f))
      \<and> (\<forall>c rs x c1. view (snd (qd_upsert qd c rs x)) c1
            \<subseteq> view x c1 \<union> (if c1 = c then record_points rs else {}))
      \<and> (\<forall>c v n t f x hits x1. qd_query qd c v n t f x = (Inr hits, x1) \<longrightarrow>
            length hits \<le> n \<and> (\<forall>h \<in> set hits. \<exists>payload. (hit_id h, payload) \<in> view x c
              \<and> (\<forall>ms. f = Some ms \<longrightarrow> satisfies payload ms) \<and> (\<forall>s. t = Some s \<longrightarrow> s \<le> hit_score h))))"

lemma keeps_points_bind:
  assumes "keeps_points view c" "\<And>v. keeps_points view (f v)"
  shows "keeps_points view (call_bind c f)"
  unfolding keeps_points_def
proof (intro allI)
  fix x k
  obtain r x1 where c: "c x = (r, x1)" by fastforce
  with assms(1) have one: "view x1 k \<subseteq> view x k" by (metis keeps_points_def snd_conv)
  show "view (snd (call_bind c f x)) k \<subseteq> view x k"
  proof (cases r)
    case (Inl e)
    with c one show ?thesis by (simp add: call_bind_def)
  next
    case (Inr v)
    have "view (snd (f v x1)) k \<subseteq> view x1 k" using assms(2) [of v] by (simp add: keeps_points_def)
    with c one Inr show ?thesis by (simp add: call_bind_def)
  qed
qed

lemma keeps_points_simple [simp]: "keeps_points view (call_return v)" "keeps_points view (call_raise e)"
  by (simp_all add: keeps_points_def call_return_def call_raise_def)

lemma honest_simple:
  assumes "honest view qd"
  shows "keeps_points view (qd_exists qd c)" "keeps_points view (qd_create qd s)" "keeps_points view (qd_index qd c k)"
    "keeps_points view (qd_drop qd c)" "keeps_points view (qd_delete_ids qd c is)"
    "keeps_points view (qd_delete_where qd c f)" "keeps_points view (qd_count qd c f)"
    "keeps_points view (qd_query qd c v n t f)"
  using assms by (simp_all add: honest_def)

lemma honest_upsert:
  "honest view qd \<Longrightarrow> view (snd (qd_upsert qd c rs x)) k \<subseteq> view x k \<union> (if k = c then record_points rs else {})"
  unfolding honest_def by (elim conjE allE) assumption

lemma honest_query:
  assumes "honest view qd" "qd_query qd c v n t f x = (Inr hits, x1)"
  shows "length hits \<le> n \<and> (\<forall>h \<in> set hits. \<exists>payload. (hit_id h, payload) \<in> view x c
    \<and> (\<forall>ms. f = Some ms \<longrightarrow> satisfies payload ms) \<and> (\<forall>s. t = Some s \<longrightarrow> s \<le> hit_score h))"
proof -
  from assms(1) have "\<forall>c v n t f x hits x1. qd_query qd c v n t f x = (Inr hits, x1) \<longrightarrow>
            length hits \<le> n \<and> (\<forall>h \<in> set hits. \<exists>payload. (hit_id h, payload) \<in> view x c
              \<and> (\<forall>ms. f = Some ms \<longrightarrow> satisfies payload ms) \<and> (\<forall>s. t = Some s \<longrightarrow> s \<le> hit_score h))"
    unfolding honest_def by (elim conjE)
  with assms(2) show ?thesis by (elim allE impE) 
qed

lemma index_all_keeps:
  assumes "honest view qd"
  shows "keeps_points view (index_all qd c keys)"
proof -
  have "view (snd (index_all qd c keys x)) k \<subseteq> view x k" for x k
  proof (induction keys arbitrary: x)
    case (Cons key keys)
    have "view (snd (qd_index qd c key x)) k \<subseteq> view x k"
      using honest_simple(3) [OF assms] by (simp add: keeps_points_def)
    with Cons [of "snd (qd_index qd c key x)"] show ?case by simp
  qed simp
  then show ?thesis by (simp add: keeps_points_def)
qed

lemma store_keeps:
  assumes "honest view qd"
  shows "keeps_points view (ensure_collection qd spec)" "keeps_points view (delete_collection qd c)"
    "keeps_points view (store_search qd c v n t fs)" "keeps_points view (store_delete qd c is fs)"
    "keeps_points view (store_count qd c fs)"
  unfolding ensure_collection_def delete_collection_def store_search_def store_delete_def store_count_def
  by (auto intro!: keeps_points_bind honest_simple [OF assms] index_all_keeps [OF assms] split: sum.splits)

lemma store_upsert_points:
  assumes "honest view qd"
  shows "view (snd (store_upsert qd c rs x)) k \<subseteq> view x k \<union> (if k = c then record_points rs else {})"
  using honest_upsert [OF assms, of c rs x k] by (auto simp: store_upsert_def call_return_def)

text \<open>A filter that is given is never loosened: it is either searched with or raises.\<close>

lemma to_filter_exact:
  assumes "to_filter fs = Inr (Some ms)" "satisfies payload ms" "(key, JStr s) \<in> set fs"
  shows "json_get payload key = Some (JStr s)"
proof -
  have "conditions fs = Inr ms" using assms(1) by (simp add: to_filter_def split: sum.splits if_splits)
  then have "(key, Match_Value (JStr s)) \<in> set ms" using assms(3)
    by (induction fs arbitrary: ms rule: conditions.induct) (auto split: sum.splits option.splits)
  with assms(2) show ?thesis by (auto simp: satisfies_def list_all_iff)
qed

lemma to_filter_given:
  assumes "to_filter fs = Inr f" "(key, JStr s) \<in> set fs"
  obtains ms where "f = Some ms"
proof -
  obtain ms where ms: "conditions fs = Inr ms" "f = (if ms = [] then None else Some ms)"
    using assms(1) by (simp add: to_filter_def split: sum.splits)
  have "(key, Match_Value (JStr s)) \<in> set ms" using ms(1) assms(2)
    by (induction fs arbitrary: ms rule: conditions.induct) (auto split: sum.splits option.splits)
  with ms(2) that show ?thesis by (cases ms) auto
qed

lemma search_filtered:
  assumes "honest view qd" "store_search qd c v n t fs x = (Inr hits, x1)" "h \<in> set hits"
  obtains payload where "(hit_id h, payload) \<in> view x c"
    "\<And>key s. (key, JStr s) \<in> set fs \<Longrightarrow> json_get payload key = Some (JStr s)"
    "\<And>s. t = Some s \<Longrightarrow> s \<le> hit_score h"
proof -
  obtain there x0 where e: "qd_exists qd c x = (Inr there, x0)"
    using assms(2) by (cases "qd_exists qd c x") (auto simp: store_search_def call_bind_def split: sum.splits)
  have x0: "view x0 c \<subseteq> view x c"
    using honest_simple(1) [OF assms(1), of c] e by (metis keeps_points_def snd_conv)
  have there: "there"
  proof (rule ccontr)
    assume "\<not> there"
    with assms(2,3) e show False by (auto simp: store_search_def call_bind_def call_return_def)
  qed
  with assms(2) e obtain f where f: "to_filter fs = Inr f" "qd_query qd c v n t f x0 = (Inr hits, x1)"
    by (auto simp: store_search_def call_bind_def call_raise_def split: sum.splits)
  with assms(1,3) obtain payload where p: "(hit_id h, payload) \<in> view x0 c"
      "\<forall>ms. f = Some ms \<longrightarrow> satisfies payload ms" "\<forall>s. t = Some s \<longrightarrow> s \<le> hit_score h"
    using honest_query [OF assms(1) f(2)] by blast
  have "json_get payload key = Some (JStr s)" if "(key, JStr s) \<in> set fs" for key s
    using to_filter_given [OF f(1) that] to_filter_exact [of fs _ payload key s] f(1) p(2) that by blast
  with p x0 that show ?thesis by blast
qed

lemma search_bounded:
  assumes "honest view qd" "store_search qd c v n t fs x = (Inr hits, x1)"
  shows "length hits \<le> n"
proof -
  obtain r x0 where e: "qd_exists qd c x = (r, x0)" by fastforce
  with assms(2) consider "hits = []" | f where "qd_query qd c v n t f x0 = (Inr hits, x1)"
    unfolding store_search_def call_bind_def
    by (auto simp: call_return_def call_raise_def split: sum.splits if_splits)
  then show ?thesis
  proof cases
    case 2
    from honest_query [OF assms(1) this] show ?thesis by blast
  qed simp
qed

section \<open>A store in memory\<close>

text \<open>A store the contract holds for: the collections there are, and the points with the name of
  the collection each is in.  Every point that passes the filter scores one.\<close>

type_synonym shelf = "string list \<times> (string \<times> vector_record) list"

definition passes :: "must option \<Rightarrow> vector_record \<Rightarrow> bool" where
  "passes f r = (case f of None \<Rightarrow> True | Some ms \<Rightarrow> satisfies (vr_payload r) ms)"

definition shelf_hits :: "string \<Rightarrow> rat option \<Rightarrow> must option \<Rightarrow> shelf \<Rightarrow> search_hit list" where
  "shelf_hits c t f x =
     (if (case t of None \<Rightarrow> False | Some s \<Rightarrow> 1 < s) then []
      else map (\<lambda>(_, r). \<lparr>hit_id = vr_id r, hit_score = 1, hit_payload = vr_payload r\<rparr>)
             (filter (\<lambda>(c1, r). c1 = c \<and> passes f r) (snd x)))"

definition shelf_store :: "shelf qdrant" where
  "shelf_store =
     \<lparr>qd_exists = (\<lambda>c x. (Inr (c \<in> set (fst x)), x)),
      qd_create = (\<lambda>s x. (Inr (), (cs_name s # fst x, snd x))),
      qd_index = (\<lambda>c k x. (Inr (), x)),
      qd_drop = (\<lambda>c x. (Inr (), (filter (\<lambda>n. n \<noteq> c) (fst x), filter (\<lambda>(c1, _). c1 \<noteq> c) (snd x)))),
      qd_upsert = (\<lambda>c rs x. (Inr (), (fst x, filter (\<lambda>(c1, r). c1 \<noteq> c \<or> vr_id r \<notin> vr_id ` set rs) (snd x)
                                          @ map (Pair c) rs))),
      qd_query = (\<lambda>c v n t f x. (Inr (take n (shelf_hits c t f x)), x)),
      qd_delete_ids = (\<lambda>c is x. (Inr (), (fst x, filter (\<lambda>(c1, r). c1 \<noteq> c \<or> vr_id r \<notin> set is) (snd x)))),
      qd_delete_where = (\<lambda>c f x. (Inr (), (fst x, filter (\<lambda>(c1, r). c1 \<noteq> c \<or> \<not> passes f r) (snd x)))),
      qd_count = (\<lambda>c f x. (Inr (length (filter (\<lambda>(c1, r). c1 = c \<and> passes f r) (snd x))), x))\<rparr>"

definition shelf_view :: "shelf points_view" where
  "shelf_view x c = (\<lambda>(_, r). (vr_id r, vr_payload r)) ` set (filter (\<lambda>(c1, _). c1 = c) (snd x))"

lemma shelf_hit:
  assumes "h \<in> set (shelf_hits c t f x)"
  shows "\<exists>payload. (hit_id h, payload) \<in> shelf_view x c \<and> (\<forall>ms. f = Some ms \<longrightarrow> satisfies payload ms)
    \<and> (\<forall>s. t = Some s \<longrightarrow> s \<le> hit_score h)"
  using assms by (force simp: shelf_hits_def shelf_view_def passes_def split: option.splits if_splits)

lemma shelf_honest: "honest shelf_view shelf_store"
  unfolding honest_def
  by (intro conjI allI)
     (auto simp: keeps_points_def shelf_store_def shelf_view_def record_points_def
       dest!: in_set_takeD shelf_hit)

end
