(* ===== verification/Knowledge.thy ===== *)
theory Knowledge
  imports Vector_Store Chunking Audit_Trail "HOL-Library.Char_ord" "HOL-Library.List_Lexorder"
begin

text \<open>
  Knowledge bases and their ingestion: \<open>models/knowledge.py\<close>, \<open>repositories/knowledge.py\<close>,
  \<open>services/knowledge.py\<close> and \<open>workers/ingestion.py\<close>.  The embedding endpoint, object storage,
  the OCR engine, the vector store and the parsers are parameters; each call works on the state
  of the world outside the database and may raise.  An operation gives the tables as committed:
  one that raised leaves them as they were.
\<close>

section \<open>Tables\<close>

record knowledge_base =
  kb_id :: uuid
  kb_name :: string
  kb_display :: string
  kb_description :: "string option"
  kb_tenant :: string
  kb_owner :: "uuid option"
  kb_collection :: string
  kb_model :: string
  kb_dimensions :: nat
  kb_chunk_size :: int
  kb_overlap :: int
  kb_enabled :: bool

datatype document_status =
  D_UPLOADED | D_PARSING | D_OCR | D_CHUNKING | D_EMBEDDING | D_INDEXED | D_FAILED | D_NO_TEXT

definition terminal_document_states :: "document_status list" where
  "terminal_document_states = [D_INDEXED, D_FAILED, D_NO_TEXT]"

record document =
  doc_id :: uuid
  doc_base :: uuid
  doc_filename :: string
  doc_type :: string
  doc_bytes :: nat
  doc_sha :: string
  doc_key :: "string option"
  doc_status :: document_status
  doc_detail :: "string option"
  doc_error :: "string option"
  doc_characters :: nat
  doc_chunk_count :: nat
  doc_ocr :: bool
  doc_by :: "uuid option"
  doc_indexed_at :: "timestamp option"
  doc_created :: timestamp

definition is_terminal :: "document \<Rightarrow> bool" where
  "is_terminal d = (doc_status d \<in> set terminal_document_states)"

record document_chunk =
  dk_document :: uuid
  dk_ordinal :: nat
  dk_text :: string
  dk_tokens :: nat
  dk_location :: "string option"
  dk_vector :: "string option"

record knowledge_db =
  kn_bases :: "knowledge_base list"
  kn_documents :: "document list"
  kn_chunks :: "document_chunk list"
  kn_models :: "(string \<times> nat) list"
  kn_trail :: "audit_entry list"
  kn_next :: nat

section \<open>Repositories\<close>

definition base_with :: "uuid \<Rightarrow> knowledge_db \<Rightarrow> knowledge_base option" where
  "base_with i db = find_row (\<lambda>b. kb_id b = i) (kn_bases db)"

definition base_by_name :: "string \<Rightarrow> knowledge_db \<Rightarrow> knowledge_base option" where
  "base_by_name nm db = find_row (\<lambda>b. kb_name b = nm) (kn_bases db)"

definition list_bases :: "string option \<Rightarrow> knowledge_db \<Rightarrow> knowledge_base list" where
  "list_bases tenant db =
     sort_key kb_name (filter (\<lambda>b. tenant = None \<or> tenant = Some (kb_tenant b)) (kn_bases db))"

definition bases_by_ids :: "uuid list \<Rightarrow> knowledge_db \<Rightarrow> knowledge_base list" where
  "bases_by_ids ids db = filter (\<lambda>b. kb_id b \<in> set ids) (kn_bases db)"

definition document_with :: "uuid \<Rightarrow> knowledge_db \<Rightarrow> document option" where
  "document_with i db = find_row (\<lambda>d. doc_id d = i) (kn_documents db)"

definition documents_of :: "uuid \<Rightarrow> nat \<Rightarrow> knowledge_db \<Rightarrow> document list" where
  "documents_of base limit db =
     take limit (sort_key (\<lambda>d. - doc_created d) (filter (\<lambda>d. doc_base d = base) (kn_documents db)))"

definition find_duplicate :: "uuid \<Rightarrow> string \<Rightarrow> knowledge_db \<Rightarrow> document option" where
  "find_duplicate base sha db =
     find_row (\<lambda>d. doc_base d = base \<and> doc_sha d = sha \<and> doc_status d \<noteq> D_FAILED) (kn_documents db)"

text \<open>\<open>FOR UPDATE SKIP LOCKED\<close>: documents other workers hold are passed over.\<close>

definition claim_next_pending :: "uuid list \<Rightarrow> knowledge_db \<Rightarrow> document option" where
  "claim_next_pending locked db =
     (case sort_key doc_created (filter (\<lambda>d. doc_status d = D_UPLOADED \<and> doc_id d \<notin> set locked) (kn_documents db)) of
        [] \<Rightarrow> None | d # _ \<Rightarrow> Some d)"

definition count_status :: "uuid \<Rightarrow> document_status \<Rightarrow> knowledge_db \<Rightarrow> nat" where
  "count_status base st db = length (filter (\<lambda>d. doc_base d = base \<and> doc_status d = st) (kn_documents db))"

definition chunks_of :: "uuid \<Rightarrow> knowledge_db \<Rightarrow> document_chunk list" where
  "chunks_of doc db = sort_key dk_ordinal (filter (\<lambda>c. dk_document c = doc) (kn_chunks db))"

text \<open>The dictionary by vector identifier: the last row wins.\<close>

definition chunk_by_vector :: "string \<Rightarrow> knowledge_db \<Rightarrow> document_chunk option" where
  "chunk_by_vector v db = find_row (\<lambda>c. dk_vector c = Some v) (rev (kn_chunks db))"

definition delete_chunks :: "uuid \<Rightarrow> knowledge_db \<Rightarrow> knowledge_db" where
  "delete_chunks doc db = db\<lparr>kn_chunks := filter (\<lambda>c. dk_document c \<noteq> doc) (kn_chunks db)\<rparr>"

definition ensure_model :: "string \<Rightarrow> nat \<Rightarrow> knowledge_db \<Rightarrow> knowledge_db" where
  "ensure_model nm dims db =
     (if (nm, dims) \<in> set (kn_models db) then db else db\<lparr>kn_models := kn_models db @ [(nm, dims)]\<rparr>)"

definition put_document :: "document \<Rightarrow> knowledge_db \<Rightarrow> knowledge_db" where
  "put_document d db = db\<lparr>kn_documents := update_rows (\<lambda>r. doc_id r = doc_id d) (\<lambda>_. d) (kn_documents db)\<rparr>"

definition knowledge_record ::
    "audit_action \<Rightarrow> actor \<Rightarrow> string \<Rightarrow> uuid \<Rightarrow> json \<Rightarrow> knowledge_db \<Rightarrow> knowledge_db" where
  "knowledge_record action who rtype i metadata db =
     db\<lparr>kn_trail := record_entry action (Some (actor_id who)) (actor_name who) rtype (uuid_str i) None metadata
          (kn_trail db)\<rparr>"

section \<open>Outside the database\<close>

record parse_result =
  ps_segments :: "parsed_segment list"
  ps_needs_ocr :: bool
  ps_warning :: "string option"

text \<open>\<open>parse\<close> gives a result, raises \<open>UnsupportedFormatError\<close>, or another exception by class.\<close>

datatype parse_outcome = Parsed parse_result | Unsupported string | Parser_Crash string

record ocr_block =
  ob_text :: string
  ob_page :: nat

record 'x knowledge_env =
  kv_now :: timestamp
  kv_sha :: "string \<Rightarrow> string"
  kv_vectors :: "'x qdrant"
  kv_embed :: "string list \<Rightarrow> string \<Rightarrow> ('x, rat list list) call"
  kv_put :: "string \<Rightarrow> string \<Rightarrow> string \<Rightarrow> ('x, unit) call"
  kv_get :: "string \<Rightarrow> ('x, string) call"
  kv_remove :: "string \<Rightarrow> ('x, unit) call"
  kv_ocr :: "(string \<Rightarrow> string \<Rightarrow> ('x, ocr_block list \<times> string option) call) option"
  kv_parse :: "string \<Rightarrow> string \<Rightarrow> string \<Rightarrow> parse_outcome"

type_synonym ('x, 'a) kn_call = "knowledge_db \<Rightarrow> 'x \<Rightarrow> ('a outcome \<times> knowledge_db) \<times> 'x"

section \<open>Knowledge bases\<close>

definition name_char :: "char \<Rightarrow> bool" where
  "name_char c = (c \<in> set ''abcdefghijklmnopqrstuvwxyz0123456789'')"

definition name_body :: "string \<Rightarrow> bool" where
  "name_body s = (3 \<le> length s \<and> length s \<le> 64 \<and> name_char (hd s) \<and> name_char (last s)
     \<and> list_all (\<lambda>c. name_char c \<or> c = CHR 0x2D) s)"

text \<open>\<open>re.match\<close> with \<open>$\<close>, which also matches before a final newline.\<close>

definition base_name_ok :: "string \<Rightarrow> bool" where
  "base_name_ok s = (name_body s \<or> (s \<noteq> [] \<and> last s = newline \<and> name_body (butlast s)))"

definition get_base :: "uuid \<Rightarrow> knowledge_db \<Rightarrow> knowledge_base result" where
  "get_base i db = (case base_with i db of
     None \<Rightarrow> Inl (NotFoundError (''No knowledge base with id '' @ uuid_str i @ ''.'')) | Some b \<Rightarrow> Inr b)"

definition probe_dimensions :: "'x knowledge_env \<Rightarrow> string \<Rightarrow> 'x \<Rightarrow> nat result \<times> 'x" where
  "probe_dimensions env model x =
     (case kv_embed env [''dimension probe''] model x of
        (Inl e, x1) \<Rightarrow> (Inl (ValidationError (''Could not reach the embedding model '' @ quoted model @ '': '' @ e
             @ ''. Deploy an EMBEDDING model and point an alias at it before creating a knowledge base.'')), x1)
      | (Inr ((c # v) # _), x1) \<Rightarrow> (Inr (length (c # v)), x1)
      | (Inr _, x1) \<Rightarrow> (Inl (ValidationError (''The model '' @ quoted model
             @ '' returned no embedding. It may not be an embedding model.'')), x1))"

text \<open>The hexadecimal digits of an identifier, without dashes.\<close>

definition collection_name :: "uuid \<Rightarrow> string" where
  "collection_name i = ''kb_'' @ filter (\<lambda>c. c \<noteq> CHR ''-'') (uuid_str i)"

definition collection_of :: "knowledge_base \<Rightarrow> collection_spec" where
  "collection_of b = \<lparr>cs_name = kb_collection b, cs_size = kb_dimensions b, cs_distance = COSINE\<rparr>"

record base_request =
  br_name :: string
  br_display :: string
  br_description :: "string option"
  br_model :: string
  br_chunk_size :: int
  br_overlap :: int
  br_tenant :: string

definition new_base :: "base_request \<Rightarrow> nat \<Rightarrow> actor \<Rightarrow> uuid \<Rightarrow> knowledge_base" where
  "new_base rq dims who i =
     \<lparr>kb_id = i, kb_name = br_name rq, kb_display = br_display rq, kb_description = br_description rq,
      kb_tenant = br_tenant rq, kb_owner = Some (actor_id who), kb_collection = collection_name i,
      kb_model = br_model rq, kb_dimensions = dims, kb_chunk_size = br_chunk_size rq,
      kb_overlap = br_overlap rq, kb_enabled = True\<rparr>"

text \<open>The check constraints of the table raise at the flush.\<close>

definition create_base ::
    "'x knowledge_env \<Rightarrow> base_request \<Rightarrow> actor \<Rightarrow> ('x, knowledge_base result) kn_call" where
  "create_base env rq who db x =
     (if \<not> base_name_ok (br_name rq)
      then ((Done (Inl (ValidationError
             ''A knowledge base name must be lowercase letters, digits and hyphens, 3-64 characters.'')), db), x)
      else if base_by_name (br_name rq) db \<noteq> None
      then ((Done (Inl (ConflictError (''A knowledge base named '' @ quoted (br_name rq) @ '' already exists.''))), db), x)
      else if br_chunk_size rq \<le> br_overlap rq
      then ((Done (Inl (ValidationError
             ''chunk_overlap must be smaller than chunk_size, or chunking would never advance.'')), db), x)
      else case probe_dimensions env (br_model rq) x of
        (Inl e, x1) \<Rightarrow> ((Done (Inl e), db), x1)
      | (Inr dims, x1) \<Rightarrow>
          (let b = new_base rq dims who (kn_next db);
               db1 = ensure_model (br_model rq) dims
                 (db\<lparr>kn_bases := kn_bases db @ [b], kn_next := kn_next db + 1\<rparr>)
           in if \<not> (0 < br_chunk_size rq \<and> br_chunk_size rq \<le> 8000 \<and> 0 \<le> br_overlap rq)
              then ((Raised ''IntegrityError: knowledge_bases'', db), x1)
              else case ensure_collection (kv_vectors env) (collection_of b) x1 of
                (Inl e, x2) \<Rightarrow> ((Raised e, db), x2)
              | (Inr _, x2) \<Rightarrow>
                  ((Done (Inr b), knowledge_record KNOWLEDGE_BASE_CREATED who ''knowledge_base'' (kb_id b)
                     (JObj [(''name'', JStr (br_name rq)), (''embedding_model'', JStr (br_model rq)),
                            (''dimensions'', JInt (int dims)), (''tenant_id'', JStr (br_tenant rq))]) db1), x2)))"

text \<open>Deleting a base cascades over its documents and their chunks; a collection that cannot be
  dropped is left behind.\<close>

definition cascade_base :: "uuid \<Rightarrow> knowledge_db \<Rightarrow> knowledge_db" where
  "cascade_base i db =
     (let gone = doc_id ` set (filter (\<lambda>d. doc_base d = i) (kn_documents db))
      in db\<lparr>kn_bases := filter (\<lambda>b. kb_id b \<noteq> i) (kn_bases db),
            kn_documents := filter (\<lambda>d. doc_base d \<noteq> i) (kn_documents db),
            kn_chunks := filter (\<lambda>c. dk_document c \<notin> gone) (kn_chunks db)\<rparr>)"

definition delete_base :: "'x knowledge_env \<Rightarrow> uuid \<Rightarrow> actor \<Rightarrow> ('x, unit result) kn_call" where
  "delete_base env i who db x =
     (case get_base i db of
        Inl e \<Rightarrow> ((Done (Inl e), db), x)
      | Inr b \<Rightarrow>
          ((Done (Inr ()), knowledge_record KNOWLEDGE_BASE_DELETED who ''knowledge_base'' i
              (JObj [(''name'', JStr (kb_name b))]) (cascade_base i db)),
           snd (delete_collection (kv_vectors env) (kb_collection b) x)))"

record base_stats =
  bs_documents :: nat
  bs_indexed :: nat
  bs_failed :: nat
  bs_pending :: nat
  bs_chunks :: nat

definition base_stats_of :: "'x knowledge_env \<Rightarrow> knowledge_base \<Rightarrow> knowledge_db \<Rightarrow> 'x \<Rightarrow> base_stats outcome \<times> 'x" where
  "base_stats_of env b db x =
     (let total = length (filter (\<lambda>d. doc_base d = kb_id b) (kn_documents db));
          indexed = count_status (kb_id b) D_INDEXED db;
          failed = count_status (kb_id b) D_FAILED db
      in case store_count (kv_vectors env) (kb_collection b) [] x of
           (Inl e, x1) \<Rightarrow> (Raised e, x1)
         | (Inr n, x1) \<Rightarrow>
             (Done \<lparr>bs_documents = total, bs_indexed = indexed, bs_failed = failed,
                    bs_pending = total - indexed - failed - count_status (kb_id b) D_NO_TEXT db,
                    bs_chunks = n\<rparr>, x1))"

definition list_documents :: "uuid \<Rightarrow> nat \<Rightarrow> knowledge_db \<Rightarrow> document list result" where
  "list_documents i limit db =
     (case get_base i db of Inl e \<Rightarrow> Inl e | Inr _ \<Rightarrow> Inr (documents_of i limit db))"

definition get_document :: "uuid \<Rightarrow> knowledge_db \<Rightarrow> document result" where
  "get_document i db = (case document_with i db of
     None \<Rightarrow> Inl (NotFoundError (''No document with id '' @ uuid_str i @ ''.'')) | Some d \<Rightarrow> Inr d)"

section \<open>Upload\<close>

definition storage_key_of :: "uuid \<Rightarrow> uuid \<Rightarrow> string \<Rightarrow> string" where
  "storage_key_of base i digest =
     ''documents/'' @ uuid_str base @ ''/'' @ uuid_str i @ ''-'' @ take 12 digest"

definition new_document ::
    "'x knowledge_env \<Rightarrow> uuid \<Rightarrow> string \<Rightarrow> string \<Rightarrow> string \<Rightarrow> actor \<Rightarrow> uuid \<Rightarrow> document" where
  "new_document env base filename ctype content who i =
     \<lparr>doc_id = i, doc_base = base, doc_filename = filename,
      doc_type = or_str (Some ctype) ''application/octet-stream'', doc_bytes = length content,
      doc_sha = kv_sha env content, doc_key = Some (storage_key_of base i (kv_sha env content)),
      doc_status = D_UPLOADED, doc_detail = None, doc_error = None, doc_characters = 0,
      doc_chunk_count = 0, doc_ocr = False, doc_by = Some (actor_id who), doc_indexed_at = None,
      doc_created = kv_now env\<rparr>"

definition status_of_document :: "document_status \<Rightarrow> string" where
  "status_of_document st = (case st of D_UPLOADED \<Rightarrow> ''UPLOADED'' | D_PARSING \<Rightarrow> ''PARSING'' | D_OCR \<Rightarrow> ''OCR''
     | D_CHUNKING \<Rightarrow> ''CHUNKING'' | D_EMBEDDING \<Rightarrow> ''EMBEDDING'' | D_INDEXED \<Rightarrow> ''INDEXED''
     | D_FAILED \<Rightarrow> ''FAILED'' | D_NO_TEXT \<Rightarrow> ''NO_TEXT'')"

definition accept_upload ::
    "'x knowledge_env \<Rightarrow> uuid \<Rightarrow> string \<Rightarrow> string \<Rightarrow> string \<Rightarrow> actor \<Rightarrow> ('x, document result) kn_call" where
  "accept_upload env base filename ctype content who db x =
     (case get_base base db of
        Inl e \<Rightarrow> ((Done (Inl e), db), x)
      | Inr b \<Rightarrow>
          if \<not> kb_enabled b
          then ((Done (Inl (ConflictError (''The knowledge base '' @ quoted (kb_name b) @ '' is disabled.''))), db), x)
          else if content = [] then ((Done (Inl (ValidationError ''The uploaded file is empty.'')), db), x)
          else (case find_duplicate (kb_id b) (kv_sha env content) db of
             Some d \<Rightarrow> ((Done (Inl (ConflictError (''This file is already in '' @ quoted (kb_name b) @ '' as ''
                  @ quoted (doc_filename d) @ '' ('' @ status_of_document (doc_status d)
                  @ ''). Delete it first to re-ingest.''))), db), x)
           | None \<Rightarrow>
               (let d = new_document env (kb_id b) filename ctype content who (kn_next db)
                in case kv_put env (storage_key_of (kb_id b) (doc_id d) (doc_sha d)) content (doc_type d) x of
                     (Inl e, x1) \<Rightarrow> ((Raised e, db), x1)
                   | (Inr _, x1) \<Rightarrow>
                       ((Done (Inr d), knowledge_record DOCUMENT_UPLOADED who ''document'' (doc_id d)
                          (JObj [(''knowledge_base'', JStr (kb_name b)), (''filename'', JStr filename),
                                 (''size_bytes'', JInt (int (length content)))])
                          (db\<lparr>kn_documents := kn_documents db @ [d], kn_next := kn_next db + 1\<rparr>)), x1))))"

section \<open>Ingestion\<close>

definition text_length :: "parse_result \<Rightarrow> nat" where
  "text_length r = sum_list (map (length \<circ> seg_text) (ps_segments r))"

record ingest_outcome =
  io_document :: uuid
  io_status :: document_status
  io_chunks :: nat
  io_characters :: nat
  io_detail :: "string option"

type_synonym 'x ingest_step = "(ingest_outcome outcome \<times> knowledge_db) \<times> 'x"

text \<open>A stage that ends the pipeline writes the row and answers with it.\<close>

definition finish_document :: "document \<Rightarrow> nat \<Rightarrow> nat \<Rightarrow> string option \<Rightarrow> knowledge_db \<Rightarrow> 'x \<Rightarrow> 'x ingest_step" where
  "finish_document d chunks characters detail db x =
     ((Done \<lparr>io_document = doc_id d, io_status = doc_status d, io_chunks = chunks,
             io_characters = characters, io_detail = detail\<rparr>, put_document d db), x)"

definition fail_document :: "document \<Rightarrow> string \<Rightarrow> knowledge_db \<Rightarrow> 'x \<Rightarrow> 'x ingest_step" where
  "fail_document d m db x =
     finish_document (d\<lparr>doc_status := D_FAILED, doc_error := Some (take 2000 m)\<rparr>) 0 0 (Some m) db x"

definition no_text :: "document \<Rightarrow> string \<Rightarrow> knowledge_db \<Rightarrow> 'x \<Rightarrow> 'x ingest_step" where
  "no_text d m db x = finish_document (d\<lparr>doc_status := D_NO_TEXT, doc_detail := Some m\<rparr>) 0 0 (Some m) db x"

definition recognised :: "ocr_block list \<times> string option \<Rightarrow> parse_result" where
  "recognised r =
     \<lparr>ps_segments = map (\<lambda>b. \<lparr>seg_text = ob_text b, seg_location = Some (''page '' @ nat_str (ob_page b))\<rparr>)
        (filter (\<lambda>b. strip (ob_text b) \<noteq> []) (fst r)),
      ps_needs_ocr = False, ps_warning = snd r\<rparr>"

definition embed_batch :: nat where "embed_batch = 32"

text \<open>Payloads carry the scope.\<close>

definition chunk_payload :: "knowledge_base \<Rightarrow> document \<Rightarrow> document_chunk \<Rightarrow> (string \<times> json) list" where
  "chunk_payload b d c =
     [(''tenant_id'', JStr (kb_tenant b)), (''knowledge_base_id'', JStr (uuid_str (kb_id b))),
      (''document_id'', JStr (uuid_str (doc_id d))), (''document_name'', JStr (doc_filename d)),
      (''ordinal'', JInt (int (dk_ordinal c))),
      (''location'', (case dk_location c of None \<Rightarrow> JNull | Some l \<Rightarrow> JStr l)),
      (''preview'', JStr (take 200 (dk_text c)))]"

definition chunk_record :: "knowledge_base \<Rightarrow> document \<Rightarrow> document_chunk \<times> rat list \<Rightarrow> vector_record" where
  "chunk_record b d cv = (case cv of (c, v) \<Rightarrow>
     \<lparr>vr_id = or_str (dk_vector c) [], vr_vector = v, vr_payload = chunk_payload b d c\<rparr>)"

function embed_batches ::
    "'x knowledge_env \<Rightarrow> knowledge_base \<Rightarrow> document \<Rightarrow> document_chunk list \<Rightarrow> ('x, unit) call" where
  "embed_batches env b d rows x =
     (if rows = [] then (Inr (), x)
      else let batch = take embed_batch rows
           in case kv_embed env (map dk_text batch) (kb_model b) x of
                (Inl e, x1) \<Rightarrow> (Inl e, x1)
              | (Inr vectors, x1) \<Rightarrow>
                  if length vectors \<noteq> length batch
                  then (Inl (''The embedding model returned '' @ nat_str (length vectors) @ '' vectors for ''
                         @ nat_str (length batch) @ '' passages.''), x1)
                  else (case store_upsert (kv_vectors env) (kb_collection b)
                          (map (chunk_record b d) (zip batch vectors)) x1 of
                          (Inl e, x2) \<Rightarrow> (Inl e, x2)
                        | (Inr _, x2) \<Rightarrow> embed_batches env b d (drop embed_batch rows) x2))"
  by pat_completeness auto
termination
  by (relation "measure (\<lambda>(_, _, _, rows, _). length rows)") (simp_all add: embed_batch_def)

declare embed_batches.simps [simp del]

definition embed_and_index ::
    "'x knowledge_env \<Rightarrow> knowledge_base \<Rightarrow> document \<Rightarrow> document_chunk list \<Rightarrow> ('x, unit) call" where
  "embed_and_index env b d rows =
     call_bind (ensure_collection (kv_vectors env) (collection_of b)) (\<lambda>_. embed_batches env b d rows)"

definition chunk_row :: "uuid \<Rightarrow> chunk \<times> nat \<Rightarrow> document_chunk" where
  "chunk_row doc cn = (case cn of (c, n) \<Rightarrow>
     \<lparr>dk_document = doc, dk_ordinal = ordinal c, dk_text = chunk_text c, dk_tokens = token_estimate c,
      dk_location = chunk_location c, dk_vector = Some (uuid_str n)\<rparr>)"

text \<open>The rows are written before anything is embedded, and stay when embedding fails.\<close>

definition index_chunks ::
    "'x knowledge_env \<Rightarrow> knowledge_base \<Rightarrow> document \<Rightarrow> chunk list \<Rightarrow> knowledge_db \<Rightarrow> 'x \<Rightarrow> 'x ingest_step" where
  "index_chunks env b d chunks db x =
     (let d1 = d\<lparr>doc_status := D_EMBEDDING\<rparr>;
          rows = map (chunk_row (doc_id d)) (zip chunks [kn_next db..<kn_next db + length chunks]);
          db1 = delete_chunks (doc_id d) (put_document d1 db);
          db2 = db1\<lparr>kn_chunks := kn_chunks db1 @ rows, kn_next := kn_next db1 + length chunks\<rparr>
      in case embed_and_index env b d1 rows x of
           (Inl e, x1) \<Rightarrow> fail_document d1 (''Embedding failed: '' @ e) db2 x1
         | (Inr _, x1) \<Rightarrow>
             finish_document (d1\<lparr>doc_status := D_INDEXED, doc_chunk_count := length rows,
                                  doc_indexed_at := Some (kv_now env)\<rparr>)
               (length rows) (doc_characters d) (doc_detail d) db2 x1)"

text \<open>From extracted text on.  A chunk size that is not positive raises \<open>ValueError\<close>.\<close>

definition ingest_text ::
    "'x knowledge_env \<Rightarrow> knowledge_base \<Rightarrow> document \<Rightarrow> parse_result \<Rightarrow> knowledge_db \<Rightarrow> 'x \<Rightarrow> 'x ingest_step" where
  "ingest_text env b d r db x =
     (if ps_segments r = [] \<or> text_length r = 0
      then no_text d (or_str (ps_warning r) ''No text could be extracted.'') db x
      else (let d1 = d\<lparr>doc_status := D_CHUNKING, doc_characters := text_length r, doc_detail := ps_warning r\<rparr>;
                db1 = put_document d1 db
            in case chunk_segments (ps_segments r) (kb_chunk_size b) (kb_overlap b) of
                 None \<Rightarrow> ((Diverges, db), x)
               | Some (Inl _) \<Rightarrow> ((Raised ''ValueError: chunk_size must be positive'', db), x)
               | Some (Inr []) \<Rightarrow> no_text d1 ''Text was extracted but produced no usable chunks.'' db1 x
               | Some (Inr (c # cs)) \<Rightarrow> index_chunks env b d1 (c # cs) db1 x))"

definition ingest ::
    "'x knowledge_env \<Rightarrow> knowledge_base \<Rightarrow> document \<Rightarrow> string \<Rightarrow> knowledge_db \<Rightarrow> 'x \<Rightarrow> 'x ingest_step" where
  "ingest env b d content db x =
     (let d1 = d\<lparr>doc_status := D_PARSING\<rparr>; db1 = put_document d1 db
      in case kv_parse env (doc_filename d) content (doc_type d) of
           Unsupported m \<Rightarrow> fail_document d1 m db1 x
         | Parser_Crash cls \<Rightarrow> fail_document d1 (''The parser failed: '' @ cls @ ''.'') db1 x
         | Parsed r \<Rightarrow>
             if \<not> ps_needs_ocr r then ingest_text env b d1 r db1 x
             else (case kv_ocr env of
                None \<Rightarrow> no_text (d1\<lparr>doc_ocr := False\<rparr>)
                  (''This file holds images rather than text, and no OCR model is deployed. ''
                   @ ''Deploy one (see docs/rag.md) or upload a text-based version.'') db1 x
              | Some recognise \<Rightarrow>
                  (let d2 = d1\<lparr>doc_status := D_OCR\<rparr>; db2 = put_document d2 db1
                   in case recognise content (doc_filename d) x of
                        (Inl e, x1) \<Rightarrow> no_text (d2\<lparr>doc_ocr := False\<rparr>) (''OCR did not complete: '' @ e) db2 x1
                      | (Inr found, x1) \<Rightarrow> ingest_text env b (d2\<lparr>doc_ocr := True\<rparr>) (recognised found) db2 x1)))"

section \<open>The worker\<close>

definition load_content :: "'x knowledge_env \<Rightarrow> document \<Rightarrow> ('x, string) call" where
  "load_content env d =
     (case doc_key d of
        Some (c # key) \<Rightarrow> kv_get env (c # key)
      | _ \<Rightarrow> call_raise (''NotFoundError: '' @ doc_filename d @ '' has no stored original, so it cannot be ingested.''))"

definition mark_failed :: "uuid \<Rightarrow> string \<Rightarrow> knowledge_db \<Rightarrow> knowledge_db" where
  "mark_failed i m db =
     db\<lparr>kn_documents := update_rows (\<lambda>d. doc_id d = i)
          (\<lambda>d. d\<lparr>doc_status := D_FAILED, doc_error := Some (take 2000 m)\<rparr>) (kn_documents db)\<rparr>"

text \<open>One pass: whether there was work, the tables committed.  What loading raises is given with its class.  What raised is rolled back and the
  document marked on a transaction of its own.\<close>

definition tick :: "'x knowledge_env \<Rightarrow> uuid list \<Rightarrow> ('x, bool) kn_call" where
  "tick env locked db x =
     (case claim_next_pending locked db of
        None \<Rightarrow> ((Done False, db), x)
      | Some d \<Rightarrow>
          (case base_with (doc_base d) db of
             None \<Rightarrow> ((Done False, db), x)
           | Some b \<Rightarrow>
               (case load_content env d x of
                  (Inl e, x1) \<Rightarrow> ((Done True, mark_failed (doc_id d) e db), x1)
                | (Inr content, x1) \<Rightarrow>
                    (case ingest env b d content db x1 of
                       ((Done _, db1), x2) \<Rightarrow> ((Done True, db1), x2)
                     | ((Raised e, _), x2) \<Rightarrow> ((Done True, mark_failed (doc_id d) e db), x2)
                     | ((Diverges, _), x2) \<Rightarrow> ((Diverges, db), x2)))))"

text \<open>The worker's loop, over a given number of passes; each finds the services as they are then.\<close>

fun ticks :: "'x knowledge_env list \<Rightarrow> knowledge_db \<Rightarrow> 'x \<Rightarrow> bool outcome list \<times> knowledge_db \<times> 'x" where
  "ticks [] db x = ([], db, x)"
| "ticks (env # envs) db x =
     (case tick env [] db x of ((r, db1), x1) \<Rightarrow>
        (case ticks envs db1 x1 of (rs, db2, x2) \<Rightarrow> (r # rs, db2, x2)))"

section \<open>Removing a document\<close>

definition delete_document :: "'x knowledge_env \<Rightarrow> uuid \<Rightarrow> actor \<Rightarrow> ('x, unit result) kn_call" where
  "delete_document env i who db x =
     (case get_document i db of
        Inl e \<Rightarrow> ((Done (Inl e), db), x)
      | Inr d \<Rightarrow>
          (let ids = filter (\<lambda>v. v \<noteq> []) (map (\<lambda>c. or_str (dk_vector c) []) (chunks_of i db));
               x1 = (case base_with (doc_base d) db of
                       Some b \<Rightarrow> if ids \<noteq> [] then snd (store_delete (kv_vectors env) (kb_collection b) ids [] x) else x
                     | None \<Rightarrow> x);
               x2 = (case doc_key d of Some (c # key) \<Rightarrow> snd (kv_remove env (c # key) x1) | _ \<Rightarrow> x1);
               db1 = (delete_chunks i db)\<lparr>kn_documents := filter (\<lambda>r. doc_id r \<noteq> i) (kn_documents db)\<rparr>
           in ((Done (Inr ()), knowledge_record DOCUMENT_DELETED who ''document'' i
                 (JObj [(''filename'', JStr (doc_filename d)), (''vectors'', JInt (int (length ids)))]) db1), x2)))"

section \<open>Search\<close>

record passage =
  pa_text :: string
  pa_score :: rat
  pa_document :: uuid
  pa_name :: string
  pa_base :: string
  pa_location :: "string option"
  pa_ordinal :: nat
  pa_ocr :: bool

text \<open>A hit whose row is gone is skipped.\<close>

definition passage_of :: "knowledge_base \<Rightarrow> knowledge_db \<Rightarrow> search_hit \<Rightarrow> passage option" where
  "passage_of b db h =
     (case chunk_by_vector (hit_id h) db of
        None \<Rightarrow> None
      | Some c \<Rightarrow>
          (case document_with (dk_document c) db of
             None \<Rightarrow> None
           | Some d \<Rightarrow> Some \<lparr>pa_text = dk_text c, pa_score = hit_score h, pa_document = dk_document c,
               pa_name = doc_filename d, pa_base = kb_name b, pa_location = dk_location c,
               pa_ordinal = dk_ordinal c, pa_ocr = doc_ocr d\<rparr>))"

definition base_filter :: "knowledge_base \<Rightarrow> (string \<times> json) list" where
  "base_filter b = [(''tenant_id'', JStr (kb_tenant b)), (''knowledge_base_id'', JStr (uuid_str (kb_id b)))]"

fun search_bases ::
    "'x knowledge_env \<Rightarrow> knowledge_base list \<Rightarrow> string \<Rightarrow> nat \<Rightarrow> rat option \<Rightarrow> knowledge_db
       \<Rightarrow> ('x, passage list) call" where
  "search_bases env [] query limit threshold db x = (Inr [], x)"
| "search_bases env (b # bs) query limit threshold db x =
     (if \<not> kb_enabled b then search_bases env bs query limit threshold db x
      else case kv_embed env [query] (kb_model b) x of
        (Inl e, x1) \<Rightarrow> (Inl e, x1)
      | (Inr [], x1) \<Rightarrow> search_bases env bs query limit threshold db x1
      | (Inr (v # _), x1) \<Rightarrow>
          (case store_search (kv_vectors env) (kb_collection b) v limit threshold (base_filter b) x1 of
             (Inl e, x2) \<Rightarrow> (Inl e, x2)
           | (Inr hits, x2) \<Rightarrow>
               (case search_bases env bs query limit threshold db x2 of
                  (Inl e, x3) \<Rightarrow> (Inl e, x3)
                | (Inr others, x3) \<Rightarrow> (Inr (List.map_filter (passage_of b db) hits @ others), x3))))"

definition knowledge_search ::
    "'x knowledge_env \<Rightarrow> knowledge_base list \<Rightarrow> string \<Rightarrow> nat \<Rightarrow> rat option \<Rightarrow> knowledge_db
       \<Rightarrow> ('x, passage list) call" where
  "knowledge_search env bases query limit threshold db x =
     (if bases = [] \<or> strip query = [] then (Inr [], x)
      else case search_bases env bases query limit threshold db x of
        (Inl e, x1) \<Rightarrow> (Inl e, x1)
      | (Inr found, x1) \<Rightarrow> (Inr (take limit (sort_key (\<lambda>p. - pa_score p) found)), x1))"

end
