(* ===== verification/Memory.thy ===== *)
theory Memory
  imports Vector_Store
begin

text \<open>
  What is remembered of a person: \<open>services/memory.py\<close> and the conversation and memory
  repositories of \<open>repositories/knowledge.py\<close>.  Session state is in Valkey, conversations in the
  database, semantic memory in the database and in one vector collection.  Valkey, the vector
  store, the embedding endpoint, \<open>json.dumps\<close> and \<open>json.loads\<close> are parameters.
\<close>

section \<open>Scopes\<close>

record memory_scope =
  ms_tenant :: string
  ms_user :: "uuid option"
  ms_end :: "string option"
  ms_agent :: "uuid option"

definition make_scope :: "string \<Rightarrow> uuid option \<Rightarrow> string option \<Rightarrow> uuid option \<Rightarrow> memory_scope result" where
  "make_scope tenant user end_user agent =
     (if tenant = [] then Inl (ValidationError ''A memory scope must name a tenant.'')
      else Inr \<lparr>ms_tenant = tenant, ms_user = user, ms_end = end_user, ms_agent = agent\<rparr>)"

text \<open>An empty \<open>end_user\<close> is no one.\<close>

definition is_anonymous :: "memory_scope \<Rightarrow> bool" where
  "is_anonymous s = (ms_user s = None \<and> or_str (ms_end s) [] = [])"

definition uuid_json :: "uuid option \<Rightarrow> json" where
  "uuid_json i = (case i of None \<Rightarrow> JNull | Some n \<Rightarrow> JStr (uuid_str n))"

definition str_json :: "string option \<Rightarrow> json" where
  "str_json s = (case s of None \<Rightarrow> JNull | Some t \<Rightarrow> JStr t)"

definition vector_filters :: "memory_scope \<Rightarrow> (string \<times> json) list" where
  "vector_filters s =
     [(''tenant_id'', JStr (ms_tenant s)), (''user_id'', uuid_json (ms_user s)),
      (''end_user'', str_json (ms_end s)), (''agent_id'', uuid_json (ms_agent s))]"

definition memory_collection :: string where "memory_collection = ''platform_memory''"
definition session_ttl_seconds :: int where "session_ttl_seconds = 60 * 60 * 8"
definition summarise_after_messages :: nat where "summarise_after_messages = 40"

section \<open>Tables\<close>

record conversation =
  cv_id :: uuid
  cv_tenant :: string
  cv_user :: "uuid option"
  cv_end :: "string option"
  cv_agent :: "uuid option"
  cv_external :: "string option"
  cv_title :: "string option"
  cv_summary :: "string option"
  cv_count :: nat
  cv_activity :: "timestamp option"

record conversation_message =
  ctm_conversation :: uuid
  ctm_ordinal :: nat
  ctm_role :: string
  ctm_content :: string
  ctm_run :: "uuid option"

record memory_entry =
  mem_id :: uuid
  mem_tenant :: string
  mem_user :: "uuid option"
  mem_end :: "string option"
  mem_agent :: "uuid option"
  mem_text :: string
  mem_kind :: string
  mem_conversation :: "uuid option"
  mem_vector :: "string option"
  mem_importance :: rat
  mem_created :: timestamp
  mem_expires :: "timestamp option"

record memory_db =
  mm_conversations :: "conversation list"
  mm_messages :: "conversation_message list"
  mm_entries :: "memory_entry list"
  mm_next :: nat

section \<open>Repositories\<close>

text \<open>A dimension that is not given does not restrict.\<close>

definition dim :: "'a option \<Rightarrow> 'a option \<Rightarrow> bool" where
  "dim wanted value = (wanted = None \<or> value = wanted)"

definition find_scoped :: "memory_scope \<Rightarrow> string \<Rightarrow> memory_db \<Rightarrow> conversation option" where
  "find_scoped s external db =
     find_row (\<lambda>c. cv_tenant c = ms_tenant s \<and> cv_external c = Some external \<and> dim (ms_agent s) (cv_agent c)
        \<and> dim (ms_user s) (cv_user c) \<and> dim (ms_end s) (cv_end c)) (mm_conversations db)"

definition messages_of :: "uuid \<Rightarrow> memory_db \<Rightarrow> conversation_message list" where
  "messages_of i db = filter (\<lambda>m. ctm_conversation m = i) (mm_messages db)"

definition next_ordinal :: "uuid \<Rightarrow> memory_db \<Rightarrow> nat" where
  "next_ordinal i db = foldr max (map ctm_ordinal (messages_of i db)) 0 + 1"

text \<open>The last messages, in reading order.\<close>

definition recent :: "uuid \<Rightarrow> nat \<Rightarrow> memory_db \<Rightarrow> conversation_message list" where
  "recent i limit db = rev (take limit (rev (sort_key ctm_ordinal (messages_of i db))))"

definition in_scope :: "memory_scope \<Rightarrow> memory_entry \<Rightarrow> bool" where
  "in_scope s e = (mem_tenant e = ms_tenant s \<and> dim (ms_user s) (mem_user e) \<and> dim (ms_end s) (mem_end e)
     \<and> dim (ms_agent s) (mem_agent e))"

definition list_scoped :: "memory_scope \<Rightarrow> nat \<Rightarrow> memory_db \<Rightarrow> memory_entry list" where
  "list_scoped s limit db =
     take limit (sort_key (\<lambda>e. - mem_created e) (filter (in_scope s) (mm_entries db)))"

text \<open>The dictionary by vector identifier: the last row wins.\<close>

definition entry_by_vector :: "string \<Rightarrow> memory_db \<Rightarrow> memory_entry option" where
  "entry_by_vector v db = (if v = [] then None else find_row (\<lambda>e. mem_vector e = Some v) (rev (mm_entries db)))"

definition expired :: "timestamp \<Rightarrow> memory_entry \<Rightarrow> bool" where
  "expired now e = (case mem_expires e of None \<Rightarrow> False | Some t \<Rightarrow> t < now)"

definition delete_expired :: "timestamp \<Rightarrow> memory_db \<Rightarrow> nat \<times> memory_db" where
  "delete_expired cutoff db =
     (length (filter (expired cutoff) (mm_entries db)),
      db\<lparr>mm_entries := filter (\<lambda>e. \<not> expired cutoff e) (mm_entries db)\<rparr>)"

definition delete_entry :: "uuid \<Rightarrow> memory_db \<Rightarrow> memory_db" where
  "delete_entry i db = db\<lparr>mm_entries := filter (\<lambda>e. mem_id e \<noteq> i) (mm_entries db)\<rparr>"

section \<open>Outside the database\<close>

record 'x memory_env =
  my_now :: timestamp
  my_vectors :: "'x qdrant"
  my_embed :: "string list \<Rightarrow> ('x, rat list list) call"
  my_setex :: "string \<Rightarrow> int \<Rightarrow> string \<Rightarrow> ('x, unit) call"
  my_get :: "string \<Rightarrow> ('x, string option) call"
  my_scan :: "string \<Rightarrow> ('x, string list) call"
  my_remove :: "string \<Rightarrow> ('x, unit) call"
  my_dumps :: "json \<Rightarrow> string"
  my_loads :: "string \<Rightarrow> json option"
  my_chat :: "string \<Rightarrow> string \<Rightarrow> string \<Rightarrow> ('x, string) call"

type_synonym ('x, 'a) mm_call = "memory_db \<Rightarrow> 'x \<Rightarrow> ('a outcome \<times> memory_db) \<times> 'x"

section \<open>Session layer\<close>

definition session_prefix :: "memory_scope \<Rightarrow> string" where
  "session_prefix s =
     ''memory:session:'' @ ms_tenant s @ '':''
       @ or_str (ms_end s) (case ms_user s of None \<Rightarrow> ''anon'' | Some u \<Rightarrow> uuid_str u) @ '':''
       @ (case ms_agent s of None \<Rightarrow> ''any'' | Some a \<Rightarrow> uuid_str a) @ '':''"

definition session_key :: "memory_scope \<Rightarrow> string \<Rightarrow> string" where
  "session_key s key = session_prefix s @ key"

text \<open>A time to live of zero is the default one.\<close>

definition set_session :: "'x memory_env \<Rightarrow> memory_scope \<Rightarrow> string \<Rightarrow> json \<Rightarrow> int option \<Rightarrow> ('x, unit) call" where
  "set_session env s key v ttl =
     my_setex env (session_key s key)
       (case ttl of None \<Rightarrow> session_ttl_seconds | Some t \<Rightarrow> if t = 0 then session_ttl_seconds else t)
       (my_dumps env v)"

text \<open>What cannot be read is absent.\<close>

definition get_session :: "'x memory_env \<Rightarrow> memory_scope \<Rightarrow> string \<Rightarrow> ('x, json option) call" where
  "get_session env s key =
     call_bind (my_get env (session_key s key)) (\<lambda>raw.
       call_return (case raw of None \<Rightarrow> None | Some t \<Rightarrow> my_loads env t))"

fun remove_keys :: "'x memory_env \<Rightarrow> string list \<Rightarrow> ('x, nat) call" where
  "remove_keys env [] = call_return 0"
| "remove_keys env (key # keys) =
     call_bind (my_remove env key) (\<lambda>_. call_bind (remove_keys env keys) (\<lambda>n. call_return (Suc n)))"

definition clear_session :: "'x memory_env \<Rightarrow> memory_scope \<Rightarrow> ('x, nat) call" where
  "clear_session env s = call_bind (my_scan env (session_prefix s @ ''*'')) (remove_keys env)"

section \<open>Conversations\<close>

definition new_conversation :: "memory_scope \<Rightarrow> string \<Rightarrow> string option \<Rightarrow> uuid \<Rightarrow> conversation" where
  "new_conversation s external title i =
     \<lparr>cv_id = i, cv_tenant = ms_tenant s, cv_user = ms_user s, cv_end = ms_end s, cv_agent = ms_agent s,
      cv_external = Some external, cv_title = title, cv_summary = None, cv_count = 0, cv_activity = None\<rparr>"

definition get_or_create_conversation ::
    "memory_scope \<Rightarrow> string \<Rightarrow> string option \<Rightarrow> memory_db \<Rightarrow> conversation \<times> memory_db" where
  "get_or_create_conversation s external title db =
     (case find_scoped s external db of
        Some c \<Rightarrow> (c, db)
      | None \<Rightarrow> (let c = new_conversation s external title (mm_next db)
                in (c, db\<lparr>mm_conversations := mm_conversations db @ [c], mm_next := mm_next db + 1\<rparr>)))"

definition put_conversation :: "conversation \<Rightarrow> memory_db \<Rightarrow> memory_db" where
  "put_conversation c db =
     db\<lparr>mm_conversations := update_rows (\<lambda>r. cv_id r = cv_id c) (\<lambda>_. c) (mm_conversations db)\<rparr>"

definition append_message ::
    "timestamp \<Rightarrow> conversation \<Rightarrow> string \<Rightarrow> string \<Rightarrow> uuid option \<Rightarrow> memory_db
       \<Rightarrow> (conversation_message \<times> conversation) \<times> memory_db" where
  "append_message now c role content run db =
     (let m = \<lparr>ctm_conversation = cv_id c, ctm_ordinal = next_ordinal (cv_id c) db, ctm_role = role,
               ctm_content = content, ctm_run = run\<rparr>;
          c1 = c\<lparr>cv_count := cv_count c + 1, cv_activity := Some now,
                 cv_title := (if cv_title c = None \<and> role = ''user'' then Some (take 120 content) else cv_title c)\<rparr>
      in ((m, c1), (put_conversation c1 db)\<lparr>mm_messages := mm_messages db @ [m]\<rparr>))"

definition get_conversation ::
    "memory_scope \<Rightarrow> string \<Rightarrow> nat \<Rightarrow> memory_db \<Rightarrow> (conversation \<times> conversation_message list) option" where
  "get_conversation s external limit db =
     (case find_scoped s external db of None \<Rightarrow> None | Some c \<Rightarrow> Some (c, recent (cv_id c) limit db))"

fun join_with :: "string \<Rightarrow> string list \<Rightarrow> string" where
  "join_with sep [] = []"
| "join_with sep [s] = s"
| "join_with sep (s # t # rest) = s @ sep @ join_with sep (t # rest)"

definition transcript :: "conversation_message list \<Rightarrow> string" where
  "transcript ms = join_with [newline] (map (\<lambda>m. ctm_role m @ '': '' @ ctm_content m) ms)"

definition summary_prompt :: string where
  "summary_prompt =
     ''Summarise this conversation in under 200 words. Keep decisions, ''
     @ ''facts established, and anything the user asked to be remembered. ''
     @ ''Drop pleasantries. Write plainly, in the third person.''"

text \<open>A model that cannot be reached leaves the conversation as it is.\<close>

definition summarize_conversation ::
    "'x memory_env \<Rightarrow> conversation \<Rightarrow> string \<Rightarrow> memory_db \<Rightarrow> 'x \<Rightarrow> (string option \<times> memory_db) \<times> 'x" where
  "summarize_conversation env c model db x =
     (if cv_count c < summarise_after_messages then ((None, db), x)
      else case my_chat env summary_prompt
             (take 20000 (transcript (recent (cv_id c) summarise_after_messages db))) model x of
        (Inl _, x1) \<Rightarrow> ((None, db), x1)
      | (Inr summary, x1) \<Rightarrow> ((Some summary, put_conversation (c\<lparr>cv_summary := Some summary\<rparr>) db), x1))"

section \<open>Semantic layer\<close>

definition entry_payload :: "memory_scope \<Rightarrow> string \<Rightarrow> string \<Rightarrow> (string \<times> json) list" where
  "entry_payload s kind txt =
     [(''tenant_id'', JStr (ms_tenant s)), (''user_id'', uuid_json (ms_user s)),
      (''end_user'', str_json (ms_end s)), (''agent_id'', uuid_json (ms_agent s)),
      (''kind'', JStr kind), (''preview'', JStr (take 200 txt))]"

definition index_entry :: "'x memory_env \<Rightarrow> memory_scope \<Rightarrow> memory_entry \<Rightarrow> ('x, unit) call" where
  "index_entry env s e =
     call_bind (my_embed env [mem_text e]) (\<lambda>vectors.
       case vectors of
         [] \<Rightarrow> call_raise ''IndexError: list index out of range''
       | v # _ \<Rightarrow>
           call_bind (ensure_collection (my_vectors env)
               \<lparr>cs_name = memory_collection, cs_size = length v, cs_distance = COSINE\<rparr>) (\<lambda>_.
             store_upsert (my_vectors env) memory_collection
               [\<lparr>vr_id = or_str (mem_vector e) [], vr_vector = v, vr_payload = entry_payload s (mem_kind e) (mem_text e)\<rparr>]))"

text \<open>A row whose vector could not be stored stays, without one.\<close>

definition remember ::
    "'x memory_env \<Rightarrow> memory_scope \<Rightarrow> string \<Rightarrow> string \<Rightarrow> rat \<Rightarrow> uuid option \<Rightarrow> timestamp option
       \<Rightarrow> memory_db \<Rightarrow> 'x \<Rightarrow> (memory_entry option result \<times> memory_db) \<times> 'x" where
  "remember env s txt kind importance conv expires db x =
     (if strip txt = [] then ((Inr None, db), x)
      else if is_anonymous s
      then ((Inl (ValidationError (''A memory needs a user or an end user to belong to. Storing one against a ''
              @ ''tenant alone would make it recallable by everyone in that tenant.'')), db), x)
      else (let e = \<lparr>mem_id = mm_next db, mem_tenant = ms_tenant s, mem_user = ms_user s, mem_end = ms_end s,
                     mem_agent = ms_agent s, mem_text = strip txt, mem_kind = kind, mem_conversation = conv,
                     mem_vector = Some (uuid_str (mm_next db + 1)), mem_importance = importance,
                     mem_created = my_now env, mem_expires = expires\<rparr>;
                put = (\<lambda>r. db\<lparr>mm_entries := mm_entries db @ [r], mm_next := mm_next db + 2\<rparr>)
            in case index_entry env s e x of
                 (Inl _, x1) \<Rightarrow> ((Inr (Some (e\<lparr>mem_vector := None\<rparr>)), put (e\<lparr>mem_vector := None\<rparr>)), x1)
               | (Inr _, x1) \<Rightarrow> ((Inr (Some e), put e), x1)))"

record recalled =
  rm_text :: string
  rm_kind :: string
  rm_score :: rat
  rm_created :: timestamp
  rm_memory :: uuid

text \<open>A hit without a row, or whose row has lapsed, is skipped.\<close>

definition recalled_of :: "timestamp \<Rightarrow> memory_db \<Rightarrow> search_hit \<Rightarrow> recalled option" where
  "recalled_of now db h =
     (case entry_by_vector (hit_id h) db of
        None \<Rightarrow> None
      | Some e \<Rightarrow> if expired now e then None
          else Some \<lparr>rm_text = mem_text e, rm_kind = mem_kind e, rm_score = hit_score h,
                     rm_created = mem_created e, rm_memory = mem_id e\<rparr>)"

definition recall ::
    "'x memory_env \<Rightarrow> memory_scope \<Rightarrow> string \<Rightarrow> nat \<Rightarrow> rat \<Rightarrow> memory_db \<Rightarrow> ('x, recalled list) call" where
  "recall env s query limit threshold db x =
     (if strip query = [] then (Inr [], x)
      else case my_embed env [strip query] x of
        (Inl _, x1) \<Rightarrow> (Inr [], x1)
      | (Inr [], x1) \<Rightarrow> (Inr [], x1)
      | (Inr (v # _), x1) \<Rightarrow>
          (case store_search (my_vectors env) memory_collection v limit (Some threshold) (vector_filters s) x1 of
             (Inl e, x2) \<Rightarrow> (Inl e, x2)
           | (Inr hits, x2) \<Rightarrow> (Inr (List.map_filter (recalled_of (my_now env) db) hits), x2)))"

section \<open>Reading back and forgetting\<close>

definition list_entries :: "string \<Rightarrow> string option \<Rightarrow> uuid option \<Rightarrow> nat \<Rightarrow> memory_db \<Rightarrow> memory_entry list" where
  "list_entries tenant end_user agent limit db =
     list_scoped \<lparr>ms_tenant = tenant, ms_user = None, ms_end = end_user, ms_agent = agent\<rparr> limit db"

definition vector_of_entry :: "memory_entry \<Rightarrow> string" where
  "vector_of_entry e = or_str (mem_vector e) []"

definition forget :: "'x memory_env \<Rightarrow> memory_scope \<Rightarrow> uuid \<Rightarrow> memory_db \<Rightarrow> 'x \<Rightarrow> (bool result \<times> memory_db) \<times> 'x" where
  "forget env s i db x =
     (case find_row (\<lambda>e. mem_id e = i) (mm_entries db) of
        None \<Rightarrow> ((Inr False, db), x)
      | Some e \<Rightarrow>
          if mem_tenant e \<noteq> ms_tenant s
          then ((Inl (ValidationError ''That memory belongs to a different tenant.''), db), x)
          else ((Inr True, delete_entry i db),
                if vector_of_entry e = [] then x
                else snd (store_delete (my_vectors env) memory_collection [vector_of_entry e] [] x)))"

text \<open>The vectors go first and a failure there is logged; a failure of Valkey raises, and the rows
  stay.\<close>

definition forget_all :: "'x memory_env \<Rightarrow> memory_scope \<Rightarrow> ('x, nat result) mm_call" where
  "forget_all env s db x =
     (if is_anonymous s
      then ((Done (Inl (ValidationError (''forget_all needs a user or end user. Refusing to erase an entire tenant''
              @ [CHR 0x27] @ ''s memory from an under-specified scope.''))), db), x)
      else (let entries = list_scoped s 10000 db;
                ids = filter (\<lambda>v. v \<noteq> []) (map vector_of_entry entries);
                x1 = (if ids = [] then x else snd (store_delete (my_vectors env) memory_collection ids [] x));
                db1 = foldl (\<lambda>d e. delete_entry (mem_id e) d) db entries
            in case clear_session env s x1 of
                 (Inl e, x2) \<Rightarrow> ((Raised e, db), x2)
               | (Inr _, x2) \<Rightarrow> ((Done (Inr (length entries)), db1), x2)))"

end
