(* ===== verification/Knowledge_Invariant.thy ===== *)
theory Knowledge_Invariant
  imports Knowledge Rate_Limit
begin

text \<open>
  What every operation on knowledge bases keeps: the tables refer to each other, documents at rest
  are waiting or settled, and each stored vector that a row points to carries the identifier of
  the base the row's document is in.
\<close>

section \<open>The services used\<close>

text \<open>The vector store keeps its contract, and no other service makes up points.\<close>

definition quiet :: "'x points_view \<Rightarrow> 'x knowledge_env \<Rightarrow> bool" where
  "quiet view env =
     (honest view (kv_vectors env) \<and> (\<forall>ts m. keeps_points view (kv_embed env ts m))
      \<and> (\<forall>k c t. keeps_points view (kv_put env k c t)) \<and> (\<forall>k. keeps_points view (kv_get env k))
      \<and> (\<forall>k. keeps_points view (kv_remove env k))
      \<and> (\<forall>f. kv_ocr env = Some f \<longrightarrow> (\<forall>c nm. keeps_points view (f c nm))))"

definition fewer :: "'x points_view \<Rightarrow> 'x \<Rightarrow> 'x \<Rightarrow> bool" where
  "fewer view x1 x = (\<forall>c. view x1 c \<subseteq> view x c)"

lemma fewer_refl [simp]: "fewer view x x"
  by (simp add: fewer_def)

lemma fewer_trans: "fewer view x2 x1 \<Longrightarrow> fewer view x1 x \<Longrightarrow> fewer view x2 x"
  unfolding fewer_def by blast

lemma keeps_fewer: "keeps_points view f \<Longrightarrow> fewer view (snd (f x)) x"
  by (simp add: keeps_points_def fewer_def)

lemma keeps_fewer_result: "keeps_points view f \<Longrightarrow> f x = (r, x1) \<Longrightarrow> fewer view x1 x"
  using keeps_fewer [of view f x] by simp

lemma quiet_calls:
  assumes "quiet view env"
  shows "honest view (kv_vectors env)" "keeps_points view (kv_embed env ts m)"
    "keeps_points view (kv_put env k c t)" "keeps_points view (kv_get env k)" "keeps_points view (kv_remove env k)"
    "kv_ocr env = Some f \<Longrightarrow> keeps_points view (f c nm)"
  using assms by (simp_all add: quiet_def)

section \<open>The invariant\<close>

definition resting_states :: "document_status list" where
  "resting_states = D_UPLOADED # terminal_document_states"

definition bases_ok :: "knowledge_db \<Rightarrow> bool" where
  "bases_ok db = (distinct (map kb_id (kn_bases db)) \<and> (\<forall>b \<in> set (kn_bases db).
     kb_id b < kn_next db \<and> kb_collection b = collection_name (kb_id b) \<and> 0 < kb_chunk_size b))"

definition documents_ok :: "knowledge_db \<Rightarrow> bool" where
  "documents_ok db = (distinct (map doc_id (kn_documents db)) \<and> (\<forall>d \<in> set (kn_documents db).
     doc_id d < kn_next db \<and> doc_base d \<in> kb_id ` set (kn_bases db) \<and> doc_status d \<in> set resting_states))"

definition chunks_ok :: "knowledge_db \<Rightarrow> bool" where
  "chunks_ok db = (\<forall>k \<in> set (kn_chunks db). dk_document k \<in> doc_id ` set (kn_documents db)
     \<and> (\<exists>n < kn_next db. dk_vector k = Some (uuid_str n)))"

definition points_ok :: "'x points_view \<Rightarrow> knowledge_db \<Rightarrow> 'x \<Rightarrow> bool" where
  "points_ok view db x = (\<forall>i v p. (v, p) \<in> view x (collection_name i) \<longrightarrow>
     (\<exists>n < kn_next db. v = uuid_str n) \<and>
     (\<forall>k \<in> set (kn_chunks db). dk_vector k = Some v \<longrightarrow>
        (\<forall>d \<in> set (kn_documents db). doc_id d = dk_document k \<longrightarrow>
           json_get p ''knowledge_base_id'' = Some (JStr (uuid_str (doc_base d))))))"

definition corpus_ok :: "'x points_view \<Rightarrow> knowledge_db \<Rightarrow> 'x \<Rightarrow> bool" where
  "corpus_ok view db x = (bases_ok db \<and> documents_ok db \<and> chunks_ok db \<and> points_ok view db x)"

lemma points_okD:
  assumes "points_ok view db x" "(v, p) \<in> view x (collection_name i)"
  shows "\<exists>n < kn_next db. v = uuid_str n"
    "k \<in> set (kn_chunks db) \<Longrightarrow> dk_vector k = Some v \<Longrightarrow> d \<in> set (kn_documents db) \<Longrightarrow> doc_id d = dk_document k
       \<Longrightarrow> json_get p ''knowledge_base_id'' = Some (JStr (uuid_str (doc_base d)))"
  using assms unfolding points_ok_def by blast+

lemma documents_okD:
  assumes "documents_ok db" "d \<in> set (kn_documents db)"
  shows "doc_id d < kn_next db" "doc_base d \<in> kb_id ` set (kn_bases db)" "doc_status d \<in> set resting_states"
  using assms by (auto simp: documents_ok_def)

lemma corpus_okD:
  assumes "corpus_ok view db x"
  shows "bases_ok db" "documents_ok db" "chunks_ok db" "points_ok view db x"
  using assms by (simp_all add: corpus_ok_def)

lemma points_mono:
  assumes "points_ok view db x" "fewer view x1 x" "kn_next db \<le> kn_next db1"
    "set (kn_chunks db1) \<subseteq> set (kn_chunks db)"
    "\<And>k d1. k \<in> set (kn_chunks db1) \<Longrightarrow> d1 \<in> set (kn_documents db1) \<Longrightarrow> doc_id d1 = dk_document k
       \<Longrightarrow> \<exists>d \<in> set (kn_documents db). doc_id d = doc_id d1 \<and> doc_base d = doc_base d1"
  shows "points_ok view db1 x1"
  unfolding points_ok_def
proof (intro allI impI conjI ballI)
  fix i v p assume "(v, p) \<in> view x1 (collection_name i)"
  with assms(2) have old: "(v, p) \<in> view x (collection_name i)" by (auto simp: fewer_def)
  from points_okD(1) [OF assms(1) old] assms(3) show "\<exists>n < kn_next db1. v = uuid_str n"
    using less_le_trans by blast
  fix k d1 assume k: "k \<in> set (kn_chunks db1)" "dk_vector k = Some v"
    and d1: "d1 \<in> set (kn_documents db1)" "doc_id d1 = dk_document k"
  obtain d where "d \<in> set (kn_documents db)" "doc_id d = doc_id d1" "doc_base d = doc_base d1"
    using assms(5) [OF k(1) d1] by blast
  with points_okD(2) [OF assms(1) old, of k d] k d1 assms(4)
  show "json_get p ''knowledge_base_id'' = Some (JStr (uuid_str (doc_base d1)))" by auto
qed

lemma points_subset:
  assumes "corpus_ok view db x" "fewer view x1 x" "kn_next db \<le> kn_next db1"
    "set (kn_chunks db1) \<subseteq> set (kn_chunks db)" "set (kn_documents db1) \<subseteq> set (kn_documents db)"
  shows "points_ok view db1 x1"
proof (rule points_mono [OF _ assms(2,3,4)])
  from assms(1) show "points_ok view db x" by (simp add: corpus_ok_def)
next
  fix k d1 assume "d1 \<in> set (kn_documents db1)"
  with assms(5) show "\<exists>d \<in> set (kn_documents db). doc_id d = doc_id d1 \<and> doc_base d = doc_base d1" by blast
qed

text \<open>The trail and the table of models are not looked at.\<close>

lemma corpus_ok_same:
  assumes "corpus_ok view db x" "fewer view x1 x" "kn_bases db1 = kn_bases db"
    "kn_documents db1 = kn_documents db" "kn_chunks db1 = kn_chunks db" "kn_next db1 = kn_next db"
  shows "corpus_ok view db1 x1"
proof -
  have "points_ok view db1 x1"
    by (rule points_subset [OF assms(1,2)]) (simp_all add: assms(3-6))
  with assms show ?thesis by (simp add: corpus_ok_def bases_ok_def documents_ok_def chunks_ok_def)
qed

lemma record_same [simp]:
  "kn_bases (knowledge_record a who t i m db) = kn_bases db"
  "kn_documents (knowledge_record a who t i m db) = kn_documents db"
  "kn_chunks (knowledge_record a who t i m db) = kn_chunks db"
  "kn_next (knowledge_record a who t i m db) = kn_next db"
  "kn_bases (ensure_model nm n db) = kn_bases db" "kn_documents (ensure_model nm n db) = kn_documents db"
  "kn_chunks (ensure_model nm n db) = kn_chunks db" "kn_next (ensure_model nm n db) = kn_next db"
  by (simp_all add: knowledge_record_def ensure_model_def)

text \<open>Only collections of knowledge bases are added to.\<close>

definition apart :: "'x points_view \<Rightarrow> 'x \<Rightarrow> 'x \<Rightarrow> bool" where
  "apart view x1 x = (\<forall>c. (\<forall>i. c \<noteq> collection_name i) \<longrightarrow> view x1 c \<subseteq> view x c)"

lemma fewer_apart: "fewer view x1 x \<Longrightarrow> apart view x1 x"
  by (simp add: fewer_def apart_def)

section \<open>Bases\<close>

lemma probe_fewer: "quiet view env \<Longrightarrow> probe_dimensions env m x = (r, x1) \<Longrightarrow> fewer view x1 x"
  using keeps_fewer_result [OF quiet_calls(2), of view env "[''dimension probe'']" m x]
  by (auto simp: probe_dimensions_def split: prod.splits sum.splits list.splits)

lemma create_base_ok:
  assumes "quiet view env" "corpus_ok view db x" "create_base env rq who db x = ((r, db1), x1)"
  shows "corpus_ok view db1 x1 \<and> kn_next db \<le> kn_next db1 \<and> apart view x1 x"
proof -
  obtain dims x0 where pr: "probe_dimensions env (br_model rq) x = (dims, x0)" by fastforce
  have x0: "fewer view x0 x" using probe_fewer [OF assms(1) pr] .
  show ?thesis
  proof (cases "db1 = db")
    case True
    have "fewer view x1 x"
    proof (cases dims)
      case (Inl e)
      with assms(3) pr x0 show ?thesis by (auto simp: create_base_def split: if_splits)
    next
      case (Inr n)
      have all: "fewer view (snd (ensure_collection (kv_vectors env) spec y)) y" for spec y
        by (rule keeps_fewer [OF store_keeps(1) [OF quiet_calls(1) [OF assms(1)]]])
      have made: "fewer view y x" if "ensure_collection (kv_vectors env) spec x0 = (q, y)" for spec q y
        using all [of spec x0] that x0 by (auto intro: fewer_trans)
      from Inr assms(3) pr x0 show ?thesis
        by (auto simp: create_base_def Let_def split: if_splits sum.splits prod.splits intro: made)
    qed
    with assms(2) True show ?thesis by (simp add: corpus_ok_same fewer_apart)
  next
    case False
    then obtain n b where n: "dims = Inr n" and b: "b = new_base rq n who (kn_next db)"
        and pos: "0 < br_chunk_size rq"
        and en: "snd (ensure_collection (kv_vectors env) (collection_of b) x0) = x1"
        and db1: "kn_bases db1 = kn_bases db @ [b]" "kn_documents db1 = kn_documents db"
          "kn_chunks db1 = kn_chunks db" "kn_next db1 = kn_next db + 1"
      using assms(3) pr by (auto simp: create_base_def Let_def split: if_splits sum.splits prod.splits)
    have x1: "fewer view x1 x"
      using keeps_fewer [OF store_keeps(1) [OF quiet_calls(1) [OF assms(1)]]] en x0 fewer_trans by metis
    have "points_ok view db1 x1"
      by (rule points_subset [OF assms(2) x1]) (simp_all add: db1)
    moreover have "bases_ok db1" using assms(2) db1 pos b
      by (auto simp: corpus_ok_def bases_ok_def new_base_def)
    moreover have "documents_ok db1" using assms(2) db1 by (auto simp: corpus_ok_def documents_ok_def)
    moreover have "chunks_ok db1" using assms(2) db1
      by (auto simp: corpus_ok_def chunks_ok_def dest!: bspec intro: less_Suc_eq [THEN iffD2])
    ultimately show ?thesis using db1 fewer_apart [OF x1] by (simp add: corpus_ok_def)
  qed
qed

lemma delete_base_ok:
  assumes "quiet view env" "corpus_ok view db x" "delete_base env i who db x = ((r, db1), x1)"
  shows "corpus_ok view db1 x1 \<and> kn_next db1 = kn_next db \<and> apart view x1 x"
proof (cases "get_base i db")
  case (Inl e)
  with assms show ?thesis by (simp add: fewer_apart delete_base_def)
next
  case (Inr b)
  with assms(3) have x1: "fewer view x1 x"
    using keeps_fewer [OF store_keeps(2) [OF quiet_calls(1) [OF assms(1)]]] by (auto simp: delete_base_def)
  from Inr assms(3) have db1: "kn_bases db1 = filter (\<lambda>b. kb_id b \<noteq> i) (kn_bases db)"
      "kn_documents db1 = filter (\<lambda>d. doc_base d \<noteq> i) (kn_documents db)"
      "set (kn_chunks db1) = {k \<in> set (kn_chunks db). dk_document k
         \<notin> doc_id ` set (filter (\<lambda>d. doc_base d = i) (kn_documents db))}"
      "kn_next db1 = kn_next db"
    by (auto simp: delete_base_def cascade_base_def Let_def)
  have "points_ok view db1 x1"
    by (rule points_subset [OF assms(2) x1]) (auto simp: db1)
  moreover have "bases_ok db1" using assms(2) db1 by (auto simp: corpus_ok_def bases_ok_def distinct_map_filter)
  moreover have "documents_ok db1" using assms(2) db1
    by (fastforce simp: corpus_ok_def documents_ok_def distinct_map_filter)
  moreover have "chunks_ok db1" using assms(2) db1 by (fastforce simp: corpus_ok_def chunks_ok_def)
  ultimately show ?thesis using db1 fewer_apart [OF x1] by (simp add: corpus_ok_def)
qed

section \<open>Uploads\<close>

lemma accept_upload_ok:
  assumes "quiet view env" "corpus_ok view db x" "accept_upload env i nm ct content who db x = ((r, db1), x1)"
  shows "corpus_ok view db1 x1 \<and> kn_next db \<le> kn_next db1 \<and> apart view x1 x"
proof -
  have put: "fewer view y x" if "kv_put env k c t x = (q, y)" for k c t q y
    using keeps_fewer_result [OF quiet_calls(3) [OF assms(1)] that] .
  from assms(3) have x1: "fewer view x1 x"
    by (auto simp: accept_upload_def Let_def split: sum.splits if_splits option.splits prod.splits intro: put)
  consider "db1 = db"
    | d where "doc_id d = kn_next db" "doc_base d \<in> kb_id ` set (kn_bases db)" "doc_status d = D_UPLOADED"
        "kn_bases db1 = kn_bases db" "kn_documents db1 = kn_documents db @ [d]"
        "kn_chunks db1 = kn_chunks db" "kn_next db1 = kn_next db + 1"
  proof (cases "get_base i db")
    case (Inl e)
    with assms(3) that(1) show ?thesis by (simp add: accept_upload_def)
  next
    case (Inr b)
    then have "b \<in> set (kn_bases db)"
      by (auto simp: get_base_def base_with_def split: option.splits dest: find_row_Some)
    show ?thesis
    proof (cases "kb_enabled b \<and> content \<noteq> [] \<and> find_duplicate (kb_id b) (kv_sha env content) db = None")
      case False
      with assms(3) Inr have "db1 = db" by (auto simp: accept_upload_def split: if_splits option.splits)
      with that(1) show ?thesis .
    next
      case True
      let ?d = "new_document env (kb_id b) nm ct content who (kn_next db)"
      obtain q y where "kv_put env (storage_key_of (kb_id b) (doc_id ?d) (doc_sha ?d)) content (doc_type ?d) x = (q, y)"
        by fastforce
      with assms(3) Inr True have "db1 = db \<or> kn_bases db1 = kn_bases db \<and> kn_documents db1 = kn_documents db @ [?d]
          \<and> kn_chunks db1 = kn_chunks db \<and> kn_next db1 = kn_next db + 1"
        by (cases q) (auto simp: accept_upload_def Let_def)
      moreover have "doc_id ?d = kn_next db" "doc_base ?d \<in> kb_id ` set (kn_bases db)" "doc_status ?d = D_UPLOADED"
        using \<open>b \<in> set (kn_bases db)\<close> by (simp_all add: new_document_def)
      ultimately show ?thesis using that by blast
    qed
  qed
  then show ?thesis
  proof cases
    case 1
    with assms(2) x1 show ?thesis by (simp add: corpus_ok_same fewer_apart)
  next
    case (2 d)
    have "points_ok view db1 x1"
    proof (rule points_mono [OF _ x1])
      show "points_ok view db x" using assms(2) by (simp add: corpus_ok_def)
      fix k d1 assume k: "k \<in> set (kn_chunks db1)" and d1: "d1 \<in> set (kn_documents db1)" "doc_id d1 = dk_document k"
      from k 2(6) assms(2) obtain d2 where d2: "d2 \<in> set (kn_documents db)" "doc_id d2 = dk_document k"
        unfolding corpus_ok_def chunks_ok_def by (metis imageE)
      with documents_okD(1) [OF corpus_okD(2) [OF assms(2)]] have "doc_id d2 < kn_next db" by blast
      with 2 d1 d2 show "\<exists>d2 \<in> set (kn_documents db). doc_id d2 = doc_id d1 \<and> doc_base d2 = doc_base d1"
        by auto
    qed (simp_all add: 2)
    moreover have "bases_ok db1" using assms(2) 2 by (auto simp: corpus_ok_def bases_ok_def)
    moreover have "documents_ok db1" using assms(2) 2
      by (auto simp: corpus_ok_def documents_ok_def resting_states_def)
    moreover have "chunks_ok db1" using assms(2) 2
      by (auto simp: corpus_ok_def chunks_ok_def dest!: bspec intro: less_Suc_eq [THEN iffD2])
    ultimately show ?thesis using 2 fewer_apart [OF x1] by (simp add: corpus_ok_def)
  qed
qed

section \<open>Ingestion\<close>

text \<open>What a run of the pipeline leaves: the document settled, and either nothing else or new rows
  with fresh vectors that carry the identifier of the base.\<close>

definition fresh_points :: "knowledge_base \<Rightarrow> nat \<Rightarrow> nat \<Rightarrow> (string \<times> (string \<times> json) list) set" where
  "fresh_points b lo hi = {(v, p). (\<exists>n. lo \<le> n \<and> n < hi \<and> v = uuid_str n)
     \<and> json_get p ''knowledge_base_id'' = Some (JStr (uuid_str (kb_id b)))}"

definition settled :: "document \<Rightarrow> knowledge_db \<Rightarrow> knowledge_db \<Rightarrow> bool" where
  "settled d db db1 = (\<exists>d1. doc_id d1 = doc_id d \<and> doc_base d1 = doc_base d \<and> is_terminal d1
     \<and> kn_documents db1 = kn_documents (put_document d1 db) \<and> kn_bases db1 = kn_bases db)"

definition rows_added :: "'x points_view \<Rightarrow> knowledge_base \<Rightarrow> document \<Rightarrow> knowledge_db \<Rightarrow> 'x \<Rightarrow> knowledge_db \<Rightarrow> 'x \<Rightarrow> bool" where
  "rows_added view b d db x db1 x1 = (kn_next db \<le> kn_next db1
     \<and> (\<forall>k \<in> set (kn_chunks db1). k \<in> set (kn_chunks db) \<and> dk_document k \<noteq> doc_id d
          \<or> dk_document k = doc_id d
            \<and> (\<exists>n. kn_next db \<le> n \<and> n < kn_next db1 \<and> dk_vector k = Some (uuid_str n)))
     \<and> (\<forall>c. view x1 c \<subseteq> view x c \<union> (if c = kb_collection b then fresh_points b (kn_next db) (kn_next db1) else {})))"

definition ingested :: "'x points_view \<Rightarrow> knowledge_base \<Rightarrow> document \<Rightarrow> knowledge_db \<Rightarrow> 'x \<Rightarrow> knowledge_db \<Rightarrow> 'x \<Rightarrow> bool" where
  "ingested view b d db x db1 x1 = (settled d db db1
     \<and> (kn_chunks db1 = kn_chunks db \<and> kn_next db1 = kn_next db \<and> fewer view x1 x
        \<or> rows_added view b d db x db1 x1))"

lemma put_put: "doc_id d1 = doc_id d2 \<Longrightarrow> put_document d2 (put_document d1 db) = put_document d2 db"
  by (simp add: put_document_def update_rows_def)

lemma put_again:
  "kn_documents db2 = kn_documents (put_document d1 db) \<Longrightarrow> doc_id d1 = doc_id d2
     \<Longrightarrow> kn_documents (put_document d2 db2) = kn_documents (put_document d2 db)"
  by (simp add: put_document_def update_rows_def)

lemma put_same [simp]: "kn_chunks (put_document d db) = kn_chunks db" "kn_next (put_document d db) = kn_next db"
  "kn_bases (put_document d db) = kn_bases db"
  by (simp_all add: put_document_def)

lemma ingested_fewer: "ingested view b d db x0 db1 x1 \<Longrightarrow> fewer view x0 x \<Longrightarrow> ingested view b d db x db1 x1"
  unfolding ingested_def rows_added_def fewer_def by blast

lemma ingested_put:
  assumes "ingested view b d1 (put_document d0 db) x db1 x1" "doc_id d0 = doc_id d1"
    "doc_id d1 = doc_id d" "doc_base d1 = doc_base d"
  shows "ingested view b d db x db1 x1"
proof -
  from assms obtain d2 where "doc_id d2 = doc_id d" "doc_base d2 = doc_base d" "is_terminal d2"
      "kn_documents db1 = kn_documents (put_document d2 (put_document d0 db))" "kn_bases db1 = kn_bases db"
    by (auto simp: ingested_def settled_def)
  with assms(2,3) have "settled d db db1" unfolding settled_def by (intro exI [of _ d2]) (simp add: put_put)
  with assms show ?thesis by (simp add: ingested_def rows_added_def cong: if_cong split del: if_split)
qed

lemma finish_ingested:
  assumes "is_terminal d1" "doc_id d1 = doc_id d" "doc_base d1 = doc_base d"
    "finish_document d1 n m t db x = ((r, db1), x1)"
  shows "(\<exists>o1. r = Done o1) \<and> x1 = x \<and> ingested view b d db x db1 x1"
  using assms by (auto simp: finish_document_def ingested_def settled_def)

section \<open>The pipeline\<close>

lemma chunk_payload_base [simp]:
  "json_get (chunk_payload b d c) ''knowledge_base_id'' = Some (JStr (uuid_str (kb_id b)))"
  by (simp add: chunk_payload_def json_get_def)

definition fresh_rows :: "document \<Rightarrow> nat \<Rightarrow> nat \<Rightarrow> document_chunk list \<Rightarrow> bool" where
  "fresh_rows d lo hi rows = (\<forall>k \<in> set rows. dk_document k = doc_id d
     \<and> (\<exists>n. lo \<le> n \<and> n < hi \<and> dk_vector k = Some (uuid_str n)))"

lemma chunk_rows_fresh:
  "fresh_rows d lo (lo + length cs) (map (chunk_row (doc_id d)) (zip cs [lo..<lo + length cs]))"
proof -
  have "lo \<le> n \<and> n < lo + length cs" if "(c, n) \<in> set (zip cs [lo..<lo + length cs])" for c n
    using set_zip_rightD [OF that] by simp
  then show ?thesis by (fastforce simp: fresh_rows_def chunk_row_def)
qed

lemma uuid_str_nonempty [simp]: "uuid_str n \<noteq> []"
  by (simp add: uuid_str_def Let_def)

lemma or_str_none [simp]: "or_str None t = t"
  by (simp add: or_str_def)

lemma or_str_some [simp]: "s \<noteq> [] \<Longrightarrow> or_str (Some s) t = s"
  by (cases s) (simp_all add: or_str_def)

lemma record_points_fresh:
  assumes "fresh_rows d lo hi rows"
  shows "record_points (map (chunk_record b d1) (zip (take n rows) vs)) \<subseteq> fresh_points b lo hi"
proof
  fix q assume "q \<in> record_points (map (chunk_record b d1) (zip (take n rows) vs))"
  then obtain c v where c: "c \<in> set rows" and q: "q = (or_str (dk_vector c) [], chunk_payload b d1 c)"
    by (auto simp: record_points_def chunk_record_def dest!: set_zip_leftD dest: in_set_takeD)
  with assms obtain m where "lo \<le> m" "m < hi" "dk_vector c = Some (uuid_str m)" by (auto simp: fresh_rows_def)
  with q show "q \<in> fresh_points b lo hi" by (auto simp: fresh_points_def)
qed

lemma embed_batches_points:
  assumes "quiet view env" "fresh_rows d lo hi rows"
  shows "view (snd (embed_batches env b d1 rows x)) c
    \<subseteq> view x c \<union> (if c = kb_collection b then fresh_points b lo hi else {})"
  using assms
proof (induction env b d1 rows x rule: embed_batches.induct)
  case (1 env b d1 rows x)
  show ?case
  proof (cases "rows = []")
    case True
    then show ?thesis by (simp add: embed_batches.simps)
  next
    case False
    let ?batch = "take embed_batch rows"
    obtain q y where q: "kv_embed env (map dk_text ?batch) (kb_model b) x = (q, y)" by fastforce
    have y: "fewer view y x" using keeps_fewer_result [OF quiet_calls(2) [OF 1(2)] q] .
    show ?thesis
    proof (cases "\<exists>vectors. q = Inr vectors \<and> length vectors = length ?batch")
      case no: False
      with False q have "snd (embed_batches env b d1 rows x) = y"
        by (cases q) (auto simp: embed_batches.simps [of env b d1 rows] Let_def)
      with y show ?thesis by (auto simp: fewer_def)
    next
      case True
      then obtain vectors where v: "q = Inr vectors" "length vectors = length ?batch" by blast
      let ?records = "map (chunk_record b d1) (zip ?batch vectors)"
      obtain s z where z: "store_upsert (kv_vectors env) (kb_collection b) ?records y = (s, z)" by fastforce
      have up: "view z c \<subseteq> view y c \<union> (if c = kb_collection b then fresh_points b lo hi else {})"
        using store_upsert_points [OF quiet_calls(1) [OF 1(2)], of "kb_collection b" ?records y c]
          record_points_fresh [OF 1(3), of b d1 embed_batch vectors] z
        by (auto split: if_splits)
      have yx: "view y c \<subseteq> view x c" using y by (simp add: fewer_def)
      show ?thesis
      proof (cases s)
        case (Inl e)
        with False q v z have "snd (embed_batches env b d1 rows x) = z"
          by (simp add: embed_batches.simps [of env b d1 rows] Let_def)
        with up yx show ?thesis by blast
      next
        case (Inr u)
        with False q v z have eq: "embed_batches env b d1 rows x = embed_batches env b d1 (drop embed_batch rows) z"
          by (simp add: embed_batches.simps [of env b d1 rows] Let_def)
        have "fresh_rows d lo hi (drop embed_batch rows)"
          using 1(3) by (auto simp: fresh_rows_def dest: in_set_dropD)
        then have "view (snd (embed_batches env b d1 (drop embed_batch rows) z)) c
            \<subseteq> view z c \<union> (if c = kb_collection b then fresh_points b lo hi else {})"
          using 1(1) [OF False refl q [symmetric] v(1) _ z [symmetric] Inr 1(2)] v(2) by simp
        with up yx show ?thesis unfolding eq by blast
      qed
    qed
  qed
qed

lemma no_text_ingested:
  assumes "no_text d1 m db x = ((r, db1), x1)" "doc_id d1 = doc_id d" "doc_base d1 = doc_base d"
  shows "(\<exists>o1. r = Done o1) \<and> ingested view b d db x db1 x1"
  using finish_ingested [OF _ _ _ assms(1) [unfolded no_text_def], of d view b] assms(2,3)
  by (auto simp: is_terminal_def terminal_document_states_def)

lemma fail_document_ingested:
  assumes "fail_document d1 m db x = ((r, db1), x1)" "doc_id d1 = doc_id d" "doc_base d1 = doc_base d"
  shows "(\<exists>o1. r = Done o1) \<and> ingested view b d db x db1 x1"
  using finish_ingested [OF _ _ _ assms(1) [unfolded fail_document_def], of d view b] assms(2,3)
  by (auto simp: is_terminal_def terminal_document_states_def)

lemma embed_and_index_points:
  assumes "quiet view env" "fresh_rows d lo hi rows"
  shows "view (snd (embed_and_index env b d1 rows x)) c
    \<subseteq> view x c \<union> (if c = kb_collection b then fresh_points b lo hi else {})"
proof -
  obtain q y where q: "ensure_collection (kv_vectors env) (collection_of b) x = (q, y)" by fastforce
  have y: "view y c \<subseteq> view x c"
    using keeps_fewer_result [OF store_keeps(1) [OF quiet_calls(1) [OF assms(1)]] q] by (simp add: fewer_def)
  show ?thesis
  proof (cases q)
    case (Inl e)
    with q y show ?thesis by (auto simp: embed_and_index_def call_bind_def)
  next
    case (Inr u)
    with q have "embed_and_index env b d1 rows x = embed_batches env b d1 rows y"
      by (simp add: embed_and_index_def call_bind_def)
    with embed_batches_points [OF assms, of b d1 y c] y show ?thesis by auto
  qed
qed

lemma index_chunks_ingested:
  assumes "quiet view env" "index_chunks env b d cs db x = ((r, db1), x1)"
  shows "(\<exists>o1. r = Done o1) \<and> ingested view b d db x db1 x1"
proof -
  let ?d1 = "d\<lparr>doc_status := D_EMBEDDING\<rparr>"
  let ?rows = "map (chunk_row (doc_id d)) (zip cs [kn_next db..<kn_next db + length cs])"
  let ?hi = "kn_next db + length cs"
  define db2 where "db2 = (delete_chunks (doc_id d) (put_document ?d1 db))
      \<lparr>kn_chunks := kn_chunks (delete_chunks (doc_id d) (put_document ?d1 db)) @ ?rows,
       kn_next := kn_next (delete_chunks (doc_id d) (put_document ?d1 db)) + length cs\<rparr>"
  have db2: "kn_documents db2 = kn_documents (put_document ?d1 db)" "kn_bases db2 = kn_bases db"
    "kn_chunks db2 = filter (\<lambda>k. dk_document k \<noteq> doc_id d) (kn_chunks db) @ ?rows" "kn_next db2 = ?hi"
    by (simp_all add: db2_def delete_chunks_def)
  have fresh: "fresh_rows d (kn_next db) ?hi ?rows" by (rule chunk_rows_fresh)
  obtain q y where q: "embed_and_index env b ?d1 ?rows x = (q, y)" by fastforce
  obtain d2 n m t where d2: "is_terminal d2" "doc_id d2 = doc_id d" "doc_base d2 = doc_base d"
      and fin: "finish_document d2 n m t db2 y = ((r, db1), x1)"
  proof (cases q)
    case (Inl e)
    with assms(2) q have "fail_document ?d1 (''Embedding failed: '' @ e) db2 y = ((r, db1), x1)"
      by (simp add: index_chunks_def Let_def db2_def)
    then show ?thesis unfolding fail_document_def
      by (intro that) (auto simp: is_terminal_def terminal_document_states_def)
  next
    case (Inr u)
    with assms(2) q show ?thesis unfolding index_chunks_def Let_def db2_def [symmetric]
      by (intro that) (auto simp: is_terminal_def terminal_document_states_def)
  qed
  from fin have out: "r = Done \<lparr>io_document = doc_id d2, io_status = doc_status d2, io_chunks = n,
      io_characters = m, io_detail = t\<rparr>" "db1 = put_document d2 db2" "x1 = y"
    by (simp_all add: finish_document_def)
  have "kn_documents db1 = kn_documents (put_document d2 db)"
    unfolding out(2) by (rule put_again [OF db2(1)]) (simp add: d2(2))
  with d2 db2(2) out have "settled d db db1" by (auto simp: settled_def)
  moreover have "rows_added view b d db x db1 x1" unfolding rows_added_def
  proof (intro conjI)
    have after: "kn_next db1 = ?hi" "kn_chunks db1 = filter (\<lambda>k. dk_document k \<noteq> doc_id d) (kn_chunks db) @ ?rows"
      using out(2) db2(3,4) by simp_all
    show "kn_next db \<le> kn_next db1" using after by simp
    show "\<forall>k \<in> set (kn_chunks db1). k \<in> set (kn_chunks db) \<and> dk_document k \<noteq> doc_id d
        \<or> dk_document k = doc_id d \<and> (\<exists>n. kn_next db \<le> n \<and> n < kn_next db1 \<and> dk_vector k = Some (uuid_str n))"
      using fresh unfolding fresh_rows_def after by auto
    show "\<forall>c. view x1 c \<subseteq> view x c \<union>
        (if c = kb_collection b then fresh_points b (kn_next db) (kn_next db1) else {})"
      using embed_and_index_points [OF assms(1) fresh, of b ?d1 x] unfolding q after out(3) by simp
  qed
  ultimately show ?thesis using out(1) by (simp add: ingested_def)
qed

lemma ingest_text_ingested:
  assumes "quiet view env" "0 < kb_chunk_size b" "ingest_text env b d r0 db x = ((r, db1), x1)"
  shows "(\<exists>o1. r = Done o1) \<and> ingested view b d db x db1 x1"
proof (cases "ps_segments r0 = [] \<or> text_length r0 = 0")
  case True
  with assms(3) have "no_text d (or_str (ps_warning r0) ''No text could be extracted.'') db x = ((r, db1), x1)"
    by (auto simp: ingest_text_def)
  then show ?thesis by (rule no_text_ingested) simp_all
next
  case False
  let ?d1 = "d\<lparr>doc_status := D_CHUNKING, doc_characters := text_length r0, doc_detail := ps_warning r0\<rparr>"
  obtain cs where cs: "chunk_segments (ps_segments r0) (kb_chunk_size b) (kb_overlap b) = Some (Inr cs)"
    using chunk_segments_spec [OF assms(2)] by metis
  have "(\<exists>o1. r = Done o1) \<and> ingested view b ?d1 (put_document ?d1 db) x db1 x1"
  proof (cases cs)
    case Nil
    with False cs assms(3) have "no_text ?d1 ''Text was extracted but produced no usable chunks.''
        (put_document ?d1 db) x = ((r, db1), x1)" by (simp add: ingest_text_def Let_def)
    then show ?thesis by (rule no_text_ingested) simp_all
  next
    case (Cons c rest)
    with False cs assms(3) have "index_chunks env b ?d1 cs (put_document ?d1 db) x = ((r, db1), x1)"
      by (simp add: ingest_text_def Let_def)
    then show ?thesis by (rule index_chunks_ingested [OF assms(1)])
  qed
  then show ?thesis using ingested_put [of view b ?d1 ?d1 db x db1 x1 d] by simp
qed

lemma ingest_ingested:
  assumes "quiet view env" "0 < kb_chunk_size b" "ingest env b d content db x = ((r, db1), x1)"
  shows "(\<exists>o1. r = Done o1) \<and> ingested view b d db x db1 x1"
proof -
  let ?d1 = "d\<lparr>doc_status := D_PARSING\<rparr>"
  let ?db1 = "put_document ?d1 db"
  have "(\<exists>o1. r = Done o1) \<and> ingested view b ?d1 ?db1 x db1 x1"
  proof (cases "kv_parse env (doc_filename d) content (doc_type d)")
    case (Parsed p)
    show ?thesis
    proof (cases "ps_needs_ocr p")
      case False
      with Parsed assms(3) have "ingest_text env b ?d1 p ?db1 x = ((r, db1), x1)"
        by (simp add: ingest_def Let_def)
      then show ?thesis by (rule ingest_text_ingested [OF assms(1,2)])
    next
      case True
      show ?thesis
      proof (cases "kv_ocr env")
        case None
        with True Parsed assms(3) obtain m where "no_text (?d1\<lparr>doc_ocr := False\<rparr>) m ?db1 x = ((r, db1), x1)"
          by (simp add: ingest_def Let_def)
        then show ?thesis by (rule no_text_ingested) simp_all
      next
        case (Some recognise)
        let ?d2 = "?d1\<lparr>doc_status := D_OCR\<rparr>"
        let ?db2 = "put_document ?d2 ?db1"
        obtain q y where q: "recognise content (doc_filename d) x = (q, y)" by fastforce
        have y: "fewer view y x" using keeps_fewer_result [OF quiet_calls(6) [OF assms(1) Some] q] .
        have "(\<exists>o1. r = Done o1) \<and> ingested view b ?d2 ?db2 y db1 x1"
        proof (cases q)
          case (Inl e)
          with q Some True Parsed assms(3) obtain m
            where "no_text (?d2\<lparr>doc_ocr := False\<rparr>) m ?db2 y = ((r, db1), x1)"
            by (simp add: ingest_def Let_def)
          then show ?thesis by (rule no_text_ingested) simp_all
        next
          case (Inr found)
          with q Some True Parsed assms(3)
          have "ingest_text env b (?d2\<lparr>doc_ocr := True\<rparr>) (recognised found) ?db2 y = ((r, db1), x1)"
            by (simp add: ingest_def Let_def)
          from ingest_text_ingested [OF assms(1,2) this] show ?thesis
            by (simp add: ingested_def settled_def rows_added_def cong: if_cong split del: if_split)
        qed
        then have "(\<exists>o1. r = Done o1) \<and> ingested view b ?d2 ?db2 x db1 x1" 
          by (elim conjE) (rule conjI, assumption, rule ingested_fewer [OF _ y])
        then show ?thesis using ingested_put [of view b ?d2 ?d2 ?db1 x db1 x1 ?d1] by simp
      qed
    qed
  next
    case (Unsupported m)
    with assms(3) have "fail_document ?d1 m ?db1 x = ((r, db1), x1)" by (simp add: ingest_def Let_def)
    then show ?thesis by (rule fail_document_ingested) simp_all
  next
    case (Parser_Crash m)
    with assms(3) have "fail_document ?d1 (''The parser failed: '' @ m @ ''.'') ?db1 x = ((r, db1), x1)"
      by (simp add: ingest_def Let_def)
    then show ?thesis by (rule fail_document_ingested) simp_all
  qed
  then show ?thesis using ingested_put [of view b ?d1 ?d1 db x db1 x1 d] by simp
qed

section \<open>One pass of the worker\<close>

lemma same_document:
  assumes "distinct (map doc_id ds)" "a \<in> set ds" "b \<in> set ds" "doc_id a = doc_id b" shows "a = b"
proof -
  have "inj_on doc_id (set ds)" using assms(1) by (simp add: distinct_map)
  from inj_onD [OF this assms(4,2,3)] show ?thesis .
qed

lemma settled_documents:
  assumes "settled d db db1"
  shows "map doc_id (kn_documents db1) = map doc_id (kn_documents db)" "kn_bases db1 = kn_bases db"
    "d1 \<in> set (kn_documents db1) \<Longrightarrow> d \<in> set (kn_documents db) \<Longrightarrow>
      \<exists>d0 \<in> set (kn_documents db). doc_id d0 = doc_id d1
        \<and> (distinct (map doc_id (kn_documents db)) \<longrightarrow> doc_base d0 = doc_base d1) \<and> (d1 = d0 \<or> is_terminal d1)"
proof -
  from assms obtain d2 where d2: "doc_id d2 = doc_id d" "doc_base d2 = doc_base d" "is_terminal d2"
      "kn_documents db1 = kn_documents (put_document d2 db)" and bases: "kn_bases db1 = kn_bases db"
    by (auto simp: settled_def)
  show "map doc_id (kn_documents db1) = map doc_id (kn_documents db)"
    using d2(1) by (simp add: d2(4) put_document_def update_rows_def)
  show "kn_bases db1 = kn_bases db" by fact
  assume "d1 \<in> set (kn_documents db1)" and d: "d \<in> set (kn_documents db)"
  then obtain d0 where d0: "d0 \<in> set (kn_documents db)" "d1 = (if doc_id d0 = doc_id d2 then d2 else d0)"
    by (auto simp: d2(4) put_document_def update_rows_def)
  have "doc_base d0 = doc_base d1" if "distinct (map doc_id (kn_documents db))"
    using that d0 d d2(1,2) by (auto simp: distinct_map dest: inj_onD)
  with d0 d2(3) show "\<exists>d0 \<in> set (kn_documents db). doc_id d0 = doc_id d1
        \<and> (distinct (map doc_id (kn_documents db)) \<longrightarrow> doc_base d0 = doc_base d1) \<and> (d1 = d0 \<or> is_terminal d1)"
    by (intro bexI [of _ d0]) auto
qed

lemma resting_terminal: "is_terminal d \<Longrightarrow> doc_status d \<in> set resting_states"
  by (simp add: is_terminal_def resting_states_def)

lemma settled_documents_ok:
  assumes "documents_ok db" "settled d db db1" "d \<in> set (kn_documents db)" "kn_next db \<le> kn_next db1"
  shows "documents_ok db1"
  unfolding documents_ok_def
proof (intro conjI ballI)
  show "distinct (map doc_id (kn_documents db1))"
    using assms(1) settled_documents(1) [OF assms(2)] by (simp add: documents_ok_def)
  fix d1 assume "d1 \<in> set (kn_documents db1)"
  from settled_documents(3) [OF assms(2) this assms(3)] assms(1)
  obtain d0 where d0: "d0 \<in> set (kn_documents db)" "doc_id d0 = doc_id d1" "doc_base d0 = doc_base d1"
      "d1 = d0 \<or> is_terminal d1" by (auto simp: documents_ok_def)
  from documents_okD [OF assms(1) d0(1)] d0 assms(4) settled_documents(2) [OF assms(2)]
  show "doc_id d1 < kn_next db1" "doc_base d1 \<in> kb_id ` set (kn_bases db1)" by auto
  from documents_okD(3) [OF assms(1) d0(1)] d0(4) show "doc_status d1 \<in> set resting_states"
    using resting_terminal by blast
qed

lemma ingested_ok:
  assumes "corpus_ok view db x" "ingested view b d db x db1 x1" "d \<in> set (kn_documents db)"
    "kb_id b = doc_base d" "b \<in> set (kn_bases db)" "kn_next db1 \<le> 16 ^ 32"
  shows "corpus_ok view db1 x1 \<and> kn_next db \<le> kn_next db1 \<and> apart view x1 x"
proof -
  have st: "settled d db db1" using assms(2) by (simp add: ingested_def)
  have le: "kn_next db \<le> kn_next db1" using assms(2) by (auto simp: ingested_def rows_added_def)
  have dist: "distinct (map doc_id (kn_documents db))" using assms(1) by (simp add: corpus_ok_def documents_ok_def)
  have docs: "documents_ok db1" using settled_documents_ok [OF corpus_okD(2) [OF assms(1)] st assms(3) le] .
  have bases: "bases_ok db1" using corpus_okD(1) [OF assms(1)] le settled_documents(2) [OF st]
    unfolding bases_ok_def by (metis less_le_trans)
  have ids: "doc_id ` set (kn_documents db1) = doc_id ` set (kn_documents db)"
    using arg_cong [OF settled_documents(1) [OF st], of set] by simp
  have "kb_collection b = collection_name (kb_id b)"
    using corpus_okD(1) [OF assms(1)] assms(5) by (simp add: bases_ok_def)
  then have "apart view x1 x" if "rows_added view b d db x db1 x1"
    using that unfolding rows_added_def apart_def by (auto split: if_splits)
  then have apart: "apart view x1 x"
    using assms(2) fewer_apart [of view x1 x] unfolding ingested_def by (elim conjE disjE) simp_all
  show ?thesis
  proof (cases "rows_added view b d db x db1 x1")
    case False
    with assms(2) have same: "kn_chunks db1 = kn_chunks db" "kn_next db1 = kn_next db" "fewer view x1 x"
      by (auto simp: ingested_def)
    have "points_ok view db1 x1"
    proof (rule points_mono [OF corpus_okD(4) [OF assms(1)] same(3) le])
      fix k d1 assume "d1 \<in> set (kn_documents db1)"
      from settled_documents(3) [OF st this assms(3)] dist
      show "\<exists>d \<in> set (kn_documents db). doc_id d = doc_id d1 \<and> doc_base d = doc_base d1" by blast
    qed (simp add: same)
    moreover have "chunks_ok db1" using corpus_okD(3) [OF assms(1)] by (simp add: chunks_ok_def same ids)
    ultimately show ?thesis using docs bases le apart by (simp add: corpus_ok_def)
  next
    case True
    have row: "k \<in> set (kn_chunks db) \<or> dk_document k = doc_id d
        \<and> (\<exists>n. kn_next db \<le> n \<and> n < kn_next db1 \<and> dk_vector k = Some (uuid_str n))"
      if "k \<in> set (kn_chunks db1)" for k using True that unfolding rows_added_def by blast
    have old: "dk_document k \<in> doc_id ` set (kn_documents db) \<and> (\<exists>n < kn_next db. dk_vector k = Some (uuid_str n))"
      if "k \<in> set (kn_chunks db)" for k using corpus_okD(3) [OF assms(1)] that unfolding chunks_ok_def by blast
    have inj: "n = m" if "uuid_str n = uuid_str m" "n < kn_next db1" "m < kn_next db1" for n m
      using uuid_str_inj [OF that(1)] that(2,3) assms(6) by linarith
    have "\<forall>c. view x1 c \<subseteq> view x c \<union>
        (if c = kb_collection b then fresh_points b (kn_next db) (kn_next db1) else {})"
      using True unfolding rows_added_def by (elim conjE)
    then have sub: "view x1 c \<subseteq> view x c \<union> fresh_points b (kn_next db) (kn_next db1)" for c
      by (cases "c = kb_collection b") (auto dest!: spec [of _ c])
    have "chunks_ok db1" unfolding chunks_ok_def
    proof
      fix k assume k: "k \<in> set (kn_chunks db1)"
      from row [OF k] show "dk_document k \<in> doc_id ` set (kn_documents db1)
          \<and> (\<exists>n < kn_next db1. dk_vector k = Some (uuid_str n))"
        using old [of k] le assms(3) unfolding ids by (metis imageI less_le_trans)
    qed
    moreover have "points_ok view db1 x1" unfolding points_ok_def
    proof (intro allI impI)
      fix i v p assume "(v, p) \<in> view x1 (collection_name i)"
      with sub consider "(v, p) \<in> view x (collection_name i)" | "(v, p) \<in> fresh_points b (kn_next db) (kn_next db1)"
        by blast
      then show "(\<exists>n < kn_next db1. v = uuid_str n) \<and> (\<forall>k \<in> set (kn_chunks db1). dk_vector k = Some v \<longrightarrow>
          (\<forall>d1 \<in> set (kn_documents db1). doc_id d1 = dk_document k \<longrightarrow>
             json_get p ''knowledge_base_id'' = Some (JStr (uuid_str (doc_base d1)))))"
      proof cases
        case 1
        from points_okD(1) [OF corpus_okD(4) [OF assms(1)] 1] obtain n where n: "n < kn_next db" "v = uuid_str n"
          by blast
        have "json_get p ''knowledge_base_id'' = Some (JStr (uuid_str (doc_base d1)))"
          if k: "k \<in> set (kn_chunks db1)" "dk_vector k = Some v" and d1: "d1 \<in> set (kn_documents db1)" "doc_id d1 = dk_document k"
          for k d1
        proof -
          have "k \<in> set (kn_chunks db)" using row [OF k(1)] inj n k(2) le by fastforce
          moreover obtain d0 where "d0 \<in> set (kn_documents db)" "doc_id d0 = doc_id d1" "doc_base d0 = doc_base d1"
            using settled_documents(3) [OF st d1(1) assms(3)] dist by blast
          ultimately show ?thesis using points_okD(2) [OF corpus_okD(4) [OF assms(1)] 1, of k d0] k(2) d1(2) by simp
        qed
        with n le show ?thesis by (blast intro: less_le_trans)
      next
        case 2
        then obtain n where n: "kn_next db \<le> n" "n < kn_next db1" "v = uuid_str n"
            and p: "json_get p ''knowledge_base_id'' = Some (JStr (uuid_str (kb_id b)))"
          by (auto simp: fresh_points_def)
        have "doc_base d1 = kb_id b"
          if k: "k \<in> set (kn_chunks db1)" "dk_vector k = Some v" and d1: "d1 \<in> set (kn_documents db1)" "doc_id d1 = dk_document k"
          for k d1
        proof -
          have "k \<notin> set (kn_chunks db)" using old [of k] inj n k(2) le by fastforce
          with row [OF k(1)] have "dk_document k = doc_id d" by blast
          moreover obtain d0 where d0: "d0 \<in> set (kn_documents db)" "doc_id d0 = doc_id d1" "doc_base d0 = doc_base d1"
            using settled_documents(3) [OF st d1(1) assms(3)] dist by blast
          ultimately have "d0 = d" using same_document [OF dist d0(1) assms(3)] d1(2) by simp
          with d0(3) assms(4) show ?thesis by simp
        qed
        then show ?thesis using n p by (intro conjI ballI impI) auto
      qed
    qed
    ultimately show ?thesis using docs bases le apart by (simp add: corpus_ok_def)
  qed
qed

lemma tick_cases:
  assumes "tick env locked db x = ((r, db1), x1)"
  obtains "claim_next_pending locked db = None" "r = Done False" "db1 = db" "x1 = x"
  | d where "claim_next_pending locked db = Some d" "base_with (doc_base d) db = None"
      "r = Done False" "db1 = db" "x1 = x"
  | d b e where "claim_next_pending locked db = Some d" "base_with (doc_base d) db = Some b"
      "load_content env d x = (Inl e, x1)" "r = Done True" "db1 = mark_failed (doc_id d) e db"
  | d b content x0 q db0 x2 where "claim_next_pending locked db = Some d" "base_with (doc_base d) db = Some b"
      "load_content env d x = (Inr content, x0)" "ingest env b d content db x0 = ((q, db0), x2)"
      "\<And>o1. q = Done o1 \<Longrightarrow> r = Done True \<and> db1 = db0 \<and> x1 = x2"
proof (cases "claim_next_pending locked db")
  case None
  with assms have "r = Done False \<and> db1 = db \<and> x1 = x" by (simp add: tick_def)
  with None show ?thesis by (intro that(1)) simp_all
next
  case (Some d)
  show ?thesis
  proof (cases "base_with (doc_base d) db")
    case None
    with Some assms have "r = Done False \<and> db1 = db \<and> x1 = x" by (simp add: tick_def)
    with Some None show ?thesis by (intro that(2)) simp_all
  next
    case b: (Some b)
    obtain s x0 where l: "load_content env d x = (s, x0)" by fastforce
    show ?thesis
    proof (cases s)
      case (Inl e)
      with l b Some assms have "r = Done True \<and> db1 = mark_failed (doc_id d) e db \<and> x1 = x0"
        by (simp add: tick_def)
      with l b Some Inl show ?thesis by (intro that(3)) simp_all
    next
      case (Inr content)
      obtain q db0 x2 where q: "ingest env b d content db x0 = ((q, db0), x2)" by (metis surj_pair)
      have "r = Done True \<and> db1 = db0 \<and> x1 = x2" if "q = Done o1" for o1
        using that q l Inr b Some assms by (simp add: tick_def)
      with that(4) Some b l Inr q show ?thesis by blast
    qed
  qed
qed

lemma claimed:
  assumes "claim_next_pending locked db = Some d"
  shows "d \<in> set (kn_documents db)" "doc_status d = D_UPLOADED" "doc_id d \<notin> set locked"
proof -
  let ?ds = "filter (\<lambda>d. doc_status d = D_UPLOADED \<and> doc_id d \<notin> set locked) (kn_documents db)"
  obtain ds where "sort_key doc_created ?ds = d # ds"
    using assms by (auto simp: claim_next_pending_def split: list.splits)
  then have "d \<in> set (sort_key doc_created ?ds)" by (simp only: list.set_intros(1))
  then show "d \<in> set (kn_documents db)" "doc_status d = D_UPLOADED" "doc_id d \<notin> set locked" by simp_all
qed

lemma mark_failed_settled:
  assumes "documents_ok db" "d \<in> set (kn_documents db)"
  shows "settled d db (mark_failed (doc_id d) e db)"
proof -
  let ?d1 = "d\<lparr>doc_status := D_FAILED, doc_error := Some (take 2000 e)\<rparr>"
  have "kn_documents (mark_failed (doc_id d) e db) = kn_documents (put_document ?d1 db)"
    using assms same_document [OF _ _ assms(2)]
    by (auto simp: mark_failed_def put_document_def update_rows_def documents_ok_def)
  then show ?thesis unfolding settled_def
    by (intro exI [of _ ?d1]) (simp add: is_terminal_def terminal_document_states_def mark_failed_def)
qed

lemma load_fewer: "quiet view env \<Longrightarrow> load_content env d x = (r, x1) \<Longrightarrow> fewer view x1 x"
  using keeps_fewer_result [OF quiet_calls(4)]
  by (auto simp: load_content_def call_raise_def split: option.splits list.splits)

text \<open>A pass either finds nothing to do or settles the document it claims.\<close>

lemma tick_ingested:
  assumes "quiet view env" "bases_ok db \<and> documents_ok db" "tick env locked db x = ((r, db1), x1)"
    "claim_next_pending locked db = Some d"
  obtains b where "r = Done True" "ingested view b d db x db1 x1" "b \<in> set (kn_bases db)" "kb_id b = doc_base d"
proof -
  have d: "d \<in> set (kn_documents db)" using claimed(1) [OF assms(4)] .
  from documents_okD(2) [OF conjunct2 [OF assms(2)] d]
  have "base_with (doc_base d) db \<noteq> None" by (auto simp: base_with_def find_row_def find_None_iff)
  then obtain b where b: "base_with (doc_base d) db = Some b" by blast
  then have inb: "b \<in> set (kn_bases db)" and id: "kb_id b = doc_base d"
    by (auto simp: base_with_def dest: find_row_Some)
  have pos: "0 < kb_chunk_size b" using conjunct1 [OF assms(2)] inb by (simp add: bases_ok_def)
  from assms(3) show ?thesis
  proof (cases rule: tick_cases)
    case (3 d0 b0 e)
    with assms(4) have "d0 = d" by simp
    with mark_failed_settled [OF conjunct2 [OF assms(2)] d, of e] load_fewer [OF assms(1)] 3
    have ing: "ingested view b d db x db1 x1" by (auto simp: ingested_def mark_failed_def)
    show ?thesis by (rule that [OF 3(4) ing inb id])
  next
    case (4 d0 b0 content x0 q db0 x2)
    with assms(4) b have eq: "d0 = d" "b0 = b" by simp_all
    from ingest_ingested [OF assms(1) pos] 4(4) eq obtain o1 where o1: "q = Done o1"
      and "ingested view b d db x0 db0 x2" by blast
    then have "ingested view b d db x db1 x1"
      using 4(5) [OF o1] ingested_fewer [OF _ load_fewer [OF assms(1) 4(3)]] by simp
    with 4(5) [OF o1] show ?thesis using that [OF _ _ inb id] by simp
  qed (use assms(4) b in simp_all)
qed

lemma tick_ok:
  assumes "quiet view env" "corpus_ok view db x" "tick env locked db x = ((r, db1), x1)" "kn_next db1 \<le> 16 ^ 32"
  shows "corpus_ok view db1 x1 \<and> kn_next db \<le> kn_next db1 \<and> apart view x1 x"
proof (cases "claim_next_pending locked db")
  case None
  with assms(2,3) show ?thesis by (simp add: tick_def fewer_apart)
next
  case (Some d)
  have "bases_ok db \<and> documents_ok db" using assms(2) by (simp add: corpus_ok_def)
  from assms(1) this assms(3) Some obtain b where b: "ingested view b d db x db1 x1" "b \<in> set (kn_bases db)" "kb_id b = doc_base d"
    by (rule tick_ingested)
  from ingested_ok [OF assms(2) b(1) claimed(1) [OF Some] b(3,2) assms(4)] show ?thesis .
qed

lemma delete_document_ok:
  assumes "quiet view env" "corpus_ok view db x" "delete_document env i who db x = ((r, db1), x1)"
  shows "corpus_ok view db1 x1 \<and> kn_next db1 = kn_next db \<and> apart view x1 x"
proof (cases "get_document i db")
  case (Inl e)
  with assms show ?thesis by (simp add: fewer_apart delete_document_def)
next
  case (Inr d)
  have del: "fewer view (snd (store_delete (kv_vectors env) c ids [] y)) y" for c ids y
    by (rule keeps_fewer [OF store_keeps(4) [OF quiet_calls(1) [OF assms(1)]]])
  have rem: "fewer view (snd (kv_remove env k y)) y" for k y
    by (rule keeps_fewer [OF quiet_calls(5) [OF assms(1)]])
  have x1: "fewer view x1 x" using assms(3) Inr
    by (auto simp: delete_document_def Let_def split: option.splits list.splits if_splits
      intro: del rem fewer_trans [OF rem del])
  have db1: "kn_bases db1 = kn_bases db" "kn_documents db1 = filter (\<lambda>r. doc_id r \<noteq> i) (kn_documents db)"
      "kn_chunks db1 = filter (\<lambda>k. dk_document k \<noteq> i) (kn_chunks db)" "kn_next db1 = kn_next db"
    using assms(3) Inr by (auto simp: delete_document_def delete_chunks_def Let_def)
  have "points_ok view db1 x1" by (rule points_subset [OF assms(2) x1]) (auto simp: db1)
  moreover have "bases_ok db1" using corpus_okD(1) [OF assms(2)] by (simp add: bases_ok_def db1)
  moreover have "documents_ok db1" using corpus_okD(2) [OF assms(2)]
    by (auto simp: documents_ok_def db1 distinct_map_filter)
  moreover have "chunks_ok db1" using corpus_okD(3) [OF assms(2)] by (fastforce simp: chunks_ok_def db1)
  ultimately show ?thesis using db1 fewer_apart [OF x1] by (simp add: corpus_ok_def)
qed

section \<open>Draining the queue\<close>

definition pending :: "knowledge_db \<Rightarrow> document list" where
  "pending db = filter (\<lambda>d. doc_status d = D_UPLOADED) (kn_documents db)"

lemma unlocked_claim: "claim_next_pending [] db = None \<longleftrightarrow> pending db = []"
proof -
  have "sort_key doc_created (pending db) = [] \<longleftrightarrow> pending db = []"
    by (metis length_0_conv length_sort)
  moreover have "claim_next_pending [] db = (case sort_key doc_created (pending db) of [] \<Rightarrow> None | d # _ \<Rightarrow> Some d)"
    by (simp add: claim_next_pending_def pending_def)
  ultimately show ?thesis by (cases "sort_key doc_created (pending db)") auto
qed

lemma put_fewer_pending:
  assumes "d \<in> set ds" "doc_status d = D_UPLOADED" "is_terminal d1" "doc_id d1 = doc_id d"
  shows "length (filter (\<lambda>d. doc_status d = D_UPLOADED) (update_rows (\<lambda>r. doc_id r = doc_id d1) (\<lambda>_. d1) ds))
    < length (filter (\<lambda>d. doc_status d = D_UPLOADED) ds)"
proof -
  have no: "doc_status d1 \<noteq> D_UPLOADED" using assms(3) by (auto simp: is_terminal_def terminal_document_states_def)
  have le: "length (filter (\<lambda>d. doc_status d = D_UPLOADED) (update_rows (\<lambda>r. doc_id r = doc_id d1) (\<lambda>_. d1) es))
    \<le> length (filter (\<lambda>d. doc_status d = D_UPLOADED) es)" for es
    by (induction es) (simp_all add: no update_rows_def)
  show ?thesis using assms(1)
  proof (induction ds)
    case (Cons e ds)
    show ?case
    proof (cases "e = d")
      case True
      with assms(2,4) no le [of ds] show ?thesis by (simp add: update_rows_def)
    next
      case False
      with Cons show ?thesis by (auto simp: update_rows_def no)
    qed
  qed simp
qed

lemma tick_progress:
  assumes "quiet view env" "bases_ok db" "documents_ok db" "tick env [] db x = ((r, db1), x1)"
  shows "(r = Done True \<or> r = Done False) \<and> bases_ok db1 \<and> documents_ok db1
    \<and> map doc_id (kn_documents db1) = map doc_id (kn_documents db)
    \<and> (pending db = [] \<longrightarrow> r = Done False \<and> db1 = db)
    \<and> (pending db \<noteq> [] \<longrightarrow> r = Done True \<and> length (pending db1) < length (pending db))
    \<and> (\<forall>d \<in> set (kn_documents db). is_terminal d \<longrightarrow> d \<in> set (kn_documents db1))"
proof (cases "claim_next_pending [] db")
  case None
  with assms(2-4) unlocked_claim [of db] show ?thesis by (auto simp: tick_def)
next
  case (Some d)
  have d: "d \<in> set (kn_documents db)" "doc_status d = D_UPLOADED" using claimed [OF Some] by blast+
  have "bases_ok db \<and> documents_ok db" using assms(2,3) by blast
  from assms(1) this assms(4) Some obtain b where r: "r = Done True" and ing: "ingested view b d db x db1 x1"
    by (rule tick_ingested)
  have st: "settled d db db1" and le: "kn_next db \<le> kn_next db1"
    using ing by (auto simp: ingested_def rows_added_def)
  from st obtain d1 where d1: "doc_id d1 = doc_id d" "is_terminal d1"
      "kn_documents db1 = kn_documents (put_document d1 db)" by (auto simp: settled_def)
  have "bases_ok db1" using assms(2) le settled_documents(2) [OF st] unfolding bases_ok_def by (metis less_le_trans)
  moreover have "documents_ok db1" using settled_documents_ok [OF assms(3) st d(1) le] .
  moreover have "length (pending db1) < length (pending db)"
    using put_fewer_pending [OF d d1(2,1)] by (simp add: pending_def d1(3) put_document_def)
  moreover have "e \<in> set (kn_documents db1)" if e: "e \<in> set (kn_documents db)" "is_terminal e" for e
  proof -
    have "doc_id e \<noteq> doc_id d"
      using same_document [OF _ e(1) d(1)] assms(3) e(2) d(2)
      by (auto simp: documents_ok_def is_terminal_def terminal_document_states_def)
    with e(1) d1(1) show ?thesis by (auto simp: d1(3) put_document_def update_rows_def intro: image_eqI [of _ _ e])
  qed
  moreover have "pending db \<noteq> []" using unlocked_claim [of db] Some by auto
  ultimately show ?thesis using r settled_documents(1) [OF st] by blast
qed

lemma ticks_drain:
  assumes "\<forall>env \<in> set envs. quiet view env" "bases_ok db" "documents_ok db" "length (pending db) \<le> length envs"
    "ticks envs db x = (rs, db1, x1)"
  shows "set rs \<subseteq> {Done True, Done False} \<and> pending db1 = [] \<and> documents_ok db1
    \<and> map doc_id (kn_documents db1) = map doc_id (kn_documents db)
    \<and> (\<forall>d \<in> set (kn_documents db). is_terminal d \<longrightarrow> d \<in> set (kn_documents db1))"
  using assms
proof (induction envs arbitrary: db x rs)
  case (Cons env envs)
  obtain r db0 x0 where t: "tick env [] db x = ((r, db0), x0)" by (metis surj_pair)
  obtain rs1 where ts: "ticks envs db0 x0 = (rs1, db1, x1)" "rs = r # rs1"
    using Cons.prems(5) t by (auto split: prod.splits)
  have q: "quiet view env" "\<forall>env \<in> set envs. quiet view env" using Cons.prems(1) by simp_all
  note p = tick_progress [OF q(1) Cons.prems(2,3) t]
  then have "length (pending db0) \<le> length envs"
    using Cons.prems(4) by (cases "pending db = []") auto
  with Cons.IH [OF q(2) _ _ _ ts(1)] p have ih: "set rs1 \<subseteq> {Done True, Done False}" "pending db1 = []" "documents_ok db1"
      "map doc_id (kn_documents db1) = map doc_id (kn_documents db0)"
      "\<forall>d \<in> set (kn_documents db0). is_terminal d \<longrightarrow> d \<in> set (kn_documents db1)" by blast+
  with p ts(2) show ?case by auto
qed simp

end
