(* ===== verification/Memory_Properties.thy ===== *)
theory Memory_Properties
  imports Memory Knowledge_Invariant
begin

text \<open>
  Whose memories are recalled.  The invariant ties each stored vector to the scope of the row it
  indexes; every operation of \<open>Memory\<close> keeps it, and a recall then answers rows of its scope only.
\<close>

section \<open>The invariant\<close>

definition quiet_memory :: "'x points_view \<Rightarrow> 'x memory_env \<Rightarrow> bool" where
  "quiet_memory view env =
     (honest view (my_vectors env) \<and> (\<forall>ts. keeps_points view (my_embed env ts))
      \<and> (\<forall>k t v. keeps_points view (my_setex env k t v)) \<and> (\<forall>k. keeps_points view (my_get env k))
      \<and> (\<forall>pat. keeps_points view (my_scan env pat)) \<and> (\<forall>k. keeps_points view (my_remove env k))
      \<and> (\<forall>a b m. keeps_points view (my_chat env a b m)))"

lemma quiet_memory_calls:
  assumes "quiet_memory view env"
  shows "honest view (my_vectors env)" "keeps_points view (my_embed env ts)"
    "keeps_points view (my_setex env k t v)" "keeps_points view (my_get env k)"
    "keeps_points view (my_scan env pat)" "keeps_points view (my_remove env k)"
    "keeps_points view (my_chat env a b m)"
  using assms by (simp_all add: quiet_memory_def)

text \<open>Identifiers are of 128 bits.\<close>

definition scope_ok :: "memory_scope \<Rightarrow> bool" where
  "scope_ok s = (list_all (\<lambda>i. case i of None \<Rightarrow> True | Some n \<Rightarrow> n < 16 ^ 32) [ms_user s, ms_agent s])"

definition scope_of :: "memory_entry \<Rightarrow> memory_scope" where
  "scope_of e = \<lparr>ms_tenant = mem_tenant e, ms_user = mem_user e, ms_end = mem_end e, ms_agent = mem_agent e\<rparr>"

definition entry_agrees :: "memory_entry \<Rightarrow> (string \<times> json) list \<Rightarrow> bool" where
  "entry_agrees e p = list_all (\<lambda>(key, v). json_get p key = Some v) (vector_filters (scope_of e))"

definition entry_ok :: "nat \<Rightarrow> memory_entry \<Rightarrow> bool" where
  "entry_ok bound e = (mem_id e < bound \<and> scope_ok (scope_of e) \<and> \<not> is_anonymous (scope_of e)
     \<and> (\<forall>v. mem_vector e = Some v \<longrightarrow> (\<exists>n < bound. v = uuid_str n)))"

definition entries_ok :: "memory_db \<Rightarrow> bool" where
  "entries_ok db = (distinct (map mem_id (mm_entries db)) \<and> (\<forall>e \<in> set (mm_entries db). entry_ok (mm_next db) e))"

definition memory_points_ok :: "'x points_view \<Rightarrow> memory_db \<Rightarrow> 'x \<Rightarrow> bool" where
  "memory_points_ok view db x = (\<forall>v p. (v, p) \<in> view x memory_collection \<longrightarrow>
     (\<exists>n < mm_next db. v = uuid_str n)
     \<and> (\<forall>e \<in> set (mm_entries db). mem_vector e = Some v \<longrightarrow> entry_agrees e p))"

definition memories_ok :: "'x points_view \<Rightarrow> memory_db \<Rightarrow> 'x \<Rightarrow> bool" where
  "memories_ok view db x = (entries_ok db \<and> memory_points_ok view db x)"

lemma entries_okD:
  assumes "entries_ok db" "e \<in> set (mm_entries db)"
  shows "mem_id e < mm_next db" "scope_ok (scope_of e)" "\<not> is_anonymous (scope_of e)"
    "mem_vector e = Some v \<Longrightarrow> \<exists>n < mm_next db. v = uuid_str n"
  using assms unfolding entries_ok_def entry_ok_def by blast+

lemma entry_ok_mono: "entry_ok n e \<Longrightarrow> n \<le> m \<Longrightarrow> entry_ok m e"
  unfolding entry_ok_def by (meson less_le_trans)

lemma memory_pointsD:
  assumes "memory_points_ok view db x" "(v, p) \<in> view x memory_collection"
  shows "\<exists>n < mm_next db. v = uuid_str n"
    "e \<in> set (mm_entries db) \<Longrightarrow> mem_vector e = Some v \<Longrightarrow> entry_agrees e p"
  using assms unfolding memory_points_ok_def by blast+

lemma memories_subset:
  assumes "memories_ok view db x" "fewer view x1 x" "set (mm_entries db1) \<subseteq> set (mm_entries db)"
    "distinct (map mem_id (mm_entries db1))" "mm_next db1 = mm_next db"
  shows "memories_ok view db1 x1"
proof -
  have "entries_ok db1" using assms(1,3-5) unfolding memories_ok_def entries_ok_def by (auto dest: subsetD)
  moreover have "memory_points_ok view db1 x1"
    using assms(1-3,5) unfolding memories_ok_def memory_points_ok_def fewer_def by (metis subsetD)
  ultimately show ?thesis by (simp add: memories_ok_def)
qed

section \<open>Operations\<close>

text \<open>Points are added to the collection of memories only.\<close>

definition only_memory :: "'x points_view \<Rightarrow> 'x \<Rightarrow> 'x \<Rightarrow> bool" where
  "only_memory view x1 x = (\<forall>c. c \<noteq> memory_collection \<longrightarrow> view x1 c \<subseteq> view x c)"

lemma entry_payload_agrees:
  assumes "scope_of e = s"
  shows "entry_agrees e (entry_payload s kind txt)"
  by (simp add: entry_agrees_def assms vector_filters_def entry_payload_def json_get_def)


lemma index_entry_points:
  assumes "quiet_memory view env" "mem_vector e = Some (uuid_str n)" "scope_of e = s"
  shows "view (snd (index_entry env s e x)) c \<subseteq> view x c \<union> (if c = memory_collection
    then {(v, p). v = uuid_str n \<and> entry_agrees e p} else {})"
proof -
  let ?new = "if c = memory_collection then {(v, p). v = uuid_str n \<and> entry_agrees e p} else {}"
  obtain q y where q: "my_embed env [mem_text e] x = (q, y)" by fastforce
  have y: "view y c \<subseteq> view x c"
    using keeps_fewer_result [OF quiet_memory_calls(2) [OF assms(1)] q] by (simp add: fewer_def)
  show ?thesis
  proof (cases "\<exists>v vs. q = Inr (v # vs)")
    case False
    with q have "snd (index_entry env s e x) = y"
      by (auto simp: index_entry_def call_bind_def call_raise_def split: sum.splits list.splits)
    with y show ?thesis by blast
  next
    case True
    then obtain v vs where v: "q = Inr (v # vs)" by blast
    let ?spec = "\<lparr>cs_name = memory_collection, cs_size = length v, cs_distance = COSINE\<rparr>"
    let ?r = "\<lparr>vr_id = uuid_str n, vr_vector = v, vr_payload = entry_payload s (mem_kind e) (mem_text e)\<rparr>"
    obtain r z where z: "ensure_collection (my_vectors env) ?spec y = (r, z)" by fastforce
    have zy: "view z c \<subseteq> view y c"
      using keeps_fewer_result [OF store_keeps(1) [OF quiet_memory_calls(1) [OF assms(1)]] z] by (simp add: fewer_def)
    have "record_points [?r] \<subseteq> {(v, p). v = uuid_str n \<and> entry_agrees e p}"
      using entry_payload_agrees [OF assms(3)] by (simp add: record_points_def)
    then have up: "view (snd (store_upsert (my_vectors env) memory_collection [?r] z)) c \<subseteq> view z c \<union> ?new"
      using store_upsert_points [OF quiet_memory_calls(1) [OF assms(1)], of memory_collection "[?r]" z c]
      by (auto split: if_splits)
    from q v z assms(2) have "snd (index_entry env s e x) = z
        \<or> snd (index_entry env s e x) = snd (store_upsert (my_vectors env) memory_collection [?r] z)"
      by (cases r) (simp_all add: index_entry_def call_bind_def)
    then show ?thesis
    proof
      assume eq: "snd (index_entry env s e x) = z"
      show ?thesis using zy y unfolding eq by blast
    next
      assume eq: "snd (index_entry env s e x) = snd (store_upsert (my_vectors env) memory_collection [?r] z)"
      show ?thesis using up zy y unfolding eq by blast
    qed
  qed
qed

lemma remember_ok:
  assumes "quiet_memory view env" "memories_ok view db x" "scope_ok s" "mm_next db1 \<le> 16 ^ 32"
    "remember env s txt kind imp conv ex db x = ((r, db1), x1)"
  shows "memories_ok view db1 x1 \<and> mm_next db \<le> mm_next db1 \<and> only_memory view x1 x"
proof (cases "strip txt = [] \<or> is_anonymous s")
  case True
  with assms(2,5) show ?thesis by (auto simp: remember_def only_memory_def split: if_splits)
next
  case False
  define e where "e = \<lparr>mem_id = mm_next db, mem_tenant = ms_tenant s, mem_user = ms_user s, mem_end = ms_end s,
                     mem_agent = ms_agent s, mem_text = strip txt, mem_kind = kind, mem_conversation = conv,
                     mem_vector = Some (uuid_str (mm_next db + 1)), mem_importance = imp,
                     mem_created = my_now env, mem_expires = ex\<rparr>"
  have e: "mem_vector e = Some (uuid_str (mm_next db + 1))" "scope_of e = s" "mem_id e = mm_next db"
    by (simp_all add: e_def scope_of_def)
  obtain q y where q: "index_entry env s e x = (q, y)" by fastforce
  let ?e1 = "case q of Inl _ \<Rightarrow> e\<lparr>mem_vector := None\<rparr> | Inr _ \<Rightarrow> e"
  from False q assms(5) have out: "mm_entries db1 = mm_entries db @ [?e1]" "mm_next db1 = mm_next db + 2" "x1 = y"
    by (auto simp: remember_def Let_def e_def split: sum.splits)
  have e1: "mem_id ?e1 = mm_next db" "scope_of ?e1 = s" "entry_agrees ?e1 = entry_agrees e"
      "mem_vector ?e1 = Some v \<Longrightarrow> v = uuid_str (mm_next db + 1)" for v
    using e by (auto simp: scope_of_def entry_agrees_def fun_eq_iff split: sum.splits)
  have ent: "entries_ok db" and pts: "memory_points_ok view db x" using assms(2) by (simp_all add: memories_ok_def)
  have "entries_ok db1" unfolding entries_ok_def
  proof (intro conjI ballI)
    show "distinct (map mem_id (mm_entries db1))"
      using ent e1(1) entries_okD(1) [OF ent] unfolding out entries_ok_def by force
    fix e0 assume "e0 \<in> set (mm_entries db1)"
    then consider "e0 \<in> set (mm_entries db)" | "e0 = ?e1" by (auto simp: out)
    then show "entry_ok (mm_next db1) e0"
    proof cases
      case 1
      with ent have "entry_ok (mm_next db) e0" by (simp add: entries_ok_def)
      then show ?thesis by (rule entry_ok_mono) (simp add: out)
    next
      case 2
      have "\<exists>n < mm_next db1. v = uuid_str n" if "mem_vector ?e1 = Some v" for v
        using e1(4) [OF that] out(2) by (intro exI [of _ "mm_next db + 1"]) simp
      moreover have "mem_id ?e1 < mm_next db1" using e1(1) out(2) by simp
      ultimately show ?thesis using e1(2) False assms(3) unfolding 2 entry_ok_def by blast
    qed
  qed
  moreover have "memory_points_ok view db1 x1"
    unfolding memory_points_ok_def
  proof (intro allI impI)
    fix v p assume "(v, p) \<in> view x1 memory_collection"
    with index_entry_points [OF assms(1) e(1,2), of x memory_collection] q out(3)
    consider "(v, p) \<in> view x memory_collection" | "v = uuid_str (mm_next db + 1)" "entry_agrees e p"
      by auto
    then show "(\<exists>n < mm_next db1. v = uuid_str n)
        \<and> (\<forall>e0 \<in> set (mm_entries db1). mem_vector e0 = Some v \<longrightarrow> entry_agrees e0 p)"
    proof cases
      case 1
      from memory_pointsD(1) [OF pts 1] obtain n where n: "n < mm_next db" "v = uuid_str n" by blast
      have "uuid_str n \<noteq> uuid_str (mm_next db + 1)"
        using uuid_str_inj [of n "mm_next db + 1"] n(1) assms(4) out(2) by linarith
      with e1(4) n(2) have "mem_vector ?e1 \<noteq> Some v" by metis
      with memory_pointsD(2) [OF pts 1]
      have "\<forall>e0 \<in> set (mm_entries db1). mem_vector e0 = Some v \<longrightarrow> entry_agrees e0 p" unfolding out by auto
      moreover have "\<exists>n < mm_next db1. v = uuid_str n" using n out(2) by (intro exI [of _ n]) simp
      ultimately show ?thesis by blast
    next
      case 2
      have "mem_vector e0 \<noteq> Some v" if "e0 \<in> set (mm_entries db)" for e0
      proof
        assume "mem_vector e0 = Some v"
        with entries_okD(4) [OF ent that] 2(1) obtain n where "n < mm_next db" "uuid_str n = uuid_str (mm_next db + 1)"
          by metis
        with uuid_str_inj [of n "mm_next db + 1"] assms(4) out(2) show False by linarith
      qed
      with 2 e1(3) have "\<forall>e0 \<in> set (mm_entries db1). mem_vector e0 = Some v \<longrightarrow> entry_agrees e0 p"
        unfolding out by auto
      moreover have "\<exists>n < mm_next db1. v = uuid_str n" using 2(1) out(2) by (intro exI [of _ "mm_next db + 1"]) simp
      ultimately show ?thesis by blast
    qed
  qed
  moreover have "only_memory view x1 x" unfolding only_memory_def
  proof (intro allI impI)
    fix c assume "c \<noteq> memory_collection"
    with index_entry_points [OF assms(1) e(1,2), of x c] q out(3) show "view x1 c \<subseteq> view x c" by simp
  qed
  ultimately show ?thesis by (simp add: memories_ok_def out(2))
qed

lemma memory_delete_fewer:
  assumes "quiet_memory view env"
  shows "fewer view (snd (store_delete (my_vectors env) c ids [] x)) x"
  by (rule keeps_fewer [OF store_keeps(4) [OF quiet_memory_calls(1) [OF assms]]])

lemma forget_ok:
  assumes "quiet_memory view env" "memories_ok view db x" "forget env s i db x = ((r, db1), x1)"
  shows "memories_ok view db1 x1 \<and> mm_next db1 = mm_next db \<and> fewer view x1 x"
proof -
  have x1: "fewer view x1 x" using assms(3) memory_delete_fewer [OF assms(1)]
    by (auto simp: forget_def split: option.splits if_splits)
  have db1: "set (mm_entries db1) \<subseteq> set (mm_entries db)" "mm_next db1 = mm_next db"
      "distinct (map mem_id (mm_entries db1))"
    using assms(2,3) by (auto simp: forget_def delete_entry_def memories_ok_def entries_ok_def distinct_map_filter
        split: option.splits if_splits)
  with memories_subset [OF assms(2) x1] x1 show ?thesis by simp
qed

lemma remove_keys_keeps:
  assumes "quiet_memory view env" shows "keeps_points view (remove_keys env keys)"
  using quiet_memory_calls(6) [OF assms] by (induction keys) (auto intro!: keeps_points_bind)

lemma clear_session_keeps:
  assumes "quiet_memory view env" shows "keeps_points view (clear_session env s)"
  unfolding clear_session_def
  by (intro keeps_points_bind remove_keys_keeps [OF assms] quiet_memory_calls(5) [OF assms])

lemma delete_entries:
  "foldl (\<lambda>d e. delete_entry (mem_id e) d) db es
     = db\<lparr>mm_entries := filter (\<lambda>e. mem_id e \<notin> mem_id ` set es) (mm_entries db)\<rparr>"
  by (induction es arbitrary: db) (auto simp: delete_entry_def intro: filter_cong)

lemma forget_all_fewer:
  assumes "quiet_memory view env" "forget_all env s db x = ((r, db1), x1)"
  shows "fewer view x1 x"
proof -
  have clear: "fewer view y1 x" if "clear_session env s y = (q, y1)" "fewer view y x" for y q y1
    using keeps_fewer_result [OF clear_session_keeps [OF assms(1)] that(1)] that(2) by (rule fewer_trans)
  from assms(2) show ?thesis
    by (auto simp: forget_all_def Let_def split: if_splits sum.splits prod.splits
      intro: clear memory_delete_fewer [OF assms(1)])
qed

lemma forget_all_result:
  assumes "\<not> is_anonymous s" "forget_all env s db x = ((r, db1), x1)"
  shows "(\<exists>e. r = Raised e) \<and> db1 = db \<or> r = Done (Inr (length (list_scoped s 10000 db)))
    \<and> db1 = db\<lparr>mm_entries := filter (\<lambda>e. mem_id e \<notin> mem_id ` set (list_scoped s 10000 db)) (mm_entries db)\<rparr>"
proof -
  let ?ids = "filter (\<lambda>v. v \<noteq> []) (map vector_of_entry (list_scoped s 10000 db))"
  obtain q y where q: "clear_session env s
      (if ?ids = [] then x else snd (store_delete (my_vectors env) memory_collection ?ids [] x)) = (q, y)" by fastforce
  have "((r, db1), x1) = (case q of Inl e \<Rightarrow> ((Raised e, db), y)
    | Inr _ \<Rightarrow> ((Done (Inr (length (list_scoped s 10000 db))),
        foldl (\<lambda>d e. delete_entry (mem_id e) d) db (list_scoped s 10000 db)), y))"
    using assms(2) by (simp only: forget_all_def Let_def assms(1) if_False q split_conv)
  then show ?thesis unfolding delete_entries by (cases q) simp_all
qed

lemma forget_all_ok:
  assumes "quiet_memory view env" "memories_ok view db x" "forget_all env s db x = ((r, db1), x1)"
  shows "memories_ok view db1 x1 \<and> mm_next db1 = mm_next db \<and> fewer view x1 x"
proof -
  let ?gone = "\<lambda>es :: memory_entry list. db\<lparr>mm_entries := filter (\<lambda>e. mem_id e \<notin> mem_id ` set es) (mm_entries db)\<rparr>"
  have "db1 = db \<or> (\<exists>es. db1 = ?gone es)"
  proof (cases "is_anonymous s")
    case True
    with assms(3) show ?thesis by (simp add: forget_all_def)
  next
    case False
    from forget_all_result [OF this assms(3)] show ?thesis
    proof
      assume "r = Done (Inr (length (list_scoped s 10000 db))) \<and> db1 = ?gone (list_scoped s 10000 db)"
      then have "db1 = ?gone (list_scoped s 10000 db)" by (rule conjunct2)
      then show ?thesis by (intro disjI2 exI)
    qed simp
  qed
  then have db1: "set (mm_entries db1) \<subseteq> set (mm_entries db)" "mm_next db1 = mm_next db"
      "distinct (map mem_id (mm_entries db1))"
    using assms(2) by (auto simp: memories_ok_def entries_ok_def distinct_map_filter)
  show ?thesis
    using memories_subset [OF assms(2) forget_all_fewer [OF assms(1,3)] db1(1,3,2)] db1(2)
      forget_all_fewer [OF assms(1,3)] by blast
qed

section \<open>Recall\<close>

lemma agrees_in_scope:
  assumes "entry_agrees e p" "scope_ok s" "scope_ok (scope_of e)"
    "\<And>key t. (key, JStr t) \<in> set (vector_filters s) \<Longrightarrow> json_get p key = Some (JStr t)"
  shows "in_scope s e"
proof -
  have got: "json_get p ''tenant_id'' = Some (JStr (mem_tenant e))" "json_get p ''user_id'' = Some (uuid_json (mem_user e))"
    "json_get p ''end_user'' = Some (str_json (mem_end e))" "json_get p ''agent_id'' = Some (uuid_json (mem_agent e))"
    using assms(1) by (simp_all add: entry_agrees_def vector_filters_def scope_of_def)
  have same: "v = Some i" if "uuid_json v = JStr (uuid_str i)" "i < 16 ^ 32"
    "case v of None \<Rightarrow> True | Some n \<Rightarrow> n < 16 ^ 32" for v i
    using that uuid_str_inj [of _ i] by (cases v) (auto simp: uuid_json_def)
  have "mem_tenant e = ms_tenant s"
    using got(1) assms(4) [of "''tenant_id''" "ms_tenant s"] by (simp add: vector_filters_def)
  moreover have "dim (ms_user s) (mem_user e)"
    using got(2) assms(4) [of "''user_id''"] assms(2,3) same [of "mem_user e"]
    by (cases "ms_user s") (auto simp: dim_def vector_filters_def uuid_json_def scope_ok_def scope_of_def)
  moreover have "dim (ms_agent s) (mem_agent e)"
    using got(4) assms(4) [of "''agent_id''"] assms(2,3) same [of "mem_agent e"]
    by (cases "ms_agent s") (auto simp: dim_def vector_filters_def uuid_json_def scope_ok_def scope_of_def)
  moreover have "dim (ms_end s) (mem_end e)"
    using got(3) assms(4) [of "''end_user''"]
    by (cases "ms_end s") (auto simp: dim_def vector_filters_def str_json_def split: option.splits)
  ultimately show ?thesis by (simp add: in_scope_def)
qed

lemma entry_by_vector_in: "entry_by_vector v db = Some e \<Longrightarrow> e \<in> set (mm_entries db) \<and> mem_vector e = Some v"
  by (auto simp: entry_by_vector_def dest: find_row_Some split: if_splits)

lemma in_map_filter: "y \<in> set (List.map_filter f xs) \<Longrightarrow> \<exists>x \<in> set xs. f x = Some y"
  by (induction xs) (auto simp: List.map_filter_def split: if_splits)

lemma length_map_filter: "length (List.map_filter f xs) \<le> length xs"
  by (simp add: List.map_filter_def)

lemma recalled_row:
  assumes "recalled_of now db h = Some m"
  obtains e where "e \<in> set (mm_entries db)" "mem_vector e = Some (hit_id h)" "\<not> expired now e"
    "rm_memory m = mem_id e" "rm_text m = mem_text e" "rm_score m = hit_score h"
proof -
  from assms obtain e where e: "entry_by_vector (hit_id h) db = Some e" "\<not> expired now e"
      "rm_memory m = mem_id e" "rm_text m = mem_text e" "rm_score m = hit_score h"
    by (auto simp: recalled_of_def split: option.splits if_splits)
  with entry_by_vector_in [OF e(1)] that show ?thesis by blast
qed

lemma recall_hits:
  assumes "recall env s query n t db x = (Inr ms, x1)" "ms \<noteq> []"
  obtains v x0 hits where "store_search (my_vectors env) memory_collection v n (Some t) (vector_filters s) x0 = (Inr hits, x1)"
    "ms = List.map_filter (recalled_of (my_now env) db) hits"
    "\<exists>vs. my_embed env [strip query] x = (Inr (v # vs), x0)"
  using assms by (auto simp: recall_def split: if_splits prod.splits sum.splits list.splits)

lemma recall_row:
  assumes "recall env s query n t db x = (Inr ms, x1)" "m \<in> set ms"
  obtains e where "e \<in> set (mm_entries db)" "rm_memory m = mem_id e"
proof -
  from assms(2) have "ms \<noteq> []" by auto
  from assms(1) this obtain hits where "ms = List.map_filter (recalled_of (my_now env) db) hits"
    by (rule recall_hits)
  with assms(2) obtain h where "recalled_of (my_now env) db h = Some m" using in_map_filter by metis
  then show ?thesis by (rule recalled_row) (rule that)
qed

lemma recall_within:
  assumes "quiet_memory view env" "memories_ok view db x" "scope_ok s"
    "recall env s query n t db x = (Inr ms, x1)"
  shows "length ms \<le> n \<and> (\<forall>m \<in> set ms. \<exists>e \<in> set (mm_entries db). rm_memory m = mem_id e \<and> rm_text m = mem_text e
    \<and> in_scope s e \<and> \<not> expired (my_now env) e \<and> t \<le> rm_score m)"
proof (cases "ms = []")
  case False
  from assms(4) this obtain v x0 hits where srch: "store_search (my_vectors env) memory_collection v n (Some t) (vector_filters s) x0 = (Inr hits, x1)"
    and ms: "ms = List.map_filter (recalled_of (my_now env) db) hits"
    and emb: "\<exists>vs. my_embed env [strip query] x = (Inr (v # vs), x0)"
    by (rule recall_hits)
  have hon: "honest view (my_vectors env)" using quiet_memory_calls(1) [OF assms(1)] .
  have x0: "fewer view x0 x" using emb keeps_fewer_result [OF quiet_memory_calls(2) [OF assms(1)]] by blast
  have "length ms \<le> n"
    using length_map_filter [of _ hits] search_bounded [OF hon srch] unfolding ms by (rule order_trans)
  moreover have "\<exists>e \<in> set (mm_entries db). rm_memory m = mem_id e \<and> rm_text m = mem_text e
      \<and> in_scope s e \<and> \<not> expired (my_now env) e \<and> t \<le> rm_score m" if "m \<in> set ms" for m
  proof -
    from that obtain h where h: "h \<in> set hits" "recalled_of (my_now env) db h = Some m"
      unfolding ms using in_map_filter by metis
    from h(2) obtain e where e: "e \<in> set (mm_entries db)" "mem_vector e = Some (hit_id h)" "\<not> expired (my_now env) e"
        "rm_memory m = mem_id e" "rm_text m = mem_text e" "rm_score m = hit_score h" by (rule recalled_row)
    from hon srch h(1) obtain p where p: "(hit_id h, p) \<in> view x0 memory_collection"
        "\<And>key u. (key, JStr u) \<in> set (vector_filters s) \<Longrightarrow> json_get p key = Some (JStr u)"
        "\<And>u. Some t = Some u \<Longrightarrow> u \<le> hit_score h"
      by (rule search_filtered) (rule that; blast)
    from p(1) x0 have "(hit_id h, p) \<in> view x memory_collection" by (auto simp: fewer_def)
    with memory_pointsD(2) [of view db x] assms(2) e(1,2) have "entry_agrees e p" by (auto simp: memories_ok_def)
    moreover have "scope_ok (scope_of e)" using entries_okD(2) [OF _ e(1)] assms(2) by (simp add: memories_ok_def)
    ultimately have "in_scope s e" using agrees_in_scope assms(3) p(2) by blast
    with e p(3) show ?thesis by auto
  qed
  ultimately show ?thesis by blast
qed simp

lemma recall_fewer:
  assumes "quiet_memory view env" "recall env s query n t db x = (r, x1)"
  shows "fewer view x1 x"
proof -
  have emb: "fewer view y x" if "my_embed env [strip query] x = (q, y)" for q y
    using keeps_fewer_result [OF quiet_memory_calls(2) [OF assms(1)] that] .
  have srch: "fewer view z x" if "fewer view y x" "store_search (my_vectors env) c v n t1 fs y = (q, z)" for c v t1 fs y q z
    using keeps_fewer_result [OF store_keeps(3) [OF quiet_memory_calls(1) [OF assms(1)]] that(2)] that(1) by (rule fewer_trans)
  from assms(2) show ?thesis
    by (auto simp: recall_def split: if_splits prod.splits sum.splits list.splits intro: emb srch)
qed

end
