(* ===== verification/Retrieval_Properties.thy ===== *)
theory Retrieval_Properties
  imports Retrieval Memory_Properties Session_Properties
begin

text \<open>
  The corpus and the memories together: a step relation over the tables and the outside world,
  the invariants of \<open>Knowledge_Invariant\<close> and \<open>Memory_Properties\<close> in every state that is reached,
  and what a run is given out of such a state.
\<close>

section \<open>Steps\<close>

type_synonym 'x corpus = "knowledge_db \<times> memory_db \<times> 'x"

text \<open>Services may answer differently at each step: the environment is any one that keeps the
  contract.  \<open>outside\<close> is anything else that adds no points, a search for one.\<close>

inductive corpus_step :: "'x points_view \<Rightarrow> 'x corpus \<Rightarrow> 'x corpus \<Rightarrow> bool" for view where
  base_created: "quiet view env \<Longrightarrow> create_base env rq who k x = ((r, k1), x1) \<Longrightarrow> corpus_step view (k, m, x) (k1, m, x1)"
| base_deleted: "quiet view env \<Longrightarrow> delete_base env i who k x = ((r, k1), x1) \<Longrightarrow> corpus_step view (k, m, x) (k1, m, x1)"
| uploaded: "quiet view env \<Longrightarrow> accept_upload env i nm ct content who k x = ((r, k1), x1)
    \<Longrightarrow> corpus_step view (k, m, x) (k1, m, x1)"
| worker: "quiet view env \<Longrightarrow> tick env locked k x = ((r, k1), x1) \<Longrightarrow> corpus_step view (k, m, x) (k1, m, x1)"
| document_deleted: "quiet view env \<Longrightarrow> delete_document env i who k x = ((r, k1), x1)
    \<Longrightarrow> corpus_step view (k, m, x) (k1, m, x1)"
| remembered: "quiet_memory view menv \<Longrightarrow> scope_ok s \<Longrightarrow> remember menv s txt kind imp conv ex m x = ((r, m1), x1)
    \<Longrightarrow> corpus_step view (k, m, x) (k, m1, x1)"
| forgotten: "quiet_memory view menv \<Longrightarrow> forget menv s i m x = ((r, m1), x1) \<Longrightarrow> corpus_step view (k, m, x) (k, m1, x1)"
| erased: "quiet_memory view menv \<Longrightarrow> forget_all menv s m x = ((r, m1), x1) \<Longrightarrow> corpus_step view (k, m, x) (k, m1, x1)"
| lapsed: "delete_expired cutoff m = (n, m1) \<Longrightarrow> corpus_step view (k, m, x) (k, m1, x)"
| thread: "get_or_create_conversation s external title m = (c, m1) \<Longrightarrow> corpus_step view (k, m, x) (k, m1, x)"
| message: "append_message now c role content run m = (q, m1) \<Longrightarrow> corpus_step view (k, m, x) (k, m1, x)"
| outside: "fewer view x1 x \<Longrightarrow> corpus_step view (k, m, x) (k, m, x1)"

definition empty_knowledge :: knowledge_db where
  "empty_knowledge = \<lparr>kn_bases = [], kn_documents = [], kn_chunks = [], kn_models = [], kn_trail = [], kn_next = 0\<rparr>"

definition empty_memory :: memory_db where
  "empty_memory = \<lparr>mm_conversations = [], mm_messages = [], mm_entries = [], mm_next = 0\<rparr>"

text \<open>Identifiers have 128 bits: no state is reached once as many were drawn.\<close>

definition drawn_ok :: "'x corpus \<Rightarrow> bool" where
  "drawn_ok c = (kn_next (fst c) \<le> 16 ^ 32 \<and> mm_next (fst (snd c)) \<le> 16 ^ 32)"

inductive corpus_reach :: "'x points_view \<Rightarrow> 'x corpus \<Rightarrow> bool" for view where
  start: "view x = (\<lambda>_. {}) \<Longrightarrow> corpus_reach view (empty_knowledge, empty_memory, x)"
| step: "corpus_reach view c \<Longrightarrow> corpus_step view c c1 \<Longrightarrow> drawn_ok c1 \<Longrightarrow> corpus_reach view c1"

definition corpus_inv :: "'x points_view \<Rightarrow> 'x corpus \<Rightarrow> bool" where
  "corpus_inv view c = (corpus_ok view (fst c) (snd (snd c)) \<and> memories_ok view (fst (snd c)) (snd (snd c)))"

lemma collections_apart [simp]: "collection_name i \<noteq> memory_collection" "memory_collection \<noteq> collection_name i"
  by (simp_all add: collection_name_def memory_collection_def)

lemma memories_apart:
  assumes "memories_ok view m x" "apart view x1 x" shows "memories_ok view m x1"
proof -
  have "view x1 memory_collection \<subseteq> view x memory_collection" using assms(2) by (simp add: apart_def)
  with assms(1) show ?thesis unfolding memories_ok_def memory_points_ok_def by blast
qed

lemma corpus_only_memory:
  assumes "corpus_ok view k x" "only_memory view x1 x" shows "corpus_ok view k x1"
proof -
  have "view x1 (collection_name i) \<subseteq> view x (collection_name i)" for i
    using assms(2) by (simp add: only_memory_def)
  then have "points_ok view k x1" using corpus_okD(4) [OF assms(1)] unfolding points_ok_def by blast
  with assms(1) show ?thesis by (simp add: corpus_ok_def)
qed

lemma fewer_only_memory: "fewer view x1 x \<Longrightarrow> only_memory view x1 x"
  by (simp add: fewer_def only_memory_def)

lemma memories_same:
  assumes "memories_ok view m x" "mm_entries m1 = mm_entries m" "mm_next m \<le> mm_next m1"
  shows "memories_ok view m1 x"
proof -
  have "entries_ok m1" using assms entry_ok_mono unfolding memories_ok_def entries_ok_def by (metis (no_types))
  moreover have "memory_points_ok view m1 x"
    using assms unfolding memories_ok_def memory_points_ok_def by (metis less_le_trans)
  ultimately show ?thesis by (simp add: memories_ok_def)
qed

lemma corpus_step_inv:
  assumes "corpus_step view c c1" "corpus_inv view c" "drawn_ok c1"
  shows "corpus_inv view c1"
  using assms
proof (cases rule: corpus_step.cases)
  case (base_created env rq who k x r k1 x1 m)
  with create_base_ok [of view env k x rq who r k1 x1] memories_apart [of view m x x1] assms(2,3) show ?thesis
    by (auto simp: corpus_inv_def drawn_ok_def)
next
  case (base_deleted env i who k x r k1 x1 m)
  with delete_base_ok [of view env k x i who r k1 x1] memories_apart [of view m x x1] assms(2,3) show ?thesis
    by (auto simp: corpus_inv_def drawn_ok_def)
next
  case (uploaded env i nm ct content who k x r k1 x1 m)
  with accept_upload_ok [of view env k x i nm ct content who r k1 x1] memories_apart [of view m x x1] assms(2,3)
  show ?thesis by (auto simp: corpus_inv_def drawn_ok_def)
next
  case (worker env locked k x r k1 x1 m)
  with tick_ok [of view env k x locked r k1 x1] memories_apart [of view m x x1] assms(2,3) show ?thesis
    by (auto simp: corpus_inv_def drawn_ok_def)
next
  case (document_deleted env i who k x r k1 x1 m)
  with delete_document_ok [of view env k x i who r k1 x1] memories_apart [of view m x x1] assms(2,3) show ?thesis
    by (auto simp: corpus_inv_def drawn_ok_def)
next
  case (remembered menv s tx kind imp conv ex m x r m1 x1 k)
  with remember_ok [of view menv m x s m1 tx kind imp conv ex r x1] corpus_only_memory [of view k x x1] assms(2,3)
  show ?thesis by (auto simp: corpus_inv_def drawn_ok_def)
next
  case (forgotten menv s i m x r m1 x1 k)
  with forget_ok [of view menv m x s i r m1 x1] corpus_only_memory [of view k x x1] fewer_only_memory [of view x1 x] assms(2,3)
  show ?thesis by (auto simp: corpus_inv_def drawn_ok_def)
next
  case (erased menv s m x r m1 x1 k)
  with forget_all_ok [of view menv m x s r m1 x1] corpus_only_memory [of view k x x1] fewer_only_memory [of view x1 x] assms(2,3)
  show ?thesis by (auto simp: corpus_inv_def drawn_ok_def)
next
  case (lapsed cutoff m n m1 k x)
  then have m1: "mm_entries m1 = filter (\<lambda>e. \<not> expired cutoff e) (mm_entries m)" "mm_next m1 = mm_next m"
    by (auto simp: delete_expired_def)
  have ok: "memories_ok view m x" using lapsed(1) assms(2) by (simp add: corpus_inv_def)
  then have "distinct (map mem_id (mm_entries m1))"
    by (simp add: memories_ok_def entries_ok_def m1 distinct_map_filter)
  then have "memories_ok view m1 x" by (intro memories_subset [OF ok]) (auto simp: m1)
  with lapsed assms(2) show ?thesis by (simp add: corpus_inv_def)
next
  case (thread s ext title m c0 m1 k x)
  then have "mm_entries m1 = mm_entries m" "mm_next m \<le> mm_next m1"
    by (auto simp: get_or_create_conversation_def Let_def split: option.splits)
  with thread memories_same [of view m] assms(2,3) show ?thesis by (auto simp: corpus_inv_def drawn_ok_def)
next
  case (message nw c0 role ct run m q m1 k x)
  then have "mm_entries m1 = mm_entries m" "mm_next m1 = mm_next m"
    by (auto simp: append_message_def put_conversation_def Let_def)
  with message memories_same [of view m x m1] assms(2,3) show ?thesis
    by (auto simp: corpus_inv_def drawn_ok_def)
next
  case (outside x1 x k m)
  with corpus_ok_same [of view k x x1 k] memories_subset [of view m x x1 m] assms(2,3) show ?thesis
    by (auto simp: corpus_inv_def drawn_ok_def memories_ok_def entries_ok_def)
qed

lemma start_inv: "view x = (\<lambda>_. {}) \<Longrightarrow> corpus_inv view (empty_knowledge, empty_memory, x)"
  by (simp add: corpus_inv_def corpus_ok_def bases_ok_def documents_ok_def chunks_ok_def points_ok_def
    memories_ok_def entries_ok_def memory_points_ok_def empty_knowledge_def empty_memory_def)

lemma reach_inv:
  assumes "corpus_reach view c"
  shows "corpus_inv view c \<and> drawn_ok c"
  using assms
proof induction
  case (start x)
  then show ?case using start_inv by (simp add: drawn_ok_def empty_knowledge_def empty_memory_def)
next
  case (step c c1)
  then show ?case using corpus_step_inv by blast
qed

section \<open>Passages\<close>

text \<open>A passage that belongs to the tenant: its text is a chunk of a document of an enabled base of
  the tenant, one of the bases asked for.\<close>

definition passage_within :: "string \<Rightarrow> uuid list \<Rightarrow> knowledge_db \<Rightarrow> passage \<Rightarrow> bool" where
  "passage_within tenant ids k p = (\<exists>b \<in> set (kn_bases k). kb_tenant b = tenant \<and> kb_enabled b \<and> kb_id b \<in> set ids
     \<and> pa_base p = kb_name b
     \<and> (\<exists>d \<in> set (kn_documents k). doc_id d = pa_document p \<and> doc_base d = kb_id b \<and> pa_name p = doc_filename d
          \<and> (\<exists>c \<in> set (kn_chunks k). dk_document c = doc_id d \<and> dk_text c = pa_text p)))"

lemma passage_of_within:
  assumes "corpus_ok view k x" "kn_next k \<le> 16 ^ 32" "b \<in> set (kn_bases k)" "kb_enabled b"
    "passage_of b k h = Some p" "(hit_id h, payload) \<in> view x (kb_collection b)"
    "json_get payload ''knowledge_base_id'' = Some (JStr (uuid_str (kb_id b)))" "kb_id b \<in> set ids"
  shows "passage_within (kb_tenant b) ids k p"
proof -
  from assms(5) obtain c d where c: "chunk_by_vector (hit_id h) k = Some c" and d: "document_with (dk_document c) k = Some d"
      and p: "pa_text p = dk_text c" "pa_document p = dk_document c" "pa_name p = doc_filename d" "pa_base p = kb_name b"
    by (auto simp: passage_of_def split: option.splits)
  from c have c1: "c \<in> set (kn_chunks k)" "dk_vector c = Some (hit_id h)"
    by (auto simp: chunk_by_vector_def dest!: find_row_Some)
  from d have d1: "d \<in> set (kn_documents k)" "doc_id d = dk_document c"
    by (auto simp: document_with_def dest!: find_row_Some)
  have b: "kb_collection b = collection_name (kb_id b)" "kb_id b < kn_next k"
    using corpus_okD(1) [OF assms(1)] assms(3) by (auto simp: bases_ok_def)
  have "uuid_str (doc_base d) = uuid_str (kb_id b)"
    using points_okD(2) [OF corpus_okD(4) [OF assms(1)] assms(6) [unfolded b(1)] c1 d1] assms(7) by simp
  moreover have "doc_base d < kn_next k"
    using documents_okD(2) [OF corpus_okD(2) [OF assms(1)] d1(1)] corpus_okD(1) [OF assms(1)] by (auto simp: bases_ok_def)
  ultimately have "doc_base d = kb_id b" using uuid_str_inj b(2) assms(2) by (metis less_le_trans)
  with assms(3,4,8) p c1 d1 show ?thesis unfolding passage_within_def by (metis (no_types))
qed

lemma embed_fewer: "quiet view env \<Longrightarrow> kv_embed env ts m x = (r, x1) \<Longrightarrow> fewer view x1 x"
  by (rule keeps_fewer_result [OF quiet_calls(2)])

lemma search_fewer:
  "quiet view env \<Longrightarrow> store_search (kv_vectors env) c v n t fs x = (r, x1) \<Longrightarrow> fewer view x1 x"
  by (rule keeps_fewer_result [OF store_keeps(3) [OF quiet_calls(1)]])

lemma corpus_fewer: "corpus_ok view k x \<Longrightarrow> fewer view x1 x \<Longrightarrow> corpus_ok view k x1"
  by (rule corpus_ok_same) simp_all

lemma base_hits_within:
  assumes "quiet view env" "corpus_ok view k x" "kn_next k \<le> 16 ^ 32" "b \<in> set (kn_bases k)" "kb_enabled b"
    "kb_id b \<in> set ids" "store_search (kv_vectors env) (kb_collection b) v n t (base_filter b) x = (Inr hits, x1)"
    "p \<in> set (List.map_filter (passage_of b k) hits)"
  shows "passage_within (kb_tenant b) ids k p \<and> (\<forall>s. t = Some s \<longrightarrow> s \<le> pa_score p)"
proof -
  from in_map_filter [OF assms(8)] obtain h where h: "h \<in> set hits" "passage_of b k h = Some p" by blast
  from quiet_calls(1) [OF assms(1)] assms(7) h(1) obtain payload where pl: "(hit_id h, payload) \<in> view x (kb_collection b)"
      "\<And>key s. (key, JStr s) \<in> set (base_filter b) \<Longrightarrow> json_get payload key = Some (JStr s)"
      "\<And>s. t = Some s \<Longrightarrow> s \<le> hit_score h"
    by (rule search_filtered) (rule that; blast)
  have "json_get payload ''knowledge_base_id'' = Some (JStr (uuid_str (kb_id b)))"
    by (rule pl(2)) (simp add: base_filter_def)
  with passage_of_within [OF assms(2-5) h(2) pl(1)] assms(6) have "passage_within (kb_tenant b) ids k p" by blast
  moreover have "pa_score p = hit_score h" using h(2) by (auto simp: passage_of_def split: option.splits)
  ultimately show ?thesis using pl(3) by simp
qed

lemma search_bases_within:
  assumes "quiet view env" "corpus_ok view k x" "kn_next k \<le> 16 ^ 32" "set bs \<subseteq> set (kn_bases k)"
    "\<forall>b \<in> set bs. kb_tenant b = tenant \<and> kb_id b \<in> set ids"
    "search_bases env bs q n t k x = (r, x1)"
  shows "fewer view x1 x \<and> (\<forall>ps p. r = Inr ps \<longrightarrow> p \<in> set ps \<longrightarrow>
    passage_within tenant ids k p \<and> (\<forall>s. t = Some s \<longrightarrow> s \<le> pa_score p))"
  using assms(2,4-6)
proof (induction bs arbitrary: x r x1)
  case (Cons b bs)
  have rest: "search_bases env bs q n t k y = (r0, y1) \<Longrightarrow> fewer view y x \<Longrightarrow> fewer view y1 x \<and> (\<forall>ps p. r0 = Inr ps \<longrightarrow> p \<in> set ps \<longrightarrow>
      passage_within tenant ids k p \<and> (\<forall>s. t = Some s \<longrightarrow> s \<le> pa_score p))" for y r0 y1
  proof -
    assume go: "search_bases env bs q n t k y = (r0, y1)" and y: "fewer view y x"
    have "set bs \<subseteq> set (kn_bases k)" "\<forall>b \<in> set bs. kb_tenant b = tenant \<and> kb_id b \<in> set ids"
      using Cons.prems(2,3) by simp_all
    from Cons.IH [OF corpus_fewer [OF Cons.prems(1) y] this go] fewer_trans [OF _ y] show ?thesis by blast
  qed
  show ?case
  proof (cases "kb_enabled b")
    case False
    with Cons.prems(4) show ?thesis using rest [of x r x1] by simp
  next
    case True
    obtain e y where e: "kv_embed env [q] (kb_model b) x = (e, y)" by fastforce
    have y: "fewer view y x" using embed_fewer [OF assms(1) e] .
    show ?thesis
    proof (cases "\<exists>v vs. e = Inr (v # vs)")
      case no: False
      then consider s where "e = Inl s" | "e = Inr []" by (metis list.exhaust sum.exhaust)
      then show ?thesis
      proof cases
        case 1
        with True e Cons.prems(4) y show ?thesis by auto
      next
        case 2
        with True e Cons.prems(4) rest [of y r x1] y show ?thesis by simp
      qed
    next
      case yes: True
      then obtain v vs where v: "e = Inr (v # vs)" by blast
      obtain s z where s: "store_search (kv_vectors env) (kb_collection b) v n t (base_filter b) y = (s, z)" by fastforce
      have z: "fewer view z x" using search_fewer [OF assms(1) s] y by (rule fewer_trans)
      show ?thesis
      proof (cases s)
        case (Inl m)
        with True e v s Cons.prems(4) z show ?thesis by auto
      next
        case (Inr hits)
        obtain r0 z1 where r0: "search_bases env bs q n t k z = (r0, z1)" by fastforce
        have mine: "passage_within tenant ids k p \<and> (\<forall>s. t = Some s \<longrightarrow> s \<le> pa_score p)"
          if "p \<in> set (List.map_filter (passage_of b k) hits)" for p
          using base_hits_within [OF assms(1) corpus_fewer [OF Cons.prems(1) y] assms(3) _ True _ s [unfolded Inr] that]
            Cons.prems(2,3) by auto
        from True e v s Inr r0 Cons.prems(4)
        have "x1 = z1 \<and> r = (case r0 of Inl m \<Rightarrow> Inl m | Inr others \<Rightarrow> Inr (List.map_filter (passage_of b k) hits @ others))"
          by (auto split: sum.splits)
        with rest [OF r0 z] mine show ?thesis by (auto split: sum.splits)
      qed
    qed
  qed
qed auto

section \<open>What a run is given\<close>

lemma gather_parts:
  assumes "gather kenv menv tenant spec user end_user q k m x = (Inr r, x1)"
  obtains x0 where
    "re_passages r = [] \<or> search_knowledge kenv tenant (ag_bases spec) q k x = (Inr (re_passages r, re_bases r), x0)"
    "ag_bases spec = [] \<and> x0 = x \<or> (\<exists>ps. search_knowledge kenv tenant (ag_bases spec) q k x = (Inr ps, x0))"
    "re_memories r = [] \<or> recall_for_run menv tenant spec user end_user q m x0 = (Inr (re_memories r), x1)"
proof (cases "ag_bases spec = []")
  case True
  with assms show ?thesis
    by (intro that [of x])
       (auto simp: gather_def call_bind_def call_return_def Let_def split: sum.splits prod.splits if_splits)
next
  case False
  obtain s x0 where s: "search_knowledge kenv tenant (ag_bases spec) q k x = (s, x0)" by fastforce
  show ?thesis
  proof (cases s)
    case (Inl e)
    with s False assms show ?thesis by (simp add: gather_def call_bind_def)
  next
    case (Inr pn)
    with s False assms show ?thesis
      by (intro that [of x0])
         (auto simp: gather_def call_bind_def call_return_def Let_def split: sum.splits prod.splits if_splits)
  qed
qed

lemma search_knowledge_within:
  assumes "quiet view env" "corpus_ok view k x" "kn_next k \<le> 16 ^ 32"
    "search_knowledge env tenant base_ids q k x = (r, x1)"
  shows "fewer view x1 x \<and> (\<forall>ps names. r = Inr (ps, names) \<longrightarrow> ps \<noteq> [] \<longrightarrow>
    (\<exists>ids. parse_ids base_ids = Some ids \<and> length ps \<le> max_passages
      \<and> (\<forall>p \<in> set ps. passage_within tenant ids k p \<and> min_score \<le> pa_score p)))"
proof (cases "parse_ids base_ids")
  case None
  with assms(4) show ?thesis by (auto simp: search_knowledge_def)
next
  case (Some ids)
  let ?bs = "permitted_bases tenant (bases_by_ids ids k)"
  show ?thesis
  proof (cases "bases_by_ids ids k = [] \<or> ?bs = [] \<or> strip q = []")
    case True
    with Some assms(4) show ?thesis
      by (auto simp: search_knowledge_def knowledge_search_def Let_def split: if_splits)
  next
    case False
    obtain s y where s: "search_bases env ?bs q max_passages (Some min_score) k x = (s, y)" by fastforce
    have "set ?bs \<subseteq> set (kn_bases k)" "\<forall>b \<in> set ?bs. kb_tenant b = tenant \<and> kb_id b \<in> set ids"
      by (auto simp: permitted_bases_def bases_by_ids_def)
    from search_bases_within [OF assms(1-3) this s]
    have y: "fewer view y x" and in_s: "\<And>ps p. s = Inr ps \<Longrightarrow> p \<in> set ps \<Longrightarrow>
      passage_within tenant ids k p \<and> min_score \<le> pa_score p" by auto
    show ?thesis
    proof (cases s)
      case (Inl e)
      with s False Some assms(4) y show ?thesis by (auto simp: search_knowledge_def knowledge_search_def Let_def)
    next
      case (Inr found)
      with s False Some assms(4)
      have "r = Inr (take max_passages (sort_key (\<lambda>p. - pa_score p) found), map kb_name ?bs)" "x1 = y"
        by (auto simp: search_knowledge_def knowledge_search_def Let_def)
      with in_s [OF Inr] y Some show ?thesis by (auto dest: in_set_takeD)
    qed
  qed
qed

text \<open>
  C37. What an agent is given to answer from stays in its tenant.  In every state the platform can
  reach, by creating and deleting bases, uploading, ingesting and deleting documents, remembering
  and forgetting, each passage gathered for a run is the text of a chunk of a document of an
  enabled base of the tenant which the agent is configured with, it scores at least the floor of a
  quarter, and there are at most four.
\<close>
theorem retrieval_stays_in_tenant:
  assumes "corpus_reach view (k, m, x)" "quiet view kenv"
    "gather kenv menv tenant spec user end_user q k m x = (Inr r, x1)"
  shows "re_passages r = [] \<or> (\<exists>ids. parse_ids (ag_bases spec) = Some ids \<and> length (re_passages r) \<le> 4
    \<and> (\<forall>p \<in> set (re_passages r). passage_within tenant ids k p \<and> 1 / 4 \<le> pa_score p))"
proof -
  have inv: "corpus_ok view k x" "kn_next k \<le> 16 ^ 32"
    using reach_inv [OF assms(1)] by (simp_all add: corpus_inv_def drawn_ok_def)
  from assms(3) obtain x0 where "re_passages r = []
      \<or> search_knowledge kenv tenant (ag_bases spec) q k x = (Inr (re_passages r, re_bases r), x0)"
    by (rule gather_parts)
  with search_knowledge_within [OF assms(2) inv, of tenant "ag_bases spec" q] show ?thesis
    by (auto simp: max_passages_def min_score_def)
qed





end
