(* ===== verification/Retrieval_Sample.thy ===== *)
theory Retrieval_Sample
  imports Retrieval_Properties
begin

text \<open>
  A corpus of one base with one document, and what is remembered of two people, over the store of
  \<open>Vector_Store.shelf_store\<close>: the states its steps reach, and the properties of the knowledge and
  memory services at work there.
\<close>

text \<open>Identifiers stay folded while the steps are evaluated.\<close>

lemma uuid_str_eq [simp]: "n < 16 ^ 32 \<Longrightarrow> m < 16 ^ 32 \<Longrightarrow> uuid_str n = uuid_str m \<longleftrightarrow> n = m"
  using uuid_str_inj by blast

definition shelf_knowledge :: "shelf knowledge_env" where
  "shelf_knowledge =
     \<lparr>kv_now = 0, kv_sha = (\<lambda>s. s), kv_vectors = shelf_store,
      kv_embed = (\<lambda>ts m. call_return (map (\<lambda>_. [1]) ts)), kv_put = (\<lambda>k c t. call_return ()),
      kv_get = (\<lambda>k. call_return ''May''), kv_remove = (\<lambda>k. call_return ()), kv_ocr = None,
      kv_parse = (\<lambda>nm content t. Parsed \<lparr>ps_segments = [\<lparr>seg_text = content, seg_location = Some ''p1''\<rparr>],
                                         ps_needs_ocr = False, ps_warning = None\<rparr>)\<rparr>"

definition shelf_memory :: "shelf memory_env" where
  "shelf_memory =
     \<lparr>my_now = 5, my_vectors = shelf_store, my_embed = (\<lambda>ts. call_return (map (\<lambda>_. [1]) ts)),
      my_setex = (\<lambda>k t v. call_return ()), my_get = (\<lambda>k. call_return None), my_scan = (\<lambda>p. call_return []),
      my_remove = (\<lambda>k. call_return ()), my_dumps = (\<lambda>j. ''{}''), my_loads = (\<lambda>s. None),
      my_chat = (\<lambda>a b m. call_return ''A summary.'')\<rparr>"

lemma shelf_quiet: "quiet shelf_view shelf_knowledge" "quiet_memory shelf_view shelf_memory"
  by (simp_all add: quiet_def quiet_memory_def shelf_knowledge_def shelf_memory_def shelf_honest)

definition curator :: actor where
  "curator = \<lparr>actor_id = 1, actor_name = ''curator''\<rparr>"

definition plans_request :: base_request where
  "plans_request = \<lparr>br_name = ''plans'', br_display = ''Plans'', br_description = None, br_model = ''embed'',
     br_chunk_size = 30, br_overlap = 0, br_tenant = ''acme''\<rparr>"

definition plans_base :: knowledge_base where
  "plans_base = new_base plans_request 1 curator 0"

definition plans_created :: knowledge_db where
  "plans_created = knowledge_record KNOWLEDGE_BASE_CREATED curator ''knowledge_base'' 0
     (JObj [(''name'', JStr ''plans''), (''embedding_model'', JStr ''embed''), (''dimensions'', JInt 1),
            (''tenant_id'', JStr ''acme'')])
     (ensure_model ''embed'' 1 (empty_knowledge\<lparr>kn_bases := [plans_base], kn_next := 1\<rparr>))"

lemma plans_create:
  "create_base shelf_knowledge plans_request curator empty_knowledge ([], [])
     = ((Done (Inr plans_base), plans_created), ([collection_name 0], []))"
proof -
  have "base_name_ok ''plans''" by code_simp
  then show ?thesis
    by (simp add: create_base_def plans_request_def base_by_name_def empty_knowledge_def probe_dimensions_def
        shelf_knowledge_def call_return_def ensure_collection_def call_bind_def shelf_store_def collection_of_def
        new_base_def scope_keys_def plans_base_def plans_created_def Let_def)
qed

definition plans_document :: document where
  "plans_document = new_document shelf_knowledge 0 ''plan.txt'' ''text/plain'' ''May'' curator 1"

definition plans_uploaded :: knowledge_db where
  "plans_uploaded = knowledge_record DOCUMENT_UPLOADED curator ''document'' 1
     (JObj [(''knowledge_base'', JStr ''plans''), (''filename'', JStr ''plan.txt''), (''size_bytes'', JInt 3)])
     (plans_created\<lparr>kn_documents := [plans_document], kn_next := 2\<rparr>)"

lemma plans_rows:
  "kn_bases plans_created = [plans_base]" "kn_documents plans_created = []" "kn_chunks plans_created = []"
  "kn_next plans_created = 1" "kn_bases plans_uploaded = [plans_base]" "kn_documents plans_uploaded = [plans_document]"
  "kn_chunks plans_uploaded = []" "kn_next plans_uploaded = 2"
  by (simp_all add: plans_created_def plans_uploaded_def empty_knowledge_def)

lemma plans_upload:
  "accept_upload shelf_knowledge 0 ''plan.txt'' ''text/plain'' ''May'' curator plans_created ([collection_name 0], [])
     = ((Done (Inr plans_document), plans_uploaded), ([collection_name 0], []))"
  by (simp add: accept_upload_def get_base_def base_with_def plans_rows plans_base_def new_base_def plans_request_def
      find_duplicate_def plans_document_def new_document_def shelf_knowledge_def call_return_def plans_uploaded_def Let_def numeral_2_eq_2)

definition plans_chunk :: document_chunk where
  "plans_chunk = chunk_row 1 (\<lparr>ordinal = 0, chunk_text = ''May'', chunk_location = Some ''p1''\<rparr>, 2)"

definition plans_indexed :: document where
  "plans_indexed = plans_document\<lparr>doc_status := D_INDEXED, doc_characters := 3, doc_chunk_count := 1,
     doc_indexed_at := Some 0\<rparr>"

definition plans_ingested :: knowledge_db where
  "plans_ingested = plans_uploaded\<lparr>kn_documents := [plans_indexed], kn_chunks := [plans_chunk], kn_next := 3\<rparr>"

definition plans_shelf :: shelf where
  "plans_shelf = ([collection_name 0], [(collection_name 0, chunk_record plans_base plans_indexed (plans_chunk, [1]))])"

lemma plans_chunks:
  "chunk_segments [\<lparr>seg_text = ''May'', seg_location = Some ''p1''\<rparr>] 30 0
     = Some (Inr [\<lparr>ordinal = 0, chunk_text = ''May'', chunk_location = Some ''p1''\<rparr>])"
  by code_simp

lemma plans_fields:
  "kb_id plans_base = 0" "kb_chunk_size plans_base = 30" "kb_overlap plans_base = 0" "kb_enabled plans_base"
  "kb_collection plans_base = collection_name 0" "kb_tenant plans_base = ''acme''" "kb_name plans_base = ''plans''"
  "kb_model plans_base = ''embed''" "doc_id plans_document = 1" "doc_base plans_document = 0"
  "doc_status plans_document = D_UPLOADED" "doc_filename plans_document = ''plan.txt''"
  "doc_key plans_document = Some (storage_key_of 0 1 ''May'')" "doc_detail plans_document = None"
  by (simp_all add: plans_base_def new_base_def plans_request_def plans_document_def new_document_def shelf_knowledge_def)

lemma plans_tick:
  "tick shelf_knowledge [] plans_uploaded ([collection_name 0], []) = ((Done True, plans_ingested), plans_shelf)"
proof -
  have load: "load_content shelf_knowledge plans_document x = (Inr ''May'', x)" for x
    by (simp add: load_content_def plans_fields storage_key_of_def shelf_knowledge_def call_return_def)
  have ing: "ingest shelf_knowledge plans_base plans_document ''May'' plans_uploaded ([collection_name 0], [])
      = ((Done \<lparr>io_document = 1, io_status = D_INDEXED, io_chunks = 1, io_characters = 3, io_detail = None\<rparr>,
          plans_ingested), plans_shelf)"
    by (simp add: ingest_def ingest_text_def text_length_def plans_fields plans_chunks index_chunks_def
        finish_document_def embed_and_index_def ensure_collection_def call_bind_def call_return_def
        embed_batches.simps embed_batch_def store_upsert_def shelf_knowledge_def shelf_store_def collection_of_def
        put_document_def update_rows_def delete_chunks_def plans_rows plans_ingested_def plans_indexed_def
        plans_shelf_def plans_chunk_def chunk_row_def chunk_record_def chunk_payload_def Let_def)
  show ?thesis
    by (simp add: tick_def claim_next_pending_def plans_rows plans_fields base_with_def load ing)
qed

definition person :: "uuid \<Rightarrow> memory_scope" where
  "person u = \<lparr>ms_tenant = ''acme'', ms_user = Some u, ms_end = None, ms_agent = Some 9\<rparr>"

definition fact_entry :: "uuid \<Rightarrow> nat \<Rightarrow> string \<Rightarrow> memory_entry" where
  "fact_entry u n news = \<lparr>mem_id = n, mem_tenant = ''acme'', mem_user = Some u, mem_end = None, mem_agent = Some 9,
     mem_text = news, mem_kind = ''fact'', mem_conversation = None, mem_vector = Some (uuid_str (n + 1)),
     mem_importance = 1 / 2, mem_created = 5, mem_expires = None\<rparr>"

definition fact_point :: "uuid \<Rightarrow> nat \<Rightarrow> string \<Rightarrow> string \<times> vector_record" where
  "fact_point u n news = (memory_collection, \<lparr>vr_id = uuid_str (n + 1), vr_vector = [1],
     vr_payload = entry_payload (person u) ''fact'' news\<rparr>)"

definition told_once :: memory_db where
  "told_once = empty_memory\<lparr>mm_entries := [fact_entry 5 0 ''Off''], mm_next := 2\<rparr>"

definition told_twice :: memory_db where
  "told_twice = empty_memory\<lparr>mm_entries := [fact_entry 5 0 ''Off'', fact_entry 6 2 ''Tea''], mm_next := 4\<rparr>"

definition shelf_once :: shelf where
  "shelf_once = ([memory_collection, collection_name 0], snd plans_shelf @ [fact_point 5 0 ''Off''])"

definition shelf_twice :: shelf where
  "shelf_twice = ([memory_collection, collection_name 0],
     snd plans_shelf @ [fact_point 5 0 ''Off'', fact_point 6 2 ''Tea''])"

lemma stripped_news: "strip ''Off'' = ''Off''" "strip ''Tea'' = ''Tea''" "strip ''?'' = ''?''"
  by code_simp+

lemmas memory_steps = remember_def index_entry_def call_bind_def call_return_def ensure_collection_def
  store_upsert_def shelf_memory_def shelf_store_def person_def is_anonymous_def fact_entry_def fact_point_def
  empty_memory_def Let_def

lemma told_first:
  "remember shelf_memory (person 5) ''Off'' ''fact'' (1 / 2) None None empty_memory plans_shelf
     = ((Inr (Some (fact_entry 5 0 ''Off'')), told_once), shelf_once)"
  by (simp add: memory_steps stripped_news told_once_def shelf_once_def plans_shelf_def scope_keys_def)

lemma told_second:
  "remember shelf_memory (person 6) ''Tea'' ''fact'' (1 / 2) None None told_once shelf_once
     = ((Inr (Some (fact_entry 6 2 ''Tea'')), told_twice), shelf_twice)"
  by (simp add: memory_steps stripped_news told_once_def told_twice_def shelf_once_def shelf_twice_def plans_shelf_def)

section \<open>Reached\<close>

lemma plans_reached: "corpus_reach shelf_view (plans_ingested, told_twice, shelf_twice)"
  "corpus_reach shelf_view (plans_uploaded, empty_memory, ([collection_name 0], []))"
proof -
  note go = corpus_reach.step
  have "corpus_reach shelf_view (empty_knowledge, empty_memory, ([], []))"
    by (intro corpus_reach.start) (simp add: shelf_view_def fun_eq_iff)
  from go [OF this base_created [OF shelf_quiet(1) plans_create]]
  have "corpus_reach shelf_view (plans_created, empty_memory, ([collection_name 0], []))"
    by (simp add: drawn_ok_def plans_rows empty_memory_def)
  from go [OF this uploaded [OF shelf_quiet(1) plans_upload]]
  show up: "corpus_reach shelf_view (plans_uploaded, empty_memory, ([collection_name 0], []))"
    by (simp add: drawn_ok_def plans_rows empty_memory_def)
  from go [OF up worker [OF shelf_quiet(1) plans_tick]]
  have "corpus_reach shelf_view (plans_ingested, empty_memory, plans_shelf)"
    by (simp add: drawn_ok_def plans_ingested_def empty_memory_def)
  from go [OF this remembered [OF shelf_quiet(2) _ told_first]]
  have "corpus_reach shelf_view (plans_ingested, told_once, shelf_once)"
    by (simp add: drawn_ok_def plans_ingested_def told_once_def scope_ok_def person_def)
  from go [OF this remembered [OF shelf_quiet(2) _ told_second]]
  show "corpus_reach shelf_view (plans_ingested, told_twice, shelf_twice)"
    by (simp add: drawn_ok_def plans_ingested_def told_twice_def scope_ok_def person_def)
qed

section \<open>A run of the planner\<close>

definition planner :: agent_spec where
  "planner = \<lparr>ag_id = uuid_str 9, ag_version = 1, ag_name = ''planner'', ag_model = ''chat'', ag_prompt = [],
     ag_tools = [], ag_bases = [uuid_str 0], ag_memory = True, ag_max_iterations = 1, ag_temperature = 0\<rparr>"

lemma shelf_search:
  "store_search shelf_store c v n t fs x = (if c \<notin> set (fst x) then (Inr [], x)
     else case to_filter fs of Inl e \<Rightarrow> (Inl e, x) | Inr f \<Rightarrow> (Inr (take n (shelf_hits c t f x)), x))"
  by (simp add: store_search_def call_bind_def shelf_store_def call_return_def call_raise_def split: sum.splits)

lemma plans_hits:
  "to_filter (base_filter plans_base) = Inr (Some [(''tenant_id'', Match_Value (JStr ''acme'')),
     (''knowledge_base_id'', Match_Value (JStr (uuid_str 0)))])"
  "to_filter (vector_filters (person u)) = Inr (Some [(''tenant_id'', Match_Value (JStr ''acme'')),
     (''user_id'', Match_Value (JStr (uuid_str u))), (''agent_id'', Match_Value (JStr (uuid_str 9)))])"
  by (simp_all add: to_filter_def base_filter_def plans_fields vector_filters_def person_def uuid_json_def str_json_def)

definition plans_passage :: passage where
  "plans_passage = \<lparr>pa_text = ''May'', pa_score = 1, pa_document = 1, pa_name = ''plan.txt'', pa_base = ''plans'',
     pa_location = Some ''p1'', pa_ordinal = 0, pa_ocr = False\<rparr>"

lemma plans_found:
  "map (passage_of plans_base plans_ingested)
     (shelf_hits (collection_name 0) (Some (1 / 4)) (Some [(''tenant_id'', Match_Value (JStr ''acme'')),
       (''knowledge_base_id'', Match_Value (JStr (uuid_str 0)))]) shelf_twice) = [Some plans_passage]"
  by (simp add: shelf_hits_def shelf_twice_def plans_shelf_def fact_point_def passes_def satisfies_def chunk_record_def
      chunk_payload_def json_get_def plans_fields passage_of_def chunk_by_vector_def plans_ingested_def plans_chunk_def
      chunk_row_def document_with_def plans_indexed_def plans_passage_def plans_document_def new_document_def)

lemma planner_searches:
  "search_knowledge shelf_knowledge ''acme'' [uuid_str 0] ''?'' plans_ingested shelf_twice
     = (Inr ([plans_passage], [''plans'']), shelf_twice)"
proof -
  from plans_found obtain h where h: "shelf_hits (collection_name 0) (Some (1 / 4))
      (Some [(''tenant_id'', Match_Value (JStr ''acme'')), (''knowledge_base_id'', Match_Value (JStr (uuid_str 0)))])
      shelf_twice = [h]" "passage_of plans_base plans_ingested h = Some plans_passage"
    by auto
  have "store_search shelf_store (collection_name 0) [1] max_passages (Some min_score) (base_filter plans_base) shelf_twice
      = (Inr [h], shelf_twice)"
    using h(1) by (simp add: shelf_search plans_hits min_score_def max_passages_def) (simp add: shelf_twice_def)
  moreover have "kv_vectors shelf_knowledge = shelf_store" by (simp add: shelf_knowledge_def)
  moreover have "kv_embed shelf_knowledge [''?''] m y = (Inr [[1]], y)" for m y
    by (simp add: shelf_knowledge_def call_return_def)
  ultimately have "search_bases shelf_knowledge [plans_base] ''?'' max_passages (Some min_score) plans_ingested shelf_twice
      = (Inr [plans_passage], shelf_twice)"
    by (simp add: plans_fields h(2) List.map_filter_def)
  moreover have "bases_by_ids [0] plans_ingested = [plans_base]"
    by (simp add: bases_by_ids_def plans_ingested_def plans_rows plans_fields)
  ultimately show ?thesis
    by (simp add: search_knowledge_def parse_uuid_str permitted_bases_def plans_fields knowledge_search_def
        stripped_news max_passages_def)
qed

lemma planner_recalls:
  "recall shelf_memory (person 5) ''?'' max_memories recall_threshold told_twice shelf_twice
     = (Inr [\<lparr>rm_text = ''Off'', rm_kind = ''fact'', rm_score = 1, rm_created = 5, rm_memory = 0\<rparr>], shelf_twice)"
proof -
  have "map (recalled_of 5 told_twice) (shelf_hits memory_collection (Some (3 / 10))
      (Some [(''tenant_id'', Match_Value (JStr ''acme'')), (''user_id'', Match_Value (JStr (uuid_str 5))),
             (''agent_id'', Match_Value (JStr (uuid_str 9)))]) shelf_twice)
      = [Some \<lparr>rm_text = ''Off'', rm_kind = ''fact'', rm_score = 1, rm_created = 5, rm_memory = 0\<rparr>]"
    by (simp add: shelf_hits_def shelf_twice_def plans_shelf_def fact_point_def passes_def satisfies_def
        entry_payload_def json_get_def person_def uuid_json_def recalled_of_def entry_by_vector_def told_twice_def
        fact_entry_def expired_def)
  then obtain h where h: "shelf_hits memory_collection (Some (3 / 10))
      (Some [(''tenant_id'', Match_Value (JStr ''acme'')), (''user_id'', Match_Value (JStr (uuid_str 5))),
             (''agent_id'', Match_Value (JStr (uuid_str 9)))]) shelf_twice = [h]"
      "recalled_of 5 told_twice h
         = Some \<lparr>rm_text = ''Off'', rm_kind = ''fact'', rm_score = 1, rm_created = 5, rm_memory = 0\<rparr>"
    by auto
  have "memory_collection \<in> set (fst shelf_twice)" by (simp add: shelf_twice_def)
  with h show ?thesis
    by (simp add: recall_def stripped_news shelf_memory_def call_return_def shelf_search plans_hits
        max_memories_def recall_threshold_def List.map_filter_def)
qed

definition planner_given :: retrieved where
  "planner_given =
     (let r = \<lparr>re_passages = [plans_passage],
               re_memories = [\<lparr>rm_text = ''Off'', rm_kind = ''fact'', rm_score = 1, rm_created = 5, rm_memory = 0\<rparr>],
               re_bases = [''plans''], re_block = None\<rparr>
      in r\<lparr>re_block := compose r\<rparr>)"

lemma planner_gathers:
  "gather shelf_knowledge shelf_memory ''acme'' planner (map_option uuid_str (Some 5)) None ''?'' plans_ingested
     told_twice shelf_twice = (Inr planner_given, shelf_twice)"
  by (simp add: gather_def planner_def planner_searches call_bind_def recall_for_run_def scope_uuid_def parse_uuid_str
      make_scope_def is_anonymous_def planner_recalls [unfolded person_def] call_return_def planner_given_def Let_def)

section \<open>The properties at work\<close>

theorem retrieval_stays_in_tenant_witness:
  "re_passages planner_given = [plans_passage]
   \<and> (\<exists>ids. parse_ids (ag_bases planner) = Some ids
      \<and> passage_within ''acme'' ids plans_ingested plans_passage \<and> 1 / 4 \<le> pa_score plans_passage)"
proof -
  have one: "re_passages planner_given = [plans_passage]" by (simp add: planner_given_def Let_def)
  with retrieval_stays_in_tenant [OF plans_reached(1) shelf_quiet(1) planner_gathers] show ?thesis by auto
qed




end
