(* ===== verification/Spec2Isabelle.thy ===== *)
theory Spec2Isabelle
  imports Chunking Deployment_Properties Agent_Properties Gateway_Properties Accounting_Properties
    Agent_Calls Registry_Properties Session_Properties Enrollment_Claims Host_Guard Fleet_Properties
    Retrieval_Sample
begin

text \<open>
  A verification development for the private AI platform (\<open>backend/app\<close>): the part of the
  backend that decides, shares and remembers.  Each theory models one component as it is
  written, operation by operation; each property below says what that component promises.

  \<^bold>\<open>Parts and theories\<close>

  \<^item> \<open>Platform_Prelude\<close>: identifiers, times, the error classes of \<open>core/errors.py\<close> as the left
    side of a sum, Python string operations, JSON values, tables as lists of rows
    (\<open>find_row\<close>, \<open>update_rows\<close>), and the outcome of a call that may raise or never return.
  \<^item> \<open>Permissions\<close>, \<open>Accounts\<close>: \<open>core/permissions.py\<close> and the users and roles of \<open>models/auth.py\<close>.
  \<^item> \<open>Audit_Trail\<close>: \<open>services/audit.py\<close>, redaction, and a request as a transaction.
  \<^item> \<open>Chunking\<close>: \<open>services/chunking.py\<close>.
  \<^item> \<open>Contracts\<close>, \<open>Gpu_Reservation\<close>, \<open>Scheduler\<close>, \<open>Nodes\<close>: the GPUs (\<open>services/infrastructure.py\<close>,
    \<open>services/scheduler.py\<close>).  \<open>gpu_claims\<close> is what the deployment service relies on, and is
    interpreted on the reservation table.
  \<^item> \<open>Model_Catalog\<close>, \<open>Compute_Interface\<close>, \<open>Compute_Backend\<close>: the tables of models and deployments,
    and the container backend behind \<open>core/interfaces/compute.py\<close>.  \<open>compute_contract\<close> is that
    interface with the laws its client uses, interpreted on the Docker backend.
  \<^item> \<open>Deployment\<close>, \<open>Deployment_Worker\<close>: \<open>services/deployment.py\<close> and \<open>workers/deployments.py\<close>.
    \<open>Deployment_Safety\<close> has the ownership invariant and its preservation, \<open>Deployment_Sample\<close> the
    concrete world the witnesses use, \<open>Deployment_Properties\<close> the properties.
  \<^item> \<open>Tool_Pipeline\<close>, \<open>Agent_Runtime\<close>, \<open>Agent_Registry\<close>, \<open>Agent_Runs\<close>: agents
    (\<open>services/tool_pipeline.py\<close>, \<open>agent_runtime.py\<close>, \<open>agent_registry.py\<close>, \<open>agent_runs.py\<close>).
    \<open>Agent_Safety\<close> proves what one stretch of a run does, \<open>Run_Invariant\<close> the invariant of the
    run database over every sequence of requests, \<open>Agent_Properties\<close> the properties.

  \<^item> \<open>Gateway\<close>, \<open>Rate_Limit\<close>, \<open>Api_Keys\<close>, \<open>Identity\<close>: the door of the AI gateway (\<open>services/gateway.py\<close>,
    \<open>api_keys.py\<close>, \<open>identity.py\<close>): scopes, the limit over Redis (\<open>redis_laws\<close> is what it relies on),
    keys and clients, and forwarded identities.  \<open>Gateway_Properties\<close>, \<open>Key_Properties\<close>: its properties.
  \<^item> \<open>Llm_Provider\<close>, \<open>Inference\<close>, \<open>Usage_Reports\<close>: the OpenAI-protocol client (\<open>llm_provider.py\<close>), buffered
    and streamed calls, and the reports over usage records; \<open>Accounting_Properties\<close>.
  \<^item> \<open>Agent_Gateway\<close>, \<open>Agent_Calls\<close>: the OpenAI-compatible routes (\<open>api/v1/gateway.py\<close>) and agents behind
    them (\<open>agent_gateway.py\<close>).
  \<^item> \<open>Model_Registry\<close>, \<open>Registry_Properties\<close>: registration, import from disk and aliases
    (\<open>model_registry.py\<close>).
  \<^item> \<open>Auth_Providers\<close>, \<open>Sign_In\<close>, \<open>User_Admin\<close>: who vouches for a person, tokens and federation, the
    management of accounts and the seeder (\<open>auth_providers.py\<close>, \<open>auth.py\<close>, \<open>federation.py\<close>,
    \<open>core/security.py\<close>, \<open>user.py\<close>, \<open>seed.py\<close>).  \<open>Account_Invariant\<close> holds over every sequence of their
    operations; \<open>Sign_In_Properties\<close> and \<open>Session_Properties\<close> have the properties.
  \<^item> \<open>Agent_Url\<close>, \<open>Node_Agent\<close>, \<open>Node_Host\<close>, \<open>Host_Api\<close>: the two ends of the wire to a GPU host, the vetting of
    its address, the client and runtime of the control plane (\<open>node_agent_client.py\<close>,
    \<open>remote_runtime.py\<close>) and the agent's Docker runtime and HTTP API (\<open>node-agent/app\<close>).
    \<open>Host_Guard\<close> composes both ends.
  \<^item> \<open>Fleet\<close>, \<open>Node_Service\<close>, \<open>Enrollment\<close>: registration, synchronisation and self-enrolment of hosts
    (\<open>infrastructure.py\<close>, \<open>node_enrollment.py\<close>, \<open>workers/scheduler.py\<close>).  \<open>Fleet_Invariant\<close> and
    \<open>Enrollment_Properties\<close> have the invariants, \<open>Fleet_Properties\<close> and \<open>Enrollment_Claims\<close> the properties,
    over the world of \<open>Enrollment_Sample\<close>.
  \<^item> \<open>Vector_Store\<close>, \<open>Knowledge\<close>, \<open>Memory\<close>, \<open>Retrieval\<close>: documents and memories (\<open>vector_store.py\<close>,
    \<open>knowledge.py\<close>, \<open>workers/ingestion.py\<close>, \<open>memory.py\<close>, \<open>retrieval.py\<close>, \<open>repositories/knowledge.py\<close>).
    \<open>honest\<close> is what is relied on of Qdrant, \<open>quiet\<close> of the other services; \<open>shelf_store\<close> satisfies it.
    \<open>Knowledge_Invariant\<close> and \<open>Memory_Properties\<close> have the invariants, \<open>Retrieval_Properties\<close> the step
    relation over both and the properties, \<open>Retrieval_Sample\<close> the world of the witnesses.

  \<^bold>\<open>How the program's state appears\<close>

  A table is a list of rows in insertion order, a row a record with the columns as fields, a
  service call a function from the tables to a result: \<open>Inl\<close> is the raised error, \<open>Inr\<close> the value
  with the tables it leaves.  A request either commits or leaves the tables as they were.  Code
  outside the repository (container runtimes, model endpoints, executors, JSON parsing, clocks)
  is an argument.  Identifiers of new rows come from counters, which stands for uniqueness only.

  \<^bold>\<open>What the groups of lemmas show\<close>

  Deployments: GPUs are held exactly by unsettled deployments, in every reachable state and for
  every interleaving of requests and worker passes; requests are atomic; every worker step follows
  the documented lifecycle and two of them settle a deployment.  Scheduling is sound, least-loaded
  and complete.  Agents: a tool call is refused, held or run exactly by grant, permission, type
  and risk; the trace of a run is gapless and its last event names the run's state; no call at a
  level that needs consent succeeds without another person's approval.  Gateway: a call passes
  exactly with a live key within its scope and rate, acts for the identity that was verified, and
  leaves exactly one usage record, which the reports neither lose nor merge.  Accounts: they stay
  unique and sound under sign-ins and administration, a disabled one is out at once, and a
  directory grants mapped roles only.  Hosts: an invitation makes at most one node, only vetted
  addresses are contacted, and no container without the managed label is touched.  Knowledge and
  memory: the queue drains, passages stay in their tenant, memories with their person, and an
  erasure is complete.  Some theorems state defects of the code; they are listed as findings of
  the development.

  \<^bold>\<open>Bounds\<close>

  Loops that may not end are \<open>partial_function (option)\<close> or have a fuel that is the loop's own
  bound: the health wait ends at its deadline, the agent loop at \<open>max_iterations\<close> (a measure),
  the hard cut of the chunker by the length of the text, redaction at its depth cap, the batches
  of an embedding by the rows that are left.  The ingestion worker's endless loop is a given
  number of passes, and as many as documents wait are enough.  Identifiers are numbers below
  \<open>16\<^sup>3\<^sup>2\<close> where their text matters.

  \<^bold>\<open>Not modelled\<close>

  HTTP routers and schemas, metrics, tracing and log lines, the SQL dialect; the parsers of
  documents, the executors of tools, voice, the collectors behind the dashboards, the command
  line, migrations, the node agent's hardware probes, the mock inference server, the MCP servers,
  the release scripts and the frontends: input and output, glue, or code over libraries that are
  not part of the repository.  The rest of the agent registry (MCP servers, skills and the
  editing of tools) is left out too.  The manifest lists each with its reason.
\<close>

end
